(* ===== verification/Prelude.thy ===== *)
theory Prelude
  imports Complex_Main "HOL-Library.AList" "HOL-Library.Char_ord" "HOL-Library.List_Lexorder"
begin

text \<open>
  The vocabulary every component of the model shares.

  \<^item> Python values: a \<^verbatim>\<open>str\<close> is a \<open>string\<close> (the list of its UTF-8 bytes; case
    folding and white space are those of ASCII), a \<^verbatim>\<open>dict\<close> is an association list in
    insertion order (\<open>map_of\<close> reads, \<open>AList.update\<close> assigns, \<open>AList.delete\<close> pops, as Python
    does), and a JSON column or an untyped option is a value of \<open>json\<close>.
  \<^item> Python effects: an exception is a value of \<open>exn\<close> (its class name and its text), and an
    \<^verbatim>\<open>async\<close> method is a function from a state to a result and the next state
    (\<open>('s, 'a) action\<close>).
  \<^item> Proof support: \<open>keeps P m\<close> says that the action \<open>m\<close> preserves \<open>P\<close>, whether it returns
    or raises; the collection \<open>keeps_intro\<close> takes such goals apart along the code.
\<close>

section \<open>Collections used by the automation\<close>

named_theorems keeps_intro "how an invariant passes through the action combinators"
named_theorems act_simps "running the action combinators on a state"

section \<open>Python values\<close>

datatype json =
    JNull
  | JBool bool
  | JInt int
  | JFloat rat
  | JStr string
  | JList "json list"
  | JObj "(string \<times> json) list"

text \<open>Python's truth value of an object.\<close>

fun truthy :: "json \<Rightarrow> bool" where
  "truthy JNull = False"
| "truthy (JBool b) = b"
| "truthy (JInt i) = (i \<noteq> 0)"
| "truthy (JFloat r) = (r \<noteq> 0)"
| "truthy (JStr s) = (s \<noteq> [])"
| "truthy (JList xs) = (xs \<noteq> [])"
| "truthy (JObj kvs) = (kvs \<noteq> [])"

type_synonym dict = "(string \<times> json) list"

definition dict_get :: "('k \<times> 'v) list \<Rightarrow> 'k \<Rightarrow> 'v \<Rightarrow> 'v" where
  "dict_get d k dflt = (case map_of d k of None \<Rightarrow> dflt | Some v \<Rightarrow> v)"

text \<open>\<^verbatim>\<open>d.setdefault(k, v)\<close>: the value at \<open>k\<close> and the dict with \<open>k\<close> present.\<close>

definition dict_setdefault :: "('k \<times> 'v) list \<Rightarrow> 'k \<Rightarrow> 'v \<Rightarrow> 'v \<times> ('k \<times> 'v) list" where
  "dict_setdefault d k v =
     (case map_of d k of Some x \<Rightarrow> (x, d) | None \<Rightarrow> (v, AList.update k v d))"

text \<open>\<^verbatim>\<open>x or y\<close> on an optional string: the empty string counts as missing.\<close>

definition nonempty :: "string option \<Rightarrow> string option" where
  "nonempty x = (case x of Some (c # cs) \<Rightarrow> Some (c # cs) | _ \<Rightarrow> None)"

lemma nonempty_Some_iff: "nonempty x = Some s \<longleftrightarrow> x = Some s \<and> s \<noteq> []"
  by (auto simp: nonempty_def split: option.splits list.splits)

lemma nonempty_None_iff: "nonempty x = None \<longleftrightarrow> x = None \<or> x = Some []"
  by (auto simp: nonempty_def split: option.splits list.splits)

lemma map_of_update [simp]: "map_of (AList.update k v d) = (map_of d)(k \<mapsto> v)"
  by (simp add: update_conv')

lemma map_of_delete [simp]: "map_of (AList.delete k d) = (map_of d)(k := None)"
  by (simp add: delete_conv')

lemma dict_get_update [simp]:
  "dict_get (AList.update k v d) k' dflt = (if k = k' then v else dict_get d k' dflt)"
  by (simp add: dict_get_def)

lemma keys_update [simp]: "fst ` set (AList.update k v d) = insert k (fst ` set d)"
  by (simp add: dom_update)

section \<open>Python strings\<close>

definition is_space :: "char \<Rightarrow> bool" where
  "is_space c = (let n = of_char c :: nat in (9 \<le> n \<and> n \<le> 13) \<or> (28 \<le> n \<and> n \<le> 32))"

definition lower_char :: "char \<Rightarrow> char" where
  "lower_char c = (let n = of_char c :: nat in
     if 65 \<le> n \<and> n \<le> 90 then char_of (n + 32) else c)"

definition lower :: "string \<Rightarrow> string" where
  "lower s = map lower_char s"

definition upper_char :: "char \<Rightarrow> char" where
  "upper_char c = (let n = of_char c :: nat in
     if 97 \<le> n \<and> n \<le> 122 then char_of (n - 32) else c)"

definition upper :: "string \<Rightarrow> string" where
  "upper s = map upper_char s"

definition lstrip :: "string \<Rightarrow> string" where
  "lstrip s = dropWhile is_space s"

definition rstrip :: "string \<Rightarrow> string" where
  "rstrip s = rev (dropWhile is_space (rev s))"

definition strip :: "string \<Rightarrow> string" where
  "strip s = rstrip (lstrip s)"

definition starts_with :: "string \<Rightarrow> string \<Rightarrow> bool" where
  "starts_with p s = (take (length p) s = p)"

fun contains :: "string \<Rightarrow> string \<Rightarrow> bool" where
  "contains sub [] = (sub = [])"
| "contains sub (c # cs) = (starts_with sub (c # cs) \<or> contains sub cs)"

text \<open>\<^verbatim>\<open>s.split(sep)\<close> for a non-empty separator.\<close>

function split_acc :: "string \<Rightarrow> string \<Rightarrow> string \<Rightarrow> string list" where
  "split_acc sep acc [] = [rev acc]"
| "split_acc sep acc (c # cs) =
     (if sep \<noteq> [] \<and> starts_with sep (c # cs)
      then rev acc # split_acc sep [] (drop (length sep - 1) cs)
      else split_acc sep (c # acc) cs)"
  by pat_completeness auto
termination
  by (relation "measure (\<lambda>(sep, acc, s). length s)") auto

definition split_on :: "string \<Rightarrow> string \<Rightarrow> string list" where
  "split_on sep s = split_acc sep [] s"

text \<open>\<^verbatim>\<open>s.split()\<close>: fields between runs of white space.\<close>

fun words_acc :: "string \<Rightarrow> string \<Rightarrow> string list" where
  "words_acc acc [] = (if acc = [] then [] else [rev acc])"
| "words_acc acc (c # cs) =
     (if is_space c then (if acc = [] then words_acc [] cs else rev acc # words_acc [] cs)
      else words_acc (c # acc) cs)"

definition split_ws :: "string \<Rightarrow> string list" where
  "split_ws s = words_acc [] s"

text \<open>\<^verbatim>\<open>s.splitlines()\<close>, with the ASCII line boundaries.\<close>

definition is_linebreak :: "char \<Rightarrow> bool" where
  "is_linebreak c = (let n = of_char c :: nat in (10 \<le> n \<and> n \<le> 13) \<or> (28 \<le> n \<and> n \<le> 30))"

fun lines_acc :: "string \<Rightarrow> string \<Rightarrow> string list" where
  "lines_acc acc [] = (if acc = [] then [] else [rev acc])"
| "lines_acc acc (c # cs) =
     (if c = CHR 0x0D \<and> cs \<noteq> [] \<and> hd cs = CHR 0x0A then rev acc # lines_acc [] (tl cs)
      else if is_linebreak c then rev acc # lines_acc [] cs
      else lines_acc (c # acc) cs)"

definition splitlines :: "string \<Rightarrow> string list" where
  "splitlines s = lines_acc [] s"

fun join :: "string \<Rightarrow> string list \<Rightarrow> string" where
  "join sep [] = []"
| "join sep [x] = x"
| "join sep (x # y # ys) = x @ sep @ join sep (y # ys)"

definition replace_str :: "string \<Rightarrow> string \<Rightarrow> string \<Rightarrow> string" where
  "replace_str old new s = join new (split_on old s)"

definition digit :: "nat \<Rightarrow> char" where
  "digit n = char_of (48 + n)"

fun show_nat :: "nat \<Rightarrow> string" where
  "show_nat n = (if n < 10 then [digit n] else show_nat (n div 10) @ [digit (n mod 10)])"

declare show_nat.simps [simp del]

definition show_int :: "int \<Rightarrow> string" where
  "show_int i = (if i < 0 then CHR ''-'' # show_nat (nat (- i)) else show_nat (nat i))"

definition show_bool :: "bool \<Rightarrow> string" where
  "show_bool b = (if b then ''True'' else ''False'')"

text \<open>\<^verbatim>\<open>repr(s)\<close>, as the \<^verbatim>\<open>!r\<close> of the code's f-strings prints a string.\<close>

definition hex_digit :: "nat \<Rightarrow> char" where
  "hex_digit n = (if n < 10 then char_of (48 + n) else char_of (87 + n))"

definition repr_char :: "char \<Rightarrow> char \<Rightarrow> string" where
  "repr_char q c = (let n = of_char c :: nat in
     if c = q \<or> n = 92 then [CHR 0x5C, c]
     else if n = 10 then [CHR 0x5C, CHR ''n'']
     else if n = 13 then [CHR 0x5C, CHR ''r'']
     else if n = 9 then [CHR 0x5C, CHR ''t'']
     else if n < 32 \<or> n = 127
       then [CHR 0x5C, CHR ''x'', hex_digit (n div 16), hex_digit (n mod 16)]
     else [c])"

definition py_repr :: "string \<Rightarrow> string" where
  "py_repr s = (let q = (if CHR 0x27 \<in> set s \<and> CHR 0x22 \<notin> set s then CHR 0x22 else CHR 0x27)
     in [q] @ concat (map (repr_char q) s) @ [q])"

definition show_opt :: "string option \<Rightarrow> string" where
  "show_opt x = (case x of None \<Rightarrow> ''None'' | Some s \<Rightarrow> s)"

subsection \<open>Facts about the string functions\<close>

lemma lower_char_idem [simp]: "lower_char (lower_char c) = lower_char c"
  by (auto simp: lower_char_def Let_def)

lemma lower_idem [simp]: "lower (lower s) = lower s"
  by (simp add: lower_def)

lemma lower_append [simp]: "lower (s @ t) = lower s @ lower t"
  by (simp add: lower_def)

lemma lower_Nil_iff [simp]: "lower s = [] \<longleftrightarrow> s = []"
  by (simp add: lower_def)

lemma is_space_lower [simp]: "is_space (lower_char c) = is_space c"
  by (auto simp: lower_char_def is_space_def Let_def)

lemma lstrip_lower: "lstrip (lower s) = lower (lstrip s)"
  by (simp add: lstrip_def lower_def dropWhile_map comp_def)

lemma rstrip_lower: "rstrip (lower s) = lower (rstrip s)"
  by (simp add: rstrip_def lower_def rev_map dropWhile_map comp_def)

lemma strip_lower: "strip (lower s) = lower (strip s)"
  by (simp add: strip_def lstrip_lower rstrip_lower)

lemma rstrip_rstrip [simp]: "rstrip (rstrip s) = rstrip s"
  by (simp add: rstrip_def dropWhile_idem)

lemma dropWhile_Nil_or_hd: "dropWhile p xs = [] \<or> \<not> p (hd (dropWhile p xs))"
  by (metis hd_dropWhile)

lemma rstrip_snoc_space: "is_space c \<Longrightarrow> rstrip (s @ [c]) = rstrip s"
  by (simp add: rstrip_def)

lemma rstrip_snoc_nonspace: "\<not> is_space c \<Longrightarrow> rstrip (s @ [c]) = s @ [c]"
  by (simp add: rstrip_def)

lemma lstrip_rstrip: "lstrip (rstrip s) = rstrip (lstrip s)"
proof (induction s rule: rev_induct)
  case Nil
  show ?case by (simp add: lstrip_def rstrip_def)
next
  case (snoc c s)
  show ?case
  proof (cases "is_space c")
    case True
    then show ?thesis
      using snoc
      by (auto simp: rstrip_snoc_space lstrip_def dropWhile_append)
         (auto simp: rstrip_def dest: set_dropWhileD)
  next
    case False
    then show ?thesis
      by (auto simp: rstrip_snoc_nonspace lstrip_def dropWhile_append) (auto simp: rstrip_def)
  qed
qed

lemma strip_idem [simp]: "strip (strip s) = strip s"
  by (simp add: strip_def lstrip_rstrip) (simp add: lstrip_def dropWhile_idem)

lemma starts_with_iff: "starts_with p s \<longleftrightarrow> (\<exists>t. s = p @ t)"
  by (auto simp: starts_with_def) (metis append_take_drop_id)

lemma contains_iff: "contains sub s \<longleftrightarrow> (\<exists>u v. s = u @ sub @ v)"
proof (induction s)
  case Nil
  then show ?case by simp
next
  case (Cons c cs)
  then show ?case
    by (auto simp: starts_with_iff) (metis append_Cons append_Nil neq_Nil_conv list.inject)+
qed

lemma split_acc_not_Nil [simp]: "split_acc sep acc s \<noteq> []"
  by (induction sep acc s rule: split_acc.induct) auto

lemma join_Cons: "xs \<noteq> [] \<Longrightarrow> join sep (x # xs) = x @ sep @ join sep xs"
  by (cases xs) auto

lemma starts_with_drop:
  "sep \<noteq> [] \<Longrightarrow> starts_with sep (c # cs) \<Longrightarrow> sep @ drop (length sep - 1) cs = c # cs"
  by (cases sep) (auto simp: starts_with_iff)

lemma join_split_acc: "join sep (split_acc sep acc s) = rev acc @ s"
proof (induction sep acc s rule: split_acc.induct)
  case (1 sep acc)
  then show ?case by simp
next
  case (2 sep acc c cs)
  show ?case
  proof (cases "sep \<noteq> [] \<and> starts_with sep (c # cs)")
    case True
    then show ?thesis using "2.IH"(1) starts_with_drop [of sep c cs] by (simp add: join_Cons)
  next
    case False
    then show ?thesis using "2.IH"(2) by auto
  qed
qed

text \<open>Splitting and joining on the same separator is the identity.\<close>

lemma join_split_on: "join sep (split_on sep s) = s"
  by (simp add: split_on_def join_split_acc)

lemma split_on_not_Nil [simp]: "split_on sep s \<noteq> []"
  by (simp add: split_on_def)

lemma digit_inject: "m < 10 \<Longrightarrow> n < 10 \<Longrightarrow> digit m = digit n \<longleftrightarrow> m = n"
  by (simp add: digit_def char_of_eq_iff take_bit_eq_mod)

lemma show_nat_not_Nil [simp]: "show_nat n \<noteq> []"
  by (subst show_nat.simps) simp

lemma Nil_not_show_nat [simp]: "[] \<noteq> show_nat n"
  using show_nat_not_Nil [of n] by metis

lemma show_nat_inject_aux: "show_nat m = show_nat n \<Longrightarrow> m = n"
proof (induction m arbitrary: n rule: less_induct)
  case (less m)
  show ?case
  proof (cases "m < 10 \<or> n < 10")
    case True
    with less.prems show ?thesis
      by (auto simp: show_nat.simps [of m] show_nat.simps [of n] digit_inject split: if_splits)
  next
    case False
    with less.prems have eq: "show_nat (m div 10) = show_nat (n div 10)"
      and d: "digit (m mod 10) = digit (n mod 10)"
      by (auto simp: show_nat.simps [of m] show_nat.simps [of n])
    from False have "m div 10 < m" by simp
    with less.IH eq have "m div 10 = n div 10" by blast
    moreover from d have "m mod 10 = n mod 10" by (simp add: digit_inject)
    ultimately show ?thesis by (metis div_mult_mod_eq)
  qed
qed

text \<open>Decimal numerals of different numbers differ.\<close>

lemma show_nat_inject [simp]: "show_nat m = show_nat n \<longleftrightarrow> m = n"
  using show_nat_inject_aux by auto

subsection \<open>Splitting at a character\<close>

lemma starts_with_singleton: "starts_with [c] (d # ds) \<longleftrightarrow> c = d"
  by (auto simp: starts_with_def)

lemma split_acc_nomem: "c \<notin> set s \<Longrightarrow> split_acc [c] acc s = [rev acc @ s]"
  by (induction s arbitrary: acc) (auto simp: starts_with_singleton)

lemma split_acc_first:
  "c \<notin> set s \<Longrightarrow> split_acc [c] acc (s @ c # t) = (rev acc @ s) # split_acc [c] [] t"
  by (induction s arbitrary: acc) (auto simp: starts_with_singleton)

lemma split_on_nomem: "c \<notin> set s \<Longrightarrow> split_on [c] s = [s]"
  by (simp add: split_on_def split_acc_nomem)

lemma split_on_first: "c \<notin> set s \<Longrightarrow> split_on [c] (s @ c # t) = s # split_on [c] t"
  by (simp add: split_on_def split_acc_first)

lemma set_join: "set (join sep xs) \<subseteq> set sep \<union> \<Union> (set ` set xs)"
  by (induction sep xs rule: join.induct) auto

lemma join_not_Nil_first: "xs \<noteq> [] \<Longrightarrow> \<exists>t. join sep xs = hd xs @ t"
  by (cases "(sep, xs)" rule: join.cases) auto

lemma split_on_join:
  "\<forall>x \<in> set xs. c \<notin> set x \<Longrightarrow> xs \<noteq> [] \<Longrightarrow> split_on [c] (join [c] xs) = xs"
  by (induction "[c]" xs rule: join.induct) (auto simp: split_on_nomem split_on_first)

lemma replace_char: "replace_str [c] new s = concat (map (\<lambda>d. if d = c then new else [d]) s)"
proof -
  have "join new (split_acc [c] acc s) = rev acc @ concat (map (\<lambda>d. if d = c then new else [d]) s)" for acc
    by (induction s arbitrary: acc) (auto simp: starts_with_singleton join_Cons)
  then show ?thesis by (simp add: replace_str_def split_on_def)
qed

end
