(* ===== verification/Actions.thy ===== *)
theory Actions
  imports Prelude
begin

text \<open>
  Effects. A coroutine of the code runs against a state and either returns a value or raises.
  It is modelled as a function from the state to a sum (the exception, or the value) and the
  state it leaves, which keeps what was done before the exception: a Python exception does not
  undo anything.
\<close>

section \<open>Exceptions\<close>

text \<open>The class name and \<^verbatim>\<open>str(exc)\<close>, the two things the handlers of the code look at.\<close>

datatype exn = Exn (exn_class: string) (exn_text: string)

text \<open>\<^verbatim>\<open>f"{type(exc).__name__}: {exc}"\<close>\<close>

definition describe_exn :: "exn \<Rightarrow> string" where
  "describe_exn e = exn_class e @ '': '' @ exn_text e"

section \<open>Actions\<close>

type_synonym ('s, 'a) action = "'s \<Rightarrow> (exn + 'a) \<times> 's"

definition ret :: "'a \<Rightarrow> ('s, 'a) action" where
  "ret x = (\<lambda>s. (Inr x, s))"

definition raise :: "exn \<Rightarrow> ('s, 'a) action" where
  "raise e = (\<lambda>s. (Inl e, s))"

text \<open>\<open>bnd m f\<close>: run \<open>m\<close>, then \<open>f\<close> on its value; an exception of \<open>m\<close> skips \<open>f\<close>.\<close>

definition bnd :: "('s, 'a) action \<Rightarrow> ('a \<Rightarrow> ('s, 'b) action) \<Rightarrow> ('s, 'b) action" where
  "bnd m f = (\<lambda>s. case m s of (Inl e, s') \<Rightarrow> (Inl e, s') | (Inr x, s') \<Rightarrow> f x s')"

definition andthen :: "('s, 'a) action \<Rightarrow> ('s, 'b) action \<Rightarrow> ('s, 'b) action" where
  "andthen m k = bnd m (\<lambda>_. k)"

text \<open>\<open>tryc m h\<close>: \<^verbatim>\<open>try: m except Exception as exc: h(exc)\<close>.\<close>

definition tryc :: "('s, 'a) action \<Rightarrow> (exn \<Rightarrow> ('s, 'a) action) \<Rightarrow> ('s, 'a) action" where
  "tryc m h = (\<lambda>s. case m s of (Inl e, s') \<Rightarrow> h e s' | (Inr x, s') \<Rightarrow> (Inr x, s'))"

definition gets :: "('s \<Rightarrow> 'a) \<Rightarrow> ('s, 'a) action" where
  "gets f = (\<lambda>s. (Inr (f s), s))"

definition modify :: "('s \<Rightarrow> 's) \<Rightarrow> ('s, unit) action" where
  "modify f = (\<lambda>s. (Inr (), f s))"

text \<open>\<^verbatim>\<open>if c: m\<close>\<close>

definition provided :: "bool \<Rightarrow> ('s, unit) action \<Rightarrow> ('s, unit) action" where
  "provided c m = (if c then m else ret ())"

text \<open>\<^verbatim>\<open>for x in xs: f(x)\<close>, stopping at the first exception.\<close>

fun foreach :: "'a list \<Rightarrow> ('a \<Rightarrow> ('s, unit) action) \<Rightarrow> ('s, unit) action" where
  "foreach [] f = ret ()"
| "foreach (x # xs) f = andthen (f x) (foreach xs f)"

text \<open>Statements in a row.\<close>

fun steps :: "('s, unit) action list \<Rightarrow> ('s, unit) action" where
  "steps [] = ret ()"
| "steps (m # ms) = andthen m (steps ms)"

text \<open>\<^verbatim>\<open>[f(x) for x in xs]\<close> with an awaiting \<^verbatim>\<open>f\<close>.\<close>

fun collect :: "'a list \<Rightarrow> ('a \<Rightarrow> ('s, 'b) action) \<Rightarrow> ('s, 'b list) action" where
  "collect [] f = ret []"
| "collect (x # xs) f = bnd (f x) (\<lambda>y. bnd (collect xs f) (\<lambda>ys. ret (y # ys)))"

definition result :: "('s, 'a) action \<Rightarrow> 's \<Rightarrow> exn + 'a" where
  "result m s = fst (m s)"

definition final :: "('s, 'a) action \<Rightarrow> 's \<Rightarrow> 's" where
  "final m s = snd (m s)"

subsection \<open>Running an action\<close>

lemma run_ret [act_simps]: "ret x s = (Inr x, s)"
  by (simp add: ret_def)

lemma run_raise [act_simps]: "raise e s = (Inl e, s)"
  by (simp add: raise_def)

lemma run_gets [act_simps]: "gets f s = (Inr (f s), s)"
  by (simp add: gets_def)

lemma run_modify [act_simps]: "modify f s = (Inr (), f s)"
  by (simp add: modify_def)

lemma run_provided [act_simps]: "provided c m s = (if c then m s else (Inr (), s))"
  by (simp add: provided_def ret_def)

lemma bnd_Inr [act_simps]: "m s = (Inr x, s') \<Longrightarrow> bnd m f s = f x s'"
  by (simp add: bnd_def)

lemma bnd_Inl [act_simps]: "m s = (Inl e, s') \<Longrightarrow> bnd m f s = (Inl e, s')"
  by (simp add: bnd_def)

lemma andthen_Inr [act_simps]: "m s = (Inr x, s') \<Longrightarrow> andthen m k s = k s'"
  by (simp add: andthen_def bnd_def)

lemma andthen_Inl [act_simps]: "m s = (Inl e, s') \<Longrightarrow> andthen m k s = (Inl e, s')"
  by (simp add: andthen_def bnd_def)

lemma tryc_Inr [act_simps]: "m s = (Inr x, s') \<Longrightarrow> tryc m h s = (Inr x, s')"
  by (simp add: tryc_def)

lemma tryc_Inl [act_simps]: "m s = (Inl e, s') \<Longrightarrow> tryc m h s = h e s'"
  by (simp add: tryc_def)

lemma bnd_ret [simp]: "bnd (ret x) f = f x"
  by (simp add: bnd_def ret_def)

lemma bnd_assoc: "bnd (bnd m f) g = bnd m (\<lambda>x. bnd (f x) g)"
  by (auto simp: bnd_def fun_eq_iff split: prod.splits sum.splits)

lemma andthen_assoc: "andthen (andthen m k) l = andthen m (andthen k l)"
  by (simp add: andthen_def bnd_assoc)

lemma bnd_eq_InrE:
  assumes "bnd m f s = (Inr y, t)"
  obtains x s' where "m s = (Inr x, s')" and "f x s' = (Inr y, t)"
  using assms by (auto simp: bnd_def split: prod.splits sum.splits)

lemma andthen_eq_InrE:
  assumes "andthen m k s = (Inr y, t)"
  obtains x s' where "m s = (Inr x, s')" and "k s' = (Inr y, t)"
  using assms by (auto simp: andthen_def elim: bnd_eq_InrE)

lemma bnd_eq_InlE:
  assumes "bnd m f s = (Inl e, t)"
  obtains "m s = (Inl e, t)" | x s' where "m s = (Inr x, s')" and "f x s' = (Inl e, t)"
  using assms by (auto simp: bnd_def split: prod.splits sum.splits)

section \<open>Triples\<close>

text \<open>
  \<open>triple P m Q R\<close>: from a state with \<open>P\<close>, a return leaves \<open>Q\<close> of the value and the state,
  an exception leaves \<open>R\<close> of the exception and the state. Actions are total functions, so
  there is no case in which nothing is said.
\<close>

definition triple ::
  "('s \<Rightarrow> bool) \<Rightarrow> ('s, 'a) action \<Rightarrow> ('a \<Rightarrow> 's \<Rightarrow> bool) \<Rightarrow> (exn \<Rightarrow> 's \<Rightarrow> bool) \<Rightarrow> bool" where
  "triple P m Q R \<longleftrightarrow>
     (\<forall>s. P s \<longrightarrow> (case m s of (Inl e, t) \<Rightarrow> R e t | (Inr x, t) \<Rightarrow> Q x t))"

lemma tripleI:
  assumes "\<And>s x t. P s \<Longrightarrow> m s = (Inr x, t) \<Longrightarrow> Q x t"
    and "\<And>s e t. P s \<Longrightarrow> m s = (Inl e, t) \<Longrightarrow> R e t"
  shows "triple P m Q R"
  using assms by (auto simp: triple_def split: prod.splits sum.splits)

lemma tripleD_Inr: "triple P m Q R \<Longrightarrow> P s \<Longrightarrow> m s = (Inr x, t) \<Longrightarrow> Q x t"
  by (auto simp: triple_def split: prod.splits sum.splits)

lemma tripleD_Inl: "triple P m Q R \<Longrightarrow> P s \<Longrightarrow> m s = (Inl e, t) \<Longrightarrow> R e t"
  by (auto simp: triple_def split: prod.splits sum.splits)

lemma triple_bnd:
  assumes "triple P m Q R" and "\<And>x. triple (Q x) (f x) Q' R"
  shows "triple P (bnd m f) Q' R"
  by (rule tripleI)
     (auto simp: bnd_def split: prod.splits sum.splits
        dest: tripleD_Inr [OF assms(1)] tripleD_Inl [OF assms(1)]
              tripleD_Inr [OF assms(2)] tripleD_Inl [OF assms(2)])

lemma triple_andthen:
  assumes "triple P m (\<lambda>_. Q) R" and "triple Q k Q' R"
  shows "triple P (andthen m k) Q' R"
  using assms by (simp add: andthen_def triple_bnd)

lemma triple_tryc:
  assumes "triple P m Q R" and "\<And>e. triple (R e) (h e) Q R'"
  shows "triple P (tryc m h) Q R'"
  by (rule tripleI)
     (auto simp: tryc_def split: prod.splits sum.splits
        dest: tripleD_Inr [OF assms(1)] tripleD_Inl [OF assms(1)]
              tripleD_Inr [OF assms(2)] tripleD_Inl [OF assms(2)])

lemma triple_conseq:
  assumes "triple P m Q R" and "\<And>s. P' s \<Longrightarrow> P s"
    and "\<And>x s. Q x s \<Longrightarrow> Q' x s" and "\<And>e s. R e s \<Longrightarrow> R' e s"
  shows "triple P' m Q' R'"
  by (rule tripleI)
     (auto intro: assms(2,3,4) dest: assms(2) tripleD_Inr [OF assms(1)] tripleD_Inl [OF assms(1)])

lemma triple_foreach:
  assumes "\<And>x. x \<in> set xs \<Longrightarrow> triple I (f x) (\<lambda>_. I) R"
  shows "triple I (foreach xs f) (\<lambda>_. I) R"
  using assms
proof (induction xs)
  case Nil
  show ?case by (simp add: triple_def ret_def)
next
  case (Cons x xs)
  then show ?case by (auto intro!: triple_andthen)
qed

section \<open>Invariants of actions\<close>

definition keeps :: "('s \<Rightarrow> bool) \<Rightarrow> ('s, 'a) action \<Rightarrow> bool" where
  "keeps P m \<longleftrightarrow> (\<forall>s. P s \<longrightarrow> P (final m s))"

lemma keepsI: "(\<And>s. P s \<Longrightarrow> P (final m s)) \<Longrightarrow> keeps P m"
  by (simp add: keeps_def)

lemma keepsD: "keeps P m \<Longrightarrow> P s \<Longrightarrow> P (final m s)"
  by (simp add: keeps_def)

lemma keeps_runD: "keeps P m \<Longrightarrow> P s \<Longrightarrow> m s = (r, t) \<Longrightarrow> P t"
  by (auto simp: keeps_def final_def dest: spec [where x = s])

lemma keeps_iff_triple: "keeps P m \<longleftrightarrow> triple P m (\<lambda>_. P) (\<lambda>_. P)"
  by (auto simp: keeps_def triple_def final_def split: prod.splits sum.splits)
     (metis old.sum.exhaust snd_conv surj_pair)+

lemma keeps_ret [keeps_intro]: "keeps P (ret x)"
  by (simp add: keeps_def final_def ret_def)

lemma keeps_raise [keeps_intro]: "keeps P (raise e)"
  by (simp add: keeps_def final_def raise_def)

lemma keeps_gets [keeps_intro]: "keeps P (gets f)"
  by (simp add: keeps_def final_def gets_def)

lemma keeps_modify: "(\<And>s. P s \<Longrightarrow> P (f s)) \<Longrightarrow> keeps P (modify f)"
  by (simp add: keeps_def final_def modify_def)

lemma keeps_bnd [keeps_intro]: "keeps P m \<Longrightarrow> (\<And>x. keeps P (f x)) \<Longrightarrow> keeps P (bnd m f)"
  by (auto simp: keeps_iff_triple intro: triple_bnd)

lemma keeps_andthen [keeps_intro]: "keeps P m \<Longrightarrow> keeps P k \<Longrightarrow> keeps P (andthen m k)"
  by (simp add: andthen_def keeps_bnd)

lemma keeps_tryc [keeps_intro]: "keeps P m \<Longrightarrow> (\<And>e. keeps P (h e)) \<Longrightarrow> keeps P (tryc m h)"
  by (auto simp: keeps_iff_triple intro: triple_tryc)

lemma keeps_provided [keeps_intro]: "(c \<Longrightarrow> keeps P m) \<Longrightarrow> keeps P (provided c m)"
  by (simp add: provided_def keeps_ret)

lemma keeps_if [keeps_intro]: "(c \<Longrightarrow> keeps P m) \<Longrightarrow> (\<not> c \<Longrightarrow> keeps P k) \<Longrightarrow> keeps P (if c then m else k)"
  by simp

lemma keeps_case_option [keeps_intro]:
  "(x = None \<Longrightarrow> keeps P m) \<Longrightarrow> (\<And>y. x = Some y \<Longrightarrow> keeps P (f y)) \<Longrightarrow>
   keeps P (case x of None \<Rightarrow> m | Some y \<Rightarrow> f y)"
  by (cases x) auto

lemma keeps_case_sum [keeps_intro]:
  "(\<And>e. x = Inl e \<Longrightarrow> keeps P (f e)) \<Longrightarrow> (\<And>y. x = Inr y \<Longrightarrow> keeps P (g y)) \<Longrightarrow>
   keeps P (case x of Inl e \<Rightarrow> f e | Inr y \<Rightarrow> g y)"
  by (cases x) auto

lemma keeps_case_list [keeps_intro]:
  "(x = [] \<Longrightarrow> keeps P m) \<Longrightarrow> (\<And>y ys. x = y # ys \<Longrightarrow> keeps P (f y ys)) \<Longrightarrow>
   keeps P (case x of [] \<Rightarrow> m | y # ys \<Rightarrow> f y ys)"
  by (cases x) auto

lemma keeps_case_prod [keeps_intro]:
  "(\<And>y z. x = (y, z) \<Longrightarrow> keeps P (f y z)) \<Longrightarrow> keeps P (case x of (y, z) \<Rightarrow> f y z)"
  by (cases x) auto

lemma keeps_let [keeps_intro]: "(\<And>y. y = x \<Longrightarrow> keeps P (f y)) \<Longrightarrow> keeps P (Let x f)"
  by simp

lemma keeps_foreach [keeps_intro]:
  "(\<And>x. x \<in> set xs \<Longrightarrow> keeps P (f x)) \<Longrightarrow> keeps P (foreach xs f)"
  by (induction xs) (auto intro: keeps_intro)

lemma keeps_steps_Nil [keeps_intro]: "keeps P (steps [])"
  by (simp add: keeps_ret)

lemma keeps_steps_Cons [keeps_intro]:
  "keeps P m \<Longrightarrow> keeps P (steps ms) \<Longrightarrow> keeps P (steps (m # ms))"
  by (simp add: keeps_andthen)

lemma keeps_collect [keeps_intro]:
  "(\<And>x. x \<in> set xs \<Longrightarrow> keeps P (f x)) \<Longrightarrow> keeps P (collect xs f)"
  by (induction xs) (auto intro: keeps_intro)

lemma keeps_conj: "keeps P m \<Longrightarrow> keeps Q m \<Longrightarrow> keeps (\<lambda>s. P s \<and> Q s) m"
  by (simp add: keeps_def)

section \<open>Actions that always return\<close>

text \<open>\<open>never_raises m\<close>: the best-effort parts of the code, which swallow every exception.\<close>

definition never_raises :: "('s, 'a) action \<Rightarrow> bool" where
  "never_raises m \<longleftrightarrow> (\<forall>s. \<exists>x. result m s = Inr x)"

named_theorems quiet_intro "actions that cannot raise"

lemma never_raisesD: "never_raises m \<Longrightarrow> m s \<noteq> (Inl e, t)"
  by (auto simp: never_raises_def result_def) (metis Inr_not_Inl fst_conv)

lemma never_raises_obtain:
  assumes "never_raises m"
  obtains x t where "m s = (Inr x, t)"
  using assms by (auto simp: never_raises_def result_def) (metis prod.collapse)

lemma quiet_ret [quiet_intro]: "never_raises (ret x)"
  by (simp add: never_raises_def result_def ret_def)

lemma quiet_gets [quiet_intro]: "never_raises (gets f)"
  by (simp add: never_raises_def result_def gets_def)

lemma quiet_modify [quiet_intro]: "never_raises (modify f)"
  by (simp add: never_raises_def result_def modify_def)

lemma quiet_bnd [quiet_intro]:
  assumes "never_raises m" and "\<And>x. never_raises (f x)"
  shows "never_raises (bnd m f)"
  unfolding never_raises_def
proof
  fix s
  obtain x t where "m s = (Inr x, t)" using assms(1) by (rule never_raises_obtain)
  then show "\<exists>y. result (bnd m f) s = Inr y"
    using assms(2) [of x] by (simp add: never_raises_def result_def bnd_def)
qed

lemma quiet_andthen [quiet_intro]:
  "never_raises m \<Longrightarrow> never_raises k \<Longrightarrow> never_raises (andthen m k)"
  by (simp add: andthen_def quiet_bnd)

lemma quiet_tryc [quiet_intro]: "(\<And>e. never_raises (h e)) \<Longrightarrow> never_raises (tryc m h)"
  by (auto simp: never_raises_def result_def tryc_def split: prod.splits sum.splits)

lemma quiet_provided [quiet_intro]: "(c \<Longrightarrow> never_raises m) \<Longrightarrow> never_raises (provided c m)"
  by (simp add: provided_def quiet_ret)

lemma quiet_if [quiet_intro]:
  "(c \<Longrightarrow> never_raises m) \<Longrightarrow> (\<not> c \<Longrightarrow> never_raises k) \<Longrightarrow> never_raises (if c then m else k)"
  by simp

lemma quiet_foreach [quiet_intro]:
  "(\<And>x. x \<in> set xs \<Longrightarrow> never_raises (f x)) \<Longrightarrow> never_raises (foreach xs f)"
  by (induction xs) (auto intro: quiet_intro)

section \<open>The state an action leaves\<close>

lemma final_andthen_quiet: "never_raises m \<Longrightarrow> final (andthen m k) s = final k (final m s)"
  by (erule never_raises_obtain [of m s]) (simp add: final_def andthen_def bnd_def)

lemma final_discard [simp]: "final (bnd m (\<lambda>_. ret x)) s = final m s"
  by (auto simp: final_def bnd_def ret_def split: prod.splits sum.splits)

lemma final_tryc_cases:
  "final (tryc m h) s = final m s \<or> (\<exists>e. final (tryc m h) s = final (h e) (final m s))"
  by (auto simp: final_def tryc_def split: prod.splits sum.splits)

section \<open>Running an action on a concrete state\<close>

text \<open>
  Rules that run an action by simplification alone, call by value. The congruences keep the
  simplifier out of the continuations that are not reached yet.
\<close>

fun resume :: "(exn + 'a) \<times> 's \<Rightarrow> ('a \<Rightarrow> ('s, 'b) action) \<Rightarrow> (exn + 'b) \<times> 's" where
  "resume (Inl e, s) f = (Inl e, s)"
| "resume (Inr x, s) f = f x s"

fun recover :: "(exn + 'a) \<times> 's \<Rightarrow> (exn \<Rightarrow> ('s, 'a) action) \<Rightarrow> (exn + 'a) \<times> 's" where
  "recover (Inl e, s) h = h e s"
| "recover (Inr x, s) h = (Inr x, s)"

lemma run_bnd: "bnd m f s = resume (m s) f"
  by (cases "m s"; cases "fst (m s)") (simp_all add: bnd_def)

lemma run_andthen: "andthen m k s = resume (m s) (\<lambda>_. k)"
  by (simp add: andthen_def run_bnd)

lemma run_tryc: "tryc m h s = recover (m s) h"
  by (cases "m s"; cases "fst (m s)") (simp_all add: tryc_def)

lemma run_steps:
  "steps [] s = (Inr (), s)"
  "steps (m # ms) s = resume (m s) (\<lambda>_. steps ms)"
  by (simp_all add: ret_def run_andthen)

lemma run_foreach:
  "foreach [] f s = (Inr (), s)"
  "foreach (x # xs) f s = resume (f x s) (\<lambda>_. foreach xs f)"
  by (simp_all add: ret_def run_andthen)

lemmas run_rules = run_bnd run_andthen run_tryc run_steps run_foreach run_ret run_raise run_gets
  run_modify run_provided

lemma run_cong:
  "bnd m f = bnd m f" "andthen m k = andthen m k" "tryc m h = tryc m h" "steps ms = steps ms"
  "modify g = modify g" "gets p = gets p"
  "xs = ys \<Longrightarrow> foreach xs j = foreach ys j" "c = d \<Longrightarrow> provided c l = provided d l"
  "x = y \<Longrightarrow> resume x f' = resume y f'" "u = v \<Longrightarrow> recover u h' = recover v h'"
  by simp_all

end
