(* ===== verification/Py_Numbers.thy ===== *)
theory Py_Numbers
  imports Actions "HOL-Library.Log_Nat"
begin

text \<open>
  The conversions to numbers the code uses: \<^verbatim>\<open>int(x)\<close> and \<^verbatim>\<open>float(x)\<close> on the values a
  request or an option can hold, with the errors Python raises, and \<^verbatim>\<open>_to_bytes\<close> of
  \<^verbatim>\<open>flasharray/client.py\<close>, the one place where a human size becomes a number of bytes.

  A Python float is an IEEE double: \<open>round_double\<close> rounds a rational to the nearest one,
  ties to even, with gradual underflow and overflow to infinity.
\<close>

section \<open>Computations that may fail but have no state\<close>

definition ebind :: "'e + 'a \<Rightarrow> ('a \<Rightarrow> 'e + 'b) \<Rightarrow> 'e + 'b" where
  "ebind r f = (case r of Inl e \<Rightarrow> Inl e | Inr x \<Rightarrow> f x)"

fun emap :: "('a \<Rightarrow> 'e + 'b) \<Rightarrow> 'a list \<Rightarrow> 'e + 'b list" where
  "emap f [] = Inr []"
| "emap f (x # xs) = ebind (f x) (\<lambda>y. ebind (emap f xs) (\<lambda>ys. Inr (y # ys)))"

text \<open>Such a computation inside an action.\<close>

definition lift_sum :: "exn + 'a \<Rightarrow> ('s, 'a) action" where
  "lift_sum r = (case r of Inl e \<Rightarrow> raise e | Inr x \<Rightarrow> ret x)"

lemma ebind_Inr [simp]: "ebind (Inr x) f = f x"
  by (simp add: ebind_def)

lemma ebind_Inl [simp]: "ebind (Inl e) f = Inl e"
  by (simp add: ebind_def)

lemma emap_map_Inr: "(\<And>x. f (g x) = Inr x) \<Longrightarrow> emap f (map g xs) = Inr xs"
  by (induction xs) auto

lemma keeps_lift_sum [keeps_intro]: "keeps P (lift_sum r)"
  by (cases r) (auto simp: lift_sum_def intro: keeps_intro)

lemma run_lift_sum [act_simps]:
  "lift_sum (Inr x) s = (Inr x, s)" "lift_sum (Inl e) s = (Inl e, s)"
  by (simp_all add: lift_sum_def run_ret run_raise)

definition unmodelled :: "exn + 'a" where
  "unmodelled = Inl (Exn ''Unmodelled'' [])"

section \<open>Numerals\<close>

definition is_digit :: "char \<Rightarrow> bool" where
  "is_digit c = (let n = of_char c :: nat in 48 \<le> n \<and> n \<le> 57)"

definition digit_value :: "char \<Rightarrow> nat" where
  "digit_value c = of_char c - 48"

text \<open>Python allows one underscore between two digits of a numeral.\<close>

fun drop_underscores :: "bool \<Rightarrow> string \<Rightarrow> string option" where
  "drop_underscores prev [] = Some []"
| "drop_underscores prev (c # cs) =
     (if c = CHR ''_'' then
        (if prev \<and> cs \<noteq> [] \<and> is_digit (hd cs) then drop_underscores False cs else None)
      else map_option (Cons c) (drop_underscores (is_digit c) cs))"

fun digits_value :: "nat \<Rightarrow> string \<Rightarrow> nat" where
  "digits_value acc [] = acc"
| "digits_value acc (c # cs) = digits_value (10 * acc + digit_value c) cs"

definition parse_nat :: "string \<Rightarrow> nat option" where
  "parse_nat s = (if s \<noteq> [] \<and> list_all is_digit s then Some (digits_value 0 s) else None)"

text \<open>An optional sign: the flag says whether the number is negative.\<close>

definition parse_sign :: "string \<Rightarrow> bool \<times> string" where
  "parse_sign s = (case s of [] \<Rightarrow> (False, [])
     | c # cs \<Rightarrow> if c = CHR ''-'' then (True, cs)
                 else if c = CHR ''+'' then (False, cs) else (False, s))"

definition parse_int :: "string \<Rightarrow> int option" where
  "parse_int s =
     (case drop_underscores False (strip s) of
        None \<Rightarrow> None
      | Some t \<Rightarrow> (case parse_sign t of (neg, u) \<Rightarrow>
          map_option (\<lambda>n. if neg then - int n else int n) (parse_nat u)))"

definition int_of_str :: "string \<Rightarrow> exn + int" where
  "int_of_str s = (case parse_int s of Some i \<Rightarrow> Inr i
     | None \<Rightarrow> Inl (Exn ''ValueError'' (''invalid literal for int() with base 10: '' @ py_repr s)))"

section \<open>Doubles\<close>

datatype pyfloat = Fin rat | Infinite bool | NaN

definition pow2 :: "int \<Rightarrow> rat" where
  "pow2 e = (if 0 \<le> e then 2 ^ nat e else 1 / 2 ^ nat (- e))"

text \<open>The nearest integer, the even one in a tie.\<close>

definition round_even :: "rat \<Rightarrow> int" where
  "round_even q = (let f = \<lfloor>q\<rfloor>; d = q - of_int f in
     if d < 1 / 2 then f else if 1 / 2 < d then f + 1 else if even f then f else f + 1)"

text \<open>The exponent \<open>e\<close> with \<open>2 ^ e \<le> q < 2 ^ (e + 1)\<close>, for a positive \<open>q\<close>.\<close>

definition log2_floor :: "rat \<Rightarrow> int" where
  "log2_floor q = (case quotient_of q of (n, d) \<Rightarrow>
     let e = bitlen n - bitlen d in if pow2 e \<le> q then e else e - 1)"

definition round_double :: "rat \<Rightarrow> pyfloat" where
  "round_double q =
     (if q = 0 then Fin 0 else
      let a = \<bar>q\<bar>; u = max (log2_floor a - 52) (- 1074);
          r = of_int (round_even (a / pow2 u)) * pow2 u
      in if 2 ^ 1024 \<le> r then Infinite (q < 0) else Fin (if q < 0 then - r else r))"

definition split_at :: "(char \<Rightarrow> bool) \<Rightarrow> string \<Rightarrow> string \<times> string option" where
  "split_at p s = (takeWhile (\<lambda>c. \<not> p c) s,
     (case dropWhile (\<lambda>c. \<not> p c) s of [] \<Rightarrow> None | _ # t \<Rightarrow> Some t))"

text \<open>The exact value of an unsigned decimal numeral such as \<open>1.5e3\<close>.\<close>

definition parse_decimal :: "string \<Rightarrow> rat option" where
  "parse_decimal s =
     (let (m, ex) = split_at (\<lambda>c. c = CHR ''e'' \<or> c = CHR ''E'') s;
          (ip, fp) = split_at (\<lambda>c. c = CHR ''.'') m;
          frac = (case fp of None \<Rightarrow> [] | Some f \<Rightarrow> f)
      in if ip @ frac = [] \<or> \<not> list_all is_digit (ip @ frac) then None
         else let v = of_nat (digits_value 0 (ip @ frac)) / 10 ^ length frac in
           (case ex of None \<Rightarrow> Some v
            | Some e \<Rightarrow> (case parse_sign e of (neg, u) \<Rightarrow>
                (case parse_nat u of None \<Rightarrow> None
                 | Some k \<Rightarrow> Some (if neg then v / 10 ^ k else v * 10 ^ k)))))"

definition parse_float :: "string \<Rightarrow> pyfloat option" where
  "parse_float s =
     (case drop_underscores False (strip s) of
        None \<Rightarrow> None
      | Some t \<Rightarrow> (case parse_sign t of (neg, u) \<Rightarrow>
          if lower u = ''inf'' \<or> lower u = ''infinity'' then Some (Infinite neg)
          else if lower u = ''nan'' then Some NaN
          else map_option (\<lambda>q. round_double (if neg then - q else q)) (parse_decimal u)))"

definition float_of_str :: "string \<Rightarrow> exn + pyfloat" where
  "float_of_str s = (case parse_float s of Some f \<Rightarrow> Inr f
     | None \<Rightarrow> Inl (Exn ''ValueError'' (''could not convert string to float: '' @ py_repr s)))"

text \<open>\<^verbatim>\<open>int(f)\<close> of a float: truncation towards zero.\<close>

definition trunc_rat :: "rat \<Rightarrow> int" where
  "trunc_rat q = (if 0 \<le> q then \<lfloor>q\<rfloor> else - \<lfloor>- q\<rfloor>)"

definition int_of_float :: "pyfloat \<Rightarrow> exn + int" where
  "int_of_float f = (case f of
      Fin q \<Rightarrow> Inr (trunc_rat q)
    | Infinite _ \<Rightarrow> Inl (Exn ''OverflowError'' ''cannot convert float infinity to integer'')
    | NaN \<Rightarrow> Inl (Exn ''ValueError'' ''cannot convert float NaN to integer''))"

text \<open>The product of a float and a positive power of two below \<open>2 ^ 1024\<close>.\<close>

definition float_scale :: "pyfloat \<Rightarrow> int \<Rightarrow> pyfloat" where
  "float_scale f k = (case f of Fin q \<Rightarrow> round_double (q * of_int k) | g \<Rightarrow> g)"

section \<open>Conversions of JSON values\<close>

definition py_int :: "json \<Rightarrow> exn + int" where
  "py_int j =
     (case j of
        JInt i \<Rightarrow> Inr i
      | JBool b \<Rightarrow> Inr (of_bool b)
      | JFloat r \<Rightarrow> Inr (trunc_rat r)
      | JStr s \<Rightarrow> int_of_str s
      | _ \<Rightarrow> Inl (Exn ''TypeError''
          ''int() argument must be a string, a bytes-like object or a real number''))"

text \<open>Delays and settle times are only ever slept on, so a float that is not finite is
  outside the model.\<close>

definition py_float :: "json \<Rightarrow> exn + rat" where
  "py_float j =
     (case j of
        JInt i \<Rightarrow> (case round_double (of_int i) of Fin q \<Rightarrow> Inr q
          | _ \<Rightarrow> Inl (Exn ''OverflowError'' ''int too large to convert to float''))
      | JBool b \<Rightarrow> Inr (of_bool b)
      | JFloat r \<Rightarrow> Inr r
      | JStr s \<Rightarrow> ebind (float_of_str s) (\<lambda>f. case f of Fin q \<Rightarrow> Inr q | _ \<Rightarrow> unmodelled)
      | _ \<Rightarrow> Inl (Exn ''TypeError'' ''float() argument must be a string or a real number''))"

section \<open>Sizes\<close>

text \<open>FlashArray's smallest volume, 1 MiB.\<close>

definition FA_MIN_VOLUME_BYTES :: int where
  "FA_MIN_VOLUME_BYTES = 1048576"

definition size_units :: "(char \<times> int) list" where
  "size_units = [(CHR ''K'', 1024), (CHR ''M'', 1024 ^ 2), (CHR ''G'', 1024 ^ 3),
                 (CHR ''T'', 1024 ^ 4), (CHR ''P'', 1024 ^ 5)]"

datatype size_arg = SizeInt int | SizeStr string

definition to_bytes :: "size_arg \<Rightarrow> exn + int" where
  "to_bytes sz =
     (case sz of
        SizeInt i \<Rightarrow> Inr i
      | SizeStr str \<Rightarrow>
          (let s = upper (strip str) in
           case (if s = [] then None else map_of size_units (last s)) of
             Some u \<Rightarrow> ebind (float_of_str (butlast s)) (\<lambda>f. int_of_float (float_scale f u))
           | None \<Rightarrow> int_of_str s))"

section \<open>Lemmas\<close>

lemma is_digit_digit [simp]: "n < 10 \<Longrightarrow> is_digit (digit n)"
  by (simp add: is_digit_def digit_def Let_def take_bit_eq_mod)

lemma digit_value_digit [simp]: "n < 10 \<Longrightarrow> digit_value (digit n) = n"
  by (simp add: digit_value_def digit_def take_bit_eq_mod)

lemma digits_value_append:
  "digits_value acc (s @ t) = digits_value (digits_value acc s) t"
  by (induction s arbitrary: acc) auto

lemma list_all_show_nat [simp]: "list_all is_digit (show_nat n)"
proof (induction n rule: less_induct)
  case (less n)
  show ?case
  proof (cases "n < 10")
    case True
    then show ?thesis by (subst show_nat.simps) simp
  next
    case False
    then have "n div 10 < n" by simp
    then have "list_all is_digit (show_nat (n div 10))" by (rule less.IH)
    with False show ?thesis by (subst show_nat.simps) simp
  qed
qed

lemma digits_value_show_nat [simp]: "digits_value 0 (show_nat n) = n"
proof (induction n rule: less_induct)
  case (less n)
  show ?case
  proof (cases "n < 10")
    case True
    then show ?thesis by (subst show_nat.simps) simp
  next
    case False
    then have "n div 10 < n" by simp
    then have "digits_value 0 (show_nat (n div 10)) = n div 10" by (rule less.IH)
    with False show ?thesis by (subst show_nat.simps) (simp add: digits_value_append)
  qed
qed

text \<open>Printing a number and parsing it again gives the number.\<close>

lemma parse_nat_show_nat [simp]: "parse_nat (show_nat n) = Some n"
  by (simp add: parse_nat_def)


lemma pow2_nonneg: "0 \<le> e \<Longrightarrow> pow2 e = 2 ^ nat e"
  by (simp add: pow2_def)

lemma pow2_pos [simp]: "0 < pow2 e"
  by (simp add: pow2_def)

lemma pow2_add_nat: "pow2 (e + int k) = pow2 e * 2 ^ k"
proof (cases "0 \<le> e")
  case True
  then show ?thesis by (simp add: pow2_def nat_add_distrib power_add)
next
  case False
  show ?thesis
  proof (cases "0 \<le> e + int k")
    case True
    then have "k = nat (e + int k) + nat (- e)" using False by linarith
    then have "(2::rat) ^ k = 2 ^ nat (e + int k) * 2 ^ nat (- e)" by (metis power_add)
    then show ?thesis using True False by (simp add: pow2_def)
  next
    case neg: False
    have "nat (- e) = nat (- (e + int k)) + k" using False neg by linarith
    then have "(2::rat) ^ nat (- e) = 2 ^ nat (- (e + int k)) * 2 ^ k" by (metis power_add)
    then show ?thesis using neg False by (simp add: pow2_def)
  qed
qed

lemma round_even_of_int [simp]: "round_even (of_int i) = i"
  by (simp add: round_even_def)

lemma log2_floor_int:
  assumes "0 < m"
  shows "log2_floor (of_int m) = bitlen m - 1"
proof -
  have "pow2 (bitlen m - 1) \<le> of_int m"
  proof -
    have "bitlen m \<ge> 1" using assms bitlen_ge_iff_power [of 1 m] by simp
    moreover have "2 ^ nat (bitlen m - 1) \<le> m" using bitlen_bounds [OF assms] by blast
    ultimately show ?thesis by (simp add: pow2_def)
  qed
  moreover have "bitlen 1 = 1" by (simp add: bitlen_alt_def)
  ultimately show ?thesis by (simp add: log2_floor_def quotient_of_int)
qed

text \<open>A multiple of a power of two with at most 53 significant bits is a double.\<close>

lemma round_double_exact:
  assumes n: "n < 2 ^ 53" and k: "k \<le> 50"
  shows "round_double (of_nat n * 2 ^ k) = Fin (of_nat n * 2 ^ k)"
proof (cases "n = 0")
  case True
  then show ?thesis by (simp add: round_double_def)
next
  case False
  define m where "m = int n * 2 ^ k"
  have m: "0 < m" using False by (simp add: m_def)
  have q: "(of_nat n * 2 ^ k :: rat) = of_int m" by (simp add: m_def)
  define u where "u = max (log2_floor (of_int m) - 52) (- 1074)"
  have n': "int n < 2 ^ 53"
    using n by (metis of_nat_less_iff of_nat_numeral of_nat_power)
  then have "bitlen (int n) \<le> 53"
    using bitlen_le_iff_power [of "int n" 53] by simp
  moreover have "bitlen m = bitlen (int n) + int k"
    unfolding m_def using False by (simp add: bitlen_pow2)
  ultimately have uk: "u \<le> int k" using m by (simp add: u_def log2_floor_int)
  define d where "d = nat (int k - u)"
  have "pow2 (int k) = pow2 u * 2 ^ d" using uk pow2_add_nat [of u d] by (simp add: d_def)
  then have k2: "(2::rat) ^ k = pow2 u * 2 ^ d" by (simp add: pow2_def)
  have scaled: "of_int m / pow2 u = of_int (int n * 2 ^ d)"
    using less_imp_neq [OF pow2_pos [of u]] by (simp add: m_def k2)
  have r: "of_int (round_even (of_int m / pow2 u)) * pow2 u = of_int m"
    unfolding scaled round_even_of_int by (simp add: m_def k2)
  have "m < 2 ^ 1024"
  proof -
    have "m < 2 ^ 53 * 2 ^ k" unfolding m_def using n' by (rule mult_strict_right_mono) simp
    also have "\<dots> \<le> 2 ^ 53 * 2 ^ 50"
      by (rule mult_left_mono [OF power_increasing [OF k]]) simp_all
    also have "\<dots> < 2 ^ 1024" by simp
    finally show ?thesis .
  qed
  then have "\<not> (2 ^ 1024 :: rat) \<le> of_int m"
    by (metis linorder_not_le of_int_le_iff of_int_numeral of_int_power)
  moreover have "(of_int m :: rat) \<noteq> 0" "\<bar>of_int m :: rat\<bar> = of_int m" "\<not> of_int m < (0::rat)"
    using m by simp_all
  ultimately show ?thesis
    unfolding q round_double_def Let_def by (simp only: if_False r flip: u_def)
qed


subsection \<open>Numerals with a unit\<close>

lemma digit_not_special:
  assumes "is_digit c"
  shows "\<not> is_space c" "c \<noteq> CHR ''_''" "c \<noteq> CHR ''-''" "c \<noteq> CHR ''+''" "upper_char c = c"
    "lower_char c = c" "c \<noteq> CHR ''i''" "c \<noteq> CHR ''n''"
    "c \<noteq> CHR ''e''" "c \<noteq> CHR ''E''" "c \<noteq> CHR ''.''"
  using assms by (auto simp: is_digit_def is_space_def upper_char_def lower_char_def Let_def)

lemma split_at_none: "(\<And>c. c \<in> set s \<Longrightarrow> \<not> p c) \<Longrightarrow> split_at p s = (s, None)"
proof -
  assume "\<And>c. c \<in> set s \<Longrightarrow> \<not> p c"
  then have "takeWhile (\<lambda>c. \<not> p c) s = s" and d: "dropWhile (\<lambda>c. \<not> p c) s = []"
    by (simp_all add: takeWhile_eq_all_conv dropWhile_eq_Nil_conv)
  then show ?thesis unfolding split_at_def d by simp
qed

lemma parse_decimal_show_nat [simp]: "parse_decimal (show_nat n) = Some (of_nat n)"
proof -
  have nd: "\<And>c. c \<in> set (show_nat n) \<Longrightarrow> is_digit c"
    using list_all_show_nat [of n] unfolding list_all_iff by blast
  have "split_at (\<lambda>c. c = CHR ''e'' \<or> c = CHR ''E'') (show_nat n) = (show_nat n, None)"
    by (rule split_at_none) (use nd digit_not_special(9,10) in blast)
  moreover have "split_at (\<lambda>c. c = CHR ''.'') (show_nat n) = (show_nat n, None)"
    by (rule split_at_none) (use nd digit_not_special(11) in blast)
  ultimately show ?thesis by (simp add: parse_decimal_def)
qed

lemma drop_underscores_digits: "list_all is_digit s \<Longrightarrow> drop_underscores p s = Some s"
  by (induction s arbitrary: p) (auto simp: digit_not_special)

lemma strip_no_space: "(\<And>c. c \<in> set s \<Longrightarrow> \<not> is_space c) \<Longrightarrow> strip s = s"
proof -
  assume ns: "\<And>c. c \<in> set s \<Longrightarrow> \<not> is_space c"
  then have "dropWhile is_space s = s" and "dropWhile is_space (rev s) = rev s"
    by (auto simp: dropWhile_eq_self_iff hd_rev)
  then show "strip s = s" by (simp add: strip_def lstrip_def rstrip_def)
qed

lemma parse_sign_digits: "list_all is_digit s \<Longrightarrow> parse_sign s = (False, s)"
  by (cases s) (auto simp: parse_sign_def digit_not_special)

lemma strip_digits: "list_all is_digit s \<Longrightarrow> strip s = s"
  by (rule strip_no_space) (auto simp: list_all_iff digit_not_special)

lemma lower_digits: "list_all is_digit s \<Longrightarrow> lower s = s"
  by (induction s) (auto simp: lower_def digit_not_special)

lemma upper_digits: "list_all is_digit s \<Longrightarrow> upper s = s"
  by (induction s) (auto simp: upper_def digit_not_special)

lemma float_of_show_nat:
  assumes "n < 2 ^ 53"
  shows "float_of_str (show_nat n) = Inr (Fin (of_nat n))"
proof -
  have "show_nat n \<noteq> ''inf''" "show_nat n \<noteq> ''infinity''" "show_nat n \<noteq> ''nan''"
    using list_all_show_nat [of n] by (auto simp: is_digit_def simp del: list_all_show_nat)
  then have "parse_float (show_nat n) = Some (round_double (of_nat n))"
    by (simp add: parse_float_def strip_digits drop_underscores_digits parse_sign_digits lower_digits)
  then show ?thesis using round_double_exact [of n 0] assms by (simp add: float_of_str_def)
qed

lemma int_of_show_nat: "int_of_str (show_nat n) = Inr (int n)"
  by (simp add: int_of_str_def parse_int_def strip_digits drop_underscores_digits parse_sign_digits)

lemma trunc_rat_of_int [simp]: "trunc_rat (of_int i) = i"
  by (simp add: trunc_rat_def)

lemma to_bytes_digits: "to_bytes (SizeStr (show_nat n)) = Inr (int n)"
proof -
  have "is_digit (last (show_nat n))"
    using list_all_show_nat [of n] by (simp add: list_all_iff del: list_all_show_nat)
  then have "map_of size_units (last (show_nat n)) = None"
    by (auto simp: size_units_def is_digit_def)
  then show ?thesis
    by (simp add: to_bytes_def strip_digits upper_digits int_of_show_nat)
qed

lemma strip_size: 
  assumes "\<not> is_space c"
  shows "strip (show_nat n @ [c]) = show_nat n @ [c]"
  using assms list_all_show_nat [of n]
  by (intro strip_no_space) (auto simp: list_all_iff digit_not_special simp del: list_all_show_nat)

lemma to_bytes_unit:
  assumes n: "n < 2 ^ 53" and u: "map_of size_units (upper_char c) = Some u"
  shows "to_bytes (SizeStr (show_nat n @ [c])) = Inr (int n * u)"
proof -
  obtain k :: nat where k: "k \<le> 50" "u = 2 ^ k"
  proof -
    have "u \<in> {2 ^ 10, 2 ^ 20, 2 ^ 30, 2 ^ 40, 2 ^ 50}"
      using u by (auto simp: size_units_def split: if_splits)
    then show ?thesis using that by (auto intro: that [of 10] that [of 20] that [of 30] that [of 40] that [of 50])
  qed
  have "\<not> is_space c"
  proof
    assume "is_space c"
    then have "upper_char c = c" and "c \<notin> fst ` set size_units"
      by (auto simp: is_space_def upper_char_def size_units_def Let_def)
    with u show False by (metis map_of_eq_None_iff option.distinct(1))
  qed
  then have s: "upper (strip (show_nat n @ [c])) = show_nat n @ [upper_char c]"
    using upper_digits [OF list_all_show_nat [of n]] by (simp add: strip_size upper_def)
  have "float_scale (Fin (of_nat n)) u = Fin (of_int (int n * u))"
    using round_double_exact [OF n k(1)] by (simp add: float_scale_def k(2))
  then show ?thesis
    using u by (simp add: to_bytes_def s float_of_show_nat [OF n] int_of_float_def del: of_int_mult)
qed


section \<open>Properties\<close>

text \<open>
  Sizes are converted exactly: a decimal number of bytes is that number, and a whole
  number below 2 ^ 53 with a unit letter, in either case, is that many units, although the
  conversion goes through a double.
\<close>

theorem to_bytes_exact:
  assumes "n < 2 ^ 53" and "map_of size_units (upper_char c) = Some u"
  shows "to_bytes (SizeStr (show_nat n @ [c])) = Inr (int n * u) \<and>
    to_bytes (SizeStr (show_nat n)) = Inr (int n) \<and> to_bytes (SizeInt i) = Inr i"
  using to_bytes_unit [OF assms] to_bytes_digits [of n] by (simp add: to_bytes_def)

theorem to_bytes_exact_witness: "to_bytes (SizeStr (show_nat 500 @ ''g'')) = Inr (500 * 1024 ^ 3)"
proof -
  have "map_of size_units (upper_char CHR ''g'') = Some (1024 ^ 3)" by code_simp
  from to_bytes_exact [OF _ this, of 500] show ?thesis by simp
qed

end
