(* ===== verification/Vm_Spec.thy ===== *)
theory Vm_Spec
  imports Py_Numbers
begin

text \<open>
  The normalised VM model of \<^verbatim>\<open>migrate/spec.py\<close>: the dataclasses, the identifiers derived
  from a FlashArray volume serial, and the dictionaries they travel in (job parameters, the
  JSON columns of a migration row).

  The dataclasses do not check the types of their fields; the records do. Where
  \<^verbatim>\<open>from_dict\<close> would store a value of another type than the one it declares, the model
  returns the error \<open>Unmodelled\<close>; the errors \<^verbatim>\<open>int()\<close> raises are the code's own.
\<close>

section \<open>Identifiers derived from a serial\<close>

definition PURE_SCSI_OUI :: string where
  "PURE_SCSI_OUI = ''624a9370''"

text \<open>The shared first lines of both derivations: strip, fold the case, drop a \<^verbatim>\<open>0x\<close>.\<close>

definition canonical_serial :: "string \<Rightarrow> string" where
  "canonical_serial serial =
     (let s = lower (strip serial) in if starts_with ''0x'' s then drop 2 s else s)"

definition scsi_wwid :: "string \<Rightarrow> string" where
  "scsi_wwid serial =
     (let s = canonical_serial serial in
      if starts_with ''624a937'' s then ''3'' @ s else ''3'' @ PURE_SCSI_OUI @ s)"

definition nvme_eui :: "string \<Rightarrow> string" where
  "nvme_eui serial = ''eui.'' @ canonical_serial serial"

lemma canonical_serial_lower: "canonical_serial (lower s) = canonical_serial s"
  by (simp add: canonical_serial_def strip_lower)

lemma canonical_serial_strip: "canonical_serial (strip s) = canonical_serial s"
  by (simp add: canonical_serial_def)

lemma scsi_wwid_plain:
  assumes "\<not> starts_with ''624a937'' (canonical_serial s)"
  shows "scsi_wwid s = ''3624a9370'' @ canonical_serial s"
  using assms by (simp add: scsi_wwid_def PURE_SCSI_OUI_def Let_def)

lemma scsi_wwid_prefixed:
  assumes "starts_with ''624a937'' (canonical_serial s)"
  shows "scsi_wwid s = ''3'' @ canonical_serial s"
  using assms by (simp add: scsi_wwid_def Let_def)

lemma scsi_wwid_starts: "starts_with ''3624a937'' (scsi_wwid s)"
  by (cases "starts_with ''624a937'' (canonical_serial s)")
     (auto simp: scsi_wwid_plain scsi_wwid_prefixed starts_with_iff)

section \<open>The dataclasses\<close>

record disk_identity =
  fa_volume :: string
  serial :: "string option"
  wwid :: "string option"
  size_bytes :: "int option"

record disk_spec =
  identity :: disk_identity
  bus :: string
  disk_order :: int
  boot :: bool
  disk_source_ref :: string

record nic_spec =
  mac :: string
  source_network :: string
  nic_model :: string
  nic_order :: int

record vm_spec =
  vm_name :: string
  vm_source_ref :: string
  vcpus :: int
  memory_bytes :: int
  firmware :: string
  secure_boot :: bool
  disks :: "disk_spec list"
  nics :: "nic_spec list"
  guest_os_hint :: string
  raw :: dict

definition derived_wwid :: "disk_identity \<Rightarrow> string option" where
  "derived_wwid d =
     (case nonempty (wwid d) of Some w \<Rightarrow> Some w
      | None \<Rightarrow> map_option scsi_wwid (nonempty (serial d)))"

definition boot_disk :: "vm_spec \<Rightarrow> disk_spec option" where
  "boot_disk v =
     (case find boot (disks v) of Some d \<Rightarrow> Some d
      | None \<Rightarrow> (case disks v of [] \<Rightarrow> None | d # _ \<Rightarrow> Some d))"

section \<open>Dictionaries\<close>

definition opt_str :: "string option \<Rightarrow> json" where
  "opt_str x = (case x of None \<Rightarrow> JNull | Some s \<Rightarrow> JStr s)"

definition opt_int :: "int option \<Rightarrow> json" where
  "opt_int x = (case x of None \<Rightarrow> JNull | Some i \<Rightarrow> JInt i)"

definition disk_identity_to_dict :: "disk_identity \<Rightarrow> dict" where
  "disk_identity_to_dict d =
     [(''fa_volume'', JStr (fa_volume d)), (''serial'', opt_str (serial d)),
      (''wwid'', opt_str (wwid d)), (''size_bytes'', opt_int (size_bytes d))]"

definition disk_spec_to_dict :: "disk_spec \<Rightarrow> dict" where
  "disk_spec_to_dict d =
     [(''identity'', JObj (disk_identity_to_dict (identity d))), (''bus'', JStr (bus d)),
      (''order'', JInt (disk_order d)), (''boot'', JBool (boot d)),
      (''source_ref'', JStr (disk_source_ref d))]"

definition nic_spec_to_dict :: "nic_spec \<Rightarrow> dict" where
  "nic_spec_to_dict n =
     [(''mac'', JStr (mac n)), (''source_network'', JStr (source_network n)),
      (''model'', JStr (nic_model n)), (''order'', JInt (nic_order n))]"

definition vm_spec_to_dict :: "vm_spec \<Rightarrow> dict" where
  "vm_spec_to_dict v =
     [(''name'', JStr (vm_name v)),
      (''source_ref'', JStr (vm_source_ref v)),
      (''vcpus'', JInt (vcpus v)),
      (''memory_bytes'', JInt (memory_bytes v)),
      (''firmware'', JStr (firmware v)),
      (''secure_boot'', JBool (secure_boot v)),
      (''disks'', JList (map (\<lambda>d. JObj (disk_spec_to_dict d)) (disks v))),
      (''nics'', JList (map (\<lambda>n. JObj (nic_spec_to_dict n)) (nics v))),
      (''guest_os_hint'', JStr (guest_os_hint v)),
      (''raw'', JObj (raw v))]"

definition str_field :: "json \<Rightarrow> exn + string" where
  "str_field j = (case j of JStr s \<Rightarrow> Inr s | _ \<Rightarrow> unmodelled)"

definition opt_str_field :: "json \<Rightarrow> exn + string option" where
  "opt_str_field j = (case j of JNull \<Rightarrow> Inr None | JStr s \<Rightarrow> Inr (Some s) | _ \<Rightarrow> unmodelled)"

definition opt_int_field :: "json \<Rightarrow> exn + int option" where
  "opt_int_field j = (case j of JNull \<Rightarrow> Inr None | JInt i \<Rightarrow> Inr (Some i) | _ \<Rightarrow> unmodelled)"

definition obj_field :: "json \<Rightarrow> exn + dict" where
  "obj_field j = (case j of JObj d \<Rightarrow> Inr d | _ \<Rightarrow> unmodelled)"

definition list_field :: "json \<Rightarrow> exn + json list" where
  "list_field j = (case j of JList xs \<Rightarrow> Inr xs | _ \<Rightarrow> unmodelled)"

definition disk_identity_from_dict :: "dict \<Rightarrow> exn + disk_identity" where
  "disk_identity_from_dict d =
     ebind (str_field (dict_get d ''fa_volume'' (JStr []))) (\<lambda>v.
     ebind (opt_str_field (dict_get d ''serial'' JNull)) (\<lambda>s.
     ebind (opt_str_field (dict_get d ''wwid'' JNull)) (\<lambda>w.
     ebind (opt_int_field (dict_get d ''size_bytes'' JNull)) (\<lambda>n.
     Inr \<lparr>fa_volume = v, serial = s, wwid = w, size_bytes = n\<rparr>))))"

definition disk_spec_from_dict :: "dict \<Rightarrow> exn + disk_spec" where
  "disk_spec_from_dict d =
     ebind (obj_field (dict_get d ''identity'' (JObj []))) (\<lambda>i.
     ebind (disk_identity_from_dict i) (\<lambda>ident.
     ebind (str_field (dict_get d ''bus'' (JStr ''scsi''))) (\<lambda>b.
     ebind (py_int (dict_get d ''order'' (JInt 0))) (\<lambda>ord.
     ebind (str_field (dict_get d ''source_ref'' (JStr []))) (\<lambda>r.
     Inr \<lparr>identity = ident, bus = b, disk_order = ord,
          boot = truthy (dict_get d ''boot'' (JBool False)), disk_source_ref = r\<rparr>)))))"

definition nic_spec_from_dict :: "dict \<Rightarrow> exn + nic_spec" where
  "nic_spec_from_dict d =
     ebind (str_field (dict_get d ''mac'' (JStr []))) (\<lambda>m.
     ebind (str_field (dict_get d ''source_network'' (JStr []))) (\<lambda>n.
     ebind (str_field (dict_get d ''model'' (JStr ''virtio''))) (\<lambda>mo.
     ebind (py_int (dict_get d ''order'' (JInt 0))) (\<lambda>ord.
     Inr \<lparr>mac = m, source_network = n, nic_model = mo, nic_order = ord\<rparr>))))"

definition vm_spec_from_dict :: "dict \<Rightarrow> exn + vm_spec" where
  "vm_spec_from_dict d =
     ebind (str_field (dict_get d ''name'' (JStr []))) (\<lambda>nm.
     ebind (str_field (dict_get d ''source_ref'' (JStr []))) (\<lambda>r.
     ebind (py_int (dict_get d ''vcpus'' (JInt 1))) (\<lambda>c.
     ebind (py_int (dict_get d ''memory_bytes'' (JInt 0))) (\<lambda>m.
     ebind (str_field (dict_get d ''firmware'' (JStr ''bios''))) (\<lambda>f.
     ebind (list_field (dict_get d ''disks'' (JList []))) (\<lambda>ds.
     ebind (emap (\<lambda>x. ebind (obj_field x) disk_spec_from_dict) ds) (\<lambda>disks'.
     ebind (list_field (dict_get d ''nics'' (JList []))) (\<lambda>ns.
     ebind (emap (\<lambda>x. ebind (obj_field x) nic_spec_from_dict) ns) (\<lambda>nics'.
     ebind (str_field (dict_get d ''guest_os_hint'' (JStr []))) (\<lambda>g.
     ebind (obj_field (dict_get d ''raw'' (JObj []))) (\<lambda>rw.
     Inr \<lparr>vm_name = nm, vm_source_ref = r, vcpus = c, memory_bytes = m, firmware = f,
          secure_boot = truthy (dict_get d ''secure_boot'' (JBool False)),
          disks = disks', nics = nics', guest_os_hint = g, raw = rw\<rparr>)))))))))))"

section \<open>Lemmas\<close>

lemma opt_str_field_opt_str [simp]: "opt_str_field (opt_str x) = Inr x"
  by (simp add: opt_str_field_def opt_str_def split: option.splits)

lemma opt_int_field_opt_int [simp]: "opt_int_field (opt_int x) = Inr x"
  by (simp add: opt_int_field_def opt_int_def split: option.splits)

lemma field_simps_JSON [simp]:
  "str_field (JStr s) = Inr s" "obj_field (JObj d) = Inr d" "list_field (JList xs) = Inr xs"
  "py_int (JInt i) = Inr i"
  by (simp_all add: str_field_def obj_field_def list_field_def py_int_def)

lemma disk_identity_roundtrip [simp]:
  "disk_identity_from_dict (disk_identity_to_dict d) = Inr d"
  by (simp add: disk_identity_from_dict_def disk_identity_to_dict_def dict_get_def)

lemma disk_spec_roundtrip [simp]: "disk_spec_from_dict (disk_spec_to_dict d) = Inr d"
  by (simp add: disk_spec_from_dict_def disk_spec_to_dict_def dict_get_def)

lemma nic_spec_roundtrip [simp]: "nic_spec_from_dict (nic_spec_to_dict n) = Inr n"
  by (simp add: nic_spec_from_dict_def nic_spec_to_dict_def dict_get_def)

lemma emap_disks [simp]:
  "emap (\<lambda>x. ebind (obj_field x) disk_spec_from_dict)
     (map (\<lambda>d. JObj (disk_spec_to_dict d)) ds) = Inr ds"
  by (rule emap_map_Inr) simp

lemma emap_nics [simp]:
  "emap (\<lambda>x. ebind (obj_field x) nic_spec_from_dict)
     (map (\<lambda>d. JObj (nic_spec_to_dict d)) ns) = Inr ns"
  by (rule emap_map_Inr) simp


section \<open>Properties\<close>

text \<open>
  C40. A VM spec survives the trip through its dictionary form, in which it is stored in the
  migration row and handed between the steps.
\<close>

theorem vm_spec_roundtrip: "vm_spec_from_dict (vm_spec_to_dict v) = Inr v"
  by (simp add: vm_spec_from_dict_def vm_spec_to_dict_def dict_get_def)

lemma rstrip_fixed_iff: "rstrip s = s \<longleftrightarrow> s = [] \<or> \<not> is_space (last s)"
  by (cases s rule: rev_cases)
     (simp_all add: rstrip_def, metis append_self_conv2 dropWhile.simps(2) length_rev length_append_singleton
        length_dropWhile_le not_less_eq_eq rev.simps(2) rev_rev_ident)

lemma lower_Nil: "lower [] = []"
  by (simp add: lower_def)

lemma rstrip_canonical: "rstrip (canonical_serial s) = canonical_serial s"
proof -
  have "rstrip (lower (strip s)) = lower (strip s)" by (simp add: strip_def rstrip_lower)
  then have "rstrip (drop n (lower (strip s))) = drop n (lower (strip s))" for n
    by (cases "n < length (lower (strip s))") (auto simp: rstrip_fixed_iff lower_Nil)
  then show ?thesis by (simp add: canonical_serial_def Let_def strip_def rstrip_lower)
qed

lemma lower_canonical [simp]: "lower (canonical_serial s) = canonical_serial s"
  by (simp add: canonical_serial_def Let_def lower_def drop_map del: map_map)
     (simp add: comp_def)

lemma canonical_prefixed:
  "canonical_serial (''624a9370'' @ canonical_serial s) = ''624a9370'' @ canonical_serial s"
proof -
  let ?t = "''624a9370'' @ canonical_serial s"
  have "lstrip ?t = ?t" by (simp add: lstrip_def is_space_def)
  moreover have "rstrip ?t = ?t"
    using rstrip_canonical [of s] by (auto simp: rstrip_fixed_iff is_space_def)
  moreover have "lower ?t = ?t"
  proof -
    have "lower ''624a9370'' = ''624a9370''" by code_simp
    then show ?thesis by (simp only: lower_append lower_canonical)
  qed
  ultimately show ?thesis
    by (simp add: canonical_serial_def strip_def starts_with_def Let_def)
qed

text \<open>
  The multipath WWID derived from a serial does not depend on its case or on white space
  around it, it always starts with Pure's prefix, and a serial to which the prefix was already
  attached gives the WWID of the bare serial: the prefix is not doubled.
\<close>

theorem scsi_wwid_canonical:
  assumes "\<not> starts_with ''624a937'' (canonical_serial s)"
  shows "scsi_wwid (lower s) = scsi_wwid s \<and> scsi_wwid (strip s) = scsi_wwid s \<and>
    starts_with ''3624a937'' (scsi_wwid s) \<and> scsi_wwid s = ''3624a9370'' @ canonical_serial s \<and>
    scsi_wwid (''624a9370'' @ canonical_serial s) = scsi_wwid s"
proof -
  have "scsi_wwid (lower s) = scsi_wwid s" "scsi_wwid (strip s) = scsi_wwid s"
    by (simp_all add: scsi_wwid_def canonical_serial_lower canonical_serial_strip)
  moreover have "scsi_wwid (''624a9370'' @ canonical_serial s) = ''3624a9370'' @ canonical_serial s"
    unfolding scsi_wwid_def canonical_prefixed by (simp add: starts_with_def Let_def)
  moreover note scsi_wwid_starts [of s] scsi_wwid_plain [OF assms]
  ultimately show ?thesis by (intro conjI) (simp_all only: simp_thms)
qed

theorem scsi_wwid_canonical_witness:
  "scsi_wwid (''624a9370'' @ canonical_serial '' 0xAB12 '') = ''3624a9370ab12''"
proof -
  have "\<not> starts_with ''624a937'' (canonical_serial '' 0xAB12 '')" by code_simp
  from scsi_wwid_canonical [OF this] have "scsi_wwid (''624a9370'' @ canonical_serial '' 0xAB12 '')
    = ''3624a9370'' @ canonical_serial '' 0xAB12 ''" by (simp only:)
  moreover have "canonical_serial '' 0xAB12 '' = ''ab12''" by code_simp
  ultimately show ?thesis by (simp only: append.simps)
qed

end
