(* ===== verification/Rollback.thy ===== *)
theory Rollback
  imports Actions
begin

text \<open>
  The rollback stack of \<^verbatim>\<open>migrate/steps.py\<close>. An \<^verbatim>\<open>Undo\<close> is a closure in the code; here it is a
  value of a type \<open>'u\<close> that the owner of the stack interprets as an action (the migration's
  three compensations are the datatype of theory \<open>Migration\<close>). No compensation of the code
  touches the stack it is stored in, so unwinding is a function of the stack's contents.

  The locale \<open>rollback_host\<close> is the interface between the stack and its owner: a log line that
  cannot raise, and compensations whose calls can be read off the state's record of calls.
\<close>

section \<open>The stack\<close>

datatype 'u rollback_entry = Entry (label: string) (undo: 'u)

text \<open>The list \<^verbatim>\<open>_entries\<close>, the most recent entry last.\<close>

type_synonym 'u rollback_stack = "'u rollback_entry list"

definition push :: "string \<Rightarrow> 'u \<Rightarrow> 'u rollback_stack \<Rightarrow> 'u rollback_stack" where
  "push l u st = st @ [Entry l u]"

definition clear :: "'u rollback_stack \<Rightarrow> 'u rollback_stack" where
  "clear st = []"

definition pending :: "'u rollback_stack \<Rightarrow> string list" where
  "pending st = map label (rev st)"

definition warning :: "string \<Rightarrow> exn \<Rightarrow> string" where
  "warning l e = ''[rollback] WARNING: compensation '' @ py_repr l @ '' failed: '' @ describe_exn e"

text \<open>The loop \<^verbatim>\<open>while self._entries\<close>, over the entries from the top of the stack down: each is
  popped, announced and run; a failure is recorded and logged, and the loop goes on.\<close>

fun unwind_from ::
  "(string \<Rightarrow> ('s, unit) action) \<Rightarrow> ('u \<Rightarrow> ('s, unit) action) \<Rightarrow> 'u rollback_entry list \<Rightarrow>
   ('s, string list) action" where
  "unwind_from emit run [] = ret []"
| "unwind_from emit run (e # es) =
     andthen (emit (''[rollback] '' @ label e))
       (bnd (tryc (andthen (run (undo e)) (ret []))
               (\<lambda>exc. andthen (emit (warning (label e) exc)) (ret [label e])))
          (\<lambda>f. bnd (unwind_from emit run es) (\<lambda>fs. ret (f @ fs))))"

definition unwind ::
  "(string \<Rightarrow> ('s, unit) action) \<Rightarrow> ('u \<Rightarrow> ('s, unit) action) \<Rightarrow> 'u rollback_stack \<Rightarrow>
   ('s, string list) action" where
  "unwind emit run st = unwind_from emit run (rev st)"

lemma pending_push: "pending (push l u st) = l # pending st"
  by (simp add: pending_def push_def)

lemma unwind_push:
  "unwind emit run (push l u st) = unwind_from emit run (Entry l u # rev st)"
  by (simp add: unwind_def push_def)

lemma keeps_unwind_from:
  assumes "\<And>l. keeps P (emit l)" and "\<And>e. e \<in> set es \<Longrightarrow> keeps P (run (undo e))"
  shows "keeps P (unwind_from emit run es)"
  using assms(2) by (induction es) (auto intro!: keeps_intro assms(1))

lemma keeps_unwind [keeps_intro]:
  assumes "\<And>l. keeps P (emit l)" and "\<And>e. e \<in> set st \<Longrightarrow> keeps P (run (undo e))"
  shows "keeps P (unwind emit run st)"
  unfolding unwind_def by (rule keeps_unwind_from) (use assms in auto)

section \<open>The interface to the owner of the stack\<close>

locale rollback_host =
  fixes emit :: "string \<Rightarrow> ('s, unit) action"
    and run :: "'u \<Rightarrow> ('s, unit) action"
    and calls :: "'s \<Rightarrow> 'c list"
    and footprint :: "'u \<Rightarrow> 'c list"
  assumes emit_quiet: "never_raises (emit l)"
    and emit_calls: "calls (final (emit l) s) = calls s"
    and run_calls: "calls (final (run u) s) = calls s @ footprint u"
begin

lemma emit_run: obtains t where "emit l s = (Inr (), t)" "calls t = calls s"
proof -
  obtain x t where "emit l s = (Inr x, t)"
    using emit_quiet by (rule never_raises_obtain)
  moreover have "calls t = calls s"
    using emit_calls [of l s] calculation by (simp add: final_def)
  ultimately show thesis using that by (cases x) simp
qed

text \<open>One turn of the loop: the compensation is attempted, the label kept if it raised.\<close>

lemma attempt_run:
  obtains f t where
    "tryc (andthen (run u) (ret [])) (\<lambda>exc. andthen (emit (warning l exc)) (ret [l])) s = (Inr f, t)"
    and "calls t = calls s @ footprint u"
    and "f = (case result (run u) s of Inl _ \<Rightarrow> [l] | Inr _ \<Rightarrow> [])"
proof (cases "run u s")
  case (Pair r s')
  have c: "calls s' = calls s @ footprint u"
    using run_calls [of u s] Pair by (simp add: final_def)
  show thesis
  proof (cases r)
    case (Inl exc)
    obtain t where t: "emit (warning l exc) s' = (Inr (), t)" "calls t = calls s'"
      by (rule emit_run)
    then have "tryc (andthen (run u) (ret [])) (\<lambda>exc. andthen (emit (warning l exc)) (ret [l])) s
        = (Inr [l], t)"
      using Pair Inl by (simp add: tryc_def andthen_def bnd_def ret_def)
    then show thesis using that [of "[l]" t] t c Pair Inl by (simp add: result_def)
  next
    case (Inr x)
    then have "tryc (andthen (run u) (ret [])) (\<lambda>exc. andthen (emit (warning l exc)) (ret [l])) s
        = (Inr [], s')"
      using Pair by (simp add: tryc_def andthen_def bnd_def ret_def)
    then show thesis using that [of "[]" s'] c Pair Inr by (simp add: result_def)
  qed
qed

lemma unwind_from_run:
  "\<exists>fs t. unwind_from emit run es s = (Inr fs, t) \<and>
     calls t = calls s @ concat (map (\<lambda>e. footprint (undo e)) es) \<and>
     set fs \<subseteq> label ` set es"
proof (induction es arbitrary: s)
  case Nil
  then show ?case by (simp add: ret_def)
next
  case (Cons e es)
  obtain s1 where s1: "emit (''[rollback] '' @ label e) s = (Inr (), s1)" "calls s1 = calls s"
    by (rule emit_run)
  obtain f s2 where s2:
    "tryc (andthen (run (undo e)) (ret []))
       (\<lambda>exc. andthen (emit (warning (label e) exc)) (ret [label e])) s1 = (Inr f, s2)"
    "calls s2 = calls s1 @ footprint (undo e)"
    "f = (case result (run (undo e)) s1 of Inl _ \<Rightarrow> [label e] | Inr _ \<Rightarrow> [])"
    by (rule attempt_run)
  obtain fs t where t: "unwind_from emit run es s2 = (Inr fs, t)"
    "calls t = calls s2 @ concat (map (\<lambda>e. footprint (undo e)) es)" "set fs \<subseteq> label ` set es"
    using Cons.IH by blast
  have "unwind_from emit run (e # es) s = (Inr (f @ fs), t)"
    using s1(1) s2(1) t(1) by (simp add: act_simps)
  moreover have "set f \<subseteq> {label e}" using s2(3) by (auto split: sum.splits)
  ultimately show ?case using s1(2) s2(2) t(2,3) by auto
qed

text \<open>Unwinding never raises, and attempts every compensation exactly once, the most recent
  first, whatever the ones before it did.\<close>

theorem unwind_complete:
  "never_raises (unwind emit run st)"
  "calls (final (unwind emit run st) s) = calls s @ concat (map (\<lambda>e. footprint (undo e)) (rev st))"
  "result (unwind emit run st) s = Inr fs \<Longrightarrow> set fs \<subseteq> set (pending st)"
proof -
  show "never_raises (unwind emit run st)"
    unfolding never_raises_def
  proof
    fix s
    show "\<exists>x. result (unwind emit run st) s = Inr x"
      using unwind_from_run [of "rev st" s] by (auto simp: unwind_def result_def)
  qed
next
  show "calls (final (unwind emit run st) s) = calls s @ concat (map (\<lambda>e. footprint (undo e)) (rev st))"
    using unwind_from_run [of "rev st" s] by (auto simp: unwind_def final_def)
next
  assume "result (unwind emit run st) s = Inr fs"
  then show "set fs \<subseteq> set (pending st)"
    using unwind_from_run [of "rev st" s] by (auto simp: unwind_def result_def pending_def)
qed

end

end
