(* ===== verification/Op_Result.thy ===== *)
theory Op_Result
  imports Py_Numbers
begin

text \<open>
  The uniform result of every connector operation (\<^verbatim>\<open>OpResult\<close> of \<^verbatim>\<open>connectors/base.py\<close>) and
  the vocabulary of capabilities and protocols, which are enumerations of strings in the code:
  they are ordered by their values, as \<^verbatim>\<open>sorted\<close> orders them in a connector's descriptor.
\<close>

section \<open>OpResult\<close>

record op_result =
  success :: bool
  message :: string
  data :: dict
  artifacts :: dict

definition op_ok :: "string \<Rightarrow> dict \<Rightarrow> dict \<Rightarrow> op_result" where
  "op_ok msg arts d = \<lparr>success = True, message = msg, data = d, artifacts = arts\<rparr>"

definition op_fail :: "string \<Rightarrow> dict \<Rightarrow> dict \<Rightarrow> op_result" where
  "op_fail msg arts d = \<lparr>success = False, message = msg, data = d, artifacts = arts\<rparr>"

lemma op_ok_sel [simp]:
  "success (op_ok m a d)" "message (op_ok m a d) = m" "data (op_ok m a d) = d"
  "artifacts (op_ok m a d) = a"
  by (simp_all add: op_ok_def)

lemma op_fail_sel [simp]:
  "\<not> success (op_fail m a d)" "message (op_fail m a d) = m" "data (op_fail m a d) = d"
  "artifacts (op_fail m a d) = a"
  by (simp_all add: op_fail_def)

section \<open>Capabilities and protocols\<close>

datatype capability =
    CONNECT | DEPLOY_PLUGIN | CONFIGURE | PROVISION_DATASTORE | PROVISION_VOLUME | SNAPSHOT
  | CLONE | RESIZE | DELETE | HOST_REGISTER | CONNECTIVITY | QOS | REPLICATION | RECOVERY
  | UPGRADE | ROTATE_CREDENTIALS | HEALTH | REMOVE | RECONCILE_CLUSTER | VM_INVENTORY
  | VM_LIFECYCLE | MIGRATE

fun capability_value :: "capability \<Rightarrow> string" where
  "capability_value CONNECT = ''connect''"
| "capability_value DEPLOY_PLUGIN = ''deploy_plugin''"
| "capability_value CONFIGURE = ''configure''"
| "capability_value PROVISION_DATASTORE = ''provision_datastore''"
| "capability_value PROVISION_VOLUME = ''provision_volume''"
| "capability_value SNAPSHOT = ''snapshot''"
| "capability_value CLONE = ''clone''"
| "capability_value RESIZE = ''resize''"
| "capability_value DELETE = ''delete''"
| "capability_value HOST_REGISTER = ''host_register''"
| "capability_value CONNECTIVITY = ''connectivity''"
| "capability_value QOS = ''qos''"
| "capability_value REPLICATION = ''replication''"
| "capability_value RECOVERY = ''recovery''"
| "capability_value UPGRADE = ''upgrade''"
| "capability_value ROTATE_CREDENTIALS = ''rotate_credentials''"
| "capability_value HEALTH = ''health''"
| "capability_value REMOVE = ''remove''"
| "capability_value RECONCILE_CLUSTER = ''reconcile_cluster''"
| "capability_value VM_INVENTORY = ''vm_inventory''"
| "capability_value VM_LIFECYCLE = ''vm_lifecycle''"
| "capability_value MIGRATE = ''migrate''"

lemma capability_value_inject [simp]: "capability_value a = capability_value b \<longleftrightarrow> a = b"
  by (cases a; cases b) simp_all

instantiation capability :: linorder
begin

definition less_eq_capability :: "capability \<Rightarrow> capability \<Rightarrow> bool" where
  "less_eq_capability a b \<longleftrightarrow> capability_value a \<le> capability_value b"

definition less_capability :: "capability \<Rightarrow> capability \<Rightarrow> bool" where
  "less_capability a b \<longleftrightarrow> capability_value a < capability_value b"

instance
  by intro_classes (auto simp: less_eq_capability_def less_capability_def less_le)

end

datatype protocol = ISCSI | FC | NVME_TCP | NVME_FC | NVME_ROCE | NFS

fun protocol_value :: "protocol \<Rightarrow> string" where
  "protocol_value ISCSI = ''iscsi''"
| "protocol_value FC = ''fc''"
| "protocol_value NVME_TCP = ''nvme-tcp''"
| "protocol_value NVME_FC = ''nvme-fc''"
| "protocol_value NVME_ROCE = ''nvme-roce''"
| "protocol_value NFS = ''nfs''"

lemma protocol_value_inject [simp]: "protocol_value a = protocol_value b \<longleftrightarrow> a = b"
  by (cases a; cases b) simp_all

instantiation protocol :: linorder
begin

definition less_eq_protocol :: "protocol \<Rightarrow> protocol \<Rightarrow> bool" where
  "less_eq_protocol a b \<longleftrightarrow> protocol_value a \<le> protocol_value b"

definition less_protocol :: "protocol \<Rightarrow> protocol \<Rightarrow> bool" where
  "less_protocol a b \<longleftrightarrow> protocol_value a < protocol_value b"

instance
  by intro_classes (auto simp: less_eq_protocol_def less_protocol_def less_le)

end

end
