(* ===== verification/Free_Names.thy ===== *)
theory Free_Names
  imports Prelude
begin

text \<open>
  The first numbered name that is not taken: the loop \<^verbatim>\<open>while f"{base}-{n}" in existing: n += 1\<close> of
  the orchestrator and of the connectors that create VMs, which ends because only finitely many
  names are taken.
\<close>

definition numbered :: "string \<Rightarrow> nat \<Rightarrow> string" where
  "numbered base n = base @ ''-'' @ show_nat n"

lemma numbered_inject [simp]: "numbered base m = numbered base n \<longleftrightarrow> m = n"
  by (simp add: numbered_def)

lemma finite_taken: "finite {m. n \<le> m \<and> numbered base m \<in> set existing}"
proof -
  have "inj (numbered base)" by (rule injI) simp
  then have "finite (numbered base -` set existing)" by (intro finite_vimageI) auto
  then show ?thesis by (rule rev_finite_subset) auto
qed

function first_free :: "string \<Rightarrow> string list \<Rightarrow> nat \<Rightarrow> nat" where
  "first_free base existing n =
     (if numbered base n \<in> set existing then first_free base existing (Suc n) else n)"
  by pat_completeness auto
termination
proof (relation "measure (\<lambda>(base, existing, n). card {m. n \<le> m \<and> numbered base m \<in> set existing})")
  fix base existing and n :: nat
  assume taken: "numbered base n \<in> set existing"
  have "{m. Suc n \<le> m \<and> numbered base m \<in> set existing}
      \<subset> {m. n \<le> m \<and> numbered base m \<in> set existing}" (is "?A \<subset> ?B")
  proof -
    have "?A \<subseteq> ?B" by auto
    moreover have "n \<in> ?B" "n \<notin> ?A" using taken by simp_all
    ultimately show ?thesis by blast
  qed
  then have "card {m. Suc n \<le> m \<and> numbered base m \<in> set existing}
      < card {m. n \<le> m \<and> numbered base m \<in> set existing}"
    using finite_taken by (intro psubset_card_mono)
  then show "((base, existing, Suc n), (base, existing, n))
      \<in> measure (\<lambda>(base, existing, n). card {m. n \<le> m \<and> numbered base m \<in> set existing})"
    by simp
qed simp

declare first_free.simps [simp del]

section \<open>What it finds\<close>

lemma first_free_free: "numbered base (first_free base existing n) \<notin> set existing"
  by (induction base existing n rule: first_free.induct) (subst first_free.simps, simp)

lemma first_free_ge: "n \<le> first_free base existing n"
  by (induction base existing n rule: first_free.induct) (subst first_free.simps, auto)

lemma first_free_least:
  "n \<le> m \<Longrightarrow> m < first_free base existing n \<Longrightarrow> numbered base m \<in> set existing"
proof (induction base existing n rule: first_free.induct)
  case (1 base existing n)
  show ?case
  proof (cases "numbered base n \<in> set existing")
    case True
    with 1 show ?thesis by (cases "n = m") (auto simp: first_free.simps [of base existing n])
  next
    case False
    with 1 show ?thesis by (simp add: first_free.simps [of base existing n])
  qed
qed

end
