(* ===== verification/Migration.thy ===== *)
theory Migration
  imports Vm_Spec Rollback Op_Result Free_Names
begin

text \<open>
  The migration orchestrator, \<^verbatim>\<open>MigrationService\<close> of \<^verbatim>\<open>migrate/service.py\<close>: one definition per
  method, in the order of the file, composed by \<open>run_service\<close> as \<^verbatim>\<open>run\<close> composes them.

  The two connectors and the two arrays are objects behind interfaces; the orchestrator only
  sees what their methods return. They are the parameter \<open>env\<close>: each answer is an arbitrary
  function of everything that has happened so far (the trace) and of the call, so an
  environment may keep any state of its own, fail, raise, or change its mind. Every call, every
  log line and every phase report is appended to the trace of the state, in order; a theorem
  about the trace is a theorem about what the orchestrator does to the outside world.

  The phase hook and the log emitter are recorded and do not raise: the job's hook
  (\<^verbatim>\<open>_update_migration\<close>) and the job manager's emitter swallow or cannot raise exceptions.
\<close>

section \<open>Calls, events, the environment\<close>

datatype side = Source | Dest

datatype call =
    ValidateConnection side
  | RequireHostObjects string
  | ListNetworks
  | CaptureVmSpec string
  | PrepareSourceDisks vm_spec dict
  | CleanupScratch vm_spec
  | GetVolume string
  | ListVms
  | CreateVm vm_spec "(string \<times> string) list" "dict option"
  | StopVm side string bool
  | StartVm side string
  | PowerState side string
  | DeleteVm side string bool
  | CreateManagedDisk string int int bool
  | FinalizeDestinationDisks string "disk_spec list"
  | ConvertDisksToNative string "disk_spec list" json
  | SetBootOrder string "disk_spec list"
  | ArrayName side
  | ListArrayConnections
  | GetConnectionKey
  | GetReplicationAddresses
  | ConnectToArray string string "string list"
  | ReplicateVolumeTo string string string
  | CleanupReplicationPgroup string
  | CopyVolume string string bool
  | DisconnectVolumeFromGroup string string
  | DeleteVolume string bool

text \<open>How a call ended: an exception, a result that says failure, a result, or a text.\<close>

datatype outcome = Raised | Refused | Done | Said string

datatype event =
    Call call outcome
  | Emit string
  | Phase string "vm_spec option" "string option"
  | Sleep rat

record volume_info =
  vi_serial :: "string option"
  vi_size :: "int option"
  vi_destroyed :: bool

record env =
  supports_migrate :: "side \<Rightarrow> bool"
  connector_key :: "side \<Rightarrow> string"
  has_array :: "side \<Rightarrow> bool"
  is_mock :: "side \<Rightarrow> bool"
  migration_host_group :: "side \<Rightarrow> string"
  dest_manages_presentation :: bool
  dest_endpoint :: string
  show_dict :: "dict \<Rightarrow> string"
  op_answer :: "event list \<Rightarrow> call \<Rightarrow> exn + op_result"
  unit_answer :: "event list \<Rightarrow> call \<Rightarrow> exn + unit"
  text_answer :: "event list \<Rightarrow> call \<Rightarrow> exn + string"
  texts_answer :: "event list \<Rightarrow> call \<Rightarrow> exn + string list"
  dicts_answer :: "event list \<Rightarrow> call \<Rightarrow> exn + dict list"
  spec_answer :: "event list \<Rightarrow> call \<Rightarrow> exn + vm_spec option"
  volume_answer :: "event list \<Rightarrow> call \<Rightarrow> exn + volume_info option"

section \<open>The service and its state\<close>

text \<open>The attributes \<^verbatim>\<open>__init__\<close> fixes.\<close>

record service =
  sv_vm_ref :: string
  sv_network_map :: "(string \<times> string) list"
  sv_options :: dict
  sv_mode :: string
  sv_cross_array :: bool
  sv_dry_run :: bool

text \<open>The compensations the service pushes.\<close>

datatype undo = TeardownDest string | RestartSource | CleanupPgroup string

text \<open>The attributes the steps assign, the rollback stack, and the record of what was done.\<close>

record mstate =
  spec :: "vm_spec option"
  dest_vm_ref :: "string option"
  dest_disks :: "disk_spec list"
  source_was_running :: bool
  powered_on :: bool
  repl_pgroup :: "string option"
  src_array_name :: string
  dst_array_name :: string
  source_hg :: string
  dest_hg :: string
  rollback :: "undo rollback_stack"
  trace :: "event list"

type_synonym 'a step = "(mstate, 'a) action"

definition mode_of :: "dict \<Rightarrow> exn + string" where
  "mode_of options =
     (let m = dict_get options ''mode'' JNull in
      if \<not> truthy m then Inr ''move''
      else (case m of JStr s \<Rightarrow> Inr (lower s)
            | _ \<Rightarrow> Inl (Exn ''AttributeError'' [])))"

definition init_service ::
  "string \<Rightarrow> (string \<times> string) list \<Rightarrow> dict \<Rightarrow> exn + service" where
  "init_service ref netmap options =
     ebind (mode_of options) (\<lambda>m.
     Inr \<lparr>sv_vm_ref = ref, sv_network_map = netmap, sv_options = options, sv_mode = m,
          sv_cross_array = truthy (dict_get options ''cross_array'' JNull),
          sv_dry_run = truthy (dict_get options ''dry_run'' JNull)\<rparr>)"

definition init_state :: mstate where
  "init_state =
     \<lparr>spec = None, dest_vm_ref = None, dest_disks = [], source_was_running = False,
      powered_on = False, repl_pgroup = None, src_array_name = [], dst_array_name = [],
      source_hg = [], dest_hg = [], rollback = [], trace = []\<rparr>"

section \<open>Helpers\<close>

definition log :: "event \<Rightarrow> unit step" where
  "log e = modify (\<lambda>s. s\<lparr>trace := trace s @ [e]\<rparr>)"

definition emit :: "string \<Rightarrow> unit step" where
  "emit line = log (Emit line)"

text \<open>A call of the outside world: \<open>ask\<close> for a result that is neither a text nor an
  \<open>op_result\<close>, \<open>ask_text\<close> and \<open>ask_op\<close> for those.\<close>

definition ask :: "(event list \<Rightarrow> call \<Rightarrow> exn + 'a) \<Rightarrow> call \<Rightarrow> 'a step" where
  "ask f c = (\<lambda>s. let r = f (trace s) c in
     (r, s\<lparr>trace := trace s @ [Call c (case r of Inl _ \<Rightarrow> Raised | Inr _ \<Rightarrow> Done)]\<rparr>))"

definition ask_text :: "env \<Rightarrow> call \<Rightarrow> string step" where
  "ask_text E c = (\<lambda>s. let r = text_answer E (trace s) c in
     (r, s\<lparr>trace := trace s @ [Call c (case r of Inl _ \<Rightarrow> Raised | Inr x \<Rightarrow> Said x)]\<rparr>))"

text \<open>A connector operation: \<open>Refused\<close> is a result whose \<^verbatim>\<open>success\<close> is false.\<close>

definition ask_op :: "env \<Rightarrow> call \<Rightarrow> op_result step" where
  "ask_op E c = (\<lambda>s. let r = op_answer E (trace s) c in
     (r, s\<lparr>trace := trace s @ [Call c (case r of Inl _ \<Rightarrow> Raised
            | Inr x \<Rightarrow> if success x then Done else Refused)]\<rparr>))"

definition migration_error :: "string \<Rightarrow> exn" where
  "migration_error m = Exn ''MigrationError'' m"

definition fail_step :: "string \<Rightarrow> 'a step" where
  "fail_step m = raise (migration_error m)"

definition opt :: "service \<Rightarrow> string \<Rightarrow> json \<Rightarrow> json" where
  "opt V key dflt = dict_get (sv_options V) key dflt"

definition skip :: "service \<Rightarrow> string \<Rightarrow> bool step" where
  "skip V what =
     (if \<not> sv_dry_run V then ret False
      else andthen (emit (''[dry-run] would '' @ what)) (ret True))"

definition phase :: "string \<Rightarrow> unit step" where
  "phase p = andthen (emit (''=== '' @ p @ '' ===''))
     (bnd (gets spec) (\<lambda>v. bnd (gets dest_vm_ref) (\<lambda>r. log (Phase p v r))))"

text \<open>\<^verbatim>\<open>assert self.spec is not None\<close> and reading it.\<close>

definition get_spec :: "vm_spec step" where
  "get_spec = bnd (gets spec)
     (\<lambda>v. case v of None \<Rightarrow> raise (Exn ''AssertionError'' []) | Some x \<Rightarrow> ret x)"

definition get_dest_ref :: "string step" where
  "get_dest_ref = bnd (gets dest_vm_ref)
     (\<lambda>v. case v of None \<Rightarrow> raise (Exn ''AssertionError'' []) | Some x \<Rightarrow> ret x)"

definition power_state :: "env \<Rightarrow> side \<Rightarrow> string \<Rightarrow> string step" where
  "power_state E sd ref = ask_text E (PowerState sd ref)"

text \<open>\<^verbatim>\<open>(await conn.power_state(ref) or "unknown").lower()\<close>\<close>

definition power_or_unknown :: "env \<Rightarrow> side \<Rightarrow> string \<Rightarrow> string step" where
  "power_or_unknown E sd ref = bnd (power_state E sd ref)
     (\<lambda>p. ret (lower (if p = [] then ''unknown'' else p)))"

text \<open>The polling loop of \<^verbatim>\<open>_await_power\<close>, from the attempt \<open>i\<close> on.\<close>

fun await_power_loop ::
  "env \<Rightarrow> side \<Rightarrow> string \<Rightarrow> string \<Rightarrow> int \<Rightarrow> rat \<Rightarrow> nat list \<Rightarrow> string \<Rightarrow> unit step" where
  "await_power_loop E sd ref target attempts delay [] last_state =
     fail_step (''VM '' @ py_repr ref @ '' did not reach power state '' @ py_repr target
       @ '' (last='' @ py_repr last_state @ '')'')"
| "await_power_loop E sd ref target attempts delay (i # is) last_state =
     bnd (power_or_unknown E sd ref) (\<lambda>st.
       if st = target \<or> st = ''unknown'' then ret ()
       else andthen (provided (int i + 1 < attempts \<and> 0 < delay) (log (Sleep delay)))
              (await_power_loop E sd ref target attempts delay is st))"

definition await_power :: "env \<Rightarrow> service \<Rightarrow> side \<Rightarrow> string \<Rightarrow> string \<Rightarrow> unit step" where
  "await_power E V sd ref target =
     (if is_mock E sd then emit (''[mock] skipping power-state poll for '' @ ref)
      else bnd (lift_sum (py_int (opt V ''poll_attempts'' (JInt 40)))) (\<lambda>attempts.
           bnd (lift_sum (py_float (opt V ''poll_delay'' (JFloat 3)))) (\<lambda>delay.
           await_power_loop E sd ref target attempts delay
             [0..<nat (max 1 attempts)] ''unknown'')))"

section \<open>Steps\<close>

definition network_ids :: "dict list \<Rightarrow> json list" where
  "network_ids nets = map (\<lambda>n. dict_get n ''id'' JNull) nets"

definition network_names :: "dict list \<Rightarrow> json list" where
  "network_names nets = map (\<lambda>n. dict_get n ''name'' JNull) nets"

text \<open>The mapped destination networks the destination does not have.\<close>

definition unknown_networks :: "(string \<times> string) list \<Rightarrow> json list \<Rightarrow> string list" where
  "unknown_networks netmap nets =
     filter (\<lambda>v. v \<noteq> [] \<and> JStr v \<notin> set nets) (map snd netmap)"

definition preflight :: "env \<Rightarrow> service \<Rightarrow> unit step" where
  "preflight E V = steps [
     phase ''preflight: source'',
     provided (\<not> supports_migrate E Source)
       (fail_step (''source connector '' @ py_repr (connector_key E Source)
          @ '' cannot act as a migration source'')),
     provided (\<not> has_array E Source)
       (fail_step ''source hypervisor has no associated FlashArray''),
     bnd (ask_op E (ValidateConnection Source)) (\<lambda>r.
       provided (\<not> success r) (fail_step (''source connection invalid: '' @ message r))),
     phase ''preflight: destination'',
     provided (\<not> supports_migrate E Dest)
       (fail_step (''destination connector '' @ py_repr (connector_key E Dest)
          @ '' cannot act as a destination'')),
     provided (\<not> has_array E Dest)
       (fail_step ''destination hypervisor has no associated FlashArray''),
     bnd (ask_op E (ValidateConnection Dest)) (\<lambda>r.
       provided (\<not> success r) (fail_step (''destination connection invalid: '' @ message r))),
     modify (\<lambda>s. s\<lparr>source_hg := migration_host_group E Source,
                    dest_hg := migration_host_group E Dest\<rparr>),
     (if dest_manages_presentation E
      then emit (''[migrate] '' @ connector_key E Dest @ '' presents FlashArray volumes itself; ''
             @ ''no destination host group is required'')
      else provided (migration_host_group E Dest = [])
             (fail_step ''destination hypervisor has no FlashArray host group configured'')),
     provided (migration_host_group E Dest \<noteq> [])
       (bnd (ask_op E (RequireHostObjects (migration_host_group E Dest))) (\<lambda>pf.
          provided (\<not> success pf)
            (if is_mock E Dest
             then emit (''[mock] skipping host-group readiness: '' @ message pf)
             else fail_step (''destination not ready: '' @ message pf)))),
     bnd (ask (dicts_answer E) ListNetworks) (\<lambda>a.
     bnd (ask (dicts_answer E) ListNetworks) (\<lambda>b.
       let unknown = unknown_networks (sv_network_map V) (network_ids a @ network_names b) in
       provided (unknown \<noteq> [])
         (fail_step (''destination network(s) not found: ''
            @ join '', '' (sort (remdups unknown))))))]"

definition check_nic :: "service \<Rightarrow> nic_spec \<Rightarrow> unit step" where
  "check_nic V nic =
     provided (source_network nic \<notin> fst ` set (sv_network_map V))
       (fail_step (''no destination network mapping for source NIC on ''
          @ py_repr (source_network nic) @ '' (mac '' @ mac nic @ '')''))"

definition capture_spec :: "env \<Rightarrow> service \<Rightarrow> unit step" where
  "capture_spec E V =
     andthen (phase ''capture source VM spec'')
     (bnd (ask (spec_answer E) (CaptureVmSpec (sv_vm_ref V))) (\<lambda>r.
      andthen (modify (\<lambda>s. s\<lparr>spec := r\<rparr>))
      (case r of
         None \<Rightarrow> raise (Exn ''AttributeError'' ''NoneType object has no attribute disks'')
       | Some v \<Rightarrow> steps [
           provided (disks v = [])
             (fail_step ''source VM has no FlashArray-backed disks to migrate''),
           foreach (nics v) (check_nic V),
           emit (''[capture] '' @ vm_name v @ '': '' @ show_int (vcpus v) @ '' vCPU, ''
             @ show_int (memory_bytes v div (1024 * 1024)) @ '' MiB, ''
             @ show_nat (length (disks v)) @ '' disk(s), '' @ show_nat (length (nics v))
             @ '' NIC(s), firmware='' @ firmware v)])))"

definition prepare_source_disks :: "env \<Rightarrow> service \<Rightarrow> unit step" where
  "prepare_source_disks E V =
     bnd get_spec (\<lambda>v.
     bnd (skip V (''let the source connector stage per-disk FlashArray volumes ''
        @ ''(e.g. vSphere VMFS -> RDM clone)'')) (\<lambda>skipped.
     provided (\<not> skipped)
       (bnd (ask (spec_answer E) (PrepareSourceDisks v (sv_options V))) (\<lambda>updated.
          case updated of None \<Rightarrow> ret ()
          | Some v' \<Rightarrow> modify (\<lambda>s. s\<lparr>spec := Some v'\<rparr>)))))"

definition cleanup_scratch :: "env \<Rightarrow> unit step" where
  "cleanup_scratch E =
     bnd (gets spec) (\<lambda>v. case v of None \<Rightarrow> ret ()
       | Some x \<Rightarrow> tryc (ask (unit_answer E) (CleanupScratch x))
           (\<lambda>exc. emit (''[migration] scratch cleanup warning: '' @ exn_text exc)))"

text \<open>\<^verbatim>\<open>x or y\<close> on an optional integer: zero counts as missing.\<close>

definition or_int :: "int option \<Rightarrow> int option \<Rightarrow> int option" where
  "or_int x y = (case x of None \<Rightarrow> y | Some i \<Rightarrow> if i = 0 then y else Some i)"

definition or_str :: "string option \<Rightarrow> string option \<Rightarrow> string option" where
  "or_str x y = (case nonempty x of None \<Rightarrow> y | Some s \<Rightarrow> Some s)"

definition fill_identity :: "volume_info \<Rightarrow> disk_spec \<Rightarrow> disk_spec" where
  "fill_identity vol d = d\<lparr>identity := (identity d)\<lparr>
     serial := or_str (serial (identity d)) (vi_serial vol),
     size_bytes := or_int (size_bytes (identity d)) (vi_size vol)\<rparr>\<rparr>"

definition set_disk :: "nat \<Rightarrow> disk_spec \<Rightarrow> unit step" where
  "set_disk i d = modify (\<lambda>s. s\<lparr>spec := map_option (\<lambda>v. v\<lparr>disks := (disks v)[i := d]\<rparr>) (spec s)\<rparr>)"

definition resolve_disk :: "env \<Rightarrow> nat \<times> disk_spec \<Rightarrow> unit step" where
  "resolve_disk E p = (case p of (i, d) \<Rightarrow>
     (let fv = fa_volume (identity d) in
      bnd (ask (volume_answer E) (GetVolume fv)) (\<lambda>r.
      case r of
        None \<Rightarrow>
          if is_mock E Source
          then emit (''[mock] skipping volume existence check for '' @ fv)
          else fail_step (''FlashArray volume '' @ py_repr fv @ '' not found'')
      | Some vol \<Rightarrow>
          if vi_destroyed vol
          then fail_step (''FlashArray volume '' @ py_repr fv @ '' is destroyed'')
          else andthen (set_disk i (fill_identity vol d))
            (emit (''[resolve] '' @ fv @ '' serial=''
               @ show_opt (serial (identity (fill_identity vol d))))))))"

definition resolve_volumes :: "env \<Rightarrow> unit step" where
  "resolve_volumes E =
     andthen (phase ''resolve FlashArray volumes'')
     (bnd get_spec (\<lambda>v. foreach (List.enumerate 0 (disks v)) (resolve_disk E)))"

definition vm_names :: "dict list \<Rightarrow> string list" where
  "vm_names vms = map (\<lambda>v. case dict_get v ''name'' JNull of JStr s \<Rightarrow> s | _ \<Rightarrow> []) vms"

definition unique_name :: "string \<Rightarrow> string list \<Rightarrow> string" where
  "unique_name base existing =
     (if base \<notin> set existing then base else numbered base (first_free base existing 1))"

definition rename_spec :: "string \<Rightarrow> unit step" where
  "rename_spec n = modify (\<lambda>s. s\<lparr>spec := map_option (\<lambda>v. v\<lparr>vm_name := n\<rparr>) (spec s)\<rparr>)"

definition ensure_unique_dest_name :: "env \<Rightarrow> unit step" where
  "ensure_unique_dest_name E =
     bnd get_spec (\<lambda>v.
     let base = vm_name v in
     bnd (tryc (bnd (ask (dicts_answer E) ListVms) (\<lambda>vms. ret (Some (vm_names vms))))
               (\<lambda>_. ret None)) (\<lambda>r.
     case r of
       None \<Rightarrow>
         andthen (rename_spec (base @ ''-mig''))
           (emit (''[dest] could not list destination VMs; using '' @ CHR 0x27 # base @ ''-mig''
              @ CHR 0x27 # '' to avoid overwriting an existing VM''))
     | Some existing \<Rightarrow>
         if base \<notin> set existing then ret ()
         else andthen (rename_spec (unique_name base existing))
           (emit (''[dest] a VM named '' @ CHR 0x27 # base @ CHR 0x27
              # '' already exists at the destination; creating '' @ CHR 0x27
              # unique_name base existing @ CHR 0x27 # '' instead (not overwriting it)''))))"

definition placement_of :: "service \<Rightarrow> dict" where
  "placement_of V = filter (\<lambda>(k, v). truthy v)
     [(''cluster'', opt V ''dest_cluster'' JNull), (''storage'', opt V ''dest_storage'' JNull),
      (''convert_to_vmfs'', opt V ''convert_to_vmfs'' (JBool False)),
      (''vmfs_datastore'', opt V ''vmfs_datastore'' JNull)]"

definition push_undo :: "string \<Rightarrow> undo \<Rightarrow> unit step" where
  "push_undo l u = modify (\<lambda>s. s\<lparr>rollback := push l u (rollback s)\<rparr>)"

text \<open>A reference the connector returned: a string, or a number read as one.\<close>

definition ref_of_json :: "json \<Rightarrow> exn + string option" where
  "ref_of_json j = (case j of JNull \<Rightarrow> Inr None | JStr s \<Rightarrow> Inr (Some s)
     | JInt i \<Rightarrow> Inr (Some (show_int i)) | _ \<Rightarrow> unmodelled)"

definition create_dest_vm :: "env \<Rightarrow> service \<Rightarrow> unit step" where
  "create_dest_vm E V =
     andthen (phase ''create destination VM'')
     (andthen (bnd get_spec (\<lambda>_. ensure_unique_dest_name E))
     (bnd get_spec (\<lambda>v.
      if sv_dry_run V then
        andthen (emit (''[dry-run] would create destination VM '' @ py_repr (vm_name v) @ '' (''
            @ show_int (vcpus v) @ '' vCPU, '' @ show_int (memory_bytes v div 1024 ^ 3)
            @ '' GiB, firmware='' @ firmware v @ '') placement='' @ show_dict E (placement_of V)))
          (modify (\<lambda>s. s\<lparr>dest_vm_ref := Some (''dry-run-'' @ vm_name v)\<rparr>))
      else
        bnd (ask_op E (CreateVm v (sv_network_map V)
               (if placement_of V = [] then None else Some (placement_of V)))) (\<lambda>r.
        if \<not> success r then fail_step (''failed to create destination VM: '' @ message r)
        else bnd (lift_sum (ref_of_json (dict_get (artifacts r) ''vm_ref'' JNull))) (\<lambda>ref.
        andthen (modify (\<lambda>s. s\<lparr>dest_vm_ref := ref\<rparr>))
        (case (if truthy (dict_get (artifacts r) ''vm_ref'' JNull) then ref else None) of
           None \<Rightarrow> fail_step ''destination create_vm did not return a vm_ref''
         | Some x \<Rightarrow>
             andthen (push_undo (''stop + delete destination VM '' @ x @ '' (free its new disks)'')
                        (TeardownDest x))
               (emit (''[dest] created VM '' @ x))))))))"

definition teardown_dest :: "env \<Rightarrow> string \<Rightarrow> unit step" where
  "teardown_dest E ref =
     andthen (tryc (bnd (ask_op E (StopVm Dest ref True)) (\<lambda>_. ret ()))
       (\<lambda>exc. emit (''[rollback] stop '' @ ref @ '' before delete: '' @ describe_exn exc)))
     (bnd (ask_op E (DeleteVm Dest ref False)) (\<lambda>_. ret ()))"

definition quiesce_source :: "env \<Rightarrow> service \<Rightarrow> bool \<Rightarrow> unit step" where
  "quiesce_source E V force =
     (if \<not> (force \<or> truthy (opt V ''shutdown_source'' (JBool False))) then ret ()
      else andthen (phase ''shut down source for a clean copy'')
        (bnd (power_or_unknown E Source (sv_vm_ref V)) (\<lambda>st.
         andthen (modify (\<lambda>s. s\<lparr>source_was_running := (st \<noteq> ''stopped'')\<rparr>))
         (if st = ''stopped'' then emit ''[copy] source already stopped''
          else bnd (skip V (''shut down source VM '' @ sv_vm_ref V)) (\<lambda>skipped.
            provided (\<not> skipped)
              (bnd (ask_op E (StopVm Source (sv_vm_ref V)
                      (truthy (opt V ''force_stop'' (JBool False))))) (\<lambda>r.
               if \<not> success r
               then fail_step (''failed to stop source for a clean copy: '' @ message r)
               else steps [
                 push_undo ''restart source VM'' RestartSource,
                 await_power E V Source (sv_vm_ref V) ''stopped'',
                 emit ''[copy] source shut down; it will be left shut down''])))))))"

definition last_component :: "string \<Rightarrow> string" where
  "last_component v = last (split_on ''/'' v)"

definition await_replication :: "env \<Rightarrow> service \<Rightarrow> unit step" where
  "await_replication E V =
     (if is_mock E Dest then ret ()
      else bnd (lift_sum (py_float (opt V ''replication_settle'' (JFloat 5)))) (\<lambda>d. log (Sleep d)))"

text \<open>Steps 1 to 3 of the loop over the source disks.\<close>

definition make_dest_disk :: "env \<Rightarrow> service \<Rightarrow> string \<Rightarrow> disk_spec \<Rightarrow> string step" where
  "make_dest_disk E V ref d =
     (let sz = (case size_bytes (identity d) of None \<Rightarrow> 0 | Some n \<Rightarrow> n) in
      if sv_dry_run V then
        andthen (emit (''[dry-run] would create destination disk '' @ show_int (disk_order d)
            @ '' ('' @ show_int sz @ '' B) and receive a backing volume for it''))
          (ret (''dry-run-dest-'' @ ref @ ''-disk'' @ show_int (disk_order d)))
      else ask_text E (CreateManagedDisk ref sz (disk_order d) (boot d)))"

definition copy_source :: "env \<Rightarrow> service \<Rightarrow> string \<Rightarrow> disk_spec \<Rightarrow> string step" where
  "copy_source E V pg d =
     (let fv = fa_volume (identity d) in
      if sv_cross_array V then
        bnd (gets dst_array_name) (\<lambda>dn. bnd (gets src_array_name) (\<lambda>sn.
        bnd (skip V (''replicate '' @ fv @ '' to '' @ dn @ '' and await the replica'')) (\<lambda>skipped.
        if skipped then ret fv
        else bnd (ask_text E (ReplicateVolumeTo fv dn pg)) (\<lambda>suffix.
             andthen (await_replication E V)
               (ret (sn @ '':'' @ pg @ ''.'' @ suffix @ ''.'' @ last_component fv))))))
      else ret fv)"

definition build_disk :: "env \<Rightarrow> service \<Rightarrow> string \<Rightarrow> string \<Rightarrow> disk_spec \<Rightarrow> unit step" where
  "build_disk E V ref pg d =
     bnd (make_dest_disk E V ref d) (\<lambda>dest_vol.
     andthen (modify (\<lambda>s. s\<lparr>dest_disks := dest_disks s @
        [\<lparr>identity = \<lparr>fa_volume = dest_vol, serial = None, wwid = None, size_bytes = None\<rparr>,
          bus = bus d, disk_order = disk_order d, boot = boot d,
          disk_source_ref = disk_source_ref d\<rparr>]\<rparr>))
     (bnd (copy_source E V pg d) (\<lambda>copy_src.
      bnd (skip V (''copy '' @ copy_src @ '' -> '' @ dest_vol @ '' (overwrite)'')) (\<lambda>skipped.
      provided (\<not> skipped)
        (andthen (ask (unit_answer E) (CopyVolume copy_src dest_vol True))
          (emit (''[migrate] copied '' @ copy_src @ '' -> '' @ dest_vol
             @ '' (overwrite; source volume untouched)'')))))))"

definition build_destination_disks :: "env \<Rightarrow> service \<Rightarrow> unit step" where
  "build_destination_disks E V =
     andthen (phase ''create destination disk(s) + copy data'')
     (bnd get_spec (\<lambda>v. bnd get_dest_ref (\<lambda>ref.
      let pg = ''phifmig-'' @ ref in
      andthen (provided (sv_cross_array V)
        (andthen (modify (\<lambda>s. s\<lparr>repl_pgroup := Some pg\<rparr>))
          (push_undo ''remove replication protection group'' (CleanupPgroup pg))))
      (andthen (modify (\<lambda>s. s\<lparr>dest_disks := []\<rparr>))
        (foreach (disks v) (build_disk E V ref pg))))))"

definition finalize_dest_disks :: "env \<Rightarrow> service \<Rightarrow> unit step" where
  "finalize_dest_disks E V =
     bnd get_dest_ref (\<lambda>ref.
     bnd (skip V ''reconcile destination disks with their backing volumes'') (\<lambda>skipped.
     provided (\<not> skipped)
       (bnd (gets dest_disks) (\<lambda>ds.
        bnd (ask_op E (FinalizeDestinationDisks ref ds)) (\<lambda>r.
        provided (\<not> success r)
          (fail_step (''failed to finalize destination disks: '' @ message r)))))))"

definition arrow :: string where
  "arrow = [CHR 0xE2, CHR 0x86, CHR 0x92]"

definition convert_dest_disks :: "env \<Rightarrow> service \<Rightarrow> unit step" where
  "convert_dest_disks E V =
     bnd get_dest_ref (\<lambda>ref.
     andthen (phase ''convert destination disks to VMFS (XCOPY) + free FA volumes'')
     (let a = opt V ''vmfs_datastore'' JNull;
          ds = (if truthy a then a else opt V ''dest_storage'' JNull) in
      bnd (skip V ''convert destination disks to native format'') (\<lambda>skipped.
      provided (\<not> skipped)
        (bnd (gets dest_disks) (\<lambda>dd.
         bnd (ask_op E (ConvertDisksToNative ref dd ds)) (\<lambda>r.
         if \<not> success r
         then fail_step (''RDM'' @ arrow @ ''VMFS conversion failed: '' @ message r)
         else emit (''[convert] '' @ message r)))))))"

definition ensure_array_connection :: "env \<Rightarrow> service \<Rightarrow> unit step" where
  "ensure_array_connection E V =
     bnd (ask_text E (ArrayName Source)) (\<lambda>sn.
     andthen (modify (\<lambda>s. s\<lparr>src_array_name := sn\<rparr>))
     (bnd (ask_text E (ArrayName Dest)) (\<lambda>dn.
     andthen (modify (\<lambda>s. s\<lparr>dst_array_name := dn\<rparr>))
     (bnd (ask (dicts_answer E) ListArrayConnections) (\<lambda>conns.
      if (\<exists>c \<in> set conns. (let n = dict_get c ''name'' JNull in
            (if truthy n then n else JStr []) = JStr dn))
      then emit (''[xarray] array connection to '' @ py_repr dn @ '' already exists'')
      else if \<not> truthy (opt V ''allow_array_connect'' (JBool False))
      then fail_step (''source array is not connected to destination array '' @ py_repr dn
             @ ''; configuring an array connection requires authorization'')
      else andthen (phase ''configure array connection (replication)'')
        (bnd (ask_text E GetConnectionKey) (\<lambda>key.
         bnd (ask (texts_answer E) GetReplicationAddresses) (\<lambda>addrs.
         bnd (skip V (''connect array '' @ sn @ '' -> '' @ dn @ '' for replication'')) (\<lambda>skipped.
         provided (\<not> skipped)
           (andthen (ask (unit_answer E) (ConnectToArray (dest_endpoint E) key addrs))
             (emit (''[xarray] connected source array '' @ py_repr sn @ '' -> '' @ py_repr dn
                @ '' (kept; manage on the FlashArrays page)''))))))))))))"

definition cleanup_replication :: "env \<Rightarrow> unit step" where
  "cleanup_replication E =
     bnd (gets repl_pgroup) (\<lambda>pg. case pg of
       None \<Rightarrow> ret ()
     | Some p \<Rightarrow>
         andthen (phase ''clean up replication artifacts (keep array connection)'')
           (tryc (ask (unit_answer E) (CleanupReplicationPgroup p))
             (\<lambda>exc. emit (''[xarray] WARNING: pgroup cleanup failed: '' @ exn_text exc))))"

definition set_boot :: "env \<Rightarrow> service \<Rightarrow> unit step" where
  "set_boot E V =
     andthen (phase ''set destination boot order'')
     (bnd get_dest_ref (\<lambda>ref.
      bnd (skip V ''set the destination boot order'') (\<lambda>skipped.
      provided (\<not> skipped)
        (bnd (gets dest_disks) (\<lambda>ds.
         bnd (ask_op E (SetBootOrder ref ds)) (\<lambda>r.
         provided (\<not> success r) (fail_step (''failed to set boot order: '' @ message r))))))))"

definition should_power_on :: "service \<Rightarrow> mstate \<Rightarrow> bool" where
  "should_power_on V s =
     (let o' = opt V ''power_on'' JNull in
      if o' \<noteq> JNull then truthy o'
      else if sv_mode V = ''move'' then source_was_running s else False)"

text \<open>The inner loop: poll after one start; whether the VM was seen running.\<close>

fun poll_running :: "env \<Rightarrow> string \<Rightarrow> rat \<Rightarrow> nat \<Rightarrow> bool step" where
  "poll_running E ref delay 0 = ret False"
| "poll_running E ref delay (Suc n) =
     bnd (power_state E Dest ref) (\<lambda>p.
       if lower p = ''running'' then ret True
       else andthen (log (Sleep delay)) (poll_running E ref delay n))"

text \<open>The outer loop over the start attempts left.\<close>

fun start_loop :: "env \<Rightarrow> string \<Rightarrow> int \<Rightarrow> nat \<Rightarrow> rat \<Rightarrow> nat list \<Rightarrow> unit step" where
  "start_loop E ref attempts poll_each delay [] =
     fail_step (''destination VM '' @ ref @ '' did not reach running after ''
       @ show_int attempts @ '' start attempts (storage device may not have assembled)'')"
| "start_loop E ref attempts poll_each delay (i # is) =
     bnd (ask_op E (StartVm Dest ref)) (\<lambda>r.
     andthen (provided (\<not> success r) (emit (''[dest] start returned: '' @ message r)))
     (bnd (poll_running E ref delay poll_each) (\<lambda>up.
      if up
      then provided (i \<noteq> 0)
             (emit (''[dest] reached running on start attempt '' @ show_nat (i + 1)))
      else andthen (emit (''[dest] not running after start attempt '' @ show_nat (i + 1) @ ''/''
               @ show_int attempts @ ''; the storage device may still be assembling on the host ''
               @ [CHR 0xE2, CHR 0x80, CHR 0x94] @ '' retrying''))
             (start_loop E ref attempts poll_each delay is))))"

definition power_on_dest :: "env \<Rightarrow> service \<Rightarrow> unit step" where
  "power_on_dest E V =
     bnd get_dest_ref (\<lambda>ref.
     bnd (gets (should_power_on V)) (\<lambda>on.
     if \<not> on then steps [
       phase ''leave destination powered off'',
       emit ''[dest] leaving destination VM powered off (per power-state option)'',
       modify (\<lambda>s. s\<lparr>powered_on := False\<rparr>)]
     else andthen (modify (\<lambda>s. s\<lparr>powered_on := True\<rparr>))
       (andthen (phase ''power on destination VM'')
       (if sv_dry_run V then
          emit (''[dry-run] would power on destination VM '' @ ref
            @ '' and wait for it to reach running'')
        else if is_mock E Dest then
          andthen (bnd (ask_op E (StartVm Dest ref)) (\<lambda>_. ret ()))
            (emit (''[mock] skipping power-on wait for '' @ ref))
        else
          bnd (lift_sum (py_int (opt V ''start_attempts'' (JInt 6)))) (\<lambda>attempts.
          bnd (lift_sum (py_int (opt V ''start_poll_attempts'' (JInt 8)))) (\<lambda>poll_each.
          bnd (lift_sum (py_float (opt V ''start_poll_delay'' (JFloat 3)))) (\<lambda>delay.
          start_loop E ref attempts (nat poll_each) delay [0..<nat attempts])))))))"

definition spec_volumes :: "vm_spec \<Rightarrow> string list" where
  "spec_volumes v = filter (\<lambda>x. x \<noteq> []) (map (\<lambda>d. fa_volume (identity d)) (disks v))"

definition volumes_text :: "vm_spec \<Rightarrow> string" where
  "volumes_text v = (if join '', '' (spec_volumes v) = [] then ''its volumes''
     else join '', '' (spec_volumes v))"

definition delete_source_volume :: "env \<Rightarrow> service \<Rightarrow> disk_spec \<Rightarrow> unit step" where
  "delete_source_volume E V d =
     (let vol = fa_volume (identity d) in
      if vol = [] \<or> \<not> has_array E Source then ret ()
      else tryc
        (bnd (skip V (''delete + eradicate source volume '' @ vol)) (\<lambda>skipped.
         provided (\<not> skipped)
           (bnd (gets source_hg) (\<lambda>hg. steps [
              provided (hg \<noteq> [])
                (ask (unit_answer E) (DisconnectVolumeFromGroup hg vol)),
              ask (unit_answer E) (DeleteVolume vol True),
              emit (''[move] deleted source volume '' @ vol)]))))
        (\<lambda>exc. emit (''[move] WARNING: could not delete source volume '' @ vol @ '': ''
                 @ describe_exn exc)))"

definition remove_source_vm :: "env \<Rightarrow> service \<Rightarrow> bool step" where
  "remove_source_vm E V =
     tryc (bnd (ask_op E (DeleteVm Source (sv_vm_ref V) True)) (\<lambda>r.
           andthen (provided (\<not> success r)
             (emit (''[move] WARNING: source VM removal failed: '' @ message r)))
           (ret (success r))))
       (\<lambda>exc. andthen (emit (''[move] WARNING: source VM removal error: '' @ describe_exn exc))
                 (ret False))"

definition finalize_move :: "env \<Rightarrow> service \<Rightarrow> unit step" where
  "finalize_move E V =
     andthen (phase ''finalize: remove source VM and delete source volume(s)'')
     (bnd get_spec (\<lambda>v.
      if sv_dry_run V then
        emit (''[dry-run] would remove source VM '' @ sv_vm_ref V
          @ '' and then delete + eradicate '' @ volumes_text v)
      else bnd (remove_source_vm E V) (\<lambda>removed.
        if \<not> removed then
          emit (''[move] WARNING: NOT deleting the source volume(s) because the source VM was ''
            @ ''not removed. The destination is running and is safe to use; the source VM still ''
            @ ''exists and still owns '' @ volumes_text v @ ''. Remove the source VM first, then ''
            @ ''delete those volumes by hand. (Eradicating them now would take the disks away ''
            @ ''from a live VM.)'')
        else foreach (disks v) (delete_source_volume E V))))"

definition finalize_copy :: "service \<Rightarrow> unit step" where
  "finalize_copy V =
     andthen (phase ''finalize: copy complete'')
     (if truthy (opt V ''shutdown_source'' (JBool False))
      then emit (''[copy] destination has an independent CLEAN copy; source left shut down ''
             @ ''(it was powered off for the copy and NOT restarted)'')
      else emit (''[copy] destination has an independent crash-consistent copy; source left ''
             @ ''running (untouched)''))"

section \<open>The run\<close>

text \<open>The body of the \<^verbatim>\<open>try\<close>.\<close>

definition migrate_body :: "env \<Rightarrow> service \<Rightarrow> unit step" where
  "migrate_body E V = steps [
     preflight E V,
     capture_spec E V,
     prepare_source_disks E V,
     resolve_volumes E,
     create_dest_vm E V,
     provided (sv_cross_array V) (ensure_array_connection E V),
     quiesce_source E V (sv_mode V = ''move''),
     build_destination_disks E V,
     finalize_dest_disks E V,
     provided (truthy (opt V ''convert_to_vmfs'' (JBool False))) (convert_dest_disks E V),
     set_boot E V,
     power_on_dest E V,
     provided (sv_cross_array V) (cleanup_replication E),
     (if sv_mode V = ''move'' then finalize_move E V else finalize_copy V)]"

fun run_undo :: "env \<Rightarrow> service \<Rightarrow> undo \<Rightarrow> unit step" where
  "run_undo E V (TeardownDest ref) = teardown_dest E ref"
| "run_undo E V RestartSource = bnd (ask_op E (StartVm Source (sv_vm_ref V))) (\<lambda>_. ret ())"
| "run_undo E V (CleanupPgroup pg) = ask (unit_answer E) (CleanupReplicationPgroup pg)"

definition unwind_rollback :: "env \<Rightarrow> service \<Rightarrow> string list step" where
  "unwind_rollback E V =
     bnd (gets rollback) (\<lambda>st.
     andthen (modify (\<lambda>s. s\<lparr>rollback := []\<rparr>)) (unwind emit (run_undo E V) st))"

definition failure_text :: "exn \<Rightarrow> string" where
  "failure_text e = (if exn_class e = ''MigrationError'' then exn_text e else describe_exn e)"

definition failed :: "env \<Rightarrow> service \<Rightarrow> exn \<Rightarrow> op_result step" where
  "failed E V exc =
     andthen (emit (''[migration] FAILED: '' @ failure_text exc))
     (bnd (unwind_rollback E V) (\<lambda>failures.
      andthen (cleanup_scratch E)
      (bnd (gets dest_vm_ref) (\<lambda>ref.
       ret (op_fail (''migration failed and was rolled back: '' @ failure_text exc) []
         ([(''phase'', JStr ''rolled_back''), (''dest_vm_ref'', opt_str ref)]
          @ (if failures = [] then []
             else [(''rollback_failures'', JList (map JStr failures))])))))))"

definition success_message :: "service \<Rightarrow> mstate \<Rightarrow> string" where
  "success_message V s =
     (let consistency =
            (if sv_mode V = ''move'' \<or> truthy (opt V ''shutdown_source'' (JBool False))
             then ''clean (source shut down)'' else ''crash-consistent (source left running)'');
          power = (if powered_on s then ''booted'' else ''left powered off'')
      in if sv_mode V = ''move''
         then ''move complete; destination built from a plugin-managed '' @ consistency
           @ '' copy and '' @ power @ ''; source VM removed, volume(s) deleted''
         else ''copy complete; destination built from a plugin-managed '' @ consistency
           @ '' copy and '' @ power @ ''; source untouched'')"

definition succeeded :: "env \<Rightarrow> service \<Rightarrow> op_result step" where
  "succeeded E V =
     andthen (cleanup_scratch E)
     (andthen (modify (\<lambda>s. s\<lparr>rollback := clear (rollback s)\<rparr>))
     (bnd (gets (success_message V)) (\<lambda>msg.
      bnd (gets dest_vm_ref) (\<lambda>ref.
      ret (op_ok msg
        [(''dest_vm_ref'', opt_str ref), (''source_vm_ref'', JStr (sv_vm_ref V)),
         (''mode'', JStr (sv_mode V)), (''cross_array'', JBool (sv_cross_array V))]
        [(''phase'', JStr ''succeeded'')])))))"

definition run_service :: "env \<Rightarrow> service \<Rightarrow> op_result step" where
  "run_service E V = (\<lambda>s.
     case migrate_body E V s of
       (Inl exc, s') \<Rightarrow> failed E V exc s'
     | (Inr _, s') \<Rightarrow> succeeded E V s')"

end
