(* ===== verification/Traces.thy ===== *)
theory Traces
  imports Main
begin

text \<open>
  Orders of events in a trace, which is a list with the oldest event first: the vocabulary of
  the safety properties of the migration, the array client and the job system.
\<close>

text \<open>\<open>preceded P Q t\<close>: before each event of \<open>t\<close> with \<open>P\<close> there is one with \<open>Q\<close>.\<close>

fun preceded_from :: "bool \<Rightarrow> ('e \<Rightarrow> bool) \<Rightarrow> ('e \<Rightarrow> bool) \<Rightarrow> 'e list \<Rightarrow> bool" where
  "preceded_from seen P Q [] = True"
| "preceded_from seen P Q (e # t) = ((P e \<longrightarrow> seen) \<and> preceded_from (seen \<or> Q e) P Q t)"

definition preceded :: "('e \<Rightarrow> bool) \<Rightarrow> ('e \<Rightarrow> bool) \<Rightarrow> 'e list \<Rightarrow> bool" where
  "preceded P Q t = preceded_from False P Q t"

lemma preceded_from_append:
  "preceded_from b P Q (t @ u) \<longleftrightarrow>
     preceded_from b P Q t \<and> preceded_from (b \<or> (\<exists>e \<in> set t. Q e)) P Q u"
  by (induction t arbitrary: b) auto

lemma preceded_snoc:
  "preceded P Q (t @ [e]) \<longleftrightarrow> preceded P Q t \<and> (P e \<longrightarrow> (\<exists>d \<in> set t. Q d))"
  by (simp add: preceded_def preceded_from_append)

lemma preceded_Nil [simp]: "preceded P Q []"
  by (simp add: preceded_def)

text \<open>The definition says what its name does.\<close>

lemma preceded_iff:
  "preceded P Q t \<longleftrightarrow> (\<forall>u e v. t = u @ e # v \<longrightarrow> P e \<longrightarrow> (\<exists>d \<in> set u. Q d))"
proof
  assume "preceded P Q t"
  then show "\<forall>u e v. t = u @ e # v \<longrightarrow> P e \<longrightarrow> (\<exists>d \<in> set u. Q d)"
    by (auto simp: preceded_def preceded_from_append)
next
  assume "\<forall>u e v. t = u @ e # v \<longrightarrow> P e \<longrightarrow> (\<exists>d \<in> set u. Q d)"
  then show "preceded P Q t"
  proof (induction t rule: rev_induct)
    case Nil
    show ?case by simp
  next
    case (snoc e t)
    then have "P e \<longrightarrow> (\<exists>d \<in> set t. Q d)" by blast
    moreover have "preceded P Q t" using snoc by (metis append.assoc append_Cons)
    ultimately show ?case by (simp add: preceded_snoc)
  qed
qed

end
