(* ===== verification/Migration_Traces.thy ===== *)
theory Migration_Traces
  imports Migration Traces
begin

text \<open>
  What the steps of a migration can do to the outside world. The locale \<open>observer\<close> is the
  contract between a property of the orchestrator's state and the orchestrator: the property
  may not depend on log lines, phase reports and sleeps nor on the attributes that only pass
  data between the steps, it must survive every call the observer allows, and every
  compensation it lets be pushed. Inside the locale each step is shown to keep the property if
  its calls and compensations are such; the steps that assign the spec, the destination's
  reference, its disks or the source's power state ask in addition that the property does not
  read them. \<open>run_observer\<close> is the contract of a property that reads only the trace and the
  stack, and survives the emptying of the stack. The properties of the migration are
  interpretations of the two locales.
\<close>

section \<open>Reading a trace\<close>

fun calls_of :: "event list \<Rightarrow> call list" where
  "calls_of [] = []"
| "calls_of (Call c r # t) = c # calls_of t"
| "calls_of (_ # t) = calls_of t"

definition calls :: "mstate \<Rightarrow> call list" where
  "calls s = calls_of (trace s)"

lemma calls_of_append [simp]: "calls_of (t @ u) = calls_of t @ calls_of u"
  by (induction t rule: calls_of.induct) auto

lemma calls_of_set: "c \<in> set (calls_of t) \<longleftrightarrow> (\<exists>r. Call c r \<in> set t)"
  by (induction t rule: calls_of.induct) auto

fun silent :: "event \<Rightarrow> bool" where
  "silent (Call _ _) = False"
| "silent _ = True"

section \<open>Observers\<close>

locale observer =
  fixes J :: "mstate \<Rightarrow> bool" and allowed :: "call \<Rightarrow> bool" and pushable :: "undo \<Rightarrow> bool"
  assumes silent_ok: "J s \<Longrightarrow> silent e \<Longrightarrow> J (s\<lparr>trace := trace s @ [e]\<rparr>)"
    and call_ok: "J s \<Longrightarrow> allowed c \<Longrightarrow> J (s\<lparr>trace := trace s @ [Call c o']\<rparr>)"
    and push_ok: "J s \<Longrightarrow> pushable u \<Longrightarrow> J (s\<lparr>rollback := push l u (rollback s)\<rparr>)"
    and pgroup_ok: "J s \<Longrightarrow> J (s\<lparr>repl_pgroup := p\<rparr>)"
    and names_ok: "J s \<Longrightarrow> J (s\<lparr>src_array_name := n\<rparr>)" "J s \<Longrightarrow> J (s\<lparr>dst_array_name := n\<rparr>)"
    and groups_ok: "J s \<Longrightarrow> J (s\<lparr>source_hg := a, dest_hg := b\<rparr>)"
begin

lemma keeps_log [keeps_intro]: "silent e \<Longrightarrow> keeps J (log e)"
  unfolding log_def by (rule keeps_modify) (simp add: silent_ok)

lemma keeps_emit [keeps_intro]: "keeps J (emit l)"
  unfolding emit_def by (rule keeps_log) simp

lemma keeps_ask [keeps_intro]: "allowed c \<Longrightarrow> keeps J (ask f c)"
  by (rule keepsI) (simp add: ask_def final_def Let_def call_ok)

lemma keeps_ask_text [keeps_intro]: "allowed c \<Longrightarrow> keeps J (ask_text E c)"
  by (rule keepsI) (simp add: ask_text_def final_def Let_def call_ok)

lemma keeps_ask_op [keeps_intro]: "allowed c \<Longrightarrow> keeps J (ask_op E c)"
  by (rule keepsI) (simp add: ask_op_def final_def Let_def call_ok)

lemma keeps_assign [keeps_intro]:
  "keeps J (modify (\<lambda>s. s\<lparr>repl_pgroup := p\<rparr>))"
  "keeps J (modify (\<lambda>s. s\<lparr>src_array_name := n\<rparr>))"
  "keeps J (modify (\<lambda>s. s\<lparr>dst_array_name := n\<rparr>))"
  "keeps J (modify (\<lambda>s. s\<lparr>source_hg := a, dest_hg := b\<rparr>))"
  by (auto intro!: keeps_modify pgroup_ok names_ok groups_ok)

text \<open>The attributes a property may read, and what it means that it does not.\<close>

definition spec_free :: bool where "spec_free \<longleftrightarrow> (\<forall>s v. J s \<longrightarrow> J (s\<lparr>spec := v\<rparr>))"
definition ref_free :: bool where "ref_free \<longleftrightarrow> (\<forall>s v. J s \<longrightarrow> J (s\<lparr>dest_vm_ref := v\<rparr>))"
definition disks_free :: bool where "disks_free \<longleftrightarrow> (\<forall>s v. J s \<longrightarrow> J (s\<lparr>dest_disks := v\<rparr>))"
definition running_free :: bool where
  "running_free \<longleftrightarrow> (\<forall>s v. J s \<longrightarrow> J (s\<lparr>source_was_running := v\<rparr>))"
definition power_free :: bool where
  "power_free \<longleftrightarrow> (\<forall>s v. J s \<longrightarrow> J (s\<lparr>powered_on := v\<rparr>))"

lemmas free_defs = spec_free_def ref_free_def disks_free_def running_free_def power_free_def

lemma keeps_set_spec [keeps_intro]: "spec_free \<Longrightarrow> keeps J (modify (\<lambda>s. s\<lparr>spec := f s\<rparr>))"
  by (rule keeps_modify) (simp add: spec_free_def)

lemma keeps_set_ref [keeps_intro]: "ref_free \<Longrightarrow> keeps J (modify (\<lambda>s. s\<lparr>dest_vm_ref := f s\<rparr>))"
  by (rule keeps_modify) (simp add: ref_free_def)

lemma keeps_set_disks [keeps_intro]: "disks_free \<Longrightarrow> keeps J (modify (\<lambda>s. s\<lparr>dest_disks := f s\<rparr>))"
  by (rule keeps_modify) (simp add: disks_free_def)

lemma keeps_set_running [keeps_intro]:
  "running_free \<Longrightarrow> keeps J (modify (\<lambda>s. s\<lparr>source_was_running := f s\<rparr>))"
  by (rule keeps_modify) (simp add: running_free_def)

lemma keeps_set_power [keeps_intro]:
  "power_free \<Longrightarrow> keeps J (modify (\<lambda>s. s\<lparr>powered_on := x\<rparr>))"
  by (rule keeps_modify) (simp add: power_free_def)

lemma keeps_fail_step [keeps_intro]: "keeps J (fail_step m)"
  unfolding fail_step_def by (rule keeps_raise)

lemma keeps_phase [keeps_intro]: "keeps J (phase p)"
  unfolding phase_def by (intro keeps_intro) simp_all

lemma keeps_skip [keeps_intro]: "keeps J (skip V what)"
  unfolding skip_def by (intro keeps_intro)

lemma keeps_get_spec [keeps_intro]: "keeps J get_spec"
  unfolding get_spec_def by (intro keeps_intro)

lemma keeps_get_dest_ref [keeps_intro]: "keeps J get_dest_ref"
  unfolding get_dest_ref_def by (intro keeps_intro)

lemma keeps_push_undo [keeps_intro]: "pushable u \<Longrightarrow> keeps J (push_undo l u)"
  unfolding push_undo_def by (rule keeps_modify) (simp add: push_ok)

lemma keeps_set_disk [keeps_intro]: "spec_free \<Longrightarrow> keeps J (set_disk i d)"
  unfolding set_disk_def by (intro keeps_intro) simp_all

lemma keeps_rename_spec [keeps_intro]: "spec_free \<Longrightarrow> keeps J (rename_spec n)"
  unfolding rename_spec_def by (intro keeps_intro) simp_all

lemma keeps_power_state [keeps_intro]:
  "allowed (PowerState sd ref) \<Longrightarrow> keeps J (power_state E sd ref)"
  unfolding power_state_def by (intro keeps_intro)

lemma keeps_power_or_unknown [keeps_intro]:
  "allowed (PowerState sd ref) \<Longrightarrow> keeps J (power_or_unknown E sd ref)"
  unfolding power_or_unknown_def by (intro keeps_intro)

lemma keeps_await_power_loop [keeps_intro]:
  "allowed (PowerState sd ref) \<Longrightarrow>
   keeps J (await_power_loop E sd ref target attempts delay is l)"
  by (induction "is" arbitrary: l) (auto intro!: keeps_intro)

lemma keeps_await_power [keeps_intro]:
  "allowed (PowerState sd ref) \<Longrightarrow> keeps J (await_power E V sd ref target)"
  unfolding await_power_def by (intro keeps_intro)

lemma keeps_preflight [keeps_intro]:
  assumes "\<And>sd. allowed (ValidateConnection sd)" "\<And>hg. allowed (RequireHostObjects hg)"
    "allowed ListNetworks"
  shows "keeps J (preflight E V)"
  unfolding preflight_def by (intro keeps_intro assms)

lemma keeps_capture_spec [keeps_intro]:
  "spec_free \<Longrightarrow> allowed (CaptureVmSpec (sv_vm_ref V)) \<Longrightarrow> keeps J (capture_spec E V)"
  unfolding capture_spec_def check_nic_def by (intro keeps_intro) simp_all

lemma keeps_prepare_source_disks [keeps_intro]:
  "spec_free \<Longrightarrow> (\<And>v o'. \<not> sv_dry_run V \<Longrightarrow> allowed (PrepareSourceDisks v o')) \<Longrightarrow>
   keeps J (prepare_source_disks E V)"
  unfolding prepare_source_disks_def skip_def
  by (cases "sv_dry_run V") (auto intro!: keeps_intro simp: provided_def andthen_def bnd_assoc)

lemma keeps_cleanup_scratch [keeps_intro]:
  "(\<And>v. allowed (CleanupScratch v)) \<Longrightarrow> keeps J (cleanup_scratch E)"
  unfolding cleanup_scratch_def by (intro keeps_intro)

lemma keeps_resolve_volumes [keeps_intro]:
  "spec_free \<Longrightarrow> (\<And>v. allowed (GetVolume v)) \<Longrightarrow> keeps J (resolve_volumes E)"
  unfolding resolve_volumes_def resolve_disk_def
  by (auto intro!: keeps_intro split: prod.splits)

lemma keeps_ensure_unique_dest_name [keeps_intro]:
  "spec_free \<Longrightarrow> allowed ListVms \<Longrightarrow> keeps J (ensure_unique_dest_name E)"
  unfolding ensure_unique_dest_name_def by (intro keeps_intro)

text \<open>A mutation guarded by \<^verbatim>\<open>if await self._skip(...)\<close> only happens outside a dry run.\<close>

lemma keeps_unless_skipped:
  "(sv_dry_run V \<Longrightarrow> keeps J (f True)) \<Longrightarrow> (\<not> sv_dry_run V \<Longrightarrow> keeps J (f False)) \<Longrightarrow>
   keeps J (bnd (skip V what) f)"
  unfolding skip_def
  by (cases "sv_dry_run V") (auto simp: andthen_def bnd_assoc intro!: keeps_bnd keeps_emit)

lemma keeps_provided_False [keeps_intro]: "keeps J (provided (\<not> True) m)"
  by (simp add: provided_def keeps_ret)

text \<open>An operation whose success is at once covered by a compensation.\<close>

lemma keeps_op_then_push:
  assumes op: "\<And>s o'. J s \<Longrightarrow> o' \<noteq> Done \<Longrightarrow> J (s\<lparr>trace := trace s @ [Call c o']\<rparr>)"
    and pushed: "\<And>s. J s \<Longrightarrow>
      J (s\<lparr>trace := trace s @ [Call c Done], rollback := push l u (rollback s)\<rparr>)"
    and k: "keeps J (steps k)"
  shows "keeps J (bnd (ask_op E c) (\<lambda>r.
    if \<not> success r then fail_step (f r) else steps (push_undo l u # k)))"
proof (rule keepsI)
  fix s
  assume s: "J s"
  show "J (final (bnd (ask_op E c) (\<lambda>r.
    if \<not> success r then fail_step (f r) else steps (push_undo l u # k))) s)"
  proof (cases "\<exists>x. op_answer E (trace s) c = Inr x \<and> success x")
    case True
    then obtain x where x: "op_answer E (trace s) c = Inr x" "success x" by blast
    define s' where "s' = s\<lparr>trace := trace s @ [Call c Done], rollback := push l u (rollback s)\<rparr>"
    have "final (bnd (ask_op E c) (\<lambda>r.
        if \<not> success r then fail_step (f r) else steps (push_undo l u # k))) s = final (steps k) s'"
      using x by (simp add: final_def bnd_def ask_op_def push_undo_def modify_def andthen_def s'_def)
    moreover have "J s'" using pushed s by (simp add: s'_def)
    ultimately show ?thesis using keepsD [OF k] by simp
  next
    case False
    then have "final (bnd (ask_op E c) (\<lambda>r.
        if \<not> success r then fail_step (f r) else steps (push_undo l u # k))) s
      = s\<lparr>trace := trace s @ [Call c (case op_answer E (trace s) c of Inl _ \<Rightarrow> Raised | Inr x \<Rightarrow> Refused)]\<rparr>"
      by (auto simp: final_def bnd_def ask_op_def Let_def fail_step_def raise_def split: sum.splits)
    then show ?thesis using op s by (simp split: sum.splits)
  qed
qed

text \<open>The rules for the effects themselves, for proofs about a single step of an interpretation.\<close>

lemmas effect_rules = keeps_log keeps_emit keeps_ask keeps_ask_text keeps_ask_op keeps_assign
  keeps_set_spec keeps_set_ref keeps_set_disks keeps_set_running keeps_set_power keeps_fail_step keeps_phase
  keeps_skip keeps_get_spec keeps_get_dest_ref keeps_push_undo keeps_rename_spec keeps_set_disk
  keeps_power_state keeps_power_or_unknown keeps_await_power keeps_provided_False

lemma keeps_teardown_dest [keeps_intro]:
  "allowed (StopVm Dest ref True) \<Longrightarrow> allowed (DeleteVm Dest ref False) \<Longrightarrow>
   keeps J (teardown_dest E ref)"
  unfolding teardown_dest_def by (intro keeps_intro)

lemma keeps_quiesce_source [keeps_intro]:
  assumes running_free "allowed (PowerState Source (sv_vm_ref V))"
    "\<And>f. \<not> sv_dry_run V \<Longrightarrow> allowed (StopVm Source (sv_vm_ref V) f)"
    "\<not> sv_dry_run V \<Longrightarrow> pushable RestartSource"
  shows "keeps J (quiesce_source E V force)"
  unfolding quiesce_source_def by (intro keeps_unless_skipped keeps_intro assms) simp_all

lemma keeps_await_replication [keeps_intro]: "keeps J (await_replication E V)"
  unfolding await_replication_def by (intro keeps_intro) simp_all

lemma keeps_make_dest_disk [keeps_intro]:
  "(\<And>sz n b. \<not> sv_dry_run V \<Longrightarrow> allowed (CreateManagedDisk ref sz n b)) \<Longrightarrow>
   keeps J (make_dest_disk E V ref d)"
  unfolding make_dest_disk_def by (intro keeps_intro) simp_all

lemma keeps_copy_source [keeps_intro]:
  assumes "\<And>v dn. \<not> sv_dry_run V \<Longrightarrow> sv_cross_array V \<Longrightarrow> allowed (ReplicateVolumeTo v dn pg)"
  shows "keeps J (copy_source E V pg d)"
  unfolding copy_source_def by (intro keeps_unless_skipped keeps_intro assms) simp_all

lemma keeps_build_disk [keeps_intro]:
  assumes disks_free "\<And>sz n b. \<not> sv_dry_run V \<Longrightarrow> allowed (CreateManagedDisk ref sz n b)"
    "\<And>v dn. \<not> sv_dry_run V \<Longrightarrow> sv_cross_array V \<Longrightarrow> allowed (ReplicateVolumeTo v dn pg)"
    "\<And>a b. \<not> sv_dry_run V \<Longrightarrow> allowed (CopyVolume a b True)"
  shows "keeps J (build_disk E V ref pg d)"
  unfolding build_disk_def by (intro keeps_unless_skipped keeps_intro assms) simp_all

lemma keeps_build_destination_disks [keeps_intro]:
  assumes disks_free "\<And>ref sz n b. \<not> sv_dry_run V \<Longrightarrow> allowed (CreateManagedDisk ref sz n b)"
    "\<And>v dn pg. \<not> sv_dry_run V \<Longrightarrow> sv_cross_array V \<Longrightarrow> allowed (ReplicateVolumeTo v dn pg)"
    "\<And>a b. \<not> sv_dry_run V \<Longrightarrow> allowed (CopyVolume a b True)"
    "\<And>pg. sv_cross_array V \<Longrightarrow> pushable (CleanupPgroup pg)"
  shows "keeps J (build_destination_disks E V)"
  unfolding build_destination_disks_def by (intro keeps_intro assms) simp_all

lemma keeps_finalize_dest_disks [keeps_intro]:
  assumes "\<And>ref ds. \<not> sv_dry_run V \<Longrightarrow> allowed (FinalizeDestinationDisks ref ds)"
  shows "keeps J (finalize_dest_disks E V)"
  unfolding finalize_dest_disks_def by (intro keeps_unless_skipped keeps_intro assms)

lemma keeps_convert_dest_disks [keeps_intro]:
  assumes "\<And>ref ds d. \<not> sv_dry_run V \<Longrightarrow> allowed (ConvertDisksToNative ref ds d)"
  shows "keeps J (convert_dest_disks E V)"
  unfolding convert_dest_disks_def by (intro keeps_unless_skipped keeps_intro assms)

lemma keeps_ensure_array_connection [keeps_intro]:
  assumes "\<And>sd. allowed (ArrayName sd)" "allowed ListArrayConnections" "allowed GetConnectionKey"
    "allowed GetReplicationAddresses" "\<And>m k a. \<not> sv_dry_run V \<Longrightarrow> allowed (ConnectToArray m k a)"
  shows "keeps J (ensure_array_connection E V)"
  unfolding ensure_array_connection_def by (intro keeps_unless_skipped keeps_intro assms) simp_all

lemma keeps_cleanup_replication [keeps_intro]:
  "(\<And>pg. allowed (CleanupReplicationPgroup pg)) \<Longrightarrow> keeps J (cleanup_replication E)"
  unfolding cleanup_replication_def by (intro keeps_intro)

lemma keeps_set_boot [keeps_intro]:
  assumes "\<And>ref ds. \<not> sv_dry_run V \<Longrightarrow> allowed (SetBootOrder ref ds)"
  shows "keeps J (set_boot E V)"
  unfolding set_boot_def by (intro keeps_unless_skipped keeps_intro assms)

lemma keeps_poll_running [keeps_intro]:
  "allowed (PowerState Dest ref) \<Longrightarrow> keeps J (poll_running E ref delay n)"
  by (induction n) (auto intro!: keeps_intro)

lemma keeps_start_loop [keeps_intro]:
  "allowed (PowerState Dest ref) \<Longrightarrow> allowed (StartVm Dest ref) \<Longrightarrow>
   keeps J (start_loop E ref attempts n delay is)"
  by (induction "is") (auto intro!: keeps_intro)

lemma keeps_power_on_dest [keeps_intro]:
  assumes power_free "\<And>ref. \<not> sv_dry_run V \<Longrightarrow> allowed (PowerState Dest ref)"
    "\<And>ref. \<not> sv_dry_run V \<Longrightarrow> allowed (StartVm Dest ref)"
  shows "keeps J (power_on_dest E V)"
  unfolding power_on_dest_def by (intro keeps_intro assms) simp_all

lemma keeps_remove_source_vm [keeps_intro]:
  "allowed (DeleteVm Source (sv_vm_ref V) True) \<Longrightarrow> keeps J (remove_source_vm E V)"
  unfolding remove_source_vm_def by (intro keeps_intro)

lemma keeps_delete_source_volume [keeps_intro]:
  assumes "\<And>hg v. \<not> sv_dry_run V \<Longrightarrow> allowed (DisconnectVolumeFromGroup hg v)"
    "\<And>v. \<not> sv_dry_run V \<Longrightarrow> allowed (DeleteVolume v True)"
  shows "keeps J (delete_source_volume E V d)"
  unfolding delete_source_volume_def by (intro keeps_unless_skipped keeps_intro assms)

lemma keeps_finalize_move [keeps_intro]:
  assumes "\<not> sv_dry_run V \<Longrightarrow> allowed (DeleteVm Source (sv_vm_ref V) True)"
    "\<And>hg v. \<not> sv_dry_run V \<Longrightarrow> allowed (DisconnectVolumeFromGroup hg v)"
    "\<And>v. \<not> sv_dry_run V \<Longrightarrow> allowed (DeleteVolume v True)"
  shows "keeps J (finalize_move E V)"
  unfolding finalize_move_def by (intro keeps_intro assms)

lemma keeps_finalize_copy [keeps_intro]: "keeps J (finalize_copy V)"
  unfolding finalize_copy_def by (intro keeps_intro)

lemma keeps_run_undo [keeps_intro]:
  assumes "\<And>ref. allowed (StopVm Dest ref True)" "\<And>ref. allowed (DeleteVm Dest ref False)"
    "allowed (StartVm Source (sv_vm_ref V))" "\<And>pg. allowed (CleanupReplicationPgroup pg)"
  shows "keeps J (run_undo E V u)"
  by (cases u) (auto intro!: keeps_intro assms)

lemma keeps_create_dest_vm [keeps_intro]:
  assumes spec_free ref_free "allowed ListVms" "\<And>v p. \<not> sv_dry_run V \<Longrightarrow> allowed (CreateVm v (sv_network_map V) p)"
    "\<And>ref. \<not> sv_dry_run V \<Longrightarrow> pushable (TeardownDest ref)"
  shows "keeps J (create_dest_vm E V)"
  unfolding create_dest_vm_def by (intro keeps_intro assms) simp_all

end

locale run_observer = observer +
  assumes spec_ok: "J s \<Longrightarrow> J (s\<lparr>spec := v\<rparr>)"
    and ref_ok: "J s \<Longrightarrow> J (s\<lparr>dest_vm_ref := r\<rparr>)"
    and disks_ok: "J s \<Longrightarrow> J (s\<lparr>dest_disks := d\<rparr>)"
    and running_ok: "J s \<Longrightarrow> J (s\<lparr>source_was_running := b\<rparr>)"
    and power_ok: "J s \<Longrightarrow> J (s\<lparr>powered_on := x\<rparr>)"
    and clear_ok: "J s \<Longrightarrow> J (s\<lparr>rollback := []\<rparr>)"
begin

lemma all_free [simp, intro!]: spec_free ref_free disks_free running_free power_free
  by (simp_all add: free_defs spec_ok ref_ok disks_ok running_ok power_ok)

lemma keeps_clear_stack [keeps_intro]: "keeps J (modify (\<lambda>s. s\<lparr>rollback := []\<rparr>))"
  by (rule keeps_modify) (simp add: clear_ok)

lemma keeps_clear [keeps_intro]:
  "keeps J (modify (\<lambda>s. s\<lparr>rollback := clear (rollback s)\<rparr>))"
  unfolding clear_def by (rule keeps_clear_stack)

end

end
