(* ===== verification/Migration_Demo.thy ===== *)
theory Migration_Demo
  imports Migration
begin

text \<open>
  A small world for the orchestrator: one VM with one disk, a source and a destination whose
  operations succeed except those the parameter \<open>fails\<close> names, and a source VM that is running
  until it is asked to stop. The witnesses of the migration's properties run here.
\<close>

definition demo_disk :: disk_spec where
  "demo_disk =
     \<lparr>identity = \<lparr>fa_volume = ''v0'', serial = None, wwid = None, size_bytes = Some 1048576\<rparr>,
      bus = ''scsi'', disk_order = 0, boot = True, disk_source_ref = ''d0''\<rparr>"

definition demo_spec :: vm_spec where
  "demo_spec =
     \<lparr>vm_name = ''web'', vm_source_ref = ''a1'', vcpus = 2, memory_bytes = 1048576,
      firmware = ''uefi'', secure_boot = False, disks = [demo_disk], nics = [],
      guest_os_hint = [], raw = []\<rparr>"

fun demo_text :: "event list \<Rightarrow> call \<Rightarrow> exn + string" where
  "demo_text t (PowerState Source r) =
     Inr (if (\<exists>e \<in> set t. case e of Call (StopVm Source _ _) Done \<Rightarrow> True | _ \<Rightarrow> False)
          then ''stopped'' else ''running'')"
| "demo_text t (PowerState Dest r) = Inr ''running''"
| "demo_text t (CreateManagedDisk r sz n b) = Inr (''w'' @ show_int n)"
| "demo_text t _ = Inr ''x''"

definition demo_env :: "(call \<Rightarrow> bool) \<Rightarrow> env" where
  "demo_env fails =
     \<lparr>supports_migrate = (\<lambda>_. True), connector_key = (\<lambda>_. ''demo''), has_array = (\<lambda>_. True),
      is_mock = (\<lambda>_. False), migration_host_group = (\<lambda>_. ''hg''),
      dest_manages_presentation = False, dest_endpoint = ''a'', show_dict = (\<lambda>_. []),
      op_answer = (\<lambda>t c. Inr (if fails c then op_fail ''no'' [] []
                                else op_ok [] [(''vm_ref'', JStr ''b7'')] [])),
      unit_answer = (\<lambda>t c. Inr ()),
      text_answer = demo_text,
      texts_answer = (\<lambda>t c. Inr []),
      dicts_answer = (\<lambda>t c. Inr []),
      spec_answer = (\<lambda>t c. Inr (case c of CaptureVmSpec _ \<Rightarrow> Some demo_spec | _ \<Rightarrow> None)),
      volume_answer = (\<lambda>t c. Inr (Some \<lparr>vi_serial = Some ''A1'', vi_size = Some 1048576,
                                         vi_destroyed = False\<rparr>))\<rparr>"

definition demo_service :: "string \<Rightarrow> bool \<Rightarrow> bool \<Rightarrow> service" where
  "demo_service mode cross dry =
     \<lparr>sv_vm_ref = ''a1'', sv_network_map = [], sv_options = [(''poll_attempts'', JInt 2), (''start_attempts'', JInt 2),
        (''start_poll_attempts'', JInt 2)], sv_mode = mode,
      sv_cross_array = cross, sv_dry_run = dry\<rparr>"

fun is_set_boot :: "call \<Rightarrow> bool" where
  "is_set_boot (SetBootOrder _ _) = True"
| "is_set_boot _ = False"

section \<open>Running the orchestrator there\<close>

lemma demo_env_sel:
  "supports_migrate (demo_env fails) sd" "connector_key (demo_env fails) sd = ''demo''"
  "has_array (demo_env fails) sd" "\<not> is_mock (demo_env fails) sd"
  "migration_host_group (demo_env fails) sd = ''hg''"
  "\<not> dest_manages_presentation (demo_env fails)" "dest_endpoint (demo_env fails) = ''a''"
  "op_answer (demo_env fails) t c =
     Inr (if fails c then op_fail ''no'' [] [] else op_ok [] [(''vm_ref'', JStr ''b7'')] [])"
  "unit_answer (demo_env fails) t c = Inr ()"
  "text_answer (demo_env fails) = demo_text"
  "texts_answer (demo_env fails) t c = Inr []"
  "dicts_answer (demo_env fails) t c = Inr []"
  "spec_answer (demo_env fails) t c =
     Inr (case c of CaptureVmSpec _ \<Rightarrow> Some demo_spec | _ \<Rightarrow> None)"
  "volume_answer (demo_env fails) t c =
     Inr (Some \<lparr>vi_serial = Some ''A1'', vi_size = Some 1048576, vi_destroyed = False\<rparr>)"
  by (simp_all add: demo_env_def)

lemma demo_words:
  "lower ''running'' = ''running''" "lower ''stopped'' = ''stopped''"
  "show_int 0 = ''0''" "nonempty None = None" "nonempty (Some ''A1'') = Some ''A1''"
  by code_simp+

lemma demo_upt: "[0..<2] = [0, 1 :: nat]"
  by (simp add: upt_rec)

lemma demo_poll:
  "poll_running E ref delay (numeral k) = bnd (power_state E Dest ref) (\<lambda>p.
     if lower p = ''running'' then ret True
     else andthen (log (Sleep delay)) (poll_running E ref delay (pred_numeral k)))"
  by (simp add: numeral_eq_Suc)

lemma run_emit: "emit l s = (Inr (), s\<lparr>trace := trace s @ [Emit l]\<rparr>)"
  by (simp add: emit_def log_def modify_def)

lemma run_log: "log e s = (Inr (), s\<lparr>trace := trace s @ [e]\<rparr>)"
  by (simp add: log_def modify_def)

lemma run_fail_step: "fail_step m s = (Inl (migration_error m), s)"
  by (simp add: fail_step_def raise_def)

lemma run_phase:
  "phase p s = (Inr (), s\<lparr>trace := trace s @
     [Emit (''=== '' @ p @ '' ===''), Phase p (spec s) (dest_vm_ref s)]\<rparr>)"
  by (simp add: phase_def run_rules run_emit run_log)

text \<open>Log texts are left as they are: no theorem reads them.\<close>

lemma text_cong:
  "emit l = emit l" "phase l = phase l" "fail_step l = fail_step l" "Emit l = Emit l"
  "migration_error l = migration_error l" "skip V l = skip V l" "Exn cl l = Exn cl l"
  "a = b \<Longrightarrow> c = d \<Longrightarrow> Phase l a c = Phase l b d"
  "b' = b'' \<Longrightarrow> ar = ar' \<Longrightarrow> dt = dt' \<Longrightarrow>
     op_result.fields b' l' ar dt = op_result.fields b'' l' ar' dt'"
  by simp_all

lemmas demo_step_defs = preflight_def capture_spec_def prepare_source_disks_def
  resolve_volumes_def create_dest_vm_def ensure_array_connection_def quiesce_source_def
  build_destination_disks_def finalize_dest_disks_def convert_dest_disks_def set_boot_def
  power_on_dest_def cleanup_replication_def finalize_move_def finalize_copy_def
  resolve_disk_def fill_identity_def set_disk_def ensure_unique_dest_name_def rename_spec_def
  build_disk_def copy_source_def make_dest_disk_def await_power_def await_replication_def
  remove_source_vm_def delete_source_volume_def cleanup_scratch_def teardown_dest_def
  check_nic_def

lemmas demo_helper_defs = skip_def opt_def ask_op_def ask_def ask_text_def get_spec_def
  get_dest_ref_def power_state_def power_or_unknown_def placement_of_def ref_of_json_def
  push_undo_def should_power_on_def unknown_networks_def network_ids_def network_names_def
  dict_get_def lift_sum_def py_float_def py_int_def vm_names_def or_str_def or_int_def
  op_ok_def op_fail_def push_def clear_def Let_def

lemmas demo_run = demo_env_sel demo_words demo_upt demo_poll demo_service_def demo_spec_def demo_disk_def
  init_state_def run_rules run_emit run_log run_fail_step run_phase demo_step_defs demo_helper_defs
  run_service_def migrate_body_def failed_def succeeded_def unwind_rollback_def unwind_def
  result_def final_def

lemmas demo_cong = run_cong text_cong

end
