(* ===== verification/Migration_Safety.thy ===== *)
theory Migration_Safety
  imports Migration_Traces Migration_Demo
begin

text \<open>
  What a migration may do to the source, and when; what a dry run may do; that a run always
  ends in a result. Each group of facts interprets \<open>observer\<close> or \<open>run_observer\<close> on the
  property's own predicate of states.
\<close>

section \<open>Kinds of calls\<close>

text \<open>The calls that take something away from the source VM or its volumes.\<close>

fun destroys_source :: "call \<Rightarrow> bool" where
  "destroys_source (DeleteVm Source _ _) = True"
| "destroys_source (DeleteVolume _ _) = True"
| "destroys_source (DisconnectVolumeFromGroup _ _) = True"
| "destroys_source _ = False"

text \<open>The calls that change nothing anywhere.\<close>

fun read_only :: "call \<Rightarrow> bool" where
  "read_only (ValidateConnection _) = True"
| "read_only (RequireHostObjects _) = True"
| "read_only ListNetworks = True"
| "read_only (CaptureVmSpec _) = True"
| "read_only (GetVolume _) = True"
| "read_only ListVms = True"
| "read_only (PowerState _ _) = True"
| "read_only (ArrayName _) = True"
| "read_only ListArrayConnections = True"
| "read_only GetConnectionKey = True"
| "read_only GetReplicationAddresses = True"
| "read_only _ = False"

fun is_delete_volume :: "event \<Rightarrow> bool" where
  "is_delete_volume (Call (DeleteVolume _ _) _) = True"
| "is_delete_volume _ = False"

lemma not_destroys [simp]:
  "\<not> destroys_source (DeleteVm Dest r k)"
  by simp

section \<open>The last step and the ones before it\<close>

definition before_finalize :: "env \<Rightarrow> service \<Rightarrow> unit step" where
  "before_finalize E V = steps [
     preflight E V, capture_spec E V, prepare_source_disks E V, resolve_volumes E,
     create_dest_vm E V, provided (sv_cross_array V) (ensure_array_connection E V),
     quiesce_source E V (sv_mode V = ''move''), build_destination_disks E V,
     finalize_dest_disks E V,
     provided (truthy (opt V ''convert_to_vmfs'' (JBool False))) (convert_dest_disks E V),
     set_boot E V, power_on_dest E V, provided (sv_cross_array V) (cleanup_replication E)]"

definition finalize :: "env \<Rightarrow> service \<Rightarrow> unit step" where
  "finalize E V = (if sv_mode V = ''move'' then finalize_move E V else finalize_copy V)"

lemma andthen_ret_unit: "andthen m (ret ()) = m"
  by (auto simp: fun_eq_iff andthen_def bnd_def ret_def split: prod.splits sum.splits)

lemma migrate_body_split: "migrate_body E V = andthen (before_finalize E V) (finalize E V)"
  by (simp add: migrate_body_def before_finalize_def finalize_def andthen_assoc andthen_ret_unit)

context run_observer
begin

lemma keeps_before_finalize:
  assumes "\<And>c. \<not> destroys_source c \<Longrightarrow> allowed c" and "\<And>u. pushable u"
  shows "keeps J (before_finalize E V)"
  unfolding before_finalize_def by (intro keeps_intro assms) simp_all

lemma keeps_before_finalize_dry_run:
  assumes "sv_dry_run V" and "\<And>c. read_only c \<Longrightarrow> allowed c"
    and "\<And>pg. sv_cross_array V \<Longrightarrow> allowed (CleanupReplicationPgroup pg)"
    and "\<And>pg. sv_cross_array V \<Longrightarrow> pushable (CleanupPgroup pg)"
  shows "keeps J (before_finalize E V)"
  unfolding before_finalize_def
  by (intro keeps_intro assms(3,4)) (simp_all add: assms(1,2))

end

context run_observer
begin

lemma keeps_unwind_rollback:
  assumes "\<And>s e. J s \<Longrightarrow> e \<in> set (rollback s) \<Longrightarrow> keeps J (run_undo E V (undo e))"
  shows "keeps J (unwind_rollback E V)"
proof (rule keepsI)
  fix s
  assume s: "J s"
  then have "keeps J (andthen (modify (\<lambda>s. s\<lparr>rollback := []\<rparr>))
      (unwind emit (run_undo E V) (rollback s)))"
    by (intro keeps_intro assms)
  then show "J (final (unwind_rollback E V) s)"
    using s by (auto simp: unwind_rollback_def final_def bnd_def gets_def keeps_def)
qed

lemma keeps_failed:
  assumes "\<And>s e. J s \<Longrightarrow> e \<in> set (rollback s) \<Longrightarrow> keeps J (run_undo E V (undo e))"
    and "\<And>v. allowed (CleanupScratch v)"
  shows "keeps J (failed E V exc)"
  unfolding failed_def by (intro keeps_intro keeps_unwind_rollback assms)

lemma keeps_succeeded:
  assumes "\<And>v. allowed (CleanupScratch v)"
  shows "keeps J (succeeded E V)"
  unfolding succeeded_def by (intro keeps_intro assms)

lemma keeps_run_service:
  assumes "keeps J (before_finalize E V)" and "keeps J (finalize E V)"
    and "\<And>s e. J s \<Longrightarrow> e \<in> set (rollback s) \<Longrightarrow> keeps J (run_undo E V (undo e))"
    and "\<And>v. allowed (CleanupScratch v)"
  shows "keeps J (run_service E V)"
proof (rule keepsI)
  fix s
  assume "J s"
  moreover have "keeps J (migrate_body E V)"
    unfolding migrate_body_split by (intro keeps_andthen assms)
  moreover have "keeps J (failed E V exc)" for exc
    by (intro keeps_failed assms)
  moreover have "keeps J (succeeded E V)"
    by (intro keeps_succeeded assms)
  ultimately show "J (final (run_service E V) s)"
    by (auto simp: run_service_def final_def keeps_def split: prod.splits sum.splits)
qed

end

section \<open>A run always ends in a result\<close>

lemma quiet_emit [quiet_intro]: "never_raises (emit l)"
  unfolding emit_def log_def by (intro quiet_intro)

lemma quiet_log [quiet_intro]: "never_raises (log e)"
  unfolding log_def by (intro quiet_intro)

lemma quiet_phase [quiet_intro]: "never_raises (phase p)"
  unfolding phase_def by (intro quiet_intro)

lemma quiet_skip [quiet_intro]: "never_raises (skip V w)"
  unfolding skip_def by (intro quiet_intro)

lemma quiet_cleanup_scratch [quiet_intro]: "never_raises (cleanup_scratch E)"
  unfolding never_raises_def
proof
  fix s
  have "never_raises (case v of None \<Rightarrow> ret ()
      | Some x \<Rightarrow> tryc (ask (unit_answer E) (CleanupScratch x))
          (\<lambda>exc. emit (''[migration] scratch cleanup warning: '' @ exn_text exc)))" for v
    by (cases v) (auto intro: quiet_intro)
  then have "never_raises (cleanup_scratch E)"
    unfolding cleanup_scratch_def by (intro quiet_intro)
  then show "\<exists>x. result (cleanup_scratch E) s = Inr x"
    by (simp add: never_raises_def)
qed

text \<open>The compensations' calls, for the stack's contract.\<close>

fun undo_calls :: "service \<Rightarrow> undo \<Rightarrow> call list" where
  "undo_calls V (TeardownDest ref) = [StopVm Dest ref True, DeleteVm Dest ref False]"
| "undo_calls V RestartSource = [StartVm Source (sv_vm_ref V)]"
| "undo_calls V (CleanupPgroup pg) = [CleanupReplicationPgroup pg]"

lemma calls_log [simp]: "silent e \<Longrightarrow> calls (final (log e) s) = calls s"
  by (cases e) (simp_all add: log_def final_def modify_def calls_def)

lemma calls_emit [simp]: "calls (final (emit l) s) = calls s"
  by (simp add: emit_def)

lemma calls_ask_op: "calls (final (ask_op E c) s) = calls s @ [c]"
  by (simp add: ask_op_def final_def Let_def calls_def)

lemma calls_ask: "calls (final (ask f c) s) = calls s @ [c]"
  by (simp add: ask_def final_def Let_def calls_def)

lemma calls_ask_text: "calls (final (ask_text E c) s) = calls s @ [c]"
  by (simp add: ask_text_def final_def Let_def calls_def)

lemma calls_run_undo: "calls (final (run_undo E V u) s) = calls s @ undo_calls V u"
proof (cases u)
  case (TeardownDest ref)
  let ?stop = "tryc (bnd (ask_op E (StopVm Dest ref True)) (\<lambda>_. ret ()))
       (\<lambda>exc. emit (''[rollback] stop '' @ ref @ '' before delete: '' @ describe_exn exc))"
  have "calls (final ?stop s) = calls s @ [StopVm Dest ref True]"
    using final_tryc_cases [of "bnd (ask_op E (StopVm Dest ref True)) (\<lambda>_. ret ())" _ s]
    by (metis calls_ask_op calls_emit final_discard)
  moreover have "never_raises ?stop" by (intro quiet_intro)
  ultimately show ?thesis
    using TeardownDest
    by (simp only: run_undo.simps teardown_dest_def final_andthen_quiet final_discard calls_ask_op
        undo_calls.simps append_assoc append.simps)
next
  case RestartSource
  then show ?thesis by (simp add: calls_ask_op)
next
  case (CleanupPgroup pg)
  then show ?thesis by (simp add: calls_ask)
qed

interpretation mig: rollback_host emit "run_undo E V" calls "undo_calls V" for E V
  by unfold_locales (auto intro: quiet_intro simp: calls_run_undo)

lemma quiet_unwind_rollback [quiet_intro]: "never_raises (unwind_rollback E V)"
  unfolding unwind_rollback_def by (intro quiet_intro mig.unwind_complete)

lemma quiet_failed [quiet_intro]: "never_raises (failed E V exc)"
  unfolding failed_def by (intro quiet_intro)

lemma quiet_succeeded [quiet_intro]: "never_raises (succeeded E V)"
  unfolding succeeded_def by (intro quiet_intro)

lemma quiet_run_service: "never_raises (run_service E V)"
  unfolding never_raises_def
proof
  fix s
  show "\<exists>x. result (run_service E V) s = Inr x"
    using quiet_failed [of E V] quiet_succeeded [of E V]
    by (auto simp: run_service_def result_def never_raises_def split: prod.splits sum.splits)
qed

section \<open>The source is destroyed last, and only when the source VM is gone\<close>

abbreviation vm_removed :: "service \<Rightarrow> event" where
  "vm_removed V \<equiv> Call (DeleteVm Source (sv_vm_ref V) True) Done"

interpretation untouched: run_observer
  "\<lambda>s :: mstate. \<forall>c \<in> set (calls_of (trace s)). \<not> destroys_source c"
  "\<lambda>c. \<not> destroys_source c" "\<lambda>_. True"
  by unfold_locales (auto elim: silent.elims)

interpretation guarded: run_observer
  "\<lambda>s :: mstate. preceded is_delete_volume (\<lambda>e. e = vm_removed V) (trace s)"
  "\<lambda>c. \<not> is_delete_volume (Call c Done)" "\<lambda>_. True" for V
proof unfold_locales
  fix s :: mstate and e
  assume "preceded is_delete_volume (\<lambda>e. e = vm_removed V) (trace s)" "silent e"
  then show "preceded is_delete_volume (\<lambda>e. e = vm_removed V) (trace (s\<lparr>trace := trace s @ [e]\<rparr>))"
    by (cases e) (simp_all add: preceded_snoc)
next
  fix s :: mstate and c r
  assume "preceded is_delete_volume (\<lambda>e. e = vm_removed V) (trace s)"
    "\<not> is_delete_volume (Call c Done)"
  then show "preceded is_delete_volume (\<lambda>e. e = vm_removed V)
      (trace (s\<lparr>trace := trace s @ [Call c r]\<rparr>))"
    by (cases c) (simp_all add: preceded_snoc)
qed simp_all

text \<open>Once the source VM is removed, every call is allowed.\<close>

interpretation committed: run_observer
  "\<lambda>s :: mstate. preceded is_delete_volume (\<lambda>e. e = vm_removed V) (trace s) \<and>
     vm_removed V \<in> set (trace s)"
  "\<lambda>_. True" "\<lambda>_. True" for V
  by unfold_locales (auto simp: preceded_snoc)

lemma not_deleting: "\<not> destroys_source c \<Longrightarrow> \<not> is_delete_volume (Call c Done)"
  by (cases c) auto

text \<open>\<open>remove_source_vm\<close> never raises, and says yes only after the connector did.\<close>

lemma quiet_remove_source_vm [quiet_intro]: "never_raises (remove_source_vm E V)"
  unfolding remove_source_vm_def by (intro quiet_intro)

lemma emit_trace: "emit l s = (Inr (), s\<lparr>trace := trace s @ [Emit l]\<rparr>)"
  by (simp add: emit_def log_def modify_def)

lemma remove_source_vm_True:
  fixes s :: mstate
  assumes "remove_source_vm E V s = (Inr True, t)"
  shows "t = s\<lparr>trace := trace s @ [vm_removed V]\<rparr>"
  using assms
  by (cases "op_answer E (trace s) (DeleteVm Source (sv_vm_ref V) True)")
     (auto simp: remove_source_vm_def tryc_def bnd_def andthen_def ask_op_def Let_def ret_def
        provided_def emit_trace split: if_splits)

lemma keeps_guarded_finalize_move:
  "keeps (\<lambda>s. preceded is_delete_volume (\<lambda>e. e = vm_removed V) (trace s)) (finalize_move E V)"
proof (cases "sv_dry_run V")
  case True
  then show ?thesis by (intro guarded.keeps_finalize_move) simp_all
next
  case False
  let ?P = "\<lambda>s :: mstate. preceded is_delete_volume (\<lambda>e. e = vm_removed V) (trace s)"
  have loop: "keeps (\<lambda>s. ?P s \<and> vm_removed V \<in> set (trace s))
      (foreach ds (delete_source_volume E V))" for ds
    by (intro keeps_foreach committed.keeps_delete_source_volume) simp_all
  have body: "keeps ?P (bnd (remove_source_vm E V) (\<lambda>removed.
      if \<not> removed then emit msg else foreach ds (delete_source_volume E V)))" for msg ds
  proof (rule keepsI)
    fix s
    assume s: "?P s"
    obtain r t where t: "remove_source_vm E V s = (Inr r, t)"
      by (rule never_raises_obtain [OF quiet_remove_source_vm])
    have "keeps ?P (remove_source_vm E V)" by (rule guarded.keeps_remove_source_vm) simp
    with s t have Pt: "?P t" by (auto dest: keeps_runD)
    have quiet: "keeps ?P (emit msg)" by (rule guarded.keeps_emit)
    show "?P (final (bnd (remove_source_vm E V) (\<lambda>removed.
        if \<not> removed then emit msg else foreach ds (delete_source_volume E V))) s)"
    proof (cases r)
      case True
      then have "vm_removed V \<in> set (trace t)" using remove_source_vm_True [of E V s t] t by auto
      with Pt keepsD [OF loop [of ds], of t] True t show ?thesis by (simp add: final_def bnd_def)
    next
      case False
      with keepsD [OF quiet, of t] Pt t show ?thesis
        by (simp add: final_def bnd_def)
    qed
  qed
  show ?thesis
    unfolding finalize_move_def
    by (rule keeps_andthen [OF guarded.keeps_phase keeps_bnd [OF guarded.keeps_get_spec]])
       (simp only: False if_False body)
qed

text \<open>
  C1. Whatever the connectors and arrays answer, a migration never deletes a source volume
  unless, earlier in the same run, the source connector was asked to delete the source VM and
  reported success: eradicating the volumes can not strip the disks from a VM that still exists.
\<close>

theorem source_volumes_outlive_source_vm:
  "preceded is_delete_volume (\<lambda>e. e = Call (DeleteVm Source (sv_vm_ref V) True) Done)
     (trace (final (run_service E V) init_state))"
proof -
  have "keeps (\<lambda>s. preceded is_delete_volume (\<lambda>e. e = vm_removed V) (trace s)) (run_service E V)"
  proof (rule guarded.keeps_run_service)
    show "keeps (\<lambda>s. preceded is_delete_volume (\<lambda>e. e = vm_removed V) (trace s)) (before_finalize E V)"
      by (rule guarded.keeps_before_finalize) (simp_all add: not_deleting)
    show "keeps (\<lambda>s. preceded is_delete_volume (\<lambda>e. e = vm_removed V) (trace s)) (finalize E V)"
      unfolding finalize_def
      by (intro keeps_if keeps_guarded_finalize_move guarded.keeps_finalize_copy)
    show "keeps (\<lambda>s. preceded is_delete_volume (\<lambda>e. e = vm_removed V) (trace s)) (run_undo E V u)" for u
      by (rule guarded.keeps_run_undo) simp_all
  qed simp
  then show ?thesis by (rule keepsD) (simp add: init_state_def)
qed

section \<open>A failed migration leaves the source alone\<close>

lemma trace_get_spec: "get_spec s = (x, t) \<Longrightarrow> t = s"
  by (auto simp: get_spec_def bnd_def gets_def raise_def ret_def split: option.splits)

lemma quiet_delete_source_volume [quiet_intro]: "never_raises (delete_source_volume E V d)"
  unfolding delete_source_volume_def Let_def by (intro quiet_intro)

lemma quiet_finalize_copy [quiet_intro]: "never_raises (finalize_copy V)"
  unfolding finalize_copy_def by (intro quiet_intro)

text \<open>The last step raises in one place only, before it does anything: when there is no spec.\<close>

lemma finalize_move_raises:
  assumes "finalize_move E V s = (Inl e, t)"
  shows "calls t = calls s"
proof -
  obtain s1 where s1: "phase ''finalize: remove source VM and delete source volume(s)'' s = (Inr (), s1)"
    using never_raises_obtain [OF quiet_phase] by (metis (full_types) old.unit.exhaust)
  have c: "calls s1 = calls s"
    using s1 by (auto simp: phase_def emit_def log_def andthen_def bnd_def modify_def gets_def calls_def)
  have quiet: "never_raises (if sv_dry_run V then emit m else bnd (remove_source_vm E V) (\<lambda>removed.
      if \<not> removed then emit m' else foreach ds (delete_source_volume E V)))" for m m' ds
    by (intro quiet_intro)
  show ?thesis
  proof (cases "get_spec s1")
    case (Pair r s2)
    then have "s2 = s1" by (rule trace_get_spec)
    then show ?thesis
      using assms s1 c Pair never_raisesD [OF quiet]
      by (cases r) (auto simp: finalize_move_def andthen_def bnd_def)
  qed
qed

lemma finalize_raises: "finalize E V s = (Inl e, t) \<Longrightarrow> calls t = calls s"
  using finalize_move_raises never_raisesD [OF quiet_finalize_copy]
  by (auto simp: finalize_def split: if_splits)

lemma body_raises_untouched:
  assumes "migrate_body E V init_state = (Inl e, t)"
  shows "\<forall>c \<in> set (calls t). \<not> destroys_source c"
proof -
  have init: "\<forall>c \<in> set (calls_of (trace init_state)). \<not> destroys_source c"
    by (simp add: init_state_def)
  have keeps: "keeps (\<lambda>s. \<forall>c \<in> set (calls_of (trace s)). \<not> destroys_source c) (before_finalize E V)"
    by (rule untouched.keeps_before_finalize) simp_all
  obtain r s1 where s1: "before_finalize E V init_state = (r, s1)" by fastforce
  with keeps init have "\<forall>c \<in> set (calls_of (trace s1)). \<not> destroys_source c"
    by (blast dest: keeps_runD)
  moreover have "calls t = calls s1"
    using assms s1 finalize_raises
    by (cases r) (auto simp: migrate_body_split andthen_def bnd_def)
  ultimately show ?thesis by (simp add: calls_def)
qed

lemma run_failed:
  assumes "result (run_service E V) s = Inr r" and "\<not> success r"
  obtains e t where "migrate_body E V s = (Inl e, t)"
    and "final (run_service E V) s = final (failed E V e) t"
proof (cases "migrate_body E V s")
  case (Pair x t)
  show thesis
  proof (cases x)
    case (Inl e)
    then show thesis using that Pair by (simp add: run_service_def final_def)
  next
    case (Inr u)
    have "result (succeeded E V) t = Inr r"
      using assms(1) Pair Inr by (simp add: run_service_def result_def)
    moreover obtain s1 where "cleanup_scratch E t = (Inr (), s1)"
      by (metis (full_types) never_raises_obtain old.unit.exhaust quiet_cleanup_scratch)
    ultimately have "success r"
      by (auto simp: succeeded_def result_def andthen_def bnd_def modify_def gets_def ret_def)
    with assms(2) show thesis by simp
  qed
qed

text \<open>
  C2. If a migration fails, for whatever reason and at whatever step, then nothing was taken
  away from the source: its VM was never asked to be deleted, no source volume was deleted or
  disconnected, not even by the rollback.
\<close>

theorem failed_migration_leaves_source:
  assumes "result (run_service E V) init_state = Inr r" and "\<not> success r"
  shows "\<forall>c \<in> set (calls (final (run_service E V) init_state)). \<not> destroys_source c"
proof -
  obtain e t where t: "migrate_body E V init_state = (Inl e, t)"
    "final (run_service E V) init_state = final (failed E V e) t"
    using assms by (rule run_failed)
  have "keeps (\<lambda>s. \<forall>c \<in> set (calls_of (trace s)). \<not> destroys_source c) (failed E V e)"
    by (intro untouched.keeps_failed untouched.keeps_run_undo) simp_all
  then show ?thesis
    using body_raises_untouched [OF t(1)] by (simp add: t(2) keeps_def calls_def)
qed

text \<open>In the demo world, the boot order can not be set, after the source was shut down.\<close>

abbreviation demo_failing :: "op_result step" where
  "demo_failing \<equiv> run_service (demo_env is_set_boot) (demo_service ''move'' False False)"

lemma demo_failing_fails:
  obtains r where "result demo_failing init_state = Inr r" and "\<not> success r"
  by (simp add: demo_run cong: demo_cong split del: if_split)

theorem failed_migration_leaves_source_witness:
  "\<exists>r. result demo_failing init_state = Inr r \<and> \<not> success r \<and>
     list_all (\<lambda>c. \<not> destroys_source c) (calls (final demo_failing init_state))"
proof -
  obtain r where r: "result demo_failing init_state = Inr r" "\<not> success r"
    by (rule demo_failing_fails)
  with failed_migration_leaves_source [OF r] show ?thesis by (auto simp: list_all_iff)
qed

section \<open>Dry runs\<close>

text \<open>What a dry run may call: reads, the source connector's scratch cleanup, and, across
  arrays, the removal of the replication protection group.\<close>

fun dry_run_call :: "service \<Rightarrow> call \<Rightarrow> bool" where
  "dry_run_call V (CleanupScratch _) = True"
| "dry_run_call V (CleanupReplicationPgroup _) = sv_cross_array V"
| "dry_run_call V c = read_only c"

fun is_pgroup_undo :: "undo \<Rightarrow> bool" where
  "is_pgroup_undo (CleanupPgroup _) = True"
| "is_pgroup_undo _ = False"

lemma dry_run_call_read: "read_only c \<Longrightarrow> dry_run_call V c"
  by (cases c) auto

interpretation dry: run_observer
  "\<lambda>s :: mstate. (\<forall>c \<in> set (calls_of (trace s)). dry_run_call V c) \<and>
     (\<forall>e \<in> set (rollback s). is_pgroup_undo (undo e) \<and> sv_cross_array V)"
  "dry_run_call V" "\<lambda>u. is_pgroup_undo u \<and> sv_cross_array V" for V
  by unfold_locales (auto simp: push_def elim: silent.elims)

text \<open>
  C7. A dry run changes nothing: it only reads, apart from the source connector's best-effort
  scratch cleanup and, when the two hypervisors are on different arrays, the removal of the
  replication protection group, which is not guarded.
\<close>

theorem dry_run_only_reads:
  assumes "sv_dry_run V"
  shows "\<forall>c \<in> set (calls (final (run_service E V) init_state)). dry_run_call V c"
proof -
  let ?P = "\<lambda>s :: mstate. (\<forall>c \<in> set (calls_of (trace s)). dry_run_call V c) \<and>
     (\<forall>e \<in> set (rollback s). is_pgroup_undo (undo e) \<and> sv_cross_array V)"
  have "keeps ?P (run_service E V)"
  proof (rule dry.keeps_run_service)
    show "keeps ?P (before_finalize E V)"
      by (rule dry.keeps_before_finalize_dry_run) (simp_all add: assms dry_run_call_read)
    show "keeps ?P (finalize E V)"
      unfolding finalize_def
      by (intro keeps_if dry.keeps_finalize_move dry.keeps_finalize_copy) (simp_all add: assms)
  next
    fix s e
    assume "?P s" and "e \<in> set (rollback s)"
    then have "is_pgroup_undo (undo e)" and x: "sv_cross_array V" by auto
    then obtain pg where pg: "undo e = CleanupPgroup pg" by (cases "undo e") auto
    show "keeps ?P (run_undo E V (undo e))"
      unfolding pg run_undo.simps by (rule dry.keeps_ask) (simp add: x)
  qed simp
  then have "?P (final (run_service E V) init_state)"
    by (rule keepsD) (simp add: init_state_def)
  then show ?thesis by (simp add: calls_def)
qed

theorem dry_run_only_reads_witness:
  "list_all (dry_run_call (demo_service ''move'' True True))
     (calls (final (run_service (demo_env is_set_boot) (demo_service ''move'' True True)) init_state))"
proof -
  have "sv_dry_run (demo_service ''move'' True True)" by (simp add: demo_service_def)
  from dry_run_only_reads [OF this] show ?thesis by (simp add: list_all_iff)
qed

section \<open>Rollback\<close>

context observer
begin

lemma keeps_before_finalize_with:
  assumes spec_free ref_free disks_free power_free
    and "\<And>c. \<not> destroys_source c \<Longrightarrow> (\<forall>r f. c \<noteq> StopVm Source r f) \<Longrightarrow> allowed c"
    and "\<And>u. pushable u" and "keeps J (quiesce_source E V (sv_mode V = ''move''))"
  shows "keeps J (before_finalize E V)"
  unfolding before_finalize_def by (intro assms(7) keeps_intro assms(1-6)) simp_all

end

definition restart_covered :: "service \<Rightarrow> event list \<Rightarrow> undo rollback_stack \<Rightarrow> bool" where
  "restart_covered V t st \<longleftrightarrow>
     (\<forall>f. Call (StopVm Source (sv_vm_ref V) f) Done \<in> set t \<longrightarrow> RestartSource \<in> undo ` set st)"

interpretation restart: observer "\<lambda>s :: mstate. restart_covered V (trace s) (rollback s)"
  "\<lambda>c. \<forall>r f. c \<noteq> StopVm Source r f" "\<lambda>_. True" for V
  by unfold_locales (auto simp: restart_covered_def push_def)

lemma restart_free:
  "restart.spec_free V" "restart.ref_free V" "restart.disks_free V" "restart.running_free V"
  "restart.power_free V"
  by (simp_all add: restart.free_defs)

lemma restart_quiesce:
  "keeps (\<lambda>s. restart_covered V (trace s) (rollback s)) (quiesce_source E V force)"
  unfolding quiesce_source_def
  by (intro restart.keeps_unless_skipped restart.keeps_op_then_push
        keeps_intro restart.effect_rules restart_free)
     (auto simp: restart_covered_def push_def)

lemma body_restart_covered:
  assumes "migrate_body E V init_state = (Inl e, t)"
  shows "restart_covered V (trace t) (rollback t)"
proof -
  have "keeps (\<lambda>s. restart_covered V (trace s) (rollback s)) (migrate_body E V)"
    unfolding migrate_body_split finalize_def
    by (intro keeps_andthen keeps_if restart.keeps_before_finalize_with restart_free restart_quiesce
          restart.keeps_finalize_move restart.keeps_finalize_copy) simp_all
  moreover have "restart_covered V (trace init_state) (rollback init_state)"
    by (simp add: restart_covered_def init_state_def)
  ultimately show ?thesis using assms by (rule keeps_runD)
qed

text \<open>The trace only grows.\<close>

interpretation grows: run_observer "\<lambda>s :: mstate. \<exists>u. trace s = t0 @ u" "\<lambda>_. True" "\<lambda>_. True" for t0
  by unfold_locales auto

lemma calls_cleanup_scratch:
  "calls (final (cleanup_scratch E) s) = calls s @ map CleanupScratch (case spec s of None \<Rightarrow> [] | Some v \<Rightarrow> [v])"
proof (cases "spec s")
  case None
  then show ?thesis by (simp add: cleanup_scratch_def final_def bnd_def gets_def ret_def)
next
  case (Some v)
  have "calls (final (tryc (ask (unit_answer E) (CleanupScratch v))
      (\<lambda>exc. emit (''[migration] scratch cleanup warning: '' @ exn_text exc))) s) = calls s @ [CleanupScratch v]"
    using final_tryc_cases [of "ask (unit_answer E) (CleanupScratch v)" _ s]
    by (metis calls_ask calls_emit)
  then show ?thesis using Some by (simp add: cleanup_scratch_def final_def bnd_def gets_def)
qed

lemma calls_unwind_rollback:
  "calls (final (unwind_rollback E V) s) =
     calls s @ concat (map (\<lambda>e. undo_calls V (undo e)) (rev (rollback s)))"
  using mig.unwind_complete(2) [of E V "rollback s" "s\<lparr>rollback := []\<rparr>"]
  by (simp add: unwind_rollback_def final_def bnd_def andthen_def gets_def modify_def calls_def)

text \<open>What a failure adds to the trace: every compensation, the last one pushed first, and the
  scratch cleanup.\<close>

lemma failed_trace:
  obtains u sc where "trace (final (failed E V e) s) = trace s @ u"
    and "calls_of u = concat (map (\<lambda>e. undo_calls V (undo e)) (rev (rollback s))) @ map CleanupScratch sc"
    and "length sc \<le> 1"
proof -
  have "keeps (\<lambda>s'. \<exists>u. trace s' = trace s @ u) (failed E V e)"
    by (intro grows.keeps_failed grows.keeps_run_undo) simp_all
  then obtain u where u: "trace (final (failed E V e) s) = trace s @ u"
    by (auto dest!: keepsD [where s = s])
  obtain s1 where s1: "emit (''[migration] FAILED: '' @ failure_text e) s = (Inr (), s1)"
    "calls s1 = calls s" "rollback s1 = rollback s"
    by (simp add: emit_def log_def modify_def calls_def)
  obtain fs s2 where s2: "unwind_rollback E V s1 = (Inr fs, s2)"
    by (rule never_raises_obtain [OF quiet_unwind_rollback])
  obtain s3 where s3: "cleanup_scratch E s2 = (Inr (), s3)"
    by (metis (full_types) never_raises_obtain old.unit.exhaust quiet_cleanup_scratch)
  have "final (failed E V e) s = s3"
    using s1(1) s2 s3 by (simp add: failed_def final_def andthen_def bnd_def gets_def ret_def)
  moreover have "calls s3 = calls s2 @ map CleanupScratch (case spec s2 of None \<Rightarrow> [] | Some v \<Rightarrow> [v])"
    using calls_cleanup_scratch [of E s2] s3 by (simp add: final_def)
  moreover have "calls s2 = calls s @ concat (map (\<lambda>e. undo_calls V (undo e)) (rev (rollback s)))"
    using calls_unwind_rollback [of E V s1] s1 s2 by (simp add: final_def)
  ultimately have "calls_of u = concat (map (\<lambda>e. undo_calls V (undo e)) (rev (rollback s)))
      @ map CleanupScratch (case spec s2 of None \<Rightarrow> [] | Some v \<Rightarrow> [v])"
    using u by (simp add: calls_def)
  with u show thesis by (rule that) (simp split: option.split)
qed

lemma undo_calls_mem:
  "u \<in> undo ` set st \<Longrightarrow> c \<in> set (undo_calls V u) \<Longrightarrow>
   c \<in> set (concat (map (\<lambda>e. undo_calls V (undo e)) (rev st)))"
  by auto

lemma stop_source_not_undone:
  "StopVm Source ref f \<notin> set (concat (map (\<lambda>e. undo_calls V (undo e)) st))"
proof -
  have "StopVm Source ref f \<notin> set (undo_calls V u)" for u by (cases u) auto
  then show ?thesis by auto
qed

text \<open>
  C3. If a migration fails after it shut the source VM down, the rollback asks the source
  connector to start it again, later in the same run.
\<close>

theorem stopped_source_is_restarted:
  assumes "result (run_service E V) init_state = Inr r" and "\<not> success r"
    and "Call (StopVm Source (sv_vm_ref V) f) Done \<in> set (trace (final (run_service E V) init_state))"
  shows "\<exists>us vs. trace (final (run_service E V) init_state) = us @ vs \<and>
     Call (StopVm Source (sv_vm_ref V) f) Done \<in> set us \<and>
     StartVm Source (sv_vm_ref V) \<in> set (calls_of vs)"
proof -
  obtain e t where t: "migrate_body E V init_state = (Inl e, t)"
    "final (run_service E V) init_state = final (failed E V e) t"
    using assms(1,2) by (rule run_failed)
  obtain u sc where u: "trace (final (failed E V e) t) = trace t @ u"
    "calls_of u = concat (map (\<lambda>e. undo_calls V (undo e)) (rev (rollback t))) @ map CleanupScratch sc"
    "length sc \<le> 1"
    by (rule failed_trace)
  have "StopVm Source (sv_vm_ref V) f \<notin> set (calls_of u)"
    using stop_source_not_undone unfolding u(2) by auto
  then have stop: "Call (StopVm Source (sv_vm_ref V) f) Done \<in> set (trace t)"
    using assms(3) u(1) t(2) by (auto simp: calls_of_set)
  then have "RestartSource \<in> undo ` set (rollback t)"
    using body_restart_covered [OF t(1)] by (auto simp: restart_covered_def)
  then have "StartVm Source (sv_vm_ref V) \<in> set (calls_of u)"
    unfolding u(2) using undo_calls_mem [of RestartSource "rollback t" "StartVm Source (sv_vm_ref V)" V]
    by simp
  with stop u(1) t(2) show ?thesis by metis
qed

lemma demo_failing_stopped:
  "Call (StopVm Source (sv_vm_ref (demo_service ''move'' False False)) False) Done
     \<in> set (trace (final demo_failing init_state))"
  by (simp add: demo_run cong: demo_cong split del: if_split)

theorem stopped_source_is_restarted_witness:
  "\<exists>us vs. trace (final demo_failing init_state) = us @ vs \<and>
     Call (StopVm Source ''a1'' False) Done \<in> set us \<and> StartVm Source ''a1'' \<in> set (calls_of vs)"
proof -
  have ref: "sv_vm_ref (demo_service ''move'' False False) = ''a1''"
    by (simp add: demo_service_def)
  obtain r where "result demo_failing init_state = Inr r" "\<not> success r"
    by (rule demo_failing_fails)
  then show ?thesis
    using stopped_source_is_restarted [OF _ _ demo_failing_stopped] unfolding ref by blast
qed

end
