(* ===== verification/Migration_Results.thy ===== *)
theory Migration_Results
  imports Migration_Safety
begin

text \<open>
  What a migration achieves, and what it takes back: a half-built destination is torn down, a
  move copies only from a stopped source, every source disk is copied onto a disk created for
  it, a destination that counts as booted was seen running, and names are never reused. The
  body of the run is cut at the step the property is about; the steps before and after it are
  covered by the observers' lemmas.
\<close>

section \<open>Cutting the body\<close>

lemma triple_keeps: "keeps P m \<Longrightarrow> triple P m (\<lambda>_. P) (\<lambda>_. P)"
  by (simp add: keeps_iff_triple)

lemma triple_weaken:
  "triple P m Q R \<Longrightarrow> (\<And>x s. Q x s \<Longrightarrow> Q' x s) \<Longrightarrow> (\<And>e s. R e s \<Longrightarrow> R' e s) \<Longrightarrow> triple P m Q' R'"
  by (rule triple_conseq)

definition until_resolved :: "env \<Rightarrow> service \<Rightarrow> unit step" where
  "until_resolved E V =
     steps [preflight E V, capture_spec E V, prepare_source_disks E V, resolve_volumes E]"

definition connected :: "env \<Rightarrow> service \<Rightarrow> unit step" where
  "connected E V = provided (sv_cross_array V) (ensure_array_connection E V)"

definition finished_disks :: "env \<Rightarrow> service \<Rightarrow> unit step" where
  "finished_disks E V = steps [
     finalize_dest_disks E V,
     provided (truthy (opt V ''convert_to_vmfs'' (JBool False))) (convert_dest_disks E V),
     set_boot E V]"

definition completed :: "env \<Rightarrow> service \<Rightarrow> unit step" where
  "completed E V =
     andthen (provided (sv_cross_array V) (cleanup_replication E)) (finalize E V)"

lemma migrate_body_stages:
  "migrate_body E V =
     andthen (until_resolved E V) (andthen (create_dest_vm E V) (andthen (connected E V)
     (andthen (quiesce_source E V (sv_mode V = ''move'')) (andthen (build_destination_disks E V)
     (andthen (finished_disks E V) (andthen (power_on_dest E V) (completed E V)))))))"
  by (simp add: migrate_body_def until_resolved_def connected_def finished_disks_def completed_def
      finalize_def andthen_assoc andthen_ret_unit)

text \<open>The calls of the stages.\<close>

fun stages_call :: "call \<Rightarrow> bool" where
  "stages_call (CreateVm _ _ _) = False"
| "stages_call (StopVm _ _ _) = False"
| "stages_call (StartVm _ _) = False"
| "stages_call (CreateManagedDisk _ _ _ _) = False"
| "stages_call (ReplicateVolumeTo _ _ _) = False"
| "stages_call (CopyVolume _ _ _) = False"
| "stages_call (PowerState _ _) = False"
| "stages_call _ = True"

context observer
begin

lemma keeps_until_resolved:
  assumes spec_free "\<And>c. stages_call c \<Longrightarrow> allowed c"
  shows "keeps J (until_resolved E V)"
  unfolding until_resolved_def by (intro keeps_intro assms) simp_all

lemma keeps_connected:
  assumes "\<And>c. stages_call c \<Longrightarrow> allowed c"
  shows "keeps J (connected E V)"
  unfolding connected_def by (intro keeps_intro assms) simp_all

lemma keeps_finished_disks:
  assumes "\<And>c. stages_call c \<Longrightarrow> allowed c"
  shows "keeps J (finished_disks E V)"
  unfolding finished_disks_def by (intro keeps_intro assms) simp_all

lemma keeps_completed:
  assumes "\<And>c. stages_call c \<Longrightarrow> allowed c"
  shows "keeps J (completed E V)"
  unfolding completed_def finalize_def
  by (intro keeps_andthen keeps_provided keeps_cleanup_replication keeps_if keeps_finalize_move
        keeps_finalize_copy assms) simp_all

lemma keeps_failed_simple:
  assumes "\<And>c. stages_call c \<Longrightarrow> allowed c" "\<And>r f. allowed (StopVm Dest r f)"
    "\<And>sd r. allowed (StartVm sd r)" "\<And>s. J s \<Longrightarrow> J (s\<lparr>rollback := []\<rparr>)"
  shows "keeps J (failed E V e)"
proof -
  have clear: "keeps J (modify (\<lambda>s. s\<lparr>rollback := []\<rparr>))"
    using assms(4) by (rule keeps_modify)
  show ?thesis
    unfolding failed_def unwind_rollback_def
    by (intro keeps_intro clear assms) simp_all
qed

end

section \<open>A half-built destination is torn down\<close>

text \<open>What the migration relies on: a successful \<^verbatim>\<open>create_vm\<close> reports the new VM's reference.\<close>

definition returns_vm_ref :: "env \<Rightarrow> bool" where
  "returns_vm_ref E \<longleftrightarrow> (\<forall>t v n p r. op_answer E t (CreateVm v n p) = Inr r \<longrightarrow> success r \<longrightarrow>
     (\<exists>x. x \<noteq> [] \<and> dict_get (artifacts r) ''vm_ref'' JNull = JStr x))"

fun creates_vm :: "event \<Rightarrow> bool" where
  "creates_vm (Call (CreateVm _ _ _) Done) = True"
| "creates_vm _ = False"

definition none_created :: "mstate \<Rightarrow> bool" where
  "none_created s \<longleftrightarrow> (\<forall>e \<in> set (trace s). \<not> creates_vm e)"

definition covered :: "mstate \<Rightarrow> bool" where
  "covered s \<longleftrightarrow> (\<exists>e \<in> set (trace s). creates_vm e) \<longrightarrow>
     (\<exists>x. dest_vm_ref s = Some x \<and> TeardownDest x \<in> undo ` set (rollback s))"

interpretation uncreated: run_observer none_created "\<lambda>c. \<not> creates_vm (Call c Done)" "\<lambda>_. True"
  by unfold_locales (auto simp: none_created_def elim!: silent.elims creates_vm.elims)

interpretation torn: observer covered "\<lambda>c. \<not> creates_vm (Call c Done)" "\<lambda>_. True"
  by unfold_locales (auto simp: covered_def push_def elim!: silent.elims creates_vm.elims)

lemma torn_free:
  "torn.spec_free" "torn.disks_free" "torn.running_free" "torn.power_free"
  by (simp_all add: torn.free_defs covered_def)

lemma none_created_covered: "none_created s \<Longrightarrow> covered s"
  by (simp add: none_created_def covered_def)


lemma triple_final: "(\<And>s. P s \<Longrightarrow> Q (final m s)) \<Longrightarrow> triple P m (\<lambda>_. Q) (\<lambda>_. Q)"
  by (rule tripleI) (metis final_def snd_conv)+

lemma none_created_step:
  "keeps none_created m \<Longrightarrow> triple none_created m (\<lambda>_. none_created) (\<lambda>_. covered)"
  by (rule triple_weaken [OF triple_keeps]) (simp_all add: none_created_covered)

lemma create_dest_vm_covers:
  assumes E: "returns_vm_ref E"
  shows "triple none_created (create_dest_vm E V) (\<lambda>_. covered) (\<lambda>_. covered)"
proof -
  have call: "triple none_created (bnd (ask_op E (CreateVm v (sv_network_map V) p)) (\<lambda>r.
        if \<not> success r then fail_step (f r)
        else bnd (lift_sum (ref_of_json (dict_get (artifacts r) ''vm_ref'' JNull))) (\<lambda>ref.
        andthen (modify (\<lambda>s. s\<lparr>dest_vm_ref := ref\<rparr>))
        (case (if truthy (dict_get (artifacts r) ''vm_ref'' JNull) then ref else None) of
           None \<Rightarrow> fail_step m
         | Some x \<Rightarrow> andthen (push_undo (l x) (TeardownDest x)) (emit (g x))))))
      (\<lambda>_. covered) (\<lambda>_. covered)" for v p f m l g
  proof -
    have "covered (final (bnd (ask_op E (CreateVm v (sv_network_map V) p)) (\<lambda>r.
        if \<not> success r then fail_step (f r)
        else bnd (lift_sum (ref_of_json (dict_get (artifacts r) ''vm_ref'' JNull))) (\<lambda>ref.
        andthen (modify (\<lambda>s. s\<lparr>dest_vm_ref := ref\<rparr>))
        (case (if truthy (dict_get (artifacts r) ''vm_ref'' JNull) then ref else None) of
           None \<Rightarrow> fail_step m
         | Some x \<Rightarrow> andthen (push_undo (l x) (TeardownDest x)) (emit (g x)))))) s)"
      if s: "none_created s" for s
    proof (cases "op_answer E (trace s) (CreateVm v (sv_network_map V) p)")
      case (Inl e)
      then show ?thesis using s
        by (auto simp: final_def bnd_def ask_op_def covered_def none_created_def)
    next
      case (Inr r)
      show ?thesis
      proof (cases "success r")
        case True
        with E Inr obtain x where "x \<noteq> []" "dict_get (artifacts r) ''vm_ref'' JNull = JStr x"
          unfolding returns_vm_ref_def by blast
        then show ?thesis using Inr True
          by (simp add: final_def run_rules ask_op_def ref_of_json_def run_emit push_undo_def
              push_def lift_sum_def covered_def)
      next
        case False
        with Inr show ?thesis using s
          by (simp add: final_def run_rules ask_op_def run_fail_step covered_def none_created_def)
      qed
    qed
    then show ?thesis by (rule triple_final)
  qed
  have dry: "triple none_created (andthen (emit t) (modify (\<lambda>s. s\<lparr>dest_vm_ref := r\<rparr>)))
      (\<lambda>_. covered) (\<lambda>_. covered)" for t r
    by (auto simp: triple_def run_rules run_emit none_created_def covered_def)
  show ?thesis
    unfolding create_dest_vm_def
    by (rule triple_andthen triple_bnd none_created_step uncreated.keeps_phase
        uncreated.keeps_get_spec keeps_bnd uncreated.keeps_ensure_unique_dest_name | simp)+
       (simp add: dry call)
qed

lemma covered_keep: "keeps covered m \<Longrightarrow> triple covered m (\<lambda>_. covered) (\<lambda>_. covered)"
  by (rule triple_keeps)

lemma body_covered:
  assumes "returns_vm_ref E"
  shows "triple none_created (migrate_body E V) (\<lambda>_. covered) (\<lambda>_. covered)"
proof -
  have allowed: "stages_call c \<Longrightarrow> \<not> creates_vm (Call c Done)" for c
    by (cases c) auto
  have rest: "keeps covered (andthen (connected E V) (andthen (quiesce_source E V b)
      (andthen (build_destination_disks E V) (andthen (finished_disks E V)
      (andthen (power_on_dest E V) (completed E V))))))" for b
    by (intro keeps_andthen torn.keeps_connected torn.keeps_quiesce_source
        torn.keeps_build_destination_disks torn.keeps_finished_disks torn.keeps_power_on_dest
        torn.keeps_completed torn_free) (simp_all add: allowed)
  show ?thesis
    unfolding migrate_body_stages
    by (intro triple_andthen [OF none_created_step] triple_andthen [OF create_dest_vm_covers]
        triple_keeps [OF rest] uncreated.keeps_until_resolved uncreated.all_free assms)
       (simp add: allowed)
qed

lemma undo_not_creating: "\<not> creates_vm (Call c Done) \<or> c \<notin> set (undo_calls V u)"
  by (cases u) auto

interpretation ref_fixed: observer "\<lambda>s :: mstate. dest_vm_ref s = x" "\<lambda>_. True" "\<lambda>_. True" for x
  by unfold_locales simp_all

lemma failed_ref: "dest_vm_ref (final (failed E V e) s) = dest_vm_ref s"
  using ref_fixed.keeps_failed_simple [of "dest_vm_ref s" E V e] by (simp add: keeps_def)


lemma demo_returns_vm_ref: "returns_vm_ref (demo_env fails)"
  by (auto simp: returns_vm_ref_def demo_env_def op_ok_def op_fail_def dict_get_def split: if_splits)



section \<open>A move copies only from a stopped source\<close>

fun copies :: "event \<Rightarrow> bool" where
  "copies (Call (CopyVolume _ _ _) _) = True"
| "copies (Call (ReplicateVolumeTo _ _ _) _) = True"
| "copies _ = False"

text \<open>The source connector shut the VM down, or said it is stopped.\<close>

fun shows_stopped :: "string \<Rightarrow> event \<Rightarrow> bool" where
  "shows_stopped ref (Call (StopVm Source r _) Done) = (r = ref)"
| "shows_stopped ref (Call (PowerState Source r) (Said p)) = (r = ref \<and> lower p = ''stopped'')"
| "shows_stopped ref _ = False"

definition no_copy :: "mstate \<Rightarrow> bool" where
  "no_copy s \<longleftrightarrow> (\<forall>e \<in> set (trace s). \<not> copies e)"

definition stopped_first :: "string \<Rightarrow> mstate \<Rightarrow> bool" where
  "stopped_first ref s \<longleftrightarrow> preceded copies (shows_stopped ref) (trace s)"

definition stop_seen :: "string \<Rightarrow> mstate \<Rightarrow> bool" where
  "stop_seen ref s \<longleftrightarrow> stopped_first ref s \<and> (\<exists>e \<in> set (trace s). shows_stopped ref e)"

lemma not_copies_preceded: "\<forall>e \<in> set t. \<not> copies e \<Longrightarrow> preceded copies P t"
  by (auto simp: preceded_iff)

lemma no_copy_stopped_first: "no_copy s \<Longrightarrow> stopped_first ref s"
  by (auto simp: no_copy_def stopped_first_def preceded_iff)

interpretation uncopied: run_observer no_copy "\<lambda>c. \<not> copies (Call c Done)" "\<lambda>_. True"
  by unfold_locales (auto simp: no_copy_def elim!: silent.elims copies.elims)

interpretation ordered: run_observer "stopped_first ref" "\<lambda>c. \<not> copies (Call c Done)" "\<lambda>_. True" for ref
  by unfold_locales (auto simp: stopped_first_def preceded_snoc elim!: silent.elims copies.elims)

interpretation stopped: run_observer "stop_seen ref" "\<lambda>_. True" "\<lambda>_. True" for ref
  by unfold_locales (auto simp: stop_seen_def stopped_first_def preceded_snoc)

lemma no_copy_step:
  "keeps no_copy m \<Longrightarrow> triple no_copy m (\<lambda>_. no_copy) (\<lambda>_. stopped_first ref)"
  by (rule triple_weaken [OF triple_keeps]) (simp_all add: no_copy_stopped_first)

lemma stop_seen_step:
  "keeps (stop_seen ref) m \<Longrightarrow> triple (stop_seen ref) m (\<lambda>_. stop_seen ref) (\<lambda>_. stopped_first ref)"
  by (rule triple_weaken [OF triple_keeps]) (simp_all add: stop_seen_def)

lemma power_or_unknown_shows:
  "triple no_copy (power_or_unknown E Source ref)
     (\<lambda>st s. if st = ''stopped'' then stop_seen ref s else no_copy s) (\<lambda>_. stopped_first ref)"
proof (rule tripleI)
  fix s st t
  assume s: "no_copy s" and run: "power_or_unknown E Source ref s = (Inr st, t)"
  obtain p where p: "text_answer E (trace s) (PowerState Source ref) = Inr p"
    "t = s\<lparr>trace := trace s @ [Call (PowerState Source ref) (Said p)]\<rparr>"
    "st = lower (if p = [] then ''unknown'' else p)"
    using run by (auto simp: power_or_unknown_def power_state_def ask_text_def run_rules Let_def
        split: sum.splits elim: bnd_eq_InrE)
  have "lower ''unknown'' \<noteq> ''stopped''" by code_simp
  then have "st = ''stopped'' \<Longrightarrow> lower p = ''stopped''"
    using p(3) by (auto split: if_splits)
  then show "if st = ''stopped'' then stop_seen ref t else no_copy t"
    using s p(2) no_copy_stopped_first [OF s, of ref]
    by (auto simp: stop_seen_def stopped_first_def no_copy_def preceded_snoc)
next
  fix s e t
  assume s: "no_copy s" and run: "power_or_unknown E Source ref s = (Inl e, t)"
  have "keeps no_copy (power_or_unknown E Source ref)"
    by (rule uncopied.keeps_power_or_unknown) simp
  with s run show "stopped_first ref t" by (blast dest: keeps_runD intro: no_copy_stopped_first)
qed

lemma stop_vm_shows:
  "triple no_copy (ask_op E (StopVm Source ref f))
     (\<lambda>r s. if success r then stop_seen ref s else no_copy s) (\<lambda>_. stopped_first ref)"
  by (rule tripleI)
     (auto simp: ask_op_def Let_def stop_seen_def stopped_first_def no_copy_def preceded_snoc
        not_copies_preceded split: sum.splits)

lemma quiesce_shows:
  assumes "\<not> sv_dry_run V"
  shows "triple no_copy (quiesce_source E V True) (\<lambda>_. stop_seen (sv_vm_ref V))
     (\<lambda>_. stopped_first (sv_vm_ref V))"
proof -
  let ?ref = "sv_vm_ref V"
  have after_power: "triple (\<lambda>s. if st = ''stopped'' then stop_seen ?ref s else no_copy s)
      (modify (\<lambda>s. s\<lparr>source_was_running := b\<rparr>))
      (\<lambda>_ s. if st = ''stopped'' then stop_seen ?ref s else no_copy s)
      (\<lambda>_. stopped_first ?ref)" for st b
    by (auto simp: triple_def run_modify stop_seen_def stopped_first_def no_copy_def)
  have rest: "triple (stop_seen ?ref) (steps [push_undo l RestartSource,
      await_power E V Source ?ref ''stopped'', emit m]) (\<lambda>_. stop_seen ?ref)
      (\<lambda>_. stopped_first ?ref)" for l m
    by (intro stop_seen_step keeps_steps_Cons keeps_steps_Nil stopped.effect_rules) simp_all
  have stop: "triple no_copy (bnd (ask_op E (StopVm Source ?ref f)) (\<lambda>r.
      if \<not> success r then fail_step (g r) else steps [push_undo l RestartSource,
      await_power E V Source ?ref ''stopped'', emit m])) (\<lambda>_. stop_seen ?ref)
      (\<lambda>_. stopped_first ?ref)" for f g l m
  proof (rule triple_bnd [OF stop_vm_shows])
    fix r
    show "triple (\<lambda>s. if success r then stop_seen ?ref s else no_copy s)
      (if \<not> success r then fail_step (g r) else steps [push_undo l RestartSource,
      await_power E V Source ?ref ''stopped'', emit m]) (\<lambda>_. stop_seen ?ref)
      (\<lambda>_. stopped_first ?ref)"
      using rest by (simp add: triple_def fail_step_def run_raise no_copy_stopped_first)
  qed
  have main: "triple (\<lambda>s. if st = ''stopped'' then stop_seen ?ref s else no_copy s)
      (if st = ''stopped'' then emit l else bnd (skip V w) (\<lambda>skipped. provided (\<not> skipped) k))
      (\<lambda>_. stop_seen ?ref) (\<lambda>_. stopped_first ?ref)"
    if "triple no_copy k (\<lambda>_. stop_seen ?ref) (\<lambda>_. stopped_first ?ref)" for st l w k
    using that stop_seen_step [OF stopped.keeps_emit, of ?ref l] assms
    by (simp add: skip_def provided_def)
  show ?thesis
    unfolding quiesce_source_def
    by (simp only: True_or_False simp_thms if_False)
       (intro triple_andthen [OF no_copy_step] triple_bnd [OF power_or_unknown_shows]
          triple_andthen [OF after_power] uncopied.keeps_phase main stop)
qed

lemma body_stopped_first:
  assumes "sv_mode V = ''move''"
  shows "triple no_copy (migrate_body E V) (\<lambda>_. stopped_first (sv_vm_ref V))
     (\<lambda>_. stopped_first (sv_vm_ref V))"
proof -
  let ?ref = "sv_vm_ref V"
  have allowed: "stages_call c \<Longrightarrow> \<not> copies (Call c Done)" for c
    by (cases c) auto
  show ?thesis
  proof (cases "sv_dry_run V")
    case True
    have "keeps no_copy (migrate_body E V)"
      unfolding migrate_body_stages
      by (intro keeps_andthen uncopied.keeps_connected uncopied.keeps_quiesce_source
          uncopied.keeps_build_destination_disks uncopied.keeps_finished_disks
          uncopied.keeps_power_on_dest uncopied.keeps_completed uncopied.keeps_until_resolved
          uncopied.keeps_create_dest_vm uncopied.all_free)
         (simp_all add: allowed True)
    then show ?thesis
      by (rule triple_weaken [OF triple_keeps]) (simp_all add: no_copy_stopped_first)
  next
    case False
    have rest: "keeps (stop_seen ?ref) (andthen (build_destination_disks E V)
        (andthen (finished_disks E V) (andthen (power_on_dest E V) (completed E V))))"
      by (intro keeps_andthen stopped.keeps_build_destination_disks stopped.keeps_finished_disks
          stopped.keeps_power_on_dest stopped.keeps_completed stopped.all_free) simp_all
    have stop: "triple no_copy (andthen (quiesce_source E V True)
        (andthen (build_destination_disks E V) (andthen (finished_disks E V)
        (andthen (power_on_dest E V) (completed E V))))) (\<lambda>_. stop_seen ?ref) (\<lambda>_. stopped_first ?ref)"
      using False by (rule triple_andthen [OF quiesce_shows stop_seen_step [OF rest]])
    have "keeps no_copy (until_resolved E V)" "keeps no_copy (create_dest_vm E V)"
      "keeps no_copy (connected E V)"
      by (intro uncopied.keeps_until_resolved uncopied.keeps_create_dest_vm
          uncopied.keeps_connected uncopied.all_free; simp add: allowed)+
    then have "triple no_copy (migrate_body E V) (\<lambda>_. stop_seen ?ref) (\<lambda>_. stopped_first ?ref)"
      using stop unfolding migrate_body_stages assms
      by (simp add: triple_andthen [OF no_copy_step])
    then show ?thesis by (rule triple_weaken) (simp_all add: stop_seen_def)
  qed
qed

text \<open>
  C5. A move never reads the source's data before the source connector has shut the VM down or
  reported that it is stopped: every volume copy and every replication comes after such an
  answer in the same run, whatever the outcome of the run.
\<close>

theorem move_copies_from_stopped_source:
  assumes "sv_mode V = ''move''"
  shows "preceded copies (shows_stopped (sv_vm_ref V)) (trace (final (run_service E V) init_state))"
proof -
  have init: "no_copy init_state" by (simp add: no_copy_def init_state_def)
  have allowed: "stages_call c \<Longrightarrow> \<not> copies (Call c Done)" for c
    by (cases c) auto
  have failed: "keeps (stopped_first (sv_vm_ref V)) (failed E V e)" for e
    by (rule ordered.keeps_failed_simple) (simp_all add: allowed stopped_first_def)
  have succeeded: "keeps (stopped_first (sv_vm_ref V)) (succeeded E V)"
    by (rule ordered.keeps_succeeded) simp
  have "stopped_first (sv_vm_ref V) (final (run_service E V) init_state)"
    using tripleD_Inl [OF body_stopped_first [OF assms] init, of E]
      tripleD_Inr [OF body_stopped_first [OF assms] init, of E] keepsD [OF failed] keepsD [OF succeeded]
    by (auto simp: run_service_def final_def split: prod.splits sum.splits)
  then show ?thesis by (simp add: stopped_first_def)
qed

theorem move_copies_from_stopped_source_witness:
  "preceded copies (shows_stopped ''a1'') (trace (final demo_failing init_state))"
  using move_copies_from_stopped_source [of "demo_service ''move'' False False" "demo_env is_set_boot"]
  by (simp add: demo_service_def)


section \<open>Every source disk is copied onto its own destination disk\<close>

text \<open>The copies that went through: source and target volume.\<close>

fun copy_pair :: "event \<Rightarrow> (string \<times> string) list" where
  "copy_pair (Call (CopyVolume a b _) Done) = [(a, b)]"
| "copy_pair _ = []"

definition copied_of :: "event list \<Rightarrow> (string \<times> string) list" where
  "copied_of t = concat (map copy_pair t)"

lemma copied_of_snoc [simp]: "copied_of (t @ [e]) = copied_of t @ copy_pair e"
  by (simp add: copied_of_def)

lemma copy_pair_silent [simp]: "silent e \<Longrightarrow> copy_pair e = []"
  by (cases e) simp_all

lemma copy_pair_other [simp]: "\<not> copies e \<Longrightarrow> copy_pair e = []"
  by (cases e rule: copy_pair.cases) simp_all

lemma no_copy_copied: "no_copy s \<Longrightarrow> copied_of (trace s) = []"
  by (auto simp: no_copy_def copied_of_def)

definition volume_of :: "disk_spec \<Rightarrow> string" where
  "volume_of d = fa_volume (identity d)"

text \<open>The copies of \<open>t\<close> are those of the disks \<open>ds\<close>, in order, onto the disks \<open>dest\<close>.\<close>

definition copied_onto :: "service \<Rightarrow> disk_spec list \<Rightarrow> disk_spec list \<Rightarrow> event list \<Rightarrow> bool" where
  "copied_onto V ds dest t \<longleftrightarrow>
     map snd (copied_of t) = map volume_of dest \<and> length dest = length ds \<and>
     (\<not> sv_cross_array V \<longrightarrow> map fst (copied_of t) = map volume_of ds)"

abbreviation copied_disks :: "service \<Rightarrow> disk_spec list \<Rightarrow> mstate \<Rightarrow> bool" where
  "copied_disks V ds s \<equiv> copied_onto V ds (dest_disks s) (trace s)"

interpretation copying: observer "\<lambda>s. copied_onto V ds (dest_disks s) (trace s)"
  "\<lambda>c. copy_pair (Call c Done) = []" "\<lambda>_. True" for V ds
proof unfold_locales
  fix s :: mstate and c o'
  assume "copied_disks V ds s" "copy_pair (Call c Done) = []"
  moreover from this have "copy_pair (Call c o') = []"
    by (cases "Call c o'" rule: copy_pair.cases) simp_all
  ultimately show "copied_disks V ds (s\<lparr>trace := trace s @ [Call c o']\<rparr>)"
    by (simp add: copied_onto_def)
qed (simp_all add: copied_onto_def)

text \<open>The disk made for \<open>d\<close> is on the destination's list, its data not copied yet.\<close>

definition copy_pending :: "service \<Rightarrow> disk_spec list \<Rightarrow> string \<Rightarrow> mstate \<Rightarrow> bool" where
  "copy_pending V ds vol s \<longleftrightarrow>
     (\<exists>dest d. dest_disks s = dest @ [d] \<and> volume_of d = vol \<and> copied_onto V ds dest (trace s))"

interpretation pending: observer "copy_pending V ds vol" "\<lambda>c. copy_pair (Call c Done) = []"
  "\<lambda>_. True" for V ds vol
proof unfold_locales
  fix s :: mstate and c o'
  assume "copy_pending V ds vol s" "copy_pair (Call c Done) = []"
  moreover from this have "copy_pair (Call c o') = []"
    by (cases "Call c o'" rule: copy_pair.cases) simp_all
  ultimately show "copy_pending V ds vol (s\<lparr>trace := trace s @ [Call c o']\<rparr>)"
    by (simp add: copy_pending_def copied_onto_def)
qed (simp_all add: copy_pending_def copied_onto_def)

abbreviation returns :: "(mstate \<Rightarrow> bool) \<Rightarrow> 'a step \<Rightarrow> ('a \<Rightarrow> mstate \<Rightarrow> bool) \<Rightarrow> bool" where
  "returns P m Q \<equiv> triple P m Q (\<lambda>_ _. True)"

lemma returns_keeps: "keeps P m \<Longrightarrow> returns P m (\<lambda>_. P)"
  by (rule triple_weaken [OF triple_keeps]) simp_all

lemma copy_source_returns:
  "returns (copy_pending V ds vol) (copy_source E V pg d)
     (\<lambda>src s. copy_pending V ds vol s \<and> (\<not> sv_cross_array V \<longrightarrow> src = volume_of d))"
proof (cases "sv_cross_array V")
  case True
  then show ?thesis
    using returns_keeps [OF pending.keeps_copy_source [of V pg V ds vol E d]] by simp
next
  case False
  then show ?thesis by (simp add: copy_source_def Let_def triple_def run_ret volume_of_def)
qed

lemma copy_volume_returns:
  assumes "\<not> sv_cross_array V \<longrightarrow> src = volume_of d"
  shows "returns (copy_pending V ds vol)
     (andthen (ask (unit_answer E) (CopyVolume src vol True)) (emit m))
     (\<lambda>_. copied_disks V (ds @ [d]))"
proof (rule triple_andthen)
  show "returns (copy_pending V ds vol) (ask (unit_answer E) (CopyVolume src vol True))
      (\<lambda>_. copied_disks V (ds @ [d]))"
    using assms
    by (auto simp: triple_def ask_def Let_def copy_pending_def copied_onto_def split: sum.splits)
  show "returns (copied_disks V (ds @ [d])) (emit m) (\<lambda>_. copied_disks V (ds @ [d]))"
    by (rule returns_keeps) (rule copying.keeps_emit)
qed

lemma build_disk_returns:
  assumes "\<not> sv_dry_run V"
  shows "returns (copied_disks V ds) (build_disk E V ref pg d) (\<lambda>_. copied_disks V (ds @ [d]))"
proof -
  have append: "returns (copied_disks V ds) (modify (\<lambda>s. s\<lparr>dest_disks := dest_disks s @ [d']\<rparr>))
      (\<lambda>_. copy_pending V ds (volume_of d'))" for d'
    by (simp add: triple_def run_modify copy_pending_def)
  have copy: "returns (\<lambda>s. copy_pending V ds vol s \<and> (\<not> sv_cross_array V \<longrightarrow> src = volume_of d))
      (andthen (ask (unit_answer E) (CopyVolume src vol True)) (emit m))
      (\<lambda>_. copied_disks V (ds @ [d]))" for src vol m
    using copy_volume_returns [of V src d ds vol E m] by (auto simp: triple_def)
  have made: "keeps (copied_disks V ds) (make_dest_disk E V ref d)"
    by (rule copying.keeps_make_dest_disk) simp
  show ?thesis
    unfolding build_disk_def
    by (rule triple_bnd [OF returns_keeps [OF made]], rule triple_andthen [OF append])
       (simp add: volume_of_def skip_def assms provided_def, rule triple_bnd [OF copy_source_returns copy])
qed

lemma build_disks_returns:
  assumes "\<not> sv_dry_run V"
  shows "returns (copied_disks V ds) (foreach es (build_disk E V ref pg))
     (\<lambda>_. copied_disks V (ds @ es))"
proof (induction es arbitrary: ds)
  case Nil
  show ?case by (simp add: triple_def run_ret)
next
  case (Cons d es)
  from triple_andthen [OF build_disk_returns [OF assms] Cons.IH] show ?case by simp
qed


text \<open>The spec of the state is the one the disks were copied from.\<close>

definition copied_spec :: "service \<Rightarrow> mstate \<Rightarrow> bool" where
  "copied_spec V s \<longleftrightarrow> (\<exists>v. spec s = Some v \<and> copied_disks V (disks v) s)"

interpretation spec_copied: observer "copied_spec V" "\<lambda>c. copy_pair (Call c Done) = []"
  "\<lambda>_. True" for V
proof unfold_locales
  fix s :: mstate and c o'
  assume "copied_spec V s" "copy_pair (Call c Done) = []"
  then show "copied_spec V (s\<lparr>trace := trace s @ [Call c o']\<rparr>)"
    using copying.call_ok [of V _ s c o'] by (auto simp: copied_spec_def)
qed (auto simp: copied_spec_def copied_onto_def)

interpretation spec_fixed: observer "\<lambda>s :: mstate. spec s = v" "\<lambda>_. True" "\<lambda>_. True" for v
  by unfold_locales simp_all

lemma spec_fixed_free:
  "spec_fixed.disks_free v" "spec_fixed.power_free v" "spec_fixed.running_free v"
  "spec_copied.power_free V" "spec_copied.running_free V" "spec_copied.ref_free V"
  by (simp_all add: spec_fixed.free_defs spec_copied.free_defs copied_spec_def)

lemma returns_conj:
  "returns P m (\<lambda>_. Q) \<Longrightarrow> keeps R m \<Longrightarrow> returns (\<lambda>s. P s \<and> R s) m (\<lambda>_ s. Q s \<and> R s)"
  by (auto simp: triple_def keeps_def final_def split: prod.splits sum.splits)

lemma build_destination_disks_returns:
  assumes "\<not> sv_dry_run V"
  shows "returns no_copy (build_destination_disks E V) (\<lambda>_. copied_spec V)"
proof -
  have spec: "returns no_copy get_spec (\<lambda>v s. no_copy s \<and> spec s = Some v)"
    by (auto simp: triple_def get_spec_def run_rules split: option.splits)
  have ref: "returns (\<lambda>s. no_copy s \<and> spec s = Some v) get_dest_ref
      (\<lambda>_ s. no_copy s \<and> spec s = Some v)" for v
    by (intro returns_keeps keeps_conj uncopied.keeps_get_dest_ref spec_fixed.keeps_get_dest_ref)
  have pg: "returns (\<lambda>s. no_copy s \<and> spec s = Some v)
      (provided c (andthen (modify (\<lambda>s. s\<lparr>repl_pgroup := p\<rparr>)) (push_undo l u)))
      (\<lambda>_ s. no_copy s \<and> spec s = Some v)" for v c p l u
    by (intro returns_keeps keeps_conj keeps_provided keeps_andthen uncopied.keeps_assign
        uncopied.keeps_push_undo spec_fixed.keeps_assign spec_fixed.keeps_push_undo) simp_all
  have clear: "returns (\<lambda>s. no_copy s \<and> spec s = Some v) (modify (\<lambda>s. s\<lparr>dest_disks := []\<rparr>))
      (\<lambda>_ s. copied_disks V [] s \<and> spec s = Some v)" for v
    by (auto simp: triple_def run_modify copied_onto_def no_copy_copied)
  have loop: "returns (\<lambda>s. copied_disks V [] s \<and> spec s = Some v)
      (foreach (disks v) (build_disk E V r p)) (\<lambda>_. copied_spec V)" for v r p
  proof (rule triple_weaken)
    show "returns (\<lambda>s. copied_disks V [] s \<and> spec s = Some v)
      (foreach (disks v) (build_disk E V r p)) (\<lambda>_ s. copied_disks V (disks v) s \<and> spec s = Some v)"
      using build_disks_returns [OF assms, of "[]" "disks v" E r p]
      by (intro returns_conj keeps_foreach spec_fixed.keeps_build_disk spec_fixed_free) simp_all
  qed (auto simp: copied_spec_def)
  show ?thesis
    unfolding build_destination_disks_def Let_def
    by (rule triple_andthen [OF returns_keeps [OF uncopied.keeps_phase]], rule triple_bnd [OF spec],
        rule triple_bnd [OF ref], rule triple_andthen [OF pg], rule triple_andthen [OF clear loop])
qed

lemma body_copies:
  assumes "\<not> sv_dry_run V"
  shows "returns no_copy (migrate_body E V) (\<lambda>_. copied_spec V)"
proof -
  have allowed: "stages_call c \<Longrightarrow> \<not> copies (Call c Done)"
    "stages_call c \<Longrightarrow> copy_pair (Call c Done) = []" for c
    by (cases c; simp)+
  have rest: "keeps (copied_spec V)
      (andthen (finished_disks E V) (andthen (power_on_dest E V) (completed E V)))"
    by (intro keeps_andthen spec_copied.keeps_finished_disks spec_copied.keeps_power_on_dest
        spec_copied.keeps_completed spec_fixed_free) (simp_all add: allowed)
  have before: "keeps no_copy (until_resolved E V)" "keeps no_copy (create_dest_vm E V)"
      "keeps no_copy (connected E V)" "keeps no_copy (quiesce_source E V b)" for b
    by (intro uncopied.keeps_until_resolved uncopied.keeps_create_dest_vm uncopied.keeps_connected
        uncopied.keeps_quiesce_source uncopied.all_free; simp add: allowed)+
  show ?thesis
    unfolding migrate_body_stages
    by (intro triple_andthen [OF returns_keeps [OF before(1)]]
        triple_andthen [OF returns_keeps [OF before(2)]]
        triple_andthen [OF returns_keeps [OF before(3)]]
        triple_andthen [OF returns_keeps [OF before(4)]]
        triple_andthen [OF build_destination_disks_returns [OF assms] returns_keeps [OF rest]])
qed

lemma returns_any: "returns P m (\<lambda>_ _. True)"
  by (rule tripleI) simp_all

lemma failed_fails: "returns (\<lambda>_. True) (failed E V e) (\<lambda>r _. \<not> success r)"
  unfolding failed_def
  by (rule triple_andthen [OF returns_any], rule triple_bnd [OF returns_any],
      rule triple_andthen [OF returns_any], rule triple_bnd [OF returns_any])
     (simp add: triple_def run_ret)

lemma run_succeeded:
  assumes "result (run_service E V) s = Inr r" and "success r"
  obtains t where "migrate_body E V s = (Inr (), t)"
    and "final (run_service E V) s = final (succeeded E V) t"
proof (cases "migrate_body E V s")
  case (Pair x t)
  show thesis
  proof (cases x)
    case (Inl e)
    have "\<not> success r" if "result (failed E V e) t = Inr r"
      using that tripleD_Inr [OF failed_fails, where s = t]
      by (auto simp: result_def) (metis prod.collapse)
    with assms Pair Inl show thesis by (simp add: run_service_def result_def)
  next
    case (Inr u)
    with Pair show thesis by (intro that) (simp_all add: run_service_def final_def)
  qed
qed



abbreviation demo_moving :: "op_result step" where
  "demo_moving \<equiv> run_service (demo_env (\<lambda>_. False)) (demo_service ''move'' False False)"

lemma demo_moving_succeeds:
  obtains r where "result demo_moving init_state = Inr r" and "success r"
  by (simp add: demo_run cong: demo_cong split del: if_split)


section \<open>A destination that counts as booted was seen running\<close>

fun shows_running :: "string \<Rightarrow> event \<Rightarrow> bool" where
  "shows_running ref (Call (PowerState Dest r) (Said p)) = (r = ref \<and> lower p = ''running'')"
| "shows_running ref _ = False"

definition seen_running :: "mstate \<Rightarrow> bool" where
  "seen_running s \<longleftrightarrow> (powered_on s \<longrightarrow>
     (\<exists>ref. dest_vm_ref s = Some ref \<and> (\<exists>e \<in> set (trace s). shows_running ref e)))"

interpretation running: observer seen_running "\<lambda>_. True" "\<lambda>_. True"
  by unfold_locales (auto simp: seen_running_def)

definition running_logged :: "string \<Rightarrow> mstate \<Rightarrow> bool" where
  "running_logged ref s \<longleftrightarrow> (\<exists>e \<in> set (trace s). shows_running ref e)"

interpretation logged: run_observer "running_logged ref" "\<lambda>_. True" "\<lambda>_. True" for ref
  by unfold_locales (auto simp: running_logged_def)

lemma poll_running_shows:
  "returns (\<lambda>_. True) (poll_running E ref delay n) (\<lambda>up s. up \<longrightarrow> running_logged ref s)"
proof (induction n)
  case 0
  show ?case by (simp add: triple_def run_ret)
next
  case (Suc n)
  have "returns (\<lambda>_. True) (power_state E Dest ref)
      (\<lambda>p s. lower p = ''running'' \<longrightarrow> running_logged ref s)"
    by (auto simp: triple_def power_state_def ask_text_def Let_def running_logged_def split: sum.splits)
  moreover have "returns (\<lambda>s. lower p = ''running'' \<longrightarrow> running_logged ref s)
      (if lower p = ''running'' then ret True
       else andthen (log (Sleep delay)) (poll_running E ref delay n))
      (\<lambda>up s. up \<longrightarrow> running_logged ref s)" for p
    using triple_andthen [OF returns_any Suc.IH, of "\<lambda>s. lower p = ''running'' \<longrightarrow> running_logged ref s"]
    by (cases "lower p = ''running''") (simp_all add: triple_def run_ret)
  ultimately show ?case by (simp add: triple_bnd)
qed

lemma start_loop_shows:
  "returns (\<lambda>_. True) (start_loop E ref attempts poll_each delay is) (\<lambda>_. running_logged ref)"
proof (induction "is")
  case Nil
  show ?case by (simp add: triple_def fail_step_def run_raise)
next
  case (Cons i "is")
  have up: "returns (\<lambda>s. up \<longrightarrow> running_logged ref s) (if up then provided c (emit l)
      else andthen (emit l') (start_loop E ref attempts poll_each delay is))
      (\<lambda>_. running_logged ref)" for up c l l'
  proof (cases up)
    case True
    then show ?thesis
      using returns_keeps [OF keeps_provided [OF logged.keeps_emit]] by simp
  next
    case False
    have "returns (\<lambda>_. True) (andthen (emit l') (start_loop E ref attempts poll_each delay is))
      (\<lambda>_. running_logged ref)"
      by (rule triple_andthen [OF returns_any Cons.IH])
    with False show ?thesis by simp
  qed
  show ?case
    by (simp, rule triple_bnd [OF returns_any], rule triple_andthen [OF returns_any],
        rule triple_bnd [OF poll_running_shows], rule up)
qed

lemma power_on_dest_shows:
  assumes "\<not> sv_dry_run V" and "\<not> is_mock E Dest"
  shows "returns (\<lambda>_. True) (power_on_dest E V) (\<lambda>_. seen_running)"
proof -
  have ref: "returns (\<lambda>_. True) get_dest_ref (\<lambda>ref s. dest_vm_ref s = Some ref)"
    by (auto simp: triple_def get_dest_ref_def run_rules split: option.splits)
  have off: "returns P (steps [phase p, emit l, modify (\<lambda>s. s\<lparr>powered_on := False\<rparr>)])
      (\<lambda>_. seen_running)" for P p l
    by (simp add: triple_def run_rules phase_def emit_def log_def seen_running_def)
  have loop: "returns (\<lambda>s. dest_vm_ref s = Some ref) (start_loop E ref n k d xs)
      (\<lambda>_. seen_running)" for ref n k d xs
  proof -
    have "returns (\<lambda>s. True \<and> dest_vm_ref s = Some ref) (start_loop E ref n k d xs)
      (\<lambda>_ s. running_logged ref s \<and> dest_vm_ref s = Some ref)"
      by (rule returns_conj [OF start_loop_shows ref_fixed.keeps_start_loop]) simp_all
    from triple_weaken [OF this] show ?thesis
      by (simp add: seen_running_def running_logged_def)
  qed
  have fixed: "keeps (\<lambda>s. dest_vm_ref s = Some ref) m \<Longrightarrow>
      returns (\<lambda>s. dest_vm_ref s = Some ref) m (\<lambda>_ s. dest_vm_ref s = Some ref)" for ref and m :: "'a step"
    by (rule returns_keeps)
  have on: "returns (\<lambda>s. dest_vm_ref s = Some ref)
      (if \<not> on then steps [phase p, emit l, modify (\<lambda>s. s\<lparr>powered_on := False\<rparr>)]
       else andthen (modify (\<lambda>s. s\<lparr>powered_on := True\<rparr>)) (andthen (phase p')
         (bnd (lift_sum a) (\<lambda>n. bnd (lift_sum b) (\<lambda>k. bnd (lift_sum c) (\<lambda>d.
            start_loop E ref n (nat k) d [0..<nat n])))))) (\<lambda>_. seen_running)"
    for ref on p l p' and a b :: "exn + int" and c
  proof (cases on)
    case True
    show ?thesis
      by (simp only: True not_True_eq_False if_False,
          rule triple_andthen [OF fixed], rule keeps_modify, simp,
          rule triple_andthen [OF fixed [OF ref_fixed.keeps_phase]],
          (rule triple_bnd [OF fixed [OF keeps_lift_sum]])+, rule loop)
  qed (use off in simp)
  show ?thesis
    unfolding power_on_dest_def
    by (rule triple_bnd [OF ref], rule triple_bnd [OF fixed [OF keeps_gets]])
       (simp only: assms if_False on)
qed


lemma body_seen_running:
  assumes "\<not> sv_dry_run V" and "\<not> is_mock E Dest"
  shows "returns (\<lambda>_. True) (migrate_body E V) (\<lambda>_. seen_running)"
proof -
  have "keeps seen_running (completed E V)"
    by (rule running.keeps_completed) simp
  then show ?thesis
    unfolding migrate_body_stages
    by (rule triple_andthen [OF returns_any triple_andthen [OF returns_any triple_andthen
          [OF returns_any triple_andthen [OF returns_any triple_andthen [OF returns_any
          triple_andthen [OF returns_any triple_andthen
          [OF power_on_dest_shows [OF assms] returns_keeps]]]]]]])
qed

text \<open>
  If a migration (neither a dry run nor onto a mock destination) succeeds and reports the
  destination as booted, then the destination connector said, in this run, that the new VM is
  running.
\<close>

theorem booted_destination_was_seen_running:
  assumes "\<not> sv_dry_run V" and "\<not> is_mock E Dest"
    and "result (run_service E V) init_state = Inr r" and "success r"
    and "powered_on (final (run_service E V) init_state)"
  shows "\<exists>ref p. dest_vm_ref (final (run_service E V) init_state) = Some ref \<and>
     lower p = ''running'' \<and>
     Call (PowerState Dest ref) (Said p) \<in> set (trace (final (run_service E V) init_state))"
proof -
  obtain u where u: "migrate_body E V init_state = (Inr (), u)"
    "final (run_service E V) init_state = final (succeeded E V) u"
    using assms(3,4) by (rule run_succeeded)
  have "seen_running u"
    using tripleD_Inr [OF body_seen_running [OF assms(1,2)]] u(1) by blast
  moreover have "keeps seen_running (succeeded E V)"
    unfolding succeeded_def clear_def
    by (intro keeps_intro running.keeps_cleanup_scratch keeps_modify) (simp_all add: seen_running_def)
  ultimately have "seen_running (final (run_service E V) init_state)" using u(2) by (metis keepsD)
  with assms(5) obtain ref e where
    "dest_vm_ref (final (run_service E V) init_state) = Some ref"
    "e \<in> set (trace (final (run_service E V) init_state))" "shows_running ref e"
    unfolding seen_running_def by blast
  then show ?thesis by (auto elim!: shows_running.elims)
qed

theorem booted_destination_was_seen_running_witness:
  "\<exists>ref p. dest_vm_ref (final demo_moving init_state) = Some ref \<and> lower p = ''running'' \<and>
     Call (PowerState Dest ref) (Said p) \<in> set (trace (final demo_moving init_state))"
proof -
  obtain r where r: "result demo_moving init_state = Inr r" "success r"
    by (rule demo_moving_succeeds)
  have "\<not> sv_dry_run (demo_service ''move'' False False)" "\<not> is_mock (demo_env (\<lambda>_. False)) Dest"
    by (simp_all add: demo_service_def demo_env_def)
  moreover have "powered_on (final demo_moving init_state)"
    by (simp add: demo_run cong: demo_cong split del: if_split)
  ultimately show ?thesis by (rule booted_destination_was_seen_running [OF _ _ r])
qed

section \<open>Names\<close>

text \<open>
  The name chosen for the destination VM is never one the destination already uses: it is
  the source VM's name where that is free, and otherwise that name with the smallest number,
  from 1 on, that makes it free. The search always ends.
\<close>

theorem unique_name_is_free:
  "unique_name base existing \<notin> set existing \<and>
   (base \<notin> set existing \<and> unique_name base existing = base \<or>
    base \<in> set existing \<and> (\<exists>n. unique_name base existing = numbered base n \<and> 1 \<le> n \<and>
      (\<forall>m. \<not> (1 \<le> m \<and> m < n \<and> numbered base m \<notin> set existing))))"
  using first_free_free [of base existing 1] first_free_ge [of 1 base existing]
    first_free_least [of 1 _ base existing]
  by (auto simp: unique_name_def)

text \<open>
  C9. A migration always ends in a result: no exception of a connector, an array or a
  compensation escapes from the run.
\<close>

theorem run_always_returns: "\<exists>r. result (run_service E V) s = Inr r"
  using quiet_run_service [of E V] by (simp add: never_raises_def)


text \<open>
  C8. A failed migration is unwound completely and in reverse: after the failure the run makes
  the calls of every compensation on the stack, the last one pushed first, whether or not the
  ones before it raised, then at most one scratch cleanup, and no other call.
\<close>

theorem rollback_is_complete_and_reversed:
  "\<exists>sc. length sc \<le> 1 \<and>
     calls (final (failed E V exc) s) =
       calls s @ concat (map (\<lambda>e. undo_calls V (undo e)) (rev (rollback s))) @ map CleanupScratch sc"
proof -
  obtain u sc where u: "trace (final (failed E V exc) s) = trace s @ u"
    "calls_of u = concat (map (\<lambda>e. undo_calls V (undo e)) (rev (rollback s))) @ map CleanupScratch sc"
    "length sc \<le> 1"
    by (rule failed_trace)
  then show ?thesis by (auto simp: calls_def)
qed

end
