(* ===== verification/Host_Group.thy ===== *)
theory Host_Group
  imports Actions Py_Numbers
begin

text \<open>
  Initiators and host groups of \<^verbatim>\<open>flasharray/client.py\<close>: matching a host by its initiators,
  and \<^verbatim>\<open>_register_host_group\<close>, which the real and the mock client share. The client it is
  called with is a record of its four methods; the locale \<open>host_array\<close> states what the
  algorithm relies on, and carries the proofs of what it guarantees.
\<close>

section \<open>Initiators\<close>

text \<open>The keyword arguments \<^verbatim>\<open>iqns\<close>, \<^verbatim>\<open>wwns\<close> and \<^verbatim>\<open>nqns\<close>.\<close>

record initiators =
  iqns :: "string list option"
  wwns :: "string list option"
  nqns :: "string list option"

text \<open>A host object of the array.\<close>

record fa_host =
  host_iqns :: "string list"
  host_wwns :: "string list"
  host_nqns :: "string list"

text \<open>\<^verbatim>\<open>x or []\<close>\<close>

definition or_empty :: "'a list option \<Rightarrow> 'a list" where
  "or_empty x = (case x of None \<Rightarrow> [] | Some xs \<Rightarrow> xs)"

definition norm_wwn :: "string \<Rightarrow> string" where
  "norm_wwn w = filter (\<lambda>c. c \<notin> set '':- '') (lower w)"

definition want_names :: "string list option \<Rightarrow> string set" where
  "want_names xs = set (map (\<lambda>s. lower (strip s)) (filter (\<lambda>s. strip s \<noteq> []) (or_empty xs)))"

definition want_wwns :: "string list option \<Rightarrow> string set" where
  "want_wwns xs = set (map norm_wwn (filter (\<lambda>s. s \<noteq> [] \<and> strip s \<noteq> []) (or_empty xs)))"

definition wants_nothing :: "initiators \<Rightarrow> bool" where
  "wants_nothing i \<longleftrightarrow> want_names (iqns i) = {} \<and> want_names (nqns i) = {} \<and> want_wwns (wwns i) = {}"

definition owns :: "initiators \<Rightarrow> fa_host \<Rightarrow> bool" where
  "owns i h \<longleftrightarrow>
     want_names (iqns i) \<inter> set (map lower (host_iqns h)) \<noteq> {} \<or>
     want_names (nqns i) \<inter> set (map lower (host_nqns h)) \<noteq> {} \<or>
     want_wwns (wwns i) \<inter> set (map norm_wwn (host_wwns h)) \<noteq> {}"

lemma norm_wwn_idem [simp]: "norm_wwn (norm_wwn w) = norm_wwn w"
proof -
  have "lower_char c \<in> set '':- '' \<longleftrightarrow> c \<in> set '':- ''" for c
    by (auto simp: lower_char_def Let_def char_of_eq_iff take_bit_eq_mod split: if_splits)
  then show ?thesis
    by (induction w) (auto simp: norm_wwn_def lower_def)
qed

lemma norm_wwn_lower [simp]: "norm_wwn (lower w) = norm_wwn w"
  by (simp add: norm_wwn_def)

lemma wants_nothing_owns: "wants_nothing i \<Longrightarrow> \<not> owns i h"
  by (simp add: wants_nothing_def owns_def)

section \<open>The interface of a client\<close>

record host_info =
  info_host :: fa_host
  info_group :: "string option"

record 's host_client =
  find_host_by_initiator :: "initiators \<Rightarrow> ('s, string option) action"
  get_host :: "string \<Rightarrow> ('s, host_info option) action"
  create_host :: "string \<Rightarrow> initiators \<Rightarrow> ('s, unit) action"
  create_host_group :: "string \<Rightarrow> string list \<Rightarrow> ('s, unit) action"

section \<open>Registering a host group\<close>

text \<open>An entry of \<^verbatim>\<open>hosts\<close>: the intended name and the initiators of a node.\<close>

type_synonym host_spec = "string \<times> initiators"

record registration =
  reg_group :: string
  reg_hosts :: "string list"
  reg_adopted :: bool
  reg_created :: "string list"
  reg_reused :: "string list"
  reg_conflict :: "string option"

text \<open>\<^verbatim>\<open>groups_seen.setdefault(cur, []).append(existing)\<close>\<close>

definition seen_in :: "string \<Rightarrow> string \<Rightarrow> (string \<times> string list) list \<Rightarrow> (string \<times> string list) list" where
  "seen_in g h gs = AList.update g (dict_get gs g [] @ [h]) gs"

type_synonym plan = "(string \<times> string option \<times> initiators) list"

text \<open>Phase 1, over the hosts still to look at.\<close>

fun plan_hosts ::
  "'s host_client \<Rightarrow> host_spec list \<Rightarrow> plan \<Rightarrow> (string \<times> string list) list \<Rightarrow>
   ('s, plan \<times> (string \<times> string list) list) action" where
  "plan_hosts c [] plan gs = ret (plan, gs)"
| "plan_hosts c ((name, i) # hs) plan gs =
     bnd (find_host_by_initiator c i) (\<lambda>existing.
     case nonempty existing of
       None \<Rightarrow> plan_hosts c hs (plan @ [(name, existing, i)]) gs
     | Some h \<Rightarrow>
         bnd (get_host c h) (\<lambda>info.
         case nonempty (case info of None \<Rightarrow> None | Some x \<Rightarrow> info_group x) of
           None \<Rightarrow> plan_hosts c hs (plan @ [(name, existing, i)]) gs
         | Some g \<Rightarrow> plan_hosts c hs (plan @ [(name, existing, i)]) (seen_in g h gs)))"

text \<open>The creating loop of phase 2: the names, and which of them were created and reused.\<close>

fun apply_plan ::
  "'s host_client \<Rightarrow> plan \<Rightarrow> ('s, string list \<times> string list \<times> string list) action" where
  "apply_plan c [] = ret ([], [], [])"
| "apply_plan c ((name, existing, i) # ps) =
     (case nonempty existing of
        Some h \<Rightarrow> bnd (apply_plan c ps) (\<lambda>(names, created, reused).
          ret (h # names, created, h # reused))
      | None \<Rightarrow> andthen (create_host c name i)
          (bnd (apply_plan c ps) (\<lambda>(names, created, reused).
             ret (name # names, name # created, reused))))"

definition spread_text :: "(string \<times> string list) list \<Rightarrow> string list \<Rightarrow> string" where
  "spread_text gs distinct_groups =
     join ''; '' (map (\<lambda>g. join '', '' (dict_get gs g []) @ '' in host group '' @ py_repr g)
       distinct_groups)"

definition conflict_text :: "string \<Rightarrow> string" where
  "conflict_text detail =
     ''Pool hosts are spread across multiple FlashArray host groups ('' @ detail
     @ ''); cannot choose one automatically. Consolidate them into a single host group on the ''
     @ ''array (or clear the extra memberships), then retry.''"

definition register_host_group ::
  "'s host_client \<Rightarrow> string \<Rightarrow> host_spec list \<Rightarrow> ('s, registration) action" where
  "register_host_group c requested hosts =
     bnd (plan_hosts c hosts [] []) (\<lambda>(plan, gs).
     let groups = sort (map fst gs) in
     if 1 < length groups then
       ret \<lparr>reg_group = requested, reg_hosts = [], reg_adopted = False, reg_created = [],
            reg_reused = [], reg_conflict = Some (conflict_text (spread_text gs groups))\<rparr>
     else
       let effective = (case groups of [] \<Rightarrow> requested | g # _ \<Rightarrow> g) in
       bnd (apply_plan c plan) (\<lambda>(names, created, reused).
       andthen (create_host_group c effective names)
       (ret \<lparr>reg_group = effective, reg_hosts = names,
             reg_adopted = (groups \<noteq> [] \<and> effective \<noteq> requested),
             reg_created = created, reg_reused = reused, reg_conflict = None\<rparr>)))"

section \<open>What registration relies on, and what it guarantees\<close>

text \<open>The initiators of \<open>i\<close> are among those of the host.\<close>

definition covers :: "initiators \<Rightarrow> fa_host \<Rightarrow> bool" where
  "covers i h \<longleftrightarrow> set (or_empty (iqns i)) \<subseteq> set (host_iqns h) \<and>
     set (or_empty (wwns i)) \<subseteq> set (host_wwns h) \<and> set (or_empty (nqns i)) \<subseteq> set (host_nqns h)"

locale host_array =
  fixes c :: "'s host_client" and hosts :: "'s \<Rightarrow> string \<Rightarrow> fa_host option"
    and groups :: "'s \<Rightarrow> string \<Rightarrow> string list option"
  assumes find_view: "find_host_by_initiator c i s = (r, t) \<Longrightarrow> hosts t = hosts s \<and> groups t = groups s"
    and find_some: "find_host_by_initiator c i s = (Inr (Some h), t) \<Longrightarrow>
      \<exists>x. hosts s h = Some x \<and> owns i x"
    and find_none: "find_host_by_initiator c i s = (Inr None, t) \<Longrightarrow> hosts s h = Some x \<Longrightarrow> \<not> owns i x"
    and get_view: "get_host c h s = (q, t) \<Longrightarrow> hosts t = hosts s \<and> groups t = groups s"
    and get_none: "get_host c h s = (Inr None, t) \<Longrightarrow> hosts s h = None"
    and get_group: "get_host c h s = (Inr (Some y), t) \<Longrightarrow> info_group y = Some g \<Longrightarrow>
      \<exists>ms. groups s g = Some ms \<and> h \<in> set ms"
    and get_no_group: "get_host c h s = (Inr (Some y), t) \<Longrightarrow> info_group y = None \<Longrightarrow>
      groups s g = Some ms \<Longrightarrow> h \<notin> set ms"
    and create_groups: "create_host c n i s = (Inr u, t) \<Longrightarrow> groups t = groups s"
    and create_hosts: "create_host c n i s = (Inr u, t) \<Longrightarrow> \<exists>x. hosts t = (hosts s)(n \<mapsto> x) \<and> covers i x"
    and group_hosts: "create_host_group c g ms s = (Inr u, t) \<Longrightarrow> hosts t = hosts s"
    and group_groups: "create_host_group c g ms s = (Inr u, t) \<Longrightarrow>
      \<exists>xs. groups t = (groups s)(g \<mapsto> xs) \<and> set xs = set ms \<union> set (or_empty (groups s g))"
begin

definition in_group :: "'s \<Rightarrow> string \<Rightarrow> string \<Rightarrow> bool" where
  "in_group s h g \<longleftrightarrow> h \<in> set (or_empty (groups s g))"

text \<open>No host is a member of two groups; no host and no group has an empty name.\<close>

definition one_group :: "'s \<Rightarrow> bool" where
  "one_group s \<longleftrightarrow> (\<forall>h g g'. in_group s h g \<longrightarrow> in_group s h g' \<longrightarrow> g = g')"

definition named :: "'s \<Rightarrow> bool" where
  "named s \<longleftrightarrow> hosts s [] = None \<and> groups s [] = None"

text \<open>An entry of the plan is right: the host to reuse owns one of the initiators, its groups
  are noted, and where none is to be reused no host does.\<close>

definition entry_ok :: "'s \<Rightarrow> string set \<Rightarrow> string \<times> string option \<times> initiators \<Rightarrow> bool" where
  "entry_ok s gs e = (case e of (name, existing, i) \<Rightarrow>
     case existing of
       None \<Rightarrow> (\<forall>h x. hosts s h = Some x \<longrightarrow> \<not> owns i x)
     | Some h \<Rightarrow> h \<noteq> [] \<and> (\<exists>x. hosts s h = Some x \<and> owns i x) \<and> {g. in_group s h g} \<subseteq> gs)"

lemma entry_ok_mono: "entry_ok s gs e \<Longrightarrow> gs \<subseteq> gs' \<Longrightarrow> entry_ok s gs' e"
  by (auto simp: entry_ok_def split: prod.splits option.splits)

lemma entry_ok_view: "hosts t = hosts s \<Longrightarrow> groups t = groups s \<Longrightarrow> entry_ok t = entry_ok s"
proof -
  assume "hosts t = hosts s" "groups t = groups s"
  moreover from this have "in_group t = in_group s" by (intro ext) (simp add: in_group_def)
  ultimately show ?thesis by (intro ext) (simp only: entry_ok_def)
qed

lemma plan_view:
  "plan_hosts c hs plan gs s = (r, t) \<Longrightarrow> hosts t = hosts s \<and> groups t = groups s"
proof (induction hs arbitrary: plan gs s)
  case Nil
  then show ?case by (simp add: ret_def)
next
  case (Cons h hs)
  show ?case
    using Cons.prems
    by (cases h)
       (auto simp: bnd_def split: prod.splits sum.splits option.splits
         dest!: find_view get_view dest: Cons.IH)
qed

lemma plan_length:
  "plan_hosts c hs plan gs s = (Inr (p, gs'), t) \<Longrightarrow>
   map (\<lambda>(n, e, i). (n, i)) p = map (\<lambda>(n, e, i). (n, i)) plan @ hs"
proof (induction hs arbitrary: plan gs s)
  case Nil
  then show ?case by (simp add: ret_def)
next
  case (Cons h hs)
  show ?case
    using Cons.prems
    by (cases h) (auto simp: bnd_def split: prod.splits sum.splits option.splits dest!: Cons.IH)
qed


lemma in_groupD: "groups s g = Some ms \<Longrightarrow> h \<in> set ms \<longleftrightarrow> in_group s h g"
  by (simp add: in_group_def or_empty_def)

lemma keys_seen_in [simp]: "fst ` set (seen_in g h gs) = insert g (fst ` set gs)"
  by (simp add: seen_in_def)

lemma found_entry_ok:
  assumes named: "named s" and one: "one_group s"
    and find: "find_host_by_initiator c i s = (Inr (Some h), s1)" and "h \<noteq> []"
    and get: "get_host c h s1 = (Inr info, s2)"
  shows "entry_ok s (set_option (nonempty (case info of None \<Rightarrow> None | Some x \<Rightarrow> info_group x)))
    (name, Some h, i)"
proof -
  have v: "hosts s1 = hosts s" "groups s1 = groups s" using find_view [OF find] by simp_all
  obtain x where x: "hosts s h = Some x" "owns i x" using find_some [OF find] by blast
  with get v get_none [of h s1] obtain y where y: "info = Some y" by (cases info) auto
  have "{g. in_group s h g} \<subseteq> set_option (nonempty (info_group y))"
  proof (cases "info_group y")
    case None
    then have "\<not> in_group s h g" for g
      using get_no_group [of h s1 y s2 g] get y v
      by (auto simp: in_group_def or_empty_def split: option.splits)
    then show ?thesis by auto
  next
    case (Some g)
    then obtain ms where ms: "groups s g = Some ms" "h \<in> set ms"
      using get_group [of h s1 y s2 g] get y v by auto
    then have "in_group s h g" and "g \<noteq> []" using named by (auto simp: in_groupD named_def)
    then have "{g. in_group s h g} = {g}" using one by (auto simp: one_group_def)
    moreover have "nonempty (info_group y) = Some g" using Some \<open>g \<noteq> []\<close> by (simp add: nonempty_Some_iff)
    ultimately show ?thesis by simp
  qed
  with x \<open>h \<noteq> []\<close> y show ?thesis by (simp add: entry_ok_def)
qed

lemma plan_ok:
  assumes "named s" "one_group s" "plan_hosts c hs plan gs s = (Inr (p, gs'), t)"
    "\<And>e. e \<in> set plan \<Longrightarrow> entry_ok s (fst ` set gs) e"
  shows "fst ` set gs \<subseteq> fst ` set gs' \<and> (\<forall>e \<in> set p. entry_ok s (fst ` set gs') e)"
  using assms
proof (induction hs arbitrary: plan gs s)
  case Nil
  then show ?case by (simp add: ret_def)
next
  case (Cons spec hs)
  obtain n i where spec: "spec = (n, i)" by (cases spec)
  obtain e s1 where find: "find_host_by_initiator c i s = (Inr e, s1)"
    using Cons.prems(3) by (auto simp: spec bnd_def split: prod.splits sum.splits)
  have v1: "hosts s1 = hosts s" "groups s1 = groups s" using find_view [OF find] by simp_all
  have view: "named u = named s \<and> one_group u = one_group s \<and> entry_ok u = entry_ok s"
    if "hosts u = hosts s" "groups u = groups s" for u
    using that entry_ok_view [OF that] by (simp add: named_def one_group_def in_group_def)
  show ?case
  proof (cases "nonempty e")
    case None
    then have "e = None"
      using find_some [of i s "[]" s1] find Cons.prems(1) by (auto simp: nonempty_None_iff named_def)
    then have "entry_ok s gs'' (n, e, i)" for gs''
      using find_none [of i s s1] find by (auto simp: entry_ok_def)
    then have new: "entry_ok s (fst ` set gs) (n, e, i)" .
    have "entry_ok s1 = entry_ok s" using view [OF v1] by blast
    then have "entry_ok s1 (fst ` set gs) e'" if "e' \<in> set (plan @ [(n, e, i)])" for e'
      using that new Cons.prems(4) [of e'] by (cases "e' = (n, e, i)") simp_all
    moreover have "plan_hosts c hs (plan @ [(n, e, i)]) gs s1 = (Inr (p, gs'), t)"
      using Cons.prems(3) None find by (simp add: spec bnd_def)
    ultimately show ?thesis
      using Cons.IH [of s1 "plan @ [(n, e, i)]" gs] Cons.prems(1,2) view [OF v1] by simp
  next
    case (Some h)
    then have h: "e = Some h" "h \<noteq> []" by (simp_all add: nonempty_Some_iff)
    obtain info s2 where get: "get_host c h s1 = (Inr info, s2)"
      using Cons.prems(3) find Some by (auto simp: spec bnd_def split: prod.splits sum.splits)
    have v2: "hosts s2 = hosts s" "groups s2 = groups s" using get_view [OF get] v1 by simp_all
    define g where "g = nonempty (case info of None \<Rightarrow> None | Some x \<Rightarrow> info_group x)"
    have ok: "entry_ok s (set_option g) (n, e, i)"
      using found_entry_ok [OF Cons.prems(1,2) _ h(2) get] find h(1) unfolding g_def by simp
    define gs1 where "gs1 = (case g of None \<Rightarrow> gs | Some k \<Rightarrow> seen_in k h gs)"
    have keys: "fst ` set gs1 = fst ` set gs \<union> set_option g"
      by (auto simp: gs1_def split: option.splits)
    have "plan_hosts c hs (plan @ [(n, e, i)]) gs1 s2 = (Inr (p, gs'), t)"
      using Cons.prems(3) find Some get
      by (auto simp: spec bnd_def gs1_def g_def split: option.splits)
    moreover have "entry_ok s (fst ` set gs1) e'" if "e' \<in> set (plan @ [(n, e, i)])" for e'
      using that entry_ok_mono [OF ok] entry_ok_mono [OF Cons.prems(4) [of e']] keys
      by (cases "e' = (n, e, i)") simp_all
    ultimately show ?thesis
      using Cons.IH [of s2 "plan @ [(n, e, i)]" gs1] Cons.prems(1,2) view [OF v2] keys by auto
  qed
qed


text \<open>Phase 2: the names, and what was created.\<close>

definition chosen :: "plan \<Rightarrow> string list" where
  "chosen p = map (\<lambda>(n, e, i). case nonempty e of Some h \<Rightarrow> h | None \<Rightarrow> n) p"

lemma apply_plan_run:
  "apply_plan c p s = (Inr (names, created, reused), t) \<Longrightarrow>
   names = chosen p \<and> groups t = groups s \<and>
   (\<forall>h x. hosts s h = Some x \<longrightarrow> h \<notin> set created \<longrightarrow> hosts t h = Some x) \<and>
   created = map fst (filter (\<lambda>(n, e, i). nonempty e = None) p) \<and>
   reused = map the (filter (\<lambda>e. e \<noteq> None) (map (\<lambda>(n, e, i). nonempty e) p)) \<and>
   (\<forall>n \<in> set created. \<exists>x. hosts t n = Some x)"
proof (induction p arbitrary: s names created reused)
  case Nil
  then show ?case by (simp add: ret_def chosen_def)
next
  case (Cons e p)
  obtain n ex i where e: "e = (n, ex, i)" by (cases e)
  show ?case
  proof (cases "nonempty ex")
    case None
    then obtain s1 names' created' where s1: "create_host c n i s = (Inr (), s1)"
      "apply_plan c p s1 = (Inr (names', created', reused), t)"
      "names = n # names'" "created = n # created'"
      using Cons.prems
      by (auto simp: e bnd_def andthen_def ret_def split: prod.splits sum.splits)
    obtain x where x: "hosts s1 = (hosts s)(n \<mapsto> x)" using create_hosts [OF s1(1)] by blast
    have "hosts t n \<noteq> None"
      using Cons.IH [OF s1(2)] x by (cases "n \<in> set created'") auto
    then show ?thesis
      using Cons.IH [OF s1(2)] create_groups [OF s1(1)] x s1(3,4) None
      by (auto simp: e chosen_def)
  next
    case (Some h)
    then obtain names' reused' where "apply_plan c p s = (Inr (names', created, reused'), t)"
      "names = h # names'" "reused = h # reused'"
      using Cons.prems by (auto simp: e bnd_def ret_def split: prod.splits sum.splits)
    with Cons.IH [of s names' created reused'] Some show ?thesis by (auto simp: e chosen_def)
  qed
qed

lemma register_cases:
  assumes "register_host_group c requested hs s = (Inr r, t)"
  obtains (conflict) p gs where "plan_hosts c hs [] [] s = (Inr (p, gs), t)"
      "1 < length gs" "reg_conflict r \<noteq> None" "reg_hosts r = []" "reg_created r = []" "reg_reused r = []"
  | (grouped) p gs s1 created reused s2 where "plan_hosts c hs [] [] s = (Inr (p, gs), s1)"
      "length gs \<le> 1" "apply_plan c p s1 = (Inr (reg_hosts r, created, reused), s2)"
      "create_host_group c (reg_group r) (reg_hosts r) s2 = (Inr (), t)"
      "reg_group r = (case gs of [] \<Rightarrow> requested | g # _ \<Rightarrow> fst g)" "reg_conflict r = None"
      "reg_created r = created" "reg_reused r = reused"
proof -
  obtain p gs s1 where s1: "plan_hosts c hs [] [] s = (Inr (p, gs), s1)"
    using assms by (auto simp: register_host_group_def elim!: bnd_eq_InrE)
  show thesis
  proof (cases "1 < length gs")
    case True
    then have "r = \<lparr>reg_group = requested, reg_hosts = [], reg_adopted = False, reg_created = [],
        reg_reused = [], reg_conflict = Some (conflict_text (spread_text gs (sort (map fst gs))))\<rparr>"
      "t = s1"
      using assms s1 by (simp_all add: register_host_group_def bnd_def ret_def Let_def)
    with s1 True show thesis by (intro conflict) simp_all
  next
    case False
    then have "sort (map fst gs) = map fst gs" by (cases gs; cases "tl gs") simp_all
    moreover have "(case map fst gs of [] \<Rightarrow> requested | g # _ \<Rightarrow> g)
        = (case gs of [] \<Rightarrow> requested | g # _ \<Rightarrow> fst g)" by (cases gs) simp_all
    ultimately obtain names created reused s2 where s2: "apply_plan c p s1 = (Inr (names, created, reused), s2)"
      "create_host_group c (case gs of [] \<Rightarrow> requested | g # _ \<Rightarrow> fst g) names s2 = (Inr (), t)"
      "reg_group r = (case gs of [] \<Rightarrow> requested | g # _ \<Rightarrow> fst g)" "reg_hosts r = names"
      "reg_conflict r = None" "reg_created r = created" "reg_reused r = reused"
      using assms s1 False
      by (auto simp: register_host_group_def bnd_def andthen_def ret_def Let_def
          split: prod.splits sum.splits if_splits)
    with s1 False show thesis by (intro grouped) simp_all
  qed
qed


lemma register_conflict:
  assumes "register_host_group c requested hs s = (Inr r, t)" and "reg_conflict r \<noteq> None"
  shows "hosts t = hosts s \<and> groups t = groups s \<and> reg_created r = []"
  using assms(1)
proof (cases rule: register_cases)
  case (conflict p gs)
  then show ?thesis using plan_view by blast
next
  case (grouped p gs s1 created reused s2)
  with assms(2) show ?thesis by simp
qed

lemma length_chosen [simp]: "length (chosen p) = length p"
  by (simp add: chosen_def)

lemma plan_entries: "plan_hosts c hs [] [] s = (Inr (p, gs), t) \<Longrightarrow> map (\<lambda>(n, e, i). (n, i)) p = hs"
  using plan_length [of hs "[]" "[]" s p gs t] by simp

lemma register_groups:
  assumes "register_host_group c requested hs s = (Inr r, t)" and "reg_conflict r = None"
    and "named s" and "one_group s"
  shows "length (reg_hosts r) = length hs \<and>
    (\<forall>h \<in> set (reg_hosts r). in_group t h (reg_group r) \<and> hosts t h \<noteq> None) \<and>
    (\<forall>g. g \<noteq> reg_group r \<longrightarrow> groups t g = groups s g)"
  using assms(1)
proof (cases rule: register_cases)
  case (conflict p gs)
  with assms(2) show ?thesis by simp
next
  case (grouped p gs s1 created reused s2)
  have v: "hosts s1 = hosts s" "groups s1 = groups s" using plan_view [OF grouped(1)] by simp_all
  have ok: "\<forall>e \<in> set p. entry_ok s (fst ` set gs) e"
    using plan_ok [OF assms(3,4) grouped(1)] by simp
  note run = apply_plan_run [OF grouped(3)]
  obtain xs where xs: "groups t = (groups s2)(reg_group r \<mapsto> xs)"
    "set xs = set (reg_hosts r) \<union> set (or_empty (groups s2 (reg_group r)))"
    using group_groups [OF grouped(4)] by blast
  have "length (reg_hosts r) = length hs"
    using run plan_entries [OF grouped(1)] by (metis length_chosen length_map)
  moreover have "in_group t h (reg_group r)" if "h \<in> set (reg_hosts r)" for h
    using that xs by (simp add: in_group_def or_empty_def)
  moreover have "hosts t h \<noteq> None" if h: "h \<in> set (reg_hosts r)" for h
  proof -
    obtain n e i where e: "(n, e, i) \<in> set p" "h = (case nonempty e of Some h \<Rightarrow> h | None \<Rightarrow> n)"
      using h run by (auto simp: chosen_def)
    show ?thesis
    proof (cases "nonempty e")
      case None
      then have "h \<in> set created" using e run by force
      then show ?thesis using run group_hosts [OF grouped(4)] by auto
    next
      case (Some k)
      then have "h = k" "e = Some k" using e(2) by (simp, simp add: nonempty_Some_iff)
      then obtain x where "hosts s h = Some x" using ok e(1) by (fastforce simp: entry_ok_def)
      then show ?thesis
        using run v group_hosts [OF grouped(4)] by (cases "h \<in> set created") auto
    qed
  qed
  moreover have "groups t g = groups s g" if "g \<noteq> reg_group r" for g
    using that xs run v by simp
  ultimately show ?thesis by blast
qed

text \<open>The names of hosts that have to be created are members of no group yet.\<close>

definition fresh_names :: "host_spec list \<Rightarrow> 's \<Rightarrow> bool" where
  "fresh_names hs s \<longleftrightarrow> (\<forall>(n, i) \<in> set hs.
     (\<forall>h x. hosts s h = Some x \<longrightarrow> \<not> owns i x) \<longrightarrow> (\<forall>g. \<not> in_group s n g))"

lemma register_one_group:
  assumes "register_host_group c requested hs s = (Inr r, t)"
    and "named s" and "one_group s" and "fresh_names hs s"
  shows "one_group t"
  using assms(1)
proof (cases rule: register_cases)
  case (conflict p gs)
  then have "groups t = groups s" using plan_view by blast
  then show ?thesis using assms(3) by (simp add: one_group_def in_group_def)
next
  case (grouped p gs s1 created reused s2)
  have v: "groups s2 = groups s"
    using plan_view [OF grouped(1)] apply_plan_run [OF grouped(3)] by simp
  have ok: "\<forall>e \<in> set p. entry_ok s (fst ` set gs) e"
    using plan_ok [OF assms(2,3) grouped(1)] by simp
  have only: "fst ` set gs \<subseteq> {reg_group r}"
    using grouped(2,5) by (cases gs) auto
  obtain xs where xs: "groups t = (groups s)(reg_group r \<mapsto> xs)"
    "set xs = set (reg_hosts r) \<union> set (or_empty (groups s (reg_group r)))"
    using group_groups [OF grouped(4)] v by auto
  have grouped_before: "g = reg_group r" if h: "h \<in> set (reg_hosts r)" and g: "in_group s h g" for h g
  proof -
    obtain n e i where e: "(n, e, i) \<in> set p" "h = (case nonempty e of Some h \<Rightarrow> h | None \<Rightarrow> n)"
      using h apply_plan_run [OF grouped(3)] by (auto simp: chosen_def)
    have entry: "entry_ok s (fst ` set gs) (n, e, i)" using ok e(1) by blast
    show ?thesis
    proof (cases e)
      case None
      then have "h = n" using e(2) by (simp add: nonempty_def)
      moreover have "(n, i) \<in> set hs" using e(1) plan_entries [OF grouped(1)] by force
      moreover have "\<forall>h x. hosts s h = Some x \<longrightarrow> \<not> owns i x"
        using entry None by (simp add: entry_ok_def)
      ultimately show ?thesis using assms(4) g unfolding fresh_names_def by blast
    next
      case (Some k)
      then have "h = k" "{g. in_group s k g} \<subseteq> fst ` set gs"
        using e(2) entry by (auto simp: entry_ok_def nonempty_Some_iff split: option.splits
            simp: nonempty_None_iff)
      then show ?thesis using g only by blast
    qed
  qed
  have "in_group t h g \<Longrightarrow> in_group s h g \<or> (h \<in> set (reg_hosts r) \<and> g = reg_group r)" for h g
    using xs by (auto simp: in_group_def or_empty_def split: if_splits option.splits)
  then show ?thesis
    using assms(3) grouped_before unfolding one_group_def by metis
qed

end


end
