(* ===== verification/Pure_Client.thy ===== *)
theory Pure_Client
  imports Host_Group
begin

text \<open>
  \<^verbatim>\<open>PureFlashArrayClient\<close> of \<^verbatim>\<open>flasharray/client.py\<close>: the client of a real FlashArray. The SDK
  it wraps (\<^verbatim>\<open>pypureclient\<close>) is not part of the repository; it is the parameter \<open>sdk\<close>, which
  answers every request as an arbitrary function of the request and of the requests before it:
  an exception, or a response with its status, its error text and its items. The requests are
  constructors named after the SDK's methods, with the arguments the client passes; the state
  holds the SDK client, once it is built, and the requests made so far with how they ended.

  An item is an object of the SDK: its attributes are read with \<open>attr\<close> as \<^verbatim>\<open>getattr\<close> reads
  them, and carry the types of the SDK's schema (a list of names where the code iterates one).
\<close>

section \<open>The SDK\<close>

datatype credentials = ApiToken string | Login "string option" "string option"

text \<open>The bodies \<^verbatim>\<open>VolumePost\<close> and \<^verbatim>\<open>VolumePatch\<close>.\<close>

datatype volume_post = Provisioned int | FromSource string

datatype volume_patch =
    PatchProvisioned int | PatchDestroyed | PatchName string | PatchQos "int option" "int option"

datatype (plugins only: code) sdk_call =
    new_client string credentials bool
  | get_arrays | get_controllers
  | post_admins_api_tokens string | delete_admins_api_tokens string
  | post_hosts string initiators | patch_hosts string initiators
  | get_hosts "string option"
  | post_host_groups string | post_host_groups_hosts string string
  | get_host_groups_hosts string | delete_host_groups_hosts string string
  | delete_hosts string | delete_host_groups string
  | get_network_interfaces | get_ports
  | post_file_systems string | patch_file_systems_destroyed string | delete_file_systems string
  | post_directories string string | post_directory_exports string string string
  | get_directory_exports | delete_directory_exports string
  | post_volumes string volume_post "bool option"
  | get_volumes_named string | get_volumes_destroyed string | get_all_volumes
  | get_volumes_filtered string
  | get_volumes_tags string string
  | get_connections string
  | patch_volumes string volume_patch | delete_volumes string
  | post_volume_snapshots string "string option"
  | post_connections_host string string | post_connections_group string string
  | delete_connections_host string string | delete_connections_group string string
  | post_volume_groups string
  | get_array_connections | get_array_connections_connection_key
  | post_array_connections string string "string list option" | delete_array_connections string
  | post_protection_groups string | post_protection_groups_volumes string "string list"
  | post_protection_groups_targets string string
  | post_protection_group_snapshots string string
  | patch_protection_groups_destroyed string | delete_protection_groups string

record response =
  resp_status :: "int option"
  resp_errors :: string
  resp_items :: "json list option"

text \<open>How a request ended.\<close>

datatype sdk_outcome = SdkRaised | SdkError int | SdkOk

type_synonym sdk_trace = "(sdk_call \<times> sdk_outcome) list"
type_synonym sdk = "sdk_trace \<Rightarrow> sdk_call \<Rightarrow> exn + response"

section \<open>The client's state\<close>

record pure_config =
  pc_endpoint :: string
  pc_api_token :: "string option"
  pc_username :: "string option"
  pc_password :: "string option"
  pc_verify_ssl :: bool

record pure_state =
  pc_connected :: bool
  pc_trace :: sdk_trace

type_synonym 'a pure_step = "(pure_state, 'a) action"

definition new_pure :: pure_state where
  "new_pure = \<lparr>pc_connected = False, pc_trace = []\<rparr>"

definition api_error :: "string \<Rightarrow> exn" where
  "api_error m = Exn ''FlashArrayApiError'' m"

text \<open>The status that makes a response an error.\<close>

definition error_status :: "response \<Rightarrow> int option" where
  "error_status r = (case resp_status r of None \<Rightarrow> None | Some n \<Rightarrow> if 400 \<le> n then Some n else None)"

definition outcome_of :: "exn + response \<Rightarrow> sdk_outcome" where
  "outcome_of r = (case r of Inl _ \<Rightarrow> SdkRaised
     | Inr x \<Rightarrow> (case error_status x of Some n \<Rightarrow> SdkError n | None \<Rightarrow> SdkOk))"

definition request :: "sdk \<Rightarrow> sdk_call \<Rightarrow> response pure_step" where
  "request sdk c = (\<lambda>s. let r = sdk (pc_trace s) c in
     (r, s\<lparr>pc_trace := pc_trace s @ [(c, outcome_of r)]\<rparr>))"

definition credentials_of :: "pure_config \<Rightarrow> credentials" where
  "credentials_of C = (case nonempty (pc_api_token C) of Some t \<Rightarrow> ApiToken t
     | None \<Rightarrow> Login (pc_username C) (pc_password C))"

definition ensure_client :: "sdk \<Rightarrow> pure_config \<Rightarrow> unit pure_step" where
  "ensure_client sdk C =
     bnd (gets pc_connected) (\<lambda>up.
     provided (\<not> up)
       (andthen (request sdk (new_client (pc_endpoint C) (credentials_of C) (pc_verify_ssl C)))
         (modify (\<lambda>s. s\<lparr>pc_connected := True\<rparr>))))"

section \<open>Calls\<close>

text \<open>\<^verbatim>\<open>_call\<close>: the items of the response; \<open>None\<close> for a response that has none.\<close>

definition call :: "sdk \<Rightarrow> pure_config \<Rightarrow> sdk_call \<Rightarrow> json list option pure_step" where
  "call sdk C c =
     andthen (ensure_client sdk C)
     (bnd (request sdk c) (\<lambda>r.
      case error_status r of
        Some n \<Rightarrow> raise (api_error (''FlashArray API error '' @ show_int n @ '': '' @ resp_errors r))
      | None \<Rightarrow> ret (resp_items r)))"

definition says_missing :: "string \<Rightarrow> bool" where
  "says_missing msg \<longleftrightarrow> contains ''does not exist'' msg \<or> contains ''not exist'' msg"

definition call_idempotent :: "sdk \<Rightarrow> pure_config \<Rightarrow> sdk_call \<Rightarrow> unit pure_step" where
  "call_idempotent sdk C c =
     tryc (andthen (call sdk C c) (ret ()))
       (\<lambda>exc. if exn_class exc \<noteq> ''FlashArrayApiError'' then raise exc
              else if says_missing (lower (exn_text exc)) then raise exc
              else if contains ''already'' (lower (exn_text exc)) then ret ()
              else raise exc)"

text \<open>A call whose items the method goes through: a response without items is no list.\<close>

definition call_items :: "sdk \<Rightarrow> pure_config \<Rightarrow> sdk_call \<Rightarrow> json list pure_step" where
  "call_items sdk C c = bnd (call sdk C c) (\<lambda>r. case r of
     Some xs \<Rightarrow> ret xs
   | None \<Rightarrow> raise (Exn ''TypeError'' ''response object is not iterable''))"

definition call_unit :: "sdk \<Rightarrow> pure_config \<Rightarrow> sdk_call \<Rightarrow> unit pure_step" where
  "call_unit sdk C c = andthen (call sdk C c) (ret ())"

section \<open>Reading items\<close>

text \<open>\<^verbatim>\<open>getattr(x, name, dflt)\<close>\<close>

definition attr :: "json \<Rightarrow> string \<Rightarrow> json \<Rightarrow> json" where
  "attr x name dflt = (case x of JObj d \<Rightarrow> dict_get d name dflt | _ \<Rightarrow> dflt)"

text \<open>\<^verbatim>\<open>getattr(obj, name, None) if obj else other\<close>, for an attribute that is an object.\<close>

definition attr_if :: "json \<Rightarrow> string \<Rightarrow> json \<Rightarrow> json" where
  "attr_if obj name other = (if obj = JNull then other else attr obj name JNull)"

definition str_or_empty :: "json \<Rightarrow> string" where
  "str_or_empty j = (case j of JStr s \<Rightarrow> s | _ \<Rightarrow> [])"

definition strs :: "json \<Rightarrow> string list" where
  "strs j = (case j of JList xs \<Rightarrow> map str_or_empty xs | _ \<Rightarrow> [])"

definition first_item :: "json list \<Rightarrow> json" where
  "first_item xs = (case xs of [] \<Rightarrow> JNull | x # _ \<Rightarrow> x)"

section \<open>The array and its tokens\<close>

definition array_info :: "sdk \<Rightarrow> pure_config \<Rightarrow> dict pure_step" where
  "array_info sdk C =
     bnd (call_items sdk C get_arrays) (\<lambda>arrays.
     let a = first_item arrays in
     bnd (tryc (bnd (call_items sdk C get_controllers) (\<lambda>cs.
            ret (case find truthy (map (\<lambda>c. attr c ''model'' JNull) cs) of
                   Some m \<Rightarrow> m | None \<Rightarrow> JNull)))
           (\<lambda>_. ret JNull)) (\<lambda>model.
     ret [(''name'', attr a ''name'' JNull), (''model'', model),
          (''version'', attr a ''version'' JNull), (''id'', attr a ''id'' JNull)]))"

definition connect :: "sdk \<Rightarrow> pure_config \<Rightarrow> dict pure_step" where
  "connect sdk C = array_info sdk C"

definition create_api_token :: "sdk \<Rightarrow> pure_config \<Rightarrow> string \<Rightarrow> json pure_step" where
  "create_api_token sdk C user =
     bnd (call_items sdk C (post_admins_api_tokens user)) (\<lambda>items.
     case items of
       [] \<Rightarrow> raise (Exn ''IndexError'' ''list index out of range'')
     | item # _ \<Rightarrow>
         let token = attr (attr item ''api_token'' JNull) ''token'' JNull in
         if truthy token then ret token
         else raise (api_error (''No token returned for user '' @ py_repr user)))"

definition delete_api_token :: "sdk \<Rightarrow> pure_config \<Rightarrow> string \<Rightarrow> unit pure_step" where
  "delete_api_token sdk C user = call_unit sdk C (delete_admins_api_tokens user)"

section \<open>Hosts and host groups\<close>

text \<open>\<^verbatim>\<open>x or None\<close> on a list\<close>

definition or_none :: "'a list option \<Rightarrow> 'a list option" where
  "or_none x = (case x of Some (v # vs) \<Rightarrow> Some (v # vs) | _ \<Rightarrow> None)"

definition create_host :: "sdk \<Rightarrow> pure_config \<Rightarrow> string \<Rightarrow> initiators \<Rightarrow> unit pure_step" where
  "create_host sdk C name i = steps [
     call_idempotent sdk C (post_hosts name
       \<lparr>iqns = Some (or_empty (iqns i)), wwns = Some (or_empty (wwns i)), nqns = Some (or_empty (nqns i))\<rparr>),
     provided (or_empty (iqns i) \<noteq> [] \<or> or_empty (wwns i) \<noteq> [] \<or> or_empty (nqns i) \<noteq> [])
       (call_idempotent sdk C (patch_hosts name
          \<lparr>iqns = or_none (iqns i), wwns = or_none (wwns i), nqns = or_none (nqns i)\<rparr>))]"

definition item_host :: "json \<Rightarrow> fa_host" where
  "item_host h = \<lparr>host_iqns = strs (attr h ''iqns'' JNull), host_wwns = strs (attr h ''wwns'' JNull),
     host_nqns = strs (attr h ''nqns'' JNull)\<rparr>"

definition find_host_by_initiator :: "sdk \<Rightarrow> pure_config \<Rightarrow> initiators \<Rightarrow> json pure_step" where
  "find_host_by_initiator sdk C i =
     (if wants_nothing i then ret JNull
      else bnd (call_items sdk C (get_hosts None)) (\<lambda>items.
        ret (case find (\<lambda>h. owns i (item_host h)) items of
               None \<Rightarrow> JNull | Some h \<Rightarrow> attr h ''name'' JNull)))"

definition ensure_host :: "sdk \<Rightarrow> pure_config \<Rightarrow> string \<Rightarrow> initiators \<Rightarrow> json pure_step" where
  "ensure_host sdk C name i =
     bnd (find_host_by_initiator sdk C i) (\<lambda>existing.
     if truthy existing then ret existing
     else andthen (create_host sdk C name i) (ret (JStr name)))"

definition get_host :: "sdk \<Rightarrow> pure_config \<Rightarrow> string \<Rightarrow> dict option pure_step" where
  "get_host sdk C name =
     bnd (call_items sdk C (get_hosts (Some name))) (\<lambda>items.
     case items of
       [] \<Rightarrow> ret None
     | h # _ \<Rightarrow> ret (if h = JNull then None else Some
         [(''name'', attr h ''name'' (JStr name)),
          (''iqns'', JList (map JStr (host_iqns (item_host h)))),
          (''wwns'', JList (map JStr (host_wwns (item_host h)))),
          (''nqns'', JList (map JStr (host_nqns (item_host h)))),
          (''host_group'', attr_if (attr h ''host_group'' JNull) ''name'' JNull)]))"

definition create_host_group :: "sdk \<Rightarrow> pure_config \<Rightarrow> string \<Rightarrow> string list \<Rightarrow> unit pure_step" where
  "create_host_group sdk C name hosts =
     andthen (call_idempotent sdk C (post_host_groups name))
       (foreach hosts (\<lambda>h. call_idempotent sdk C (post_host_groups_hosts name h)))"

definition get_host_group_members :: "sdk \<Rightarrow> pure_config \<Rightarrow> string \<Rightarrow> json list pure_step" where
  "get_host_group_members sdk C name =
     bnd (call_items sdk C (get_host_groups_hosts name)) (\<lambda>items.
     ret (filter truthy (map (\<lambda>m. attr_if (attr m ''member'' JNull) ''name'' (attr m ''name'' JNull)) items)))"

definition remove_host_from_group :: "sdk \<Rightarrow> pure_config \<Rightarrow> string \<Rightarrow> string \<Rightarrow> unit pure_step" where
  "remove_host_from_group sdk C name host = call_idempotent sdk C (delete_host_groups_hosts name host)"

definition delete_host :: "sdk \<Rightarrow> pure_config \<Rightarrow> string \<Rightarrow> unit pure_step" where
  "delete_host sdk C name = call_idempotent sdk C (delete_hosts name)"

definition delete_host_group :: "sdk \<Rightarrow> pure_config \<Rightarrow> string \<Rightarrow> unit pure_step" where
  "delete_host_group sdk C name = call_idempotent sdk C (delete_host_groups name)"

section \<open>Interfaces and ports\<close>

text \<open>The addresses of the enabled interfaces that serve one of the services.\<close>

definition interface_addresses :: "(string \<Rightarrow> bool) \<Rightarrow> json list \<Rightarrow> json list" where
  "interface_addresses serves items =
     filter truthy (map (\<lambda>i. attr_if (attr i ''eth'' JNull) ''address'' JNull)
       (filter (\<lambda>i. attr i ''enabled'' (JBool True) \<noteq> JBool False \<and>
          (\<exists>s \<in> set (strs (attr i ''services'' JNull)). serves s)) items))"

definition get_data_interfaces :: "sdk \<Rightarrow> pure_config \<Rightarrow> string \<Rightarrow> json list pure_step" where
  "get_data_interfaces sdk C svc =
     bnd (call_items sdk C get_network_interfaces) (\<lambda>items.
     ret (interface_addresses (\<lambda>s. s = svc) items))"

definition port_names :: "string \<Rightarrow> json list \<Rightarrow> string list" where
  "port_names kind items = map str_or_empty (filter truthy (map (\<lambda>p. attr p kind JNull) items))"

definition get_target_ports :: "sdk \<Rightarrow> pure_config \<Rightarrow> dict pure_step" where
  "get_target_ports sdk C =
     bnd (call_items sdk C get_ports) (\<lambda>items.
     ret [(''iqn'', case port_names ''iqn'' items of [] \<Rightarrow> JNull | x # _ \<Rightarrow> JStr x),
          (''nqn'', case port_names ''nqn'' items of [] \<Rightarrow> JNull | x # _ \<Rightarrow> JStr x),
          (''wwns'', JList (map JStr (sort (remdups (port_names ''wwn'' items)))))])"

section \<open>File services\<close>

definition create_filesystem :: "sdk \<Rightarrow> pure_config \<Rightarrow> string \<Rightarrow> unit pure_step" where
  "create_filesystem sdk C name = call_idempotent sdk C (post_file_systems name)"

definition delete_filesystem :: "sdk \<Rightarrow> pure_config \<Rightarrow> string \<Rightarrow> bool \<Rightarrow> unit pure_step" where
  "delete_filesystem sdk C name eradicate = steps [
     call_idempotent sdk C (patch_file_systems_destroyed name),
     provided eradicate (call_idempotent sdk C (delete_file_systems name))]"

definition create_nfs_export ::
  "sdk \<Rightarrow> pure_config \<Rightarrow> string \<Rightarrow> string \<Rightarrow> string \<Rightarrow> string option \<Rightarrow> dict pure_step" where
  "create_nfs_export sdk C name fs path policy =
     (let dir = fs @ '':'' @ name;
          pol = (case nonempty policy of Some p \<Rightarrow> p | None \<Rightarrow> ''nfs-default'') in
      andthen (call_idempotent sdk C (post_directories dir path))
      (andthen (call_idempotent sdk C (post_directory_exports dir name pol))
        (ret [(''name'', JStr name), (''filesystem'', JStr fs), (''path'', JStr path),
              (''policy'', JStr pol)])))"

definition get_nfs_exports :: "sdk \<Rightarrow> pure_config \<Rightarrow> string option \<Rightarrow> dict list pure_step" where
  "get_nfs_exports sdk C fs =
     bnd (call_items sdk C get_directory_exports) (\<lambda>items.
     ret (concat (map (\<lambda>e.
       let dir = str_or_empty (attr (attr e ''directory'' JNull) ''name'' (JStr [])) in
       (case nonempty fs of
          Some f \<Rightarrow> if starts_with (f @ '':'') dir
            then [[(''name'', attr e ''export_name'' JNull), (''directory'', JStr dir)]] else []
        | None \<Rightarrow> [[(''name'', attr e ''export_name'' JNull), (''directory'', JStr dir)]])) items)))"

definition delete_nfs_export :: "sdk \<Rightarrow> pure_config \<Rightarrow> string \<Rightarrow> unit pure_step" where
  "delete_nfs_export sdk C name = call_idempotent sdk C (delete_directory_exports name)"

definition get_nfs_data_interfaces :: "sdk \<Rightarrow> pure_config \<Rightarrow> json list pure_step" where
  "get_nfs_data_interfaces sdk C =
     bnd (call_items sdk C get_network_interfaces) (\<lambda>items.
     ret (interface_addresses (\<lambda>s. s = ''nfs'' \<or> s = ''file'') items))"


section \<open>Volumes\<close>

definition create_volume :: "sdk \<Rightarrow> pure_config \<Rightarrow> string \<Rightarrow> size_arg \<Rightarrow> unit pure_step" where
  "create_volume sdk C name sz =
     bnd (lift_sum (to_bytes sz)) (\<lambda>n.
     call_unit sdk C (post_volumes name (Provisioned (max n FA_MIN_VOLUME_BYTES)) None))"

text \<open>What \<^verbatim>\<open>get_volume\<close> returns of an item.\<close>

record pure_volume =
  pv_name :: json
  pv_serial :: json
  pv_size :: json
  pv_destroyed :: json

definition get_volume :: "sdk \<Rightarrow> pure_config \<Rightarrow> string \<Rightarrow> pure_volume option pure_step" where
  "get_volume sdk C name =
     bnd (tryc (bnd (call_items sdk C (get_volumes_named name)) (\<lambda>xs. ret (Some xs)))
       (\<lambda>exc. if exn_class exc = ''FlashArrayApiError'' \<and> contains ''does not exist'' (lower (exn_text exc))
              then ret None else raise exc)) (\<lambda>r.
     case r of
       None \<Rightarrow> ret None
     | Some items \<Rightarrow>
         let v = first_item items in
         ret (if v = JNull then None else Some
           \<lparr>pv_name = attr v ''name'' (JStr name), pv_serial = attr v ''serial'' JNull,
            pv_size = attr v ''provisioned'' JNull, pv_destroyed = attr v ''destroyed'' (JBool False)\<rparr>))"

text \<open>The loop goes on past a destroyed match.\<close>

definition find_volume_name_by_serial :: "sdk \<Rightarrow> pure_config \<Rightarrow> string option \<Rightarrow> json pure_step" where
  "find_volume_name_by_serial sdk C serial =
     (let want = lower (strip (case serial of None \<Rightarrow> [] | Some s \<Rightarrow> s)) in
      if want = [] then ret JNull
      else bnd (call_items sdk C get_all_volumes) (\<lambda>items.
        ret (case find (\<lambda>v. lower (str_or_empty (attr v ''serial'' (JStr []))) = want
                 \<and> \<not> truthy (attr v ''destroyed'' (JBool False))) items of
               None \<Rightarrow> JNull | Some v \<Rightarrow> attr v ''name'' JNull)))"

definition VASA_TAG_NAMESPACE :: string where
  "VASA_TAG_NAMESPACE = ''vasa-integration.purestorage.com''"

definition VVOL_ID_TAG :: string where
  "VVOL_ID_TAG = ''PURE_VVOL_ID''"

definition is_hex :: "char \<Rightarrow> bool" where
  "is_hex c \<longleftrightarrow> c \<in> set ''0123456789abcdefABCDEF''"

text \<open>\<open>hex_groups ns s\<close>: \<open>s\<close> is groups of as many hex digits, a dash between them.\<close>

fun hex_groups :: "nat list \<Rightarrow> string \<Rightarrow> bool" where
  "hex_groups [] s = (s = [])"
| "hex_groups [n] s = (length s = n \<and> list_all is_hex s)"
| "hex_groups (n # m # ns) s =
     (n < length s \<and> list_all is_hex (take n s) \<and> s ! n = CHR ''-'' \<and>
      hex_groups (m # ns) (drop (Suc n) s))"

text \<open>\<^verbatim>\<open>_VVOL_ID_RE.fullmatch(s)\<close>\<close>

definition vvol_id_matches :: "string \<Rightarrow> bool" where
  "vvol_id_matches s \<longleftrightarrow>
     starts_with ''rfc4122.'' s \<and> hex_groups [8, 4, 4, 4, 12] (drop 8 s)"

definition vvol_filter :: "string \<Rightarrow> string" where
  "vvol_filter want = ''key='' @ [CHR 0x27] @ VVOL_ID_TAG @ [CHR 0x27] @ '' and value=''
     @ [CHR 0x27] @ want @ [CHR 0x27]"

text \<open>The loop over the tags.\<close>

fun vvol_volume :: "sdk \<Rightarrow> pure_config \<Rightarrow> string \<Rightarrow> json list \<Rightarrow> (json \<times> json) option pure_step" where
  "vvol_volume sdk C want [] = ret None"
| "vvol_volume sdk C want (tag # tags) =
     (let name = attr_if (attr tag ''resource'' JNull) ''name'' JNull in
      if attr tag ''key'' JNull \<noteq> JStr VVOL_ID_TAG
        \<or> strip (str_or_empty (attr tag ''value'' (JStr []))) \<noteq> want \<or> \<not> truthy name
      then vvol_volume sdk C want tags
      else bnd (get_volume sdk C (str_or_empty name)) (\<lambda>vol.
        ret (case vol of
               None \<Rightarrow> None
             | Some v \<Rightarrow> if truthy (pv_destroyed v) then None else Some (pv_name v, pv_serial v))))"

definition find_volume_by_vvol_id ::
  "sdk \<Rightarrow> pure_config \<Rightarrow> string option \<Rightarrow> (json \<times> json) option pure_step" where
  "find_volume_by_vvol_id sdk C vvol =
     (let want = strip (case vvol of None \<Rightarrow> [] | Some s \<Rightarrow> s) in
      if want = [] \<or> \<not> vvol_id_matches want then ret None
      else bnd (call_items sdk C (get_volumes_tags VASA_TAG_NAMESPACE (vvol_filter want)))
             (vvol_volume sdk C want))"

definition last_part :: "string \<Rightarrow> string" where
  "last_part n = last (split_on ''::'' n)"

definition live_leaves :: "string \<Rightarrow> json list \<Rightarrow> json list" where
  "live_leaves leaf items = filter (\<lambda>v. \<not> truthy (attr v ''destroyed'' (JBool False)) \<and>
     last_part (str_or_empty (attr v ''name'' (JStr []))) = leaf) items"

definition ambiguous_text :: "string \<Rightarrow> string list \<Rightarrow> string" where
  "ambiguous_text want names =
     ''Volume name '' @ py_repr want @ '' is ambiguous on this array ''
     @ [CHR 0xE2, CHR 0x80, CHR 0x94] @ '' it matches '' @ show_nat (length names)
     @ '' pod-scoped volumes ('' @ join '', '' (sort names) @ ''). Cannot choose safely.''"

definition resolve_volume_name :: "sdk \<Rightarrow> pure_config \<Rightarrow> string option \<Rightarrow> json pure_step" where
  "resolve_volume_name sdk C name =
     (let want = strip (case name of None \<Rightarrow> [] | Some s \<Rightarrow> s) in
      if want = [] then ret JNull
      else bnd (get_volume sdk C want) (\<lambda>vol.
        case (case vol of Some v \<Rightarrow> if truthy (pv_destroyed v) then None else Some v | None \<Rightarrow> None) of
          Some v \<Rightarrow> ret (pv_name v)
        | None \<Rightarrow>
            if contains ''::'' want then ret JNull
            else if CHR 0x27 \<in> set want then ret JNull
            else bnd (call_items sdk C (get_volumes_filtered
                   (''name='' @ [CHR 0x27] @ ''*::'' @ want @ [CHR 0x27]))) (\<lambda>items.
              case live_leaves want items of
                [] \<Rightarrow> ret JNull
              | [v] \<Rightarrow> ret (attr v ''name'' JNull)
              | vs \<Rightarrow> raise (api_error (ambiguous_text want
                  (map (\<lambda>v. str_or_empty (attr v ''name'' (JStr []))) vs))))))"

definition list_volume_connections ::
  "sdk \<Rightarrow> pure_config \<Rightarrow> string option \<Rightarrow> dict list pure_step" where
  "list_volume_connections sdk C vol =
     (let want = strip (case vol of None \<Rightarrow> [] | Some s \<Rightarrow> s) in
      if want = [] then ret []
      else bnd (call_items sdk C (get_connections want)) (\<lambda>items.
        ret (map (\<lambda>c. [(''host'', attr_if (attr c ''host'' JNull) ''name'' JNull),
                        (''host_group'', attr_if (attr c ''host_group'' JNull) ''name'' JNull)]) items)))"

definition extend_volume :: "sdk \<Rightarrow> pure_config \<Rightarrow> string \<Rightarrow> size_arg \<Rightarrow> unit pure_step" where
  "extend_volume sdk C name sz =
     bnd (lift_sum (to_bytes sz)) (\<lambda>n. call_unit sdk C (patch_volumes name (PatchProvisioned n)))"

definition delete_volume :: "sdk \<Rightarrow> pure_config \<Rightarrow> string \<Rightarrow> bool \<Rightarrow> unit pure_step" where
  "delete_volume sdk C name eradicate = steps [
     call_unit sdk C (patch_volumes name PatchDestroyed),
     provided eradicate (call_unit sdk C (delete_volumes name))]"

definition create_snapshot :: "sdk \<Rightarrow> pure_config \<Rightarrow> string \<Rightarrow> string option \<Rightarrow> unit pure_step" where
  "create_snapshot sdk C vol suffix = call_unit sdk C (post_volume_snapshots vol suffix)"

definition clone_volume :: "sdk \<Rightarrow> pure_config \<Rightarrow> string \<Rightarrow> string \<Rightarrow> unit pure_step" where
  "clone_volume sdk C src dest = call_unit sdk C (post_volumes dest (FromSource src) None)"

definition copy_volume :: "sdk \<Rightarrow> pure_config \<Rightarrow> string \<Rightarrow> string \<Rightarrow> bool \<Rightarrow> unit pure_step" where
  "copy_volume sdk C src dest overwrite =
     call_unit sdk C (post_volumes dest (FromSource src) (Some overwrite))"

definition connect_volume :: "sdk \<Rightarrow> pure_config \<Rightarrow> string \<Rightarrow> string \<Rightarrow> unit pure_step" where
  "connect_volume sdk C host vol = call_unit sdk C (post_connections_host host vol)"

definition disconnect_volume :: "sdk \<Rightarrow> pure_config \<Rightarrow> string \<Rightarrow> string \<Rightarrow> unit pure_step" where
  "disconnect_volume sdk C host vol = call_idempotent sdk C (delete_connections_host host vol)"

definition connect_volume_to_group :: "sdk \<Rightarrow> pure_config \<Rightarrow> string \<Rightarrow> string \<Rightarrow> unit pure_step" where
  "connect_volume_to_group sdk C grp vol = call_unit sdk C (post_connections_group grp vol)"

definition disconnect_volume_from_group :: "sdk \<Rightarrow> pure_config \<Rightarrow> string \<Rightarrow> string \<Rightarrow> unit pure_step" where
  "disconnect_volume_from_group sdk C grp vol = call_idempotent sdk C (delete_connections_group grp vol)"

definition ensure_volume_group :: "sdk \<Rightarrow> pure_config \<Rightarrow> string \<Rightarrow> unit pure_step" where
  "ensure_volume_group sdk C name = call_idempotent sdk C (post_volume_groups name)"

definition rename_volume :: "sdk \<Rightarrow> pure_config \<Rightarrow> string \<Rightarrow> string \<Rightarrow> unit pure_step" where
  "rename_volume sdk C old new = call_unit sdk C (patch_volumes old (PatchName new))"

definition volume_exists :: "sdk \<Rightarrow> pure_config \<Rightarrow> string \<Rightarrow> bool \<Rightarrow> bool pure_step" where
  "volume_exists sdk C name include_destroyed =
     bnd (get_volume sdk C name) (\<lambda>v.
     if v \<noteq> None then ret True
     else if \<not> include_destroyed then ret False
     else tryc (bnd (call sdk C (get_volumes_destroyed name)) (\<lambda>items. ret (items \<noteq> Some [])))
            (\<lambda>_. ret False))"

section \<open>Replication\<close>

definition array_name :: "sdk \<Rightarrow> pure_config \<Rightarrow> json pure_step" where
  "array_name sdk C = bnd (array_info sdk C) (\<lambda>i. ret (dict_get i ''name'' (JStr [])))"

definition list_array_connections :: "sdk \<Rightarrow> pure_config \<Rightarrow> dict list pure_step" where
  "list_array_connections sdk C =
     bnd (call_items sdk C get_array_connections) (\<lambda>items.
     ret (map (\<lambda>c.
       let remote = attr c ''remote'' JNull; rn = attr_if remote ''name'' JNull in
       [(''name'', if truthy rn then rn else attr c ''name'' (JStr [])),
        (''management_address'', attr c ''management_address'' (JStr [])),
        (''status'', attr c ''status'' (JStr [])), (''type'', attr c ''type'' (JStr []))]) items))"

definition get_connection_key :: "sdk \<Rightarrow> pure_config \<Rightarrow> json pure_step" where
  "get_connection_key sdk C =
     bnd (call_items sdk C get_array_connections_connection_key) (\<lambda>items.
     ret (case items of [] \<Rightarrow> JStr []
       | x # _ \<Rightarrow> let k = attr x ''connection_key'' (JStr []) in if truthy k then k else JStr []))"

definition get_replication_addresses :: "sdk \<Rightarrow> pure_config \<Rightarrow> json list pure_step" where
  "get_replication_addresses sdk C =
     bnd (call_items sdk C get_network_interfaces) (\<lambda>items.
     ret (concat (map (\<lambda>it.
       let addr = attr_if (attr it ''eth'' JNull) ''address'' (attr it ''address'' JNull) in
       if truthy addr \<and> (\<exists>s \<in> set (strs (attr it ''services'' JNull)). contains ''replication'' (lower s))
       then [addr] else []) items)))"

definition connect_to_array ::
  "sdk \<Rightarrow> pure_config \<Rightarrow> string \<Rightarrow> string \<Rightarrow> string list \<Rightarrow> unit pure_step" where
  "connect_to_array sdk C addr key repl =
     call_idempotent sdk C (post_array_connections addr key (or_none (Some repl)))"

definition delete_array_connection :: "sdk \<Rightarrow> pure_config \<Rightarrow> string \<Rightarrow> unit pure_step" where
  "delete_array_connection sdk C name = call_idempotent sdk C (delete_array_connections name)"

definition replicate_volume_to ::
  "sdk \<Rightarrow> pure_config \<Rightarrow> string \<Rightarrow> string \<Rightarrow> string \<Rightarrow> string pure_step" where
  "replicate_volume_to sdk C vol target pg =
     andthen (steps [
       call_idempotent sdk C (post_protection_groups pg),
       call_idempotent sdk C (post_protection_groups_volumes pg [vol]),
       call_idempotent sdk C (post_protection_groups_targets pg target),
       call_unit sdk C (post_protection_group_snapshots pg ''mig'')])
     (ret ''mig'')"

definition import_replicated_volume ::
  "sdk \<Rightarrow> pure_config \<Rightarrow> string \<Rightarrow> string \<Rightarrow> string \<Rightarrow> string \<Rightarrow> string \<Rightarrow> unit pure_step" where
  "import_replicated_volume sdk C src_array pg snap member dest =
     clone_volume sdk C (src_array @ '':'' @ pg @ ''.'' @ snap @ ''.'' @ member) dest"

definition cleanup_replication_pgroup :: "sdk \<Rightarrow> pure_config \<Rightarrow> string \<Rightarrow> unit pure_step" where
  "cleanup_replication_pgroup sdk C pg = steps [
     call_idempotent sdk C (patch_protection_groups_destroyed pg),
     call_idempotent sdk C (delete_protection_groups pg)]"

definition set_qos :: "sdk \<Rightarrow> pure_config \<Rightarrow> string \<Rightarrow> int option \<Rightarrow> int option \<Rightarrow> unit pure_step" where
  "set_qos sdk C vol iops bw = call_unit sdk C (patch_volumes vol (PatchQos iops bw))"

definition create_protection_group :: "sdk \<Rightarrow> pure_config \<Rightarrow> string \<Rightarrow> string list \<Rightarrow> unit pure_step" where
  "create_protection_group sdk C name vols = steps [
     call_unit sdk C (post_protection_groups name),
     provided (vols \<noteq> []) (call_unit sdk C (post_protection_groups_volumes name vols))]"

definition close :: "unit pure_step" where
  "close = modify (\<lambda>s. s\<lparr>pc_connected := False\<rparr>)"


section \<open>The requests a method makes\<close>

fun is_login :: "sdk_call \<Rightarrow> bool" where
  "is_login (new_client _ _ _) = True"
| "is_login _ = False"

definition requests :: "pure_state \<Rightarrow> (sdk_call \<times> sdk_outcome) list" where
  "requests s = filter (\<lambda>(c, r). \<not> is_login c) (pc_trace s)"

lemma request_run:
  "request sdk c s = (sdk (pc_trace s) c, s\<lparr>pc_trace := pc_trace s @ [(c, outcome_of (sdk (pc_trace s) c))]\<rparr>)"
  by (simp add: request_def Let_def)

lemma outcome_ok: "outcome_of (Inr r) = SdkOk \<longleftrightarrow> error_status r = None"
  by (simp add: outcome_of_def split: option.split)

lemma requests_snoc [simp]:
  "requests (s\<lparr>pc_trace := pc_trace s @ [(c, r)]\<rparr>) = requests s @ (if is_login c then [] else [(c, r)])"
  by (simp add: requests_def)

lemma requests_connected [simp]: "requests (s\<lparr>pc_connected := b\<rparr>) = requests s"
  by (simp add: requests_def)

lemma keeps_request_list:
  "(\<And>r. P (requests s @ [(c, r)])) \<Longrightarrow> \<not> is_login c \<Longrightarrow> P (requests (final (request sdk c) s))"
  by (simp add: request_run final_def)

lemma ensure_client_requests: "requests (final (ensure_client sdk C) s) = requests s"
proof (cases "pc_connected s")
  case True
  then show ?thesis by (simp add: ensure_client_def run_rules final_def)
next
  case False
  let ?c = "new_client (pc_endpoint C) (credentials_of C) (pc_verify_ssl C)"
  show ?thesis
    using False
    by (cases "sdk (pc_trace s) ?c") (simp_all add: ensure_client_def run_rules request_run final_def)
qed

lemma call_cases:
  assumes "\<not> is_login c"
  obtains (login) e t where "call sdk C c s = (Inl e, t)" "requests t = requests s"
      "\<exists>tr. sdk tr (new_client (pc_endpoint C) (credentials_of C) (pc_verify_ssl C)) = Inl e"
  | (raised) e t tr where "call sdk C c s = (Inl e, t)" "sdk tr c = Inl e"
      "requests t = requests s @ [(c, SdkRaised)]"
  | (error) n r t tr where "sdk tr c = Inr r" "error_status r = Some n"
      "call sdk C c s = (Inl (api_error (''FlashArray API error '' @ show_int n @ '': '' @ resp_errors r)), t)"
      "requests t = requests s @ [(c, SdkError n)]"
  | (ok) r t tr where "sdk tr c = Inr r" "error_status r = None"
      "call sdk C c s = (Inr (resp_items r), t)" "requests t = requests s @ [(c, SdkOk)]"
proof (cases "ensure_client sdk C s")
  case (Pair x s1)
  have r1: "requests s1 = requests s"
    using ensure_client_requests [of sdk C s] Pair by (simp add: final_def)
  show thesis
  proof (cases x)
    case (Inl e)
    have "\<exists>tr. sdk tr (new_client (pc_endpoint C) (credentials_of C) (pc_verify_ssl C)) = Inl e"
      using Pair Inl
      by (cases "sdk (pc_trace s) (new_client (pc_endpoint C) (credentials_of C) (pc_verify_ssl C))";
          cases "pc_connected s")
         (auto simp: ensure_client_def run_rules request_run)
    with Inl Pair r1 show thesis by (intro login [of e s1]) (simp_all add: call_def run_rules)
  next
    case (Inr u)
    show thesis
    proof (cases "sdk (pc_trace s1) c")
      case (Inl e)
      then show thesis
        using raised [of e _ "pc_trace s1"] Inr Pair r1 assms
        by (simp add: call_def run_rules request_run outcome_of_def)
    next
      case inr: (Inr r)
      show thesis
      proof (cases "error_status r")
        case None
        then show thesis
          using ok [of "pc_trace s1" r] inr Inr Pair r1 assms
          by (simp add: call_def run_rules request_run outcome_of_def)
      next
        case (Some n)
        then show thesis
          using error [of "pc_trace s1" r n] inr Inr Pair r1 assms
          by (simp add: call_def run_rules request_run outcome_of_def)
      qed
    qed
  qed
qed

text \<open>Only the requests of the state, and then \<open>ok\<close> ones.\<close>

definition only :: "(sdk_call \<Rightarrow> bool) \<Rightarrow> (sdk_call \<times> sdk_outcome) list \<Rightarrow> pure_state \<Rightarrow> bool" where
  "only ok before s \<longleftrightarrow> (\<exists>u. requests s = before @ u \<and> (\<forall>c \<in> fst ` set u. ok c))"

lemma keeps_only_call:
  assumes "ok c" and "\<not> is_login c"
  shows "keeps (only ok before) (call sdk C c)"
proof (rule keepsI)
  fix s
  assume "only ok before s"
  then show "only ok before (final (call sdk C c) s)"
    using assms by (cases rule: call_cases [OF assms(2), of sdk C s]) (auto simp: only_def final_def)
qed

lemma keeps_only [keeps_intro]:
  assumes "ok c" and "\<not> is_login c"
  shows "keeps (only ok before) (call sdk C c)" "keeps (only ok before) (call_unit sdk C c)"
    "keeps (only ok before) (call_items sdk C c)" "keeps (only ok before) (call_idempotent sdk C c)"
  using keeps_only_call [where ok = ok and c = c, OF assms]
  by (auto simp: call_unit_def call_items_def call_idempotent_def intro!: keeps_intro)

text \<open>What a call that returned has done.\<close>

lemma call_returned:
  assumes "call sdk C c s = (Inr x, t)" and "\<not> is_login c"
  shows "requests t = requests s @ [(c, SdkOk)]"
  using assms by (cases rule: call_cases [OF assms(2), of sdk C s]) auto

text \<open>The SDK does not raise the exceptions of this module.\<close>

definition own_exceptions :: "sdk \<Rightarrow> bool" where
  "own_exceptions sdk \<longleftrightarrow> (\<forall>t c e. sdk t c = Inl e \<longrightarrow> exn_class e \<noteq> ''FlashArrayApiError'')"

lemma call_idempotent_returned:
  assumes "call_idempotent sdk C c s = (Inr (), t)" and "\<not> is_login c" and "own_exceptions sdk"
  shows "\<exists>r. requests t = requests s @ [(c, r)] \<and> r \<noteq> SdkRaised"
  using assms
  by (cases rule: call_cases [OF assms(2), of sdk C s])
     (auto simp: call_idempotent_def run_rules own_exceptions_def split: if_splits)

section \<open>Properties\<close>

text \<open>
  When the creation of a host group returns, every host was posted to the group with a
  request of its own, in order, after the group, and each of these requests succeeded or was
  answered by the array; one host that already is a member does not keep the others out.
\<close>

theorem create_host_group_posts_each:
  assumes "own_exceptions sdk" and "create_host_group sdk C name hosts s = (Inr (), t)"
  shows "\<exists>u. requests t = requests s @ u \<and> SdkRaised \<notin> snd ` set u \<and>
    map fst u = post_host_groups name # map (post_host_groups_hosts name) hosts"
proof -
  have loop: "\<exists>u. requests t = requests s @ u \<and> SdkRaised \<notin> snd ` set u \<and>
      map fst u = map (post_host_groups_hosts name) hs"
    if "foreach hs (\<lambda>h. call_idempotent sdk C (post_host_groups_hosts name h)) s = (Inr (), t)" for hs s
    using that
  proof (induction hs arbitrary: s)
    case Nil
    then show ?case by (simp add: run_rules)
  next
    case (Cons h hs)
    obtain s1 where s1: "call_idempotent sdk C (post_host_groups_hosts name h) s = (Inr (), s1)"
      "foreach hs (\<lambda>h. call_idempotent sdk C (post_host_groups_hosts name h)) s1 = (Inr (), t)"
      using Cons.prems by (auto elim!: andthen_eq_InrE)
    obtain r where "requests s1 = requests s @ [(post_host_groups_hosts name h, r)]" "r \<noteq> SdkRaised"
      using call_idempotent_returned [OF s1(1) _ assms(1)] by auto
    moreover obtain u where "requests t = requests s1 @ u" "SdkRaised \<notin> snd ` set u"
      "map fst u = map (post_host_groups_hosts name) hs" using Cons.IH [OF s1(2)] by blast
    ultimately show ?case by (intro exI [of _ "(post_host_groups_hosts name h, r) # u"]) auto
  qed
  obtain s1 where s1: "call_idempotent sdk C (post_host_groups name) s = (Inr (), s1)"
    "foreach hosts (\<lambda>h. call_idempotent sdk C (post_host_groups_hosts name h)) s1 = (Inr (), t)"
    using assms(2) by (auto simp: create_host_group_def elim!: andthen_eq_InrE)
  obtain r where "requests s1 = requests s @ [(post_host_groups name, r)]" "r \<noteq> SdkRaised"
    using call_idempotent_returned [OF s1(1) _ assms(1)] by auto
  moreover obtain u where "requests t = requests s1 @ u" "SdkRaised \<notin> snd ` set u"
    "map fst u = map (post_host_groups_hosts name) hosts" using loop [OF s1(2)] by blast
  ultimately show ?thesis by (intro exI [of _ "(post_host_groups name, r) # u"]) auto
qed

text \<open>An array on which the host \<^verbatim>\<open>h1\<close> is a member already.\<close>

definition demo_sdk :: sdk where
  "demo_sdk t c = (case c of
     post_host_groups_hosts g h \<Rightarrow>
       if h = ''h1'' then Inr \<lparr>resp_status = Some 400, resp_errors = ''Host already exists.'', resp_items = None\<rparr>
       else Inr \<lparr>resp_status = Some 200, resp_errors = [], resp_items = Some []\<rparr>
   | delete_hosts h \<Rightarrow>
       Inr \<lparr>resp_status = Some 400, resp_errors = ''Host does not exist.'', resp_items = None\<rparr>
   | _ \<Rightarrow> Inr \<lparr>resp_status = Some 200, resp_errors = [], resp_items = Some []\<rparr>)"

definition demo_config :: pure_config where
  "demo_config = \<lparr>pc_endpoint = ''fa'', pc_api_token = Some ''t'', pc_username = None,
     pc_password = None, pc_verify_ssl = False\<rparr>"

lemma demo_sdk_own: "own_exceptions demo_sdk"
  by (simp add: own_exceptions_def demo_sdk_def split: sdk_call.splits)

theorem create_host_group_posts_each_witness:
  "\<exists>u. requests (snd (create_host_group demo_sdk demo_config ''g'' [''h1'', ''h2''] new_pure)) = u \<and>
     map fst u = [post_host_groups ''g'', post_host_groups_hosts ''g'' ''h1'', post_host_groups_hosts ''g'' ''h2'']"
proof -
  have "(case create_host_group demo_sdk demo_config ''g'' [''h1'', ''h2''] new_pure of
      (Inr x, t) \<Rightarrow> requests new_pure = [] | _ \<Rightarrow> False)" by code_simp
  then obtain t where t: "create_host_group demo_sdk demo_config ''g'' [''h1'', ''h2''] new_pure = (Inr (), t)"
    "requests new_pure = []"
    by (auto split: prod.splits sum.splits)
  with create_host_group_posts_each [OF demo_sdk_own t(1)] show ?thesis by auto
qed


text \<open>
  Deleting an object that is not there is an error, not a no-op: when the array answers
  that a host does not exist, the client's idempotent deletion raises.
\<close>

theorem delete_of_missing_host_raises:
  assumes "own_exceptions sdk" and "\<And>t. sdk t (delete_hosts h) = Inr r"
    and "error_status r = Some n" and "contains ''does not exist'' (lower (resp_errors r))"
  shows "\<exists>e. result (delete_host sdk C h) s = Inl e"
proof -
  obtain u v where uv: "lower (resp_errors r) = u @ ''does not exist'' @ v"
    using assms(4) by (auto simp: contains_iff)
  let ?text = "''FlashArray API error '' @ show_int n @ '': '' @ resp_errors r"
  have "lower ?text = (lower (''FlashArray API error '' @ show_int n @ '': '') @ u) @ ''does not exist'' @ v"
    using uv by (simp only: lower_append append_assoc)
  then have "says_missing (lower ?text)" unfolding says_missing_def contains_iff by blast
  moreover have "\<not> is_login (delete_hosts h)" by simp
  ultimately show ?thesis
    unfolding delete_host_def
    by - (rule call_cases [of "delete_hosts h" sdk C s],
      use assms(1,2,3) in \<open>auto simp: call_idempotent_def run_rules result_def own_exceptions_def
          api_error_def simp del: append.simps\<close>)
qed

theorem delete_of_missing_host_raises_witness:
  "\<exists>e. result (delete_host demo_sdk demo_config ''h9'') new_pure = Inl e"
proof (rule delete_of_missing_host_raises [OF demo_sdk_own])
  show "demo_sdk t (delete_hosts ''h9'')
      = Inr \<lparr>resp_status = Some 400, resp_errors = ''Host does not exist.'', resp_items = None\<rparr>" for t
    by (simp add: demo_sdk_def)
qed code_simp+

text \<open>
  Deleting a volume makes at most two requests: it is destroyed first, and only when that
  went through, and the caller asked for it, eradicated.
\<close>

theorem eradicated_only_after_destroyed:
  "\<exists>u r. requests (final (delete_volume sdk C name eradicate) s) = requests s @ u \<and>
     (u = [] \<or> u = [(patch_volumes name PatchDestroyed, r)] \<or>
      eradicate \<and> u = [(patch_volumes name PatchDestroyed, SdkOk), (delete_volumes name, r)])"
proof -
  have p: "\<not> is_login (patch_volumes name PatchDestroyed)" "\<not> is_login (delete_volumes name)" by simp_all
  obtain x s1 where s1: "call sdk C (patch_volumes name PatchDestroyed) s = (x, s1)" by fastforce
  show ?thesis
  proof (cases x)
    case (Inl e)
    then have "final (delete_volume sdk C name eradicate) s = s1"
      using s1 by (simp add: delete_volume_def final_def run_rules call_unit_def)
    then show ?thesis
      using s1 Inl by (cases rule: call_cases [OF p(1), of sdk C s]) auto
  next
    case (Inr y)
    have r1: "requests s1 = requests s @ [(patch_volumes name PatchDestroyed, SdkOk)]"
      using call_returned [OF _ p(1)] s1 Inr by blast
    show ?thesis
    proof (cases eradicate)
      case False
      then have "final (delete_volume sdk C name eradicate) s = s1"
        using s1 Inr by (simp add: delete_volume_def final_def run_rules call_unit_def)
      with r1 show ?thesis by auto
    next
      case True
      then have "final (delete_volume sdk C name eradicate) s = final (call sdk C (delete_volumes name)) s1"
        using s1 Inr
        by (cases "call sdk C (delete_volumes name) s1"; cases "fst (call sdk C (delete_volumes name) s1)")
           (simp_all add: delete_volume_def final_def run_rules call_unit_def)
      then show ?thesis
        using r1 True by (cases rule: call_cases [OF p(2), of sdk C s1]) (auto simp: final_def)
    qed
  qed
qed

text \<open>
  A volume is created at its size, but never below the array's minimum of one MiB.
\<close>

theorem created_volume_size:
  assumes "to_bytes sz = Inr n"
  shows "\<exists>u. requests (final (create_volume sdk C name sz) s) = requests s @ u \<and>
    set (map fst u) \<subseteq> {post_volumes name (Provisioned (max n 1048576)) None}"
proof -
  let ?c = "post_volumes name (Provisioned (max n 1048576)) None"
  have "keeps (only (\<lambda>c. c = ?c) (requests s)) (create_volume sdk C name sz)"
    unfolding create_volume_def by (auto simp: assms FA_MIN_VOLUME_BYTES_def lift_sum_def intro!: keeps_intro)
  moreover have "only (\<lambda>c. c = ?c) (requests s) s" by (simp add: only_def)
  ultimately have "only (\<lambda>c. c = ?c) (requests s) (final (create_volume sdk C name sz) s)"
    by (rule keepsD)
  then show ?thesis by (auto simp: only_def)
qed

theorem created_volume_size_witness:
  "set (map fst (requests (final (create_volume demo_sdk demo_config ''v'' (SizeStr (show_nat 512 @ ''K''))) new_pure)))
     \<subseteq> {post_volumes ''v'' (Provisioned 1048576) None}"
proof -
  have "to_bytes (SizeStr (show_nat 512 @ ''K'')) = Inr (int 512 * 1024)"
    by (rule to_bytes_unit) (simp, code_simp)
  from created_volume_size [OF this, of demo_sdk demo_config "''v''" new_pure]
  show ?thesis by (auto simp: requests_def new_pure_def)
qed

section \<open>vVol identifiers\<close>

definition vvol_chars :: "string \<Rightarrow> bool" where
  "vvol_chars s \<longleftrightarrow> (\<forall>c \<in> set s. is_hex c \<or> c \<in> set ''rfc4122.-'')"

lemma hex_groups_chars: "hex_groups ns s \<Longrightarrow> c \<in> set s \<Longrightarrow> is_hex c \<or> c = CHR ''-''"
proof (induction ns s rule: hex_groups.induct)
  case (3 n m ns s)
  have "set s = insert (s ! n) (set (take n s) \<union> set (drop (Suc n) s))"
    using 3(2) by (subst id_take_nth_drop [of n s]) simp_all
  with 3 show ?case by (auto simp: list_all_iff)
qed (auto simp: list_all_iff)

lemma vvol_matches_chars:
  assumes "vvol_id_matches s"
  shows "vvol_chars s"
  unfolding vvol_chars_def
proof
  fix c
  assume "c \<in> set s"
  moreover have m: "starts_with ''rfc4122.'' s" "hex_groups [8, 4, 4, 4, 12] (drop 8 s)"
    using assms by (simp_all only: vvol_id_matches_def)
  moreover have "length ''rfc4122.'' = 8" by simp
  ultimately have "c \<in> set ''rfc4122.'' \<or> c \<in> set (drop 8 s)"
    unfolding starts_with_def by (metis Un_iff append_take_drop_id set_append)
  then show "is_hex c \<or> c \<in> set ''rfc4122.-''"
    using hex_groups_chars [OF m(2)] by auto
qed

text \<open>
  C36. The tag query of a vVol lookup can not be injected: whatever identifier the caller passes,
  the only query the method sends carries an identifier of hex digits, dashes and the fixed
  prefix, so it holds no quote that could end the filter's string.
\<close>

theorem vvol_query_is_safe:
  "\<exists>u. requests (final (find_volume_by_vvol_id sdk C vvol) s) = requests s @ u \<and>
     (\<nexists>ns f. get_volumes_tags ns f \<in> fst ` set u \<and>
       \<not> (ns = VASA_TAG_NAMESPACE \<and> (\<exists>w. f = vvol_filter w \<and> vvol_chars w)))"
proof -
  define ok where "ok = (\<lambda>c. \<not> is_login c \<and> (\<forall>ns f. c = get_volumes_tags ns f \<longrightarrow>
      ns = VASA_TAG_NAMESPACE \<and> (\<exists>w. f = vvol_filter w \<and> vvol_chars w)))"
  have vol: "keeps (only ok b) (get_volume sdk C n)" for b n
    unfolding get_volume_def by (intro keeps_intro) (simp_all add: ok_def)
  have loop: "keeps (only ok b) (vvol_volume sdk C want tags)" for b want tags
    by (induction tags) (auto simp: Let_def intro!: keeps_intro vol)
  have "keeps (only ok (requests s)) (find_volume_by_vvol_id sdk C vvol)"
    unfolding find_volume_by_vvol_id_def Let_def
    by (intro keeps_intro loop) (auto simp: ok_def dest!: vvol_matches_chars)
  moreover have "only ok (requests s) s" by (simp add: only_def)
  ultimately have "only ok (requests s) (final (find_volume_by_vvol_id sdk C vvol) s)"
    by (rule keepsD)
  then show ?thesis unfolding only_def ok_def by blast
qed

end
