(* ===== verification/Sha1.thy ===== *)
theory Sha1
  imports Prelude "HOL-Library.Word"
begin

text \<open>
  \<^verbatim>\<open>hashlib.sha1(...).hexdigest()\<close>, from which the mock array derives the serials of its
  volumes: the standard's padding, message schedule and eighty rounds on 32-bit words.
\<close>

unbundle bit_operations_syntax

section \<open>Bytes and words\<close>

definition byte_of :: "char \<Rightarrow> 32 word" where
  "byte_of c = of_nat (of_char c)"

definition word_of_bytes :: "32 word list \<Rightarrow> 32 word" where
  "word_of_bytes bs = foldl (\<lambda>w b. push_bit 8 w OR b) 0 bs"

definition nat_bytes :: "nat \<Rightarrow> nat \<Rightarrow> 32 word list" where
  "nat_bytes k n = map (\<lambda>i. of_nat (n div 256 ^ (k - Suc i) mod 256)) [0..<k]"

fun chunks :: "nat \<Rightarrow> 'a list \<Rightarrow> 'a list list" where
  "chunks k [] = []"
| "chunks k (x # xs) = take k (x # xs) # chunks k (drop (k - 1) xs)"

text \<open>A one bit, zeros up to 56 modulo 64 bytes, and the length in bits.\<close>

definition padded :: "string \<Rightarrow> 32 word list" where
  "padded s = map byte_of s @ 0x80 # replicate ((119 - length s mod 64) mod 64) 0
     @ nat_bytes 8 (8 * length s)"

section \<open>The rounds\<close>

fun schedule :: "nat \<Rightarrow> 32 word list \<Rightarrow> 32 word list" where
  "schedule 0 ws = ws"
| "schedule (Suc n) ws =
     (let t = length ws in
      schedule n (ws @ [word_rotl 1 (ws ! (t - 3) XOR ws ! (t - 8) XOR ws ! (t - 14) XOR ws ! (t - 16))]))"

type_synonym sha_state = "32 word \<times> 32 word \<times> 32 word \<times> 32 word \<times> 32 word"

definition round_mix :: "nat \<Rightarrow> 32 word \<Rightarrow> 32 word \<Rightarrow> 32 word \<Rightarrow> 32 word \<times> 32 word" where
  "round_mix t b c d =
     (if t < 20 then ((b AND c) OR (NOT b AND d), 0x5A827999)
      else if t < 40 then (b XOR c XOR d, 0x6ED9EBA1)
      else if t < 60 then ((b AND c) OR (b AND d) OR (c AND d), 0x8F1BBCDC)
      else (b XOR c XOR d, 0xCA62C1D6))"

definition sha_round :: "sha_state \<Rightarrow> nat \<times> 32 word \<Rightarrow> sha_state" where
  "sha_round st tw = (case st of (a, b, c, d, e) \<Rightarrow> case tw of (t, w) \<Rightarrow>
     (case round_mix t b c d of (f, k) \<Rightarrow>
        (word_rotl 5 a + f + e + k + w, a, word_rotl 30 b, c, d)))"

definition sha_chunk :: "sha_state \<Rightarrow> 32 word list \<Rightarrow> sha_state" where
  "sha_chunk st bytes =
     (case st of (a, b, c, d, e) \<Rightarrow>
      case foldl sha_round st (List.enumerate 0 (schedule 64 (map word_of_bytes (chunks 4 bytes)))) of
        (a', b', c', d', e') \<Rightarrow> (a + a', b + b', c + c', d + d', e + e'))"

definition sha_init :: sha_state where
  "sha_init = (0x67452301, 0xEFCDAB89, 0x98BADCFE, 0x10325476, 0xC3D2E1F0)"

section \<open>The digest\<close>

definition hex_digit :: "nat \<Rightarrow> char" where
  "hex_digit n = ''0123456789abcdef'' ! n"

definition hex_word :: "32 word \<Rightarrow> string" where
  "hex_word w = map (\<lambda>i. hex_digit (unat (drop_bit (28 - 4 * i) w) mod 16)) [0..<8]"

definition sha1_hex :: "string \<Rightarrow> string" where
  "sha1_hex s =
     (case foldl sha_chunk sha_init (chunks 64 (padded s)) of
        (a, b, c, d, e) \<Rightarrow> concat (map hex_word [a, b, c, d, e]))"

section \<open>Lemmas\<close>

lemma length_hex_word [simp]: "length (hex_word w) = 8"
  by (simp add: hex_word_def)

lemma length_sha1_hex [simp]: "length (sha1_hex s) = 40"
  by (simp add: sha1_hex_def split: prod.split)

lemma hex_digit_mem: "n < 16 \<Longrightarrow> hex_digit n \<in> set ''0123456789abcdef''"
  unfolding hex_digit_def by (rule nth_mem) simp

lemma sha1_hex_digits: "set (sha1_hex s) \<subseteq> set ''0123456789abcdef''"
proof -
  have "set (hex_word w) \<subseteq> set ''0123456789abcdef''" for w
    unfolding hex_word_def using hex_digit_mem by (auto simp del: list.set)
  then show ?thesis by (auto simp: sha1_hex_def simp del: list.set(2) split: prod.splits)
qed

end
