(* ===== verification/Mock_Array.thy ===== *)
theory Mock_Array
  imports Host_Group Sha1
begin

text \<open>
  \<^verbatim>\<open>MockFlashArrayClient\<close> of \<^verbatim>\<open>flasharray/client.py\<close>: the in-memory FlashArray used for tests,
  demos and \<^verbatim>\<open>PHIF_MOCK_MODE\<close>. Its dictionaries are association lists in insertion order; the
  attributes the class only creates on first use (\<^verbatim>\<open>destroyed_volumes\<close>, \<^verbatim>\<open>volume_groups_set\<close>,
  \<^verbatim>\<open>array_connections\<close>) start empty. Each method is an action on the record, and appends to
  the record of calls as the code does.
\<close>

section \<open>State\<close>

record mock_volume =
  mv_size :: "size_arg option"
  mv_serial :: "string option"

record mock_array =
  arr_endpoint :: string
  arr_name :: "string option"
  arr_peer :: "string option"
  arr_volumes :: "(string \<times> mock_volume) list"
  arr_hosts :: "(string \<times> fa_host) list"
  arr_host_groups :: "(string \<times> string list) list"
  arr_snapshots :: "(string \<times> string option) list"
  arr_api_tokens :: "(string \<times> string) list"
  arr_protection_groups :: "(string \<times> string list) list"
  arr_filesystems :: "string list"
  arr_nfs_exports :: "(string \<times> dict) list"
  arr_vvol_ids :: "(string \<times> string) list"
  arr_volume_connections :: "(string \<times> dict list) list"
  arr_destroyed :: "string list"
  arr_volume_groups :: "string list"
  arr_connections :: "dict list"
  arr_calls :: "(string \<times> dict) list"

type_synonym 'a mock_step = "(mock_array, 'a) action"

definition new_mock :: "string \<Rightarrow> mock_array" where
  "new_mock ep =
     \<lparr>arr_endpoint = ep, arr_name = None, arr_peer = None, arr_volumes = [], arr_hosts = [],
      arr_host_groups = [], arr_snapshots = [], arr_api_tokens = [], arr_protection_groups = [],
      arr_filesystems = [], arr_nfs_exports = [], arr_vvol_ids = [], arr_volume_connections = [],
      arr_destroyed = [], arr_volume_groups = [], arr_connections = [], arr_calls = []\<rparr>"

definition rec :: "string \<Rightarrow> dict \<Rightarrow> unit mock_step" where
  "rec op kw = modify (\<lambda>s. s\<lparr>arr_calls := arr_calls s @ [(op, kw)]\<rparr>)"

definition json_size :: "size_arg \<Rightarrow> json" where
  "json_size sz = (case sz of SizeInt i \<Rightarrow> JInt i | SizeStr s \<Rightarrow> JStr s)"

definition json_strs :: "string list \<Rightarrow> json" where
  "json_strs xs = JList (map JStr xs)"

definition json_strs_opt :: "string list option \<Rightarrow> json" where
  "json_strs_opt xs = (case xs of None \<Rightarrow> JNull | Some ys \<Rightarrow> json_strs ys)"

definition json_opt :: "string option \<Rightarrow> json" where
  "json_opt x = (case x of None \<Rightarrow> JNull | Some s \<Rightarrow> JStr s)"

definition initiators_kw :: "initiators \<Rightarrow> dict" where
  "initiators_kw i = [(''iqns'', json_strs_opt (iqns i)), (''wwns'', json_strs_opt (wwns i)),
     (''nqns'', json_strs_opt (nqns i))]"

text \<open>Append what is not there yet; append to a set.\<close>

definition add_new :: "'a list \<Rightarrow> 'a list \<Rightarrow> 'a list" where
  "add_new xs vs = foldl (\<lambda>acc v. if v \<in> set acc then acc else acc @ [v]) xs vs"

definition set_add :: "'a \<Rightarrow> 'a list \<Rightarrow> 'a list" where
  "set_add x xs = (if x \<in> set xs then xs else xs @ [x])"

section \<open>The array and its tokens\<close>

definition mock_info :: "dict mock_step" where
  "mock_info = ret [(''name'', JStr ''mock-array''), (''model'', JStr ''FA-X70R3''),
     (''version'', JStr ''6.5.0''), (''id'', JStr ''mock-0001'')]"

definition mock_connect :: "dict mock_step" where
  "mock_connect = mock_info"

definition mock_create_api_token :: "string \<Rightarrow> string mock_step" where
  "mock_create_api_token user =
     bnd (gets (\<lambda>s. ''mock-token-'' @ user @ ''-'' @ show_nat (length (arr_api_tokens s) + 1))) (\<lambda>tok.
     andthen (modify (\<lambda>s. s\<lparr>arr_api_tokens := AList.update user tok (arr_api_tokens s)\<rparr>))
     (andthen (rec ''create_api_token'' [(''username'', JStr user)]) (ret tok)))"

definition mock_delete_api_token :: "string \<Rightarrow> unit mock_step" where
  "mock_delete_api_token user = steps [
     modify (\<lambda>s. s\<lparr>arr_api_tokens := AList.delete user (arr_api_tokens s)\<rparr>),
     rec ''delete_api_token'' [(''username'', JStr user)]]"

section \<open>Hosts and host groups\<close>

definition no_host :: fa_host where
  "no_host = \<lparr>host_iqns = [], host_wwns = [], host_nqns = []\<rparr>"

definition merge_host :: "initiators \<Rightarrow> fa_host \<Rightarrow> fa_host" where
  "merge_host i h = \<lparr>host_iqns = add_new (host_iqns h) (or_empty (iqns i)),
     host_wwns = add_new (host_wwns h) (or_empty (wwns i)),
     host_nqns = add_new (host_nqns h) (or_empty (nqns i))\<rparr>"

definition mock_create_host :: "string \<Rightarrow> initiators \<Rightarrow> unit mock_step" where
  "mock_create_host name i = steps [
     modify (\<lambda>s. s\<lparr>arr_hosts :=
       AList.update name (merge_host i (dict_get (arr_hosts s) name no_host)) (arr_hosts s)\<rparr>),
     rec ''create_host'' ((''name'', JStr name) # initiators_kw i)]"

definition mock_find_host_by_initiator :: "initiators \<Rightarrow> string option mock_step" where
  "mock_find_host_by_initiator i =
     andthen (rec ''find_host_by_initiator'' (initiators_kw i))
       (if wants_nothing i then ret None
        else gets (\<lambda>s. find (\<lambda>n. owns i (dict_get (arr_hosts s) n no_host)) (map fst (arr_hosts s))))"

definition mock_ensure_host :: "string \<Rightarrow> initiators \<Rightarrow> string mock_step" where
  "mock_ensure_host name i =
     bnd (mock_find_host_by_initiator i) (\<lambda>existing.
     case nonempty existing of
       Some h \<Rightarrow> andthen (rec ''ensure_host'' [(''name'', JStr name), (''reused'', JStr h)]) (ret h)
     | None \<Rightarrow> andthen (mock_create_host name i)
         (andthen (rec ''ensure_host'' [(''name'', JStr name), (''reused'', JNull)]) (ret name)))"

definition group_of :: "string \<Rightarrow> (string \<times> string list) list \<Rightarrow> string option" where
  "group_of name gs = find (\<lambda>g. name \<in> set (dict_get gs g [])) (map fst gs)"

definition mock_get_host :: "string \<Rightarrow> host_info option mock_step" where
  "mock_get_host name =
     bnd (gets (\<lambda>s. map_of (arr_hosts s) name)) (\<lambda>h.
     andthen (rec ''get_host'' [(''name'', JStr name)])
     (case h of
        None \<Rightarrow> ret None
      | Some x \<Rightarrow> gets (\<lambda>s. Some \<lparr>info_host = x, info_group = group_of name (arr_host_groups s)\<rparr>)))"

definition mock_create_host_group :: "string \<Rightarrow> string list \<Rightarrow> unit mock_step" where
  "mock_create_host_group name members = steps [
     modify (\<lambda>s. s\<lparr>arr_host_groups :=
       AList.update name (add_new (dict_get (arr_host_groups s) name []) members) (arr_host_groups s)\<rparr>),
     rec ''create_host_group'' [(''name'', JStr name), (''hosts'', json_strs members)]]"

definition mock_get_host_group_members :: "string \<Rightarrow> string list mock_step" where
  "mock_get_host_group_members name =
     andthen (rec ''get_host_group_members'' [(''name'', JStr name)])
       (gets (\<lambda>s. dict_get (arr_host_groups s) name []))"

definition mock_remove_host_from_group :: "string \<Rightarrow> string \<Rightarrow> unit mock_step" where
  "mock_remove_host_from_group name host = steps [
     modify (\<lambda>s. case map_of (arr_host_groups s) name of
       None \<Rightarrow> s
     | Some ms \<Rightarrow> s\<lparr>arr_host_groups := AList.update name (remove1 host ms) (arr_host_groups s)\<rparr>),
     rec ''remove_host_from_group'' [(''name'', JStr name), (''host'', JStr host)]]"

definition mock_delete_host :: "string \<Rightarrow> unit mock_step" where
  "mock_delete_host name = steps [
     modify (\<lambda>s. s\<lparr>arr_hosts := AList.delete name (arr_hosts s)\<rparr>),
     rec ''delete_host'' [(''name'', JStr name)]]"

definition mock_delete_host_group :: "string \<Rightarrow> unit mock_step" where
  "mock_delete_host_group name = steps [
     modify (\<lambda>s. s\<lparr>arr_host_groups := AList.delete name (arr_host_groups s)\<rparr>),
     rec ''delete_host_group'' [(''name'', JStr name)]]"

definition mock_client :: "mock_array host_client" where
  "mock_client = \<lparr>find_host_by_initiator = mock_find_host_by_initiator, get_host = mock_get_host,
     create_host = mock_create_host, create_host_group = mock_create_host_group\<rparr>"

definition mock_register_host_group ::
  "string \<Rightarrow> host_spec list \<Rightarrow> registration mock_step" where
  "mock_register_host_group = register_host_group mock_client"

section \<open>File services\<close>

definition mock_create_filesystem :: "string \<Rightarrow> unit mock_step" where
  "mock_create_filesystem name = steps [
     modify (\<lambda>s. s\<lparr>arr_filesystems := set_add name (arr_filesystems s)\<rparr>),
     rec ''create_filesystem'' [(''name'', JStr name)]]"

definition mock_delete_filesystem :: "string \<Rightarrow> bool \<Rightarrow> unit mock_step" where
  "mock_delete_filesystem name eradicate = steps [
     modify (\<lambda>s. s\<lparr>arr_filesystems := removeAll name (arr_filesystems s)\<rparr>),
     rec ''delete_filesystem'' [(''name'', JStr name), (''eradicate'', JBool eradicate)]]"

definition nfs_export :: "string \<Rightarrow> string \<Rightarrow> string \<Rightarrow> string option \<Rightarrow> dict" where
  "nfs_export name fs path policy =
     [(''name'', JStr name), (''filesystem'', JStr fs), (''path'', JStr path),
      (''policy'', JStr (case nonempty policy of Some p \<Rightarrow> p | None \<Rightarrow> ''nfs-default''))]"

definition mock_create_nfs_export ::
  "string \<Rightarrow> string \<Rightarrow> string \<Rightarrow> string option \<Rightarrow> dict mock_step" where
  "mock_create_nfs_export name fs path policy =
     andthen (modify (\<lambda>s. s\<lparr>arr_filesystems := set_add fs (arr_filesystems s)\<rparr>))
     (andthen (modify (\<lambda>s. s\<lparr>arr_nfs_exports :=
        AList.update name (nfs_export name fs path policy) (arr_nfs_exports s)\<rparr>))
     (andthen (rec ''create_nfs_export'' (nfs_export name fs path policy))
       (ret (nfs_export name fs path policy))))"

definition mock_get_nfs_exports :: "string option \<Rightarrow> dict list mock_step" where
  "mock_get_nfs_exports fs =
     andthen (rec ''get_nfs_exports'' [(''filesystem'', json_opt fs)])
       (gets (\<lambda>s. filter (\<lambda>e. case fs of None \<Rightarrow> True
          | Some f \<Rightarrow> dict_get e ''filesystem'' JNull = JStr f) (map snd (arr_nfs_exports s))))"

definition mock_delete_nfs_export :: "string \<Rightarrow> unit mock_step" where
  "mock_delete_nfs_export name = steps [
     modify (\<lambda>s. s\<lparr>arr_nfs_exports := AList.delete name (arr_nfs_exports s)\<rparr>),
     rec ''delete_nfs_export'' [(''name'', JStr name)]]"

definition mock_get_nfs_data_interfaces :: "string list mock_step" where
  "mock_get_nfs_data_interfaces =
     andthen (rec ''get_nfs_data_interfaces'' []) (ret [''10.30.30.30'', ''10.30.31.30''])"

definition mock_get_data_interfaces :: "string \<Rightarrow> string list mock_step" where
  "mock_get_data_interfaces svc =
     andthen (rec ''get_data_interfaces'' [(''service'', JStr svc)])
       (ret (dict_get [(''iscsi'', [''10.10.10.10'', ''10.10.11.10'']),
                       (''nvme-tcp'', [''10.20.20.20'', ''10.20.21.20''])] svc []))"

definition mock_get_target_ports :: "dict mock_step" where
  "mock_get_target_ports =
     andthen (rec ''get_target_ports'' [])
       (ret [(''iqn'', JStr ''iqn.2010-06.com.purestorage:flasharray.mock0001''),
             (''nqn'', JStr ''nqn.2014-08.com.purestorage:nvme-subsystem.mock0001''),
             (''wwns'', json_strs [''524a937000000001'', ''524a937000000002''])])"

section \<open>Volumes\<close>

text \<open>The serial of a new volume, a function of its name.\<close>

definition mock_serial :: "string \<Rightarrow> string" where
  "mock_serial name = take 24 (sha1_hex name)"

text \<open>What \<^verbatim>\<open>get_volume\<close> returns.\<close>

record volume_view =
  vv_name :: string
  vv_serial :: "string option"
  vv_size :: "size_arg option"
  vv_destroyed :: bool

definition mock_create_volume :: "string \<Rightarrow> size_arg \<Rightarrow> string mock_step" where
  "mock_create_volume name sz =
     andthen (modify (\<lambda>s. s\<lparr>arr_volumes :=
        AList.update name \<lparr>mv_size = Some sz, mv_serial = Some (mock_serial name)\<rparr> (arr_volumes s)\<rparr>))
     (andthen (rec ''create_volume'' [(''name'', JStr name), (''size'', json_size sz)])
       (ret (mock_serial name)))"

definition mock_get_volume :: "string \<Rightarrow> volume_view option mock_step" where
  "mock_get_volume name =
     andthen (rec ''get_volume'' [(''name'', JStr name)])
       (gets (\<lambda>s. map_option (\<lambda>v. \<lparr>vv_name = name, vv_serial = mv_serial v, vv_size = mv_size v,
          vv_destroyed = False\<rparr>) (map_of (arr_volumes s) name)))"

definition mock_find_volume_name_by_serial :: "string option \<Rightarrow> string option mock_step" where
  "mock_find_volume_name_by_serial serial =
     andthen (rec ''find_volume_name_by_serial'' [(''serial'', json_opt serial)])
       (let want = lower (strip (case serial of None \<Rightarrow> [] | Some x \<Rightarrow> x)) in
        gets (\<lambda>s. map_option fst (find (\<lambda>(n, v).
          lower (case mv_serial v of None \<Rightarrow> [] | Some x \<Rightarrow> x) = want) (arr_volumes s))))"

definition mock_list_volume_connections :: "string option \<Rightarrow> dict list mock_step" where
  "mock_list_volume_connections vol =
     andthen (rec ''list_volume_connections'' [(''volume'', json_opt vol)])
       (gets (\<lambda>s. dict_get (arr_volume_connections s)
          (strip (case vol of None \<Rightarrow> [] | Some v \<Rightarrow> v)) []))"

text \<open>\<^verbatim>\<open>n.split("::")[-1]\<close>\<close>

definition leaf_name :: "string \<Rightarrow> string" where
  "leaf_name n = last (split_on ''::'' n)"

definition api_error :: "string \<Rightarrow> exn" where
  "api_error m = Exn ''FlashArrayApiError'' m"

definition em_dash :: string where
  "em_dash = [CHR 0xE2, CHR 0x80, CHR 0x94]"

definition ambiguous_text :: "string \<Rightarrow> string list \<Rightarrow> string" where
  "ambiguous_text want names =
     ''Volume name '' @ py_repr want @ '' is ambiguous on this array '' @ em_dash
     @ '' it matches '' @ show_nat (length names) @ '' pod-scoped volumes (''
     @ join '', '' (sort names) @ ''). Cannot choose safely.''"

definition mock_resolve_volume_name :: "string option \<Rightarrow> string option mock_step" where
  "mock_resolve_volume_name name =
     andthen (rec ''resolve_volume_name'' [(''name'', json_opt name)])
     (let want = strip (case name of None \<Rightarrow> [] | Some n \<Rightarrow> n) in
      if want = [] then ret None
      else bnd (gets (\<lambda>s. map fst (arr_volumes s))) (\<lambda>names.
        if want \<in> set names then ret (Some want)
        else if contains ''::'' want then ret None
        else let matches = filter (\<lambda>n. leaf_name n = want) names in
          if 1 < length matches then raise (api_error (ambiguous_text want matches))
          else ret (case matches of [] \<Rightarrow> None | n # _ \<Rightarrow> Some n)))"

definition mock_find_volume_by_vvol_id :: "string option \<Rightarrow> (string \<times> string option) option mock_step" where
  "mock_find_volume_by_vvol_id vvol =
     andthen (rec ''find_volume_by_vvol_id'' [(''vvol_id'', json_opt vvol)])
     (let want = strip (case vvol of None \<Rightarrow> [] | Some n \<Rightarrow> n) in
      bnd (gets (\<lambda>s. nonempty (if want = [] then None else map_of (arr_vvol_ids s) want))) (\<lambda>name.
      case name of
        None \<Rightarrow> ret None
      | Some n \<Rightarrow> bnd (mock_get_volume n) (\<lambda>vol.
          ret (map_option (\<lambda>v. (vv_name v, vv_serial v)) vol))))"

definition no_volume :: mock_volume where
  "no_volume = \<lparr>mv_size = None, mv_serial = None\<rparr>"

definition mock_extend_volume :: "string \<Rightarrow> size_arg \<Rightarrow> unit mock_step" where
  "mock_extend_volume name sz = steps [
     modify (\<lambda>s. s\<lparr>arr_volumes := AList.update name
        ((dict_get (arr_volumes s) name no_volume)\<lparr>mv_size := Some sz\<rparr>) (arr_volumes s)\<rparr>),
     rec ''extend_volume'' [(''name'', JStr name), (''size'', json_size sz)]]"

definition mock_delete_volume :: "string \<Rightarrow> bool \<Rightarrow> unit mock_step" where
  "mock_delete_volume name eradicate = steps [
     modify (\<lambda>s. s\<lparr>arr_volumes := AList.delete name (arr_volumes s)\<rparr>),
     modify (\<lambda>s. s\<lparr>arr_destroyed := (if eradicate then removeAll name (arr_destroyed s)
        else set_add name (arr_destroyed s))\<rparr>),
     rec ''delete_volume'' [(''name'', JStr name), (''eradicate'', JBool eradicate)]]"

definition mock_create_snapshot :: "string \<Rightarrow> string option \<Rightarrow> unit mock_step" where
  "mock_create_snapshot vol suffix = steps [
     modify (\<lambda>s. s\<lparr>arr_snapshots := arr_snapshots s @ [(vol, suffix)]\<rparr>),
     rec ''create_snapshot'' [(''volume'', JStr vol), (''suffix'', json_opt suffix)]]"

definition mock_clone_volume :: "string \<Rightarrow> string \<Rightarrow> unit mock_step" where
  "mock_clone_volume src dest = steps [
     modify (\<lambda>s. s\<lparr>arr_volumes := AList.update dest
        ((dict_get (arr_volumes s) src no_volume)\<lparr>mv_serial := Some (mock_serial dest)\<rparr>)
        (arr_volumes s)\<rparr>),
     rec ''clone_volume'' [(''source'', JStr src), (''dest'', JStr dest)]]"

text \<open>The serial of the target of a copy. A truthy \<^verbatim>\<open>existing\<close> with a serial keeps it; a copy
  without one takes the source's, or a new one where the source has none.\<close>

definition copied_volume :: "string \<Rightarrow> bool \<Rightarrow> mock_volume option \<Rightarrow> mock_volume \<Rightarrow> mock_volume" where
  "copied_volume dest overwrite existing src =
     (case (if overwrite then nonempty (case existing of None \<Rightarrow> None | Some e \<Rightarrow> mv_serial e) else None) of
        Some x \<Rightarrow> src\<lparr>mv_serial := Some x\<rparr>
      | None \<Rightarrow> if mv_serial src = None then src\<lparr>mv_serial := Some (mock_serial dest)\<rparr> else src)"

definition mock_copy_volume :: "string \<Rightarrow> string \<Rightarrow> bool \<Rightarrow> unit mock_step" where
  "mock_copy_volume src dest overwrite = steps [
     modify (\<lambda>s. s\<lparr>arr_volumes := AList.update dest
        (copied_volume dest overwrite (map_of (arr_volumes s) dest)
           (dict_get (arr_volumes s) src no_volume)) (arr_volumes s)\<rparr>),
     rec ''copy_volume''
       [(''source'', JStr src), (''dest'', JStr dest), (''overwrite'', JBool overwrite)]]"

definition mock_connect_volume :: "string \<Rightarrow> string \<Rightarrow> unit mock_step" where
  "mock_connect_volume host vol = rec ''connect_volume'' [(''host'', JStr host), (''volume'', JStr vol)]"

definition mock_disconnect_volume :: "string \<Rightarrow> string \<Rightarrow> unit mock_step" where
  "mock_disconnect_volume host vol =
     rec ''disconnect_volume'' [(''host'', JStr host), (''volume'', JStr vol)]"

definition mock_connect_volume_to_group :: "string \<Rightarrow> string \<Rightarrow> unit mock_step" where
  "mock_connect_volume_to_group grp vol =
     rec ''connect_volume_to_group'' [(''group'', JStr grp), (''volume'', JStr vol)]"

definition mock_disconnect_volume_from_group :: "string \<Rightarrow> string \<Rightarrow> unit mock_step" where
  "mock_disconnect_volume_from_group grp vol =
     rec ''disconnect_volume_from_group'' [(''group'', JStr grp), (''volume'', JStr vol)]"

definition mock_ensure_volume_group :: "string \<Rightarrow> unit mock_step" where
  "mock_ensure_volume_group name = steps [
     modify (\<lambda>s. s\<lparr>arr_volume_groups := set_add name (arr_volume_groups s)\<rparr>),
     rec ''ensure_volume_group'' [(''name'', JStr name)]]"

definition mock_rename_volume :: "string \<Rightarrow> string \<Rightarrow> unit mock_step" where
  "mock_rename_volume old new = steps [
     modify (\<lambda>s. case map_of (arr_volumes s) old of
       None \<Rightarrow> s
     | Some v \<Rightarrow> s\<lparr>arr_volumes := AList.update new v (AList.delete old (arr_volumes s))\<rparr>),
     rec ''rename_volume'' [(''old'', JStr old), (''new'', JStr new)]]"

definition mock_volume_exists :: "string \<Rightarrow> bool \<Rightarrow> bool mock_step" where
  "mock_volume_exists name include_destroyed =
     gets (\<lambda>s. name \<in> fst ` set (arr_volumes s) \<or> (include_destroyed \<and> name \<in> set (arr_destroyed s)))"

section \<open>Protection and replication\<close>

definition mock_set_qos :: "string \<Rightarrow> int option \<Rightarrow> int option \<Rightarrow> unit mock_step" where
  "mock_set_qos vol iops bw = rec ''set_qos''
     [(''volume'', JStr vol), (''iops_limit'', case iops of None \<Rightarrow> JNull | Some i \<Rightarrow> JInt i),
      (''bw_limit'', case bw of None \<Rightarrow> JNull | Some i \<Rightarrow> JInt i)]"

definition mock_create_protection_group :: "string \<Rightarrow> string list \<Rightarrow> unit mock_step" where
  "mock_create_protection_group name vols = steps [
     modify (\<lambda>s. s\<lparr>arr_protection_groups := AList.update name vols (arr_protection_groups s)\<rparr>),
     rec ''create_protection_group'' [(''name'', JStr name), (''volumes'', json_strs vols)]]"

definition mock_array_name :: "string mock_step" where
  "mock_array_name = gets (\<lambda>s. case arr_name s of None \<Rightarrow> arr_endpoint s | Some n \<Rightarrow> n)"

definition mock_list_array_connections :: "dict list mock_step" where
  "mock_list_array_connections = gets arr_connections"

definition mock_get_connection_key :: "string mock_step" where
  "mock_get_connection_key = ret ''mock-connection-key''"

definition mock_get_replication_addresses :: "string list mock_step" where
  "mock_get_replication_addresses = ret [''10.99.0.1'']"

definition mock_connect_to_array :: "string \<Rightarrow> string \<Rightarrow> string list \<Rightarrow> unit mock_step" where
  "mock_connect_to_array addr key repl = steps [
     modify (\<lambda>s. s\<lparr>arr_connections := arr_connections s @
       [[(''name'', JStr (case arr_peer s of None \<Rightarrow> addr | Some p \<Rightarrow> p)),
         (''management_address'', JStr addr), (''status'', JStr ''connected''),
         (''type'', JStr ''async-replication'')]]\<rparr>),
     rec ''connect_to_array'' [(''management_address'', JStr addr)]]"

definition mock_delete_array_connection :: "string \<Rightarrow> unit mock_step" where
  "mock_delete_array_connection name = steps [
     modify (\<lambda>s. s\<lparr>arr_connections :=
       filter (\<lambda>c. dict_get c ''name'' JNull \<noteq> JStr name) (arr_connections s)\<rparr>),
     rec ''delete_array_connection'' [(''name'', JStr name)]]"

definition mock_replicate_volume_to :: "string \<Rightarrow> string \<Rightarrow> string \<Rightarrow> string mock_step" where
  "mock_replicate_volume_to vol target pg =
     andthen (rec ''replicate_volume_to''
       [(''volume'', JStr vol), (''target_array'', JStr target), (''pgroup'', JStr pg)])
     (ret ''mig'')"

definition mock_import_replicated_volume ::
  "string \<Rightarrow> string \<Rightarrow> string \<Rightarrow> string \<Rightarrow> string \<Rightarrow> unit mock_step" where
  "mock_import_replicated_volume src_array pg snap member dest = steps [
     modify (\<lambda>s. s\<lparr>arr_volumes := AList.update dest
       \<lparr>mv_size = Some (SizeStr ''0''), mv_serial = Some (mock_serial dest)\<rparr> (arr_volumes s)\<rparr>),
     rec ''import_replicated_volume'' [(''source_array'', JStr src_array), (''dest'', JStr dest)]]"

definition mock_cleanup_replication_pgroup :: "string \<Rightarrow> unit mock_step" where
  "mock_cleanup_replication_pgroup pg =
     rec ''cleanup_replication_pgroup'' [(''pgroup'', JStr pg)]"

section \<open>The mock keeps the contract of a host array\<close>

lemma set_add_new [simp]: "set (add_new xs vs) = set xs \<union> set vs"
  unfolding add_new_def by (induction vs arbitrary: xs) auto

lemma distinct_add_new: "distinct xs \<Longrightarrow> distinct (add_new xs vs)"
  unfolding add_new_def by (induction vs arbitrary: xs) auto

lemma find_SomeD: "find p xs = Some x \<Longrightarrow> x \<in> set xs \<and> p x"
  by (induction xs) (auto split: if_splits)

lemma find_NoneD: "find p xs = None \<Longrightarrow> x \<in> set xs \<Longrightarrow> \<not> p x"
  by (auto simp: find_None_iff)

lemmas mock_run = mock_find_host_by_initiator_def mock_get_host_def mock_create_host_def
  mock_create_host_group_def rec_def run_rules

lemma map_of_key: "h \<in> fst ` set xs \<Longrightarrow> map_of xs h = Some (dict_get xs h d)"
  by (cases "map_of xs h") (simp_all add: dict_get_def map_of_eq_None_iff)

lemma dict_get_Some: "map_of xs h = Some x \<Longrightarrow> dict_get xs h d = x"
  by (simp add: dict_get_def)

interpretation mock: host_array mock_client "\<lambda>s. map_of (arr_hosts s)" "\<lambda>s. map_of (arr_host_groups s)"
proof unfold_locales
  fix i s h t x
  assume "find_host_by_initiator mock_client i s = (Inr (Some h), t)"
  then have "find (\<lambda>n. owns i (dict_get (arr_hosts s) n no_host)) (map fst (arr_hosts s)) = Some h"
    by (auto simp: mock_client_def mock_run split: if_splits)
  then have "h \<in> fst ` set (arr_hosts s)" "owns i (dict_get (arr_hosts s) h no_host)"
    by (auto dest!: find_SomeD)
  then show "\<exists>x. map_of (arr_hosts s) h = Some x \<and> owns i x"
    using map_of_key [of h "arr_hosts s" no_host] by blast
next
  fix i s t h x
  assume "find_host_by_initiator mock_client i s = (Inr None, t)" and h: "map_of (arr_hosts s) h = Some x"
  then have "wants_nothing i \<or>
      find (\<lambda>n. owns i (dict_get (arr_hosts s) n no_host)) (map fst (arr_hosts s)) = None"
    by (auto simp: mock_client_def mock_run split: if_splits)
  moreover have "h \<in> fst ` set (arr_hosts s)" using h by (metis map_of_eq_None_iff option.distinct(1))
  ultimately show "\<not> owns i x"
    using dict_get_Some [OF h] wants_nothing_owns find_NoneD by force
next
  fix h s y t g
  assume "get_host mock_client h s = (Inr (Some y), t)" "info_group y = Some g"
  then have "group_of h (arr_host_groups s) = Some g"
    by (auto simp: mock_client_def mock_run split: option.splits)
  then have "g \<in> fst ` set (arr_host_groups s)" "h \<in> set (dict_get (arr_host_groups s) g [])"
    by (auto simp: group_of_def dest!: find_SomeD)
  then show "\<exists>ms. map_of (arr_host_groups s) g = Some ms \<and> h \<in> set ms"
    using map_of_key [of g "arr_host_groups s" "[]"] by blast
next
  fix h s y t g ms
  assume "get_host mock_client h s = (Inr (Some y), t)" "info_group y = None"
    and g: "map_of (arr_host_groups s) g = Some ms"
  then have "group_of h (arr_host_groups s) = None"
    by (auto simp: mock_client_def mock_run split: option.splits)
  moreover have "g \<in> fst ` set (arr_host_groups s)" using g by (metis map_of_eq_None_iff option.distinct(1))
  ultimately show "h \<notin> set ms"
    using dict_get_Some [OF g] by (fastforce simp: group_of_def dest!: find_NoneD)
next
  fix n i s u t
  assume "create_host mock_client n i s = (Inr u, t)"
  then show "\<exists>x. map_of (arr_hosts t) = (map_of (arr_hosts s))(n \<mapsto> x) \<and> covers i x"
    by (auto simp: mock_client_def mock_run merge_host_def covers_def)
qed (auto simp: mock_client_def mock_run or_empty_def dict_get_def
    split: if_splits option.splits intro!: exI)


section \<open>Properties of host registration\<close>

text \<open>
  When registration reports a conflict, because the nodes' existing hosts are spread over
  several host groups, it has changed no host and no group of the array.
\<close>

theorem registration_conflict_changes_nothing:
  assumes "mock_register_host_group requested hs s = (Inr r, t)" and "reg_conflict r \<noteq> None"
  shows "map_of (arr_hosts t) = map_of (arr_hosts s) \<and>
    map_of (arr_host_groups t) = map_of (arr_host_groups s) \<and> reg_created r = []"
  using mock.register_conflict [OF assms [unfolded mock_register_host_group_def]] .

text \<open>An array on which two nodes already are members of different groups.\<close>

definition demo_iqn :: "string \<Rightarrow> initiators" where
  "demo_iqn q = \<lparr>iqns = Some [q], wwns = None, nqns = None\<rparr>"

definition demo_array :: "(string \<times> string list) list \<Rightarrow> mock_array" where
  "demo_array gs = (new_mock ''m'')\<lparr>arr_hosts :=
     [(''h1'', \<lparr>host_iqns = [''q1''], host_wwns = [], host_nqns = []\<rparr>),
      (''h2'', \<lparr>host_iqns = [''Q2''], host_wwns = [], host_nqns = []\<rparr>)], arr_host_groups := gs\<rparr>"

definition demo_nodes :: "host_spec list" where
  "demo_nodes = [(''n1'', demo_iqn ''q1''), (''n2'', demo_iqn ''q2''), (''n3'', demo_iqn ''q3'')]"

lemma demo_conflict:
  "reg_conflict (projr (fst (mock_register_host_group ''g'' demo_nodes
     (demo_array [(''a'', [''h1'']), (''b'', [''h2''])])))) \<noteq> None"
  by code_simp

text \<open>The invariants of the array's topology, in executable form.\<close>

definition members :: "mock_array \<Rightarrow> string \<Rightarrow> string list" where
  "members s g = dict_get (arr_host_groups s) g []"

definition one_group_each :: "mock_array \<Rightarrow> bool" where
  "one_group_each s \<longleftrightarrow> (\<forall>g \<in> fst ` set (arr_host_groups s). \<forall>g' \<in> fst ` set (arr_host_groups s).
     g = g' \<or> set (members s g) \<inter> set (members s g') = {})"

definition names_nonempty :: "mock_array \<Rightarrow> bool" where
  "names_nonempty s \<longleftrightarrow> [] \<notin> fst ` set (arr_hosts s) \<and> [] \<notin> fst ` set (arr_host_groups s)"

definition new_nodes_ungrouped :: "host_spec list \<Rightarrow> mock_array \<Rightarrow> bool" where
  "new_nodes_ungrouped hs s \<longleftrightarrow> (\<forall>(n, i) \<in> set hs.
     (\<exists>h \<in> fst ` set (arr_hosts s). owns i (dict_get (arr_hosts s) h no_host)) \<or>
     (\<forall>g \<in> fst ` set (arr_host_groups s). n \<notin> set (members s g)))"

lemma mock_in_group: "mock.in_group s h g \<longleftrightarrow> h \<in> set (members s g)"
  by (simp add: mock.in_group_def members_def or_empty_def dict_get_def)

lemma members_key: "h \<in> set (members s g) \<Longrightarrow> g \<in> fst ` set (arr_host_groups s)"
  by (cases "map_of (arr_host_groups s) g")
     (auto simp: members_def dict_get_def dest: map_of_SomeD intro: rev_image_eqI)

lemma one_group_each_iff: "mock.one_group s \<longleftrightarrow> one_group_each s"
proof
  assume "mock.one_group s"
  then show "one_group_each s"
    unfolding mock.one_group_def one_group_each_def mock_in_group by (metis disjoint_iff)
next
  assume s: "one_group_each s"
  show "mock.one_group s"
    unfolding mock.one_group_def mock_in_group
  proof (intro allI impI)
    fix h g g'
    assume "h \<in> set (members s g)" "h \<in> set (members s g')"
    with s members_key [of h s g] members_key [of h s g'] show "g = g'"
      unfolding one_group_each_def by (metis disjoint_iff)
  qed
qed

lemma names_nonempty_iff: "mock.named s \<longleftrightarrow> names_nonempty s"
  by (auto simp: mock.named_def names_nonempty_def map_of_eq_None_iff)

lemma new_nodes_ungrouped_fresh:
  assumes "new_nodes_ungrouped hs s"
  shows "mock.fresh_names hs s"
  unfolding mock.fresh_names_def
proof (intro ballI, clarify)
  fix n i g
  assume spec: "(n, i) \<in> set hs" and none: "\<forall>h x. map_of (arr_hosts s) h = Some x \<longrightarrow> \<not> owns i x"
    and g: "mock.in_group s n g"
  have "\<not> owns i (dict_get (arr_hosts s) h no_host)" if "h \<in> fst ` set (arr_hosts s)" for h
    using none map_of_key [OF that] by blast
  with assms spec have "\<forall>g \<in> fst ` set (arr_host_groups s). n \<notin> set (members s g)"
    unfolding new_nodes_ungrouped_def by blast
  with g members_key show False unfolding mock_in_group by blast
qed

text \<open>
  When registration succeeds, there is one host of the array per node, every one of them
  exists and is a member of the effective host group, and no other group has changed.
\<close>

theorem registration_groups_every_node:
  assumes "mock_register_host_group requested hs s = (Inr r, t)" and "reg_conflict r = None"
    and "names_nonempty s" and "one_group_each s"
  shows "length (reg_hosts r) = length hs \<and>
    (\<forall>h \<in> set (reg_hosts r). h \<in> set (members t (reg_group r)) \<and> map_of (arr_hosts t) h \<noteq> None) \<and>
    (\<forall>g. g = reg_group r \<or> members t g = members s g)"
proof -
  have "length (reg_hosts r) = length hs \<and>
    (\<forall>h \<in> set (reg_hosts r). mock.in_group t h (reg_group r) \<and> map_of (arr_hosts t) h \<noteq> None) \<and>
    (\<forall>g. g \<noteq> reg_group r \<longrightarrow> map_of (arr_host_groups t) g = map_of (arr_host_groups s) g)"
    using mock.register_groups [OF assms(1) [unfolded mock_register_host_group_def] assms(2)] assms(3,4)
    by (simp add: one_group_each_iff names_nonempty_iff)
  then show ?thesis unfolding mock_in_group by (auto simp: members_def dict_get_def)
qed


lemma demo_grouped:
  "(case mock_register_host_group ''g'' demo_nodes (demo_array [(''a'', [''h1''])]) of
     (Inr r, t) \<Rightarrow> reg_conflict r = None \<and> reg_group r = ''a'' \<and> reg_hosts r = [''h1'', ''h2'', ''n3'']
   | _ \<Rightarrow> False)"
  "names_nonempty (demo_array [(''a'', [''h1''])])" "one_group_each (demo_array [(''a'', [''h1''])])"
  "new_nodes_ungrouped demo_nodes (demo_array [(''a'', [''h1''])])"
  by code_simp+

lemma demo_grouped_run:
  obtains r t where
    "mock_register_host_group ''g'' demo_nodes (demo_array [(''a'', [''h1''])]) = (Inr r, t)"
    "reg_conflict r = None" "reg_group r = ''a''" "reg_hosts r = [''h1'', ''h2'', ''n3'']"
  using demo_grouped(1) by (auto split: prod.splits sum.splits)

theorem registration_conflict_changes_nothing_witness:
  "\<exists>r t. mock_register_host_group ''g'' demo_nodes (demo_array [(''a'', [''h1'']), (''b'', [''h2''])])
      = (Inr r, t) \<and> reg_conflict r \<noteq> None \<and>
     map_of (arr_hosts t) = map_of (arr_hosts (demo_array [(''a'', [''h1'']), (''b'', [''h2''])]))"
proof -
  have "(case mock_register_host_group ''g'' demo_nodes
       (demo_array [(''a'', [''h1'']), (''b'', [''h2''])]) of
      (Inr r, t) \<Rightarrow> reg_conflict r \<noteq> None | _ \<Rightarrow> False)" by code_simp
  then obtain r t where r: "mock_register_host_group ''g'' demo_nodes
      (demo_array [(''a'', [''h1'']), (''b'', [''h2''])]) = (Inr r, t)" "reg_conflict r \<noteq> None"
    by (auto split: prod.splits sum.splits)
  with registration_conflict_changes_nothing [OF r] show ?thesis by blast
qed

theorem registration_groups_every_node_witness:
  "\<exists>r t. mock_register_host_group ''g'' demo_nodes (demo_array [(''a'', [''h1''])]) = (Inr r, t) \<and>
     list_all (\<lambda>h. h \<in> set (members t ''a'')) [''h1'', ''h2'', ''n3'']"
proof -
  obtain r t where r:
    "mock_register_host_group ''g'' demo_nodes (demo_array [(''a'', [''h1''])]) = (Inr r, t)"
    "reg_conflict r = None" "reg_group r = ''a''" "reg_hosts r = [''h1'', ''h2'', ''n3'']"
    by (rule demo_grouped_run)
  with registration_groups_every_node [OF r(1,2) demo_grouped(2,3)] show ?thesis by auto
qed


section \<open>Properties of volumes\<close>

text \<open>
  An overwriting copy replaces the contents of the target and keeps its identity: the
  target has the source's size and its own serial, and no other volume has changed, the source
  included.
\<close>

theorem overwrite_keeps_identity:
  assumes "map_of (arr_volumes s) dest = Some d" and "mv_serial d = Some x" and "x \<noteq> []"
    and "map_of (arr_volumes s) src = Some v" and "mock_copy_volume src dest True s = (Inr (), t)"
  shows "map_of (arr_volumes t) = (map_of (arr_volumes s))(dest \<mapsto> \<lparr>mv_size = mv_size v, mv_serial = Some x\<rparr>)"
proof -
  have "nonempty (Some x) = Some x" using assms(3) by (simp add: nonempty_Some_iff)
  then show ?thesis
    using assms by (auto simp: mock_copy_volume_def copied_volume_def rec_def run_rules dict_get_def)
qed

definition demo_volumes :: mock_array where
  "demo_volumes = (new_mock ''m'')\<lparr>arr_volumes :=
     [(''v'', \<lparr>mv_size = Some (SizeStr ''10G''), mv_serial = Some ''AA''\<rparr>),
      (''w'', \<lparr>mv_size = Some (SizeInt 5), mv_serial = Some ''BB''\<rparr>)]\<rparr>"

theorem overwrite_keeps_identity_witness:
  "map_of (arr_volumes (snd (mock_copy_volume ''v'' ''w'' True demo_volumes))) ''w''
     = Some \<lparr>mv_size = Some (SizeStr ''10G''), mv_serial = Some ''BB''\<rparr>"
proof -
  obtain t where t: "mock_copy_volume ''v'' ''w'' True demo_volumes = (Inr (), t)"
    by (simp add: mock_copy_volume_def rec_def run_rules)
  have "map_of (arr_volumes demo_volumes) ''w'' = Some \<lparr>mv_size = Some (SizeInt 5), mv_serial = Some ''BB''\<rparr>"
    "map_of (arr_volumes demo_volumes) ''v'' = Some \<lparr>mv_size = Some (SizeStr ''10G''), mv_serial = Some ''AA''\<rparr>"
    by (simp_all add: demo_volumes_def)
  from overwrite_keeps_identity [OF this(1) _ _ this(2) t] t show ?thesis by simp
qed

text \<open>
  Resolving a bare volume name is safe: the answer is a volume of the array, whose name is
  the wanted one, or the only one that ends in it after its pod; and it is an error only where
  two or more of its volumes end in the wanted name and none has it.
\<close>

theorem resolve_volume_name_safe:
  "case mock_resolve_volume_name (Some name) s of
     (Inr (Some n), t) \<Rightarrow> n \<in> fst ` set (arr_volumes s) \<and>
       (n = strip name \<or> filter (\<lambda>n. leaf_name n = strip name) (map fst (arr_volumes s)) = [n])
   | (Inr None, t) \<Rightarrow> \<not> (strip name \<in> fst ` set (arr_volumes s) \<and> strip name \<noteq> [])
   | (Inl e, t) \<Rightarrow> strip name \<notin> fst ` set (arr_volumes s) \<and>
       1 < length (filter (\<lambda>n. leaf_name n = strip name) (map fst (arr_volumes s)))"
proof -
  define m where "m = filter (\<lambda>n. leaf_name n = strip name) (map fst (arr_volumes s))"
  define s1 where "s1 = s\<lparr>arr_calls := arr_calls s @ [(''resolve_volume_name'', [(''name'', JStr name)])]\<rparr>"
  have run: "mock_resolve_volume_name (Some name) s =
     (if strip name = [] then (Inr None, s1)
      else if strip name \<in> fst ` set (arr_volumes s) then (Inr (Some (strip name)), s1)
      else if contains ''::'' (strip name) then (Inr None, s1)
      else if 1 < length m then (Inl (api_error (ambiguous_text (strip name) m)), s1)
      else (Inr (case m of [] \<Rightarrow> None | n # _ \<Rightarrow> Some n), s1))"
    unfolding m_def s1_def
    by (simp add: mock_resolve_volume_name_def run_rules rec_def Let_def json_opt_def del: filter_map)
  show ?thesis
  proof (cases m)
    case Nil
    then show ?thesis unfolding m_def [symmetric] run by simp
  next
    case (Cons n ns)
    then have "n \<in> set m" by simp
    then have "n \<in> fst ` set (arr_volumes s) \<and> leaf_name n = strip name"
      unfolding m_def by auto
    then show ?thesis unfolding m_def [symmetric] run using Cons by simp
  qed
qed

text \<open>
  Deleting a volume takes it off the array at once; its name stays reserved exactly when
  it was not eradicated.
\<close>

theorem deleted_volume_name:
  "map_of (arr_volumes (snd (mock_delete_volume name eradicate s))) name = None \<and>
   result (mock_volume_exists name False) (snd (mock_delete_volume name eradicate s)) = Inr False \<and>
   result (mock_volume_exists name True) (snd (mock_delete_volume name eradicate s)) = Inr (\<not> eradicate)"
  by (simp add: mock_delete_volume_def mock_volume_exists_def rec_def run_rules result_def set_add_def
      delete_notin_dom)

end
