(* ===== verification/Ip_Network.thy ===== *)
theory Ip_Network
  imports Py_Numbers "HOL-Library.Word"
begin

text \<open>
  Addresses and networks, as Python's \<^verbatim>\<open>ipaddress\<close> reads and prints them: the connectors
  compare the CIDRs of a host's interfaces with the portal addresses of the array through
  \<^verbatim>\<open>ip_address(s)\<close>, \<^verbatim>\<open>ip_network(s, strict=False)\<close>, \<^verbatim>\<open>ip in net\<close> and \<^verbatim>\<open>str(net)\<close>. An IPv4
  address is a 32-bit word, an IPv6 address a 128-bit word with the scope behind a percent sign.
  A text Python rejects with a \<^verbatim>\<open>ValueError\<close> is \<open>None\<close>.
\<close>

unbundle bit_operations_syntax

section \<open>Addresses\<close>

datatype address = V4 "32 word" | V6 "128 word" "string option"

definition parse_octet :: "string \<Rightarrow> nat option" where
  "parse_octet s =
     (if s = [] \<or> \<not> list_all is_digit s \<or> 3 < length s \<or> (s \<noteq> ''0'' \<and> hd s = CHR ''0'')
         \<or> 255 < digits_value 0 s
      then None else Some (digits_value 0 s))"

definition parse_ipv4 :: "string \<Rightarrow> 32 word option" where
  "parse_ipv4 s =
     (case map parse_octet (split_on ''.'' s) of
        [Some a, Some b, Some c, Some d] \<Rightarrow> Some (foldl (\<lambda>w n. push_bit 8 w OR of_nat n) 0 [a, b, c, d])
      | _ \<Rightarrow> None)"

definition hex_value :: "char \<Rightarrow> nat option" where
  "hex_value c = (let n = of_char c :: nat in
     if 48 \<le> n \<and> n \<le> 57 then Some (n - 48)
     else if 97 \<le> n \<and> n \<le> 102 then Some (n - 87)
     else if 65 \<le> n \<and> n \<le> 70 then Some (n - 55)
     else None)"

definition parse_hextet :: "string \<Rightarrow> nat option" where
  "parse_hextet s =
     (if s = [] \<or> 4 < length s then None
      else map_option (foldl (\<lambda>n d. 16 * n + d) 0) (those (map hex_value s)))"

text \<open>\<^verbatim>\<open>'%x' % n\<close>\<close>

fun show_hex :: "nat \<Rightarrow> string" where
  "show_hex n = (if n < 16 then [hex_digit n] else show_hex (n div 16) @ [hex_digit (n mod 16)])"

declare show_hex.simps [simp del]

text \<open>The parts between the colons, an IPv4 suffix turned into two hextets.\<close>

definition colon_parts :: "string \<Rightarrow> string list option" where
  "colon_parts s =
     (let parts = split_on '':'' s in
      if length parts < 3 then None
      else if CHR ''.'' \<in> set (last parts) then
        (case parse_ipv4 (last parts) of
           None \<Rightarrow> None
         | Some w \<Rightarrow> Some (butlast parts @ [show_hex (unat (drop_bit 16 w)), show_hex (unat (w AND 0xFFFF))]))
      else Some parts)"

text \<open>How many parts stand before and after a double colon, and how many it stands for.\<close>

definition hextet_layout :: "string list \<Rightarrow> (nat \<times> nat \<times> nat) option" where
  "hextet_layout parts =
     (let n = length parts in
      if 9 < n then None
      else case filter (\<lambda>i. parts ! i = []) [1..<n - 1] of
        [] \<Rightarrow> if n \<noteq> 8 \<or> hd parts = [] \<or> last parts = [] then None else Some (n, 0, 0)
      | [k] \<Rightarrow>
          (let hi = (if hd parts = [] then k - 1 else k);
               lo = (if last parts = [] then n - k - 2 else n - k - 1) in
           if hd parts = [] \<and> hi \<noteq> 0 then None
           else if last parts = [] \<and> lo \<noteq> 0 then None
           else if 7 < hi + lo then None
           else Some (hi, lo, 8 - (hi + lo)))
      | _ \<Rightarrow> None)"

definition parse_v6_int :: "string \<Rightarrow> 128 word option" where
  "parse_v6_int s =
     (case colon_parts s of
        None \<Rightarrow> None
      | Some parts \<Rightarrow>
          (case hextet_layout parts of
             None \<Rightarrow> None
           | Some (hi, lo, skipped) \<Rightarrow>
               map_option (foldl (\<lambda>w h. push_bit 16 w OR of_nat h) 0)
                 (those (map parse_hextet (take hi parts)
                     @ replicate skipped (Some 0)
                     @ map parse_hextet (drop (length parts - lo) parts)))))"

definition parse_ipv6 :: "string \<Rightarrow> (128 word \<times> string option) option" where
  "parse_ipv6 s =
     (if CHR ''/'' \<in> set s then None
      else case split_at (\<lambda>c. c = CHR ''%'') s of
        (a, None) \<Rightarrow> map_option (\<lambda>w. (w, None)) (parse_v6_int a)
      | (a, Some sc) \<Rightarrow>
          if sc = [] \<or> CHR ''%'' \<in> set sc then None
          else map_option (\<lambda>w. (w, Some sc)) (parse_v6_int a))"

definition ip_address :: "string \<Rightarrow> address option" where
  "ip_address s =
     (case parse_ipv4 s of
        Some w \<Rightarrow> Some (V4 w)
      | None \<Rightarrow> map_option (\<lambda>(w, sc). V6 w sc) (parse_ipv6 s))"

section \<open>Networks\<close>

datatype network = Net4 "32 word" nat | Net6 "128 word" "string option" nat

text \<open>\<^verbatim>\<open>_ALL_ONES ^ (_ALL_ONES >> prefixlen)\<close>\<close>

definition prefix_mask :: "nat \<Rightarrow> 'a::len word" where
  "prefix_mask p = - 1 XOR drop_bit p (- 1)"

definition parse_prefix :: "nat \<Rightarrow> string \<Rightarrow> nat option" where
  "parse_prefix longest s =
     (if s \<noteq> [] \<and> list_all is_digit s \<and> digits_value 0 s \<le> longest then Some (digits_value 0 s)
      else None)"

text \<open>\<^verbatim>\<open>_prefix_from_ip_int\<close>: the length of a netmask written as an address.\<close>

definition mask_length :: "32 word \<Rightarrow> nat option" where
  "mask_length w =
     (let tz = length (takeWhile (\<lambda>i. \<not> bit w i) [0..<32]) in
      if drop_bit tz w = mask (32 - tz) then Some (32 - tz) else None)"

text \<open>A prefix length, a netmask, or a host mask.\<close>

definition parse_netmask4 :: "string \<Rightarrow> nat option" where
  "parse_netmask4 s =
     (case parse_prefix 32 s of
        Some p \<Rightarrow> Some p
      | None \<Rightarrow>
          (case parse_ipv4 s of
             None \<Rightarrow> None
           | Some w \<Rightarrow> (case mask_length w of Some p \<Rightarrow> Some p | None \<Rightarrow> mask_length (NOT w))))"

definition ipv4_network :: "string \<Rightarrow> string option \<Rightarrow> network option" where
  "ipv4_network a m =
     (case parse_ipv4 a of
        None \<Rightarrow> None
      | Some w \<Rightarrow> map_option (\<lambda>p. Net4 (w AND prefix_mask p) p)
          (case m of None \<Rightarrow> Some 32 | Some t \<Rightarrow> parse_netmask4 t))"

text \<open>Masking host bits away makes a new address, which has no scope.\<close>

definition ipv6_network :: "string \<Rightarrow> string option \<Rightarrow> network option" where
  "ipv6_network a m =
     (case parse_ipv6 a of
        None \<Rightarrow> None
      | Some (w, sc) \<Rightarrow>
          map_option (\<lambda>p. if w AND prefix_mask p \<noteq> w then Net6 (w AND prefix_mask p) None p
                          else Net6 w sc p)
            (case m of None \<Rightarrow> Some 128 | Some t \<Rightarrow> parse_prefix 128 t))"

definition ip_network :: "string \<Rightarrow> network option" where
  "ip_network s =
     (let go = (\<lambda>a m. case ipv4_network a m of Some n \<Rightarrow> Some n | None \<Rightarrow> ipv6_network a m) in
      case split_on ''/'' s of [a] \<Rightarrow> go a None | [a, m] \<Rightarrow> go a (Some m) | _ \<Rightarrow> None)"

fun in_network :: "address \<Rightarrow> network \<Rightarrow> bool" where
  "in_network (V4 a) (Net4 n p) = (a AND prefix_mask p = n)"
| "in_network (V6 a sc) (Net6 n sc' p) = (a AND prefix_mask p = n)"
| "in_network _ _ = False"

section \<open>Printing\<close>

definition octets :: "32 word \<Rightarrow> nat list" where
  "octets w = map (\<lambda>i. unat (drop_bit (8 * i) w AND 0xFF)) [3, 2, 1, 0]"

definition show_ipv4 :: "32 word \<Rightarrow> string" where
  "show_ipv4 w = join ''.'' (map show_nat (octets w))"

text \<open>The start and the length of the first longest run of zero hextets.\<close>

fun longest_zeros :: "nat \<Rightarrow> nat \<times> nat \<Rightarrow> nat \<times> nat \<Rightarrow> string list \<Rightarrow> nat \<times> nat" where
  "longest_zeros i best cur [] = best"
| "longest_zeros i (bs, bl) (cs, cl) (h # hs) =
     (if h = ''0'' then
        (let cs' = (if cl = 0 then i else cs) in
         longest_zeros (i + 1) (if bl < cl + 1 then (cs', cl + 1) else (bs, bl)) (cs', cl + 1) hs)
      else longest_zeros (i + 1) (bs, bl) (0, 0) hs)"

definition compress_hextets :: "string list \<Rightarrow> string list" where
  "compress_hextets hs =
     (let (st, ln) = longest_zeros 0 (0, 0) (0, 0) hs in
      if 1 < ln then
        (let padded = (if st + ln = length hs then hs @ [[]] else hs);
             cut = take st padded @ [[]] @ drop (st + ln) padded in
         if st = 0 then [] # cut else cut)
      else hs)"

definition show_ipv6 :: "128 word \<Rightarrow> string" where
  "show_ipv6 w =
     join '':'' (compress_hextets
       (map (\<lambda>i. show_hex (unat (drop_bit (16 * i) w AND 0xFFFF))) [7, 6, 5, 4, 3, 2, 1, 0]))"

fun show_network :: "network \<Rightarrow> string" where
  "show_network (Net4 n p) = show_ipv4 n @ ''/'' @ show_nat p"
| "show_network (Net6 n sc p) =
     show_ipv6 n @ (case sc of None \<Rightarrow> [] | Some t \<Rightarrow> CHR ''%'' # t) @ ''/'' @ show_nat p"

section \<open>Membership\<close>

lemma bit_prefix_mask: "bit (prefix_mask p :: 'a::len word) i \<longleftrightarrow> i < LENGTH('a) \<and> LENGTH('a) \<le> i + p"
  by (auto simp: prefix_mask_def bit_simps)

lemma masked_eq_iff:
  fixes a b :: "'a::len word"
  assumes "p \<le> LENGTH('a)"
  shows "a AND prefix_mask p = b AND prefix_mask p
    \<longleftrightarrow> drop_bit (LENGTH('a) - p) a = drop_bit (LENGTH('a) - p) b"
proof
  assume eq: "a AND prefix_mask p = b AND prefix_mask p"
  show "drop_bit (LENGTH('a) - p) a = drop_bit (LENGTH('a) - p) b"
  proof (rule bit_word_eqI)
    fix n
    have "bit (a AND prefix_mask p) (LENGTH('a) - p + n) = bit (b AND prefix_mask p) (LENGTH('a) - p + n)"
      by (simp add: eq)
    then show "bit (drop_bit (LENGTH('a) - p) a) n = bit (drop_bit (LENGTH('a) - p) b) n"
      using assms by (auto simp: bit_simps bit_prefix_mask dest: bit_imp_le_length)
  qed
next
  assume eq: "drop_bit (LENGTH('a) - p) a = drop_bit (LENGTH('a) - p) b"
  have "bit a n = bit b n" if "LENGTH('a) \<le> n + p" for n
  proof -
    have "n = LENGTH('a) - p + (n + p - LENGTH('a))"
      using that assms by simp
    then show ?thesis
      using arg_cong [OF eq, of "\<lambda>w. bit w (n + p - LENGTH('a))"] by (simp add: bit_drop_bit_eq)
  qed
  then show "a AND prefix_mask p = b AND prefix_mask p"
    by (intro bit_word_eqI) (auto simp: bit_simps bit_prefix_mask)
qed

section \<open>What parses\<close>

lemma parse_octet_digits: "parse_octet s = Some n \<Longrightarrow> list_all is_digit s"
  by (auto simp: parse_octet_def split: if_splits)

lemma digit_char: "is_digit c \<Longrightarrow> c \<noteq> CHR ''.'' \<and> c \<noteq> CHR '':'' \<and> c \<noteq> CHR ''/'' \<and> c \<noteq> CHR ''%''"
  by (auto simp: is_digit_def)

lemma parse_ipv4_chars:
  assumes "parse_ipv4 s = Some w" and "c \<in> set s"
  shows "is_digit c \<or> c = CHR ''.''"
proof -
  have "\<forall>p \<in> set (split_on ''.'' s). parse_octet p \<noteq> None"
    using assms(1) by (auto simp: parse_ipv4_def map_eq_Cons_conv split: list.splits option.splits)
  then have "list_all is_digit p" if "p \<in> set (split_on ''.'' s)" for p
    using that parse_octet_digits by blast
  moreover have "c \<in> set ''.'' \<union> \<Union> (set ` set (split_on ''.'' s))"
    using assms(2) set_join [of "''.''" "split_on ''.'' s"] by (auto simp: join_split_on)
  ultimately show ?thesis by (auto simp: list_all_iff)
qed

lemma parse_ipv4_not_v6:
  assumes "parse_ipv4 s = Some w"
  shows "parse_ipv6 s = None"
proof -
  have no: "CHR '':'' \<notin> set s" "CHR ''%'' \<notin> set s"
    using parse_ipv4_chars [OF assms] by (auto dest: digit_char)
  then have "split_at (\<lambda>c. c = CHR ''%'') s = (s, None)"
    by (intro split_at_none) auto
  then show ?thesis
    using no by (simp add: parse_ipv6_def parse_v6_int_def colon_parts_def split_on_nomem)
qed

lemma ip_address_no_slash: "ip_address s = Some x \<Longrightarrow> CHR ''/'' \<notin> set s"
  by (auto simp: ip_address_def parse_ipv6_def dest: parse_ipv4_chars digit_char
      split: option.splits if_splits)

text \<open>
  An address is in the network written behind it: whatever prefix length or netmask follows
  the slash, if Python accepts the text as a network, the address in front of the slash is in it.
\<close>

theorem cidr_contains_its_address:
  assumes "ip_address a = Some x" and "ip_network (a @ ''/'' @ m) = Some n"
  shows "in_network x n"
proof -
  obtain rest where s: "split_on ''/'' (a @ ''/'' @ m) = a # rest"
    using split_on_first [OF ip_address_no_slash [OF assms(1)], of m] by simp
  then obtain t where t: "ipv4_network a t = Some n \<or> ipv4_network a t = None \<and> ipv6_network a t = Some n"
    using assms(2) by (auto simp: ip_network_def Let_def split: list.splits option.splits)
  show ?thesis
  proof (cases "parse_ipv4 a")
    case (Some w)
    then have "x = V4 w" and "ipv6_network a t = None"
      using assms(1) parse_ipv4_not_v6 by (auto simp: ip_address_def ipv6_network_def)
    with t Some show ?thesis by (auto simp: ipv4_network_def and.assoc)
  next
    case None
    then show ?thesis
      using assms(1) t by (auto simp: ip_address_def ipv4_network_def ipv6_network_def and.assoc split: if_splits)
  qed
qed

text \<open>An instance: a netmask written as an address.\<close>

lemma split_cidr: "split_on ''/'' ''10.1.2.3/255.255.0.0'' = [''10.1.2.3'', ''255.255.0.0'']"
  by code_simp

theorem cidr_contains_its_address_witness:
  "in_network (V4 0x0A010203) (Net4 0x0A010000 16)"
proof -
  have "ip_address ''10.1.2.3'' = Some (V4 0x0A010203)" by code_simp
  moreover have "ip_network (''10.1.2.3'' @ ''/'' @ ''255.255.0.0'') = Some (Net4 0x0A010000 16)"
    by code_simp
  ultimately show ?thesis by (rule cidr_contains_its_address)
qed


section \<open>A network is a prefix\<close>

lemma parse_prefix_le: "parse_prefix k s = Some p \<Longrightarrow> p \<le> k"
  by (auto simp: parse_prefix_def split: if_splits)

lemma mask_length_le: "mask_length w = Some p \<Longrightarrow> p \<le> 32"
  by (auto simp: mask_length_def Let_def split: if_splits)

lemma parse_netmask4_le: "parse_netmask4 s = Some p \<Longrightarrow> p \<le> 32"
  by (auto simp: parse_netmask4_def split: option.splits dest: parse_prefix_le mask_length_le)

lemma and_prefix_idem: "w AND prefix_mask p AND prefix_mask p = w AND prefix_mask p"
  by (simp add: and.assoc)

lemma ipv4_network_canonical:
  "ipv4_network a m = Some n \<Longrightarrow> \<exists>w p. n = Net4 (w AND prefix_mask p) p \<and> p \<le> 32"
  by (auto simp: ipv4_network_def split: option.splits dest: parse_netmask4_le)

lemma ipv6_network_canonical:
  "ipv6_network a m = Some n \<Longrightarrow> \<exists>w sc p. n = Net6 (w AND prefix_mask p) sc p \<and> p \<le> 128"
  by (fastforce simp: ipv6_network_def split: option.splits dest: parse_prefix_le)

lemma ip_network_cases:
  assumes "ip_network s = Some n"
  obtains w p where "n = Net4 (w AND prefix_mask p) p" and "p \<le> 32"
  | w sc p where "n = Net6 (w AND prefix_mask p) sc p" and "p \<le> 128"
  using assms
  by (auto simp: ip_network_def Let_def split: list.splits option.splits
      dest!: ipv4_network_canonical ipv6_network_canonical)

text \<open>
  A network holds exactly the addresses of its own family that agree with it on its prefix,
  the leading bits of the prefix length; the host bits do not count.
\<close>

theorem membership_is_the_prefix:
  assumes "ip_network s = Some n"
  shows "in_network x n \<longleftrightarrow>
    (case (x, n) of
       (V4 a, Net4 b p) \<Rightarrow> drop_bit (32 - p) a = drop_bit (32 - p) b
     | (V6 a sc, Net6 b sc' p) \<Rightarrow> drop_bit (128 - p) a = drop_bit (128 - p) b
     | _ \<Rightarrow> False)"
  using assms
proof (cases rule: ip_network_cases)
  case (1 w p)
  then show ?thesis
    using masked_eq_iff [of p "w AND prefix_mask p"] masked_eq_iff [of p _ "w AND prefix_mask p"]
    by (cases x) (simp_all add: and_prefix_idem)
next
  case (2 w sc p)
  then show ?thesis
    using masked_eq_iff [of p "w AND prefix_mask p"] masked_eq_iff [of p _ "w AND prefix_mask p"]
    by (cases x) (simp_all add: and_prefix_idem)
qed

theorem membership_is_the_prefix_witness:
  "in_network (V4 0x0A0102FF) (Net4 0x0A010200 24) \<longleftrightarrow> drop_bit 8 (0x0A0102FF :: 32 word) = drop_bit 8 0x0A010200"
proof -
  have "ip_network ''10.1.2.3/24'' = Some (Net4 0x0A010200 24)" by code_simp
  from membership_is_the_prefix [OF this, of "V4 0x0A0102FF"] show ?thesis by simp
qed

section \<open>Printed addresses\<close>

lemma hd_show_nat: "0 < n \<Longrightarrow> hd (show_nat n) \<noteq> CHR ''0''"
proof (induction n rule: show_nat.induct)
  case (1 n)
  show ?case
  proof (cases "n < 10")
    case True
    have "digit n \<noteq> digit 0"
      using True 1(2) digit_inject [of n 0] by simp
    moreover have "digit 0 = CHR ''0''" by code_simp
    ultimately show ?thesis using True by (simp add: show_nat.simps [of n])
  next
    case False
    with 1 show ?thesis by (simp add: show_nat.simps [of n] hd_append)
  qed
qed

lemma show_nat_0: "show_nat 0 = ''0''"
  by code_simp

lemma length_show_nat: "n < 1000 \<Longrightarrow> length (show_nat n) \<le> 3"
  by (subst show_nat.simps, subst show_nat.simps, subst show_nat.simps) auto

lemma parse_octet_show_nat: "n < 256 \<Longrightarrow> parse_octet (show_nat n) = Some n"
  using hd_show_nat [of n] length_show_nat [of n]
  by (cases "n = 0") (auto simp: parse_octet_def show_nat_0 is_digit_def digit_value_def)

lemma dot_notin_show_nat: "CHR ''.'' \<notin> set (show_nat n)"
  using list_all_show_nat [of n] by (auto simp: list_all_iff dest: digit_char)

lemma split_dots:
  "split_on ''.'' (join ''.'' [show_nat a, show_nat b, show_nat c, show_nat d])
     = [show_nat a, show_nat b, show_nat c, show_nat d]"
  by (simp add: split_on_first split_on_nomem dot_notin_show_nat)

lemma octets_less: "n \<in> set (octets w) \<Longrightarrow> n < 256"
proof -
  have "unat (v AND 0xFF) < 256" for v :: "32 word"
    using word_and_le1 [of v "0xFF"] by (simp add: word_le_nat_alt)
  then show "n \<in> set (octets w) \<Longrightarrow> n < 256"
    by (auto simp: octets_def)
qed

lemma octet_word: "of_nat (unat (v AND 0xFF)) = (v AND mask 8 :: 32 word)"
  by (simp add: mask_eq_exp_minus_1)

lemma word_octet_split:
  "push_bit 8 (drop_bit (8 + k) w) OR (drop_bit k w AND mask 8) = drop_bit k (w :: 32 word)"
proof (rule bit_word_eqI)
  fix i
  assume i: "i < LENGTH(32)"
  show "bit (push_bit 8 (drop_bit (8 + k) w) OR (drop_bit k w AND mask 8)) i = bit (drop_bit k w) i"
  proof (cases "i < 8")
    case True
    then show ?thesis by (simp add: bit_simps)
  next
    case False
    then have "8 + k + (i - 8) = k + i" by simp
    with False i show ?thesis by (simp add: bit_simps)
  qed
qed

lemma octets_recompose: "foldl (\<lambda>v n. push_bit 8 v OR of_nat n) (0 :: 32 word) (octets w) = w"
proof -
  have top: "drop_bit (8 + 24) w = 0"
    by (rule bit_word_eqI) (simp add: bit_simps)
  have "foldl (\<lambda>v n. push_bit 8 v OR of_nat n) 0 (octets w)
      = push_bit 8 (push_bit 8 (push_bit 8 (push_bit 8 (drop_bit (8 + 24) w) OR (drop_bit 24 w AND mask 8))
          OR (drop_bit 16 w AND mask 8)) OR (drop_bit 8 w AND mask 8)) OR (drop_bit 0 w AND mask 8)"
    unfolding top by (simp only: octets_def list.map foldl.simps octet_word, simp)
  also have "\<dots> = drop_bit 0 w"
    using word_octet_split [of 24 w] word_octet_split [of 16 w] word_octet_split [of 8 w]
      word_octet_split [of 0 w] by simp
  finally show ?thesis by simp
qed

text \<open>
  An IPv4 address survives printing and parsing: the text the model prints for any 32-bit
  address is read back as that address.
\<close>

theorem ipv4_roundtrip: "ip_address (show_ipv4 w) = Some (V4 w)"
proof -
  obtain a b c d where o: "octets w = [a, b, c, d]" by (simp add: octets_def)
  then have "a < 256" "b < 256" "c < 256" "d < 256"
    using octets_less [of _ w] by auto
  then have "parse_ipv4 (show_ipv4 w) = Some (foldl (\<lambda>v n. push_bit 8 v OR of_nat n) (0 :: 32 word) (octets w))"
    by (simp add: parse_ipv4_def show_ipv4_def o split_dots parse_octet_show_nat del: join.simps)
  then show ?thesis by (simp add: ip_address_def octets_recompose)
qed


end
