(* ===== verification/Storage_Nics.thy ===== *)
theory Storage_Nics
  imports Ip_Network
begin

text \<open>
  Which interfaces of a host carry storage traffic, and whether a host is ready to join:
  the pure functions of \<^verbatim>\<open>connectors/base.py\<close> over discovered interfaces. An interface is the dict of
  strings \<^verbatim>\<open>runner.discover_interfaces\<close> returns, with its network under \<^verbatim>\<open>cidr\<close>.
\<close>

type_synonym nic = "(string \<times> string) list"

section \<open>Subnets\<close>

definition parse_portals :: "string list \<Rightarrow> address list" where
  "parse_portals ips = List.map_filter ip_address ips"

definition nic_network :: "nic \<Rightarrow> network option" where
  "nic_network nic = (case nonempty (map_of nic ''cidr'') of None \<Rightarrow> None | Some c \<Rightarrow> ip_network c)"

definition reaches :: "address list \<Rightarrow> nic \<Rightarrow> bool" where
  "reaches portals nic =
     (case nic_network nic of None \<Rightarrow> False | Some n \<Rightarrow> \<exists>ip \<in> set portals. in_network ip n)"

definition nics_on_array_subnets :: "nic list \<Rightarrow> string list \<Rightarrow> nic list" where
  "nics_on_array_subnets nics portal_ips =
     (let portals = parse_portals portal_ips in
      if portals = [] then nics
      else let matched = filter (reaches portals) nics in
        if matched = [] then nics else matched)"

definition node_networks :: "nic list \<Rightarrow> network set" where
  "node_networks nics = set (List.map_filter nic_network nics)"

definition nics_on_common_subnets :: "nic list \<Rightarrow> (string \<times> nic list) list \<Rightarrow> nic list" where
  "nics_on_common_subnets host_nics per_node =
     (let subnet_sets = map (node_networks \<circ> snd) per_node in
      if length subnet_sets \<le> 1 \<or> {} \<in> set subnet_sets then host_nics
      else let common = \<Inter> (set subnet_sets) in
        if common = {} then host_nics
        else let matched = filter (\<lambda>nic. case nic_network nic of None \<Rightarrow> False | Some n \<Rightarrow> n \<in> common) host_nics in
          if matched = [] then host_nics else matched)"

section \<open>Uniform interfaces across a cluster\<close>

text \<open>\<^verbatim>\<open>repr\<close> of a list of strings.\<close>

definition repr_list :: "string list \<Rightarrow> string" where
  "repr_list xs = ''['' @ join '', '' (map py_repr xs) @ '']''"

definition compare_node_interfaces :: "(string \<times> string list) list \<Rightarrow> bool \<times> string" where
  "compare_node_interfaces per_node =
     (if length per_node \<le> 1 then (True, ''single node'')
      else
        let sets = map (set \<circ> snd) per_node;
            common = \<Inter> (set sets);
            extra = \<Union> (set sets) - common in
        if extra = {} then
          (True, ''all '' @ show_nat (length per_node) @ '' nodes share '' @ repr_list (sorted_list_of_set common))
        else
          (False, ''interfaces differ across nodes -> ''
             @ join ''; '' (map (\<lambda>(n, v). n @ '': '' @ repr_list (sorted_list_of_set (set v))) per_node)))"

section \<open>Readiness of a candidate host\<close>

definition nvme_protocols :: "string list" where
  "nvme_protocols = [''nvme-tcp'', ''nvme-fc'', ''nvme-roce'']"

text \<open>\<^verbatim>\<open>(protocol or "iscsi").lower()\<close>\<close>

definition protocol_name :: "string \<Rightarrow> string" where
  "protocol_name p = lower (if p = [] then ''iscsi'' else p)"

text \<open>The reason an initiator is missing. \<^verbatim>\<open>(initiators or {}).get(k)\<close>\<close>

definition initiator_reasons :: "string \<Rightarrow> dict \<Rightarrow> string list" where
  "initiator_reasons proto inits =
     (let has = (\<lambda>k. truthy (dict_get inits k JNull)) in
      if proto \<in> set nvme_protocols then
        (if has ''nqn'' then [] else [''no NVMe NQN discovered on the host''])
      else if proto = ''fc'' \<or> proto = ''nvme-fc'' then
        (if has ''wwns'' then [] else [''no FC WWNs discovered on the host''])
      else (if has ''iqn'' then [] else [''no iSCSI IQN discovered on the host'']))"

text \<open>The subnets, as texts, of the interfaces that reach a portal.\<close>

definition matched_subnets :: "nic list \<Rightarrow> string list \<Rightarrow> string set" where
  "matched_subnets nics portals =
     set (map show_network (List.map_filter nic_network (filter (reaches (parse_portals portals)) nics)))"

definition subnet_reasons :: "nic list \<Rightarrow> string list \<Rightarrow> string set option \<Rightarrow> string list" where
  "subnet_reasons nics portals baseline =
     (let matched = matched_subnets nics portals in
      if matched = {} then [''no storage NIC on the array''@ [CHR 0x27] @ ''s portal subnet'']
      else case baseline of
        None \<Rightarrow> []
      | Some b \<Rightarrow> if b \<noteq> {} \<and> matched \<inter> b = {}
          then [''storage NIC subnet doesn'' @ [CHR 0x27] @ ''t match existing nodes''] else [])"

definition score_host_readiness ::
  "string \<Rightarrow> bool \<Rightarrow> dict \<Rightarrow> nic list \<Rightarrow> string list \<Rightarrow> string set option \<Rightarrow> bool \<times> string list" where
  "score_host_readiness protocol reachable inits nics portals baseline =
     (if \<not> reachable then (False, [''host unreachable over SSH''])
      else
        let proto = protocol_name protocol;
            reasons = initiator_reasons proto inits
              @ (if (proto = ''iscsi'' \<or> proto = ''nvme-tcp'') \<and> portals \<noteq> []
                 then subnet_reasons nics portals baseline else [])
        in (reasons = [], reasons))"

section \<open>What the selection keeps\<close>

text \<open>
  Restricting the interfaces to the array's subnets keeps an interface exactly when one of the
  array's portals is in its network, in their order, unless no portal is known or none matches:
  then every interface is kept, so that the choice is never empty.
\<close>

theorem array_subnet_selection:
  "nics_on_array_subnets nics ips =
     (let good = filter (\<lambda>nic. \<exists>ip \<in> set ips. \<exists>x n. ip_address ip = Some x \<and>
        nic_network nic = Some n \<and> in_network x n) nics
      in if good = [] then nics else good)"
proof -
  have r: "reaches (parse_portals ips) nic \<longleftrightarrow> (\<exists>ip \<in> set ips. \<exists>x n. ip_address ip = Some x \<and>
        nic_network nic = Some n \<and> in_network x n)" for nic
    by (fastforce simp: reaches_def parse_portals_def List.map_filter_def split: option.splits)
  have "\<not> reaches [] nic" for nic
    by (simp add: reaches_def split: option.splits)
  then have "filter (reaches []) nics = []" by simp
  moreover have "filter (reaches (parse_portals ips)) nics = filter (\<lambda>nic. \<exists>ip \<in> set ips. \<exists>x n.
      ip_address ip = Some x \<and> nic_network nic = Some n \<and> in_network x n) nics"
    by (rule filter_cong [OF refl r])
  ultimately show ?thesis
    by (simp only: nics_on_array_subnets_def Let_def) (metis (full_types))
qed

text \<open>
  With two or more nodes that all report a subnet, and a candidate on a subnet common to all,
  the selection keeps exactly the candidates whose network every node of the cluster has.
\<close>

theorem common_subnet_selection:
  assumes "2 \<le> length per_node" and "\<forall>(node, nics) \<in> set per_node. node_networks nics \<noteq> {}"
    and "nic \<in> set host_nics" and "nic_network nic = Some n"
    and "\<forall>(node, nics) \<in> set per_node. n \<in> node_networks nics"
  shows "nics_on_common_subnets host_nics per_node =
    filter (\<lambda>c. \<exists>m. nic_network c = Some m \<and> (\<forall>(node, nics) \<in> set per_node. m \<in> node_networks nics)) host_nics"
proof -
  define common where "common = \<Inter> (set (map (node_networks \<circ> snd) per_node))"
  have mem: "m \<in> common \<longleftrightarrow> (\<forall>(node, nics) \<in> set per_node. m \<in> node_networks nics)" for m
    by (auto simp: common_def)
  have keep: "(case nic_network c of None \<Rightarrow> False | Some m \<Rightarrow> m \<in> common) \<longleftrightarrow>
      (\<exists>m. nic_network c = Some m \<and> (\<forall>(node, nics) \<in> set per_node. m \<in> node_networks nics))" for c
    by (auto simp: mem split: option.splits)
  have n: "n \<in> common" using assms(5) by (simp add: mem)
  moreover have "\<not> length per_node \<le> 1" "{} \<notin> set (map (node_networks \<circ> snd) per_node)"
    using assms(1,2) by auto
  moreover have "filter (\<lambda>c. case nic_network c of None \<Rightarrow> False | Some m \<Rightarrow> m \<in> common) host_nics \<noteq> []"
    unfolding filter_empty_conv using assms(3,4) n by (auto intro!: bexI [of _ nic])
  ultimately show ?thesis
    unfolding nics_on_common_subnets_def common_def [symmetric] Let_def
    by (auto simp: keep cong: filter_cong)
qed

definition nic_a :: nic where "nic_a = [(''value'', ''e1''), (''cidr'', ''10.0.0.1/24'')]"
definition nic_b :: nic where "nic_b = [(''value'', ''e2''), (''cidr'', ''192.168.1.1/24'')]"
definition nic_c :: nic where "nic_c = [(''value'', ''e1''), (''cidr'', ''10.0.0.2/24'')]"

lemma demo_nic_networks:
  "nic_network nic_a = Some (Net4 0x0A000000 24)" "nic_network nic_b = Some (Net4 0xC0A80100 24)"
  "nic_network nic_c = Some (Net4 0x0A000000 24)"
  by code_simp+

theorem common_subnet_selection_witness:
  "nics_on_common_subnets [nic_a, nic_b] [(''n1'', [nic_a, nic_b]), (''n2'', [nic_c])] = [nic_a]"
proof -
  have nn: "node_networks [nic_a, nic_b] = {Net4 0x0A000000 24, Net4 0xC0A80100 24}"
    "node_networks [nic_c] = {Net4 0x0A000000 24}"
    by (simp_all add: node_networks_def List.map_filter_def demo_nic_networks)
  from common_subnet_selection [of "[(''n1'', [nic_a, nic_b]), (''n2'', [nic_c])]" nic_a "[nic_a, nic_b]",
      OF _ _ _ demo_nic_networks(1)]
  show ?thesis by (simp add: nn demo_nic_networks)
qed

text \<open>
  A cluster is reported uniform exactly when every two of its nodes expose the same set of
  interfaces.
\<close>

theorem uniform_iff_same_interfaces:
  "fst (compare_node_interfaces per_node) \<longleftrightarrow> (\<exists>I. (set \<circ> snd) ` set per_node \<subseteq> {I})"
proof (cases "length per_node \<le> 1")
  case True
  then show ?thesis
    by (cases per_node) (auto simp: compare_node_interfaces_def)
next
  case False
  define S where "S = (set \<circ> snd) ` set per_node"
  obtain I where I: "I \<in> S" using False by (cases per_node) (auto simp: S_def)
  have "\<Union> S - \<Inter> S = {} \<longleftrightarrow> (\<exists>I. S \<subseteq> {I})"
  proof
    assume "\<Union> S - \<Inter> S = {}"
    then have "J = I" if "J \<in> S" for J using that I by blast
    then show "\<exists>I. S \<subseteq> {I}" by blast
  next
    assume "\<exists>I. S \<subseteq> {I}"
    then show "\<Union> S - \<Inter> S = {}" by blast
  qed
  then show ?thesis
    using False by (simp add: compare_node_interfaces_def Let_def S_def)
qed

text \<open>
  A host is declared ready exactly when there is nothing to hold against it: it is reachable,
  the initiator its protocol needs was found, and, for the two protocols that run over IP with
  known portals, one of its interfaces reaches a portal on a subnet of the baseline, if there is one.
\<close>

theorem ready_iff:
  "fst (score_host_readiness protocol reachable inits nics portals baseline) \<longleftrightarrow>
     (let proto = protocol_name protocol;
          key = (if proto \<in> {''nvme-tcp'', ''nvme-fc'', ''nvme-roce''} then ''nqn''
                 else if proto = ''fc'' then ''wwns'' else ''iqn'');
          matched = matched_subnets nics portals
      in reachable \<and> truthy (dict_get inits key JNull) \<and>
         (if (proto = ''iscsi'' \<or> proto = ''nvme-tcp'') \<and> portals \<noteq> []
          then matched \<noteq> {} \<and> (case baseline of None \<Rightarrow> True | Some b \<Rightarrow> if b = {} then True else matched \<inter> b \<noteq> {})
          else True))"
  by (auto simp: score_host_readiness_def initiator_reasons_def subnet_reasons_def nvme_protocols_def Let_def
      split: option.splits)

end
