(* ===== verification/Host_Commands.thy ===== *)
theory Host_Commands
  imports Vm_Spec Actions
begin

text \<open>
  The shell a connector runs on the hosts: \<^verbatim>\<open>connectors/iscsi_net.py\<close> (the ARP settings of the
  storage interfaces, as a file body and as a command) and \<^verbatim>\<open>connectors/multipath.py\<close> (flushing and
  rebuilding multipath maps around a rescan). The runner the commands are handed to is the
  parameter \<open>run\<close>, an action of the command and its time limit.
\<close>

section \<open>ARP settings\<close>

definition ARP_SYSCTL_FILE :: string where
  "ARP_SYSCTL_FILE = ''/etc/sysctl.d/99-phif-iscsi-arp.conf''"

definition is_alnum :: "char \<Rightarrow> bool" where
  "is_alnum c = (let n = of_char c :: nat in
     (48 \<le> n \<and> n \<le> 57) \<or> (65 \<le> n \<and> n \<le> 90) \<or> (97 \<le> n \<and> n \<le> 122))"

definition nic_char :: "char \<Rightarrow> bool" where
  "nic_char c \<longleftrightarrow> is_alnum c \<or> c \<in> set ''._:-''"

text \<open>\<^verbatim>\<open>_NIC_RE.match\<close>: the pattern's dollar also matches before a final newline.\<close>

definition nic_re_matches :: "string \<Rightarrow> bool" where
  "nic_re_matches s =
     (let t = (if s \<noteq> [] \<and> last s = CHR 0x0A then butlast s else s) in t \<noteq> [] \<and> list_all nic_char t)"

fun clean_onto :: "string list \<Rightarrow> string option list \<Rightarrow> string list" where
  "clean_onto out [] = out"
| "clean_onto out (x # xs) =
     (let n = strip (case x of None \<Rightarrow> [] | Some s \<Rightarrow> s) in
      if n \<noteq> [] \<and> nic_re_matches n \<and> n \<notin> set out then clean_onto (out @ [n]) xs
      else clean_onto out xs)"

definition clean_nics :: "string option list option \<Rightarrow> string list" where
  "clean_nics names = clean_onto [] (case names of None \<Rightarrow> [] | Some xs \<Rightarrow> xs)"

definition arp_sysctl_lines :: "string list \<Rightarrow> string list" where
  "arp_sysctl_lines clean =
     ''# Managed by PHIF: multi-NIC iSCSI ARP-flux prevention (arp_ignore=2, arp_announce=2)''
     # concat (map (\<lambda>nic. [''net.ipv4.conf.'' @ nic @ ''.arp_ignore = 2'',
                            ''net.ipv4.conf.'' @ nic @ ''.arp_announce = 2'']) clean)"

definition newline :: string where
  "newline = [CHR 0x0A]"

definition arp_sysctl_content :: "string option list option \<Rightarrow> string" where
  "arp_sysctl_content names =
     (let clean = clean_nics names in
      if clean = [] then [] else join newline (arp_sysctl_lines clean) @ newline)"

text \<open>\<^verbatim>\<open>shlex.quote\<close> of the standard library.\<close>

definition shell_safe :: "char \<Rightarrow> bool" where
  "shell_safe c \<longleftrightarrow> is_alnum c \<or> c \<in> set ''_@%+=:,./-''"

definition quote_char :: char where
  "quote_char = CHR 0x27"

definition shlex_quote :: "string \<Rightarrow> string" where
  "shlex_quote s =
     (if s = [] then [quote_char, quote_char]
      else if list_all shell_safe s then s
      else [quote_char]
        @ replace_str [quote_char] [quote_char, CHR 0x22, quote_char, CHR 0x22, quote_char] s
        @ [quote_char])"

definition arp_flux_cmd :: "string option list option \<Rightarrow> string" where
  "arp_flux_cmd names =
     (let clean = clean_nics names in
      if clean = [] then ''true''
      else
        let setvals = concat (map (\<lambda>nic. [''net.ipv4.conf.'' @ nic @ ''.arp_ignore=2'',
                                           ''net.ipv4.conf.'' @ nic @ ''.arp_announce=2'']) clean);
            persist = ''printf '' @ [quote_char] @ ''%s'' @ [CHR 0x5C] @ ''n'' @ [quote_char] @ '' ''
              @ join '' '' (map shlex_quote (arp_sysctl_lines clean)) @ '' > '' @ ARP_SYSCTL_FILE;
            live = ''sysctl -w '' @ join '' '' (map shlex_quote setvals) @ '' 2>/dev/null || true''
        in persist @ ''; '' @ live)"

section \<open>Multipath maps\<close>

definition wwids_for :: "string list \<Rightarrow> string list" where
  "wwids_for serials = map scsi_wwid (filter (\<lambda>s. s \<noteq> []) serials)"

definition flush_map :: "string \<Rightarrow> string" where
  "flush_map w = ''multipath -f '' @ w @ '' 2>/dev/null || true''"

definition await_map :: "string \<Rightarrow> string" where
  "await_map w =
     ''for i in $(seq 1 20); do [ -e /dev/mapper/'' @ w
     @ '' ] && break; multipath -r >/dev/null 2>&1; sleep 1; done''"

definition rescan_command :: "string \<Rightarrow> string" where
  "rescan_command proto =
     (if proto = ''nvme-tcp'' then ''nvme connect-all''
      else if proto = ''iscsi'' then ''iscsiadm -m session --rescan''
      else ''for h in /sys/class/scsi_host/host*/scan; do echo '' @ [quote_char] @ ''- - -''
        @ [quote_char] @ '' > $h; done'')"

definition refresh_block_devices ::
  "(string \<Rightarrow> nat \<Rightarrow> ('s, unit) action) \<Rightarrow> string \<Rightarrow> string list \<Rightarrow> ('s, unit) action" where
  "refresh_block_devices run protocol wwids =
     (let proto = lower (if protocol = [] then ''iscsi'' else protocol);
          is_nvme = proto \<in> {''nvme-tcp'', ''nvme-fc'', ''nvme-roce''}
      in steps [
        provided (\<not> is_nvme) (foreach wwids (\<lambda>w. run (flush_map w) 30)),
        run (rescan_command proto) 60,
        provided (\<not> is_nvme) (steps [
          run ''multipath -r || true'' 60,
          foreach wwids (\<lambda>w. run (await_map w) 40)])])"

section \<open>Interface names\<close>

lemma clean_onto_mem:
  "n \<in> set (clean_onto out xs) \<longleftrightarrow>
     n \<in> set out \<or> n \<noteq> [] \<and> nic_re_matches n \<and> (\<exists>x \<in> set xs. n = strip (case x of None \<Rightarrow> [] | Some s \<Rightarrow> s))"
proof (induction xs arbitrary: out)
  case (Cons x xs)
  show ?case
    by (cases "strip (case x of None \<Rightarrow> [] | Some s \<Rightarrow> s) = n") (auto simp: Let_def Cons.IH simp del: split_paired_All)
qed simp

lemma distinct_clean_onto: "distinct out \<Longrightarrow> distinct (clean_onto out xs)"
  by (induction xs arbitrary: out) (simp_all add: Let_def)

lemma strip_last: "strip s = s \<Longrightarrow> s \<noteq> [] \<Longrightarrow> \<not> is_space (last s)"
  by (metis strip_def rstrip_fixed_iff rstrip_rstrip)

lemma clean_nic_chars:
  assumes "n \<in> set (clean_nics names)"
  shows "n \<noteq> [] \<and> list_all nic_char n"
proof -
  obtain x where n: "n \<noteq> []" "nic_re_matches n" "n = strip x"
    using assms by (auto simp: clean_nics_def clean_onto_mem)
  then have "last n \<noteq> CHR 0x0A"
    using strip_last [of n] by (auto simp: is_space_def)
  with n(1,2) show ?thesis by (simp add: nic_re_matches_def)
qed

lemma distinct_clean_nics: "distinct (clean_nics names)"
  by (simp add: clean_nics_def distinct_clean_onto)

text \<open>What the shell does with a word: the reading of single and double quotes.\<close>

lemma split_at_shorter: "split_at p s = (a, Some b) \<Longrightarrow> length b < length s"
  using length_dropWhile_le [of "\<lambda>c. \<not> p c" s]
  by (auto simp: split_at_def split: list.splits)

function unquote :: "string \<Rightarrow> string option" where
  "unquote [] = Some []"
| "unquote (c # cs) =
     (if c = CHR 0x27 \<or> c = CHR 0x22 then
        (case split_at (\<lambda>d. d = c) cs of
           (a, Some b) \<Rightarrow> map_option (append a) (unquote b)
         | (a, None) \<Rightarrow> None)
      else if shell_safe c then map_option (Cons c) (unquote cs) else None)"
  by pat_completeness auto
termination
  by (relation "measure length") (auto dest!: split_at_shorter [OF sym])

lemma split_at_first: "c \<notin> set u \<Longrightarrow> split_at (\<lambda>d. d = c) (u @ c # v) = (u, Some v)"
  by (induction u) (auto simp: split_at_def)

lemma unquote_quoted:
  assumes "CHR 0x27 \<notin> set u"
  shows "unquote (CHR 0x27 # u @ concat (map (\<lambda>d. if d = CHR 0x27
      then [CHR 0x27, CHR 0x22, CHR 0x27, CHR 0x22, CHR 0x27] else [d]) s) @ [CHR 0x27]) = Some (u @ s)"
  using assms
proof (induction s arbitrary: u)
  case Nil
  then show ?case by (simp add: split_at_first)
next
  case (Cons c s)
  show ?case
  proof (cases "c = CHR 0x27")
    case True
    have "split_at (\<lambda>d. d = CHR 0x22) (CHR 0x27 # CHR 0x22 # r) = ([CHR 0x27], Some r)" for r
      using split_at_first [of "CHR 0x22" "[CHR 0x27]"] by simp
    with True Cons.IH [of "[]"] Cons.prems show ?thesis by (simp add: split_at_first)
  next
    case False
    then show ?thesis using Cons.IH [of "u @ [c]"] Cons.prems by simp
  qed
qed

lemma unquote_safe: "list_all shell_safe s \<Longrightarrow> unquote s = Some s"
  by (induction s) (auto simp: shell_safe_def is_alnum_def)

text \<open>
  A quoted word is one word to the shell: reading its quotes gives back the text that was
  quoted, whatever characters it has, and outside the quotes stand only harmless characters.
\<close>

theorem shlex_quote_roundtrip: "unquote (shlex_quote s) = Some s"
proof (cases "s = []")
  case True
  have "unquote [CHR 0x27, CHR 0x27] = Some []" by code_simp
  with True show ?thesis by (simp add: shlex_quote_def quote_char_def)
next
  case False
  then show ?thesis
    using unquote_quoted [of "[]" s] by (simp add: shlex_quote_def quote_char_def replace_char unquote_safe)
qed

section \<open>The ARP settings\<close>

lemma nic_char_plain: "nic_char c \<Longrightarrow> c \<noteq> CHR 0x0A \<and> c \<noteq> CHR 0x27 \<and> c \<noteq> CHR '' ''"
  by (auto simp: nic_char_def is_alnum_def)

lemma clean_nic_no_newline: "n \<in> set (clean_nics names) \<Longrightarrow> CHR 0x0A \<notin> set n"
  using clean_nic_chars [of n names] nic_char_plain by (auto simp: list_all_iff)

lemma arp_lines_no_newline:
  "l \<in> set (arp_sysctl_lines (clean_nics names)) \<Longrightarrow> CHR 0x0A \<notin> set l"
  by (auto simp: arp_sysctl_lines_def dest: clean_nic_no_newline)

lemma join_snoc_Nil: "xs \<noteq> [] \<Longrightarrow> join sep (xs @ [[]]) = join sep xs @ sep"
  by (induction sep xs rule: join.induct) auto

text \<open>
  The settings file sets two keys for every usable interface name and nothing else: its lines
  are the comment and, for every distinct name given (stripped of white space) that is made of
  the allowed characters, its two assignments; a name can not break out of its line.
\<close>

theorem arp_file_lines:
  "split_on newline (arp_sysctl_content names) =
     (let usable = clean_nics names in if usable = [] then [[]] else arp_sysctl_lines usable @ [[]]) \<and>
   distinct (clean_nics names) \<and>
   set (clean_nics names) =
     {n. n \<noteq> [] \<and> list_all nic_char n \<and> (\<exists>x \<in> set (case names of None \<Rightarrow> [] | Some xs \<Rightarrow> xs).
           n = strip (case x of None \<Rightarrow> [] | Some s \<Rightarrow> s))}"
proof -
  have "split_on [CHR 0x0A] (join [CHR 0x0A] (arp_sysctl_lines (clean_nics names)) @ [CHR 0x0A])
      = arp_sysctl_lines (clean_nics names) @ [[]]"
  proof -
    let ?ls = "arp_sysctl_lines (clean_nics names)"
    have ne: "?ls \<noteq> []" by (simp add: arp_sysctl_lines_def)
    then have "join [CHR 0x0A] ?ls @ [CHR 0x0A] = join [CHR 0x0A] (?ls @ [[]])"
      by (simp add: join_snoc_Nil)
    moreover have "split_on [CHR 0x0A] (join [CHR 0x0A] (?ls @ [[]])) = ?ls @ [[]]"
      using arp_lines_no_newline by (intro split_on_join) auto
    ultimately show ?thesis by metis
  qed
  then have 1: "split_on newline (arp_sysctl_content names) =
     (let usable = clean_nics names in if usable = [] then [[]] else arp_sysctl_lines usable @ [[]])"
    by (simp add: arp_sysctl_content_def newline_def Let_def) (simp add: split_on_def)
  have "n \<in> set (clean_nics names) \<longleftrightarrow> n \<noteq> [] \<and> list_all nic_char n \<and>
      (\<exists>x \<in> set (case names of None \<Rightarrow> [] | Some xs \<Rightarrow> xs). n = strip (case x of None \<Rightarrow> [] | Some s \<Rightarrow> s))" for n
  proof
    assume n: "n \<in> set (clean_nics names)"
    then show "n \<noteq> [] \<and> list_all nic_char n \<and>
      (\<exists>x \<in> set (case names of None \<Rightarrow> [] | Some xs \<Rightarrow> xs). n = strip (case x of None \<Rightarrow> [] | Some s \<Rightarrow> s))"
      using clean_nic_chars [OF n] by (simp add: clean_nics_def clean_onto_mem)
  next
    assume n: "n \<noteq> [] \<and> list_all nic_char n \<and>
      (\<exists>x \<in> set (case names of None \<Rightarrow> [] | Some xs \<Rightarrow> xs). n = strip (case x of None \<Rightarrow> [] | Some s \<Rightarrow> s))"
    then have "last n \<noteq> CHR 0x0A" using nic_char_plain [of "last n"] by (simp add: list_all_iff)
    with n show "n \<in> set (clean_nics names)"
      by (simp add: clean_nics_def clean_onto_mem nic_re_matches_def)
  qed
  with 1 show ?thesis using distinct_clean_nics by blast
qed

lemma quote_no_newline: "CHR 0x0A \<notin> set s \<Longrightarrow> CHR 0x0A \<notin> set (shlex_quote s)"
  by (auto simp: shlex_quote_def quote_char_def replace_char)

text \<open>
  The command form has no line break, whatever names it is given, so it survives the runners
  that join commands into one line.
\<close>

theorem arp_command_is_one_line: "CHR 0x0A \<notin> set (arp_flux_cmd names)"
proof -
  have "CHR 0x0A \<notin> set (join '' '' (map shlex_quote ls))" if "\<forall>l \<in> set ls. CHR 0x0A \<notin> set l" for ls
    using that set_join [of "'' ''" "map shlex_quote ls"] quote_no_newline by fastforce
  from this [of "arp_sysctl_lines (clean_nics names)"]
    this [of "concat (map (\<lambda>nic. [''net.ipv4.conf.'' @ nic @ ''.arp_ignore=2'',
                                    ''net.ipv4.conf.'' @ nic @ ''.arp_announce=2'']) (clean_nics names))"]
  show ?thesis
    using arp_lines_no_newline [of _ names] clean_nic_no_newline [of _ names]
    by (auto simp: arp_flux_cmd_def Let_def ARP_SYSCTL_FILE_def quote_char_def)
qed

section \<open>Rebuilding the maps\<close>

text \<open>A runner that records what it is asked to run, and answers what it likes.\<close>

type_synonym issued = "(string \<times> nat) list"

definition recording :: "(issued \<Rightarrow> exn + unit) \<Rightarrow> string \<Rightarrow> nat \<Rightarrow> (issued, unit) action" where
  "recording answer command limit = (\<lambda>s. (answer (s @ [(command, limit)]), s @ [(command, limit)]))"

text \<open>\<open>issues p m\<close>: when \<open>m\<close> returns it issued exactly \<open>p\<close>, when it raises a beginning of \<open>p\<close>.\<close>

definition issues :: "issued \<Rightarrow> (issued, unit) action \<Rightarrow> bool" where
  "issues p m \<longleftrightarrow> (\<forall>s. case m s of (Inr _, t) \<Rightarrow> t = s @ p | (Inl _, t) \<Rightarrow> \<exists>k. t = s @ take k p)"

lemma andthen_ret [simp]: "andthen (ret ()) m = m" "andthen k (ret ()) = k"
  by (auto simp: andthen_def fun_eq_iff bnd_def ret_def split: prod.splits sum.splits)

lemma issuesD:
  "issues p m \<Longrightarrow> m s = (Inr x, t) \<Longrightarrow> t = s @ p"
  "issues p m \<Longrightarrow> m s = (Inl e, t) \<Longrightarrow> \<exists>k. t = s @ take k p"
  by (auto simp: issues_def dest: spec [where x = s])

lemma issues_recording: "issues [(c, l)] (recording answer c l)"
  by (auto simp: issues_def recording_def split: sum.splits intro: exI [of _ 1])

lemma issues_ret: "issues [] (ret ())"
  by (simp add: issues_def ret_def)

lemma issues_andthen:
  assumes "issues p m" and "issues q k"
  shows "issues (p @ q) (andthen m k)"
  unfolding issues_def
proof
  fix s
  obtain r t where m: "m s = (r, t)" by fastforce
  show "case andthen m k s of (Inr _, t) \<Rightarrow> t = s @ p @ q | (Inl _, t) \<Rightarrow> \<exists>i. t = s @ take i (p @ q)"
  proof (cases r)
    case (Inl e)
    then obtain i where "t = s @ take i p"
      using issuesD(2) [OF assms(1), of s e t] m by auto
    then have "t = s @ take (min i (length p)) (p @ q)"
      by (simp add: min_def)
    then show ?thesis using m Inl by (auto simp: andthen_def bnd_def simp del: take_append)
  next
    case (Inr x)
    then have t: "t = s @ p"
      using issuesD(1) [OF assms(1)] m by auto
    obtain r' t' where k: "k t = (r', t')" by fastforce
    show ?thesis
    proof (cases r')
      case (Inl e)
      then obtain i where "t' = t @ take i q"
        using issuesD(2) [OF assms(2), of t e t'] k by auto
      then have "t' = s @ take (length p + i) (p @ q)" by (simp add: t)
      then show ?thesis using m k Inl Inr by (auto simp: andthen_def bnd_def simp del: take_append)
    next
      case (Inr y)
      then have "t' = t @ q"
        using issuesD(1) [OF assms(2)] k by auto
      then show ?thesis using m k t Inr \<open>r = Inr x\<close> by (simp add: andthen_def bnd_def)
    qed
  qed
qed

lemma issues_foreach:
  "(\<And>x. issues [f x] (g x)) \<Longrightarrow> issues (map f xs) (foreach xs g)"
proof (induction xs)
  case (Cons x xs)
  then show ?case using issues_andthen [of "[f x]" "g x" "map f xs"] by simp
qed (simp add: issues_ret)

text \<open>
  Every stale map is flushed before the transport is rescanned, and each device is awaited
  after the maps are rebuilt: whatever the hosts answer, the commands run are a beginning of this
  sequence, and all of it when the refresh returns. Over NVMe no multipath map is touched. Every
  command has a time limit.
\<close>

theorem refresh_runs_in_order:
  "let proto = lower (if protocol = [] then ''iscsi'' else protocol);
       plan = (if proto \<in> {''nvme-tcp'', ''nvme-fc'', ''nvme-roce''} then [(rescan_command proto, 60)]
               else map (\<lambda>w. (flush_map w, 30)) wwids @ [(rescan_command proto, 60)]
                 @ [(''multipath -r || true'', 60)] @ map (\<lambda>w. (await_map w, 40)) wwids)
   in case refresh_block_devices (recording answer) protocol wwids s of
        (Inr _, t) \<Rightarrow> t = s @ plan
      | (Inl _, t) \<Rightarrow> \<exists>k. t = s @ take k plan"
proof -
  define proto where "proto = lower (if protocol = [] then ''iscsi'' else protocol)"
  define nvme where "nvme \<longleftrightarrow> proto \<in> {''nvme-tcp'', ''nvme-fc'', ''nvme-roce''}"
  let ?fl = "map (\<lambda>w. (flush_map w, 30)) wwids" and ?aw = "map (\<lambda>w. (await_map w, 40)) wwids"
  let ?re = "[(rescan_command proto, 60)]" and ?mp = "[(''multipath -r || true'', 60)]"
  have fl: "issues ?fl (foreach wwids (\<lambda>w. recording answer (flush_map w) 30))"
    and aw: "issues ?aw (foreach wwids (\<lambda>w. recording answer (await_map w) 40))"
    by (rule issues_foreach, rule issues_recording)+
  note re = issues_recording [of "rescan_command proto" 60 answer]
  note mp = issues_recording [of "''multipath -r || true''" 60 answer]
  have m: "refresh_block_devices (recording answer) protocol wwids =
     (if nvme then recording answer (rescan_command proto) 60
      else andthen (foreach wwids (\<lambda>w. recording answer (flush_map w) 30))
        (andthen (recording answer (rescan_command proto) 60)
          (andthen (recording answer ''multipath -r || true'' 60)
            (foreach wwids (\<lambda>w. recording answer (await_map w) 40)))))"
    unfolding refresh_block_devices_def Let_def proto_def [symmetric] nvme_def [symmetric]
    by (cases nvme) (simp_all add: provided_def andthen_ret)
  have "issues (if nvme then ?re else ?fl @ ?re @ ?mp @ ?aw)
      (refresh_block_devices (recording answer) protocol wwids)"
    unfolding m using issues_andthen [OF fl issues_andthen [OF re issues_andthen [OF mp aw]]] re
    by auto
  then show ?thesis
    unfolding Let_def proto_def [symmetric] nvme_def [symmetric] issues_def
    by (auto dest: spec [of _ s])
qed


end
