(* ===== verification/Connector_Base.thy ===== *)
theory Connector_Base
  imports Op_Result Mock_Array Storage_Nics Host_Commands
begin

text \<open>
  The contract every hypervisor connector inherits from \<^verbatim>\<open>connectors/base.py\<close>: the form schemas and
  the descriptor of a connector class, the dispatch of an action id, and the default operations
  that talk to the array. A connector runs in a context (\<^verbatim>\<open>ConnectorContext\<close>): the target's
  settings, the log, and the array client, which is a record of the methods used here.
\<close>

section \<open>Form schemas\<close>

datatype field_type = STRING | SECRET | INT_FIELD | BOOL | ENUM | MULTISELECT | SIZE | TEXT

fun field_type_value :: "field_type \<Rightarrow> string" where
  "field_type_value STRING = ''string''"
| "field_type_value SECRET = ''secret''"
| "field_type_value INT_FIELD = ''int''"
| "field_type_value BOOL = ''bool''"
| "field_type_value ENUM = ''enum''"
| "field_type_value MULTISELECT = ''multiselect''"
| "field_type_value SIZE = ''size''"
| "field_type_value TEXT = ''text''"

record form_field =
  ff_name :: string
  ff_label :: string
  ff_type :: field_type
  ff_required :: bool
  ff_default :: json
  ff_options :: "string list option"
  ff_options_source :: "string option"
  ff_help :: string
  ff_placeholder :: string

definition form_field_to_dict :: "form_field \<Rightarrow> dict" where
  "form_field_to_dict f =
     [(''name'', JStr (ff_name f)), (''label'', JStr (ff_label f)),
      (''type'', JStr (field_type_value (ff_type f))), (''required'', JBool (ff_required f)),
      (''default'', ff_default f), (''options'', json_strs_opt (ff_options f)),
      (''options_source'', json_opt (ff_options_source f)), (''help'', JStr (ff_help f)),
      (''placeholder'', JStr (ff_placeholder f))]"

record action_spec =
  as_capability :: capability
  as_id :: string
  as_label :: string
  as_description :: string
  as_fields :: "form_field list"
  as_destructive :: bool
  as_long_running :: bool

definition action_spec_to_dict :: "action_spec \<Rightarrow> dict" where
  "action_spec_to_dict a =
     [(''capability'', JStr (capability_value (as_capability a))), (''id'', JStr (as_id a)),
      (''label'', JStr (as_label a)), (''description'', JStr (as_description a)),
      (''fields'', JList (map (JObj \<circ> form_field_to_dict) (as_fields a))),
      (''destructive'', JBool (as_destructive a)), (''long_running'', JBool (as_long_running a))]"

section \<open>A connector class\<close>

text \<open>The class attributes, and the class methods a subclass overrides.\<close>

record connector_class =
  cls_key :: string
  cls_name :: string
  cls_description :: string
  CAPABILITIES :: "capability list"
  SUPPORTED_PROTOCOLS :: "protocol list"
  cls_maturity :: string
  MANAGES_VOLUME_PRESENTATION :: bool
  target_schema :: "form_field list"
  action_schemas :: "action_spec list"
  wizard_steps :: "string list"

text \<open>What a subclass inherits when it overrides none of them.\<close>

definition base_class :: connector_class where
  "base_class =
     \<lparr>cls_key = [], cls_name = [], cls_description = [], CAPABILITIES = [], SUPPORTED_PROTOCOLS = [],
      cls_maturity = ''ga'', MANAGES_VOLUME_PRESENTATION = False, target_schema = [], action_schemas = [],
      wizard_steps = [''deploy'', ''register_hosts'', ''setup_connectivity'', ''configure'']\<rparr>"

definition capabilities :: "connector_class \<Rightarrow> capability set" where
  "capabilities c = set (CAPABILITIES c) \<union> {CONNECT}"

definition supports :: "connector_class \<Rightarrow> capability \<Rightarrow> bool" where
  "supports c x \<longleftrightarrow> x \<in> capabilities c"

definition descriptor :: "connector_class \<Rightarrow> dict" where
  "descriptor c =
     [(''key'', JStr (cls_key c)), (''name'', JStr (cls_name c)),
      (''description'', JStr (cls_description c)), (''maturity'', JStr (cls_maturity c)),
      (''capabilities'', json_strs (sorted_list_of_set (capability_value ` capabilities c))),
      (''protocols'', json_strs (sorted_list_of_set (protocol_value ` set (SUPPORTED_PROTOCOLS c)))),
      (''target_schema'', JList (map (JObj \<circ> form_field_to_dict) (target_schema c))),
      (''actions'', JList (map (JObj \<circ> action_spec_to_dict) (action_schemas c))),
      (''wizard_steps'', json_strs (wizard_steps c))]"

section \<open>The context of a call\<close>

record hypervisor_target =
  tg_id :: string
  tg_connector_key :: string
  tg_name :: string
  tg_connection :: dict
  tg_secrets :: dict

text \<open>\<^verbatim>\<open>HypervisorTarget.get\<close>: a secret wins over a connection detail.\<close>

definition target_get :: "hypervisor_target \<Rightarrow> string \<Rightarrow> json \<Rightarrow> json" where
  "target_get t k dflt = dict_get (tg_secrets t) k (dict_get (tg_connection t) k dflt)"

record 's array_ops =
  arr_info :: "('s, dict) action"
  arr_members :: "string \<Rightarrow> ('s, string list) action"
  arr_remove_host :: "string \<Rightarrow> string \<Rightarrow> ('s, unit) action"
  arr_delete_host :: "string \<Rightarrow> ('s, unit) action"
  arr_register :: "string \<Rightarrow> host_spec list \<Rightarrow> ('s, registration) action"
  arr_volume_serial :: "string \<Rightarrow> ('s, string option) action"

record 's connector_context =
  ctx_target :: hypervisor_target
  ctx_emit :: "string \<Rightarrow> ('s, unit) action"
  ctx_array :: "'s array_ops option"
  ctx_array_token :: "string option"

definition resolve_token :: "'s connector_context \<Rightarrow> string option \<Rightarrow> string option" where
  "resolve_token ctx explicit = (case nonempty explicit of Some t \<Rightarrow> Some t | None \<Rightarrow> ctx_array_token ctx)"

section \<open>Nodes\<close>

record cluster_node =
  node_name :: string
  node_host :: string
  node_info :: dict

definition cluster_node_to_dict :: "cluster_node \<Rightarrow> dict" where
  "cluster_node_to_dict n =
     [(''name'', JStr (node_name n)), (''host'', JStr (node_host n)), (''info'', JObj (node_info n))]"

text \<open>\<^verbatim>\<open>a or b\<close> over a chain of values.\<close>

fun first_truthy :: "json list \<Rightarrow> json \<Rightarrow> json" where
  "first_truthy [] last_one = last_one"
| "first_truthy (x # xs) last_one = (if truthy x then x else first_truthy xs last_one)"

text \<open>\<^verbatim>\<open>str(x)\<close> of a setting: a text or a number; other values are not modelled.\<close>

definition str_of :: "json \<Rightarrow> exn + string" where
  "str_of x = (case x of JStr s \<Rightarrow> Inr s | JInt i \<Rightarrow> Inr (show_int i) | JBool b \<Rightarrow> Inr (show_bool b)
     | JNull \<Rightarrow> Inr ''None'' | _ \<Rightarrow> unmodelled)"

definition list_nodes :: "'s connector_context \<Rightarrow> exn + cluster_node list" where
  "list_nodes ctx =
     (let t = ctx_target ctx;
          host = first_truthy (map (\<lambda>k. target_get t k JNull)
            [''node_host'', ''host'', ''pool_master_host'', ''controller_host'']) (JStr (tg_name t))
      in ebind (str_of host) (\<lambda>h. Inr [\<lparr>node_name = h, node_host = h, node_info = []\<rparr>]))"

definition validate_cluster :: "connector_class \<Rightarrow> 's connector_context \<Rightarrow> exn + op_result" where
  "validate_cluster c ctx =
     ebind (list_nodes ctx) (\<lambda>nodes.
     Inr (op_ok (show_nat (length nodes) @ '' node(s); no cluster checks for '' @ cls_key c) []
       [(''nodes'', JList (map (JObj \<circ> cluster_node_to_dict) nodes))]))"

definition assess_cluster :: "connector_class \<Rightarrow> 's connector_context \<Rightarrow> exn + op_result" where
  "assess_cluster c ctx =
     ebind (list_nodes ctx) (\<lambda>nodes.
     Inr (op_ok (show_nat (length nodes) @ '' node(s); no cluster assessment for '' @ cls_key c) []
       [(''nodes'', json_strs (map node_name nodes)), (''new_hosts'', JList []),
        (''departed_hosts'', JList [])]))"

section \<open>Default operations\<close>

definition unsupported :: "connector_class \<Rightarrow> capability \<Rightarrow> ('s, 'a) action" where
  "unsupported c x = raise (Exn ''CapabilityNotSupported''
     (py_repr (cls_key c) @ '' does not support capability '' @ py_repr (capability_value x)))"

definition base_preflight :: "'s connector_context \<Rightarrow> ('s, op_result) action" where
  "base_preflight ctx =
     (case ctx_array ctx of
        None \<Rightarrow> ret (op_ok ''No FlashArray prerequisites for this connector'' [] [])
      | Some a \<Rightarrow>
          tryc (bnd (arr_info a) (\<lambda>info. ret (op_ok ''FlashArray reachable'' [] [(''array'', JObj info)])))
            (\<lambda>e. ret (op_fail (''Required FlashArray is not reachable '' @ em_dash
               @ '' cannot create storage objects: '' @ describe_exn e) [] [])))"

definition require_host_objects :: "'s connector_context \<Rightarrow> string \<Rightarrow> ('s, op_result) action" where
  "require_host_objects ctx hg =
     (let advice = (\<lambda>w. '' '' @ em_dash @ '' register '' @ w) in
      case ctx_array ctx of
        None \<Rightarrow> ret (op_ok ''No FlashArray prerequisites'' [] [])
      | Some a \<Rightarrow>
          if hg = [] then
            ret (op_fail (''No FlashArray host group is configured'' @ advice
              (''the hypervisor'' @ [CHR 0x27] @ ''s hosts on the array before creating the datastore.'')) [] [])
          else
            tryc (bnd (arr_members a hg) (\<lambda>members.
                if members = [] then
                  ret (op_fail (''FlashArray host group '' @ py_repr hg @ '' has no member hosts'' @ advice
                    (''the hypervisor'' @ [CHR 0x27] @ ''s hosts on the array before creating the datastore.'')) [] [])
                else
                  ret (op_ok (''host group '' @ py_repr hg @ '' has '' @ show_nat (length members) @ '' host(s)'')
                    [] [(''hosts'', json_strs members)])))
              (\<lambda>e. ret (op_fail (''Could not verify FlashArray host group '' @ py_repr hg @ '': ''
                 @ describe_exn e) [] [])))"

definition apply_host_group ::
  "'s connector_context \<Rightarrow> string \<Rightarrow> host_spec list \<Rightarrow> ('s, registration) action" where
  "apply_host_group ctx hg specs =
     (case ctx_array ctx of
        None \<Rightarrow> ret \<lparr>reg_group = hg, reg_hosts = [], reg_adopted = False, reg_created = [], reg_reused = [],
                     reg_conflict = Some ''No FlashArray associated with this hypervisor.''\<rparr>
      | Some a \<Rightarrow>
          bnd (arr_register a hg specs) (\<lambda>res.
          case nonempty (reg_conflict res) of
            Some why \<Rightarrow> andthen (ctx_emit ctx (''[host-register] BLOCKED: '' @ why)) (ret res)
          | None \<Rightarrow>
              andthen (provided (reg_reused res \<noteq> [])
                (ctx_emit ctx (''[host-register] Reusing existing FlashArray host(s): ''
                   @ join '', '' (reg_reused res))))
              (andthen (provided (reg_adopted res)
                (ctx_emit ctx (''[host-register] Pool hosts already belong to FlashArray host group ''
                   @ py_repr (reg_group res) @ ''; adopting it as the integration'' @ [CHR 0x27]
                   @ ''s host group (instead of '' @ py_repr hg @ '').'')))
              (ret res))))"

text \<open>The serials of the volumes the array can resolve; a failing lookup is skipped.\<close>

fun resolved_serials :: "'s array_ops \<Rightarrow> string list \<Rightarrow> ('s, string list) action" where
  "resolved_serials a [] = ret []"
| "resolved_serials a (v # vs) =
     bnd (tryc (bnd (arr_volume_serial a v) (\<lambda>x. ret (nonempty x))) (\<lambda>e. ret None)) (\<lambda>x.
     bnd (resolved_serials a vs) (\<lambda>ss. ret (case x of None \<Rightarrow> ss | Some y \<Rightarrow> y # ss)))"

definition disk_wwids :: "'s connector_context \<Rightarrow> disk_spec list \<Rightarrow> ('s, string list) action" where
  "disk_wwids ctx ds =
     bnd (case ctx_array ctx of None \<Rightarrow> ret []
          | Some a \<Rightarrow> resolved_serials a (map (fa_volume \<circ> identity) ds))
       (\<lambda>serials. ret (wwids_for serials))"

definition migration_host_group_of :: "'s connector_context \<Rightarrow> json" where
  "migration_host_group_of ctx =
     (let g = target_get (ctx_target ctx) ''host_group'' JNull in if truthy g then g else JStr [])"

definition prepare_copy_target :: "string \<Rightarrow> int \<Rightarrow> string \<Rightarrow> string" where
  "prepare_copy_target base_name order dest =
     ''phifmig-'' @ dest @ ''-disk'' @ show_int order @ ''-'' @ base_name"

text \<open>Drift of the host group.\<close>

record prune_report =
  pr_members :: "string list"
  pr_expected :: "string list"
  pr_departed :: "string list"
  pr_removed :: "string list"

definition remove_departed ::
  "'s connector_context \<Rightarrow> 's array_ops \<Rightarrow> string \<Rightarrow> string \<Rightarrow> ('s, unit) action" where
  "remove_departed ctx a hg h = steps [
     ctx_emit ctx (''Removing departed host '' @ py_repr h @ '' from group '' @ py_repr hg @ '' and the array''),
     arr_remove_host a hg h,
     arr_delete_host a h]"

definition prune_departed_fa_hosts ::
  "'s connector_context \<Rightarrow> string \<Rightarrow> string list \<Rightarrow> bool \<Rightarrow> ('s, prune_report) action" where
  "prune_departed_fa_hosts ctx hg expected_hosts apply_removals =
     (let expected = set (filter (\<lambda>h. h \<noteq> []) expected_hosts);
          empty = \<lparr>pr_members = [], pr_expected = sorted_list_of_set expected, pr_departed = [], pr_removed = []\<rparr> in
      case (if hg = [] then None else ctx_array ctx) of
        None \<Rightarrow> ret empty
      | Some a \<Rightarrow>
          bnd (arr_members a hg) (\<lambda>members.
          let departed = filter (\<lambda>m. m \<notin> expected) members;
              seen = empty\<lparr>pr_members := sort members, pr_departed := sort departed\<rparr> in
          if \<not> apply_removals then ret seen
          else andthen (foreach departed (remove_departed ctx a hg))
                 (ret (seen\<lparr>pr_removed := departed\<rparr>))))"

section \<open>Dispatch\<close>

definition default_dispatch :: "(string \<times> string) list" where
  "default_dispatch =
     [(''deploy'', ''deploy_integration''), (''configure'', ''configure''), (''provision'', ''provision''),
      (''snapshot'', ''snapshot''), (''clone'', ''clone''), (''resize'', ''resize''), (''delete'', ''delete''),
      (''register_hosts'', ''register_hosts''), (''setup_connectivity'', ''setup_connectivity''),
      (''set_qos'', ''set_qos''), (''configure_replication'', ''configure_replication''),
      (''recover'', ''recover''), (''upgrade'', ''upgrade''), (''rotate_credentials'', ''rotate_credentials''),
      (''health_check'', ''health_check''), (''teardown'', ''teardown''), (''assess_cluster'', ''assess_cluster''),
      (''reconcile_cluster'', ''reconcile_cluster'')]"

text \<open>The capability an inherited operation names when it refuses.\<close>

definition operation_capability :: "(string \<times> capability) list" where
  "operation_capability =
     [(''deploy_integration'', DEPLOY_PLUGIN), (''configure'', CONFIGURE), (''provision'', PROVISION_VOLUME),
      (''snapshot'', SNAPSHOT), (''clone'', CLONE), (''resize'', RESIZE), (''delete'', DELETE),
      (''register_hosts'', HOST_REGISTER), (''setup_connectivity'', CONNECTIVITY), (''set_qos'', QOS),
      (''configure_replication'', REPLICATION), (''recover'', RECOVERY), (''upgrade'', UPGRADE),
      (''rotate_credentials'', ROTATE_CREDENTIALS), (''health_check'', HEALTH), (''teardown'', REMOVE),
      (''reconcile_cluster'', RECONCILE_CLUSTER)]"

type_synonym 's operations = "string \<Rightarrow> (dict \<Rightarrow> ('s, op_result) action) option"

text \<open>\<^verbatim>\<open>getattr(self, name)\<close>: the subclass's method, or the inherited one.\<close>

definition operation ::
  "connector_class \<Rightarrow> 's connector_context \<Rightarrow> 's operations \<Rightarrow> string \<Rightarrow> dict \<Rightarrow> ('s, op_result) action" where
  "operation c ctx overridden name params =
     (case overridden name of
        Some f \<Rightarrow> f params
      | None \<Rightarrow>
          (case map_of operation_capability name of
             Some x \<Rightarrow> unsupported c x
           | None \<Rightarrow> lift_sum (assess_cluster c ctx)))"

definition dispatch ::
  "connector_class \<Rightarrow> 's connector_context \<Rightarrow> 's operations \<Rightarrow> string \<Rightarrow> dict \<Rightarrow> ('s, op_result) action" where
  "dispatch c ctx overridden action_id params =
     (case map_of default_dispatch action_id of
        None \<Rightarrow> ret (op_fail (''Unknown action '' @ py_repr action_id @ '' for connector '' @ py_repr (cls_key c)) [] [])
      | Some name \<Rightarrow> operation c ctx overridden name params)"

section \<open>Pruning departed hosts\<close>

text \<open>
  What pruning relies on: \<open>grp\<close> is the membership of every host group and \<open>hosts\<close> the hosts of the
  array. Reading and logging change neither; a removal that raises may or may not have happened.
\<close>

locale membership_array =
  fixes ctx :: "'s connector_context" and a :: "'s array_ops"
    and grp :: "'s \<Rightarrow> string \<Rightarrow> string list" and hosts :: "'s \<Rightarrow> string set"
  assumes array: "ctx_array ctx = Some a"
    and members_same: "arr_members a g s = (r, t) \<Longrightarrow> grp t = grp s \<and> hosts t = hosts s"
    and members_are: "arr_members a g s = (Inr ms, t) \<Longrightarrow> ms = grp s g"
    and emit_same: "ctx_emit ctx l s = (q, t) \<Longrightarrow> grp t = grp s \<and> hosts t = hosts s"
    and removed: "arr_remove_host a g h s = (Inr u, t) \<Longrightarrow>
      grp t = (grp s)(g := remove1 h (grp s g)) \<and> hosts t = hosts s"
    and remove_failed: "arr_remove_host a g h s = (Inl e, t) \<Longrightarrow>
      (grp t = grp s \<or> grp t = (grp s)(g := remove1 h (grp s g))) \<and> hosts t = hosts s"
    and deleted: "arr_delete_host a h s = (Inr u, t) \<Longrightarrow> grp t = grp s \<and> hosts t = hosts s - {h}"
    and delete_failed: "arr_delete_host a h s = (Inl e, t) \<Longrightarrow>
      grp t = grp s \<and> (hosts t = hosts s \<or> hosts t = hosts s - {h})"
begin

text \<open>Nothing of the expected hosts is lost, and other groups keep their members.\<close>

definition safe_from :: "'s \<Rightarrow> string \<Rightarrow> string set \<Rightarrow> 's \<Rightarrow> bool" where
  "safe_from s0 g E s \<longleftrightarrow>
     filter (\<lambda>h. h \<in> E) (grp s g) = filter (\<lambda>h. h \<in> E) (grp s0 g) \<and>
     (\<forall>g'. g' \<noteq> g \<longrightarrow> grp s g' = grp s0 g') \<and> hosts s \<inter> E = hosts s0 \<inter> E"

lemma filter_remove1_out: "\<not> P x \<Longrightarrow> filter P (remove1 x xs) = filter P xs"
  by (induction xs) auto

lemma safe_from_same: "grp t = grp s \<Longrightarrow> hosts t = hosts s \<Longrightarrow> safe_from s0 g E s \<Longrightarrow> safe_from s0 g E t"
  by (simp add: safe_from_def)

lemma keeps_member_read: "keeps (safe_from s0 g E) (arr_members a g')"
proof (rule keepsI)
  fix s
  assume s: "safe_from s0 g E s"
  obtain r t where r: "arr_members a g' s = (r, t)" by fastforce
  from members_same [OF this] s r show "safe_from s0 g E (final (arr_members a g') s)"
    by (auto simp: final_def intro: safe_from_same)
qed

lemma keeps_emit: "keeps (safe_from s0 g E) (ctx_emit ctx l)"
proof (rule keepsI)
  fix s
  assume s: "safe_from s0 g E s"
  obtain r t where r: "ctx_emit ctx l s = (r, t)" by fastforce
  from emit_same [OF this] s r show "safe_from s0 g E (final (ctx_emit ctx l) s)"
    by (auto simp: final_def intro: safe_from_same)
qed

lemma keeps_remove: "h \<notin> E \<Longrightarrow> keeps (safe_from s0 g E) (arr_remove_host a g h)"
proof (rule keepsI)
  fix s
  assume h: "h \<notin> E" and s: "safe_from s0 g E s"
  obtain r t where r: "arr_remove_host a g h s = (r, t)" by fastforce
  then have "(grp t = grp s \<or> grp t = (grp s)(g := remove1 h (grp s g))) \<and> hosts t = hosts s"
    using removed [of g h s _ t] remove_failed [of g h s _ t] by (cases r) auto
  then show "safe_from s0 g E (final (arr_remove_host a g h) s)"
    using s h r by (auto simp: safe_from_def final_def filter_remove1_out)
qed

lemma keeps_delete: "h \<notin> E \<Longrightarrow> keeps (safe_from s0 g E) (arr_delete_host a h)"
proof (rule keepsI)
  fix s
  assume h: "h \<notin> E" and s: "safe_from s0 g E s"
  obtain r t where r: "arr_delete_host a h s = (r, t)" by fastforce
  then have "grp t = grp s \<and> (hosts t = hosts s \<or> hosts t = hosts s - {h})"
    using deleted [of h s _ t] delete_failed [of h s _ t] by (cases r) auto
  then show "safe_from s0 g E (final (arr_delete_host a h) s)"
    using s h r by (auto simp: safe_from_def final_def)
qed

lemma prune_safe:
  "safe_from s g {h \<in> set expected. h \<noteq> []} (final (prune_departed_fa_hosts ctx g expected yes) s)"
proof -
  have "keeps (safe_from s g {h \<in> set expected. h \<noteq> []}) (prune_departed_fa_hosts ctx g expected yes)"
    unfolding prune_departed_fa_hosts_def remove_departed_def Let_def
    by (auto simp: array intro!: keeps_intro keeps_member_read keeps_emit keeps_remove keeps_delete)
  then show ?thesis by (rule keepsD) (simp add: safe_from_def)
qed

text \<open>A run that succeeds removes all departed hosts.\<close>

lemma remove_departed_run:
  assumes "remove_departed ctx a g h s = (Inr u, t)"
  shows "grp t = (grp s)(g := remove1 h (grp s g)) \<and> hosts t = hosts s - {h}"
proof -
  obtain x1 s1 x2 s2 x3 where e: "ctx_emit ctx (''Removing departed host '' @ py_repr h @ '' from group ''
        @ py_repr g @ '' and the array'') s = (Inr x1, s1)"
    and r: "arr_remove_host a g h s1 = (Inr x2, s2)" and d: "arr_delete_host a h s2 = (Inr x3, t)"
    using assms unfolding remove_departed_def steps.simps
    by (elim andthen_eq_InrE) (simp add: ret_def)
  from emit_same [OF e] removed [OF r] deleted [OF d] show ?thesis by simp
qed

lemma remove_all_run:
  "foreach ds (remove_departed ctx a g) s = (Inr u, t) \<Longrightarrow>
   grp t = (grp s)(g := fold remove1 ds (grp s g)) \<and> hosts t = hosts s - set ds"
proof (induction ds arbitrary: s)
  case Nil
  then show ?case by (simp add: ret_def)
next
  case (Cons d ds)
  from Cons.prems have "andthen (remove_departed ctx a g d) (foreach ds (remove_departed ctx a g)) s = (Inr u, t)"
    by simp
  then obtain x s' where d: "remove_departed ctx a g d s = (Inr x, s')"
    and r: "foreach ds (remove_departed ctx a g) s' = (Inr u, t)"
    by (rule andthen_eq_InrE)
  have g: "grp s' = (grp s)(g := remove1 d (grp s g))" and h: "hosts s' = hosts s - {d}"
    using remove_departed_run [OF d] by simp_all
  have "hosts t = hosts s - {d} - set ds"
    using Cons.IH [OF r] unfolding h by (rule conjunct2)
  then have "hosts t = hosts s - set (d # ds)" by auto
  moreover have "grp t = ((grp s)(g := remove1 d (grp s g)))(g := fold remove1 ds (remove1 d (grp s g)))"
    using Cons.IH [OF r] unfolding g by (simp only: fun_upd_same)
  then have "grp t = (grp s)(g := fold remove1 (d # ds) (grp s g))"
    by (simp only: fun_upd_upd fold.simps comp_apply)
  ultimately show ?case by (rule conjI [rotated])
qed

lemma fold_remove1_notin: "x \<notin> set ds \<Longrightarrow> fold remove1 ds (x # xs) = x # fold remove1 ds xs"
  by (induction ds arbitrary: xs) auto

lemma fold_remove1_filter: "fold remove1 (filter P xs) xs = filter (\<lambda>x. \<not> P x) xs"
  by (induction xs) (auto simp: fold_remove1_notin)

lemma prune_done:
  assumes "g \<noteq> []" and "prune_departed_fa_hosts ctx g expected True s = (Inr rep, t)"
  shows "grp t = (grp s)(g := filter (\<lambda>h. h \<in> set expected \<and> h \<noteq> []) (grp s g)) \<and>
    hosts t = hosts s - {h \<in> set (grp s g). \<not> (h \<in> set expected \<and> h \<noteq> [])} \<and>
    pr_removed rep = filter (\<lambda>h. \<not> (h \<in> set expected \<and> h \<noteq> [])) (grp s g)"
proof -
  define E where "E = {h \<in> set expected. h \<noteq> []}"
  have flt: "filter (\<lambda>m. m \<notin> E) xs = filter (\<lambda>h. \<not> (h \<in> set expected \<and> h \<noteq> [])) xs" for xs
    by (simp add: E_def)
  define F where "F = (\<lambda>ms. andthen (foreach (filter (\<lambda>m. m \<notin> E) ms) (remove_departed ctx a g))
      (ret \<lparr>pr_members = sort ms, pr_expected = sorted_list_of_set E,
         pr_departed = sort (filter (\<lambda>m. m \<notin> E) ms), pr_removed = filter (\<lambda>m. m \<notin> E) ms\<rparr>))"
  have "bnd (arr_members a g) F s = (Inr rep, t)"
    using assms by (simp add: prune_departed_fa_hosts_def array Let_def F_def E_def)
  then obtain ms s1 where m: "arr_members a g s = (Inr ms, s1)" and run: "F ms s1 = (Inr rep, t)"
    by (rule bnd_eq_InrE)
  from run obtain u where f: "foreach (filter (\<lambda>m. m \<notin> E) ms) (remove_departed ctx a g) s1 = (Inr u, t)"
    and rep: "pr_removed rep = filter (\<lambda>m. m \<notin> E) ms"
    unfolding F_def by (elim andthen_eq_InrE) (auto simp: ret_def)
  have "ms = grp s g" "grp s1 = grp s" "hosts s1 = hosts s"
    using members_are [OF m] members_same [OF m] by auto
  with remove_all_run [OF f] rep show ?thesis
    by (simp add: fold_remove1_filter flt)
qed

end

section \<open>A connector of the mock array\<close>

text \<open>The mock array together with the job's log.\<close>

type_synonym mock_world = "mock_array \<times> string list"

definition on_array :: "(mock_array, 'a) action \<Rightarrow> (mock_world, 'a) action" where
  "on_array m = (\<lambda>(s, l). case m s of (r, t) \<Rightarrow> (r, (t, l)))"

definition mock_ops :: "mock_world array_ops" where
  "mock_ops =
     \<lparr>arr_info = on_array mock_info, arr_members = (\<lambda>g. on_array (mock_get_host_group_members g)),
      arr_remove_host = (\<lambda>g h. on_array (mock_remove_host_from_group g h)),
      arr_delete_host = (\<lambda>h. on_array (mock_delete_host h)),
      arr_register = (\<lambda>g specs. on_array (mock_register_host_group g specs)),
      arr_volume_serial = (\<lambda>v. on_array (bnd (mock_get_volume v) (\<lambda>x.
        ret (case x of None \<Rightarrow> None | Some y \<Rightarrow> vv_serial y))))\<rparr>"

definition mock_context :: "hypervisor_target \<Rightarrow> mock_world connector_context" where
  "mock_context tgt =
     \<lparr>ctx_target = tgt, ctx_emit = (\<lambda>l (s, ls). (Inr (), (s, ls @ [l]))), ctx_array = Some mock_ops,
      ctx_array_token = None\<rparr>"

lemma keys_delete: "fst ` set (AList.delete k d) = fst ` set d - {k}"
  using map_of_delete [of k d] by (auto simp: dom_map_of_conv_image_fst [symmetric])

interpretation pruning: membership_array "mock_context tgt" mock_ops
  "\<lambda>(s, l) g. dict_get (arr_host_groups s) g []" "\<lambda>(s, l). fst ` set (arr_hosts s)" for tgt
  by unfold_locales
     (auto simp: mock_context_def mock_ops_def on_array_def mock_get_host_group_members_def
        mock_remove_host_from_group_def mock_delete_host_def rec_def run_rules fun_eq_iff dict_get_def
        AList.delete_eq image_iff split: prod.splits option.splits)

text \<open>
  Pruning never costs the cluster a host that is expected in it: whatever was asked for, the
  expected members stay in the group, in their order, every other host group keeps its members,
  and no expected host is deleted from the array.
\<close>

theorem prune_keeps_expected:
  "case final (prune_departed_fa_hosts (mock_context tgt) g expected yes) (s, l) of (t, l') \<Rightarrow>
     filter (\<lambda>h. h \<in> set expected \<and> h \<noteq> []) (dict_get (arr_host_groups t) g []) =
       filter (\<lambda>h. h \<in> set expected \<and> h \<noteq> []) (dict_get (arr_host_groups s) g []) \<and>
     (\<lambda>g'. if g' = g then [] else dict_get (arr_host_groups t) g' []) =
       (\<lambda>g'. if g' = g then [] else dict_get (arr_host_groups s) g' []) \<and>
     fst ` set (arr_hosts t) \<inter> {h \<in> set expected. h \<noteq> []} = fst ` set (arr_hosts s) \<inter> {h \<in> set expected. h \<noteq> []}"
  using pruning.prune_safe [where tgt = tgt and s = "(s, l)" and g = g and expected = expected and yes = yes]
  by (auto simp: pruning.safe_from_def fun_eq_iff split: prod.splits)

text \<open>
  Pruning with removals on leaves exactly the expected hosts in the group: each departed member
  is taken out of the group and deleted from the array, every other group is as before, and the
  report names the removed hosts.
\<close>

theorem prune_removes_departed:
  assumes "g \<noteq> []"
    and "prune_departed_fa_hosts (mock_context tgt) g expected True (s, l) = (Inr rep, (t, l'))"
  shows "dict_get (arr_host_groups t) g [] =
      filter (\<lambda>h. h \<in> set expected \<and> h \<noteq> []) (dict_get (arr_host_groups s) g []) \<and>
    (\<forall>g'. g' = g \<or> dict_get (arr_host_groups t) g' [] = dict_get (arr_host_groups s) g' []) \<and>
    fst ` set (arr_hosts t) = fst ` set (arr_hosts s) - set (pr_removed rep) \<and>
    pr_removed rep = filter (\<lambda>h. \<not> (h \<in> set expected \<and> h \<noteq> [])) (dict_get (arr_host_groups s) g [])"
  using pruning.prune_done [OF assms] by (auto simp: fun_eq_iff)

definition demo_pool :: mock_array where
  "demo_pool = (new_mock ''m'')\<lparr>
     arr_hosts := [(''h1'', no_host), (''h2'', no_host), (''x'', no_host)],
     arr_host_groups := [(''g'', [''h1'', ''h2'']), (''other'', [''x''])]\<rparr>"

definition demo_target :: hypervisor_target where
  "demo_target = \<lparr>tg_id = ''1'', tg_connector_key = ''proxmox'', tg_name = ''pve'', tg_connection = [], tg_secrets = []\<rparr>"

theorem prune_removes_departed_witness:
  "\<exists>rep t l. prune_departed_fa_hosts (mock_context demo_target) ''g'' [''h1''] True (demo_pool, []) = (Inr rep, (t, l)) \<and>
     dict_get (arr_host_groups t) ''g'' [] = [''h1''] \<and> fst ` set (arr_hosts t) = {''h1'', ''x''} \<and>
     pr_removed rep = [''h2'']"
proof -
  obtain rep t l where r: "prune_departed_fa_hosts (mock_context demo_target) ''g'' [''h1''] True (demo_pool, [])
      = (Inr rep, (t, l))"
    by (simp add: prune_departed_fa_hosts_def mock_context_def mock_ops_def on_array_def rec_def run_rules
        mock_get_host_group_members_def mock_remove_host_from_group_def mock_delete_host_def
        remove_departed_def demo_pool_def dict_get_def Let_def)
  have "dict_get (arr_host_groups demo_pool) ''g'' [] = [''h1'', ''h2'']"
    "fst ` set (arr_hosts demo_pool) = {''h1'', ''h2'', ''x''}"
    by (simp_all add: demo_pool_def dict_get_def)
  with prune_removes_departed [OF _ r] r show ?thesis by auto
qed


section \<open>Descriptor, dispatch, and the checks before a datastore\<close>

lemma finite_capabilities: "finite (capabilities c)"
  by (simp add: capabilities_def)

lemma capability_names_inj: "inj_on capability_value A"
  by (simp add: inj_on_def)

text \<open>
  The descriptor the UI reads is well formed: its capabilities are sorted without repetition,
  always contain the connection check, and name exactly what the class supports.
\<close>

theorem descriptor_capabilities:
  "\<exists>names. dict_get (descriptor c) ''capabilities'' JNull = json_strs names \<and> sorted names \<and> distinct names \<and>
     ''connect'' \<in> set names \<and> (\<forall>x. capability_value x \<in> set names \<longleftrightarrow> supports c x)"
proof (intro exI conjI)
  let ?names = "sorted_list_of_set (capability_value ` capabilities c)"
  show "dict_get (descriptor c) ''capabilities'' JNull = json_strs ?names"
    by (simp add: descriptor_def dict_get_def)
  have "''connect'' = capability_value CONNECT" by simp
  then show "''connect'' \<in> set ?names"
    by (simp only: set_sorted_list_of_set [OF finite_imageI [OF finite_capabilities]])
       (simp add: capabilities_def)
  show "\<forall>x. capability_value x \<in> set ?names \<longleftrightarrow> supports c x"
    by (simp add: finite_capabilities image_iff supports_def)
qed simp_all

text \<open>
  What happens to an action id: one that is not in the table fails with a result and never
  raises; one whose operation the connector overrides runs that operation; and one it does not
  override raises the refusal that names the operation's capability, except the assessment of a
  cluster, whose inherited version reports the nodes.
\<close>

theorem dispatch_total:
  "case map_of default_dispatch action_id of
     None \<Rightarrow> \<exists>msg. dispatch c ctx overridden action_id params s = (Inr (op_fail msg [] []), s)
   | Some name \<Rightarrow>
       (case overridden name of
          Some f \<Rightarrow> dispatch c ctx overridden action_id params s = f params s
        | None \<Rightarrow>
            if name = ''assess_cluster''
            then dispatch c ctx overridden action_id params s = (assess_cluster c ctx, s)
            else \<exists>x msg. map_of operation_capability name = Some x \<and>
              dispatch c ctx overridden action_id params s = (Inl (Exn ''CapabilityNotSupported'' msg), s))"
proof (cases "map_of default_dispatch action_id")
  case None
  then show ?thesis by (auto simp: dispatch_def ret_def)
next
  case (Some name)
  then have "name \<in> snd ` set default_dispatch"
    by (metis image_eqI map_of_SomeD snd_conv)
  then have n: "name = ''assess_cluster'' \<or> name \<in> fst ` set operation_capability"
    unfolding default_dispatch_def operation_capability_def by auto
  have a: "map_of operation_capability ''assess_cluster'' = None"
    by (simp add: operation_capability_def)
  show ?thesis
  proof (cases "overridden name")
    case None
    show ?thesis
    proof (cases "name = ''assess_cluster''")
      case True
      then show ?thesis using Some None a
        by (cases "assess_cluster c ctx") (simp_all add: dispatch_def operation_def lift_sum_def ret_def raise_def)
    next
      case False
      then obtain x where "map_of operation_capability name = Some x"
        using n by (metis map_of_eq_None_iff not_None_eq)
      then show ?thesis using Some None False
        by (auto simp: dispatch_def operation_def unsupported_def raise_def)
    qed
  next
    case (Some f)
    then show ?thesis using \<open>map_of default_dispatch action_id = Some name\<close>
      by (simp add: dispatch_def operation_def)
  qed
qed

text \<open>
  A datastore is let through exactly when its hosts can reach it: the check succeeds when the
  host group has a member on the array and fails otherwise, and it changes neither the hosts nor the
  groups.
\<close>

theorem host_objects_required:
  "case require_host_objects (mock_context tgt) hg (s, l) of
     (Inr r, (t, l')) \<Rightarrow> (success r \<longleftrightarrow> hg \<noteq> [] \<and> dict_get (arr_host_groups s) hg [] \<noteq> []) \<and>
       arr_hosts t = arr_hosts s \<and> arr_host_groups t = arr_host_groups s
   | (Inl e, _) \<Rightarrow> False"
  by (cases "hg = []"; cases "dict_get (arr_host_groups s) hg [] = []")
     (simp_all add: require_host_objects_def mock_context_def mock_ops_def on_array_def rec_def run_rules
        mock_get_host_group_members_def Let_def)

lemma resolved_serials_quiet: "never_raises (resolved_serials a vs)"
proof (induction vs)
  case Nil
  show ?case by (simp add: quiet_ret)
next
  case (Cons v vs)
  then show ?case
    by (auto intro!: quiet_bnd quiet_tryc quiet_ret)
qed

text \<open>
  Looking up the device names of a VM's disks is best effort: it never raises, whatever the
  array answers, and every name it returns is the WWID of some non-empty serial.
\<close>

theorem disk_wwids_total:
  "\<exists>ws t serials. disk_wwids ctx ds s = (Inr ws, t) \<and> ws = map scsi_wwid serials \<and> [] \<notin> set serials"
proof -
  have "never_raises (case ctx_array ctx of None \<Rightarrow> ret []
          | Some a \<Rightarrow> resolved_serials a (map (fa_volume \<circ> identity) ds))"
    by (cases "ctx_array ctx") (simp_all add: quiet_ret resolved_serials_quiet)
  then obtain xs t where "(case ctx_array ctx of None \<Rightarrow> ret []
          | Some a \<Rightarrow> resolved_serials a (map (fa_volume \<circ> identity) ds)) s = (Inr xs, t)"
    by (rule never_raises_obtain)
  then have "disk_wwids ctx ds s = (Inr (map scsi_wwid (filter (\<lambda>s. s \<noteq> []) xs)), t)"
    by (simp add: disk_wwids_def bnd_def ret_def wwids_for_def)
  then show ?thesis by fastforce
qed


end
