(* ===== verification/Cinder_Config.thy ===== *)
theory Cinder_Config
  imports Prelude
begin

text \<open>
  The FlashArray backend stanza of \<^verbatim>\<open>cinder.conf\<close>, \<^verbatim>\<open>connectors/openstack/pure.py\<close>: rendering it,
  finding out whether it is there, and extending \<^verbatim>\<open>enabled_backends\<close>. The two regular expressions
  of the file are matchers over the text, with the meaning of Python's \<^verbatim>\<open>re.MULTILINE\<close>.
\<close>

section \<open>Rendering\<close>

definition nl :: char where
  "nl = CHR 0x0A"

definition DRIVER_CLASSES :: "(string \<times> string) list" where
  "DRIVER_CLASSES =
     [(''iscsi'', ''cinder.volume.drivers.pure.PureISCSIDriver''),
      (''fc'', ''cinder.volume.drivers.pure.PureFCDriver''),
      (''nvme-tcp'', ''cinder.volume.drivers.pure.PureNVMEDriver''),
      (''nvme-roce'', ''cinder.volume.drivers.pure.PureNVMEDriver'')]"

definition NVME_TRANSPORTS :: "(string \<times> string) list" where
  "NVME_TRANSPORTS = [(''nvme-tcp'', ''tcp''), (''nvme-roce'', ''roce'')]"

text \<open>The exception is the text of a \<^verbatim>\<open>ValueError\<close>.\<close>

definition driver_class_for :: "string \<Rightarrow> string + string" where
  "driver_class_for protocol =
     (case map_of DRIVER_CLASSES protocol of
        Some d \<Rightarrow> Inr d
      | None \<Rightarrow> Inl (''Unsupported OpenStack/Cinder protocol '' @ py_repr protocol @ ''; expected one of [''
          @ join '', '' (map py_repr (sort (map fst DRIVER_CLASSES))) @ '']''))"

record stanza_args =
  backend_name :: string
  protocol :: string
  san_ip :: string
  pure_api_token :: string
  eradicate_on_delete :: bool
  use_multipath_for_image_xfer :: bool
  replication_device :: "string option"
  pure_iscsi_cidr :: "string option"
  pure_iscsi_cidr_list :: "string option"
  nvme_options :: "string option"

definition setting :: "string \<Rightarrow> string option \<Rightarrow> string list" where
  "setting key x = (case nonempty x of None \<Rightarrow> [] | Some v \<Rightarrow> [key @ '' = '' @ v])"

definition stanza_lines :: "stanza_args \<Rightarrow> string \<Rightarrow> string list" where
  "stanza_lines a driver =
     [''['' @ backend_name a @ '']'',
      ''volume_backend_name = '' @ backend_name a,
      ''volume_driver = '' @ driver,
      ''san_ip = '' @ san_ip a,
      ''pure_api_token = '' @ pure_api_token a,
      ''use_multipath_for_image_xfer = '' @ lower (show_bool (use_multipath_for_image_xfer a)),
      ''pure_eradicate_on_delete = '' @ lower (show_bool (eradicate_on_delete a))]
     @ (if protocol a = ''iscsi''
        then setting ''pure_iscsi_cidr'' (pure_iscsi_cidr a) @ setting ''pure_iscsi_cidr_list'' (pure_iscsi_cidr_list a)
        else [])
     @ (case map_of NVME_TRANSPORTS (protocol a) of
          None \<Rightarrow> []
        | Some t \<Rightarrow> (''pure_nvme_transport = '' @ t)
            # (case nonempty (nvme_options a) of
                 None \<Rightarrow> []
               | Some opts \<Rightarrow> filter (\<lambda>opt. opt \<noteq> []) (map strip (splitlines opts))))
     @ setting ''replication_device'' (replication_device a)"

definition render_stanza :: "stanza_args \<Rightarrow> string + string" where
  "render_stanza a =
     (case driver_class_for (protocol a) of
        Inl e \<Rightarrow> Inl e
      | Inr driver \<Rightarrow> Inr (join [nl] (stanza_lines a driver) @ [nl]))"

section \<open>Reading\<close>

text \<open>\<^verbatim>\<open>\s*$\<close>: white space up to an end of line.\<close>

fun blank_to_eol :: "string \<Rightarrow> bool" where
  "blank_to_eol [] = True"
| "blank_to_eol (c # cs) = (c = nl \<or> is_space c \<and> blank_to_eol cs)"

text \<open>A search: \<open>m\<close> tried at the start of the text and after every line break.\<close>

fun search_lines :: "(string \<Rightarrow> 'a option) \<Rightarrow> bool \<Rightarrow> string \<Rightarrow> 'a option" where
  "search_lines m at_start s =
     (case (if at_start then m s else None) of
        Some x \<Rightarrow> Some x
      | None \<Rightarrow> (case s of [] \<Rightarrow> None | c # cs \<Rightarrow> search_lines m (c = nl) cs))"

declare search_lines.simps [simp del]

text \<open>\<^verbatim>\<open>^\s*\[name\]\s*$\<close>\<close>

definition section_here :: "string \<Rightarrow> string \<Rightarrow> unit option" where
  "section_here name s =
     (let t = lstrip s; head = ''['' @ name @ '']'' in
      if starts_with head t \<and> blank_to_eol (drop (length head) t) then Some () else None)"

definition stanza_exists :: "string \<Rightarrow> string \<Rightarrow> bool" where
  "stanza_exists conf name = (search_lines (section_here name) True conf \<noteq> None)"

text \<open>\<^verbatim>\<open>^\s*enabled_backends\s*=\s*(.*)$\<close>: the white space behind the equals sign may span lines.\<close>

definition backends_here :: "string \<Rightarrow> string option" where
  "backends_here s =
     (let t = lstrip s; key = ''enabled_backends''; u = lstrip (drop (length key) t) in
      if starts_with key t \<and> starts_with ''='' u
      then Some (takeWhile (\<lambda>c. c \<noteq> nl) (lstrip (drop 1 u)))
      else None)"

definition build_enabled_backends :: "string \<Rightarrow> string \<Rightarrow> string option" where
  "build_enabled_backends conf name =
     (case search_lines backends_here True conf of
        None \<Rightarrow> Some name
      | Some value \<Rightarrow>
          (let existing = filter (\<lambda>b. b \<noteq> []) (map strip (split_on '','' value)) in
           if name \<in> set existing then None else Some (join '','' (existing @ [name]))))"

section \<open>A rendered stanza is found again\<close>

lemma search_lines_here: "m s = Some x \<Longrightarrow> search_lines m True s = Some x"
  by (subst search_lines.simps) simp

lemma search_lines_later: "m v = Some x \<Longrightarrow> search_lines m b (u @ nl # v) \<noteq> None"
proof (induction u arbitrary: b)
  case Nil
  then show ?case
    by (subst search_lines.simps) (simp add: search_lines_here split: option.splits)
next
  case (Cons c u)
  then show ?case
    by (subst search_lines.simps) (simp split: option.splits)
qed

lemma section_here_line: "section_here name (''['' @ name @ '']'' @ nl # rest) = Some ()"
proof -
  have "lstrip (''['' @ t) = ''['' @ t" for t :: string
    by (simp add: lstrip_def is_space_def)
  from this [of "name @ '']'' @ nl # rest"] show ?thesis
    by (simp add: section_here_def Let_def starts_with_def)
qed

text \<open>
  A rendered stanza is recognised: in a configuration to which it was appended, whatever was
  there before and whatever the name, the check finds the section, so a second deployment does
  not add it again.
\<close>

theorem rendered_stanza_exists:
  assumes "render_stanza a = Inr text"
  shows "stanza_exists (conf @ nl # text) (backend_name a)"
proof -
  obtain driver where "text = join [nl] (stanza_lines a driver) @ [nl]"
    using assms by (auto simp: render_stanza_def split: sum.splits)
  moreover obtain l ls where "stanza_lines a driver = (''['' @ backend_name a @ '']'') # l # ls"
    by (simp add: stanza_lines_def)
  ultimately have "text = ''['' @ backend_name a @ '']'' @ nl # join [nl] (l # ls) @ [nl]"
    by simp
  then have "section_here (backend_name a) text = Some ()"
    by (simp only: section_here_line)
  then show ?thesis
    unfolding stanza_exists_def by (rule search_lines_later)
qed

definition demo_stanza :: stanza_args where
  "demo_stanza = \<lparr>backend_name = ''pure'', protocol = ''iscsi'', san_ip = ''10.0.0.9'', pure_api_token = ''tok'',
     eradicate_on_delete = False, use_multipath_for_image_xfer = True, replication_device = None,
     pure_iscsi_cidr = Some ''10.0.0.0/24'', pure_iscsi_cidr_list = None, nvme_options = None\<rparr>"

theorem rendered_stanza_exists_witness:
  "\<exists>text. render_stanza demo_stanza = Inr text \<and>
     stanza_exists (''[DEFAULT]'' @ nl # text) ''pure''"
proof -
  obtain out where t: "render_stanza demo_stanza = Inr out"
    by (simp add: render_stanza_def driver_class_for_def DRIVER_CLASSES_def demo_stanza_def)
  from rendered_stanza_exists [OF t] have "stanza_exists (''[DEFAULT]'' @ nl # out) (backend_name demo_stanza)" .
  with t show ?thesis by (auto simp: demo_stanza_def)
qed

section \<open>The list of backends\<close>

text \<open>A name that can stand in the list.\<close>

definition list_name :: "string \<Rightarrow> bool" where
  "list_name n \<longleftrightarrow> n \<noteq> [] \<and> strip n = n \<and> CHR '','' \<notin> set n \<and> nl \<notin> set n"

lemma list_name_hd: "list_name n \<Longrightarrow> \<not> is_space (hd n)"
  by (metis list_name_def strip_def lstrip_rstrip lstrip_def dropWhile_Nil_or_hd)

lemma split_on_chars:
  assumes "p \<in> set (split_on [c] s)"
  shows "c \<notin> set p \<and> set p \<subseteq> set s"
proof -
  have "p \<in> set (split_acc [c] acc s) \<Longrightarrow> c \<notin> set acc \<Longrightarrow> c \<notin> set p \<and> set p \<subseteq> set acc \<union> set s" for acc
    by (induction s arbitrary: acc) (fastforce simp: starts_with_singleton split: if_splits)+
  with assms show ?thesis by (fastforce simp: split_on_def)
qed

lemma strip_subset: "set (strip s) \<subseteq> set s"
proof
  fix c
  assume "c \<in> set (strip s)"
  then have "c \<in> set (dropWhile is_space (rev (dropWhile is_space s)))"
    by (simp add: strip_def rstrip_def lstrip_def)
  then have "c \<in> set (rev (dropWhile is_space s))" by (rule set_dropWhileD)
  then show "c \<in> set s" by (auto dest: set_dropWhileD)
qed

lemma existing_names:
  assumes "nl \<notin> set value" and "x \<in> set (filter (\<lambda>b. b \<noteq> []) (map strip (split_on '','' value)))"
  shows "list_name x"
proof -
  obtain p where p: "p \<in> set (split_on '','' value)" and x: "x = strip p" "x \<noteq> []"
    using assms(2) by auto
  have "set x \<subseteq> set p" using strip_subset x by simp
  then have "CHR '','' \<notin> set x" "nl \<notin> set x"
    using split_on_chars [OF p] assms(1) by auto
  with x show ?thesis by (simp add: list_name_def)
qed

lemma nl_not_space: "is_space nl"
  by (simp add: nl_def is_space_def)

lemma backends_here_line:
  assumes "v \<noteq> []" and "\<not> is_space (hd v)" and "nl \<notin> set v"
  shows "backends_here (''enabled_backends = '' @ v @ nl # rest) = Some v"
proof -
  have "\<not> is_space (CHR ''e'')" "\<not> is_space (CHR ''='')" "is_space (CHR '' '')"
    by (simp_all add: is_space_def)
  moreover have "lstrip (v @ nl # rest) = v @ nl # rest"
    using assms(1,2) by (cases v) (simp_all add: lstrip_def)
  moreover have "takeWhile (\<lambda>c. c \<noteq> nl) (v @ nl # rest) = v"
    using assms(3) by (subst takeWhile_append2) auto
  ultimately show ?thesis
    by (simp add: backends_here_def Let_def starts_with_def lstrip_def)
qed

lemma list_parses:
  assumes "\<forall>x \<in> set xs. list_name x" and "xs \<noteq> []"
  shows "filter (\<lambda>b. b \<noteq> []) (map strip (split_on '','' (join '','' xs))) = xs"
proof -
  have "split_on '','' (join '','' xs) = xs"
    using assms by (intro split_on_join) (auto simp: list_name_def)
  moreover have "map strip xs = xs" "filter (\<lambda>b. b \<noteq> []) xs = xs"
    using assms(1) by (auto simp: list_name_def map_idI filter_id_conv)
  ultimately show ?thesis by simp
qed

lemma list_line:
  assumes "\<forall>x \<in> set xs. list_name x" and "xs \<noteq> []"
  shows "search_lines backends_here True (''enabled_backends = '' @ join '','' xs @ nl # rest) = Some (join '','' xs)"
proof (rule search_lines_here, rule backends_here_line)
  obtain x ys where xs: "xs = x # ys" using assms(2) by (cases xs) auto
  obtain t where t: "join '','' xs = x @ t"
    using join_not_Nil_first [OF assms(2), of "'',''"] xs by auto
  have x: "x \<noteq> []" "\<not> is_space (hd x)" using assms(1) xs list_name_hd by (auto simp: list_name_def)
  show "join '','' xs \<noteq> []" "\<not> is_space (hd (join '','' xs))" using x by (simp_all add: t)
  show "nl \<notin> set (join '','' xs)"
    using set_join [of "'',''" xs] assms(1) by (fastforce simp: list_name_def nl_def)
qed

text \<open>
  Adding a backend is idempotent and keeps the others: once the new value is written at the top
  of a configuration, every backend listed before and the new one are read back from it, and asking
  for the same backend again changes nothing.
\<close>

theorem enabled_backends_roundtrip:
  assumes "list_name name" and "search_lines backends_here True conf = Some before"
    and "build_enabled_backends conf name = Some v"
  shows "build_enabled_backends (''enabled_backends = '' @ v @ nl # rest) name = None \<and>
    filter (\<lambda>b. b \<noteq> []) (map strip (split_on '','' v)) =
      filter (\<lambda>b. b \<noteq> []) (map strip (split_on '','' before)) @ [name]"
proof -
  let ?old = "filter (\<lambda>b. b \<noteq> []) (map strip (split_on '','' before))"
  have nl: "nl \<notin> set before"
  proof -
    have here: "backends_here s = Some w \<Longrightarrow> nl \<notin> set w" for s w
      by (auto simp: backends_here_def Let_def split: if_splits dest: set_takeWhileD)
    have "search_lines backends_here b s = Some w \<Longrightarrow> nl \<notin> set w" for b s w
    proof (induction s arbitrary: b)
      case Nil
      then show ?case
        by (subst (asm) search_lines.simps) (auto split: if_splits option.splits dest: here)
    next
      case (Cons c s)
      from Cons.prems have "backends_here (c # s) = Some w \<or> search_lines backends_here (c = nl) s = Some w"
        by (subst (asm) search_lines.simps) (auto split: if_splits option.splits)
      then show ?case
        using Cons.IH here by blast
    qed
    with assms(2) show ?thesis by blast
  qed
  have v: "v = join '','' (?old @ [name])"
    using assms(2,3) by (auto simp: build_enabled_backends_def Let_def split: if_splits)
  have wf: "\<forall>x \<in> set (?old @ [name]). list_name x"
    using existing_names [OF nl] assms(1) by auto
  have parsed: "filter (\<lambda>b. b \<noteq> []) (map strip (split_on '','' v)) = ?old @ [name]"
    unfolding v using wf by (intro list_parses) auto
  have "search_lines backends_here True (''enabled_backends = '' @ v @ nl # rest) = Some v"
    unfolding v using wf by (intro list_line) auto
  with parsed show ?thesis by (simp add: build_enabled_backends_def Let_def)
qed

theorem enabled_backends_roundtrip_witness:
  "build_enabled_backends (''enabled_backends = '' @ ''lvm,pure'' @ nl # ''[lvm]'') ''pure'' = None"
proof -
  have n: "list_name ''pure''" by code_simp
  have s: "search_lines backends_here True (''enabled_backends=lvm'') = Some ''lvm''" by code_simp
  have b: "build_enabled_backends (''enabled_backends=lvm'') ''pure'' = Some ''lvm,pure''" by code_simp
  from enabled_backends_roundtrip [OF n s b, of "''[lvm]''"] show ?thesis by blast
qed

text \<open>
  An empty list swallows the line below it: white space in the pattern spans line breaks, so
  where \<^verbatim>\<open>enabled_backends =\<close> is empty, the next line of the file is taken for a backend.
\<close>

theorem empty_backends_swallow_next_line:
  "build_enabled_backends (''enabled_backends ='' @ nl # ''debug = true'') ''pure'' = Some ''debug = true,pure''"
  by code_simp


end
