(* ===== verification/Group_Runner.thy ===== *)
theory Group_Runner
  imports Actions
begin

text \<open>
  Migration groups: the batch runner of \<^verbatim>\<open>migrate/service.py\<close> (\<^verbatim>\<open>run_migration_group\<close> with its
  member coroutines, \<^verbatim>\<open>_launch_and_wait_member\<close>, \<^verbatim>\<open>run_migration\<close> and \<^verbatim>\<open>_group_update_member\<close>) and
  the handlers of \<^verbatim>\<open>api/migrations.py\<close> that act on a group while it runs.

  The coroutines of a runner interleave at their \<^verbatim>\<open>await\<close>s. A \<open>move\<close> is what one coroutine does
  between two of them, or one request of the API, or a job's report on its migration; \<open>move\<close>s
  happen in any order, and \<open>step\<close> says what each does and when it can happen. A database
  transaction is one move. Every point where the code awaits something that may raise has a move
  for it, and a bookkeeping write, which gives up silently after three attempts, has a flag that
  says whether it went through.
\<close>

section \<open>The tables\<close>

record group_member =
  mem_source :: string
  mem_dest :: string
  mem_vm_ref :: string
  mem_network_map :: dict
  mem_options :: dict
  mem_status :: string
  mem_migration :: "string option"
  mem_job :: "string option"
  mem_error :: "string option"

record group_row =
  grp_status :: string
  grp_concurrency :: int
  grp_continue_on_error :: bool
  grp_options :: dict
  grp_members :: "group_member list"

record migration_row =
  mig_source :: string
  mig_dest :: string
  mig_vm_ref :: string
  mig_network_map :: dict
  mig_options :: dict
  mig_status :: string
  mig_job :: "string option"
  mig_message :: "string option"

definition GROUP_TERMINAL :: "string list" where
  "GROUP_TERMINAL = [''succeeded'', ''failed'', ''rolled_back'', ''skipped'']"

section \<open>The runner\<close>

text \<open>
  Where a member's coroutine is: waiting for the semaphore; about to look whether it may start;
  about to write that it is skipped; about to launch; about to write the ids of its migration
  (migration and job); polling (how often it has polled); about to write its final status.
\<close>

datatype task =
    Waiting
  | Checking
  | Skipping
  | Launching
  | Recording string string
  | Polling string nat
  | Closing string "string option"
  | Finished

record runner =
  tasks :: "task list"
  permits :: nat
  stop :: bool
  keep_going :: bool

record world =
  hypervisors :: "(string \<times> string option) list"
  migrations :: "(string \<times> migration_row) list"
  group :: "group_row option"
  runner_of :: "runner option"

datatype move =
    Begin
  | Acquire nat
  | Check nat
  | Check_raises nat
  | Write_skip nat bool
  | Launch nat string string
  | Job_raises nat string exn
  | Launch_raises nat exn
  | Record nat bool
  | Poll nat
  | Poll_raises nat exn
  | Close nat bool
  | Finish
  | Cancel
  | Rerun
  | Delete
  | Report string string "string option"

section \<open>Bookkeeping\<close>

text \<open>\<^verbatim>\<open>_group_update_member\<close>\<close>

definition update_member :: "nat \<Rightarrow> (group_member \<Rightarrow> group_member) \<Rightarrow> world \<Rightarrow> world" where
  "update_member i f w =
     (case group w of
        None \<Rightarrow> w
      | Some g \<Rightarrow>
          if i < length (grp_members g)
          then w\<lparr>group := Some (g\<lparr>grp_members := (grp_members g)[i := f (grp_members g ! i)]\<rparr>)\<rparr>
          else w)"

definition set_task :: "nat \<Rightarrow> task \<Rightarrow> runner \<Rightarrow> runner" where
  "set_task i t r = r\<lparr>tasks := (tasks r)[i := t]\<rparr>"

text \<open>The end of a member's coroutine: it leaves the semaphore.\<close>

definition leave :: "nat \<Rightarrow> runner \<Rightarrow> runner" where
  "leave i r = (set_task i Finished r)\<lparr>permits := permits r + 1\<rparr>"

text \<open>\<^verbatim>\<open>if st != "succeeded" and not continue_on_error: state["stop"] = True\<close>\<close>

definition note_outcome :: "string \<Rightarrow> runner \<Rightarrow> runner" where
  "note_outcome st r = (if st \<noteq> ''succeeded'' \<and> \<not> keep_going r then r\<lparr>stop := True\<rparr> else r)"

text \<open>The coroutine \<open>i\<close> is at \<open>t\<close>.\<close>

definition at_task :: "nat \<Rightarrow> runner \<Rightarrow> task option" where
  "at_task i r = (if i < length (tasks r) then Some (tasks r ! i) else None)"

section \<open>Launching\<close>

text \<open>
  \<^verbatim>\<open>run_migration\<close>, up to the job: the exception of a missing hypervisor, or the row it inserts.
  Different arrays make it a cross-array migration.
\<close>

definition new_migration ::
  "(string \<times> string option) list \<Rightarrow> string \<Rightarrow> string \<Rightarrow> string \<Rightarrow> dict \<Rightarrow> dict \<Rightarrow> exn + migration_row" where
  "new_migration hvs src dst ref netmap options =
     (case (map_of hvs src, map_of hvs dst) of
        (Some a, Some b) \<Rightarrow>
          (let cross = (case (nonempty a, nonempty b) of (Some x, Some y) \<Rightarrow> x \<noteq> y | _ \<Rightarrow> False) in
           Inr \<lparr>mig_source = src, mig_dest = dst, mig_vm_ref = ref, mig_network_map = netmap,
                mig_options = AList.update ''cross_array'' (JBool cross) options,
                mig_status = ''pending'', mig_job = None, mig_message = None\<rparr>)
      | _ \<Rightarrow> Inl (Exn ''ValueError'' ''source or destination hypervisor not found''))"

text \<open>\<^verbatim>\<open>opts = dict(group options); opts.update(member options)\<close>\<close>

definition merged_options :: "dict \<Rightarrow> dict \<Rightarrow> dict" where
  "merged_options base extra = fold (\<lambda>(k, v). AList.update k v) extra base"

definition member_migration :: "world \<Rightarrow> group_row \<Rightarrow> nat \<Rightarrow> exn + migration_row" where
  "member_migration w g i =
     (let m = grp_members g ! i in
      new_migration (hypervisors w) (mem_source m) (mem_dest m) (mem_vm_ref m) (mem_network_map m)
        (merged_options (grp_options g) (mem_options m)))"

text \<open>\<^verbatim>\<open>while waited <= timeout_s\<close>, five seconds a round.\<close>

definition poll_again :: "nat \<Rightarrow> bool" where
  "poll_again n \<longleftrightarrow> 5 * n \<le> 7200"

text \<open>What polling sees of a migration: its status, and the message of a failure.\<close>

definition poll_status :: "world \<Rightarrow> string \<Rightarrow> string \<times> string option" where
  "poll_status w mid =
     (case map_of (migrations w) mid of
        None \<Rightarrow> (''failed'', None)
      | Some m \<Rightarrow> (mig_status m,
          if mig_status m = ''failed'' \<or> mig_status m = ''rolled_back'' then mig_message m else None))"

section \<open>The group\<close>

definition begin_runner :: "group_row \<Rightarrow> runner" where
  "begin_runner g =
     \<lparr>tasks = map (\<lambda>m. if (if mem_status m = [] then ''pending'' else mem_status m) \<in> set GROUP_TERMINAL
                        then Finished else Waiting) (grp_members g),
      permits = nat (max 1 (if grp_concurrency g = 0 then 1 else grp_concurrency g)),
      stop = False, keep_going = grp_continue_on_error g\<rparr>"

definition final_status :: "group_row \<Rightarrow> string" where
  "final_status g =
     (let sts = map (\<lambda>m. if mem_status m = [] then ''pending'' else mem_status m) (grp_members g) in
      if sts \<noteq> [] \<and> list_all (\<lambda>x. x = ''succeeded'') sts then ''succeeded''
      else if list_all (\<lambda>x. x \<in> {''failed'', ''rolled_back'', ''skipped''}) sts then ''failed''
      else ''partial'')"

text \<open>The handlers: an HTTP status with its detail, or the row they commit.\<close>

definition cancel_migration_group :: "group_row option \<Rightarrow> (nat \<times> string) + group_row" where
  "cancel_migration_group row =
     (case row of
        None \<Rightarrow> Inl (404, ''Migration group not found'')
      | Some g \<Rightarrow>
          if grp_status g \<in> {''succeeded'', ''failed'', ''partial'', ''canceled''}
          then Inl (409, ''Group is already '' @ grp_status g)
          else Inr (g\<lparr>grp_status := ''canceled''\<rparr>))"

definition reset_member :: "group_member \<Rightarrow> group_member" where
  "reset_member m =
     (if (if mem_status m = [] then ''pending'' else mem_status m) \<noteq> ''succeeded''
      then m\<lparr>mem_status := ''pending'', mem_error := None, mem_migration := None, mem_job := None\<rparr>
      else m)"

definition run_migration_group_now :: "group_row option \<Rightarrow> (nat \<times> string) + group_row" where
  "run_migration_group_now row =
     (case row of
        None \<Rightarrow> Inl (404, ''Migration group not found'')
      | Some g \<Rightarrow>
          if grp_status g = ''running'' then Inl (409, ''Group is already running'')
          else if grp_status g = ''succeeded''
          then Inl (409, ''Group already succeeded '' @ [CHR 0xE2, CHR 0x80, CHR 0x94] @ '' nothing to re-run'')
          else Inr (g\<lparr>grp_members := map reset_member (grp_members g), grp_status := ''pending''\<rparr>))"

text \<open>Deleting: \<open>None\<close> is a group that is not there any more.\<close>

definition delete_migration_group :: "group_row option \<Rightarrow> (nat \<times> string) + group_row option" where
  "delete_migration_group row =
     (case row of
        None \<Rightarrow> Inr None
      | Some g \<Rightarrow> if grp_status g = ''running'' then Inl (409, ''Cancel the group before deleting it'') else Inr None)"

section \<open>One move\<close>

text \<open>A move of the coroutine \<open>i\<close> that is at the right place, and what it makes of the world.\<close>

definition member_move ::
  "nat \<Rightarrow> (task \<Rightarrow> runner \<Rightarrow> world \<Rightarrow> (runner \<times> world) option) \<Rightarrow> world \<Rightarrow> world option" where
  "member_move i f w =
     (case runner_of w of
        None \<Rightarrow> None
      | Some r \<Rightarrow>
          (case at_task i r of
             None \<Rightarrow> None
           | Some t \<Rightarrow> map_option (\<lambda>(r', w'). w'\<lparr>runner_of := Some r'\<rparr>) (f t r w)))"

fun step :: "move \<Rightarrow> world \<Rightarrow> world option" where
  "step Begin w =
     (case (runner_of w, group w) of
        (None, Some g) \<Rightarrow>
          if grp_status g \<in> {''succeeded'', ''failed'', ''partial'', ''canceled''} then None
          else Some (w\<lparr>group := Some (g\<lparr>grp_status := ''running''\<rparr>), runner_of := Some (begin_runner g)\<rparr>)
      | _ \<Rightarrow> None)"
| "step (Acquire i) w = member_move i (\<lambda>t r w.
     if t = Waiting \<and> 0 < permits r then Some ((set_task i Checking r)\<lparr>permits := permits r - 1\<rparr>, w) else None) w"
| "step (Check i) w = member_move i (\<lambda>t r w.
     if t = Checking
     then Some (set_task i
       (if stop r \<or> (case group w of None \<Rightarrow> False | Some g \<Rightarrow> grp_status g = ''canceled'') then Skipping else Launching) r, w)
     else None) w"
| "step (Check_raises i) w = member_move i (\<lambda>t r w.
     if t = Checking \<and> \<not> stop r then Some (leave i r, w) else None) w"
| "step (Write_skip i written) w = member_move i (\<lambda>t r w.
     if t = Skipping
     then Some (leave i r, if written then update_member i (\<lambda>m. m\<lparr>mem_status := ''skipped''\<rparr>) w else w)
     else None) w"
| "step (Launch i mid jid) w = member_move i (\<lambda>t r w.
     if t \<noteq> Launching then None
     else case group w of
       None \<Rightarrow> Some (note_outcome ''failed'' (leave i r), w)
     | Some g \<Rightarrow>
         if length (grp_members g) \<le> i then Some (set_task i (Closing ''failed'' (Some ''IndexError: list index out of range'')) r, w)
         else if mid \<in> fst ` set (migrations w) then None
         else case member_migration w g i of
           Inl e \<Rightarrow> Some (set_task i (Closing ''failed'' (Some (describe_exn e))) r, w)
         | Inr row \<Rightarrow> Some (set_task i (Recording mid jid) r,
             w\<lparr>migrations := AList.update mid (row\<lparr>mig_job := Some jid\<rparr>) (migrations w)\<rparr>)) w"
| "step (Job_raises i mid e) w = member_move i (\<lambda>t r w.
     if t \<noteq> Launching then None
     else case group w of
       None \<Rightarrow> None
     | Some g \<Rightarrow>
         if length (grp_members g) \<le> i \<or> mid \<in> fst ` set (migrations w) then None
         else case member_migration w g i of
           Inl _ \<Rightarrow> None
         | Inr row \<Rightarrow> Some (set_task i (Closing ''failed'' (Some (describe_exn e))) r,
             w\<lparr>migrations := AList.update mid row (migrations w)\<rparr>)) w"
| "step (Launch_raises i e) w = member_move i (\<lambda>t r w.
     if t = Launching then Some (set_task i (Closing ''failed'' (Some (describe_exn e))) r, w) else None) w"
| "step (Record i written) w = member_move i (\<lambda>t r w.
     case t of
       Recording mid jid \<Rightarrow> Some (set_task i (Polling mid 0) r,
         if written then update_member i (\<lambda>m. m\<lparr>mem_migration := Some mid, mem_job := Some jid,
           mem_status := ''running''\<rparr>) w else w)
     | _ \<Rightarrow> None) w"
| "step (Poll i) w = member_move i (\<lambda>t r w.
     case t of
       Polling mid n \<Rightarrow>
         (let (st, err) = poll_status w mid in
          if st \<in> {''succeeded'', ''failed'', ''rolled_back''} then Some (set_task i (Closing st err) r, w)
          else if poll_again (n + 1) then Some (set_task i (Polling mid (n + 1)) r, w)
          else Some (set_task i (Closing ''failed'' (Some ''timed out waiting for migration to finish'')) r, w))
     | _ \<Rightarrow> None) w"
| "step (Poll_raises i e) w = member_move i (\<lambda>t r w.
     case t of
       Polling mid n \<Rightarrow> Some (set_task i (Closing ''failed'' (Some (describe_exn e))) r, w)
     | _ \<Rightarrow> None) w"
| "step (Close i written) w = member_move i (\<lambda>t r w.
     case t of
       Closing st err \<Rightarrow> Some (note_outcome st (leave i r),
         if written then update_member i (\<lambda>m. m\<lparr>mem_status := st, mem_error := err\<rparr>) w else w)
     | _ \<Rightarrow> None) w"
| "step Finish w =
     (case runner_of w of
        None \<Rightarrow> None
      | Some r \<Rightarrow>
          if \<not> list_all (\<lambda>t. t = Finished) (tasks r) then None
          else Some (w\<lparr>runner_of := None,
            group := map_option (\<lambda>g. if grp_status g = ''canceled'' then g else g\<lparr>grp_status := final_status g\<rparr>) (group w)\<rparr>))"
| "step Cancel w = (case cancel_migration_group (group w) of Inl _ \<Rightarrow> None | Inr g \<Rightarrow> Some (w\<lparr>group := Some g\<rparr>))"
| "step Rerun w = (case run_migration_group_now (group w) of Inl _ \<Rightarrow> None | Inr g \<Rightarrow> Some (w\<lparr>group := Some g\<rparr>))"
| "step Delete w = (case delete_migration_group (group w) of Inl _ \<Rightarrow> None | Inr g \<Rightarrow> Some (w\<lparr>group := g\<rparr>))"
| "step (Report mid st msg) w =
     (case map_of (migrations w) mid of
        None \<Rightarrow> None
      | Some m \<Rightarrow> Some (w\<lparr>migrations := AList.update mid (m\<lparr>mig_status := st, mig_message := msg\<rparr>) (migrations w)\<rparr>))"

text \<open>A run: moves in a row, each of them possible.\<close>

fun run :: "move list \<Rightarrow> world \<Rightarrow> world option" where
  "run [] w = Some w"
| "run (m # ms) w = (case step m w of None \<Rightarrow> None | Some w' \<Rightarrow> run ms w')"

end
