(* ===== verification/Group_Safety.thy ===== *)
theory Group_Safety
  imports Group_Runner
begin

text \<open>
  What holds of every interleaving of a group's coroutines: the concurrency bound, that a runner
  comes to its end and is never stuck, what stops launches, and that no member is forgotten.
\<close>

section \<open>One member's move\<close>

fun mover :: "move \<Rightarrow> nat option" where
  "mover (Acquire i) = Some i"
| "mover (Check i) = Some i"
| "mover (Check_raises i) = Some i"
| "mover (Write_skip i _) = Some i"
| "mover (Launch i _ _) = Some i"
| "mover (Job_raises i _ _) = Some i"
| "mover (Launch_raises i _) = Some i"
| "mover (Record i _) = Some i"
| "mover (Poll i) = Some i"
| "mover (Poll_raises i _) = Some i"
| "mover (Close i _) = Some i"
| "mover _ = None"

definition holding :: "task \<Rightarrow> bool" where
  "holding t \<longleftrightarrow> t \<noteq> Waiting \<and> t \<noteq> Finished"

definition held :: "runner \<Rightarrow> nat" where
  "held r = length (filter holding (tasks r))"

text \<open>How many moves a coroutine has left at most.\<close>

fun rank :: "task \<Rightarrow> nat" where
  "rank Finished = 0"
| "rank (Closing _ _) = 1"
| "rank Skipping = 1"
| "rank (Polling _ n) = 2 + (1441 - n)"
| "rank (Recording _ _) = 1444"
| "rank Launching = 1445"
| "rank Checking = 1446"
| "rank Waiting = 1447"

lemma member_moveE:
  assumes "member_move i f w = Some w'"
  obtains r t r' v where "runner_of w = Some r" and "i < length (tasks r)" and "tasks r ! i = t"
    and "f t r w = Some (r', v)" and "w' = v\<lparr>runner_of := Some r'\<rparr>"
  using assms by (auto simp: member_move_def at_task_def split: option.splits if_splits)

lemma update_member_same [simp]:
  "runner_of (update_member i f w) = runner_of w" "hypervisors (update_member i f w) = hypervisors w"
  "migrations (update_member i f w) = migrations w"
  by (simp_all add: update_member_def split: option.splits)

lemma note_outcome_same [simp]:
  "tasks (note_outcome st r) = tasks r" "permits (note_outcome st r) = permits r"
  "keep_going (note_outcome st r) = keep_going r"
  by (simp_all add: note_outcome_def)

lemma stop_note_outcome: "stop (note_outcome st r) \<longleftrightarrow> stop r \<or> st \<noteq> ''succeeded'' \<and> \<not> keep_going r"
  by (simp add: note_outcome_def)

lemma leave_same [simp]:
  "tasks (leave i r) = (tasks r)[i := Finished]" "permits (leave i r) = permits r + 1"
  "stop (leave i r) = stop r" "keep_going (leave i r) = keep_going r"
  by (simp_all add: leave_def set_task_def)

lemma set_task_same [simp]:
  "tasks (set_task i t r) = (tasks r)[i := t]" "permits (set_task i t r) = permits r"
  "stop (set_task i t r) = stop r" "keep_going (set_task i t r) = keep_going r"
  by (simp_all add: set_task_def)

text \<open>Every move of a coroutine takes it forward, and accounts for the semaphore.\<close>

definition forward :: "nat \<Rightarrow> runner \<Rightarrow> runner \<Rightarrow> bool" where
  "forward i r r' \<longleftrightarrow> i < length (tasks r) \<and> (\<exists>t. tasks r' = (tasks r)[i := t] \<and> rank t < rank (tasks r ! i) \<and>
     permits r' + (if holding t then 1 else 0) = permits r + (if holding (tasks r ! i) then 1 else 0)) \<and>
     (stop r \<longrightarrow> stop r') \<and> keep_going r' = keep_going r"

lemma forwardI:
  assumes "i < length (tasks r)" and "tasks r' = (tasks r)[i := t]" and "rank t < rank (tasks r ! i)"
    and "permits r' + (if holding t then 1 else 0) = permits r + (if holding (tasks r ! i) then 1 else 0)"
    and "stop r \<longrightarrow> stop r'" and "keep_going r' = keep_going r"
  shows "forward i r r'"
  using assms unfolding forward_def by blast

lemma member_step:
  assumes "step m w = Some w'" and "mover m = Some i"
  obtains r r' where "runner_of w = Some r" and "runner_of w' = Some r'" and "forward i r r'"
proof -
  have "\<exists>r r'. runner_of w = Some r \<and> runner_of w' = Some r' \<and> forward i r r'"
    using assms
  proof (cases m)
    case (Launch j mid jid)
    with assms show ?thesis
      by (auto elim!: member_moveE split: if_splits option.splits sum.splits
          intro!: forwardI simp: holding_def stop_note_outcome)
  next
    case (Job_raises j mid e)
    with assms show ?thesis
      by (auto elim!: member_moveE split: if_splits option.splits sum.splits intro!: forwardI simp: holding_def)
  next
    case (Poll j)
    with assms show ?thesis
      by (auto elim!: member_moveE split: if_splits task.splits prod.splits
          intro!: forwardI simp: holding_def poll_again_def)
  qed (auto elim!: member_moveE split: if_splits task.splits
      intro!: forwardI simp: holding_def stop_note_outcome)
  then show thesis using that by blast
qed

text \<open>The other moves.\<close>

lemma other_step:
  assumes "step m w = Some w'" and "mover m = None"
  shows "runner_of w' = runner_of w
    \<or> (\<exists>g. m = Begin \<and> runner_of w = None \<and> group w = Some g \<and> runner_of w' = Some (begin_runner g))
    \<or> m = Finish \<and> runner_of w' = None"
  using assms by (cases m) (auto split: option.splits if_splits sum.splits)

section \<open>The concurrency bound\<close>

definition allowance :: "group_row \<Rightarrow> nat" where
  "allowance g = nat (max 1 (if grp_concurrency g = 0 then 1 else grp_concurrency g))"

text \<open>
  \<open>P\<close> coroutines may hold the semaphore and \<open>n\<close> members are in the group, as long as the group
  is there.
\<close>

definition accounted :: "nat \<Rightarrow> nat \<Rightarrow> world \<Rightarrow> bool" where
  "accounted P n w \<longleftrightarrow>
     (\<forall>g. group w = Some g \<longrightarrow> allowance g = P \<and> length (grp_members g) = n) \<and>
     (\<forall>r. runner_of w = Some r \<longrightarrow> permits r + held r = P \<and> length (tasks r) = n)"

lemma length_filter_update:
  assumes "i < length xs"
  shows "length (filter P (xs[i := x])) + (if P (xs ! i) then 1 else 0)
    = length (filter P xs) + (if P x then 1 else 0)"
  using assms
proof (induction xs arbitrary: i)
  case (Cons y ys)
  then show ?case by (cases i) auto
qed simp

lemma held_forward: "forward i r r' \<Longrightarrow> permits r' + held r' = permits r + held r"
  using length_filter_update [of i "tasks r" holding]
  by (fastforce simp: forward_def held_def split: if_splits)

lemma length_forward: "forward i r r' \<Longrightarrow> length (tasks r') = length (tasks r)"
  by (auto simp: forward_def)

lemma held_begin [simp]: "held (begin_runner g) = 0"
  by (auto simp: held_def begin_runner_def filter_empty_conv holding_def)

lemma begin_runner_same [simp]:
  "permits (begin_runner g) = allowance g" "length (tasks (begin_runner g)) = length (grp_members g)"
  "stop (begin_runner g) = False" "keep_going (begin_runner g) = grp_continue_on_error g"
  by (simp_all add: begin_runner_def allowance_def)

text \<open>What no move changes of the group's row, while there is one.\<close>

definition shape :: "world \<Rightarrow> (int \<times> nat) option" where
  "shape w = map_option (\<lambda>g. (grp_concurrency g, length (grp_members g))) (group w)"

lemma shape_update_member [simp]: "shape (update_member i f w) = shape w"
  by (simp add: shape_def update_member_def split: option.split)

lemma shape_other [simp]:
  "shape (w\<lparr>runner_of := x\<rparr>) = shape w" "shape (w\<lparr>migrations := y\<rparr>) = shape w"
  by (simp_all add: shape_def)

lemma shape_member_move:
  assumes "member_move i f w = Some w'" and "\<And>t r r' v. f t r w = Some (r', v) \<Longrightarrow> shape v = shape w"
  shows "shape w' = shape w"
  using assms(1) by (rule member_moveE) (simp add: assms(2))

lemma shape_step:
  assumes "step m w = Some w'"
  shows "shape w' = shape w \<or> group w' = None"
proof (cases "mover m")
  case (Some i)
  then have "shape w' = shape w"
    using assms
    by (cases m) (auto elim!: shape_member_move split: if_splits option.splits sum.splits task.splits prod.splits)
  then show ?thesis ..
next
  case None
  then show ?thesis
    using assms
    by (cases m)
       (auto simp: shape_def cancel_migration_group_def run_migration_group_now_def delete_migration_group_def
         split: if_splits option.splits sum.splits)
qed

lemma group_step:
  assumes "step m w = Some w'" and "group w' = Some g'"
  shows "\<exists>g. group w = Some g \<and> allowance g' = allowance g \<and> length (grp_members g') = length (grp_members g)"
proof -
  obtain g where "group w = Some g" "grp_concurrency g = grp_concurrency g'"
    "length (grp_members g) = length (grp_members g')"
    using shape_step [OF assms(1)] assms(2) by (cases "group w") (auto simp: shape_def)
  then show ?thesis by (auto simp: allowance_def)
qed

lemma accounted_step:
  assumes "accounted P n w" and "step m w = Some w'"
  shows "accounted P n w'"
proof -
  have g: "\<forall>g. group w' = Some g \<longrightarrow> allowance g = P \<and> length (grp_members g) = n"
    using assms(1) group_step [OF assms(2)] unfolding accounted_def by metis
  have "permits r' + held r' = P \<and> length (tasks r') = n" if r': "runner_of w' = Some r'" for r'
  proof (cases "mover m")
    case None
    from other_step [OF assms(2) None] r' assms(1) show ?thesis
      by (auto simp: accounted_def)
  next
    case (Some i)
    obtain r where "runner_of w = Some r" and "forward i r r'"
      using member_step [OF assms(2) Some] r' by auto
    then show ?thesis
      using assms(1) held_forward [of i r r'] length_forward [of i r r'] by (simp add: accounted_def)
  qed
  with g show ?thesis by (simp add: accounted_def)
qed

lemma run_induct:
  assumes "run ms w = Some w'" and "I w" and "\<And>m v v'. m \<in> set ms \<Longrightarrow> I v \<Longrightarrow> step m v = Some v' \<Longrightarrow> I v'"
  shows "I w'"
  using assms
proof (induction ms arbitrary: w)
  case (Cons m ms)
  then obtain v where v: "step m w = Some v" "run ms v = Some w'"
    by (auto split: option.splits)
  show ?case
    by (rule Cons.IH [OF v(2)]) (use Cons.prems(2,3) v(1) in auto)
qed simp

lemma accounted_start:
  "runner_of w = None \<Longrightarrow> group w = Some g \<Longrightarrow> accounted (allowance g) (length (grp_members g)) w"
  by (simp add: accounted_def)

lemma accounted_run: "run ms w = Some w' \<Longrightarrow> accounted P n w \<Longrightarrow> accounted P n w'"
  by (erule run_induct [where I = "accounted P n"]) (auto intro: accounted_step)


definition demo_member :: "string \<Rightarrow> group_member" where
  "demo_member ref = \<lparr>mem_source = ''a'', mem_dest = ''b'', mem_vm_ref = ref, mem_network_map = [], mem_options = [],
     mem_status = ''pending'', mem_migration = None, mem_job = None, mem_error = None\<rparr>"

definition demo_world :: world where
  "demo_world = \<lparr>hypervisors = [(''a'', Some ''fa''), (''b'', Some ''fa'')], migrations = [],
     group = Some \<lparr>grp_status = ''pending'', grp_concurrency = 1, grp_continue_on_error = False, grp_options = [],
       grp_members = [demo_member ''v1'', demo_member ''v2'']\<rparr>, runner_of = None\<rparr>"

lemmas demo_defs = demo_world_def demo_member_def begin_runner_def GROUP_TERMINAL_def member_move_def
  at_task_def set_task_def update_member_def leave_def note_outcome_def member_migration_def new_migration_def
  merged_options_def nonempty_def poll_status_def poll_again_def cancel_migration_group_def
  run_migration_group_now_def delete_migration_group_def reset_member_def final_status_def


section \<open>A runner ends\<close>

definition work_left :: "runner \<Rightarrow> nat" where
  "work_left r = sum_list (map rank (tasks r))"

lemma work_forward: "forward i r r' \<Longrightarrow> work_left r' < work_left r"
proof -
  assume "forward i r r'"
  then obtain t where i: "i < length (tasks r)" and t: "tasks r' = (tasks r)[i := t]"
    and lt: "rank t < rank (tasks r ! i)"
    by (auto simp: forward_def)
  have "sum_list (map rank ((tasks r)[i := t])) + rank (tasks r ! i) = sum_list (map rank (tasks r)) + rank t"
    using i by (simp add: map_update sum_list_update)
       (metis add.commute add_diff_inverse_nat elem_le_sum_list length_map not_le nth_map trans_le_add1)
  with lt show ?thesis by (simp add: work_left_def t)
qed

lemma work_left_begin: "work_left (begin_runner g) \<le> 1447 * length (grp_members g)"
proof -
  have "sum_list (map rank ts) \<le> 1447 * length ts" if "\<forall>t \<in> set ts. rank t \<le> 1447" for ts
    using that by (induction ts) auto
  moreover have "\<forall>t \<in> set (tasks (begin_runner g)). rank t \<le> 1447"
    by (auto simp: begin_runner_def)
  ultimately show ?thesis
    unfolding work_left_def by (metis begin_runner_same(2))
qed

text \<open>
  C22. A runner comes to its end: however slowly or badly the migrations go, its coroutines make at
  most 1447 moves for each member of the group, whatever requests and reports come in between,
  because polling stops after two hours.
\<close>

theorem runner_moves_are_bounded:
  assumes "step Begin w = Some w1" and "run ms w1 = Some w'" and "Begin \<notin> set ms" and "group w = Some g"
  shows "length (filter (\<lambda>m. mover m \<noteq> None) ms) \<le> 1447 * length (grp_members g)"
proof -
  have bound: "length (filter (\<lambda>m. mover m \<noteq> None) ms) \<le> (case runner_of v of None \<Rightarrow> 0 | Some r \<Rightarrow> work_left r)"
    if "run ms v = Some v'" and "Begin \<notin> set ms" for ms v v'
    using that
  proof (induction ms arbitrary: v)
    case (Cons m ms)
    then obtain u where u: "step m v = Some u" "run ms u = Some v'"
      by (auto split: option.splits)
    have IH: "length (filter (\<lambda>m. mover m \<noteq> None) ms) \<le> (case runner_of u of None \<Rightarrow> 0 | Some r \<Rightarrow> work_left r)"
      using Cons.IH [OF u(2)] Cons.prems(2) by simp
    show ?case
    proof (cases "mover m")
      case None
      then have "runner_of u = runner_of v \<or> runner_of u = None"
        using other_step [OF u(1)] Cons.prems(2) by auto
      with IH None show ?thesis by auto
    next
      case (Some i)
      obtain r r' where "runner_of v = Some r" "runner_of u = Some r'" "forward i r r'"
        using member_step [OF u(1) Some] .
      with IH Some work_forward [of i r r'] show ?thesis by simp
    qed
  qed simp
  have "runner_of w1 = Some (begin_runner g)"
    using assms(1,4) by (auto split: option.splits if_splits)
  with bound [OF assms(2,3)] work_left_begin [of g] show ?thesis by simp
qed

theorem runner_moves_are_bounded_witness:
  "length (filter (\<lambda>m. mover m \<noteq> None)
     [Acquire 0, Check 0, Launch 0 ''m1'' ''j1'', Cancel, Record 0 True, Poll 0]) \<le> 1447 * 2"
proof -
  obtain w1 w2 where w: "step Begin demo_world = Some w1"
    "run [Acquire 0, Check 0, Launch 0 ''m1'' ''j1'', Cancel, Record 0 True, Poll 0] w1 = Some w2"
    by (simp add: demo_defs)
  obtain g where g: "group demo_world = Some g" "length (grp_members g) = 2"
    by (simp add: demo_world_def)
  from runner_moves_are_bounded [OF w _ g(1)] g(2) show ?thesis by simp
qed

fun fault :: "move \<Rightarrow> bool" where
  "fault (Check_raises _) = True"
| "fault (Job_raises _ _ _) = True"
| "fault (Launch_raises _ _) = True"
| "fault (Poll_raises _ _) = True"
| "fault (Write_skip _ written) = (\<not> written)"
| "fault (Record _ written) = (\<not> written)"
| "fault (Close _ written) = (\<not> written)"
| "fault _ = False"

text \<open>
  C23. A runner is never stuck: as long as a coroutine has not ended, one of them can make its next
  move, without any fault being needed; when all have ended the runner finishes.
\<close>

theorem runner_is_never_stuck:
  assumes "runner_of w = None" and "group w = Some g" and "run ms w = Some w'" and "runner_of w' = Some r"
  shows "\<exists>m w''. step m w' = Some w'' \<and> \<not> fault m \<and>
    (if list_all (\<lambda>t. t = Finished) (tasks r) then m = Finish else mover m \<noteq> None)"
proof (cases "list_all (\<lambda>t. t = Finished) (tasks r)")
  case True
  then have "step Finish w' \<noteq> None" using assms(4) by simp
  with True show ?thesis by (intro exI [of _ Finish]) auto
next
  case False
  have acc: "permits r + held r = allowance g"
    using accounted_run [OF assms(3) accounted_start [OF assms(1,2)]] assms(4) by (simp add: accounted_def)
  have go: "\<exists>m w''. step m w' = Some w'' \<and> \<not> fault m \<and> mover m \<noteq> None"
    if "step m w' \<noteq> None" "\<not> fault m" "mover m \<noteq> None" for m
    using that by blast
  have "\<exists>i < length (tasks r). tasks r ! i \<noteq> Finished \<and> (tasks r ! i = Waiting \<longrightarrow> 0 < permits r)"
  proof (cases "\<exists>i < length (tasks r). holding (tasks r ! i)")
    case True
    then show ?thesis by (auto simp: holding_def)
  next
    case none: False
    then have "held r = 0" by (auto simp: held_def filter_empty_conv in_set_conv_nth)
    then have "0 < permits r" using acc by (simp add: allowance_def)
    moreover obtain i where "i < length (tasks r)" "tasks r ! i \<noteq> Finished"
      using False by (auto simp: list_all_length)
    ultimately show ?thesis by blast
  qed
  then obtain i where i: "i < length (tasks r)" "tasks r ! i \<noteq> Finished" "tasks r ! i = Waiting \<longrightarrow> 0 < permits r"
    by blast
  have at: "at_task i r = Some (tasks r ! i)" using i by (simp add: at_task_def)
  have "\<exists>m w''. step m w' = Some w'' \<and> \<not> fault m \<and> mover m \<noteq> None"
  proof (cases "tasks r ! i")
    case Waiting
    then show ?thesis
      using i at assms(4) by (intro go [of "Acquire i"]) (auto simp: member_move_def)
  next
    case Checking
    then show ?thesis
      using at assms(4) by (intro go [of "Check i"]) (auto simp: member_move_def)
  next
    case Skipping
    then show ?thesis
      using at assms(4) by (intro go [of "Write_skip i True"]) (auto simp: member_move_def)
  next
    case Launching
    obtain mid where "mid \<notin> fst ` set (migrations w')"
      using ex_new_if_finite [of "fst ` set (migrations w')"] infinite_UNIV_listI by auto
    then show ?thesis
      using at assms(4) Launching
      by (intro go [of "Launch i mid []"]) (auto simp: member_move_def split: option.splits sum.splits)
  next
    case (Recording mid jid)
    then show ?thesis
      using at assms(4) by (intro go [of "Record i True"]) (auto simp: member_move_def)
  next
    case (Polling mid n)
    then show ?thesis
      using at assms(4) by (intro go [of "Poll i"]) (auto simp: member_move_def split: prod.splits)
  next
    case (Closing st err)
    then show ?thesis
      using at assms(4) by (intro go [of "Close i True"]) (auto simp: member_move_def)
  qed (use i in simp)
  with False show ?thesis by auto
qed

theorem runner_is_never_stuck_witness:
  "\<exists>w r m w'. run [Begin, Acquire 0] demo_world = Some w \<and> runner_of w = Some r \<and> step m w = Some w' \<and> mover m \<noteq> None"
proof -
  obtain w r where w: "run [Begin, Acquire 0] demo_world = Some w" and r: "runner_of w = Some r"
    and busy: "\<not> list_all (\<lambda>t. t = Finished) (tasks r)"
    by (simp add: demo_defs)
  obtain g where g: "runner_of demo_world = None" "group demo_world = Some g"
    by (simp add: demo_world_def)
  from runner_is_never_stuck [OF g w r] busy w r show ?thesis by auto
qed


section \<open>What stops launches\<close>

text \<open>The members about to launch, and the states in which no other one gets there.\<close>

definition launching :: "world \<Rightarrow> nat" where
  "launching w = (case runner_of w of None \<Rightarrow> 0 | Some r \<Rightarrow> length (filter (\<lambda>t. t = Launching) (tasks r)))"

definition called_off :: "world \<Rightarrow> bool" where
  "called_off w \<longleftrightarrow> (case group w of None \<Rightarrow> True | Some g \<Rightarrow> grp_status g = ''canceled'')"

definition stopped :: "world \<Rightarrow> bool" where
  "stopped w \<longleftrightarrow> (case runner_of w of None \<Rightarrow> True | Some r \<Rightarrow> stop r)"

text \<open>The migrations there are and those that can still be added.\<close>

definition budget :: "world \<Rightarrow> nat" where
  "budget w = length (migrations w) + (if group w = None then 0 else launching w)"

lemma length_update_new: "k \<notin> fst ` set d \<Longrightarrow> length (AList.update k v d) = Suc (length d)"
  by (induction d) auto

lemma length_update_old: "map_of d k = Some x \<Longrightarrow> length (AList.update k v d) = length d"
  by (induction d) (auto split: if_splits)

lemma group_update_member_None [simp]: "group (update_member i f w) = None \<longleftrightarrow> group w = None"
  by (simp add: update_member_def split: option.split)

text \<open>Only a coroutine about to launch adds a migration; only an open look brings one there.\<close>

definition launches :: "world \<Rightarrow> nat \<Rightarrow> world \<Rightarrow> bool" where
  "launches w i w' \<longleftrightarrow> (\<exists>r r' t. runner_of w = Some r \<and> runner_of w' = Some r' \<and> i < length (tasks r) \<and>
     tasks r' = (tasks r)[i := t] \<and> (t = Launching \<longrightarrow> \<not> stop r \<and> (called_off w \<longrightarrow> group w = None)) \<and>
     (group w' = None \<longleftrightarrow> group w = None) \<and>
     length (migrations w') \<le> length (migrations w) + (if tasks r ! i = Launching \<and> group w \<noteq> None then 1 else 0))"

lemma launchesI:
  assumes "runner_of w = Some r" and "runner_of w' = Some r'" and "i < length (tasks r)"
    and "tasks r' = (tasks r)[i := t]"
    and "t = Launching \<longrightarrow> \<not> stop r \<and> (called_off w \<longrightarrow> group w = None)"
    and "group w' = None \<longleftrightarrow> group w = None"
    and "length (migrations w') \<le> length (migrations w) + (if tasks r ! i = Launching \<and> group w \<noteq> None then 1 else 0)"
  shows "launches w i w'"
  unfolding launches_def by (intro exI [of _ r] exI [of _ r'] exI [of _ t] conjI) (use assms in simp_all)

lemma check_launches:
  assumes "step (Check i) w = Some w'"
  shows "launches w i w'"
proof -
  define t where "t = (\<lambda>r :: runner. if stop r \<or> (case group w of None \<Rightarrow> False | Some g \<Rightarrow> grp_status g = ''canceled'')
    then Skipping else Launching)"
  obtain r where r: "runner_of w = Some r" "i < length (tasks r)" "w' = w\<lparr>runner_of := Some (set_task i (t r) r)\<rparr>"
    using assms by (auto elim!: member_moveE split: if_split_asm simp: t_def)
  have "t r = Launching \<longrightarrow> \<not> stop r \<and> (called_off w \<longrightarrow> group w = None)"
    by (auto simp: t_def called_off_def split: option.splits)
  with r show ?thesis by (intro launchesI [of w r w' "set_task i (t r) r" i "t r"]) simp_all
qed

lemma launch_launches:
  assumes "step (Launch i mid jid) w = Some w'"
  shows "launches w i w'"
proof -
  obtain r r' v where r: "runner_of w = Some r" "i < length (tasks r)"
    and f: "(if tasks r ! i \<noteq> Launching then None
        else case group w of
          None \<Rightarrow> Some (note_outcome ''failed'' (leave i r), w)
        | Some g \<Rightarrow>
            if length (grp_members g) \<le> i then Some (set_task i (Closing ''failed'' (Some ''IndexError: list index out of range'')) r, w)
            else if mid \<in> fst ` set (migrations w) then None
            else case member_migration w g i of
              Inl e \<Rightarrow> Some (set_task i (Closing ''failed'' (Some (describe_exn e))) r, w)
            | Inr row \<Rightarrow> Some (set_task i (Recording mid jid) r,
                w\<lparr>migrations := AList.update mid (row\<lparr>mig_job := Some jid\<rparr>) (migrations w)\<rparr>)) = Some (r', v)"
    and w': "w' = v\<lparr>runner_of := Some r'\<rparr>"
    using assms by (auto elim!: member_moveE)
  have t: "tasks r ! i = Launching" using f by (simp split: if_split_asm)
  show ?thesis
  proof (cases "group w")
    case None
    with r f t w' show ?thesis by (intro launchesI [where r = r and t = Finished]) auto
  next
    case (Some g)
    show ?thesis
    proof (cases "length (grp_members g) \<le> i")
      case True
      with r f t w' Some show ?thesis
        by (intro launchesI [where r = r and t = "Closing ''failed'' (Some ''IndexError: list index out of range'')"]) auto
    next
      case False
      then have new: "mid \<notin> fst ` set (migrations w)" using f t Some by (simp split: if_split_asm)
      show ?thesis
      proof (cases "member_migration w g i")
        case (Inl e)
        with r f t w' Some False new show ?thesis
          by (intro launchesI [where r = r and t = "Closing ''failed'' (Some (describe_exn e))"]) auto
      next
        case (Inr row)
        with r f t w' Some False new show ?thesis
          by (intro launchesI [where r = r and t = "Recording mid jid"]) (auto simp: length_update_new)
      qed
    qed
  qed
qed

lemma job_raises_launches:
  assumes "step (Job_raises i mid e) w = Some w'"
  shows "launches w i w'"
proof -
  obtain r row where r: "runner_of w = Some r" "i < length (tasks r)" "tasks r ! i = Launching" "group w \<noteq> None"
    "mid \<notin> fst ` set (migrations w)"
    and w': "w' = w\<lparr>migrations := AList.update mid row (migrations w),
      runner_of := Some (set_task i (Closing ''failed'' (Some (describe_exn e))) r)\<rparr>"
    using assms by (auto elim!: member_moveE split: if_split_asm option.split_asm sum.split_asm)
  then show ?thesis
    by (intro launchesI [where r = r and t = "Closing ''failed'' (Some (describe_exn e))"]) (auto simp: length_update_new)
qed

lemma launchesI_quiet:
  assumes "runner_of w = Some r" and "runner_of w' = Some r'" and "i < length (tasks r)"
    and "tasks r' = (tasks r)[i := t]" and "t \<noteq> Launching"
    and "group w' = None \<longleftrightarrow> group w = None" and "migrations w' = migrations w"
  shows "launches w i w'"
  using assms by (intro launchesI [of w r w' r' i t]) simp_all

lemma quiet_launches:
  assumes "member_move i f w = Some w'"
    and "\<And>t r r' v. f t r w = Some (r', v) \<Longrightarrow> i < length (tasks r) \<Longrightarrow> tasks r ! i = t \<Longrightarrow>
      (\<exists>t'. tasks r' = (tasks r)[i := t'] \<and> t' \<noteq> Launching) \<and> (group v = None \<longleftrightarrow> group w = None) \<and> migrations v = migrations w"
  shows "launches w i w'"
  using assms(1)
proof (rule member_moveE)
  fix r t r' v
  assume r: "runner_of w = Some r" "i < length (tasks r)" "tasks r ! i = t" "f t r w = Some (r', v)"
    and w': "w' = v\<lparr>runner_of := Some r'\<rparr>"
  from assms(2) [OF r(4,2,3)] obtain t' where "tasks r' = (tasks r)[i := t']" "t' \<noteq> Launching"
    "group v = None \<longleftrightarrow> group w = None" "migrations v = migrations w" by (elim conjE exE)
  with r w' show ?thesis by (intro launchesI_quiet [of w r w' r' i t']) simp_all
qed

lemma other_task: "t \<noteq> Launching \<Longrightarrow> \<exists>t'. ts[i := t] = ts[i := t'] \<and> t' \<noteq> Launching"
  by blast

lemma member_launches:
  assumes "step m w = Some w'" and "mover m = Some i"
  shows "launches w i w'"
proof (cases m)
  case (Check j)
  with assms show ?thesis by (simp add: check_launches del: step.simps)
next
  case (Launch j mid jid)
  with assms show ?thesis by (simp add: launch_launches del: step.simps)
next
  case (Job_raises j mid e)
  with assms show ?thesis by (simp add: job_raises_launches del: step.simps)
next
  case (Poll j)
  with assms show ?thesis
    by (auto elim!: quiet_launches split: if_split_asm task.split_asm prod.split_asm intro!: other_task)
qed (use assms in \<open>auto elim!: quiet_launches split: if_split_asm task.split_asm intro!: other_task\<close>)

lemma budget_member:
  assumes "launches w i w'" and "called_off w \<or> stopped w"
  shows "budget w' \<le> budget w"
proof -
  obtain r r' t where r: "runner_of w = Some r" "runner_of w' = Some r'" "i < length (tasks r)"
    "tasks r' = (tasks r)[i := t]"
    and t: "t = Launching \<longrightarrow> group w = None"
    and g: "group w' = None \<longleftrightarrow> group w = None"
    and l: "length (migrations w') \<le> length (migrations w) + (if tasks r ! i = Launching \<and> group w \<noteq> None then 1 else 0)"
    using assms unfolding launches_def stopped_def by fastforce
  have "launching w' + (if tasks r ! i = Launching then 1 else 0) = launching w + (if t = Launching then 1 else 0)"
    using r length_filter_update [of i "tasks r" "\<lambda>t. t = Launching" t] by (simp add: launching_def)
  with t g l show ?thesis by (auto simp: budget_def split: if_splits)
qed

lemma budget_other:
  assumes "step m w = Some w'" and "mover m = None" and "m \<noteq> Begin"
  shows "budget w' \<le> budget w"
  using assms
  by (cases m)
     (auto simp: budget_def launching_def length_update_old cancel_migration_group_def
        run_migration_group_now_def delete_migration_group_def split: option.splits if_splits sum.splits)

lemma budget_step:
  assumes "step m w = Some w'" and "called_off w \<or> stopped w" and "m \<noteq> Begin"
  shows "budget w' \<le> budget w"
  using budget_member [OF member_launches [OF assms(1)] assms(2)] budget_other [OF assms(1) _ assms(3)]
  by (cases "mover m") auto

lemma group_status_update_member:
  "called_off (update_member i f w) = called_off w"
  if "\<And>m. True"
  by (simp add: called_off_def update_member_def split: option.split)

lemma called_off_member_move:
  assumes "member_move i f w = Some w'" and "\<And>t r r' v. f t r w = Some (r', v) \<Longrightarrow> called_off v = called_off w"
  shows "called_off w' = called_off w"
  using assms(1) by (rule member_moveE) (auto simp: called_off_def dest: assms(2))

lemma called_off_migrations [simp]: "called_off (w\<lparr>migrations := x\<rparr>) = called_off w"
  by (simp add: called_off_def)

lemma called_off_step:
  assumes "step m w = Some w'" and "called_off w" and "m \<noteq> Rerun"
  shows "called_off w'"
proof (cases "mover m")
  case (Some i)
  then have "called_off w' = called_off w"
    using assms(1)
    by (cases m) (auto elim!: called_off_member_move split: if_splits option.splits sum.splits task.splits prod.splits
        simp: group_status_update_member)
  with assms(2) show ?thesis by simp
next
  case None
  then show ?thesis
    using assms
    by (cases m)
       (auto simp: called_off_def cancel_migration_group_def delete_migration_group_def
         split: if_splits option.splits sum.splits)
qed

lemma called_off_no_begin: "called_off w \<Longrightarrow> step Begin w = None"
  by (auto simp: called_off_def split: option.splits)

lemma stopped_step:
  assumes "step m w = Some w'" and "stopped w" and "m \<noteq> Begin"
  shows "stopped w'"
proof (cases "mover m")
  case (Some i)
  obtain r r' where "runner_of w = Some r" "runner_of w' = Some r'" "forward i r r'"
    using member_step [OF assms(1) Some] .
  with assms(2) show ?thesis by (simp add: stopped_def forward_def)
next
  case None
  from other_step [OF assms(1) None] assms(2,3) show ?thesis
    by (elim disjE exE conjE) (simp_all add: stopped_def)
qed



lemma length_filter_split:
  "length (filter holding ts) = length (filter (\<lambda>t. holding t \<and> t \<noteq> Launching) ts) + length (filter (\<lambda>t. t = Launching) ts)"
  by (induction ts) (auto simp: holding_def)

text \<open>
  With one member at a time and continuing on errors switched off, the first member that does
  not succeed is the last: after its coroutine closes with another outcome, the runner adds no
  migration any more, whatever happens.
\<close>

theorem failure_stops_a_sequential_group:
  assumes "runner_of w0 = None" and "group w0 = Some g" and "grp_concurrency g \<le> 1"
    and "run pre w0 = Some w" and "runner_of w = Some r" and "\<not> keep_going r"
    and "i < length (tasks r)" and "tasks r ! i = Closing st err" and "st \<noteq> ''succeeded''"
    and "step (Close i written) w = Some w1" and "run ms w1 = Some w'" and "Begin \<notin> set ms"
  shows "length (migrations w') \<le> length (migrations w)"
proof -
  have "accounted (allowance g) (length (grp_members g)) w"
    using accounted_run [OF assms(4) accounted_start [OF assms(1,2)]] .
  then have "held r \<le> 1"
    using assms(3,5) by (auto simp: accounted_def allowance_def split: if_splits)
  moreover have "Closing st err \<in> set (tasks r)" using assms(7,8) by (metis nth_mem)
  then have "filter (\<lambda>t. holding t \<and> t \<noteq> Launching) (tasks r) \<noteq> []"
    by (auto simp: filter_empty_conv holding_def)
  then have "1 \<le> length (filter (\<lambda>t. holding t \<and> t \<noteq> Launching) (tasks r))" by (simp add: Suc_le_eq)
  moreover have "held r = length (filter (\<lambda>t. holding t \<and> t \<noteq> Launching) (tasks r)) + launching w"
    using assms(5) length_filter_split [of "tasks r"] by (simp add: held_def launching_def)
  ultimately have none: "launching w = 0" by linarith
  obtain r1 where r1: "runner_of w1 = Some r1" "stop r1" "tasks r1 = (tasks r)[i := Finished]"
    and m: "migrations w1 = migrations w"
    using assms(5-10) by (auto elim!: member_moveE simp: stop_note_outcome)
  have "length (filter (\<lambda>t. t = Launching) (tasks r1)) \<le> launching w"
    using length_filter_update [OF assms(7), of "\<lambda>t. t = Launching" Finished] assms(5) r1(3)
    by (simp add: launching_def)
  then have l: "launching w1 = 0" using none r1(1) by (simp add: launching_def)
  have "stopped w' \<and> budget w' \<le> budget w1"
  proof (rule run_induct [OF assms(11)])
    fix m v v'
    assume "m \<in> set ms" and v: "stopped v \<and> budget v \<le> budget w1" and st: "step m v = Some v'"
    then have "m \<noteq> Begin" using assms(12) by auto
    then show "stopped v' \<and> budget v' \<le> budget w1"
      using v stopped_step [OF st] budget_step [OF st] by auto
  qed (use r1 in \<open>simp add: stopped_def\<close>)
  then show ?thesis using m l by (simp add: budget_def split: if_splits)
qed

theorem failure_stops_a_sequential_group_witness:
  "\<exists>w w'. run [Begin, Acquire 0, Check 0, Launch 0 ''m1'' ''j1'', Record 0 True, Report ''m1'' ''failed'' None, Poll 0]
       demo_world = Some w \<and>
     run [Close 0 True, Acquire 1, Check 1, Write_skip 1 True, Finish] w = Some w' \<and>
     length (migrations w') \<le> length (migrations w)"
proof -
  let ?pre = "[Begin, Acquire 0, Check 0, Launch 0 ''m1'' ''j1'', Record 0 True, Report ''m1'' ''failed'' None, Poll 0]"
  let ?ms = "[Acquire 1, Check 1, Write_skip 1 True, Finish]"
  obtain w r w1 w' where w: "run ?pre demo_world = Some w" "runner_of w = Some r" "\<not> keep_going r" "0 < length (tasks r)"
    "tasks r ! 0 = Closing ''failed'' None" "step (Close 0 True) w = Some w1" "run ?ms w1 = Some w'"
    by (simp add: demo_defs)
  obtain g where g: "runner_of demo_world = None" "group demo_world = Some g" "grp_concurrency g \<le> 1"
    by (simp add: demo_world_def)
  from failure_stops_a_sequential_group [OF g w(1-5) _ w(6,7)] have "length (migrations w') \<le> length (migrations w)"
    by simp
  then show ?thesis using w by auto
qed


section \<open>No member is forgotten\<close>

definition members_of :: "world \<Rightarrow> group_member list" where
  "members_of w = (case group w of None \<Rightarrow> [] | Some g \<Rightarrow> grp_members g)"

fun settled :: "task \<Rightarrow> group_member \<Rightarrow> bool" where
  "settled Finished m = (mem_status m \<in> set GROUP_TERMINAL)"
| "settled (Closing st _) m = (st \<in> {''succeeded'', ''failed'', ''rolled_back''})"
| "settled _ m = True"

definition remembered :: "nat \<Rightarrow> world \<Rightarrow> bool" where
  "remembered n w \<longleftrightarrow> group w \<noteq> None \<and> length (members_of w) = n \<and>
     (\<forall>r. runner_of w = Some r \<longrightarrow> length (tasks r) = n \<and> (\<forall>i < n. settled (tasks r ! i) (members_of w ! i)))"

lemma members_of_update_member:
  "members_of (update_member i f w) =
     (if i < length (members_of w) then (members_of w)[i := f (members_of w ! i)] else members_of w)"
  by (simp add: members_of_def update_member_def split: option.split)

lemma members_of_other [simp]:
  "members_of (w\<lparr>runner_of := x\<rparr>) = members_of w" "members_of (w\<lparr>migrations := y\<rparr>) = members_of w"
  by (simp_all add: members_of_def)

lemma remembered_member_move:
  assumes "member_move i f w = Some w'" and J: "remembered n w"
    and f: "\<And>t r r' v. f t r w = Some (r', v) \<Longrightarrow> i < length (members_of w) \<Longrightarrow> settled t (members_of w ! i) \<Longrightarrow>
      \<exists>t' m'. tasks r' = (tasks r)[i := t'] \<and> members_of v = (members_of w)[i := m'] \<and> settled t' m' \<and>
        (group v = None \<longleftrightarrow> group w = None)"
  shows "remembered n w'"
  using assms(1)
proof (rule member_moveE)
  fix r t r' v
  assume r: "runner_of w = Some r" "i < length (tasks r)" "tasks r ! i = t" "f t r w = Some (r', v)"
    and w': "w' = v\<lparr>runner_of := Some r'\<rparr>"
  have n: "length (tasks r) = n" "length (members_of w) = n" "group w \<noteq> None"
    and s: "\<forall>j < n. settled (tasks r ! j) (members_of w ! j)"
    using J r(1) by (auto simp: remembered_def)
  have i: "i < length (members_of w)" "settled t (members_of w ! i)" using r(2,3) n s by auto
  obtain t' m' where t': "tasks r' = (tasks r)[i := t']" and m': "members_of v = (members_of w)[i := m']"
    and ok: "settled t' m'" and g: "group v = None \<longleftrightarrow> group w = None"
    using f [OF r(4) i] by (elim exE conjE)
  have "settled (tasks r' ! j) (members_of v ! j)" if "j < n" for j
    using that s ok n i(1) by (cases "j = i") (simp_all add: t' m')
  then show ?thesis using n g by (simp add: remembered_def w' t' m')
qed

lemma settle: "settled t' m' \<Longrightarrow> \<exists>t'' m''. ts[i := t'] = ts[i := t''] \<and> ms[i := m'] = ms[i := m''] \<and> settled t'' m''"
  by blast

lemma settle_same: "settled t' (ms ! i) \<Longrightarrow> \<exists>t'' m''. ts[i := t'] = ts[i := t''] \<and> ms = ms[i := m''] \<and> settled t'' m''"
  by (metis list_update_id)

lemma settle_nested:
  "settled t' (ms ! i) \<Longrightarrow> \<exists>t''. ts[i := t'] = ts[i := t''] \<and> (\<exists>m''. ms = ms[i := m''] \<and> settled t'' m'')"
  by (metis list_update_id)

lemma settle_nested_new:
  "settled t' m' \<Longrightarrow> \<exists>t''. ts[i := t'] = ts[i := t''] \<and> (\<exists>m''. ms[i := m'] = ms[i := m''] \<and> settled t'' m'')"
  by blast

lemma remembered_step:
  assumes "step m w = Some w'" and "remembered n w" and "\<not> fault m" and "m \<noteq> Rerun" and "m \<noteq> Delete"
  shows "remembered n w'"
proof (cases "mover m")
  case (Some i)
  have g: "group w \<noteq> None" using assms(2) by (simp add: remembered_def)
  show ?thesis
    using assms(1,3) Some
  proof (cases m)
    case (Launch j mid jid)
    with assms(1) g show ?thesis
      by (auto elim!: remembered_member_move [OF _ assms(2)] split: if_split_asm option.split_asm sum.split_asm
          intro!: settle_same settle_nested)
  next
    case (Poll j)
    with assms(1) show ?thesis
      by (auto elim!: remembered_member_move [OF _ assms(2)] split: if_split_asm task.split_asm prod.split_asm
          intro!: settle_same settle_nested)
  qed (auto elim!: remembered_member_move [OF _ assms(2)] split: if_split_asm task.split_asm option.split_asm
      simp: members_of_update_member GROUP_TERMINAL_def intro!: settle settle_same settle_nested settle_nested_new)
next
  case None
  then show ?thesis
    using assms
    by (cases m)
       (auto simp: remembered_def members_of_def cancel_migration_group_def begin_runner_def GROUP_TERMINAL_def
         split: if_splits option.splits sum.splits)
qed

lemma remembered_run:
  assumes "run ms w = Some w'" and "\<forall>m \<in> set ms. \<not> fault m \<and> m \<noteq> Rerun \<and> m \<noteq> Delete" and "remembered n w"
  shows "remembered n w'"
proof (rule run_induct [where I = "remembered n", OF assms(1,3)])
  fix m v v'
  assume m: "m \<in> set ms" and v: "remembered n v" and st: "step m v = Some v'"
  have "\<not> fault m" "m \<noteq> Rerun" "m \<noteq> Delete" using m assms(2) by auto
  then show "remembered n v'" by (rule remembered_step [OF st v])
qed

lemma finish_step:
  assumes "step Finish w1 = Some w'"
  obtains r where "runner_of w1 = Some r" "list_all (\<lambda>t. t = Finished) (tasks r)"
    "w' = w1\<lparr>runner_of := None, group := map_option (\<lambda>g. if grp_status g = ''canceled'' then g
      else g\<lparr>grp_status := final_status g\<rparr>) (group w1)\<rparr>"
  using assms by (cases "runner_of w1") (auto split: if_split_asm)

lemma final_status_facts:
  assumes "\<forall>m \<in> set (grp_members g). mem_status m \<in> set GROUP_TERMINAL"
  shows "final_status g \<in> {''succeeded'', ''failed'', ''partial''}"
    and "final_status g = ''succeeded'' \<Longrightarrow> grp_members g \<noteq> [] \<and> (\<forall>m \<in> set (grp_members g). mem_status m = ''succeeded'')"
    and "final_status g = ''failed'' \<Longrightarrow> \<forall>m \<in> set (grp_members g). mem_status m \<noteq> ''succeeded''"
proof -
  have ne: "mem_status m \<noteq> []" if "m \<in> set (grp_members g)" for m
    using assms that by (auto simp: GROUP_TERMINAL_def)
  show "final_status g \<in> {''succeeded'', ''failed'', ''partial''}"
    by (simp add: final_status_def Let_def)
  show "final_status g = ''succeeded'' \<Longrightarrow> grp_members g \<noteq> [] \<and> (\<forall>m \<in> set (grp_members g). mem_status m = ''succeeded'')"
    using ne by (auto simp: final_status_def Let_def list_all_iff split: if_split_asm)
  show "final_status g = ''failed'' \<Longrightarrow> \<forall>m \<in> set (grp_members g). mem_status m \<noteq> ''succeeded''"
    using ne by (fastforce simp: final_status_def Let_def list_all_iff split: if_split_asm)
qed


lemma run_append: "run (ms @ ns) w = (case run ms w of None \<Rightarrow> None | Some v \<Rightarrow> run ns v)"
  by (induction ms arbitrary: w) (auto split: option.splits)


text \<open>
  A re-run that is accepted while the runner still works can be lost: canceling and re-running a
  group resets its failed member to pending, but the runner of before, which is still busy with the
  other member, does not look at it again, and ends with the group partial and the member pending.
\<close>

definition lost_world :: world where
  "lost_world = demo_world\<lparr>group := map_option (\<lambda>g. g\<lparr>grp_continue_on_error := True\<rparr>) (group demo_world)\<rparr>"

theorem rerun_of_a_live_group_is_lost:
  "\<exists>w g. run [Begin, Acquire 0, Check 0, Launch 0 ''m1'' ''j1'', Record 0 True, Report ''m1'' ''failed'' None,
       Poll 0, Close 0 True, Acquire 1, Check 1, Launch 1 ''m2'' ''j2'', Record 1 True, Cancel, Rerun,
       Report ''m2'' ''succeeded'' None, Poll 1, Close 1 True, Finish] lost_world = Some w \<and>
     runner_of w = None \<and> group w = Some g \<and> grp_status g = ''partial'' \<and>
     map mem_status (grp_members g) = [''pending'', ''succeeded'']"
  by (simp add: lost_world_def demo_defs)


end
