(* ===== verification/Group_Refinement.thy ===== *)
theory Group_Refinement
  imports Group_Safety
begin

text \<open>
  What the runner of a migration group promises, as a machine of its own, and that the coroutines of
  \<open>Group_Runner\<close> implement it: a pool of members of which at most \<open>k\<close> are in hand, each goes from
  waiting over being in hand to being done, and never back.
\<close>

section \<open>The pool\<close>

datatype stage = Todo | Busy | Over

inductive pool_step :: "nat \<Rightarrow> stage list \<Rightarrow> stage list \<Rightarrow> bool" for k where
  start: "i < length p \<Longrightarrow> p ! i = Todo \<Longrightarrow> length (filter (\<lambda>s. s = Busy) p) < k \<Longrightarrow> pool_step k p (p[i := Busy])"
| finish: "i < length p \<Longrightarrow> p ! i = Busy \<Longrightarrow> pool_step k p (p[i := Over])"

inductive_cases pool_stepE: "pool_step k p q"

fun stage_of :: "task \<Rightarrow> stage" where
  "stage_of Waiting = Todo"
| "stage_of Finished = Over"
| "stage_of _ = Busy"

definition pool_of :: "runner \<Rightarrow> stage list" where
  "pool_of r = map stage_of (tasks r)"

lemma stage_of_iff [simp]:
  "stage_of t = Todo \<longleftrightarrow> t = Waiting" "stage_of t = Over \<longleftrightarrow> t = Finished" "stage_of t = Busy \<longleftrightarrow> holding t"
  by (cases t; simp add: holding_def)+

lemma busy_held: "length (filter (\<lambda>s. s = Busy) (pool_of r)) = held r"
  by (simp add: pool_of_def held_def filter_map comp_def)

section \<open>The pool on its own\<close>

lemma pool_bounded:
  "(pool_step k)\<^sup>*\<^sup>* p q \<Longrightarrow> length (filter (\<lambda>s. s = Busy) p) \<le> k \<Longrightarrow> length (filter (\<lambda>s. s = Busy) q) \<le> k"
proof (induction rule: rtranclp_induct)
  case (step q r)
  from step.hyps(2) show ?case
  proof cases
    case (start i)
    then show ?thesis using length_filter_update [of i q "\<lambda>s. s = Busy" Busy] by simp
  next
    case (finish i)
    then show ?thesis using length_filter_update [of i q "\<lambda>s. s = Busy" Over] step by simp
  qed
qed simp

lemma over_stays: "(pool_step k)\<^sup>*\<^sup>* p q \<Longrightarrow> i < length p \<Longrightarrow> p ! i = Over \<Longrightarrow> i < length q \<and> q ! i = Over"
  by (induction rule: rtranclp_induct) (auto elim!: pool_stepE simp: nth_list_update)

section \<open>The simulation\<close>

text \<open>A coroutine leaves the semaphore's queue in one way only.\<close>

lemma waiting_step:
  assumes "step m w = Some w'" and "mover m = Some i" and "runner_of w = Some r" and "runner_of w' = Some r'"
    and "tasks r ! i = Waiting"
  shows "i < length (tasks r) \<and> tasks r' ! i = Checking"
  using assms
  by (cases m) (auto elim!: member_moveE split: if_splits option.splits sum.splits task.splits)

lemma simulation:
  assumes "accounted P n w" and "step m w = Some w'" and "runner_of w = Some r" and "runner_of w' = Some r'"
  shows "pool_of r' = pool_of r \<or> pool_step P (pool_of r) (pool_of r')"
proof (cases "mover m")
  case None
  from other_step [OF assms(2) None] assms(3,4) show ?thesis by auto
next
  case (Some i)
  have "forward i r r'" using member_step [OF assms(2) Some] assms(3,4) by force
  then obtain t where t: "i < length (tasks r)" "tasks r' = (tasks r)[i := t]" "rank t < rank (tasks r ! i)"
    "permits r' + (if holding t then 1 else 0) = permits r + (if holding (tasks r ! i) then 1 else 0)"
    by (auto simp: forward_def)
  have pool: "pool_of r' = (pool_of r)[i := stage_of t]" "i < length (pool_of r)" "pool_of r ! i = stage_of (tasks r ! i)"
    using t(1,2) by (simp_all add: pool_of_def map_update)
  show ?thesis
  proof (cases "stage_of (tasks r ! i)")
    case Todo
    then have w: "tasks r ! i = Waiting" by simp
    with waiting_step [OF assms(2) Some assms(3,4)] t(1,2) have "t = Checking" by simp
    with t(4) w have "0 < permits r" by (auto simp: holding_def)
    then have "held r < P" using assms(1,3) by (auto simp: accounted_def)
    then have "pool_step P (pool_of r) ((pool_of r)[i := Busy])"
      using pool Todo busy_held by (intro pool_step.start) simp_all
    with pool(1) \<open>t = Checking\<close> show ?thesis by simp
  next
    case Busy
    have "t \<noteq> Waiting"
    proof
      assume "t = Waiting"
      with t(3) have "1447 < rank (tasks r ! i)" by simp
      then show False by (cases "tasks r ! i") auto
    qed
    then have "stage_of t = Busy \<or> stage_of t = Over" by (cases t) auto
    then show ?thesis
    proof
      assume "stage_of t = Busy"
      with pool Busy show ?thesis by (metis list_update_id)
    next
      assume "stage_of t = Over"
      with pool Busy show ?thesis using pool_step.finish [of i "pool_of r" P] by simp
    qed
  next
    case Over
    then have "tasks r ! i = Finished" by simp
    with t(3) show ?thesis by simp
  qed
qed

lemma no_runner_stays:
  assumes "run ms w = Some w'" and "Begin \<notin> set ms" and "runner_of w = None"
  shows "runner_of w' = None"
proof (rule run_induct [where I = "\<lambda>v. runner_of v = None", OF assms(1,3)])
  fix m v v'
  assume m: "m \<in> set ms" and v: "runner_of v = None" "step m v = Some v'"
  show "runner_of v' = None"
  proof (cases "mover m")
    case None
    with other_step [OF v(2) None] v(1) m assms(2) show ?thesis by auto
  next
    case (Some i)
    with member_step [OF v(2) Some] v(1) show ?thesis by auto
  qed
qed

text \<open>
  C26. The runner of a group refines the pool: as long as it lives, whatever its members, the requests and
  the faults do in between, what it does is a run of the pool for the group's concurrency.
\<close>

theorem group_runner_refines_pool:
  assumes "runner_of w0 = None" and "group w0 = Some g" and "run pre w0 = Some w" and "runner_of w = Some r"
    and "run ms w = Some w'" and "Begin \<notin> set ms" and "runner_of w' = Some r'"
  shows "(pool_step (nat (max 1 (grp_concurrency g))))\<^sup>*\<^sup>* (pool_of r) (pool_of r')"
proof -
  have acc: "accounted (allowance g) (length (grp_members g)) w"
    by (rule accounted_run [OF assms(3) accounted_start [OF assms(1,2)]])
  have "(pool_step (allowance g))\<^sup>*\<^sup>* (pool_of r) (pool_of r')"
    using assms(5,6) acc assms(4)
  proof (induction ms arbitrary: w r)
    case Nil
    with assms(7) show ?case by simp
  next
    case (Cons m ms)
    then obtain v where v: "step m w = Some v" "run ms v = Some w'" by (auto split: option.splits)
    have "runner_of v \<noteq> None"
      using no_runner_stays [OF v(2)] Cons.prems(2) assms(7) by auto
    then obtain rv where rv: "runner_of v = Some rv" by blast
    have "pool_of rv = pool_of r \<or> pool_step (allowance g) (pool_of r) (pool_of rv)"
      by (rule simulation [OF Cons.prems(3) v(1) Cons.prems(4) rv])
    moreover have "(pool_step (allowance g))\<^sup>*\<^sup>* (pool_of rv) (pool_of r')"
      using Cons.IH [OF v(2) _ accounted_step [OF Cons.prems(3) v(1)] rv] Cons.prems(2) by simp
    ultimately show ?case by (metis converse_rtranclp_into_rtranclp)
  qed
  moreover have "allowance g = nat (max 1 (grp_concurrency g))" by (simp add: allowance_def)
  ultimately show ?thesis by simp
qed

theorem group_runner_refines_pool_witness:
  "\<exists>w r r'. run [Begin] demo_world = Some w \<and> runner_of w = Some r \<and> pool_of r = [Todo, Todo] \<and>
     pool_of r' = [Over, Busy] \<and> (pool_step 1)\<^sup>*\<^sup>* (pool_of r) (pool_of r')"
proof -
  let ?ms = "[Acquire 0, Check 0, Launch 0 ''m1'' ''j1'', Record 0 True, Cancel, Report ''m1'' ''succeeded'' None,
     Poll 0, Close 0 True, Acquire 1]"
  obtain w r w' r' where w: "run [Begin] demo_world = Some w" "runner_of w = Some r" "run ?ms w = Some w'"
    "runner_of w' = Some r'" and p: "pool_of r = [Todo, Todo]" "pool_of r' = [Over, Busy]"
    by (simp add: demo_defs pool_of_def)
  obtain g where g: "runner_of demo_world = None" "group demo_world = Some g" "grp_concurrency g = 1"
    by (simp add: demo_world_def)
  from group_runner_refines_pool [OF g(1,2) w(1,2,3) _ w(4)] g(3) have "(pool_step 1)\<^sup>*\<^sup>* (pool_of r) (pool_of r')"
    by simp
  with w(1,2) p show ?thesis by blast
qed

end
