(* ===== verification/Scheduler.thy ===== *)
theory Scheduler
  imports Actions
begin

text \<open>
  The scheduler of migration groups, \<^verbatim>\<open>jobs/scheduler.py\<close>: \<^verbatim>\<open>kick\<close> with its table of live runner
  tasks, and \<^verbatim>\<open>run_scheduler_cycle\<close>. A runner task of the event loop is a number; when it ends, the
  loop queues its done callback, which runs later, after other callbacks that were queued before.
  What the runner itself does is the theory \<open>Group_Runner\<close>; here it is a task that lives or is done.
\<close>

section \<open>State\<close>

text \<open>Instants are UTC; the naive ones of some databases are read as UTC by \<^verbatim>\<open>_aware\<close>.\<close>

record group_entry =
  ge_status :: string
  ge_scheduled_at :: "int option"

record scheduler =
  groups :: "(string \<times> group_entry) list"
  active :: "(string \<times> nat) list"
  live :: "(nat \<times> string) list"
  callbacks :: "(nat \<times> string) list"
  next_task :: nat

definition task_done :: "scheduler \<Rightarrow> nat \<Rightarrow> bool" where
  "task_done s t \<longleftrightarrow> t \<notin> fst ` set (live s)"

section \<open>Launching\<close>

definition kick :: "string \<Rightarrow> scheduler \<Rightarrow> bool \<times> scheduler" where
  "kick gid s =
     (case map_of (active s) gid of
        Some t \<Rightarrow> if \<not> task_done s t then (False, s)
          else (True, s\<lparr>active := AList.update gid (next_task s) (active s),
                        live := (next_task s, gid) # live s, next_task := next_task s + 1\<rparr>)
      | None \<Rightarrow> (True, s\<lparr>active := AList.update gid (next_task s) (active s),
                        live := (next_task s, gid) # live s, next_task := next_task s + 1\<rparr>))"

text \<open>What a cycle does with one row: the row it leaves, and whether to launch.\<close>

definition consider_group :: "int \<Rightarrow> scheduler \<Rightarrow> string \<Rightarrow> group_entry \<Rightarrow> group_entry \<times> bool" where
  "consider_group now s gid g =
     (if ge_status g \<notin> {''scheduled'', ''pending'', ''running''} then (g, False)
      else if (case map_of (active s) gid of None \<Rightarrow> False | Some t \<Rightarrow> \<not> task_done s t) then (g, False)
      else if ge_status g = ''scheduled'' then
        (case ge_scheduled_at g of
           None \<Rightarrow> (g, False)
         | Some due \<Rightarrow> if now < due then (g, False) else (g\<lparr>ge_status := ''pending''\<rparr>, True))
      else (g, True))"

fun kick_all :: "string list \<Rightarrow> scheduler \<Rightarrow> nat \<times> scheduler" where
  "kick_all [] s = (0, s)"
| "kick_all (gid # gids) s =
     (case kick gid s of (started, s') \<Rightarrow>
        (case kick_all gids s' of (n, s'') \<Rightarrow> ((if started then 1 else 0) + n, s'')))"

definition run_scheduler_cycle :: "int \<Rightarrow> scheduler \<Rightarrow> nat \<times> scheduler" where
  "run_scheduler_cycle now s =
     (let seen = map (\<lambda>(gid, g). (gid, consider_group now s gid g)) (groups s);
          to_launch = map fst (filter (\<lambda>(gid, g, launch). launch) seen)
      in kick_all to_launch (s\<lparr>groups := map (\<lambda>(gid, g, launch). (gid, g)) seen\<rparr>))"

section \<open>The event loop\<close>

text \<open>
  A task ends and queues its callback; a queued callback drops the group's entry, whichever task is
  in it; a request or a cycle kicks.
\<close>

inductive loop :: "scheduler \<Rightarrow> scheduler \<Rightarrow> bool" where
  kicked: "loop s (snd (kick gid s))"
| ended: "(t, gid) \<in> set (live s) \<Longrightarrow>
    loop s (s\<lparr>live := filter (\<lambda>(t', _). t' \<noteq> t) (live s), callbacks := callbacks s @ [(t, gid)]\<rparr>)"
| called: "callbacks s = (t, gid) # cbs \<Longrightarrow> loop s (s\<lparr>active := AList.delete gid (active s), callbacks := cbs\<rparr>)"
| changed: "loop s (s\<lparr>groups := gs\<rparr>)"

text \<open>The same, where nobody kicks a group between the end of its task and the callback.\<close>

inductive calm_loop :: "scheduler \<Rightarrow> scheduler \<Rightarrow> bool" where
  calm_kicked: "gid \<notin> snd ` set (callbacks s) \<Longrightarrow> calm_loop s (snd (kick gid s))"
| calm_ended: "(t, gid) \<in> set (live s) \<Longrightarrow>
    calm_loop s (s\<lparr>live := filter (\<lambda>(t', _). t' \<noteq> t) (live s), callbacks := callbacks s @ [(t, gid)]\<rparr>)"
| calm_called: "callbacks s = (t, gid) # cbs \<Longrightarrow>
    calm_loop s (s\<lparr>active := AList.delete gid (active s), callbacks := cbs\<rparr>)"
| calm_changed: "calm_loop s (s\<lparr>groups := gs\<rparr>)"

definition idle :: "(string \<times> group_entry) list \<Rightarrow> scheduler" where
  "idle gs = \<lparr>groups = gs, active = [], live = [], callbacks = [], next_task = 0\<rparr>"

definition live_runners :: "scheduler \<Rightarrow> string \<Rightarrow> nat" where
  "live_runners s gid = length (filter (\<lambda>(t, g). g = gid) (live s))"

section \<open>At most one runner per group\<close>

text \<open>Every live task is the entry of its group; the callbacks queued are of groups without one.\<close>

definition tracked :: "scheduler \<Rightarrow> bool" where
  "tracked s \<longleftrightarrow>
     (\<forall>t gid. (t, gid) \<in> set (live s) \<longrightarrow> map_of (active s) gid = Some t) \<and>
     (\<forall>t gid. (t, gid) \<in> set (live s) \<longrightarrow> gid \<notin> snd ` set (callbacks s)) \<and>
     (\<forall>t gid. (t, gid) \<in> set (live s) \<longrightarrow> t < next_task s) \<and>
     distinct (live s)"

lemma trackedD:
  assumes "tracked s"
  shows "(t, gid) \<in> set (live s) \<Longrightarrow> map_of (active s) gid = Some t"
    and "(t, gid) \<in> set (live s) \<Longrightarrow> gid \<notin> snd ` set (callbacks s)"
    and "(t, gid) \<in> set (live s) \<Longrightarrow> t < next_task s" and "distinct (live s)"
  using assms unfolding tracked_def by blast+

lemma tracked_idle: "tracked (idle gs)"
  by (simp add: tracked_def idle_def)

lemma tracked_launch:
  assumes "tracked s" and "gid \<notin> snd ` set (callbacks s)" and free: "\<And>t. (t, gid) \<notin> set (live s)"
  shows "tracked (s\<lparr>active := AList.update gid (next_task s) (active s),
      live := (next_task s, gid) # live s, next_task := next_task s + 1\<rparr>)"
proof -
  have "g \<noteq> gid" if "(t, g) \<in> set (live s)" for t g using free that by blast
  moreover note trackedD [OF assms(1)]
  ultimately show ?thesis
    using assms(2) free by (simp add: tracked_def) (metis less_SucI)
qed

lemma tracked_kick:
  assumes "tracked s" and "gid \<notin> snd ` set (callbacks s)"
  shows "tracked (snd (kick gid s))"
proof (cases "map_of (active s) gid")
  case None
  then have "(t, gid) \<notin> set (live s)" for t using trackedD(1) [OF assms(1)] by force
  with None tracked_launch [OF assms] show ?thesis by (simp add: kick_def)
next
  case (Some t)
  show ?thesis
  proof (cases "task_done s t")
    case True
    then have "(t, gid) \<notin> set (live s)" by (force simp: task_done_def)
    then have "(t', gid) \<notin> set (live s)" for t' using trackedD(1) [OF assms(1), of t' gid] Some by auto
    with True Some tracked_launch [OF assms] show ?thesis by (simp add: kick_def)
  next
    case False
    with Some assms(1) show ?thesis by (simp add: kick_def)
  qed
qed

lemma tracked_end:
  assumes "tracked s" and t: "(t, gid) \<in> set (live s)"
  shows "tracked (s\<lparr>live := filter (\<lambda>(t', _). t' \<noteq> t) (live s), callbacks := callbacks s @ [(t, gid)]\<rparr>)"
proof -
  have other: "\<forall>t' g. (t', g) \<in> set (live s) \<longrightarrow> t' \<noteq> t \<longrightarrow> gid \<noteq> g"
    using trackedD(1) [OF assms(1)] t by (metis option.inject)
  have called: "\<forall>t' g. (t', g) \<in> set (live s) \<longrightarrow> g \<notin> snd ` set (callbacks s)"
    using trackedD(2) [OF assms(1)] by blast
  show ?thesis
    using assms(1) other called unfolding tracked_def by simp blast
qed

lemma tracked_call:
  assumes "tracked s" and c: "callbacks s = (t, gid) # cbs"
  shows "tracked (s\<lparr>active := AList.delete gid (active s), callbacks := cbs\<rparr>)"
proof -
  have "g \<noteq> gid \<and> g \<notin> snd ` set cbs" if "(t', g) \<in> set (live s)" for t' g
    using trackedD(2) [OF assms(1) that] by (auto simp: c)
  with trackedD [OF assms(1)] show ?thesis
    unfolding tracked_def by (auto simp: delete_conv)
qed

lemma tracked_step: "calm_loop s s' \<Longrightarrow> tracked s \<Longrightarrow> tracked s'"
proof (induction rule: calm_loop.induct)
  case (calm_changed s gs)
  then show ?case by (simp add: tracked_def)
qed (simp_all add: tracked_kick tracked_end tracked_call)

lemma tracked_reachable: "calm_loop\<^sup>*\<^sup>* (idle gs) s \<Longrightarrow> tracked s"
  by (induction rule: rtranclp_induct) (simp_all add: tracked_idle tracked_step)

lemma tracked_one: "tracked s \<Longrightarrow> length (filter (\<lambda>(t, g). g = gid) (live s)) \<le> 1"
proof -
  assume s: "tracked s"
  have "length (filter (\<lambda>(t, g). g = gid) xs) \<le> 1"
    if "distinct xs" "\<And>t t'. (t, gid) \<in> set xs \<Longrightarrow> (t', gid) \<in> set xs \<Longrightarrow> t = t'" for xs :: "(nat \<times> string) list"
    using that
  proof (induction xs)
    case (Cons x xs)
    obtain t g where x: "x = (t, g)" by fastforce
    show ?case
    proof (cases "g = gid")
      case True
      have "h \<noteq> gid" if "(t', h) \<in> set xs" for t' h
        using that Cons.prems(1) Cons.prems(2) [of t t'] True by (auto simp: x)
      then have "filter (\<lambda>(t, g). g = gid) xs = []" by (auto simp: filter_empty_conv)
      with True show ?thesis by (simp add: x)
    next
      case False
      have "length (filter (\<lambda>(t, g). g = gid) xs) \<le> 1"
        by (rule Cons.IH) (use Cons.prems in auto)
      with False show ?thesis by (simp add: x)
    qed
  qed simp
  moreover have "t = t'" if "(t, gid) \<in> set (live s)" "(t', gid) \<in> set (live s)" for t t'
    using trackedD(1) [OF s that(1)] trackedD(1) [OF s that(2)] by simp
  ultimately show ?thesis using trackedD(4) [OF s] by blast
qed

text \<open>
  C27. One runner per group: as long as no request kicks a group in the moment between the end of its
  runner and the runner's done callback, no interleaving of kicks, of ends and of callbacks gives a
  group two live runners.
\<close>

theorem one_runner_per_group:
  assumes "calm_loop\<^sup>*\<^sup>* (idle gs) s"
  shows "live_runners s gid \<le> 1"
  using tracked_one [OF tracked_reachable [OF assms]] by (simp add: live_runners_def)

theorem one_runner_per_group_witness:
  "live_runners (snd (kick ''g'' (idle []))) ''g'' \<le> 1"
proof -
  have "calm_loop\<^sup>*\<^sup>* (idle []) (snd (kick ''g'' (idle [])))"
    by (rule r_into_rtranclp, rule calm_kicked) (simp add: idle_def)
  then show ?thesis by (rule one_runner_per_group)
qed

text \<open>
  Without that restriction a group can get two live runners: the callback of an old runner drops
  the entry of the new one, and the next kick, finding no entry, launches a second runner beside it.
\<close>

theorem double_launch_is_possible:
  "\<exists>s. loop\<^sup>*\<^sup>* (idle []) s \<and> live_runners s ''g'' = 2"
proof -
  define s1 where "s1 = snd (kick ''g'' (idle []))"
  define s2 where "s2 = s1\<lparr>live := filter (\<lambda>(t', _). t' \<noteq> 0) (live s1), callbacks := callbacks s1 @ [(0, ''g'')]\<rparr>"
  define s3 where "s3 = snd (kick ''g'' s2)"
  define s4 where "s4 = s3\<lparr>active := AList.delete ''g'' (active s3), callbacks := []\<rparr>"
  define s5 where "s5 = snd (kick ''g'' s4)"
  note defs = s1_def s2_def s3_def s4_def s5_def idle_def kick_def task_done_def
  have "loop (idle []) s1" unfolding s1_def by (rule kicked)
  moreover have "loop s1 s2" unfolding s2_def by (rule ended) (simp add: defs)
  moreover have "loop s2 s3" unfolding s3_def by (rule kicked)
  moreover have "loop s3 s4" unfolding s4_def by (rule called [where t = 0]) (simp add: defs)
  moreover have "loop s4 s5" unfolding s5_def by (rule kicked)
  ultimately have "loop\<^sup>*\<^sup>* (idle []) s5" by (simp only: converse_rtranclp_into_rtranclp rtranclp.rtrancl_refl)
  moreover have "live_runners s5 ''g'' = 2" by (simp add: defs live_runners_def)
  ultimately show ?thesis by blast
qed

section \<open>Every waiting group gets a runner\<close>

definition has_runner :: "scheduler \<Rightarrow> string \<Rightarrow> bool" where
  "has_runner s gid = (case map_of (active s) gid of None \<Rightarrow> False | Some t \<Rightarrow> \<not> task_done s t)"

lemma has_runner_kick [simp]: "has_runner (snd (kick gid s)) gid"
  by (auto simp: has_runner_def kick_def task_done_def update_conv' split: option.splits)

lemma has_runner_kick_other: "has_runner s g \<Longrightarrow> has_runner (snd (kick gid s)) g"
  by (cases "g = gid") (auto simp: has_runner_def kick_def task_done_def update_conv' split: option.splits)

lemma groups_kick [simp]: "groups (snd (kick gid s)) = groups s"
  by (simp add: kick_def split: option.split)

lemma kick_all_Cons: "snd (kick_all (gid # gids) s) = snd (kick_all gids (snd (kick gid s)))"
  by (simp split: prod.split)

lemma has_runner_kick_all:
  "g \<in> set gids \<or> has_runner s g \<Longrightarrow> has_runner (snd (kick_all gids s)) g"
proof (induction gids arbitrary: s)
  case (Cons gid gids)
  show ?case unfolding kick_all_Cons
    by (rule Cons.IH) (use Cons.prems has_runner_kick_other in auto)
qed simp

lemma groups_kick_all [simp]: "groups (snd (kick_all gids s)) = groups s"
  by (induction gids arbitrary: s) (simp_all add: kick_all_Cons del: kick_all.simps(2))

lemma groups_cycle:
  "groups (snd (run_scheduler_cycle now s)) = map (\<lambda>(gid, g). (gid, fst (consider_group now s gid g))) (groups s)"
  by (simp add: run_scheduler_cycle_def comp_def case_prod_unfold)

lemma consider_group_cases:
  "ge_status (fst (consider_group now s gid g)) \<in> {''pending'', ''running''} \<Longrightarrow>
   snd (consider_group now s gid g) \<or> has_runner s gid"
  by (auto simp: consider_group_def has_runner_def split: if_splits option.splits)

lemma launched_iff:
  "gid \<in> set (map fst (filter (\<lambda>(gid, g, launch). launch) (map (\<lambda>(gid, g). (gid, c gid g)) rows))) \<longleftrightarrow>
   (\<exists>g. (gid, g) \<in> set rows \<and> snd (c gid g))"
  by (induction rows) (auto simp: case_prod_unfold)

text \<open>
  A cycle leaves no group behind: after it every group that is pending or running, among them the
  scheduled ones that came due and those a restart had interrupted, has a live runner; a scheduled
  group whose time has not come is still scheduled, and no other group changed.
\<close>

theorem cycle_leaves_no_orphan:
  "case run_scheduler_cycle now s of (n, s') \<Rightarrow>
     (\<forall>(gid, g) \<in> set (groups s'). ge_status g \<in> {''pending'', ''running''} \<longrightarrow>
        (\<exists>t. map_of (active s') gid = Some t \<and> (t \<in> fst ` set (live s')))) \<and>
     map fst (groups s') = map fst (groups s) \<and>
     (\<forall>i < length (groups s). snd (groups s' ! i) \<noteq> snd (groups s ! i) \<longrightarrow>
        ge_status (snd (groups s ! i)) = ''scheduled'' \<and> ge_status (snd (groups s' ! i)) = ''pending'' \<and>
        (\<exists>due \<le> now. ge_scheduled_at (snd (groups s ! i)) = Some due))"
proof -
  let ?s' = "snd (run_scheduler_cycle now s)"
  let ?seen = "map (\<lambda>(gid, g). (gid, consider_group now s gid g)) (groups s)"
  have run: "?s' = snd (kick_all (map fst (filter (\<lambda>(gid, g, launch). launch) ?seen))
      (s\<lparr>groups := map (\<lambda>(gid, g, launch). (gid, g)) ?seen\<rparr>))"
    by (simp add: run_scheduler_cycle_def Let_def)
  have live: "has_runner ?s' gid"
    if row: "(gid, g) \<in> set (groups ?s')" "ge_status g \<in> {''pending'', ''running''}" for gid g
  proof -
    obtain g0 where g0: "(gid, g0) \<in> set (groups s)" "g = fst (consider_group now s gid g0)"
      using row(1) by (auto simp: groups_cycle)
    then have "snd (consider_group now s gid g0) \<or> has_runner s gid"
      using row(2) by (intro consider_group_cases) simp
    moreover have "has_runner (s\<lparr>groups := gs\<rparr>) gid = has_runner s gid" for gs
      by (simp add: has_runner_def task_done_def split: option.split)
    moreover have "gid \<in> set (map fst (filter (\<lambda>(gid, g, launch). launch) ?seen))"
      if "snd (consider_group now s gid g0)"
      unfolding launched_iff using g0(1) that by blast
    ultimately have "gid \<in> set (map fst (filter (\<lambda>(gid, g, launch). launch) ?seen)) \<or>
        has_runner (s\<lparr>groups := map (\<lambda>(gid, g, launch). (gid, g)) ?seen\<rparr>) gid"
      by blast
    then show ?thesis unfolding run by (rule has_runner_kick_all)
  qed
  have changed: "ge_status (snd (groups s ! i)) = ''scheduled'' \<and> ge_status (snd (groups ?s' ! i)) = ''pending'' \<and>
      (\<exists>due \<le> now. ge_scheduled_at (snd (groups s ! i)) = Some due)"
    if "i < length (groups s)" "snd (groups ?s' ! i) \<noteq> snd (groups s ! i)" for i
    using that by (auto simp: groups_cycle consider_group_def case_prod_unfold not_less split: if_splits option.splits)
  have runner: "\<exists>t. map_of (active ?s') (fst x) = Some t \<and> t \<in> fst ` set (live ?s')"
    if "x \<in> set (groups ?s')" "ge_status (snd x) \<in> {''pending'', ''running''}" for x
    using live [of "fst x" "snd x"] that by (simp add: has_runner_def task_done_def split: option.splits)
  have "map fst (groups ?s') = map fst (groups s)"
    by (simp add: groups_cycle comp_def case_prod_unfold)
  with runner changed show ?thesis
    unfolding case_prod_unfold by blast
qed

text \<open>A cycle over a due group, one that is not due, and one that a restart interrupted.\<close>

theorem cycle_leaves_no_orphan_witness:
  "let s = idle [(''a'', \<lparr>ge_status = ''scheduled'', ge_scheduled_at = Some 5\<rparr>),
                 (''b'', \<lparr>ge_status = ''scheduled'', ge_scheduled_at = Some 15\<rparr>),
                 (''c'', \<lparr>ge_status = ''running'', ge_scheduled_at = None\<rparr>)];
       s' = snd (run_scheduler_cycle 10 s)
   in map (ge_status \<circ> snd) (groups s') = [''pending'', ''scheduled'', ''running''] \<and>
      (\<forall>(gid, g) \<in> set (groups s'). ge_status g \<in> {''pending'', ''running''} \<longrightarrow>
        (\<exists>t. map_of (active s') gid = Some t \<and> (t \<in> fst ` set (live s'))))"
  using cycle_leaves_no_orphan [where now = 10 and s = "idle [(''a'', \<lparr>ge_status = ''scheduled'', ge_scheduled_at = Some 5\<rparr>),
                 (''b'', \<lparr>ge_status = ''scheduled'', ge_scheduled_at = Some 15\<rparr>),
                 (''c'', \<lparr>ge_status = ''running'', ge_scheduled_at = None\<rparr>)]"]
  unfolding Let_def case_prod_unfold
  by (intro conjI) (simp add: groups_cycle idle_def consider_group_def, blast)


end
