(* ===== verification/Job_Manager.thy ===== *)
theory Job_Manager
  imports Actions Op_Result
begin

text \<open>
  The job system: \<^verbatim>\<open>jobs/manager.py\<close> (\<^verbatim>\<open>JobManager\<close>: the job's coroutine, the streaming of its
  lines to subscribers, the redaction of its parameters), the log stream of \<^verbatim>\<open>api/jobs.py\<close> that
  subscribes to it, and the clean-up after a restart (\<^verbatim>\<open>jobs/reconcile.py\<close>).

  Jobs and listeners interleave at their \<^verbatim>\<open>await\<close>s: a \<open>job_move\<close> is what one of them does between
  two, and \<open>job_step\<close> says when it can happen. What the operation of a job emits, returns or raises
  is the environment's choice. The queues of the subscribers are unbounded, so publishing a line
  never waits.
\<close>

section \<open>State\<close>

record job_row =
  jr_action :: string
  jr_params :: dict
  jr_status :: string
  jr_result :: "op_result option"
  jr_logs :: string

text \<open>Where a job's coroutine is; \<open>Saving\<close> knows whether a failure to save is still handled.\<close>

datatype job_phase =
    Queued
  | Marking
  | Announcing
  | Working
  | Saving string op_result bool
  | Ending
  | Gone

record job_task =
  jt_phase :: job_phase
  jt_buffer :: "string list"

text \<open>A listener of \<^verbatim>\<open>stream_logs\<close>: it has looked at the row, it is subscribed, or it is closed.\<close>

datatype listening = Looked | Subscribed | Closed

record listener =
  ls_job :: string
  ls_state :: listening
  ls_sent :: "string list"
  ls_queue :: "string list"

record job_world =
  jw_rows :: "(string \<times> job_row) list"
  jw_tasks :: "(string \<times> job_task) list"
  jw_permits :: nat
  jw_listeners :: "(nat \<times> listener) list"

section \<open>Redaction\<close>

definition looks_secret :: "string \<Rightarrow> bool" where
  "looks_secret k \<longleftrightarrow> list_ex (\<lambda>s. contains s (lower k)) [''token'', ''password'', ''secret'', ''key'']"

definition strip_secrets :: "dict \<Rightarrow> dict" where
  "strip_secrets params = map (\<lambda>(k, v). (k, if looks_secret k then JStr ''***'' else v)) params"

section \<open>Publishing\<close>

definition END :: string where
  "END = ''__END__''"

definition publish :: "string \<Rightarrow> string \<Rightarrow> job_world \<Rightarrow> job_world" where
  "publish j line w =
     w\<lparr>jw_listeners := map (\<lambda>(l, x).
        (l, if ls_state x = Subscribed \<and> ls_job x = j then x\<lparr>ls_queue := ls_queue x @ [line]\<rparr> else x)) (jw_listeners w)\<rparr>"

definition set_phase :: "string \<Rightarrow> job_phase \<Rightarrow> job_world \<Rightarrow> job_world" where
  "set_phase j p w =
     (case map_of (jw_tasks w) j of
        None \<Rightarrow> w
      | Some t \<Rightarrow> w\<lparr>jw_tasks := AList.update j (t\<lparr>jt_phase := p\<rparr>) (jw_tasks w)\<rparr>)"

definition emit_line :: "string \<Rightarrow> string \<Rightarrow> job_world \<Rightarrow> job_world" where
  "emit_line j line w =
     publish j line
       (case map_of (jw_tasks w) j of
          None \<Rightarrow> w
        | Some t \<Rightarrow> w\<lparr>jw_tasks := AList.update j (t\<lparr>jt_buffer := jt_buffer t @ [line]\<rparr>) (jw_tasks w)\<rparr>)"

definition update_row :: "string \<Rightarrow> (job_row \<Rightarrow> job_row) \<Rightarrow> job_world \<Rightarrow> job_world" where
  "update_row j f w =
     (case map_of (jw_rows w) j of
        None \<Rightarrow> w
      | Some r \<Rightarrow> w\<lparr>jw_rows := AList.update j (f r) (jw_rows w)\<rparr>)"

definition set_status :: "string \<Rightarrow> string \<Rightarrow> job_world \<Rightarrow> job_world" where
  "set_status j st = update_row j (\<lambda>r. r\<lparr>jr_status := st\<rparr>)"

definition finalize :: "string \<Rightarrow> string \<Rightarrow> op_result \<Rightarrow> string list \<Rightarrow> job_world \<Rightarrow> job_world" where
  "finalize j st res buffer =
     update_row j (\<lambda>r. r\<lparr>jr_status := st, jr_result := Some res, jr_logs := join [CHR 0x0A] buffer\<rparr>)"

section \<open>Moves\<close>

datatype job_move =
    Create string string dict
  | Acquire string
  | Mark string
  | Mark_fails string
  | Announce string
  | Emit string string
  | Return string op_result
  | Raise string exn
  | Save string
  | Save_fails string exn
  | End string
  | Look nat string
  | Subscribe nat
  | Pump nat
  | Hang_up nat

definition create_and_run :: "string \<Rightarrow> string \<Rightarrow> dict \<Rightarrow> job_world \<Rightarrow> job_world" where
  "create_and_run j action params w =
     w\<lparr>jw_rows := (j, \<lparr>jr_action = action, jr_params = strip_secrets params, jr_status = ''pending'',
                       jr_result = None, jr_logs = []\<rparr>) # jw_rows w,
       jw_tasks := (j, \<lparr>jt_phase = Queued, jt_buffer = []\<rparr>) # jw_tasks w\<rparr>"

text \<open>The job \<open>j\<close>'s coroutine, when it is at a phase the move fits.\<close>

definition job_move_at ::
  "string \<Rightarrow> (job_phase \<Rightarrow> string list \<Rightarrow> job_world \<Rightarrow> job_world option) \<Rightarrow> job_world \<Rightarrow> job_world option" where
  "job_move_at j f w =
     (case map_of (jw_tasks w) j of None \<Rightarrow> None | Some t \<Rightarrow> f (jt_phase t) (jt_buffer t) w)"

definition listener_move ::
  "nat \<Rightarrow> (listener \<Rightarrow> listener option) \<Rightarrow> job_world \<Rightarrow> job_world option" where
  "listener_move l f w =
     (case map_of (jw_listeners w) l of
        None \<Rightarrow> None
      | Some x \<Rightarrow> map_option (\<lambda>x'. w\<lparr>jw_listeners := AList.update l x' (jw_listeners w)\<rparr>) (f x))"

text \<open>\<^verbatim>\<open>stream_logs\<close> up to the subscription: what the row says when the listener looks at it.\<close>

definition look :: "string \<Rightarrow> job_row option \<Rightarrow> listener" where
  "look j row =
     (case row of
        None \<Rightarrow> \<lparr>ls_job = j, ls_state = Closed, ls_sent = [''__ERROR__ job not found''], ls_queue = []\<rparr>
      | Some r \<Rightarrow>
          if jr_status r \<in> {''succeeded'', ''failed'', ''canceled''}
          then \<lparr>ls_job = j, ls_state = Closed, ls_sent = splitlines (jr_logs r) @ [END], ls_queue = []\<rparr>
          else \<lparr>ls_job = j, ls_state = Looked, ls_sent = splitlines (jr_logs r), ls_queue = []\<rparr>)"

fun job_step :: "job_move \<Rightarrow> job_world \<Rightarrow> job_world option" where
  "job_step (Create j action params) w =
     (if j \<in> fst ` set (jw_rows w) \<union> fst ` set (jw_tasks w) then None else Some (create_and_run j action params w))"
| "job_step (Acquire j) w = job_move_at j (\<lambda>p b w.
     if p = Queued \<and> 0 < jw_permits w then Some (set_phase j Marking (w\<lparr>jw_permits := jw_permits w - 1\<rparr>)) else None) w"
| "job_step (Mark j) w = job_move_at j (\<lambda>p b w.
     if p = Marking then Some (set_phase j Announcing (set_status j ''running'' w)) else None) w"
| "job_step (Mark_fails j) w = job_move_at j (\<lambda>p b w.
     if p = Marking then Some (set_phase j Gone (w\<lparr>jw_permits := jw_permits w + 1\<rparr>)) else None) w"
| "job_step (Announce j) w = job_move_at j (\<lambda>p b w.
     if p = Announcing then Some (set_phase j Working (emit_line j (''=== job '' @ j @ '' started ==='') w)) else None) w"
| "job_step (Emit j line) w = job_move_at j (\<lambda>p b w.
     if p = Working then Some (emit_line j line w) else None) w"
| "job_step (Return j res) w = job_move_at j (\<lambda>p b w.
     if p = Working
     then (let st = (if success res then ''succeeded'' else ''failed'') in
           Some (set_phase j (Saving st res True) (emit_line j (''=== '' @ st @ '': '' @ message res @ '' ==='') w)))
     else None) w"
| "job_step (Raise j e) w = job_move_at j (\<lambda>p b w.
     if p = Working
     then Some (set_phase j (Saving ''failed'' (op_fail (exn_text e) [] []) False)
       (emit_line j (''=== failed: '' @ exn_text e @ '' ==='') w))
     else None) w"
| "job_step (Save j) w = job_move_at j (\<lambda>p b w.
     case p of Saving st res _ \<Rightarrow> Some (set_phase j Ending (finalize j st res b w)) | _ \<Rightarrow> None) w"
| "job_step (Save_fails j e) w = job_move_at j (\<lambda>p b w.
     case p of
       Saving _ _ handled \<Rightarrow>
         if handled
         then Some (set_phase j (Saving ''failed'' (op_fail (exn_text e) [] []) False)
           (emit_line j (''=== failed: '' @ exn_text e @ '' ==='') w))
         else Some (set_phase j Ending w)
     | _ \<Rightarrow> None) w"
| "job_step (End j) w = job_move_at j (\<lambda>p b w.
     if p = Ending then Some (set_phase j Gone (publish j END (w\<lparr>jw_permits := jw_permits w + 1\<rparr>))) else None) w"
| "job_step (Look l j) w =
     (if l \<in> fst ` set (jw_listeners w) then None
      else Some (w\<lparr>jw_listeners := (l, look j (map_of (jw_rows w) j)) # jw_listeners w\<rparr>))"
| "job_step (Subscribe l) w = listener_move l (\<lambda>x.
     if ls_state x = Looked then Some (x\<lparr>ls_state := Subscribed\<rparr>) else None) w"
| "job_step (Pump l) w = listener_move l (\<lambda>x.
     case ls_queue x of
       [] \<Rightarrow> None
     | line # rest \<Rightarrow>
         if ls_state x = Subscribed
         then Some (x\<lparr>ls_sent := ls_sent x @ [line], ls_queue := rest,
                      ls_state := (if line = END then Closed else Subscribed)\<rparr>)
         else None) w"
| "job_step (Hang_up l) w = listener_move l (\<lambda>x.
     if ls_state x = Closed then None else Some (x\<lparr>ls_state := Closed\<rparr>)) w"

fun job_run :: "job_move list \<Rightarrow> job_world \<Rightarrow> job_world option" where
  "job_run [] w = Some w"
| "job_run (m # ms) w = (case job_step m w of None \<Rightarrow> None | Some w' \<Rightarrow> job_run ms w')"

definition fresh_jobs :: "nat \<Rightarrow> job_world" where
  "fresh_jobs n = \<lparr>jw_rows = [], jw_tasks = [], jw_permits = n, jw_listeners = []\<rparr>"

section \<open>After a restart\<close>

text \<open>The rows survive; the coroutines and the listeners do not.\<close>

definition restart :: "nat \<Rightarrow> job_world \<Rightarrow> job_world" where
  "restart n w = \<lparr>jw_rows = jw_rows w, jw_tasks = [], jw_permits = n, jw_listeners = []\<rparr>"

definition ORPHAN_NOTE :: string where
  "ORPHAN_NOTE = CHR 0x0A # ''=== failed: interrupted by a backend restart (orphaned job) ===''"

definition orphaned :: "string \<Rightarrow> bool" where
  "orphaned st \<longleftrightarrow> st \<in> {''running'', ''pending''}"

record migration_status =
  ms_status :: string
  ms_phase :: string

definition reconcile_orphaned_jobs ::
  "(string \<times> job_row) list \<Rightarrow> (string \<times> migration_status) list \<Rightarrow>
   nat \<times> (string \<times> job_row) list \<times> (string \<times> migration_status) list" where
  "reconcile_orphaned_jobs jobs migs =
     (length (filter (\<lambda>(_, r). orphaned (jr_status r)) jobs),
      map (\<lambda>(j, r). (j, if orphaned (jr_status r)
        then r\<lparr>jr_status := ''failed'', jr_logs := jr_logs r @ ORPHAN_NOTE\<rparr> else r)) jobs,
      map (\<lambda>(i, m). (i, if orphaned (ms_status m)
        then m\<lparr>ms_status := ''failed'', ms_phase := ''interrupted''\<rparr> else m)) migs)"

section \<open>Reading a move's effect\<close>

named_theorems job_simps "the fields of a job world after a change"

lemma publish_simps [job_simps, simp]:
  "jw_rows (publish j line w) = jw_rows w" "jw_tasks (publish j line w) = jw_tasks w"
  "jw_permits (publish j line w) = jw_permits w"
  "map_of (jw_listeners (publish j line w)) l = map_option
     (\<lambda>x. if ls_state x = Subscribed \<and> ls_job x = j then x\<lparr>ls_queue := ls_queue x @ [line]\<rparr> else x)
     (map_of (jw_listeners w) l)"
  by (simp_all add: publish_def map_of_map case_prod_beta' [symmetric])

lemma set_phase_simps [job_simps, simp]:
  "jw_rows (set_phase j p w) = jw_rows w" "jw_permits (set_phase j p w) = jw_permits w"
  "jw_listeners (set_phase j p w) = jw_listeners w"
  "map_of (jw_tasks (set_phase j p w)) i =
     (if i = j then map_option (\<lambda>t. t\<lparr>jt_phase := p\<rparr>) (map_of (jw_tasks w) j) else map_of (jw_tasks w) i)"
  by (auto simp: set_phase_def split: option.split)

lemma emit_line_simps [job_simps, simp]:
  "jw_rows (emit_line j line w) = jw_rows w" "jw_permits (emit_line j line w) = jw_permits w"
  "map_of (jw_tasks (emit_line j line w)) i =
     (if i = j then map_option (\<lambda>t. t\<lparr>jt_buffer := jt_buffer t @ [line]\<rparr>) (map_of (jw_tasks w) j)
      else map_of (jw_tasks w) i)"
  "map_of (jw_listeners (emit_line j line w)) l = map_option
     (\<lambda>x. if ls_state x = Subscribed \<and> ls_job x = j then x\<lparr>ls_queue := ls_queue x @ [line]\<rparr> else x)
     (map_of (jw_listeners w) l)"
  by (auto simp: emit_line_def split: option.split)

lemma update_row_simps [job_simps, simp]:
  "jw_tasks (update_row j f w) = jw_tasks w" "jw_permits (update_row j f w) = jw_permits w"
  "jw_listeners (update_row j f w) = jw_listeners w"
  "map_of (jw_rows (update_row j f w)) i =
     (if i = j then map_option f (map_of (jw_rows w) j) else map_of (jw_rows w) i)"
  by (auto simp: update_row_def split: option.split)

lemma job_move_atE:
  assumes "job_move_at j f w = Some w'"
  obtains t where "map_of (jw_tasks w) j = Some t" and "f (jt_phase t) (jt_buffer t) w = Some w'"
  using assms by (auto simp: job_move_at_def split: option.splits)

lemma listener_moveE:
  assumes "listener_move l f w = Some w'"
  obtains x x' where "map_of (jw_listeners w) l = Some x" and "f x = Some x'"
    and "w' = w\<lparr>jw_listeners := AList.update l x' (jw_listeners w)\<rparr>"
  using assms by (auto simp: listener_move_def split: option.splits)

lemma job_run_induct:
  assumes "job_run ms w = Some w'" and "I w"
    and "\<And>m v v'. m \<in> set ms \<Longrightarrow> I v \<Longrightarrow> job_step m v = Some v' \<Longrightarrow> I v'"
  shows "I w'"
  using assms
proof (induction ms arbitrary: w)
  case (Cons m ms)
  then obtain u where u: "job_step m w = Some u" "job_run ms u = Some w'"
    by (auto split: option.splits)
  have "I u" using Cons.prems(2,3) u(1) by (meson list.set_intros(1))
  moreover have "\<And>m v v'. m \<in> set ms \<Longrightarrow> I v \<Longrightarrow> job_step m v = Some v' \<Longrightarrow> I v'"
    using Cons.prems(3) by (meson list.set_intros(2))
  ultimately show ?case using Cons.IH [OF u(2)] by blast
qed simp

section \<open>The stream of a job\<close>

text \<open>
  What a listener that subscribed to the job \<open>j\<close> when \<open>n\<close> lines were out has been sent and will be:
  the lines from there on, and \<open>END\<close> once the job is gone.
\<close>

definition outgoing :: "nat \<Rightarrow> job_task \<Rightarrow> string list" where
  "outgoing n t = drop n (jt_buffer t) @ (if jt_phase t = Gone then [END] else [])"

definition streaming :: "string \<Rightarrow> nat \<Rightarrow> string list \<Rightarrow> nat \<Rightarrow> job_world \<Rightarrow> bool" where
  "streaming j l pre n w \<longleftrightarrow>
     (\<exists>t x k. map_of (jw_tasks w) j = Some t \<and> map_of (jw_listeners w) l = Some x \<and> ls_job x = j \<and>
        n \<le> length (jt_buffer t) \<and> END \<notin> set (drop n (jt_buffer t)) \<and>
        k \<le> length (outgoing n t) \<and> ls_sent x = pre @ take k (outgoing n t) \<and> ls_queue x = drop k (outgoing n t) \<and>
        (if k = length (outgoing n t) \<and> jt_phase t = Gone then ls_state x = Closed else ls_state x = Subscribed))"

lemma started_not_END [simp]: "(''=== '' @ s) \<noteq> END" "CHR ''='' # s \<noteq> END"
  by (simp_all add: END_def)

lemma streaming_same:
  assumes "streaming j l pre n w" and "map_of (jw_tasks w) j = Some t" and "map_of (jw_tasks w') j = Some t'"
    and "jt_buffer t' = jt_buffer t" and "jt_phase t' = Gone \<longleftrightarrow> jt_phase t = Gone"
    and "map_of (jw_listeners w') l = map_of (jw_listeners w) l"
  shows "streaming j l pre n w'"
  using assms unfolding streaming_def outgoing_def by auto

text \<open>A line is put on the queue, or the end.\<close>

lemma streaming_line:
  assumes "streaming j l pre n w" and "map_of (jw_tasks w) j = Some t" and "jt_phase t \<noteq> Gone"
    and "map_of (jw_tasks w') j = Some t'" and "outgoing n t' = outgoing n t @ [line]"
    and "END \<notin> set (drop n (jt_buffer t'))" and "length (jt_buffer t) \<le> length (jt_buffer t')"
    and "map_of (jw_listeners w') l = map_option
      (\<lambda>x. if ls_state x = Subscribed \<and> ls_job x = j then x\<lparr>ls_queue := ls_queue x @ [line]\<rparr> else x)
      (map_of (jw_listeners w) l)"
  shows "streaming j l pre n w'"
proof -
  obtain x k where x: "map_of (jw_listeners w) l = Some x" "ls_job x = j" "ls_state x = Subscribed"
    "k \<le> length (outgoing n t)" "ls_sent x = pre @ take k (outgoing n t)" "ls_queue x = drop k (outgoing n t)"
    "n \<le> length (jt_buffer t)"
    using assms(1,2,3) by (auto simp: streaming_def)
  then have "map_of (jw_listeners w') l = Some (x\<lparr>ls_queue := ls_queue x @ [line]\<rparr>)"
    by (simp add: assms(8))
  moreover have "k \<noteq> length (outgoing n t')" and "k \<le> length (outgoing n t')"
    using x(4) by (simp_all add: assms(5))
  ultimately show ?thesis
    unfolding streaming_def using assms(4,6,7) x
    by (intro exI [of _ t'] exI [of _ "x\<lparr>ls_queue := ls_queue x @ [line]\<rparr>"] exI [of _ k]) (simp add: assms(5))
qed

lemma streaming_pump:
  assumes "streaming j l pre n w" and "job_step (Pump l) w = Some w'"
  shows "streaming j l pre n w'"
proof -
  obtain t x k where t: "map_of (jw_tasks w) j = Some t" "END \<notin> set (drop n (jt_buffer t))" "n \<le> length (jt_buffer t)"
    and x: "map_of (jw_listeners w) l = Some x" "ls_job x = j"
      "k \<le> length (outgoing n t)" "ls_sent x = pre @ take k (outgoing n t)" "ls_queue x = drop k (outgoing n t)"
    using assms(1) by (auto simp: streaming_def)
  from assms(2) x obtain line rest where q: "ls_queue x = line # rest" "ls_state x = Subscribed"
    and w': "w' = w\<lparr>jw_listeners := AList.update l (x\<lparr>ls_sent := ls_sent x @ [line], ls_queue := rest,
        ls_state := (if line = END then Closed else Subscribed)\<rparr>) (jw_listeners w)\<rparr>"
    by (auto elim!: listener_moveE split: list.splits if_splits)
  have k: "k < length (outgoing n t)"
    using q(1) x(5) by (metis drop_all leI list.distinct(1))
  have "line # rest = outgoing n t ! k # drop (Suc k) (outgoing n t)"
    using q(1) x(5) k by (simp add: Cons_nth_drop_Suc)
  then have l: "line = outgoing n t ! k" "rest = drop (Suc k) (outgoing n t)" by simp_all
  let ?out = "drop n (jt_buffer t)"
  have out: "?out ! k \<noteq> END" if "k < length ?out"
    using t(2) nth_mem [OF that] by metis
  have "line = END \<longleftrightarrow> Suc k = length (outgoing n t) \<and> jt_phase t = Gone"
  proof (cases "k < length ?out")
    case True
    then have "line \<noteq> END" using out by (simp add: l(1) outgoing_def nth_append)
    with True show ?thesis by (auto simp: outgoing_def)
  next
    case False
    with k have "jt_phase t = Gone" "k = length ?out" by (auto simp: outgoing_def split: if_splits)
    then show ?thesis by (simp add: l(1) outgoing_def nth_append)
  qed
  moreover have "ls_sent x @ [line] = pre @ take (Suc k) (outgoing n t)"
    using k x(4) by (simp add: take_Suc_conv_app_nth l(1))
  ultimately show ?thesis
    unfolding streaming_def w' using t x(2) k l(2)
    by (intro exI [of _ t] exI [of _ "x\<lparr>ls_sent := ls_sent x @ [line], ls_queue := rest,
        ls_state := (if line = END then Closed else Subscribed)\<rparr>"] exI [of _ "Suc k"]) simp
qed

text \<open>A line of the job itself is put out.\<close>

lemma streaming_emit:
  assumes "streaming j l pre n w" and "map_of (jw_tasks w) j = Some t" and "jt_phase t \<noteq> Gone"
    and "p \<noteq> Gone" and "line \<noteq> END"
  shows "streaming j l pre n (set_phase j p (emit_line j line w))"
proof (rule streaming_line [OF assms(1-3), of _ "t\<lparr>jt_phase := p, jt_buffer := jt_buffer t @ [line]\<rparr>" line])
  have "n \<le> length (jt_buffer t)" "END \<notin> set (drop n (jt_buffer t))"
    using assms(1,2) by (auto simp: streaming_def)
  then show "outgoing n (t\<lparr>jt_phase := p, jt_buffer := jt_buffer t @ [line]\<rparr>) = outgoing n t @ [line]"
    and "END \<notin> set (drop n (jt_buffer (t\<lparr>jt_phase := p, jt_buffer := jt_buffer t @ [line]\<rparr>)))"
    using assms(3,4,5) by (simp_all add: outgoing_def)
qed (use assms(2) in simp_all)

lemma streaming_emit_only:
  assumes "streaming j l pre n w" and "map_of (jw_tasks w) j = Some t" and "jt_phase t \<noteq> Gone" and "line \<noteq> END"
  shows "streaming j l pre n (emit_line j line w)"
proof (rule streaming_line [OF assms(1-3), of _ "t\<lparr>jt_buffer := jt_buffer t @ [line]\<rparr>" line])
  have "n \<le> length (jt_buffer t)" "END \<notin> set (drop n (jt_buffer t))"
    using assms(1,2) by (auto simp: streaming_def)
  then show "outgoing n (t\<lparr>jt_buffer := jt_buffer t @ [line]\<rparr>) = outgoing n t @ [line]"
    and "END \<notin> set (drop n (jt_buffer (t\<lparr>jt_buffer := jt_buffer t @ [line]\<rparr>)))"
    using assms(3,4) by (simp_all add: outgoing_def)
qed (use assms(2) in simp_all)

lemma streaming_end:
  assumes "streaming j l pre n w" and "map_of (jw_tasks w) j = Some t" and "jt_phase t \<noteq> Gone"
  shows "streaming j l pre n (set_phase j Gone (publish j END (w\<lparr>jw_permits := p\<rparr>)))"
proof (rule streaming_line [OF assms(1-3), of _ "t\<lparr>jt_phase := Gone\<rparr>" END])
  show "outgoing n (t\<lparr>jt_phase := Gone\<rparr>) = outgoing n t @ [END]"
    using assms(3) by (simp add: outgoing_def)
  show "END \<notin> set (drop n (jt_buffer (t\<lparr>jt_phase := Gone\<rparr>)))"
    using assms(1,2) by (auto simp: streaming_def)
qed (use assms(2) in simp_all)

text \<open>A move of another job leaves the job and its listener alone.\<close>

fun job_of_move :: "job_move \<Rightarrow> string option" where
  "job_of_move (Create j _ _) = Some j"
| "job_of_move (Acquire j) = Some j"
| "job_of_move (Mark j) = Some j"
| "job_of_move (Mark_fails j) = Some j"
| "job_of_move (Announce j) = Some j"
| "job_of_move (Emit j _) = Some j"
| "job_of_move (Return j _) = Some j"
| "job_of_move (Raise j _) = Some j"
| "job_of_move (Save j) = Some j"
| "job_of_move (Save_fails j _) = Some j"
| "job_of_move (End j) = Some j"
| "job_of_move _ = None"

lemma other_job_step:
  assumes "job_step m w = Some w'" and "job_of_move m = Some i" and "i \<noteq> j"
  shows "map_of (jw_tasks w') j = map_of (jw_tasks w) j" and "map_of (jw_rows w') j = map_of (jw_rows w) j"
    and "\<And>x. map_of (jw_listeners w) l = Some x \<Longrightarrow> ls_job x = j \<Longrightarrow> map_of (jw_listeners w') l = Some x"
  using assms
  by (cases m; auto simp: create_and_run_def set_status_def finalize_def Let_def
      elim!: job_move_atE split: if_splits job_phase.splits)+

lemma listener_step:
  assumes "job_step m w = Some w'" and "job_of_move m = None"
  shows "jw_tasks w' = jw_tasks w" and "jw_rows w' = jw_rows w" and "jw_permits w' = jw_permits w"
  using assms by (cases m; auto elim!: listener_moveE split: if_splits list.splits)+

lemma streaming_step:
  assumes "job_step m w = Some w'" and s: "streaming j l pre n w"
    and "m \<noteq> Hang_up l" and "m \<noteq> Mark_fails j" and "m \<noteq> Emit j END"
  shows "streaming j l pre n w'"
proof -
  obtain t x where t: "map_of (jw_tasks w) j = Some t" and x: "map_of (jw_listeners w) l = Some x" "ls_job x = j"
    and st: "ls_state x \<noteq> Looked"
    using s by (auto simp: streaming_def split: if_splits)
  consider (other) i where "job_of_move m = Some i" "i \<noteq> j" | (own) "job_of_move m = Some j" | (listener) "job_of_move m = None"
    by (cases "job_of_move m") auto
  then show ?thesis
  proof cases
    case other
    then show ?thesis
      using other_job_step [OF assms(1) other] t x by (intro streaming_same [OF s t]) simp_all
  next
    case listener
    show ?thesis
    proof (cases "m = Pump l")
      case True
      with assms(1) s streaming_pump show ?thesis by blast
    next
      case False
      then have "map_of (jw_listeners w') l = map_of (jw_listeners w) l"
        using listener assms(1,3) x st
        by (cases m) (auto simp: map_of_eq_None_iff [symmetric] elim!: listener_moveE split: if_splits list.splits)
      with listener_step(1) [OF assms(1) listener] t show ?thesis
        by (intro streaming_same [OF s t]) simp_all
    qed
  next
    case own
    show ?thesis
    proof (cases m)
      case (Create i a p)
      with own assms(1) t show ?thesis by (force simp: image_iff dest: map_of_SomeD split: if_splits)
    next
      case (Announce i)
      with own assms(1) t show ?thesis
        by (auto simp: job_move_at_def intro!: streaming_emit [OF s t] split: if_splits)
    next
      case (Emit i line)
      with own assms(1,5) t show ?thesis
        by (auto simp: job_move_at_def intro!: streaming_emit_only [OF s t] split: if_splits)
    next
      case (Return i res)
      with own assms(1) t show ?thesis
        by (auto simp: job_move_at_def Let_def intro!: streaming_emit [OF s t] split: if_splits)
    next
      case (Raise i e)
      with own assms(1) t show ?thesis
        by (auto simp: job_move_at_def intro!: streaming_emit [OF s t] split: if_splits)
    next
      case (Save_fails i e)
      with own assms(1) t show ?thesis
        by (auto simp: job_move_at_def intro!: streaming_emit [OF s t] streaming_same [OF s t]
            split: if_splits job_phase.splits)
    next
      case (End i)
      with own assms(1) t show ?thesis
        by (auto simp: job_move_at_def intro!: streaming_end [OF s t] split: if_splits)
    qed (use own assms(1,4) t in \<open>auto simp: job_move_at_def set_status_def finalize_def
        intro!: streaming_same [OF s t] split: if_splits job_phase.splits\<close>)
  qed
qed


section \<open>The row of a job\<close>

text \<open>
  The row against the coroutine: no lines until the end, then all of them; a row is final only when
  it has been saved.
\<close>

definition settled :: "string \<Rightarrow> bool" where
  "settled st \<longleftrightarrow> st \<in> {''succeeded'', ''failed''}"

lemma settled_simps [simp]:
  "settled ''succeeded''" "settled ''failed''" "\<not> settled ''pending''" "\<not> settled ''running''"
  by (simp_all add: settled_def)

definition row_ok :: "job_row \<Rightarrow> job_task \<Rightarrow> bool" where
  "row_ok r t \<longleftrightarrow>
     (if settled (jr_status r)
      then jt_phase t \<in> {Ending, Gone} \<and> jr_logs r = join [CHR 0x0A] (jt_buffer t)
      else jr_logs r = []) \<and>
     (\<forall>st res h. jt_phase t = Saving st res h \<longrightarrow> settled st)"

lemma row_ok_active:
  "jt_phase t \<noteq> Ending \<Longrightarrow> jt_phase t \<noteq> Gone \<Longrightarrow> row_ok r t \<Longrightarrow> \<not> settled (jr_status r) \<and> jr_logs r = []"
  by (auto simp: row_ok_def split: if_splits)

definition rows_ok :: "job_world \<Rightarrow> bool" where
  "rows_ok w \<longleftrightarrow>
     (\<forall>j t. map_of (jw_tasks w) j = Some t \<longrightarrow> (\<exists>r. map_of (jw_rows w) j = Some r \<and> row_ok r t))"

lemma rows_okD:
  "rows_ok w \<Longrightarrow> map_of (jw_tasks w) j = Some t \<Longrightarrow> \<exists>r. map_of (jw_rows w) j = Some r \<and> row_ok r t"
  by (simp add: rows_ok_def)

lemma rows_ok_fresh: "rows_ok (fresh_jobs n)"
  by (simp add: rows_ok_def fresh_jobs_def)

text \<open>A move of the job \<open>j\<close> has to be looked at for \<open>j\<close> only.\<close>

lemma rows_ok_own:
  assumes "rows_ok w" and "job_step m w = Some w'" and "job_of_move m = Some j"
    and "\<And>t. map_of (jw_tasks w') j = Some t \<Longrightarrow> \<exists>r. map_of (jw_rows w') j = Some r \<and> row_ok r t"
  shows "rows_ok w'"
  unfolding rows_ok_def
proof (intro allI impI)
  fix i t assume t: "map_of (jw_tasks w') i = Some t"
  show "\<exists>r. map_of (jw_rows w') i = Some r \<and> row_ok r t"
  proof (cases "i = j")
    case True
    with assms(4) t show ?thesis by blast
  next
    case False
    then show ?thesis
      using other_job_step(1,2) [OF assms(2,3), of i] t rows_okD [OF assms(1)] by auto
  qed
qed

lemma ex_Some_iff: "(\<exists>r. x = Some r \<and> P r) \<longleftrightarrow> (case x of None \<Rightarrow> False | Some r \<Rightarrow> P r)"
  by (simp split: option.split)

lemma rows_ok_step:
  assumes "job_step m w = Some w'" and "rows_ok w"
  shows "rows_ok w'"
proof (cases "job_of_move m")
  case None
  with listener_step [OF assms(1)] assms(2) show ?thesis by (simp add: rows_ok_def)
next
  case (Some j)
  show ?thesis
  proof (rule rows_ok_own [OF assms(2,1) Some])
    fix t' assume t': "map_of (jw_tasks w') j = Some t'"
    have "case map_of (jw_rows w') j of None \<Rightarrow> False | Some r \<Rightarrow> row_ok r t'"
    proof (cases "map_of (jw_tasks w) j")
      case None
      with Some assms(1) t' show ?thesis
        by (cases m) (auto simp: create_and_run_def elim!: job_move_atE split: if_splits, simp add: row_ok_def)
    next
      case (Some t)
      then obtain r where r: "map_of (jw_rows w) j = Some r" "row_ok r t"
        using rows_okD [OF assms(2)] by blast
      have "j \<in> fst ` set (jw_tasks w)" using Some by (metis domI dom_map_of_conv_image_fst)
      show ?thesis
      proof (cases "jt_phase t")
        case (Saving st res h)
        have st: "settled st" using r(2) Saving by (simp add: row_ok_def)
        from Saving show ?thesis
          using \<open>job_of_move m = Some j\<close> Some r(1) row_ok_active [OF _ _ r(2)] st assms(1) t' \<open>j \<in> _\<close>
          by (cases m) (auto simp: job_move_at_def finalize_def row_ok_def split: if_splits)
      next
        case Ending
        then show ?thesis
          using \<open>job_of_move m = Some j\<close> Some r assms(1) t' \<open>j \<in> _\<close>
          by (cases m) (auto simp: job_move_at_def row_ok_def split: if_splits)
      next
        case Gone
        then show ?thesis
          using \<open>job_of_move m = Some j\<close> Some assms(1) \<open>j \<in> _\<close>
          by (cases m) (auto simp: job_move_at_def split: if_splits)
      qed (use \<open>job_of_move m = Some j\<close> Some r(1) row_ok_active [OF _ _ r(2)] assms(1) t' \<open>j \<in> _\<close> in
        \<open>cases m; auto simp: job_move_at_def set_status_def row_ok_def Let_def split: if_splits\<close>)+
    qed
    then show "\<exists>r. map_of (jw_rows w') j = Some r \<and> row_ok r t'"
      by (simp add: ex_Some_iff)
  qed
qed

lemma rows_ok_run: "job_run ms w = Some w' \<Longrightarrow> rows_ok w \<Longrightarrow> rows_ok w'"
  by (erule job_run_induct [where I = rows_ok]) (auto intro: rows_ok_step)



lemmas job_run_simps = fresh_jobs_def create_and_run_def job_move_at_def listener_move_def set_phase_def
  emit_line_def publish_def set_status_def finalize_def update_row_def look_def splitlines_def END_def


text \<open>
  A listener can wait for ever: if the job ends between the listener's look at its row and its
  subscription, the listener is subscribed to a job that will never publish anything again. Whatever
  happens afterwards, short of its hanging up, it is never sent a line or the end mark.
\<close>

theorem late_listener_waits_for_ever:
  "\<exists>w. job_run [Create ''j'' ''deploy'' [], Acquire ''j'', Mark ''j'', Announce ''j'', Look 0 ''j'', Emit ''j'' ''one'',
         Return ''j'' (op_ok ''ok'' [] []), Save ''j'', End ''j'', Subscribe 0] (fresh_jobs 1) = Some w \<and>
     (\<forall>ms w'. Hang_up 0 \<notin> set ms \<longrightarrow> job_run ms w = Some w' \<longrightarrow>
        map_option ls_sent (map_of (jw_listeners w') 0) = Some [] \<and>
        map_option ls_state (map_of (jw_listeners w') 0) = Some Subscribed)"
proof -
  let ?ms = "[Create ''j'' ''deploy'' [], Acquire ''j'', Mark ''j'', Announce ''j'', Look 0 ''j'', Emit ''j'' ''one'',
         Return ''j'' (op_ok ''ok'' [] []), Save ''j'', End ''j'', Subscribe 0]"
  define I where "I w \<longleftrightarrow> map_of (jw_listeners w) 0 = Some \<lparr>ls_job = ''j'', ls_state = Subscribed, ls_sent = [], ls_queue = []\<rparr> \<and>
      (\<exists>t. map_of (jw_tasks w) ''j'' = Some t \<and> jt_phase t = Gone)" for w :: job_world
  obtain w where w: "job_run ?ms (fresh_jobs 1) = Some w" "I w"
    unfolding I_def by (simp add: job_run_simps)
  have step: "I v'" if I: "I v" and s: "job_step m v = Some v'" and m: "m \<noteq> Hang_up 0" for m v v'
  proof (cases "job_of_move m")
    case None
    with s m I listener_step(1) [OF s None] show ?thesis
      by (cases m) (auto simp: I_def listener_move_def map_of_eq_None_iff [symmetric] split: if_splits option.splits list.splits)
  next
    case (Some i)
    show ?thesis
    proof (cases "i = ''j''")
      case False
      with other_job_step(1) [OF s Some False] other_job_step(3) [OF s Some False, of 0] I show ?thesis by (auto simp: I_def)
    next
      case True
      with Some s I show ?thesis
        by (cases m) (auto simp: I_def job_move_at_def map_of_eq_None_iff [symmetric] split: if_splits)
    qed
  qed
  have "I w'" if "Hang_up 0 \<notin> set ms" "job_run ms w = Some w'" for ms w'
    by (rule job_run_induct [where I = I, OF that(2) w(2)]) (use that(1) step in blast)
  then show ?thesis using w(1) by (auto simp: I_def)
qed

text \<open>
  A listener that comes after the job's first lines misses them: the row has no lines before the job
  is saved, so that there is nothing to replay.
\<close>

theorem running_job_has_nothing_to_replay:
  assumes "job_run ms (fresh_jobs n) = Some w" and "map_of (jw_tasks w) j = Some t" and "jt_phase t = Working"
  shows "\<exists>r. map_of (jw_rows w) j = Some r \<and> jr_logs r = []"
proof -
  obtain r where r: "map_of (jw_rows w) j = Some r" "row_ok r t"
    using rows_okD [OF rows_ok_run [OF assms(1) rows_ok_fresh] assms(2)] by blast
  with row_ok_active [OF _ _ r(2)] assms(3) show ?thesis by auto
qed

section \<open>How many jobs run at once\<close>

definition busy :: "job_phase \<Rightarrow> bool" where
  "busy p \<longleftrightarrow> p \<noteq> Queued \<and> p \<noteq> Gone"

definition busy_jobs :: "job_world \<Rightarrow> string set" where
  "busy_jobs w = {j. \<exists>t. map_of (jw_tasks w) j = Some t \<and> busy (jt_phase t)}"

lemma finite_busy [simp]: "finite (busy_jobs w)"
  by (rule finite_subset [of _ "dom (map_of (jw_tasks w))"]) (auto simp: busy_jobs_def finite_dom_map_of)

lemma permits_step:
  assumes "job_step m w = Some w'" and "card (busy_jobs w) + jw_permits w = n"
  shows "card (busy_jobs w') + jw_permits w' = n"
proof (cases "job_of_move m")
  case None
  with listener_step [OF assms(1)] assms(2) show ?thesis by (simp add: busy_jobs_def)
next
  case (Some j)
  have rest: "busy_jobs w' - {j} = busy_jobs w - {j}"
    using other_job_step(1) [OF assms(1) Some] by (auto simp: busy_jobs_def)
  have card: "card (busy_jobs v) = card (busy_jobs v - {j}) + (if j \<in> busy_jobs v then 1 else 0)" for v
    using card_Suc_Diff1 [of "busy_jobs v" j] by simp
  have "(if j \<in> busy_jobs w' then 1 else 0) + jw_permits w' = (if j \<in> busy_jobs w then 1 else 0) + jw_permits w"
    using Some assms(1)
    by (cases m) (auto simp: busy_jobs_def busy_def create_and_run_def job_move_at_def set_status_def finalize_def
        Let_def map_of_eq_None_iff [symmetric] split: if_splits option.splits job_phase.splits)
  then show ?thesis using card [of w] card [of w'] rest assms(2) by simp
qed

text \<open>
  Never more jobs are at work than the configuration allows, whatever happens to them: the jobs
  that have taken a permit of the semaphore and not given it back are at most \<^verbatim>\<open>max_concurrent_jobs\<close>,
  and when none is at work every permit is there again.
\<close>

theorem jobs_are_bounded:
  assumes "job_run ms (fresh_jobs n) = Some w"
  shows "card {j. \<exists>t. map_of (jw_tasks w) j = Some t \<and> jt_phase t \<noteq> Queued \<and> jt_phase t \<noteq> Gone} + jw_permits w = n"
proof -
  have "card (busy_jobs w) + jw_permits w = n"
    by (rule job_run_induct [where I = "\<lambda>w. card (busy_jobs w) + jw_permits w = n", OF assms])
       (simp add: busy_jobs_def fresh_jobs_def, rule permits_step)
  then show ?thesis by (simp add: busy_jobs_def busy_def)
qed

theorem jobs_are_bounded_witness:
  "\<exists>w. job_run [Create ''j'' ''deploy'' [], Acquire ''j''] (fresh_jobs 1) = Some w \<and> jw_permits w = 0 \<and>
     card {j. \<exists>t. map_of (jw_tasks w) j = Some t \<and> jt_phase t \<noteq> Queued \<and> jt_phase t \<noteq> Gone} = 1"
proof -
  obtain w where "job_run [Create ''j'' ''deploy'' [], Acquire ''j''] (fresh_jobs 1) = Some w" "jw_permits w = 0"
    by (simp add: job_run_simps)
  with jobs_are_bounded [OF this(1)] show ?thesis by auto
qed

section \<open>The clean-up after a restart\<close>

text \<open>
  After the clean-up at a restart no job and no migration is waiting or running, a row that was
  final is as it was, the number reported is that of the jobs it failed, and a second clean-up finds
  nothing and changes nothing.
\<close>

theorem reconciled_rows_are_final:
  "case reconcile_orphaned_jobs jobs migs of (n, jobs', migs') \<Rightarrow>
     (\<forall>(j, r) \<in> set jobs'. \<not> orphaned (jr_status r)) \<and> (\<forall>(i, m) \<in> set migs'. \<not> orphaned (ms_status m)) \<and>
     (\<forall>i < length jobs. \<not> orphaned (jr_status (snd (jobs ! i))) \<longrightarrow> jobs' ! i = jobs ! i) \<and>
     n = length (filter (\<lambda>i. jobs' ! i \<noteq> jobs ! i) [0..<length jobs]) \<and>
     reconcile_orphaned_jobs jobs' migs' = (0, jobs', migs')"
proof -
  let ?f = "\<lambda>(j :: string, r). (j, if orphaned (jr_status r)
        then r\<lparr>jr_status := ''failed'', jr_logs := jr_logs r @ ORPHAN_NOTE\<rparr> else r)"
  have failed: "\<not> orphaned ''failed''" by (simp add: orphaned_def)
  have changed: "?f x \<noteq> x \<longleftrightarrow> orphaned (jr_status (snd x))" for x :: "string \<times> job_row"
    by (cases x) (auto simp: orphaned_def dest: arg_cong [of _ _ jr_status])
  have "length (filter (\<lambda>(_, r). orphaned (jr_status r)) jobs) = length (filter (\<lambda>i. map ?f jobs ! i \<noteq> jobs ! i) [0..<length jobs])"
  proof -
    have "filter (\<lambda>i. map ?f jobs ! i \<noteq> jobs ! i) [0..<length jobs] = filter (\<lambda>i. orphaned (jr_status (snd (jobs ! i)))) [0..<length jobs]"
      by (rule filter_cong) (simp_all only: nth_map changed set_upt atLeastLessThan_iff refl)
    moreover have "filter (\<lambda>(_, r). orphaned (jr_status r)) jobs = map ((!) jobs) (filter (\<lambda>i. orphaned (jr_status (snd (jobs ! i)))) [0..<length jobs])"
      using filter_map [of "\<lambda>(_, r). orphaned (jr_status r)" "(!) jobs" "[0..<length jobs]"]
      by (simp add: map_nth comp_def case_prod_unfold)
    ultimately show ?thesis by simp
  qed
  moreover have "reconcile_orphaned_jobs (map ?f jobs) (map (\<lambda>(i, m). (i, if orphaned (ms_status m)
        then m\<lparr>ms_status := ''failed'', ms_phase := ''interrupted''\<rparr> else m)) migs) = (0, map ?f jobs,
        map (\<lambda>(i, m). (i, if orphaned (ms_status m) then m\<lparr>ms_status := ''failed'', ms_phase := ''interrupted''\<rparr> else m)) migs)"
    by (auto simp: reconcile_orphaned_jobs_def failed filter_empty_conv split: if_splits)
  ultimately show ?thesis
    by (auto simp: reconcile_orphaned_jobs_def failed case_prod_unfold split: if_splits)
qed


theorem reconciled_rows_are_final_witness:
  "case reconcile_orphaned_jobs
      [(''a'', \<lparr>jr_action = ''deploy'', jr_params = [], jr_status = ''running'', jr_result = None, jr_logs = []\<rparr>)] [] of
     (n, jobs', migs') \<Rightarrow> n = 1 \<and> \<not> orphaned (jr_status (snd (jobs' ! 0))) \<and>
       reconcile_orphaned_jobs jobs' migs' = (0, jobs', migs')"
  using reconciled_rows_are_final
    [of "[(''a'', \<lparr>jr_action = ''deploy'', jr_params = [], jr_status = ''running'', jr_result = None, jr_logs = []\<rparr>)]" "[]"]
  by (simp add: reconcile_orphaned_jobs_def orphaned_def)


end
