(* ===== verification/Api_Service.thy ===== *)
theory Api_Service
  imports Connector_Base Pure_Client Traces
begin

text \<open>
  The glue of \<^verbatim>\<open>api/service.py\<close>: how a stored hypervisor becomes a connector (\<^verbatim>\<open>build_connector\<close>), what
  the job of an operation does with its result (\<^verbatim>\<open>run_operation\<close>), and the deployment wizard
  (\<^verbatim>\<open>prepare_wizard_hypervisor\<close>, \<^verbatim>\<open>run_wizard_job\<close>).

  The connector's methods, the database and the vault are outside: they answer every call as an
  arbitrary function of the call and of everything done before it (\<open>outside\<close>), and a run leaves
  the trace of what was asked, committed and logged, the oldest first.
\<close>

section \<open>Rows\<close>

record hypervisor_row =
  hv_id :: string
  hv_name :: string
  hv_connector_key :: string
  hv_connection :: dict
  hv_secret_blob :: string
  hv_array_id :: "string option"
  hv_status :: string
  hv_state :: dict

record flasharray_row =
  fa_endpoint :: string
  fa_secret_blob :: string
  fa_verify_ssl :: bool

section \<open>A connector\<close>

datatype array_client = Mock_client string | Pure_client pure_config

record connector =
  bc_class :: connector_class
  bc_target :: hypervisor_target
  bc_array :: "array_client option"
  bc_array_token :: "string option"
  bc_dry_run :: bool

datatype request =
    Validate_connection
  | Preflight string dict
  | Validate_cluster dict
  | Dispatch string dict

datatype service_event =
    Emitted string
  | Fetched string
  | Asked request
  | Committed hypervisor_row
  | Added hypervisor_row
  | Rolled_back

record outside =
  registry :: "string \<Rightarrow> connector_class option"
  mock_mode :: bool
  flasharrays :: "string \<Rightarrow> flasharray_row option"
  decrypt :: "string \<Rightarrow> exn + dict"
  encrypt :: "dict \<Rightarrow> string"
  row_answer :: "service_event list \<Rightarrow> string \<Rightarrow> hypervisor_row option"
  request_answer :: "service_event list \<Rightarrow> connector \<Rightarrow> request \<Rightarrow> exn + op_result"
  name_is_free :: "service_event list \<Rightarrow> string \<Rightarrow> bool"

type_synonym 'a service_action = "(service_event list, 'a) action"

definition log_event :: "service_event \<Rightarrow> unit service_action" where
  "log_event e = modify (\<lambda>t. t @ [e])"

definition fetch_row :: "outside \<Rightarrow> string \<Rightarrow> hypervisor_row option service_action" where
  "fetch_row E i = (\<lambda>t. (Inr (row_answer E t i), t @ [Fetched i]))"

definition ask_connector :: "outside \<Rightarrow> connector \<Rightarrow> request \<Rightarrow> op_result service_action" where
  "ask_connector E c r = (\<lambda>t. (request_answer E t c r, t @ [Asked r]))"

section \<open>Building a connector\<close>

text \<open>A field of the decrypted bundle that is read as an optional text.\<close>

definition optional_text :: "json \<Rightarrow> string option" where
  "optional_text x = (case x of JStr s \<Rightarrow> Some s | _ \<Rightarrow> None)"

definition build_client :: "outside \<Rightarrow> flasharray_row \<Rightarrow> dict \<Rightarrow> array_client" where
  "build_client E a secrets =
     (if mock_mode E then Mock_client (fa_endpoint a)
      else Pure_client \<lparr>pc_endpoint = fa_endpoint a,
        pc_api_token = optional_text (dict_get secrets ''api_token'' JNull),
        pc_username = optional_text (dict_get secrets ''username'' JNull),
        pc_password = optional_text (dict_get secrets ''password'' JNull), pc_verify_ssl = fa_verify_ssl a\<rparr>)"

definition load_array :: "outside \<Rightarrow> string option \<Rightarrow> exn + array_client option \<times> string option" where
  "load_array E array_id =
     (case nonempty array_id of
        None \<Rightarrow> Inr (None, None)
      | Some i \<Rightarrow>
          (case flasharrays E i of
             None \<Rightarrow> Inr (None, None)
           | Some a \<Rightarrow>
               ebind (decrypt E (fa_secret_blob a)) (\<lambda>secrets.
               Inr (Some (build_client E a secrets), optional_text (dict_get secrets ''api_token'' JNull)))))"

text \<open>The schema's default of a field the stored connection left blank; never of a secret.\<close>

definition fill_default :: "form_field \<Rightarrow> dict \<Rightarrow> dict" where
  "fill_default f conn =
     (if ff_type f = SECRET then conn
      else if ff_default f \<noteq> JNull \<and> ff_default f \<noteq> JStr [] \<and> \<not> truthy (dict_get conn (ff_name f) JNull)
      then AList.update (ff_name f) (ff_default f) conn
      else conn)"

definition with_defaults :: "form_field list \<Rightarrow> dict \<Rightarrow> dict" where
  "with_defaults schema conn = fold fill_default schema conn"

definition build_connector :: "outside \<Rightarrow> hypervisor_row \<Rightarrow> bool \<Rightarrow> exn + connector" where
  "build_connector E hv dry_run =
     (case registry E (hv_connector_key hv) of
        None \<Rightarrow> Inl (Exn ''ValueError'' (''Unknown connector '' @ py_repr (hv_connector_key hv)))
      | Some cls \<Rightarrow>
          ebind (if hv_secret_blob hv = [] then Inr [] else decrypt E (hv_secret_blob hv)) (\<lambda>secrets.
          ebind (load_array E (hv_array_id hv)) (\<lambda>(client, token).
          Inr \<lparr>bc_class = cls,
               bc_target = \<lparr>tg_id = hv_id hv, tg_connector_key = hv_connector_key hv, tg_name = hv_name hv,
                 tg_connection = with_defaults (target_schema cls) (hv_connection hv), tg_secrets = secrets\<rparr>,
               bc_array = client, bc_array_token = token, bc_dry_run = dry_run\<rparr>)))"

section \<open>What is kept of a run\<close>

definition secret_hint :: "string \<Rightarrow> bool" where
  "secret_hint k \<longleftrightarrow> list_ex (\<lambda>h. contains h (lower k)) [''token'', ''password'', ''secret'', ''key'']"

definition strip_secret_params :: "dict \<Rightarrow> dict" where
  "strip_secret_params params = filter (\<lambda>(k, v). \<not> secret_hint k) params"

text \<open>
  \<^verbatim>\<open>_persist_host_group\<close>: the group taken over, if any, and the row with it. A reported group that is
  true and no text is not modelled.
\<close>

definition persist_host_group :: "hypervisor_row \<Rightarrow> op_result \<Rightarrow> exn + string option \<times> hypervisor_row" where
  "persist_host_group hv res =
     (let hg = dict_get (artifacts res) ''host_group'' JNull in
      if \<not> truthy hg then Inr (None, hv)
      else (case hg of
         JStr g \<Rightarrow>
           if dict_get (hv_connection hv) ''host_group'' JNull = JStr g then Inr (None, hv)
           else Inr (Some g, hv\<lparr>hv_connection := AList.update ''host_group'' (JStr g) (hv_connection hv)\<rparr>)
       | _ \<Rightarrow> unmodelled))"

section \<open>The job of an operation\<close>

text \<open>\<^verbatim>\<open>x or []\<close>\<close>

definition or_empty :: "json \<Rightarrow> json" where
  "or_empty x = (if truthy x then x else JList [])"

definition status_after :: "string \<Rightarrow> op_result \<Rightarrow> string \<Rightarrow> string" where
  "status_after action_id res old =
     (case dict_get (data res) ''status'' JNull of
        JStr st \<Rightarrow>
          if st \<in> {''deployed'', ''not_deployed'', ''error''} then st
          else if action_id = ''deploy'' \<or> old = ''error'' then ''deployed'' else old
      | _ \<Rightarrow> if action_id = ''deploy'' \<or> old = ''error'' then ''deployed'' else old)"

definition state_after :: "string \<Rightarrow> dict \<Rightarrow> op_result \<Rightarrow> dict \<Rightarrow> dict" where
  "state_after action_id params res old =
     (let d = data res;
          s1 = AList.update action_id (JObj (strip_secret_params params)) old;
          s2 = (if ''pending_removals'' \<in> fst ` set d
                then AList.update ''pending_removals'' (or_empty (dict_get d ''pending_removals'' JNull)) s1 else s1);
          s3 = (if action_id \<in> {''assess_cluster'', ''reconcile_cluster''} \<and>
                   (''new_hosts'' \<in> fst ` set d \<or> ''departed_hosts'' \<in> fst ` set d)
                then AList.update ''cluster_assessment''
                  (JObj (map (\<lambda>k. (k, dict_get d k (JList []))) [''nodes'', ''new_hosts'', ''departed_hosts'', ''not_ready''])) s2
                else s2)
      in if action_id = ''reconcile_cluster'' \<and> ''nodes'' \<in> fst ` set d
         then AList.update ''known_nodes'' (or_empty (dict_get d ''nodes'' JNull)) s3 else s3)"

definition operation_outcome ::
  "string \<Rightarrow> dict \<Rightarrow> bool \<Rightarrow> hypervisor_row \<Rightarrow> op_result \<Rightarrow> op_result service_action" where
  "operation_outcome action_id params dry_run hv res =
     (if success res \<and> \<not> dry_run then
        bnd (lift_sum (persist_host_group (hv\<lparr>hv_status := status_after action_id res (hv_status hv)\<rparr>) res)) (\<lambda>(adopted, hv').
        andthen (case adopted of None \<Rightarrow> ret () | Some g \<Rightarrow>
          log_event (Emitted (''Persisted FlashArray host group '' @ py_repr g
            @ '' to the hypervisor config (used by future operations).'')))
        (andthen (log_event (Committed (hv'\<lparr>hv_state := state_after action_id params res (hv_state hv)\<rparr>)))
           (ret res)))
      else if \<not> success res \<and> \<not> dry_run \<and> action_id = ''deploy'' then
        andthen (log_event (Committed (hv\<lparr>hv_status := ''error''\<rparr>))) (ret res)
      else ret res)"

definition run_operation :: "outside \<Rightarrow> string \<Rightarrow> string \<Rightarrow> dict \<Rightarrow> bool \<Rightarrow> op_result service_action" where
  "run_operation E hypervisor_id action_id params dry_run =
     bnd (fetch_row E hypervisor_id) (\<lambda>row.
     case row of
       None \<Rightarrow> ret (op_fail ''Hypervisor was deleted before the job ran'' [] [])
     | Some hv \<Rightarrow>
         bnd (lift_sum (build_connector E hv dry_run)) (\<lambda>c.
         bnd (ask_connector E c (Dispatch action_id params)) (operation_outcome action_id params dry_run hv)))"

section \<open>The wizard\<close>

text \<open>
  Page 1: the connection is confirmed before the record is stored; the record has no identifier until
  the database gives it one at the insertion.
\<close>

definition prepare_wizard_hypervisor ::
  "outside \<Rightarrow> string \<Rightarrow> string \<Rightarrow> string \<Rightarrow> dict \<Rightarrow> dict \<Rightarrow> string option \<Rightarrow> hypervisor_row service_action" where
  "prepare_wizard_hypervisor E new_id name connector_key connection secrets array_id =
     (case registry E connector_key of
        None \<Rightarrow> raise (Exn ''ValueError'' (''Unknown connector '' @ py_repr connector_key))
      | Some cls \<Rightarrow>
          (let hv = \<lparr>hv_id = new_id, hv_name = name, hv_connector_key = connector_key, hv_connection = connection,
                     hv_secret_blob = (if secrets = [] then [] else encrypt E secrets), hv_array_id = array_id,
                     hv_status = ''not_deployed'', hv_state = []\<rparr> in
           bnd (lift_sum (build_connector E (hv\<lparr>hv_id := []\<rparr>) False)) (\<lambda>c.
           bnd (tryc (bnd (ask_connector E c Validate_connection) (\<lambda>r. ret (success r, message r)))
                  (\<lambda>e. ret (False, describe_exn e))) (\<lambda>(ok, msg).
           if \<not> ok then raise (Exn ''ValueError'' (''Connection validation failed: '' @ msg))
           else bnd (gets (\<lambda>t. name_is_free E t name)) (\<lambda>free.
             if free then andthen (log_event (Added hv)) (ret hv)
             else andthen (log_event Rolled_back) (raise (Exn ''ValueError''
               (''A hypervisor named '' @ py_repr name @ '' already exists. Choose a different name, or remove ''
                 @ ''the existing one on the Hypervisors page.''))))))))"

definition wizard_plan :: "connector_class \<Rightarrow> string list" where
  "wizard_plan cls = filter (\<lambda>s. s \<in> as_id ` set (action_schemas cls)) (wizard_steps cls)"

text \<open>
  The steps, with those done, the parameters, the state saved so far and the row as it is; a step that
  takes over a host group changes the parameters of the steps behind it.
\<close>

fun wizard_loop ::
  "outside \<Rightarrow> connector \<Rightarrow> string list \<Rightarrow> string list \<Rightarrow> dict \<Rightarrow> dict \<Rightarrow> hypervisor_row \<Rightarrow> op_result service_action" where
  "wizard_loop E c [] finished params state hv =
     andthen (log_event (Committed (hv\<lparr>hv_state := state, hv_status := ''deployed''\<rparr>)))
       (ret (op_ok (''wizard complete: '' @ join '', '' finished) [] [(''steps'', json_strs finished)]))"
| "wizard_loop E c (x # xs) finished params state hv =
     andthen (log_event (Emitted (''=== step: '' @ x @ '' ==='')))
     (bnd (ask_connector E c (Dispatch x params)) (\<lambda>res.
      if \<not> success res then
        andthen (log_event (Committed (hv\<lparr>hv_status := ''error'', hv_state := state\<rparr>)))
          (ret (op_fail (''step '' @ py_repr x @ '' failed: '' @ message res) [] [(''completed'', json_strs finished)]))
      else
        bnd (lift_sum (persist_host_group hv res)) (\<lambda>(adopted, hv').
        let params' = (case adopted of None \<Rightarrow> params | Some g \<Rightarrow> AList.update ''host_group'' (JStr g) params) in
        andthen (case adopted of None \<Rightarrow> ret () | Some g \<Rightarrow>
          log_event (Emitted (''Adopted FlashArray host group '' @ py_repr g @ '' '' @ em_dash
            @ '' persisted to the hypervisor config and applied to the remaining steps.'')))
        (wizard_loop E c xs (finished @ [x]) params' (AList.update x (JObj (strip_secret_params params')) state) hv'))))"

definition run_wizard_job :: "outside \<Rightarrow> string \<Rightarrow> string list \<Rightarrow> string \<Rightarrow> dict \<Rightarrow> op_result service_action" where
  "run_wizard_job E hypervisor_id plan scope params =
     bnd (fetch_row E hypervisor_id) (\<lambda>row.
     case row of
       None \<Rightarrow> raise (Exn ''AttributeError'' [])
     | Some hv \<Rightarrow>
         bnd (lift_sum (build_connector E hv False)) (\<lambda>c.
         andthen (log_event (Emitted ''=== validating connection ===''))
         (bnd (ask_connector E c Validate_connection) (\<lambda>r.
          if \<not> success r then ret (op_fail (''connection validation failed: '' @ message r) [] [])
          else andthen (log_event (Emitted ''=== preflight: validating required objects ===''))
          (bnd (ask_connector E c (Preflight ''wizard'' params)) (\<lambda>pf.
           andthen (log_event (Emitted ((if success pf then ''[preflight ok] '' else ''[preflight failed] '') @ message pf)))
           (if \<not> success pf then ret (op_fail (''preflight validation failed: '' @ message pf) [] [])
            else andthen
              (if scope \<noteq> ''cluster'' then ret ()
               else andthen (log_event (Emitted ''=== validating cluster (storage interface consistency) ===''))
                 (bnd (ask_connector E c (Validate_cluster params)) (\<lambda>rc.
                  log_event (Emitted ((if success rc then ''[ok] '' else ''[warning] '') @ message rc)))))
              (wizard_loop E c plan [] params (hv_state hv) hv))))))))"

section \<open>Defaults\<close>

text \<open>What a default can do to one key.\<close>

lemma fill_default_keeps:
  "truthy (dict_get conn k JNull) \<Longrightarrow> dict_get (fill_default f conn) k JNull = dict_get conn k JNull"
  by (auto simp: fill_default_def)

lemma with_defaults_keeps:
  "truthy (dict_get conn k JNull) \<Longrightarrow> dict_get (with_defaults schema conn) k JNull = dict_get conn k JNull"
  unfolding with_defaults_def
  by (induction schema arbitrary: conn) (simp_all add: fill_default_keeps)

lemma with_defaults_source:
  "map_of (with_defaults schema conn) k \<noteq> map_of conn k \<Longrightarrow>
   \<exists>f \<in> set schema. ff_name f = k \<and> ff_type f \<noteq> SECRET \<and> map_of (with_defaults schema conn) k = Some (ff_default f)"
  unfolding with_defaults_def
proof (induction schema arbitrary: conn)
  case (Cons f schema)
  show ?case
  proof (cases "map_of (fold fill_default schema (fill_default f conn)) k = map_of (fill_default f conn) k")
    case True
    with Cons.prems have "map_of (fill_default f conn) k \<noteq> map_of conn k" by simp
    then have "ff_name f = k \<and> ff_type f \<noteq> SECRET \<and> map_of (fill_default f conn) k = Some (ff_default f)"
      by (auto simp: fill_default_def split: if_splits)
    with True show ?thesis by auto
  next
    case False
    from Cons.IH [OF this] show ?thesis by auto
  qed
qed simp

text \<open>
  The connector sees the stored settings: a setting the operator filled in reaches it unchanged, and
  every setting it sees that was not stored is the default that the schema of the connector's class
  gives for a field which is not a secret. What cannot be built is an unknown connector or a bundle
  the vault refuses.
\<close>

theorem connector_sees_the_stored_settings:
  "case build_connector E hv dry of
     Inl e \<Rightarrow> registry E (hv_connector_key hv) = None \<or> (\<exists>blob. decrypt E blob = Inl e)
   | Inr c \<Rightarrow> (\<exists>cls. registry E (hv_connector_key hv) = Some cls \<and> bc_class c = cls \<and>
       (\<forall>k. let seen = tg_connection (bc_target c) in
          dict_get seen k JNull = dict_get (hv_connection hv) k JNull \<or>
          \<not> truthy (dict_get (hv_connection hv) k JNull) \<and>
          (\<exists>f \<in> set (target_schema cls). ff_name f = k \<and> ff_type f \<noteq> SECRET \<and> dict_get seen k JNull = ff_default f)))"
proof (cases "build_connector E hv dry")
  case (Inl e)
  then have "registry E (hv_connector_key hv) = None \<or> (\<exists>blob. decrypt E blob = Inl e)"
    by (auto simp: build_connector_def load_array_def ebind_def split: option.splits sum.splits if_splits)
  with Inl show ?thesis by simp
next
  case (Inr c)
  then obtain cls where cls: "registry E (hv_connector_key hv) = Some cls" "bc_class c = cls"
    "tg_connection (bc_target c) = with_defaults (target_schema cls) (hv_connection hv)"
    by (auto simp: build_connector_def ebind_def split: option.splits sum.splits if_splits prod.splits)
  have "dict_get (with_defaults (target_schema cls) (hv_connection hv)) k JNull = dict_get (hv_connection hv) k JNull \<or>
      \<not> truthy (dict_get (hv_connection hv) k JNull) \<and>
      (\<exists>f \<in> set (target_schema cls). ff_name f = k \<and> ff_type f \<noteq> SECRET \<and>
        dict_get (with_defaults (target_schema cls) (hv_connection hv)) k JNull = ff_default f)" for k
    using with_defaults_keeps [of "hv_connection hv" k "target_schema cls"]
      with_defaults_source [of "target_schema cls" "hv_connection hv" k]
    by (cases "map_of (with_defaults (target_schema cls) (hv_connection hv)) k = map_of (hv_connection hv) k")
       (auto simp: dict_get_def)
  with Inr cls show ?thesis by (simp add: Let_def)
qed

section \<open>Running the jobs\<close>

named_theorems service_simps "the steps of a job as functions of the trace"

lemma run_log_event [service_simps]: "log_event e t = (Inr (), t @ [e])"
  by (simp add: log_event_def run_modify)

lemma run_fetch_row [service_simps]: "fetch_row E i t = (Inr (row_answer E t i), t @ [Fetched i])"
  by (simp add: fetch_row_def)

lemma run_ask_connector [service_simps]:
  "ask_connector E c r t = (request_answer E t c r, t @ [Asked r])"
  by (simp add: ask_connector_def)

lemma run_case_option [service_simps]:
  "(case x of None \<Rightarrow> m | Some y \<Rightarrow> f y) t = (case x of None \<Rightarrow> m t | Some y \<Rightarrow> f y t)"
  by (simp split: option.split)

lemma run_if [service_simps]: "(if b then m else k) t = (if b then m t else k t)"
  by simp

lemmas run_service = run_bnd run_andthen run_tryc run_ret run_raise run_gets service_simps

section \<open>The job of an operation\<close>

definition commits :: "service_event list \<Rightarrow> hypervisor_row list" where
  "commits t = concat (map (\<lambda>e. case e of Committed r \<Rightarrow> [r] | _ \<Rightarrow> []) t)"

lemma commits_simps [simp]:
  "commits [] = []" "commits (t @ u) = commits t @ commits u" "commits (Committed r # t) = r # commits t"
  "commits (Emitted x # t) = commits t" "commits (Asked q # t) = commits t" "commits (Fetched i # t) = commits t"
  by (simp_all add: commits_def)

lemma strip_secret_params_clean: "(k, v) \<in> set (strip_secret_params params) \<Longrightarrow> \<not> secret_hint k"
  by (auto simp: strip_secret_params_def)

lemma outcome_stores:
  assumes "(r, t) = operation_outcome a params dry hv res u" and "commits t \<noteq> []" and "commits u = []"
  shows "\<exists>row. commits t = [row] \<and> \<not> dry \<and> r = Inr res \<and>
    (if success res
     then hv_state row = state_after a params res (hv_state hv) \<and> hv_status row = status_after a res (hv_status hv) \<and>
       hv_secret_blob row = hv_secret_blob hv \<and>
       (\<forall>k. map_of (hv_connection row) k = map_of (hv_connection hv) k \<or>
          k = ''host_group'' \<and> map_of (hv_connection row) k = Some (dict_get (artifacts res) k JNull))
     else a = ''deploy'' \<and> row = hv\<lparr>hv_status := ''error''\<rparr>)"
proof (cases "success res \<and> \<not> dry")
  case True
  let ?hv = "hv\<lparr>hv_status := status_after a res (hv_status hv)\<rparr>"
  obtain adopted hv' where p: "persist_host_group ?hv res = Inr (adopted, hv')"
    using assms True by (cases "persist_host_group ?hv res") (auto simp: operation_outcome_def run_bnd run_lift_sum cong: run_cong)
  have "hv_status hv' = hv_status ?hv" "hv_secret_blob hv' = hv_secret_blob hv"
    and "\<forall>k. map_of (hv_connection hv') k = map_of (hv_connection hv) k \<or>
        k = ''host_group'' \<and> map_of (hv_connection hv') k = Some (dict_get (artifacts res) k JNull)"
    using p by (auto simp: persist_host_group_def Let_def unmodelled_def split: if_splits json.splits)
  moreover have "r = Inr res" "commits t = [hv'\<lparr>hv_state := state_after a params res (hv_state hv)\<rparr>]"
    using assms True p by (cases adopted; simp add: operation_outcome_def run_service run_lift_sum)+
  ultimately show ?thesis using True by simp
next
  case False
  with assms show ?thesis
    by (simp add: operation_outcome_def run_service split: if_splits)
qed


text \<open>What an operation saves of its parameters under its own name holds no secret-looking name.\<close>

theorem saved_parameters_are_clean:
  assumes "a \<notin> {''pending_removals'', ''cluster_assessment'', ''known_nodes''}"
  shows "map_of (state_after a params res old) a = Some (JObj (strip_secret_params params)) \<and>
    list_all (\<lambda>(k, v). \<not> secret_hint k) (strip_secret_params params)"
proof
  have "''pending_removals'' \<noteq> a" "''cluster_assessment'' \<noteq> a" "''known_nodes'' \<noteq> a" using assms by blast+
  then show "map_of (state_after a params res old) a = Some (JObj (strip_secret_params params))"
    unfolding state_after_def Let_def by (simp only: map_of_update fun_upd_apply if_False if_True split: if_split) simp
  show "list_all (\<lambda>(k, v). \<not> secret_hint k) (strip_secret_params params)"
    by (auto simp: list_all_iff dest: strip_secret_params_clean)
qed

text \<open>
  An exception of the connector during a deployment commits nothing: the hypervisor is not marked as
  being in error, which only a deployment that returns a failure does.
\<close>

theorem raising_deployment_is_not_an_error:
  assumes "row_answer E [] i = Some hv" and "build_connector E hv False = Inr c"
    and "request_answer E [Fetched i] c (Dispatch ''deploy'' params) = Inl e"
  shows "run_operation E i ''deploy'' params False [] = (Inl e, [Fetched i, Asked (Dispatch ''deploy'' params)])"
  using assms by (simp add: run_operation_def run_service run_lift_sum cong: run_cong)


section \<open>The wizard\<close>

definition dispatched :: "service_event list \<Rightarrow> string list" where
  "dispatched t = concat (map (\<lambda>e. case e of Asked (Dispatch x _) \<Rightarrow> [x] | _ \<Rightarrow> []) t)"

lemma dispatched_simps [simp]:
  "dispatched [] = []" "dispatched (t @ u) = dispatched t @ dispatched u"
  "dispatched (Asked (Dispatch x p) # t) = x # dispatched t" "dispatched (Committed r # t) = dispatched t"
  "dispatched (Emitted s # t) = dispatched t" "dispatched (Fetched i # t) = dispatched t"
  "dispatched (Asked Validate_connection # t) = dispatched t" "dispatched (Asked (Preflight s q) # t) = dispatched t"
  "dispatched (Asked (Validate_cluster q) # t) = dispatched t"
  by (simp_all add: dispatched_def)

definition succeeded_with :: "exn + op_result \<Rightarrow> bool" where
  "succeeded_with r = (case r of Inl _ \<Rightarrow> False | Inr res \<Rightarrow> success res)"

lemma succeeded_with_simps [simp]:
  "\<not> succeeded_with (Inl e)" "succeeded_with (Inr res) = success res"
  by (simp_all add: succeeded_with_def)

text \<open>
  What the steps do from any point on: they are dispatched in order up to the first that fails; the
  row is committed once, at the end, unless an exception ends the job.
\<close>

definition wizard_outcome ::
  "string list \<Rightarrow> service_event list \<Rightarrow> (exn + op_result) \<Rightarrow> service_event list \<Rightarrow> bool" where
  "wizard_outcome plan t r t' \<longleftrightarrow>
     (\<exists>u k. t' = t @ u \<and> k \<le> length plan \<and> dispatched u = take k plan \<and>
        (succeeded_with r \<longrightarrow> k = length plan) \<and>
        (case r of Inl _ \<Rightarrow> commits u = []
         | Inr res \<Rightarrow> (\<exists>row. commits u = [row] \<and> hv_status row = (if success res then ''deployed'' else ''error''))))"

lemma wizard_outcome_step:
  assumes "wizard_outcome xs (t @ v) r t'" and "dispatched v = [x]" and "commits v = []"
  shows "wizard_outcome (x # xs) t r t'"
proof -
  obtain u k where u: "t' = (t @ v) @ u" "k \<le> length xs" "dispatched u = take k xs"
    "succeeded_with r \<longrightarrow> k = length xs"
    "case r of Inl _ \<Rightarrow> commits u = []
     | Inr res \<Rightarrow> (\<exists>row. commits u = [row] \<and> hv_status row = (if success res then ''deployed'' else ''error''))"
    using assms(1) by (auto simp: wizard_outcome_def)
  then show ?thesis
    unfolding wizard_outcome_def using assms(2,3)
    by (intro exI [of _ "v @ u"] exI [of _ "Suc k"]) (auto split: sum.splits)
qed

text \<open>A step whose answer ends the wizard.\<close>

lemma wizard_outcome_stop:
  assumes "t' = t @ v" and "dispatched v = [x]" and "\<not> succeeded_with r"
    and "case r of Inl _ \<Rightarrow> commits v = []
         | Inr res \<Rightarrow> (\<exists>row. commits v = [row] \<and> hv_status row = (if success res then ''deployed'' else ''error''))"
  shows "wizard_outcome (x # xs) t r t'"
  unfolding wizard_outcome_def using assms
  by (intro exI [of _ v] exI [of _ "Suc 0"]) auto

lemma wizard_loop_outcome:
  "wizard_loop E c plan finished params state hv t = (r, t') \<Longrightarrow> wizard_outcome plan t r t'"
proof (induction plan arbitrary: finished params state hv t)
  case Nil
  then have "r = Inr (op_ok (''wizard complete: '' @ join '', '' finished) [] [(''steps'', json_strs finished)])"
    "t' = t @ [Committed (hv\<lparr>hv_state := state, hv_status := ''deployed''\<rparr>)]"
    by (simp_all add: run_service)
  then show ?case
    unfolding wizard_outcome_def
    by (intro exI [of _ "[Committed (hv\<lparr>hv_state := state, hv_status := ''deployed''\<rparr>)]"] exI [of _ 0]) simp
next
  case (Cons x xs)
  let ?t1 = "t @ [Emitted (''=== step: '' @ x @ '' ==='')]"
  let ?q = "Asked (Dispatch x params)"
  show ?case
  proof (cases "request_answer E ?t1 c (Dispatch x params)")
    case (Inl e)
    with Cons.prems have "r = Inl e" "t' = ?t1 @ [?q]"
      by (simp_all add: run_service cong: run_cong)
    then show ?thesis
      by (intro wizard_outcome_stop [where v = "[Emitted (''=== step: '' @ x @ '' ===''), ?q]"]) simp_all
  next
    case (Inr res)
    show ?thesis
    proof (cases "success res")
      case False
      with Cons.prems Inr have
        "r = Inr (op_fail (''step '' @ py_repr x @ '' failed: '' @ message res) [] [(''completed'', json_strs finished)])"
        "t' = (?t1 @ [?q]) @ [Committed (hv\<lparr>hv_status := ''error'', hv_state := state\<rparr>)]"
        by (simp_all add: run_service cong: run_cong)
      then show ?thesis
        by (intro wizard_outcome_stop [where v = "[Emitted (''=== step: '' @ x @ '' ===''), ?q,
            Committed (hv\<lparr>hv_status := ''error'', hv_state := state\<rparr>)]"]) simp_all
    next
      case True
      show ?thesis
      proof (cases "persist_host_group hv res")
        case (Inl e)
        with Cons.prems Inr True have "r = Inl e" "t' = ?t1 @ [?q]"
          by (simp_all add: run_service run_lift_sum cong: run_cong)
        then show ?thesis
          by (intro wizard_outcome_stop [where v = "[Emitted (''=== step: '' @ x @ '' ===''), ?q]"]) simp_all
      next
        case p: (Inr ah)
        obtain adopted hv' where ah: "ah = (adopted, hv')" by fastforce
        show ?thesis
        proof (cases adopted)
          case None
          with Cons.prems Inr True p ah have
            "wizard_loop E c xs (finished @ [x]) params (AList.update x (JObj (strip_secret_params params)) state) hv'
               (t @ [Emitted (''=== step: '' @ x @ '' ===''), ?q]) = (r, t')"
            by (simp add: run_service run_lift_sum cong: run_cong)
          from Cons.IH [OF this] show ?thesis by (rule wizard_outcome_step) simp_all
        next
          case (Some g)
          let ?p = "AList.update ''host_group'' (JStr g) params"
          let ?e = "Emitted (''Adopted FlashArray host group '' @ py_repr g @ '' '' @ em_dash
            @ '' persisted to the hypervisor config and applied to the remaining steps.'')"
          from Some Cons.prems Inr True p ah have
            "wizard_loop E c xs (finished @ [x]) ?p (AList.update x (JObj (strip_secret_params ?p)) state) hv'
               (t @ [Emitted (''=== step: '' @ x @ '' ===''), ?q, ?e]) = (r, t')"
            by (simp add: run_service run_lift_sum Let_def cong: run_cong)
          from Cons.IH [OF this] show ?thesis by (rule wizard_outcome_step) simp_all
        qed
      qed
    qed
  qed
qed


definition is_dispatch :: "service_event \<Rightarrow> bool" where
  "is_dispatch e \<longleftrightarrow> (\<exists>x q. e = Asked (Dispatch x q))"

definition is_preflight :: "service_event \<Rightarrow> bool" where
  "is_preflight e \<longleftrightarrow> (\<exists>q. e = Asked (Preflight ''wizard'' q))"

lemma preceded_from_True: "preceded_from True P Q u"
  by (induction u) simp_all

lemma preceded_none: "dispatched t = [] \<Longrightarrow> preceded_from b is_dispatch Q t"
  by (induction t arbitrary: b) (auto simp: dispatched_def is_dispatch_def split: service_event.splits request.splits)

text \<open>Before the steps nothing is dispatched or committed; \<open>b\<close> is whether the prerequisites were checked.\<close>

definition before_steps :: "bool \<Rightarrow> service_event list \<Rightarrow> bool" where
  "before_steps b t \<longleftrightarrow> dispatched t = [] \<and> commits t = [] \<and> (b \<longrightarrow> (\<exists>e \<in> set t. is_preflight e))"

definition wizard_spec :: "string list \<Rightarrow> (exn + op_result) \<Rightarrow> service_event list \<Rightarrow> bool" where
  "wizard_spec plan r t \<longleftrightarrow>
     before_steps False t \<and> \<not> succeeded_with r \<or> (\<exists>u. before_steps True u \<and> wizard_outcome plan u r t)"

lemma wizard_spec_early: "before_steps b t \<Longrightarrow> \<not> succeeded_with r \<Longrightarrow> wizard_spec plan r t"
  by (auto simp: wizard_spec_def before_steps_def)

abbreviation wiz :: "string list \<Rightarrow> bool \<Rightarrow> ('a service_action) \<Rightarrow> bool \<Rightarrow> bool" where
  "wiz plan b m b' \<equiv> triple (before_steps b) m (\<lambda>_. before_steps b') (\<lambda>e. wizard_spec plan (Inl e))"

abbreviation wiz_end :: "string list \<Rightarrow> bool \<Rightarrow> (op_result service_action) \<Rightarrow> bool" where
  "wiz_end plan b m \<equiv> triple (before_steps b) m (\<lambda>res. wizard_spec plan (Inr res)) (\<lambda>e. wizard_spec plan (Inl e))"

lemma wiz_log: "wiz plan b (log_event (Emitted s)) b"
  by (auto simp: triple_def run_log_event before_steps_def)

lemma wiz_fetch: "wiz plan b (fetch_row E i) b"
  by (auto simp: triple_def run_fetch_row before_steps_def)

lemma wiz_lift: "wiz plan b (lift_sum r) b"
  by (cases r) (auto simp: triple_def run_lift_sum intro: wizard_spec_early)

lemma wiz_ask:
  assumes "\<not> is_dispatch (Asked q)"
  shows "wiz plan b (ask_connector E c q) (b \<or> is_preflight (Asked q))"
proof -
  have keep: "before_steps (b \<or> is_preflight (Asked q)) (t @ [Asked q])" if "before_steps b t" for t
    using that assms by (cases q) (auto simp: before_steps_def is_dispatch_def)
  show ?thesis
    by (auto simp: triple_def run_ask_connector split: sum.splits intro: keep wizard_spec_early [OF keep])
qed

lemma wiz_end_fail: "wiz_end plan b (ret (op_fail m a d))"
  by (auto simp: triple_def run_ret intro!: wizard_spec_early)

lemma wiz_end_raise: "wiz_end plan b (raise e)"
  by (auto simp: triple_def run_raise intro!: wizard_spec_early)

lemma wiz_end_loop: "wiz_end plan True (wizard_loop E c plan [] params state hv)"
  unfolding triple_def wizard_spec_def
  by (auto split: prod.splits sum.splits dest: wizard_loop_outcome)

lemma wizard_job_spec: "wiz_end plan False (run_wizard_job E i plan scope params)"
proof -
  have pf: "wiz plan False (ask_connector E c (Preflight ''wizard'' params)) True" for c
    using wiz_ask [where q = "Preflight ''wizard'' params" and b = False] by (simp add: is_dispatch_def is_preflight_def)
  have v: "wiz plan False (ask_connector E c Validate_connection) False" for c
    using wiz_ask [where q = Validate_connection and b = False] by (simp add: is_dispatch_def is_preflight_def)
  have vc: "wiz plan True (ask_connector E c (Validate_cluster params)) True" for c
    using wiz_ask [where q = "Validate_cluster params" and b = True] by (simp add: is_dispatch_def)
  have cluster: "wiz plan True (andthen (log_event (Emitted a))
      (bnd (ask_connector E c (Validate_cluster params)) (\<lambda>rc. log_event (Emitted (f rc))))) True" for a f c
    by (intro triple_andthen [OF wiz_log] triple_bnd [OF vc] wiz_log)
  have skipped: "wiz plan True (ret ()) True"
    by (simp add: triple_def run_ret)
  show ?thesis
    unfolding run_wizard_job_def
    by (rule triple_bnd [OF wiz_fetch])
       (auto split: option.split if_split
          intro!: wiz_end_raise wiz_end_fail wiz_end_loop triple_bnd [OF wiz_lift] triple_bnd [OF v] triple_bnd [OF pf]
            triple_andthen [OF wiz_log] triple_andthen [OF cluster] triple_andthen [OF skipped])
qed



section \<open>A concrete outside\<close>

text \<open>One hypervisor whose connector answers everything with success and reports its host group.\<close>

definition small_class :: connector_class where
  "small_class = base_class\<lparr>cls_key := ''demo'', wizard_steps := [''register_hosts'', ''deploy'']\<rparr>"

definition small_row :: hypervisor_row where
  "small_row = \<lparr>hv_id = ''h'', hv_name = ''node'', hv_connector_key = ''demo'',
     hv_connection = [(''host_group'', JStr ''A'')], hv_secret_blob = [], hv_array_id = None,
     hv_status = ''not_deployed'', hv_state = []\<rparr>"

definition small_outside :: outside where
  "small_outside = \<lparr>registry = (\<lambda>k. if k = ''demo'' then Some small_class else None), mock_mode = True,
     flasharrays = (\<lambda>_. None), decrypt = (\<lambda>_. Inr []), encrypt = (\<lambda>_. []),
     row_answer = (\<lambda>_ _. Some small_row),
     request_answer = (\<lambda>_ _ _. Inr (op_ok [] [(''host_group'', JStr ''A'')] [])),
     name_is_free = (\<lambda>_ _. True)\<rparr>"

lemmas small_defs = small_class_def base_class_def small_row_def small_outside_def build_connector_def load_array_def
  with_defaults_def persist_host_group_def nonempty_def



text \<open>
  Where the stored connection already names the group that a step reports, the parameters are left as
  they are: a step behind it still gets the group the operator typed, whatever it is.
\<close>

theorem reported_group_may_not_reach_the_next_step:
  "Asked (Dispatch ''deploy'' [(''host_group'', JStr ''typo'')]) \<in>
     set (snd (run_wizard_job small_outside ''h'' [''register_hosts'', ''deploy''] ''node'' [(''host_group'', JStr ''typo'')] []))"
  by (simp add: run_wizard_job_def run_service run_lift_sum small_defs dict_get_def Let_def cong: run_cong)

section \<open>Page 1 of the wizard\<close>

text \<open>
  C34. A hypervisor is stored only when its connector confirmed the connection and its name was free, and
  then as it was typed, not deployed; when the page raises nothing is stored.
\<close>

theorem prepared_hypervisor_was_validated:
  "case prepare_wizard_hypervisor E new_id name key connection secrets array_id [] of
     (Inl e, t) \<Rightarrow> (\<forall>row. Added row \<notin> set t)
   | (Inr hv, t) \<Rightarrow> t = [Asked Validate_connection, Added hv] \<and> name_is_free E [Asked Validate_connection] name \<and>
       hv_name hv = name \<and> hv_connection hv = connection \<and> hv_status hv = ''not_deployed'' \<and> hv_state hv = [] \<and>
       (\<exists>c res. build_connector E (hv\<lparr>hv_id := []\<rparr>) False = Inr c \<and> request_answer E [] c Validate_connection = Inr res \<and> success res)"
proof (cases "registry E key")
  case None
  then show ?thesis by (simp add: prepare_wizard_hypervisor_def run_raise)
next
  case (Some cls)
  let ?hv = "\<lparr>hv_id = new_id, hv_name = name, hv_connector_key = key, hv_connection = connection,
     hv_secret_blob = (if secrets = [] then [] else encrypt E secrets), hv_array_id = array_id,
     hv_status = ''not_deployed'', hv_state = []\<rparr>"
  show ?thesis
  proof (cases "build_connector E (?hv\<lparr>hv_id := []\<rparr>) False")
    case (Inl e)
    with Some show ?thesis
      by (simp add: prepare_wizard_hypervisor_def run_service run_lift_sum Let_def cong: run_cong)
  next
    case c: (Inr c)
    show ?thesis
    proof (cases "request_answer E [] c Validate_connection")
      case (Inl e)
      with Some c show ?thesis
        by (simp add: prepare_wizard_hypervisor_def run_service run_lift_sum Let_def cong: run_cong)
    next
      case (Inr res)
      with Some c show ?thesis
        by (cases "success res"; cases "name_is_free E [Asked Validate_connection] name")
           (simp_all add: prepare_wizard_hypervisor_def run_service run_lift_sum Let_def cong: run_cong)
    qed
  qed
qed


end
