(* ===== verification/Migration_Api.thy ===== *)
theory Migration_Api
  imports Api_Service Group_Runner Scheduler
begin

text \<open>
  The migration endpoints of \<^verbatim>\<open>api/migrations.py\<close>: which hypervisors a VM can go to
  (\<^verbatim>\<open>migration_destinations\<close>, \<^verbatim>\<open>migration_precheck\<close>), and what a submission is checked for
  (\<^verbatim>\<open>create_migration\<close>, \<^verbatim>\<open>_validate_pair\<close>, \<^verbatim>\<open>create_migration_group\<close>). Within one request the arrays
  answer the same question in the same way (\<open>array_answers\<close>). An HTTP error is its status with its
  detail.
\<close>

section \<open>Array connections\<close>

record array_connection =
  ac_name :: "string option"
  ac_type :: "string option"

record array_answers =
  name_answer :: "connector \<Rightarrow> exn + string"
  connections_answer :: "connector \<Rightarrow> exn + array_connection list"

definition is_replication_connection :: "string option \<Rightarrow> bool" where
  "is_replication_connection conn_type =
     contains ''replication'' (lower (strip (case conn_type of None \<Rightarrow> [] | Some t \<Rightarrow> t)))"

definition carries_to :: "string \<Rightarrow> array_connection \<Rightarrow> bool" where
  "carries_to dest c \<longleftrightarrow> (case ac_name c of None \<Rightarrow> [] | Some n \<Rightarrow> n) = dest \<and> is_replication_connection (ac_type c)"

definition array_connection_status ::
  "outside \<Rightarrow> array_answers \<Rightarrow> hypervisor_row \<Rightarrow> hypervisor_row \<Rightarrow> bool \<times> string" where
  "array_connection_status E A source dest =
     (case ebind (build_connector E source False) (\<lambda>s.
           ebind (build_connector E dest False) (\<lambda>d.
           if bc_array s = None \<or> bc_array d = None then Inr (False, [])
           else ebind (name_answer A d) (\<lambda>name.
                ebind (connections_answer A s) (\<lambda>conns.
                Inr (list_ex (carries_to name) conns, name))))) of
        Inl e \<Rightarrow> (False, [])
      | Inr x \<Rightarrow> x)"

section \<open>Checking a pair\<close>

definition hv_supports :: "outside \<Rightarrow> string \<Rightarrow> capability \<Rightarrow> bool" where
  "hv_supports E key cap = (case registry E key of None \<Rightarrow> False | Some cls \<Rightarrow> supports cls cap)"

definition array_of :: "hypervisor_row \<Rightarrow> string option" where
  "array_of hv = nonempty (hv_array_id hv)"

text \<open>The checks of a pair; \<open>why\<close> is the end of the message of a missing connection.\<close>

definition check_pair ::
  "string \<Rightarrow> outside \<Rightarrow> array_answers \<Rightarrow> hypervisor_row \<Rightarrow> hypervisor_row \<Rightarrow> dict \<Rightarrow> (nat \<times> string) + unit" where
  "check_pair why E A source dest options =
     (if hv_id source = hv_id dest then Inl (400, ''Source and destination must differ'')
      else if \<not> hv_supports E (hv_connector_key source) MIGRATE
        then Inl (400, py_repr (hv_connector_key source) @ '' cannot be a migration source'')
      else if \<not> hv_supports E (hv_connector_key dest) MIGRATE
        then Inl (400, py_repr (hv_connector_key dest) @ '' cannot be a migration destination'')
      else if array_of source = None \<or> array_of dest = None
        then Inl (400, ''Both source and destination must be associated with a FlashArray'')
      else if array_of source \<noteq> array_of dest \<and> \<not> truthy (dict_get options ''allow_array_connect'' JNull)
        then (case array_connection_status E A source dest of (linked, name) \<Rightarrow>
          if linked then Inr ()
          else Inl (409, ''Source and destination are on different FlashArrays. An array connection to ''
            @ py_repr (if name = [] then ''the destination array'' else name) @ why))
      else Inr ())"

definition validate_pair ::
  "outside \<Rightarrow> array_answers \<Rightarrow> hypervisor_row \<Rightarrow> hypervisor_row \<Rightarrow> dict \<Rightarrow> (nat \<times> string) + unit" where
  "validate_pair = check_pair '' is required; re-submit with authorization to configure it.''"

section \<open>What the wizard is told\<close>

record destination =
  de_id :: string
  de_array :: "string option"
  de_eligible :: bool
  de_reason :: string
  de_cross_array :: bool
  de_connection_exists :: bool
  de_needs_authorization :: bool
  de_array_name :: string

text \<open>The caches of one request: the names of the destination arrays, and the source's connections.\<close>

record lookups =
  names :: "(string \<times> string) list"
  source_conns :: "array_connection list option"

definition array_name_now :: "outside \<Rightarrow> array_answers \<Rightarrow> hypervisor_row \<Rightarrow> string" where
  "array_name_now E A hv =
     (case ebind (build_connector E hv False) (\<lambda>c. if bc_array c = None then Inr [] else name_answer A c) of
        Inl e \<Rightarrow> [] | Inr n \<Rightarrow> n)"

definition dest_array_name :: "outside \<Rightarrow> array_answers \<Rightarrow> hypervisor_row \<Rightarrow> string \<Rightarrow> lookups \<Rightarrow> string \<times> lookups" where
  "dest_array_name E A hv array_id l =
     (case map_of (names l) array_id of
        Some n \<Rightarrow> (n, l)
      | None \<Rightarrow> (let n = array_name_now E A hv in (n, l\<lparr>names := AList.update array_id n (names l)\<rparr>)))"

definition source_connections_now :: "outside \<Rightarrow> array_answers \<Rightarrow> hypervisor_row \<Rightarrow> array_connection list" where
  "source_connections_now E A source =
     (case ebind (build_connector E source False) (\<lambda>c. if bc_array c = None then Inr [] else connections_answer A c) of
        Inl e \<Rightarrow> [] | Inr cs \<Rightarrow> cs)"

definition source_connections ::
  "outside \<Rightarrow> array_answers \<Rightarrow> hypervisor_row \<Rightarrow> lookups \<Rightarrow> array_connection list \<times> lookups" where
  "source_connections E A source l =
     (case source_conns l of
        Some cs \<Rightarrow> (cs, l)
      | None \<Rightarrow> (let cs = source_connections_now E A source in (cs, l\<lparr>source_conns := Some cs\<rparr>)))"

text \<open>\<^verbatim>\<open>bool(dest_name) and any(...)\<close>: the connections are not read when the name is unknown.\<close>

definition connected_to ::
  "outside \<Rightarrow> array_answers \<Rightarrow> hypervisor_row \<Rightarrow> string \<Rightarrow> lookups \<Rightarrow> bool \<times> lookups" where
  "connected_to E A source name l =
     (if name = [] then (False, l)
      else (case source_connections E A source l of (cs, l') \<Rightarrow> (list_ex (carries_to name) cs, l')))"

definition judge ::
  "outside \<Rightarrow> array_answers \<Rightarrow> hypervisor_row \<Rightarrow> hypervisor_row \<Rightarrow> lookups \<Rightarrow> destination \<times> lookups" where
  "judge E A source hv l =
     (let e = \<lparr>de_id = hv_id hv, de_array = hv_array_id hv, de_eligible = False, de_reason = [], de_cross_array = False,
               de_connection_exists = False, de_needs_authorization = False, de_array_name = []\<rparr> in
      if \<not> hv_supports E (hv_connector_key hv) MIGRATE
        then (e\<lparr>de_reason := hv_connector_key hv @ '' cannot act as a migration destination''\<rparr>, l)
      else if \<not> hv_supports E (hv_connector_key source) MIGRATE
        then (e\<lparr>de_reason := hv_connector_key source @ '' cannot act as a migration source''\<rparr>, l)
      else (case (array_of source, array_of hv) of
          (Some a, Some b) \<Rightarrow>
            if a = b then (e\<lparr>de_eligible := True, de_reason := ''same FlashArray''\<rparr>, l)
            else (case dest_array_name E A hv b l of (name, l') \<Rightarrow>
                  (case connected_to E A source name l' of (linked, l'') \<Rightarrow>
                   (e\<lparr>de_cross_array := True, de_connection_exists := linked, de_array_name := name,
                      de_needs_authorization := \<not> linked, de_eligible := True,
                      de_reason := (let n = (if name = [] then ''the destination array'' else name) in
                        if linked then ''replication connection to '' @ n
                        else ''different FlashArrays '' @ em_dash @ '' a replication connection to '' @ n @ '' must be authorized'')\<rparr>,
                    l'')))
        | (x, _) \<Rightarrow> (e\<lparr>de_reason := ''the '' @ (if x = None then ''source'' else ''destination'')
                      @ '' has no FlashArray associated''\<rparr>, l)))"

fun judge_all ::
  "outside \<Rightarrow> array_answers \<Rightarrow> hypervisor_row \<Rightarrow> hypervisor_row list \<Rightarrow> lookups \<Rightarrow> destination list" where
  "judge_all E A source [] l = []"
| "judge_all E A source (hv # hvs) l =
     (if hv_id hv = hv_id source then judge_all E A source hvs l
      else (case judge E A source hv l of (d, l') \<Rightarrow> d # judge_all E A source hvs l'))"

definition migration_destinations ::
  "outside \<Rightarrow> array_answers \<Rightarrow> hypervisor_row list \<Rightarrow> string \<Rightarrow> (nat \<times> string) + destination list" where
  "migration_destinations E A rows source_id =
     (case find (\<lambda>h. hv_id h = source_id) rows of
        None \<Rightarrow> Inl (404, ''Hypervisor not found'')
      | Some source \<Rightarrow> Inr (judge_all E A source rows \<lparr>names = [], source_conns = None\<rparr>))"

text \<open>The precheck of one pair: cross-array, connected, the array's name, and whether to ask.\<close>

definition migration_precheck ::
  "outside \<Rightarrow> array_answers \<Rightarrow> hypervisor_row \<Rightarrow> hypervisor_row \<Rightarrow> bool \<times> bool \<times> string \<times> bool" where
  "migration_precheck E A source dest =
     (let cross = array_of source \<noteq> None \<and> array_of dest \<noteq> None \<and> array_of source \<noteq> array_of dest in
      case (if cross then array_connection_status E A source dest else (False, [])) of
        (linked, name) \<Rightarrow> (cross, linked, name, cross \<and> \<not> linked))"

section \<open>Submitting\<close>

record migration_create =
  mc_source :: string
  mc_dest :: string
  mc_vm_ref :: string
  mc_network_map :: dict
  mc_options :: dict
  mc_dry_run :: bool

definition get_hv :: "hypervisor_row list \<Rightarrow> string \<Rightarrow> (nat \<times> string) + hypervisor_row" where
  "get_hv rows i =
     (case find (\<lambda>h. hv_id h = i) rows of None \<Rightarrow> Inl (404, ''Hypervisor not found'') | Some h \<Rightarrow> Inr h)"

text \<open>Whether the VM already has a migration that is waiting or running.\<close>

definition in_progress :: "string \<Rightarrow> string \<Rightarrow> migration_row \<Rightarrow> bool" where
  "in_progress source vm m \<longleftrightarrow>
     mig_source m = source \<and> mig_vm_ref m = vm \<and> mig_status m \<in> {''pending'', ''running''}"

definition create_migration ::
  "outside \<Rightarrow> array_answers \<Rightarrow> hypervisor_row list \<Rightarrow> migration_row list \<Rightarrow> migration_create \<Rightarrow>
   (nat \<times> string) + migration_row" where
  "create_migration E A rows migs body =
     ebind (get_hv rows (mc_source body)) (\<lambda>source.
     ebind (get_hv rows (mc_dest body)) (\<lambda>dest.
     ebind (check_pair '' is required to send the volume; re-submit with authorization to configure it.''
              E A source dest (mc_options body)) (\<lambda>_.
     if list_ex (in_progress (hv_id source) (mc_vm_ref body)) migs
     then Inl (409, ''This VM already has a migration in progress'')
     else (case new_migration (map (\<lambda>h. (hv_id h, hv_array_id h)) rows) (hv_id source) (hv_id dest) (mc_vm_ref body)
             (mc_network_map body)
             (if mc_dry_run body then AList.update ''dry_run'' (JBool True) (mc_options body) else mc_options body) of
             Inl e \<Rightarrow> Inl (400, exn_text e)
           | Inr m \<Rightarrow> Inr m))))"

section \<open>Groups\<close>

record member_create =
  mm_source :: string
  mm_dest :: string
  mm_vm_ref :: string
  mm_network_map :: dict
  mm_options :: dict

record group_create =
  gc_members :: "member_create list"
  gc_options :: dict
  gc_concurrency :: int
  gc_continue_on_error :: bool
  gc_scheduled_at :: "int option"

fun check_members ::
  "outside \<Rightarrow> array_answers \<Rightarrow> hypervisor_row list \<Rightarrow> dict \<Rightarrow> member_create list \<Rightarrow> (nat \<times> string) + group_member list" where
  "check_members E A rows options [] = Inr []"
| "check_members E A rows options (m # ms) =
     ebind (get_hv rows (mm_source m)) (\<lambda>source.
     ebind (get_hv rows (mm_dest m)) (\<lambda>dest.
     ebind (validate_pair E A source dest (merged_options options (mm_options m))) (\<lambda>_.
     ebind (check_members E A rows options ms) (\<lambda>rest.
     Inr (\<lparr>mem_source = hv_id source, mem_dest = hv_id dest, mem_vm_ref = mm_vm_ref m,
           mem_network_map = mm_network_map m, mem_options = mm_options m, mem_status = ''pending'',
           mem_migration = None, mem_job = None, mem_error = None\<rparr> # rest)))))"

text \<open>The row, when it is due if it is scheduled, and whether its runner is kicked at once.\<close>

definition create_migration_group ::
  "outside \<Rightarrow> array_answers \<Rightarrow> hypervisor_row list \<Rightarrow> int \<Rightarrow> group_create \<Rightarrow>
   (nat \<times> string) + group_row \<times> int option \<times> bool" where
  "create_migration_group E A rows now body =
     (if gc_members body = [] then Inl (400, ''A migration group needs at least one member'')
      else ebind (check_members E A rows (gc_options body) (gc_members body)) (\<lambda>members.
        let run_now = (case gc_scheduled_at body of None \<Rightarrow> True | Some due \<Rightarrow> due \<le> now) in
        Inr (\<lparr>grp_status = (if run_now then ''pending'' else ''scheduled''),
              grp_concurrency = max 1 (if gc_concurrency body = 0 then 1 else gc_concurrency body),
              grp_continue_on_error = gc_continue_on_error body, grp_options = gc_options body,
              grp_members = members\<rparr>,
             if run_now then None else gc_scheduled_at body, run_now)))"

section \<open>The wizard and the submission agree\<close>

definition named_arrays :: "array_answers \<Rightarrow> bool" where
  "named_arrays A \<longleftrightarrow> (\<forall>c. name_answer A c \<noteq> Inr [])"

text \<open>What is found out about an array does not depend on which of its hypervisors is asked.\<close>

definition coherent :: "outside \<Rightarrow> array_answers \<Rightarrow> hypervisor_row list \<Rightarrow> bool" where
  "coherent E A rows \<longleftrightarrow>
     (\<forall>h \<in> set rows. \<forall>h' \<in> set rows. array_of h = array_of h' \<longrightarrow> array_name_now E A h = array_name_now E A h')"

definition reaches_array :: "outside \<Rightarrow> array_answers \<Rightarrow> hypervisor_row \<Rightarrow> hypervisor_row \<Rightarrow> bool" where
  "reaches_array E A source dest \<longleftrightarrow>
     array_name_now E A dest \<noteq> [] \<and> list_ex (carries_to (array_name_now E A dest)) (source_connections_now E A source)"

lemma connection_status_iff:
  assumes "named_arrays A"
  shows "fst (array_connection_status E A source dest) \<longleftrightarrow> reaches_array E A source dest"
  using assms
  by (auto simp: array_connection_status_def reaches_array_def array_name_now_def source_connections_now_def
      named_arrays_def ebind_def split: sum.splits)

definition caches_ok :: "outside \<Rightarrow> array_answers \<Rightarrow> hypervisor_row \<Rightarrow> hypervisor_row list \<Rightarrow> lookups \<Rightarrow> bool" where
  "caches_ok E A source rows l \<longleftrightarrow>
     (\<forall>b n. map_of (names l) b = Some n \<longrightarrow> (\<forall>h \<in> set rows. array_of h = Some b \<longrightarrow> n = array_name_now E A h)) \<and>
     (\<forall>cs. source_conns l = Some cs \<longrightarrow> cs = source_connections_now E A source)"

text \<open>The caches answer what a fresh look would.\<close>

lemma dest_array_name_cached:
  assumes "caches_ok E A source rows l" and "coherent E A rows" and "h \<in> set rows" and "array_of h = Some b"
  shows "fst (dest_array_name E A h b l) = array_name_now E A h"
    and "caches_ok E A source rows (snd (dest_array_name E A h b l))"
proof -
  have same: "array_name_now E A h = array_name_now E A g" if "g \<in> set rows" "array_of g = Some b" for g
    using assms(2,3,4) that unfolding coherent_def by metis
  have "fst (dest_array_name E A h b l) = array_name_now E A h \<and>
      caches_ok E A source rows (snd (dest_array_name E A h b l))"
  proof (cases "map_of (names l) b")
    case None
    then show ?thesis
      using assms(1) same by (auto simp: dest_array_name_def caches_ok_def Let_def)
  next
    case (Some n)
    then have "n = array_name_now E A h" using assms(1,3,4) by (auto simp: caches_ok_def)
    with Some assms(1) show ?thesis by (simp add: dest_array_name_def)
  qed
  then show "fst (dest_array_name E A h b l) = array_name_now E A h"
    and "caches_ok E A source rows (snd (dest_array_name E A h b l))" by simp_all
qed

lemma connected_to_cached:
  assumes "caches_ok E A source rows l"
  shows "fst (connected_to E A source n l) \<longleftrightarrow> n \<noteq> [] \<and> list_ex (carries_to n) (source_connections_now E A source)"
    and "caches_ok E A source rows (snd (connected_to E A source n l))"
  using assms
  by (auto simp: connected_to_def source_connections_def caches_ok_def Let_def split: option.splits)

text \<open>When the checks of a pair pass.\<close>

lemma check_pair_iff:
  "check_pair why E A source h options = Inr () \<longleftrightarrow>
     hv_id source \<noteq> hv_id h \<and> hv_supports E (hv_connector_key source) MIGRATE \<and> hv_supports E (hv_connector_key h) MIGRATE \<and>
     array_of source \<noteq> None \<and> array_of h \<noteq> None \<and>
     (array_of source = array_of h \<or> truthy (dict_get options ''allow_array_connect'' JNull) \<or>
      fst (array_connection_status E A source h))"
proof -
  obtain linked name where "array_connection_status E A source h = (linked, name)" by fastforce
  then show ?thesis unfolding check_pair_def by simp
qed

lemma allowed [simp]:
  "truthy (dict_get [(''allow_array_connect'', JBool True)] ''allow_array_connect'' JNull)"
  "\<not> truthy (dict_get [] k JNull)"
  by (simp_all add: dict_get_def)

text \<open>A judgement against the checks of a submission.\<close>

definition agrees :: "outside \<Rightarrow> array_answers \<Rightarrow> hypervisor_row \<Rightarrow> destination \<Rightarrow> hypervisor_row \<Rightarrow> bool" where
  "agrees E A source d h \<longleftrightarrow> de_id d = hv_id h \<and>
     (de_eligible d \<longleftrightarrow> validate_pair E A source h [(''allow_array_connect'', JBool True)] = Inr ()) \<and>
     (de_eligible d \<and> \<not> de_needs_authorization d \<longleftrightarrow> validate_pair E A source h [] = Inr ())"

lemma judge_agrees:
  assumes "caches_ok E A source rows l" and "coherent E A rows" and "named_arrays A" and "h \<in> set rows"
    and "hv_id source \<noteq> hv_id h" and "judge E A source h l = (d, l')"
  shows "caches_ok E A source rows l' \<and> agrees E A source d h"
proof (cases "hv_supports E (hv_connector_key source) MIGRATE \<and> hv_supports E (hv_connector_key h) MIGRATE")
  case False
  then have "de_id d = hv_id h \<and> \<not> de_eligible d \<and> l' = l"
    using assms(6) by (cases "hv_supports E (hv_connector_key h) MIGRATE") (auto simp: judge_def Let_def)
  with False assms(1) show ?thesis
    unfolding agrees_def validate_pair_def check_pair_iff by blast
next
  case sup: True
  consider (none) "array_of source = None \<or> array_of h = None" | (same) b where "array_of source = Some b" "array_of h = Some b"
    | (cross) a b where "array_of source = Some a" "array_of h = Some b" "a \<noteq> b"
    by (cases "array_of source"; cases "array_of h") auto
  then show ?thesis
  proof cases
    case none
    then have "de_id d = hv_id h \<and> \<not> de_eligible d \<and> l' = l"
      using sup assms(6) by (cases "array_of source"; cases "array_of h") (auto simp: judge_def Let_def)
    with none assms(1) show ?thesis
      unfolding agrees_def validate_pair_def check_pair_iff by (elim disjE) simp_all
  next
    case same
    then have "de_id d = hv_id h \<and> de_eligible d \<and> \<not> de_needs_authorization d \<and> l' = l"
      using sup assms(6) by (auto simp: judge_def Let_def)
    with same sup assms(1,5) show ?thesis
      unfolding agrees_def validate_pair_def check_pair_iff by simp
  next
    case cross
    obtain n l1 where n: "dest_array_name E A h b l = (n, l1)" by fastforce
    obtain c l2 where c: "connected_to E A source n l1 = (c, l2)" by fastforce
    have "n = array_name_now E A h" "caches_ok E A source rows l1"
      using dest_array_name_cached [OF assms(1,2,4) cross(2)] n by simp_all
    then have r: "c \<longleftrightarrow> reaches_array E A source h" "caches_ok E A source rows l2"
      using connected_to_cached [of E A source rows l1 n] c by (simp_all add: reaches_array_def)
    have "de_id d = hv_id h \<and> de_eligible d \<and> de_needs_authorization d = (\<not> c) \<and> l' = l2"
      using assms(6) sup cross n c by (auto simp: judge_def Let_def)
    with r sup cross assms(5) connection_status_iff [OF assms(3)] show ?thesis
      unfolding agrees_def validate_pair_def check_pair_iff by simp
  qed
qed

lemma judge_all_agrees:
  assumes "caches_ok E A source rows l" and "coherent E A rows" and "named_arrays A" and "set hvs \<subseteq> set rows"
  shows "list_all2 (agrees E A source) (judge_all E A source hvs l) (filter (\<lambda>h. hv_id h \<noteq> hv_id source) hvs)"
  using assms(1,4)
proof (induction hvs arbitrary: l)
  case (Cons h hvs)
  show ?case
  proof (cases "hv_id h = hv_id source")
    case True
    with Cons show ?thesis by simp
  next
    case False
    obtain d l' where j: "judge E A source h l = (d, l')" by fastforce
    have "h \<in> set rows" using Cons.prems(2) by simp
    from judge_agrees [OF Cons.prems(1) assms(2,3) this _ j] False Cons.IH [of l'] Cons.prems(2) j
    show ?thesis by simp
  qed
qed simp



section \<open>Two sites\<close>

text \<open>
  Hypervisors on two arrays, \<open>A\<close> and \<open>B\<close>, with a replication connection from \<open>A\<close> to \<open>B\<close>. The second
  hypervisor of \<open>B\<close> is one whose secrets cannot be read when \<open>broken\<close> is set.
\<close>

definition site_row :: "string \<Rightarrow> string \<Rightarrow> string \<Rightarrow> hypervisor_row" where
  "site_row i array blob = \<lparr>hv_id = i, hv_name = i, hv_connector_key = ''demo'', hv_connection = [],
     hv_secret_blob = blob, hv_array_id = Some array, hv_status = ''deployed'', hv_state = []\<rparr>"

definition sites :: outside where
  "sites = \<lparr>registry = (\<lambda>k. if k = ''demo'' then Some (base_class\<lparr>cls_key := ''demo'', CAPABILITIES := [MIGRATE]\<rparr>) else None),
     mock_mode = True,
     flasharrays = (\<lambda>i. Some \<lparr>fa_endpoint = i, fa_secret_blob = [], fa_verify_ssl = False\<rparr>),
     decrypt = (\<lambda>b. if b = ''broken'' then Inl (Exn ''ValueError'' ''Failed to decrypt secret'') else Inr []),
     encrypt = (\<lambda>_. []), row_answer = (\<lambda>_ _. None), request_answer = (\<lambda>_ _ _. Inr (op_ok [] [] [])),
     name_is_free = (\<lambda>_ _. True)\<rparr>"

definition site_arrays :: array_answers where
  "site_arrays = \<lparr>name_answer = (\<lambda>c. case bc_array c of Some (Mock_client n) \<Rightarrow> Inr (CHR ''x'' # n) | _ \<Rightarrow> Inr ''x''),
     connections_answer = (\<lambda>c. Inr [\<lparr>ac_name = Some ''xB'', ac_type = Some ''fleet-management''\<rparr>,
       \<lparr>ac_name = Some ''xB'', ac_type = Some ''async-replication''\<rparr>])\<rparr>"

definition site_rows :: "string \<Rightarrow> hypervisor_row list" where
  "site_rows blob = [site_row ''src'' ''A'' [], site_row ''b1'' ''B'' blob, site_row ''b2'' ''B'' []]"

lemmas site_defs = site_row_def sites_def site_arrays_def site_rows_def migration_destinations_def judge_def
  dest_array_name_def connected_to_def source_connections_def array_name_now_def source_connections_now_def
  build_connector_def load_array_def with_defaults_def base_class_def hv_supports_def array_of_def nonempty_def
  build_client_def supports_def capabilities_def optional_text_def dict_get_def Let_def carries_to_def
  is_replication_connection_def

lemma replication_types [simp]:
  "contains ''replication'' (lower (strip ''async-replication''))"
  "\<not> contains ''replication'' (lower (strip ''fleet-management''))"
  by code_simp+


text \<open>
  One hypervisor whose secrets cannot be read makes every other hypervisor of its array look unconnected:
  the failure to find out the array's name is cached for the array, and the wizard asks for an
  authorization that the submission does not need.
\<close>

theorem failed_lookup_is_cached_for_the_array:
  "\<exists>d1 d2. migration_destinations sites site_arrays (site_rows ''broken'') ''src'' = Inr [d1, d2] \<and>
     de_id d2 = ''b2'' \<and> de_needs_authorization d2 \<and>
     validate_pair sites site_arrays (site_row ''src'' ''A'' []) (site_row ''b2'' ''B'' []) [] = Inr ()"
  unfolding validate_pair_def check_pair_iff
  by (simp add: site_defs array_connection_status_def)

section \<open>What is accepted\<close>

lemma get_hv_Inr: "get_hv rows i = Inr h \<Longrightarrow> h \<in> set rows \<and> hv_id h = i"
  by (auto simp: get_hv_def find_Some_iff split: option.splits)

lemma get_hv_map_of:
  "get_hv rows i = Inr h \<Longrightarrow> map_of (map (\<lambda>h. (hv_id h, hv_array_id h)) rows) i = Some (hv_array_id h)"
  by (induction rows) (auto simp: get_hv_def split: option.splits if_splits)



section \<open>Groups\<close>

lemma check_members_Inr:
  "check_members E A rows options ms = Inr xs \<Longrightarrow>
   list_all2 (\<lambda>m x. mem_source x = mm_source m \<and> mem_dest x = mm_dest m \<and> mem_vm_ref x = mm_vm_ref m \<and> mem_status x = ''pending'' \<and>
     (\<exists>source dest. get_hv rows (mm_source m) = Inr source \<and> get_hv rows (mm_dest m) = Inr dest \<and>
        validate_pair E A source dest (merged_options options (mm_options m)) = Inr ())) ms xs"
proof (induction ms arbitrary: xs)
  case (Cons m ms)
  from Cons.prems obtain source dest rest where "get_hv rows (mm_source m) = Inr source" "get_hv rows (mm_dest m) = Inr dest"
    "validate_pair E A source dest (merged_options options (mm_options m)) = Inr ()" "check_members E A rows options ms = Inr rest"
    "xs = \<lparr>mem_source = hv_id source, mem_dest = hv_id dest, mem_vm_ref = mm_vm_ref m,
           mem_network_map = mm_network_map m, mem_options = mm_options m, mem_status = ''pending'',
           mem_migration = None, mem_job = None, mem_error = None\<rparr> # rest"
    by (auto simp: ebind_def split: sum.splits)
  with Cons.IH [of rest] get_hv_Inr show ?case by auto
qed simp

lemma begin_waiting: "list_all (\<lambda>x. mem_status x = ''pending'') ms \<Longrightarrow> map (\<lambda>m. if (if mem_status m = [] then ''pending'' else mem_status m) \<in> set GROUP_TERMINAL
    then Finished else Waiting) ms = replicate (length ms) Waiting"
  by (induction ms) (auto simp: GROUP_TERMINAL_def)

lemma created_group_facts:
  assumes "create_migration_group E A rows now b = Inr (g, due, kicked)"
  shows "list_all2 (\<lambda>m x. mem_vm_ref x = mm_vm_ref m \<and>
      (\<exists>source dest. get_hv rows (mm_source m) = Inr source \<and> get_hv rows (mm_dest m) = Inr dest \<and>
        validate_pair E A source dest (merged_options (gc_options b) (mm_options m)) = Inr ())) (gc_members b) (grp_members g)"
    and "kicked = (due = None)" and "(due = None) = (grp_status g = ''pending'')"
    and "snd (consider_group later (idle gs) gid \<lparr>ge_status = grp_status g, ge_scheduled_at = due\<rparr>) =
      (case gc_scheduled_at b of None \<Rightarrow> True | Some t \<Rightarrow> t \<le> max now later)"
    and "tasks (begin_runner g) = replicate (length (gc_members b)) Waiting" and "gc_members b \<noteq> []"
    and "permits (begin_runner g) = nat (max 1 (gc_concurrency b))"
proof -
  have ms1: "gc_members b \<noteq> []"
    using assms by (auto simp: create_migration_group_def)
  obtain xs where ms: "check_members E A rows (gc_options b) (gc_members b) = Inr xs"
    using assms ms1 by (cases "check_members E A rows (gc_options b) (gc_members b)")
      (simp_all add: create_migration_group_def)
  let ?now = "case gc_scheduled_at b of None \<Rightarrow> True | Some t \<Rightarrow> t \<le> now"
  have "create_migration_group E A rows now b = Inr (\<lparr>grp_status = (if ?now then ''pending'' else ''scheduled''),
              grp_concurrency = max 1 (if gc_concurrency b = 0 then 1 else gc_concurrency b),
              grp_continue_on_error = gc_continue_on_error b, grp_options = gc_options b, grp_members = xs\<rparr>,
            if ?now then None else gc_scheduled_at b, ?now)"
    using ms1 ms by (simp only: create_migration_group_def Let_def if_False ebind_Inr)
  with assms have kicked: "kicked = ?now" and due: "due = (if kicked then None else gc_scheduled_at b)"
    and g: "g = \<lparr>grp_status = (if kicked then ''pending'' else ''scheduled''),
              grp_concurrency = max 1 (if gc_concurrency b = 0 then 1 else gc_concurrency b),
              grp_continue_on_error = gc_continue_on_error b, grp_options = gc_options b, grp_members = xs\<rparr>"
    by (auto simp only: sum.inject prod.inject)
  note checked = check_members_Inr [OF ms]
  show "list_all2 (\<lambda>m x. mem_vm_ref x = mm_vm_ref m \<and>
      (\<exists>source dest. get_hv rows (mm_source m) = Inr source \<and> get_hv rows (mm_dest m) = Inr dest \<and>
        validate_pair E A source dest (merged_options (gc_options b) (mm_options m)) = Inr ())) (gc_members b) (grp_members g)"
    using checked by (simp add: g) (rule list_all2_mono, assumption, blast)
  show "kicked = (due = None)" "(due = None) = (grp_status g = ''pending'')"
    using kicked due by (auto simp: g split: option.splits)
  show "snd (consider_group later (idle gs) gid \<lparr>ge_status = grp_status g, ge_scheduled_at = due\<rparr>) =
      (case gc_scheduled_at b of None \<Rightarrow> True | Some t \<Rightarrow> t \<le> max now later)"
  proof (cases kicked)
    case True
    with kicked show ?thesis by (auto simp: g consider_group_def idle_def split: option.splits)
  next
    case False
    then obtain t where "gc_scheduled_at b = Some t" "now < t" using kicked by (auto split: option.splits)
    with False due show ?thesis by (simp add: g consider_group_def idle_def max_def)
  qed
  have "list_all (\<lambda>x. mem_status x = ''pending'') xs" "length xs = length (gc_members b)"
    using checked by (auto simp: list_all2_conv_all_nth list_all_length)
  then show "tasks (begin_runner g) = replicate (length (gc_members b)) Waiting"
    using begin_waiting [of xs] by (simp add: begin_runner_def g)
  show "gc_members b \<noteq> []" by (fact ms1)
  show "permits (begin_runner g) = nat (max 1 (gc_concurrency b))"
    by (auto simp: begin_runner_def g max_def)
qed


text \<open>
  C30. From the submission of a group to its runner: every pair of an accepted group has passed the checks
  with the options the member will run with; the group waits for its time exactly when that lies ahead,
  and then the scheduler launches it in the first cycle at or after that time and in none before; when
  its runner begins, every member waits and as many can start as the group allows, at least one.
\<close>

theorem created_group_runs_when_due:
  assumes "create_migration_group E A rows now b = Inr (g, due, kicked)"
  shows "list_all2 (\<lambda>m x. mem_vm_ref x = mm_vm_ref m \<and>
      (\<exists>source dest. get_hv rows (mm_source m) = Inr source \<and> get_hv rows (mm_dest m) = Inr dest \<and>
        validate_pair E A source dest (merged_options (gc_options b) (mm_options m)) = Inr ())) (gc_members b) (grp_members g) \<and>
    kicked = (due = None) \<and> (due = None) = (grp_status g = ''pending'') \<and>
    snd (consider_group later (idle gs) gid \<lparr>ge_status = grp_status g, ge_scheduled_at = due\<rparr>) =
      (case gc_scheduled_at b of None \<Rightarrow> True | Some t \<Rightarrow> t \<le> max now later) \<and>
    tasks (begin_runner g) = replicate (length (gc_members b)) Waiting \<and> gc_members b \<noteq> [] \<and>
    permits (begin_runner g) = nat (max 1 (gc_concurrency b))"
  using created_group_facts [OF assms] by simp

theorem created_group_runs_when_due_witness:
  "\<exists>g due kicked. create_migration_group sites site_arrays (site_rows []) 10
       \<lparr>gc_members = [\<lparr>mm_source = ''src'', mm_dest = ''b2'', mm_vm_ref = ''vm'', mm_network_map = [], mm_options = []\<rparr>],
         gc_options = [], gc_concurrency = 0, gc_continue_on_error = True, gc_scheduled_at = Some 20\<rparr> = Inr (g, due, kicked) \<and>
     \<not> snd (consider_group 19 (idle []) ''g'' \<lparr>ge_status = grp_status g, ge_scheduled_at = due\<rparr>) \<and>
     snd (consider_group 20 (idle []) ''g'' \<lparr>ge_status = grp_status g, ge_scheduled_at = due\<rparr>) \<and>
     permits (begin_runner g) = 1"
proof -
  let ?b = "\<lparr>gc_members = [\<lparr>mm_source = ''src'', mm_dest = ''b2'', mm_vm_ref = ''vm'', mm_network_map = [], mm_options = []\<rparr>],
         gc_options = [], gc_concurrency = 0, gc_continue_on_error = True, gc_scheduled_at = Some 20\<rparr>"
  have "check_pair why sites site_arrays (site_row ''src'' ''A'' []) (site_row ''b2'' ''B'' []) [] = Inr ()" for why
    unfolding check_pair_iff by (simp add: site_defs array_connection_status_def)
  then have "check_members sites site_arrays (site_rows []) [] (gc_members ?b) \<noteq> Inl e" for e
    by (simp add: get_hv_def site_rows_def site_row_def validate_pair_def merged_options_def)
  then obtain xs where "check_members sites site_arrays (site_rows []) [] (gc_members ?b) = Inr xs"
    by (metis sum.exhaust)
  then obtain g due kicked where c: "create_migration_group sites site_arrays (site_rows []) 10 ?b = Inr (g, due, kicked)"
    by (auto simp add: create_migration_group_def Let_def simp del: check_members.simps)
  from c created_group_runs_when_due [OF c, where later = 19 and gs = "[]" and gid = "''g''"] created_group_runs_when_due [OF c, where later = 20 and gs = "[]" and gid = "''g''"]
  show ?thesis by auto
qed


end
