(* ===== verification/Connector_Forms.thy ===== *)
theory Connector_Forms
  imports Connector_Base
begin

text \<open>
  The declarations of a connector: its class with the forms and actions the user interface reads,
  the action ids its own \<^verbatim>\<open>dispatch\<close> routes before the inherited table, and the signatures of the
  methods that are reached. A call of a method with keyword arguments binds them the way Python
  does. The declarations of the eight connectors are in the theories \<open>Forms_*\<close>.
\<close>

section \<open>Declarations\<close>

text \<open>\<^verbatim>\<open>FormField(name, label, type)\<close> and \<^verbatim>\<open>ActionSpec(capability, id, label, description)\<close> with the
  dataclasses' defaults.\<close>

definition form_field_of :: "string \<Rightarrow> string \<Rightarrow> field_type \<Rightarrow> form_field" where
  "form_field_of name label ty =
     \<lparr>ff_name = name, ff_label = label, ff_type = ty, ff_required = True, ff_default = JNull,
      ff_options = None, ff_options_source = None, ff_help = [], ff_placeholder = []\<rparr>"

definition action_of :: "capability \<Rightarrow> string \<Rightarrow> string \<Rightarrow> string \<Rightarrow> action_spec" where
  "action_of cap ident label descr =
     \<lparr>as_capability = cap, as_id = ident, as_label = label, as_description = descr, as_fields = [],
      as_destructive = False, as_long_running = True\<rparr>"

text \<open>The parameters of a method: the required ones, the optional ones, and \<^verbatim>\<open>**_\<close>.\<close>

datatype signature = Sig (sig_required: "string list") (sig_optional: "string list") (sig_any: bool)

record connector_declaration =
  cd_class :: connector_class
  cd_routes :: "(string \<times> string) list"
  cd_methods :: "(string \<times> signature) list"

section \<open>Dispatch of an action\<close>

definition binds :: "signature \<Rightarrow> string set \<Rightarrow> bool" where
  "binds g given \<longleftrightarrow> set (sig_required g) \<subseteq> given \<and>
     (sig_any g \<or> given \<subseteq> set (sig_required g) \<union> set (sig_optional g))"

text \<open>\<^verbatim>\<open>await method(**params)\<close>: parameters that do not bind are a \<^verbatim>\<open>TypeError\<close>.\<close>

definition call_method ::
  "signature \<Rightarrow> (dict \<Rightarrow> ('s, op_result) action) \<Rightarrow> dict \<Rightarrow> ('s, op_result) action" where
  "call_method g f params =
     (if binds g (fst ` set params) then f params else raise (Exn ''TypeError'' []))"

text \<open>The methods of the connector's class, with what they do.\<close>

definition class_operations ::
  "connector_declaration \<Rightarrow> (string \<Rightarrow> dict \<Rightarrow> ('s, op_result) action) \<Rightarrow> 's operations" where
  "class_operations d impl name = map_option (\<lambda>g. call_method g (impl name)) (map_of (cd_methods d) name)"

text \<open>A connector's \<^verbatim>\<open>dispatch\<close>: its own ids first, then \<^verbatim>\<open>super().dispatch\<close>.\<close>

definition connector_dispatch ::
  "connector_declaration \<Rightarrow> 's connector_context \<Rightarrow> (string \<Rightarrow> dict \<Rightarrow> ('s, op_result) action) \<Rightarrow>
   string \<Rightarrow> dict \<Rightarrow> ('s, op_result) action" where
  "connector_dispatch d ctx impl action_id params =
     (case map_of (cd_routes d) action_id of
        Some name \<Rightarrow>
          (case class_operations d impl name of
             Some f \<Rightarrow> f params | None \<Rightarrow> raise (Exn ''AttributeError'' []))
      | None \<Rightarrow> dispatch (cd_class d) ctx (class_operations d impl) action_id params)"

section \<open>Consistency of a declaration\<close>

definition route_of :: "connector_declaration \<Rightarrow> string \<Rightarrow> string option" where
  "route_of d action_id =
     (case map_of (cd_routes d) action_id of Some n \<Rightarrow> Some n | None \<Rightarrow> map_of default_dispatch action_id)"

definition required_names :: "action_spec \<Rightarrow> string list" where
  "required_names a = map ff_name (filter ff_required (as_fields a))"

definition field_names :: "action_spec \<Rightarrow> string list" where
  "field_names a = map ff_name (as_fields a)"

text \<open>The form of the action fills the parameters of the method it reaches.\<close>

definition served :: "connector_declaration \<Rightarrow> action_spec \<Rightarrow> bool" where
  "served d a =
     (case Option.bind (route_of d (as_id a)) (map_of (cd_methods d)) of
        None \<Rightarrow> False
      | Some g \<Rightarrow> list_all (\<lambda>p. p \<in> set (required_names a)) (sig_required g) \<and>
          (sig_any g \<or> list_all (\<lambda>p. p \<in> set (sig_required g) \<union> set (sig_optional g)) (field_names a)))"

lemma served_runs:
  assumes "served d a" and "set (required_names a) \<subseteq> fst ` set params"
    and "fst ` set params \<subseteq> set (field_names a)"
  shows "\<exists>name. route_of d (as_id a) = Some name \<and>
    connector_dispatch d ctx impl (as_id a) params = impl name params"
proof -
  obtain name g where r: "route_of d (as_id a) = Some name" and g: "map_of (cd_methods d) name = Some g"
    and req: "set (sig_required g) \<subseteq> set (required_names a)"
    and opt: "sig_any g \<or> set (field_names a) \<subseteq> set (sig_required g) \<union> set (sig_optional g)"
    using assms(1) by (auto simp: served_def list_all_iff split: option.splits bind_splits)
  have "call_method g (impl name) params = impl name params"
    using req opt assms(2,3) unfolding call_method_def binds_def by auto
  then have "connector_dispatch d ctx impl (as_id a) params = impl name params"
    using r g by (auto simp: connector_dispatch_def class_operations_def dispatch_def operation_def route_of_def
        split: option.splits)
  with r show ?thesis by blast
qed

end
