(* ===== verification/Forms_Proxmox.thy ===== *)
theory Forms_Proxmox
  imports Connector_Forms
begin

text \<open>
  What the Proxmox VE connector declares to the user interface, \<^verbatim>\<open>connectors/proxmox/connector.py\<close>: the form
  of its target, the actions with their forms, the order of the wizard, and the signatures of the
  methods its dispatch reaches.
\<close>

definition proxmox_target_schema :: "form_field list" where
  "proxmox_target_schema =
    [(form_field_of ''node_host'' ''Node host / IP (SSH)'' STRING)\<lparr>
       ff_help := ''A Proxmox cluster member we can SSH to.'',
       ff_placeholder := ''pve01.example.local''\<rparr>,
     (form_field_of ''ssh_user'' ''SSH user'' STRING)\<lparr>ff_default := JStr ''root''\<rparr>,
     (form_field_of ''ssh_password'' ''SSH password'' SECRET)\<lparr>
       ff_required := False,
       ff_help := ''Provide either an SSH password or an SSH private key.''\<rparr>,
     (form_field_of ''ssh_key'' ''SSH private key'' TEXT)\<lparr>
       ff_required := False,
       ff_help := ''PEM private key; used if no password is supplied.''\<rparr>,
     (form_field_of ''protocol'' ''Storage protocol'' ENUM)\<lparr>
       ff_default := JStr ''nvme-tcp'',
       ff_options := Some [''nvme-tcp'', ''iscsi'', ''fc'', ''nfs'']\<rparr>,
     (form_field_of ''storage_id'' ''Proxmox storage ID'' STRING)\<lparr>
       ff_default := JStr ''purefa'',
       ff_help := ''Name of the purefa storage in /etc/pve/storage.cfg.''\<rparr>,
     (form_field_of ''host_group'' ''FlashArray host group'' STRING)\<lparr>
       ff_required := False,
       ff_help := ''FA host group the Proxmox cluster nodes belong to.''\<rparr>,
     (form_field_of ''node_iqn'' ''Node IQN (iSCSI)'' STRING)\<lparr>
       ff_required := False,
       ff_help := ''(auto-discovered from the node if left blank)'',
       ff_placeholder := ''iqn.1993-08.org.debian:01:abc''\<rparr>,
     (form_field_of ''node_nqn'' ''Node NQN (NVMe-TCP)'' STRING)\<lparr>
       ff_required := False,
       ff_help := ''(auto-discovered from the node if left blank)'',
       ff_placeholder := ''nqn.2014-08.org.nvmexpress:uuid:...''\<rparr>,
     (form_field_of ''node_wwns'' ''Node HBA WWPNs (FC, comma-separated)'' STRING)\<lparr>
       ff_required := False,
       ff_help := ''FC HBA port WWNs for this node. (auto-discovered from the node if left blank)'',
       ff_placeholder := ''21:00:00:24:ff:00:00:01,21:00:00:24:ff:00:00:02''\<rparr>]"

definition proxmox_action_deploy :: action_spec where
  "proxmox_action_deploy =
     (action_of DEPLOY_PLUGIN ''deploy'' ''Deploy purefa storage plugin''
      (''Push PureFAPlugin.pm to the node(s), install perl REST deps, and reload the PVE daemons ''
       @ ''so the '' @ [CHR 0x27] @ ''purefa'' @ [CHR 0x27] @ '' storage type is available.''))\<lparr>as_fields :=
      [(form_field_of ''storage_id'' ''Proxmox storage ID'' STRING)\<lparr>ff_default := JStr ''purefa''\<rparr>]\<rparr>"

definition proxmox_action_register_hosts :: action_spec where
  "proxmox_action_register_hosts =
     (action_of HOST_REGISTER ''register_hosts'' ''Register node on array''
      ''Create a FlashArray host (from the node IQN/NQN/WWN) and host group.'')\<lparr>as_fields :=
      [(form_field_of ''host_name'' ''Array host name'' STRING)\<lparr>
         ff_required := False,
         ff_options_source := Some ''fa_host_name'',
         ff_help := ''Auto-loaded from the node host (sanitized for the array).''\<rparr>,
       (form_field_of ''host_group'' ''Host group name'' STRING)\<lparr>ff_help := ''Proxmox cluster host group on the array.''\<rparr>,
       (form_field_of ''node_iqn'' ''Node IQN (iSCSI)'' STRING)\<lparr>
         ff_required := False,
         ff_help := ''(auto-discovered from the node if left blank)''\<rparr>,
       (form_field_of ''node_nqn'' ''Node NQN (NVMe-TCP)'' STRING)\<lparr>
         ff_required := False,
         ff_help := ''(auto-discovered from the node if left blank)''\<rparr>,
       (form_field_of ''node_wwns'' ''Node HBA WWPNs (FC, comma-separated)'' STRING)\<lparr>
         ff_required := False,
         ff_help := ''(auto-discovered from the node if left blank)''\<rparr>]\<rparr>"

definition proxmox_action_setup_connectivity :: action_spec where
  "proxmox_action_setup_connectivity =
     (action_of CONNECTIVITY ''setup_connectivity'' ''Configure connectivity + multipath''
      (''Install transport tooling, connect persistently to the array portals, and set the recommended ''
       @ ''multipath / IO policy on the node.''))\<lparr>as_fields :=
      [(form_field_of ''portals'' ''Array portal IPs (comma-separated)'' STRING)\<lparr>
         ff_required := False,
         ff_options_source := Some ''array_portals'',
         ff_help := (''Auto-loaded from the associated FlashArray'' @ [CHR 0x27]
           @ ''s data interfaces for the chosen protocol.''),
         ff_placeholder := ''auto-discovered from the array''\<rparr>,
       (form_field_of ''subsystem_nqn'' ''Subsystem NQN (NVMe-TCP)'' STRING)\<lparr>
         ff_required := False,
         ff_options_source := Some ''array_target_nqn'',
         ff_help := (''Auto-loaded from the array'' @ [CHR 0x27] @ ''s NVMe subsystem.'')\<rparr>,
       (form_field_of ''iqn_target'' ''Target IQN (iSCSI)'' STRING)\<lparr>
         ff_required := False,
         ff_options_source := Some ''array_target_iqn'',
         ff_help := (''Auto-loaded from the array'' @ [CHR 0x27] @ ''s iSCSI target.'')\<rparr>,
       (form_field_of ''iscsi_nics'' ''iSCSI NICs'' MULTISELECT)\<lparr>
         ff_required := False,
         ff_options_source := Some ''nics'',
         ff_help := ''NICs to bind iSCSI sessions to (iSCSI only)''\<rparr>,
       (form_field_of ''nvme_sources'' ''NVMe-TCP source interfaces'' MULTISELECT)\<lparr>
         ff_required := False,
         ff_options_source := Some ''nvme_sources'',
         ff_help := ''Host source interfaces/addresses for NVMe-TCP connections (host-traddr; NVMe-TCP only)''\<rparr>,
       (form_field_of ''nvme_options'' ''Extra nvme connect options'' STRING)\<lparr>
         ff_required := False,
         ff_help := ''Extra flags appended to `nvme connect` (NVMe-TCP only)''\<rparr>,
       (form_field_of ''fc_hbas'' ''Fibre Channel HBAs'' MULTISELECT)\<lparr>
         ff_required := False,
         ff_options_source := Some ''fc_hbas'',
         ff_help := ''HBAs to use (FC only)''\<rparr>,
       (form_field_of ''rebind'' ''Re-bind iSCSI ifaces'' BOOL)\<lparr>
         ff_required := False,
         ff_default := JBool False,
         ff_help := (''Delete and recreate the iSCSI NIC ifaces so all cluster nodes end up with the same binding ''
           @ ''(use when nodes'' @ [CHR 0x27] @ '' existing bindings differ).'')\<rparr>]\<rparr>"

definition proxmox_action_enable :: action_spec where
  "proxmox_action_enable =
     (action_of CONFIGURE ''enable'' ''Enable storage''
      (''Enable the purefa storage (created disabled by Configure) once host registration and ''
       @ ''connectivity are complete.''))\<lparr>as_fields :=
      [(form_field_of ''storage_id'' ''Proxmox storage ID'' STRING)\<lparr>ff_required := False,
         ff_default := JStr ''purefa''\<rparr>]\<rparr>"

definition proxmox_action_configure :: action_spec where
  "proxmox_action_configure =
     (action_of CONFIGURE ''configure'' ''Define purefa storage''
      (''Write the '' @ [CHR 0x27] @ ''purefa'' @ [CHR 0x27]
       @ '' stanza into /etc/pve/storage.cfg and reload the PVE daemons. The FlashArray endpoint ''
       @ ''and API token are taken from the associated array on this hypervisor.''))\<lparr>as_fields :=
      [(form_field_of ''storage_id'' ''Proxmox storage ID'' STRING)\<lparr>ff_default := JStr ''purefa''\<rparr>,
       (form_field_of ''host_group'' ''FlashArray host group'' STRING)\<lparr>ff_required := False\<rparr>,
       (form_field_of ''content'' ''Content types'' STRING)\<lparr>ff_default := JStr ''images,rootdir''\<rparr>]\<rparr>"

definition proxmox_action_provision :: action_spec where
  "proxmox_action_provision =
     (action_of PROVISION_VOLUME ''provision'' ''Provision VM disk''
      (''Create a FlashArray volume (one LUN per disk), connect it to the host group, then attach ''
       @ ''it directly to the VM as a raw multipath block device via the purefa storage.''))\<lparr>as_fields :=
      [form_field_of ''name'' ''Volume name (vm-<vmid>-disk-N)'' STRING,
       (form_field_of ''size'' ''Size'' SIZE)\<lparr>ff_default := JStr ''1T''\<rparr>,
       (form_field_of ''host_group'' ''Attach to host group'' STRING)\<lparr>ff_required := False\<rparr>,
       (form_field_of ''vmid'' ''VM ID'' STRING)\<lparr>ff_required := False\<rparr>,
       (form_field_of ''disk'' ''Disk slot (e.g. scsi1)'' STRING)\<lparr>ff_required := False,
         ff_default := JStr ''scsi1''\<rparr>,
       (form_field_of ''storage_id'' ''Proxmox storage ID'' STRING)\<lparr>ff_required := False\<rparr>]\<rparr>"

definition proxmox_action_snapshot :: action_spec where
  "proxmox_action_snapshot =
     (action_of SNAPSHOT ''snapshot'' ''Snapshot disk (array)''
      (''Create a FlashArray snapshot of the disk'' @ [CHR 0x27] @ ''s volume.''))\<lparr>as_fields :=
      [form_field_of ''volume'' ''Volume name'' STRING,
       (form_field_of ''suffix'' ''Snapshot suffix'' STRING)\<lparr>ff_required := False\<rparr>]\<rparr>"

definition proxmox_action_clone :: action_spec where
  "proxmox_action_clone =
     (action_of CLONE ''clone'' ''Clone disk (array copy)''
      ''FlashArray volume copy producing a new directly-attached volume.'')\<lparr>as_fields :=
      [form_field_of ''source'' ''Source volume'' STRING,
       form_field_of ''dest'' ''New volume name'' STRING,
       (form_field_of ''host_group'' ''Attach clone to host group'' STRING)\<lparr>ff_required := False\<rparr>]\<rparr>"

definition proxmox_action_resize :: action_spec where
  "proxmox_action_resize =
     (action_of RESIZE ''resize'' ''Resize disk''
      ''Extend the FlashArray volume, then rescan + qm resize on the node.'')\<lparr>as_fields :=
      [form_field_of ''volume'' ''Volume name'' STRING,
       form_field_of ''size'' ''New size'' SIZE,
       (form_field_of ''vmid'' ''VM ID'' STRING)\<lparr>ff_required := False\<rparr>,
       (form_field_of ''disk'' ''Disk slot (e.g. scsi1)'' STRING)\<lparr>ff_required := False\<rparr>]\<rparr>"

definition proxmox_action_health_check :: action_spec where
  "proxmox_action_health_check =
     (action_of HEALTH ''health_check'' ''Health check''
      ''pvesm status + multipath/nvme path status.'')\<lparr>as_long_running := False\<rparr>"

definition proxmox_action_teardown :: action_spec where
  "proxmox_action_teardown =
     (action_of REMOVE ''teardown'' ''Remove integration''
      ''Remove the purefa storage entry and the plugin file.'')\<lparr>as_destructive := True\<rparr>"

definition proxmox_action_assess_cluster :: action_spec where
  "proxmox_action_assess_cluster =
     (action_of RECONCILE_CLUSTER ''assess_cluster'' ''Check for cluster changes''
      (''READ-ONLY: compare current PVE cluster membership against the FlashArray host group, ''
       @ ''and score new nodes for deploy-readiness.''))\<lparr>as_long_running := False\<rparr>"

definition proxmox_action_reconcile_cluster :: action_spec where
  "proxmox_action_reconcile_cluster =
     (action_of RECONCILE_CLUSTER ''reconcile_cluster'' ''Deploy to new hosts''
      (''Configure storage on newly-added (ready) cluster nodes; optionally remove FlashArray ''
       @ ''hosts for nodes that have left the cluster.''))\<lparr>as_fields :=
      [(form_field_of ''apply_removals'' ''Also remove departed hosts'' BOOL)\<lparr>
         ff_required := False,
         ff_default := JBool False,
         ff_help := ''Remove FA hosts/group members for nodes that have left the cluster (default: flag only).''\<rparr>],
      as_destructive := True\<rparr>"

definition proxmox_action_provision_nfs_datastore :: action_spec where
  "proxmox_action_provision_nfs_datastore =
     (action_of PROVISION_VOLUME ''provision_nfs_datastore'' ''Provision NFS datastore''
      (''Create a FlashArray File system + NFS export and define a PVE-native '' @ [CHR 0x27]
       @ ''nfs'' @ [CHR 0x27] @ '' storage pointing at it (protocol=nfs).''))\<lparr>as_fields :=
      [(form_field_of ''name'' ''Datastore / file system name'' STRING)\<lparr>ff_placeholder := ''pve-nfs''\<rparr>,
       (form_field_of ''export_path'' ''NFS export path'' STRING)\<lparr>
         ff_required := False,
         ff_default := JStr ''/'',
         ff_help := (''Export path on the file system (default '' @ [CHR 0x27] @ ''/'' @ [CHR 0x27] @ '').'')\<rparr>,
       (form_field_of ''storage_id'' ''Proxmox storage ID'' STRING)\<lparr>ff_required := False,
         ff_default := JStr ''purefa-nfs''\<rparr>,
       (form_field_of ''content'' ''Content types'' STRING)\<lparr>ff_required := False,
         ff_default := JStr ''images,iso''\<rparr>]\<rparr>"

definition proxmox_action_teardown_nfs_datastore :: action_spec where
  "proxmox_action_teardown_nfs_datastore =
     (action_of REMOVE ''teardown_nfs_datastore'' ''Remove NFS datastore''
      (''Remove the PVE '' @ [CHR 0x27] @ ''nfs'' @ [CHR 0x27]
       @ '' storage, then delete the NFS export and FlashArray file system.''))\<lparr>as_fields :=
      [form_field_of ''name'' ''File system name'' STRING,
       (form_field_of ''storage_id'' ''Proxmox storage ID'' STRING)\<lparr>ff_required := False,
         ff_default := JStr ''purefa-nfs''\<rparr>,
       (form_field_of ''eradicate'' ''Eradicate file system'' BOOL)\<lparr>ff_required := False,
         ff_default := JBool False\<rparr>],
      as_destructive := True\<rparr>"

definition proxmox_actions :: "action_spec list" where
  "proxmox_actions =
    [proxmox_action_deploy,
     proxmox_action_register_hosts,
     proxmox_action_setup_connectivity,
     proxmox_action_enable,
     proxmox_action_configure,
     proxmox_action_provision,
     proxmox_action_snapshot,
     proxmox_action_clone,
     proxmox_action_resize,
     proxmox_action_health_check,
     proxmox_action_teardown,
     proxmox_action_assess_cluster,
     proxmox_action_reconcile_cluster,
     proxmox_action_provision_nfs_datastore,
     proxmox_action_teardown_nfs_datastore]"

definition proxmox_wizard_steps :: "string list" where
  "proxmox_wizard_steps = [''deploy'', ''configure'', ''register_hosts'', ''setup_connectivity'', ''enable'']"

definition proxmox_class :: connector_class where
  "proxmox_class = base_class\<lparr>
     cls_key := ''proxmox'',
     cls_name := ''Proxmox VE (Everpure storage plugin)'',
     cls_description := (''Connect Proxmox VE to an Everpure FlashArray via a native '' @ [CHR 0x27] @ ''purefa''
        @ [CHR 0x27]
        @ '' storage plugin. Each VM disk is its own FlashArray volume presented directly to the ''
        @ ''VM as a raw multipath block device over NVMe-TCP (recommended), iSCSI, or FC. Snapshots ''
        @ ''and clones are performed on the array. Models the Everpure CSI / OpenStack Cinder block ''
        @ ''driver, not LVM.''),
     CAPABILITIES := [HOST_REGISTER, CONNECTIVITY, DEPLOY_PLUGIN, CONFIGURE, PROVISION_VOLUME, SNAPSHOT, CLONE, RESIZE, HEALTH, REMOVE, RECONCILE_CLUSTER, VM_INVENTORY, VM_LIFECYCLE, MIGRATE],
     SUPPORTED_PROTOCOLS := [ISCSI, FC, NVME_TCP, NFS],
     cls_maturity := ''ga'',
     target_schema := proxmox_target_schema,
     action_schemas := proxmox_actions,
     wizard_steps := proxmox_wizard_steps\<rparr>"

definition proxmox_routes :: "(string \<times> string) list" where
  "proxmox_routes = [(''enable'', ''enable_storage''), (''provision_nfs_datastore'', ''provision_nfs_datastore''), (''teardown_nfs_datastore'', ''teardown_nfs_datastore'')]"

definition proxmox_sig_deploy_integration :: signature where
  "proxmox_sig_deploy_integration = Sig [] [''storage_id'', ''nodes''] True"

definition proxmox_sig_configure :: signature where
  "proxmox_sig_configure = Sig [] [''storage_id'', ''pure_endpoint'', ''pure_api_token'', ''host_group'', ''content''] True"

definition proxmox_sig_provision :: signature where
  "proxmox_sig_provision = Sig [''name''] [''size'', ''host_group'', ''vmid'', ''disk'', ''storage_id''] True"

definition proxmox_sig_snapshot :: signature where
  "proxmox_sig_snapshot = Sig [''volume''] [''suffix''] True"

definition proxmox_sig_clone :: signature where
  "proxmox_sig_clone = Sig [''source'', ''dest''] [''host_group''] True"

definition proxmox_sig_resize :: signature where
  "proxmox_sig_resize = Sig [''volume'', ''size''] [''vmid'', ''disk''] True"

definition proxmox_sig_register_hosts :: signature where
  "proxmox_sig_register_hosts = Sig [] [''host_group'', ''host_name'', ''node_iqn'', ''node_nqn'', ''node_wwns'', ''nodes''] True"

definition proxmox_sig_setup_connectivity :: signature where
  "proxmox_sig_setup_connectivity = Sig [] [''portals'', ''subsystem_nqn'', ''iqn_target'', ''iscsi_nics'', ''nvme_sources'', ''nvme_options'', ''fc_hbas'', ''rebind'', ''nodes''] True"

definition proxmox_sig_health_check :: signature where
  "proxmox_sig_health_check = Sig [] [] True"

definition proxmox_sig_teardown :: signature where
  "proxmox_sig_teardown = Sig [] [''storage_id''] True"

definition proxmox_sig_assess_cluster :: signature where
  "proxmox_sig_assess_cluster = Sig [] [] True"

definition proxmox_sig_reconcile_cluster :: signature where
  "proxmox_sig_reconcile_cluster = Sig [] [''apply_removals''] True"

definition proxmox_sig_enable_storage :: signature where
  "proxmox_sig_enable_storage = Sig [] [''storage_id''] True"

definition proxmox_sig_provision_nfs_datastore :: signature where
  "proxmox_sig_provision_nfs_datastore = Sig [''name''] [''export_path'', ''storage_id'', ''content''] True"

definition proxmox_sig_teardown_nfs_datastore :: signature where
  "proxmox_sig_teardown_nfs_datastore = Sig [''name''] [''storage_id'', ''eradicate''] True"

definition proxmox_connector :: connector_declaration where
  "proxmox_connector =
     \<lparr>cd_class = proxmox_class, cd_routes = proxmox_routes,
      cd_methods = [(''deploy_integration'', proxmox_sig_deploy_integration),
        (''configure'', proxmox_sig_configure),
        (''provision'', proxmox_sig_provision),
        (''snapshot'', proxmox_sig_snapshot),
        (''clone'', proxmox_sig_clone),
        (''resize'', proxmox_sig_resize),
        (''register_hosts'', proxmox_sig_register_hosts),
        (''setup_connectivity'', proxmox_sig_setup_connectivity),
        (''health_check'', proxmox_sig_health_check),
        (''teardown'', proxmox_sig_teardown),
        (''assess_cluster'', proxmox_sig_assess_cluster),
        (''reconcile_cluster'', proxmox_sig_reconcile_cluster),
        (''enable_storage'', proxmox_sig_enable_storage),
        (''provision_nfs_datastore'', proxmox_sig_provision_nfs_datastore),
        (''teardown_nfs_datastore'', proxmox_sig_teardown_nfs_datastore)]\<rparr>"

end
