(* ===== verification/Forms_Vsphere.thy ===== *)
theory Forms_Vsphere
  imports Connector_Forms
begin

text \<open>
  What the VMware vSphere connector declares to the user interface, \<^verbatim>\<open>connectors/vsphere/connector.py\<close>: the form
  of its target, the actions with their forms, the order of the wizard, and the signatures of the
  methods its dispatch reaches.
\<close>

definition vsphere_target_schema :: "form_field list" where
  "vsphere_target_schema =
    [(form_field_of ''vcenter_host'' ''vCenter host / IP'' STRING)\<lparr>ff_placeholder := ''vcenter.example.com''\<rparr>,
     (form_field_of ''vcenter_user'' ''vCenter username'' STRING)\<lparr>ff_default := JStr ''administrator@vsphere.local''\<rparr>,
     form_field_of ''vcenter_password'' ''vCenter password'' SECRET,
     (form_field_of ''datacenter'' ''Datacenter'' STRING)\<lparr>
       ff_required := False,
       ff_help := ''Optional default datacenter for datastore operations.''\<rparr>,
     (form_field_of ''cluster'' ''Cluster'' STRING)\<lparr>
       ff_required := False,
       ff_help := ''Optional default cluster for datastore/host operations.''\<rparr>,
     (form_field_of ''host_group'' ''FlashArray host group'' STRING)\<lparr>
       ff_required := False,
       ff_help := (''FA host group the ESXi cluster belongs to. Used as the default for register_hosts / ''
         @ ''setup_connectivity when their host_group field is left blank.'')\<rparr>,
     (form_field_of ''esxi_user'' ''ESXi host SSH username'' STRING)\<lparr>
       ff_required := False,
       ff_default := JStr ''root'',
       ff_help := (''Used only for VM migration FROM vSphere: cloning a VMFS disk onto a FlashArray volume ''
         @ ''requires vmkfstools on the ESXi host over SSH.'')\<rparr>,
     (form_field_of ''esxi_password'' ''ESXi host SSH password'' SECRET)\<lparr>
       ff_required := False,
       ff_help := (''Root password for the ESXi hosts (typically uniform across the cluster). Required only ''
         @ ''to migrate VMs with VMFS-backed disks off vSphere.'')\<rparr>]"

definition vsphere_action_deploy :: action_spec where
  "vsphere_action_deploy =
     (action_of DEPLOY_PLUGIN ''deploy'' ''Deploy vSphere plugin + VASA''
      (''Register the Everpure vSphere Client Remote Plugin and the VASA Provider (vVols) with ''
       @ ''vCenter. The plugin containers must already be running on the PHIF server (docker compose ''
       @ ''--profile vsphere up -d). Enter the PHIF server'' @ [CHR 0x27]
       @ ''s externally-reachable hostname or IP; the plugin proxy listens on port 9443.''))\<lparr>as_fields :=
      [(form_field_of ''phif_host'' ''PHIF server host / IP'' STRING)\<lparr>
         ff_required := False,
         ff_help := (''Hostname or IP of the PHIF server running the vSphere plugin containers. Used to construct ''
           @ ''https://<host>:9443 as the plugin manifest URL. Leave blank only if supplying ''
           @ [CHR 0x27] @ ''plugin_url'' @ [CHR 0x27] @ '' directly.''),
         ff_placeholder := ''phif.example.com''\<rparr>,
       (form_field_of ''plugin_url'' ''Remote plugin manifest URL (override)'' STRING)\<lparr>
         ff_required := False,
         ff_help := (''Overrides the auto-constructed URL. Use only if the plugin proxy is not on the default ''
           @ ''port 9443.''),
         ff_placeholder := ''https://<plugin-host>:9443/plugin-manifest.zip''\<rparr>,
       (form_field_of ''register_vasa'' ''Register VASA provider'' BOOL)\<lparr>ff_required := False,
         ff_default := JBool True\<rparr>]\<rparr>"

definition vsphere_action_configure :: action_spec where
  "vsphere_action_configure =
     (action_of CONFIGURE ''configure'' ''Register / refresh VASA provider''
      ''(Re)register or refresh the Everpure VASA Storage Provider on vCenter for vVols.'')\<lparr>as_fields :=
      [(form_field_of ''provider_name'' ''Storage provider name'' STRING)\<lparr>
         ff_required := False,
         ff_placeholder := ''Everpure-VASA-<array>''\<rparr>]\<rparr>"

definition vsphere_action_register_hosts :: action_spec where
  "vsphere_action_register_hosts =
     (action_of HOST_REGISTER ''register_hosts'' ''Register ESXi hosts on array''
      (''Create a FlashArray host group for the ESXi cluster. Initiators are AUTO-DISCOVERED ''
       @ ''from vCenter per transport (iSCSI->IQNs, Fibre Channel->WWNs, NVMe-oF->NQNs); leave ''
       @ ''the address fields blank to use discovery, or supply them explicitly to override.''))\<lparr>as_fields :=
      [(form_field_of ''host_group'' ''Host group name'' STRING)\<lparr>
         ff_required := False,
         ff_help := ''Defaults to the host group set on the hypervisor connection if left blank.''\<rparr>,
       (form_field_of ''protocol'' ''Transport'' ENUM)\<lparr>
         ff_default := JStr ''iscsi'',
         ff_options := Some [''iscsi'', ''fc'', ''nvme-fc'', ''nvme-roce'']\<rparr>,
       (form_field_of ''hosts'' ''ESXi host names (comma-separated)'' STRING)\<lparr>ff_required := False\<rparr>,
       (form_field_of ''iqns'' ''iSCSI IQNs (comma-separated)'' STRING)\<lparr>
         ff_required := False,
         ff_help := ''Optional (auto-discovered from vCenter if left blank).''\<rparr>,
       (form_field_of ''wwns'' ''FC WWNs (comma-separated)'' STRING)\<lparr>
         ff_required := False,
         ff_help := (''Optional (auto-discovered from vCenter if left blank). ESXi HBA port WWNs must already ''
           @ ''be zoned to the array on the SAN.'')\<rparr>,
       (form_field_of ''nqns'' ''NVMe NQNs (comma-separated)'' STRING)\<lparr>
         ff_required := False,
         ff_help := ''Optional (auto-discovered from vCenter if left blank).''\<rparr>]\<rparr>"

definition vsphere_action_setup_connectivity :: action_spec where
  "vsphere_action_setup_connectivity =
     (action_of CONNECTIVITY ''setup_connectivity'' ''Set up host connectivity''
      ''Create FlashArray hosts for the chosen transport (iSCSI/FC/NVMe-oF) and group them.'')\<lparr>as_fields :=
      [(form_field_of ''host_group'' ''Host group name'' STRING)\<lparr>
         ff_required := False,
         ff_help := ''Defaults to the host group set on the hypervisor connection if left blank.''\<rparr>,
       (form_field_of ''protocol'' ''Transport'' ENUM)\<lparr>
         ff_default := JStr ''iscsi'',
         ff_options := Some [''iscsi'', ''fc'', ''nvme-fc'', ''nvme-roce'']\<rparr>,
       form_field_of ''hosts'' ''ESXi host names (comma-separated)'' STRING,
       (form_field_of ''initiators'' ''Initiators per host (host=addr,addr;...)'' TEXT)\<lparr>
         ff_required := False,
         ff_help := ''Optional (auto-discovered from vCenter if left blank). e.g. esx1=iqn.a,iqn.b;esx2=iqn.c''\<rparr>,
       (form_field_of ''iscsi_vmknics'' ''iSCSI port-binding VMkernel NICs'' MULTISELECT)\<lparr>
         ff_required := False,
         ff_options_source := Some ''nics'',
         ff_help := (''VMkernel NICs for iSCSI port binding. Binds the ESXi iSCSI software adapter to these ''
           @ ''VMkernel adapters (esxcli iscsi networkportal). Choices are discovered from vCenter.'')\<rparr>,
       (form_field_of ''fc_hbas'' ''FC HBAs to use'' MULTISELECT)\<lparr>
         ff_required := False,
         ff_options_source := Some ''fc_hbas'',
         ff_help := (''Fibre Channel HBAs on the ESXi hosts to use for this transport. Choices are discovered ''
           @ ''from vCenter.'')\<rparr>,
       (form_field_of ''nvme_adapters'' ''NVMe-oF adapters'' MULTISELECT)\<lparr>
         ff_required := False,
         ff_options_source := Some ''nvme_sources'',
         ff_help := ''NVMe-oF adapters / vmknics to use for NVMe-oF. Choices are discovered from vCenter.''\<rparr>]\<rparr>"

definition vsphere_action_provision_datastore :: action_spec where
  "vsphere_action_provision_datastore =
     (action_of PROVISION_DATASTORE ''provision_datastore'' ''Provision datastore''
      (''Create a FlashArray volume, connect it to the ESXi host group, rescan and create a VMFS ''
       @ ''datastore (or attach an NFS export).''))\<lparr>as_fields :=
      [form_field_of ''name'' ''Datastore name'' STRING,
       (form_field_of ''size'' ''Size'' SIZE)\<lparr>ff_default := JStr ''1T''\<rparr>,
       form_field_of ''host_group'' ''ESXi host group'' STRING,
       (form_field_of ''type'' ''Datastore type'' ENUM)\<lparr>
         ff_default := JStr ''vmfs'',
         ff_options := Some [''vmfs'', ''nfs''],
         ff_help := (''vVol datastore provisioning is not implemented (vVols are deprecated); create the vVol ''
           @ ''datastore in vCenter. Migrating VMs on or off an existing vVol datastore IS supported.'')\<rparr>,
       (form_field_of ''protocol'' ''Transport (block datastores)'' ENUM)\<lparr>
         ff_required := False,
         ff_default := JStr ''iscsi'',
         ff_options := Some [''iscsi'', ''fc'', ''nvme-fc'', ''nvme-roce''],
         ff_help := (''Block transport used to surface the LUN to ESXi. For fc the LUN appears via SAN zoning ''
           @ ''+ HBA rescan (no IP target/iSCSI login).'')\<rparr>,
       (form_field_of ''cluster'' ''vCenter cluster'' STRING)\<lparr>ff_required := False\<rparr>,
       (form_field_of ''nfs_server'' ''NFS server (NFS only)'' STRING)\<lparr>ff_required := False\<rparr>,
       (form_field_of ''nfs_path'' ''NFS export path (NFS only)'' STRING)\<lparr>ff_required := False\<rparr>]\<rparr>"

definition vsphere_action_provision :: action_spec where
  "vsphere_action_provision =
     (action_of PROVISION_VOLUME ''provision'' ''Provision volume''
      ''Create a FlashArray volume and optionally connect it to a host group.'')\<lparr>as_fields :=
      [form_field_of ''name'' ''Volume name'' STRING,
       (form_field_of ''size'' ''Size'' SIZE)\<lparr>ff_default := JStr ''1T''\<rparr>,
       (form_field_of ''host_group'' ''Attach to host group'' STRING)\<lparr>ff_required := False\<rparr>]\<rparr>"

definition vsphere_action_snapshot :: action_spec where
  "vsphere_action_snapshot =
     (action_of SNAPSHOT ''snapshot'' ''Snapshot volume''
      [])\<lparr>as_fields :=
      [form_field_of ''volume'' ''Volume name'' STRING,
       (form_field_of ''suffix'' ''Snapshot suffix'' STRING)\<lparr>ff_required := False\<rparr>]\<rparr>"

definition vsphere_action_clone :: action_spec where
  "vsphere_action_clone =
     (action_of CLONE ''clone'' ''Clone volume''
      [])\<lparr>as_fields :=
      [form_field_of ''source'' ''Source volume'' STRING,
       form_field_of ''dest'' ''New volume name'' STRING,
       (form_field_of ''host_group'' ''Attach clone to host group'' STRING)\<lparr>ff_required := False\<rparr>]\<rparr>"

definition vsphere_action_resize :: action_spec where
  "vsphere_action_resize =
     (action_of RESIZE ''resize'' ''Resize datastore / volume''
      ''Extend the FlashArray volume and grow the backing datastore.'')\<lparr>as_fields :=
      [form_field_of ''volume'' ''Volume name'' STRING,
       form_field_of ''size'' ''New size'' SIZE,
       (form_field_of ''datastore'' ''Datastore to grow'' STRING)\<lparr>ff_required := False\<rparr>]\<rparr>"

definition vsphere_action_set_qos :: action_spec where
  "vsphere_action_set_qos =
     (action_of QOS ''set_qos'' ''Set volume QoS''
      [])\<lparr>as_fields :=
      [form_field_of ''volume'' ''Volume name'' STRING,
       (form_field_of ''iops_limit'' ''IOPS limit'' INT_FIELD)\<lparr>ff_required := False\<rparr>,
       (form_field_of ''bw_limit'' ''Bandwidth limit (bytes/s)'' INT_FIELD)\<lparr>ff_required := False\<rparr>]\<rparr>"

definition vsphere_action_configure_replication :: action_spec where
  "vsphere_action_configure_replication =
     (action_of REPLICATION ''configure_replication'' ''Configure replication''
      ''Create a FlashArray protection group for the listed volumes.'')\<lparr>as_fields :=
      [form_field_of ''name'' ''Protection group name'' STRING,
       form_field_of ''volumes'' ''Volumes (comma-separated)'' STRING]\<rparr>"

definition vsphere_action_health_check :: action_spec where
  "vsphere_action_health_check =
     (action_of HEALTH ''health_check'' ''Health check''
      [])\<lparr>as_long_running := False\<rparr>"

definition vsphere_action_teardown :: action_spec where
  "vsphere_action_teardown =
     (action_of REMOVE ''teardown'' ''Remove integration''
      ''Unregister the VASA provider and the remote plugin from vCenter.'')\<lparr>as_destructive := True\<rparr>"

definition vsphere_actions :: "action_spec list" where
  "vsphere_actions =
    [vsphere_action_deploy,
     vsphere_action_configure,
     vsphere_action_register_hosts,
     vsphere_action_setup_connectivity,
     vsphere_action_provision_datastore,
     vsphere_action_provision,
     vsphere_action_snapshot,
     vsphere_action_clone,
     vsphere_action_resize,
     vsphere_action_set_qos,
     vsphere_action_configure_replication,
     vsphere_action_health_check,
     vsphere_action_teardown]"

definition vsphere_wizard_steps :: "string list" where
  "vsphere_wizard_steps = filter (\<lambda>step. step \<in> as_id ` set vsphere_actions)
     [''deploy'', ''configure'', ''register_hosts'', ''setup_connectivity'', ''provision_datastore'']"

definition vsphere_class :: connector_class where
  "vsphere_class = base_class\<lparr>
     cls_key := ''vsphere'',
     cls_name := ''VMware vSphere'',
     cls_description := (''Everpure Data integration for VMware vSphere: registers the vSphere Client Remote Plugin ''
        @ ''and the VASA Provider (vVols), and manages VMFS/NFS/vVol datastores, FlashArray hosts, ''
        @ ''volumes, snapshots, clones, QoS and replication.''),
     CAPABILITIES := [DEPLOY_PLUGIN, CONFIGURE, HOST_REGISTER, CONNECTIVITY, PROVISION_DATASTORE, PROVISION_VOLUME, SNAPSHOT, CLONE, RESIZE, QOS, REPLICATION, HEALTH, REMOVE, VM_INVENTORY, VM_LIFECYCLE, MIGRATE],
     SUPPORTED_PROTOCOLS := [ISCSI, FC, NVME_FC, NVME_ROCE],
     cls_maturity := ''ga'',
     target_schema := vsphere_target_schema,
     action_schemas := vsphere_actions,
     wizard_steps := vsphere_wizard_steps\<rparr>"

definition vsphere_routes :: "(string \<times> string) list" where
  "vsphere_routes = [(''provision_datastore'', ''provision_datastore'')]"

definition vsphere_sig_deploy_integration :: signature where
  "vsphere_sig_deploy_integration = Sig [] [''phif_host'', ''plugin_url'', ''register_vasa'', ''force''] True"

definition vsphere_sig_configure :: signature where
  "vsphere_sig_configure = Sig [] [''provider_name''] True"

definition vsphere_sig_provision :: signature where
  "vsphere_sig_provision = Sig [''name''] [''size'', ''host_group''] True"

definition vsphere_sig_snapshot :: signature where
  "vsphere_sig_snapshot = Sig [''volume''] [''suffix''] True"

definition vsphere_sig_clone :: signature where
  "vsphere_sig_clone = Sig [''source'', ''dest''] [''host_group''] True"

definition vsphere_sig_resize :: signature where
  "vsphere_sig_resize = Sig [''volume'', ''size''] [''datastore''] True"

definition vsphere_sig_register_hosts :: signature where
  "vsphere_sig_register_hosts = Sig [] [''host_group'', ''protocol'', ''hosts'', ''iqns'', ''wwns'', ''nqns'', ''fa_api_token''] True"

definition vsphere_sig_setup_connectivity :: signature where
  "vsphere_sig_setup_connectivity = Sig [] [''host_group'', ''protocol'', ''hosts'', ''initiators'', ''cluster'', ''iscsi_nics'', ''iscsi_vmknics'', ''fc_hbas'', ''nvme_sources'', ''nvme_adapters''] True"

definition vsphere_sig_set_qos :: signature where
  "vsphere_sig_set_qos = Sig [''volume''] [''iops_limit'', ''bw_limit''] True"

definition vsphere_sig_configure_replication :: signature where
  "vsphere_sig_configure_replication = Sig [''name''] [''volumes''] True"

definition vsphere_sig_health_check :: signature where
  "vsphere_sig_health_check = Sig [] [] True"

definition vsphere_sig_teardown :: signature where
  "vsphere_sig_teardown = Sig [] [''phif_host''] True"

definition vsphere_sig_provision_datastore :: signature where
  "vsphere_sig_provision_datastore = Sig [''name''] [''size'', ''host_group'', ''type'', ''protocol'', ''cluster'', ''nfs_server'', ''nfs_path''] True"

definition vsphere_connector :: connector_declaration where
  "vsphere_connector =
     \<lparr>cd_class = vsphere_class, cd_routes = vsphere_routes,
      cd_methods = [(''deploy_integration'', vsphere_sig_deploy_integration),
        (''configure'', vsphere_sig_configure),
        (''provision'', vsphere_sig_provision),
        (''snapshot'', vsphere_sig_snapshot),
        (''clone'', vsphere_sig_clone),
        (''resize'', vsphere_sig_resize),
        (''register_hosts'', vsphere_sig_register_hosts),
        (''setup_connectivity'', vsphere_sig_setup_connectivity),
        (''set_qos'', vsphere_sig_set_qos),
        (''configure_replication'', vsphere_sig_configure_replication),
        (''health_check'', vsphere_sig_health_check),
        (''teardown'', vsphere_sig_teardown),
        (''provision_datastore'', vsphere_sig_provision_datastore)]\<rparr>"

end
