(* ===== verification/Forms_Hpevme.thy ===== *)
theory Forms_Hpevme
  imports Connector_Forms
begin

text \<open>
  What the HPE VM Essentials connector declares to the user interface, \<^verbatim>\<open>connectors/hpevme/connector.py\<close>: the form
  of its target, the actions with their forms, the order of the wizard, and the signatures of the
  methods its dispatch reaches.
\<close>

definition hpevme_target_schema :: "form_field list" where
  "hpevme_target_schema =
    [(form_field_of ''vme_manager_url'' ''VME Manager URL'' STRING)\<lparr>
       ff_help := ''Base URL of the HPE VME Manager (Morpheus) appliance.'',
       ff_placeholder := ''https://vme-mgr.example.local''\<rparr>,
     (form_field_of ''username'' ''Username'' STRING)\<lparr>ff_default := JStr ''admin''\<rparr>,
     form_field_of ''password'' ''Password'' SECRET,
     (form_field_of ''protocol'' ''Storage protocol'' ENUM)\<lparr>
       ff_default := JStr ''iscsi'',
       ff_options := Some [''iscsi'', ''fc'', ''nvme-tcp'', ''nvme-fc'', ''nfs''],
       ff_help := (''Transport used to present FlashArray volumes to VME KVM hosts. iSCSI and FC are SCSI ''
         @ ''(dm-multipath); nvme-tcp / nvme-fc use native NVMe multipath; nfs presents a FlashArray ''
         @ ''File NFS datastore for QCOW2 VM images (no block host registration / multipath).'')\<rparr>,
     (form_field_of ''host_group'' ''Default host group'' STRING)\<lparr>
       ff_required := False,
       ff_help := ''FlashArray host group for the VME KVM nodes (optional).''\<rparr>,
     (form_field_of ''host_wwns'' ''KVM host WWNs (comma-separated)'' STRING)\<lparr>
       ff_required := False,
       ff_help := (''Fibre Channel HBA port WWNs of the VME KVM host(s). Only used when protocol=fc. Auto-discovered ''
         @ ''from the KVM host if left blank.'')\<rparr>,
     (form_field_of ''kvm_ssh_username'' ''KVM host SSH username'' STRING)\<lparr>
       ff_required := False,
       ff_help := (''SSH user for the VME KVM hosts (used for NIC/initiator discovery + host-side setup). ''
         @ ''The VME Manager login is NOT the KVM-host SSH login. Defaults to the Manager username ''
         @ ''if blank. IMPORTANT: if this user is not root, it must have passwordless sudo (NOPASSWD) ''
         @ ''configured on the KVM hosts '' @ em_dash
         @ '' host storage commands (iscsiadm, multipath, nvme) require root.'')\<rparr>,
     (form_field_of ''kvm_ssh_password'' ''KVM host SSH password'' SECRET)\<lparr>
       ff_required := False,
       ff_help := ''SSH password for the VME KVM hosts. Defaults to the VME Manager password if blank.''\<rparr>,
     (form_field_of ''kvm_ssh_key'' ''KVM host SSH private key'' TEXT)\<lparr>
       ff_required := False,
       ff_help := ''SSH private key for the VME KVM hosts (alternative to a password).''\<rparr>,
     (form_field_of ''plugin_jar'' ''Everpure plugin JAR path'' STRING)\<lparr>
       ff_required := False,
       ff_help := (''Override path to the Everpure storage plugin JAR. Normally built into the backend image ''
         @ ''automatically and uploaded to the VME Manager by the deploy action; set this only to ''
         @ ''use a custom-built JAR.'')\<rparr>]"

definition hpevme_action_register_hosts :: action_spec where
  "hpevme_action_register_hosts =
     (action_of HOST_REGISTER ''register_hosts'' ''Register VME hosts on array''
      (''Create a FlashArray host group from the VME KVM host initiators so per-disk volumes ''
       @ ''can be presented to the nodes.''))\<lparr>as_fields :=
      [form_field_of ''host_group'' ''Host group name'' STRING,
       (form_field_of ''iqns'' ''Host IQNs (comma-separated)'' STRING)\<lparr>
         ff_required := False,
         ff_help := ''For iscsi. Auto-discovered from the KVM host if left blank.''\<rparr>,
       (form_field_of ''wwns'' ''Host WWNs (comma-separated)'' STRING)\<lparr>
         ff_required := False,
         ff_help := ''For fc. Auto-discovered from the KVM host if left blank.''\<rparr>,
       (form_field_of ''nqns'' ''Host NQNs (comma-separated)'' STRING)\<lparr>
         ff_required := False,
         ff_help := ''For nvme-tcp. Auto-discovered from the KVM host if left blank.''\<rparr>]\<rparr>"

definition hpevme_action_setup_connectivity :: action_spec where
  "hpevme_action_setup_connectivity =
     (action_of CONNECTIVITY ''setup_connectivity'' ''Set up connectivity''
      (''Confirm/prepare iSCSI/FC/NVMe-TCP transport + multipath between VME KVM hosts and the ''
       @ ''FlashArray.''))\<lparr>as_fields :=
      [(form_field_of ''host_group'' ''Host group name'' STRING)\<lparr>ff_required := False\<rparr>,
       (form_field_of ''iscsi_nics'' ''iSCSI NICs'' MULTISELECT)\<lparr>
         ff_required := False,
         ff_options_source := Some ''nics'',
         ff_help := ''NICs to bind iSCSI ifaces to (protocol=iscsi). Discovered from the KVM host.''\<rparr>,
       (form_field_of ''nvme_sources'' ''NVMe-TCP source interfaces'' MULTISELECT)\<lparr>
         ff_required := False,
         ff_options_source := Some ''nvme_sources'',
         ff_help := ''Host source interfaces/addresses for NVMe-TCP (host-traddr; protocol=nvme-tcp).''\<rparr>,
       (form_field_of ''nvme_options'' ''NVMe connect options'' STRING)\<lparr>
         ff_required := False,
         ff_help := (''Extra options appended to `nvme connect` (e.g. '' @ [CHR 0x27] @ ''-l 600''
           @ [CHR 0x27] @ ''). Used when protocol=nvme-tcp.'')\<rparr>,
       (form_field_of ''fc_hbas'' ''FC HBAs'' MULTISELECT)\<lparr>
         ff_required := False,
         ff_options_source := Some ''fc_hbas'',
         ff_help := ''Fibre Channel HBA port WWPNs to use for the sessions (protocol=fc).''\<rparr>]\<rparr>"

definition hpevme_action_deploy :: action_spec where
  "hpevme_action_deploy =
     (action_of DEPLOY_PLUGIN ''deploy'' ''Upload Everpure plugin to VME''
      (''Upload the native Everpure FlashArray storage plugin JAR to the VME Manager (Administration ''
       @ ''> Integrations > Plugins). Makes the '' @ [CHR 0x27] @ ''Everpure FlashArray''
       @ [CHR 0x27] @ '' storage-server type available.''))\<lparr>as_fields :=
      [(form_field_of ''plugin_jar'' ''Plugin JAR path'' STRING)\<lparr>
         ff_required := False,
         ff_help := ''Override the built plugin JAR path (files/morpheus-plugin/build/libs/...-all.jar).''\<rparr>,
       (form_field_of ''force'' ''Force re-upload (upgrade)'' BOOL)\<lparr>
         ff_required := False,
         ff_default := JBool False,
         ff_help := (''Re-upload the JAR even if the plugin is already installed, replacing the running plugin ''
           @ ''with this build. Use after rebuilding the plugin.'')\<rparr>]\<rparr>"

definition hpevme_action_configure :: action_spec where
  "hpevme_action_configure =
     (action_of CONFIGURE ''configure'' ''Register FlashArray storage server''
      (''Register the FlashArray as a VME storage server of the Everpure plugin type (endpoint ''
       @ ''/ token / host group / protocol), so VME can provision per-VM-disk volumes on it.''))\<lparr>as_fields :=
      [(form_field_of ''host_group'' ''Host group name'' STRING)\<lparr>ff_required := False\<rparr>]\<rparr>"

definition hpevme_action_provision :: action_spec where
  "hpevme_action_provision =
     (action_of PROVISION_VOLUME ''provision'' ''Provision FA volume (direct array)''
      (''Create a dedicated FlashArray volume and connect it to the VME host group (array-side). ''
       @ ''The guest attach is performed by VME via the Everpure plugin when the disk is added ''
       @ ''to a VM; this action is for array-side management outside VME'' @ [CHR 0x27]
       @ ''s provisioning flow.''))\<lparr>as_fields :=
      [form_field_of ''name'' ''Volume name'' STRING,
       (form_field_of ''size'' ''Size'' SIZE)\<lparr>ff_default := JStr ''1T''\<rparr>,
       (form_field_of ''host_group'' ''Host group'' STRING)\<lparr>
         ff_required := False,
         ff_help := (''Defaults to the connection'' @ [CHR 0x27] @ ''s host_group.'')\<rparr>]\<rparr>"

definition hpevme_action_snapshot :: action_spec where
  "hpevme_action_snapshot =
     (action_of SNAPSHOT ''snapshot'' ''Snapshot VM disk''
      ''Array-based snapshot of the FlashArray volume backing a VM disk.'')\<lparr>as_fields :=
      [form_field_of ''volume'' ''Volume name'' STRING,
       (form_field_of ''suffix'' ''Snapshot suffix'' STRING)\<lparr>ff_required := False\<rparr>]\<rparr>"

definition hpevme_action_clone :: action_spec where
  "hpevme_action_clone =
     (action_of CLONE ''clone'' ''Clone VM disk''
      ''Array-based clone of a FlashArray volume into a new VM disk.'')\<lparr>as_fields :=
      [form_field_of ''source'' ''Source volume'' STRING,
       form_field_of ''dest'' ''New volume name'' STRING]\<rparr>"

definition hpevme_action_resize :: action_spec where
  "hpevme_action_resize =
     (action_of RESIZE ''resize'' ''Resize VM disk''
      ''Extend the FlashArray volume backing a VM disk.'')\<lparr>as_fields :=
      [form_field_of ''volume'' ''Volume name'' STRING,
       form_field_of ''size'' ''New size'' SIZE]\<rparr>"

definition hpevme_action_health_check :: action_spec where
  "hpevme_action_health_check =
     (action_of HEALTH ''health_check'' ''Health check''
      [])\<lparr>as_long_running := False\<rparr>"

definition hpevme_action_teardown :: action_spec where
  "hpevme_action_teardown =
     (action_of REMOVE ''teardown'' ''Remove integration''
      [])\<lparr>as_destructive := True\<rparr>"

definition hpevme_action_assess_cluster :: action_spec where
  "hpevme_action_assess_cluster =
     (action_of RECONCILE_CLUSTER ''assess_cluster'' ''Check for cluster changes''
      (''READ-ONLY: compare current VME cluster membership against the FlashArray host group, ''
       @ ''and score new KVM nodes for deploy-readiness.''))\<lparr>as_long_running := False\<rparr>"

definition hpevme_action_reconcile_cluster :: action_spec where
  "hpevme_action_reconcile_cluster =
     (action_of RECONCILE_CLUSTER ''reconcile_cluster'' ''Deploy to new hosts''
      (''Configure storage on newly-added (ready) VME KVM nodes; optionally remove FlashArray ''
       @ ''hosts for nodes that have left the cluster.''))\<lparr>as_fields :=
      [(form_field_of ''apply_removals'' ''Also remove departed hosts'' BOOL)\<lparr>
         ff_required := False,
         ff_default := JBool False,
         ff_help := ''Remove FA hosts/group members for nodes that have left the cluster (default: flag only).''\<rparr>],
      as_destructive := True\<rparr>"

definition hpevme_action_provision_nfs_datastore :: action_spec where
  "hpevme_action_provision_nfs_datastore =
     (action_of PROVISION_VOLUME ''provision_nfs_datastore'' ''Provision NFS datastore (VM images)''
      (''Create a FlashArray File system + NFS export, mount it on the VME KVM hosts, and register ''
       @ ''it as a VME '' @ [CHR 0x27] @ ''nfs'' @ [CHR 0x27]
       @ '' datastore for QCOW2 VM images (protocol=nfs). NOT hardware-validated.''))\<lparr>as_fields :=
      [(form_field_of ''name'' ''Datastore / file system name'' STRING)\<lparr>ff_placeholder := ''vme-nfs''\<rparr>,
       (form_field_of ''export_path'' ''NFS export path'' STRING)\<lparr>
         ff_required := False,
         ff_default := JStr ''/'',
         ff_help := (''Export path on the file system (default '' @ [CHR 0x27] @ ''/'' @ [CHR 0x27] @ '').'')\<rparr>,
       (form_field_of ''mountpoint'' ''KVM host mount point'' STRING)\<lparr>
         ff_required := False,
         ff_help := ''OS mount point on the KVM hosts (default /mnt/<name>).''\<rparr>]\<rparr>"

definition hpevme_action_setup_iso_storage :: action_spec where
  "hpevme_action_setup_iso_storage =
     (action_of PROVISION_VOLUME ''setup_iso_storage'' ''Set up ISO storage (kernel NFS workaround)''
      (''Create a FlashArray File NFS export for ISOs, mount it with the OS kernel NFS client ''
       @ ''on the VME MANAGER host (privileged source ports the array allows -- VME''
       @ [CHR 0x27]
       @ ''s Java NFS client uses high ports the array blocks), and register it as a VME ''
       @ [CHR 0x27] @ ''directory'' @ [CHR 0x27] @ '' (local) datastore.''))\<lparr>as_fields :=
      [(form_field_of ''name'' ''ISO file system name'' STRING)\<lparr>ff_placeholder := ''vme-iso''\<rparr>,
       (form_field_of ''mountpoint'' ''Manager-host mount point'' STRING)\<lparr>
         ff_required := False,
         ff_help := ''OS mount point on the VME Manager host (default /mnt/<name>).''\<rparr>,
       (form_field_of ''export_path'' ''NFS export path'' STRING)\<lparr>ff_required := False,
         ff_default := JStr ''/''\<rparr>]\<rparr>"

definition hpevme_action_teardown_iso_storage :: action_spec where
  "hpevme_action_teardown_iso_storage =
     (action_of REMOVE ''teardown_iso_storage'' ''Remove ISO storage''
      (''Unmount the ISO export on the VME Manager host, remove its fstab entry, and delete the ''
       @ ''NFS export + FlashArray file system.''))\<lparr>as_fields :=
      [form_field_of ''name'' ''ISO file system name'' STRING,
       (form_field_of ''mountpoint'' ''Manager-host mount point'' STRING)\<lparr>ff_required := False\<rparr>,
       (form_field_of ''eradicate'' ''Eradicate file system'' BOOL)\<lparr>ff_required := False,
         ff_default := JBool False\<rparr>],
      as_destructive := True\<rparr>"

definition hpevme_actions :: "action_spec list" where
  "hpevme_actions =
    [hpevme_action_register_hosts,
     hpevme_action_setup_connectivity,
     hpevme_action_deploy,
     hpevme_action_configure,
     hpevme_action_provision,
     hpevme_action_snapshot,
     hpevme_action_clone,
     hpevme_action_resize,
     hpevme_action_health_check,
     hpevme_action_teardown,
     hpevme_action_assess_cluster,
     hpevme_action_reconcile_cluster,
     hpevme_action_provision_nfs_datastore,
     hpevme_action_setup_iso_storage,
     hpevme_action_teardown_iso_storage]"

definition hpevme_wizard_steps :: "string list" where
  "hpevme_wizard_steps = [''deploy'', ''configure'', ''register_hosts'', ''setup_connectivity'']"

definition hpevme_class :: connector_class where
  "hpevme_class = base_class\<lparr>
     cls_key := ''hpevme'',
     cls_name := ''HPE VM Essentials'',
     cls_description := (''HPE VM Essentials (VME) -- KVM/libvirt hypervisor managed by the VME Manager (Morpheus-lineage ''
        @ ''REST API). Primary model: one FlashArray volume per VM disk, presented directly to the ''
        @ ''VM as a raw multipathed block device, with array-based snapshots/clones/resize (Everpure ''
        @ ''CSI/Cinder/Proxmox-style). Per-disk direct raw-block attach is implemented and validated ''
        @ ''end-to-end (provision, image deploy, clone-from-VM, snapshot create/revert/delete) via ''
        @ ''the compiled morpheus-plugin, with a datastore fallback.''),
     CAPABILITIES := [HOST_REGISTER, CONNECTIVITY, DEPLOY_PLUGIN, CONFIGURE, PROVISION_VOLUME, SNAPSHOT, CLONE, RESIZE, HEALTH, REMOVE, RECONCILE_CLUSTER, VM_INVENTORY, VM_LIFECYCLE, MIGRATE],
     SUPPORTED_PROTOCOLS := [ISCSI, FC, NVME_TCP, NVME_FC, NFS],
     cls_maturity := ''ga'',
     target_schema := hpevme_target_schema,
     action_schemas := hpevme_actions,
     wizard_steps := hpevme_wizard_steps\<rparr>"

definition hpevme_routes :: "(string \<times> string) list" where
  "hpevme_routes = [(''provision_nfs_datastore'', ''provision_nfs_datastore''), (''setup_iso_storage'', ''setup_iso_storage''), (''teardown_iso_storage'', ''teardown_iso_storage'')]"

definition hpevme_sig_deploy_integration :: signature where
  "hpevme_sig_deploy_integration = Sig [] [''plugin_jar'', ''force''] True"

definition hpevme_sig_configure :: signature where
  "hpevme_sig_configure = Sig [] [''host_group'', ''pure_endpoint'', ''pure_api_token''] True"

definition hpevme_sig_provision :: signature where
  "hpevme_sig_provision = Sig [''name''] [''size'', ''host_group''] True"

definition hpevme_sig_snapshot :: signature where
  "hpevme_sig_snapshot = Sig [''volume''] [''suffix''] True"

definition hpevme_sig_clone :: signature where
  "hpevme_sig_clone = Sig [''source'', ''dest''] [] True"

definition hpevme_sig_resize :: signature where
  "hpevme_sig_resize = Sig [''volume'', ''size''] [] True"

definition hpevme_sig_register_hosts :: signature where
  "hpevme_sig_register_hosts = Sig [] [''host_group'', ''iqns'', ''wwns'', ''nqns'', ''nodes''] True"

definition hpevme_sig_setup_connectivity :: signature where
  "hpevme_sig_setup_connectivity = Sig [] [''host_group'', ''iscsi_nics'', ''nvme_sources'', ''nvme_options'', ''fc_hbas'', ''nodes''] True"

definition hpevme_sig_health_check :: signature where
  "hpevme_sig_health_check = Sig [] [] True"

definition hpevme_sig_teardown :: signature where
  "hpevme_sig_teardown = Sig [] [''volume'', ''host_group''] True"

definition hpevme_sig_assess_cluster :: signature where
  "hpevme_sig_assess_cluster = Sig [] [] True"

definition hpevme_sig_reconcile_cluster :: signature where
  "hpevme_sig_reconcile_cluster = Sig [] [''apply_removals''] True"

definition hpevme_sig_provision_nfs_datastore :: signature where
  "hpevme_sig_provision_nfs_datastore = Sig [''name''] [''export_path'', ''mountpoint''] True"

definition hpevme_sig_setup_iso_storage :: signature where
  "hpevme_sig_setup_iso_storage = Sig [''name''] [''mountpoint'', ''export_path''] True"

definition hpevme_sig_teardown_iso_storage :: signature where
  "hpevme_sig_teardown_iso_storage = Sig [''name''] [''mountpoint'', ''eradicate''] True"

definition hpevme_connector :: connector_declaration where
  "hpevme_connector =
     \<lparr>cd_class = hpevme_class, cd_routes = hpevme_routes,
      cd_methods = [(''deploy_integration'', hpevme_sig_deploy_integration),
        (''configure'', hpevme_sig_configure),
        (''provision'', hpevme_sig_provision),
        (''snapshot'', hpevme_sig_snapshot),
        (''clone'', hpevme_sig_clone),
        (''resize'', hpevme_sig_resize),
        (''register_hosts'', hpevme_sig_register_hosts),
        (''setup_connectivity'', hpevme_sig_setup_connectivity),
        (''health_check'', hpevme_sig_health_check),
        (''teardown'', hpevme_sig_teardown),
        (''assess_cluster'', hpevme_sig_assess_cluster),
        (''reconcile_cluster'', hpevme_sig_reconcile_cluster),
        (''provision_nfs_datastore'', hpevme_sig_provision_nfs_datastore),
        (''setup_iso_storage'', hpevme_sig_setup_iso_storage),
        (''teardown_iso_storage'', hpevme_sig_teardown_iso_storage)]\<rparr>"

end
