(* ===== verification/Forms_Xcpng.thy ===== *)
theory Forms_Xcpng
  imports Connector_Forms
begin

text \<open>
  What the XCP-ng connector declares to the user interface, \<^verbatim>\<open>connectors/xcpng/connector.py\<close>: the form
  of its target, the actions with their forms, the order of the wizard, and the signatures of the
  methods its dispatch reaches.
\<close>

definition xcpng_target_schema :: "form_field list" where
  "xcpng_target_schema =
    [(form_field_of ''pool_master_host'' ''Pool master host / IP (SSH)'' STRING)\<lparr>
       ff_help := ''The XCP-ng pool master we SSH to to drive `xe`.'',
       ff_placeholder := ''xcp-master.example.local''\<rparr>,
     (form_field_of ''ssh_user'' ''SSH user'' STRING)\<lparr>ff_default := JStr ''root''\<rparr>,
     (form_field_of ''ssh_password'' ''SSH password'' SECRET)\<lparr>
       ff_required := False,
       ff_help := ''Provide either an SSH password or an SSH private key.''\<rparr>,
     (form_field_of ''ssh_key'' ''SSH private key'' TEXT)\<lparr>
       ff_required := False,
       ff_help := ''PEM private key; used if no password is supplied.''\<rparr>,
     (form_field_of ''protocol'' ''Storage protocol'' ENUM)\<lparr>
       ff_default := JStr ''iscsi'',
       ff_options := Some [''iscsi'', ''nvme-tcp'', ''fc'', ''nfs'']\<rparr>,
     (form_field_of ''sr_name'' ''SR name-label'' STRING)\<lparr>ff_default := JStr ''purefa''\<rparr>,
     (form_field_of ''host_group'' ''FlashArray host group'' STRING)\<lparr>
       ff_help := (''Host group on the array holding this pool'' @ [CHR 0x27] @ ''s hosts.'')\<rparr>,
     (form_field_of ''host_wwns'' ''Pool host WWNs (Fibre Channel, comma-separated)'' STRING)\<lparr>
       ff_required := False,
       ff_help := (''FC HBA port WWNs for the pool hosts (auto-discovered from the pool master if left blank). ''
         @ ''Used when protocol=fc to register hosts on the array.'')\<rparr>]"

definition xcpng_action_deploy :: action_spec where
  "xcpng_action_deploy =
     (action_of DEPLOY_PLUGIN ''deploy'' ''Deploy SMAPIv3 purefa plugin + create SR''
      (''Push the org.xen.xapi.storage.purefa SMAPIv3 plugin to every pool host, (re)enumerate ''
       @ ''it, and `xe sr-create type=purefa`. The FlashArray endpoint and API token are taken ''
       @ ''from the associated array on this hypervisor (not operator-entered).''))\<lparr>as_fields :=
      [(form_field_of ''sr_name'' ''SR name-label'' STRING)\<lparr>ff_required := False,
         ff_default := JStr ''purefa''\<rparr>,
       (form_field_of ''host_group'' ''FlashArray host group'' STRING)\<lparr>ff_required := False\<rparr>,
       (form_field_of ''clobber'' ''Clobber existing SR'' BOOL)\<lparr>
         ff_required := False,
         ff_default := JBool False,
         ff_help := (''If an SR with this name already exists, forget it (unplug PBDs + sr-forget) before recreating. ''
           @ ''Use to clean up a half-created/broken SR. This does NOT eradicate the array volumes.'')\<rparr>,
       (form_field_of ''eradicate'' ''Eradicate volumes on delete'' BOOL)\<lparr>
         ff_required := False,
         ff_default := JBool False,
         ff_help := (''When a VDI/VM disk is deleted, hard-delete (eradicate) its FlashArray volume immediately ''
           @ ''instead of leaving it in pending-eradication for 24h. Off = recoverable for 24h.'')\<rparr>]\<rparr>"

definition xcpng_action_register_hosts :: action_spec where
  "xcpng_action_register_hosts =
     (action_of HOST_REGISTER ''register_hosts'' ''Register pool hosts on array''
      (''Read each pool host'' @ [CHR 0x27]
       @ ''s IQN/NQN/WWN via `xe` and build a FlashArray host + host group.''))\<lparr>as_fields :=
      [form_field_of ''host_group'' ''Host group name'' STRING,
       (form_field_of ''iqns'' ''Host IQNs (comma-separated)'' STRING)\<lparr>
         ff_required := False,
         ff_help := ''(auto-discovered from the pool master if left blank)''\<rparr>,
       (form_field_of ''nqns'' ''Host NQNs (comma-separated)'' STRING)\<lparr>
         ff_required := False,
         ff_help := ''(auto-discovered from the pool master if left blank)''\<rparr>,
       (form_field_of ''wwns'' ''Host WWNs (comma-separated)'' STRING)\<lparr>
         ff_required := False,
         ff_help := ''(auto-discovered from the pool master if left blank)''\<rparr>]\<rparr>"

definition xcpng_action_setup_connectivity :: action_spec where
  "xcpng_action_setup_connectivity =
     (action_of CONNECTIVITY ''setup_connectivity'' ''Configure connectivity + multipath''
      (''Enable pool multipathing, install the Everpure ALUA multipath stanza, and connect the ''
       @ ''transport. For iSCSI/NVMe-TCP this logs in over IP; for Fibre Channel there is no login ''
       @ ''-- SAN zoning is a prerequisite and we only run an FC/SCSI rescan.''))\<lparr>as_fields :=
      [(form_field_of ''portals'' ''Array portal IPs (comma-separated)'' STRING)\<lparr>
         ff_required := False,
         ff_options_source := Some ''array_portals'',
         ff_help := (''Auto-loaded from the associated FlashArray'' @ [CHR 0x27]
           @ ''s data interfaces for the chosen protocol.''),
         ff_placeholder := ''auto-discovered from the array''\<rparr>,
       (form_field_of ''target_iqn'' ''Target IQN (iSCSI)'' STRING)\<lparr>
         ff_required := False,
         ff_options_source := Some ''array_target_iqn'',
         ff_help := (''Auto-loaded from the array'' @ [CHR 0x27] @ ''s iSCSI target.'')\<rparr>,
       (form_field_of ''subsystem_nqn'' ''Subsystem NQN (NVMe-TCP)'' STRING)\<lparr>
         ff_required := False,
         ff_options_source := Some ''array_target_nqn'',
         ff_help := (''Auto-loaded from the array'' @ [CHR 0x27] @ ''s NVMe subsystem.'')\<rparr>,
       (form_field_of ''iscsi_nics'' ''iSCSI bind NICs'' MULTISELECT)\<lparr>
         ff_required := False,
         ff_options_source := Some ''nics'',
         ff_help := ''Local NICs to bind the iSCSI ifaces to (pins the iSCSI path to these interfaces).''\<rparr>,
       (form_field_of ''nvme_sources'' ''NVMe-TCP host sources'' MULTISELECT)\<lparr>
         ff_required := False,
         ff_options_source := Some ''nvme_sources'',
         ff_help := ''Local source addresses/interfaces for the NVMe-TCP connection (host-traddr).''\<rparr>,
       (form_field_of ''nvme_options'' ''NVMe connect options'' STRING)\<lparr>
         ff_required := False,
         ff_help := (''Extra `nvme connect` options persisted with the binding (e.g. '' @ [CHR 0x27]
           @ ''ctrl-loss-tmo=600'' @ [CHR 0x27] @ '').'')\<rparr>,
       (form_field_of ''fc_hbas'' ''Fibre Channel HBAs'' MULTISELECT)\<lparr>
         ff_required := False,
         ff_options_source := Some ''fc_hbas'',
         ff_help := ''FC HBA WWPNs to pin the storage path to (zoning is external/switch-side).''\<rparr>]\<rparr>"

definition xcpng_action_provision :: action_spec where
  "xcpng_action_provision =
     (action_of PROVISION_VOLUME ''provision'' ''Provision VDI (FA volume)''
      (''Create a new VDI on the purefa SR -- backed by a dedicated FlashArray volume mapped ''
       @ ''directly to the VM.''))\<lparr>as_fields :=
      [form_field_of ''name'' ''VDI / volume name'' STRING,
       (form_field_of ''size'' ''Size'' SIZE)\<lparr>ff_default := JStr ''100G''\<rparr>,
       (form_field_of ''host_group'' ''Attach to host group'' STRING)\<lparr>ff_required := False\<rparr>,
       (form_field_of ''sr_name'' ''Target SR name-label'' STRING)\<lparr>ff_required := False\<rparr>]\<rparr>"

definition xcpng_action_snapshot :: action_spec where
  "xcpng_action_snapshot =
     (action_of SNAPSHOT ''snapshot'' ''Snapshot VDI (array snapshot)''
      ''Array snapshot via the purefa SMAPIv3 plugin (`xe vdi-snapshot` / ctx.array).'')\<lparr>as_fields :=
      [form_field_of ''volume'' ''VDI / volume name'' STRING,
       (form_field_of ''vdi_uuid'' ''VDI UUID'' STRING)\<lparr>ff_required := False\<rparr>]\<rparr>"

definition xcpng_action_clone :: action_spec where
  "xcpng_action_clone =
     (action_of CLONE ''clone'' ''Clone VDI (array copy)''
      ''Array volume copy via the purefa SMAPIv3 plugin (`xe vdi-clone` / ctx.array).'')\<lparr>as_fields :=
      [form_field_of ''source'' ''Source VDI / volume'' STRING,
       form_field_of ''dest'' ''New volume name'' STRING,
       (form_field_of ''vdi_uuid'' ''Source VDI UUID'' STRING)\<lparr>ff_required := False\<rparr>]\<rparr>"

definition xcpng_action_resize :: action_spec where
  "xcpng_action_resize =
     (action_of RESIZE ''resize'' ''Resize VDI''
      ''Extend the FlashArray volume then `xe vdi-resize`.'')\<lparr>as_fields :=
      [form_field_of ''volume'' ''VDI / volume name'' STRING,
       form_field_of ''size'' ''New size'' SIZE,
       (form_field_of ''vdi_uuid'' ''VDI UUID'' STRING)\<lparr>ff_required := False\<rparr>]\<rparr>"

definition xcpng_action_health_check :: action_spec where
  "xcpng_action_health_check =
     (action_of HEALTH ''health_check'' ''Health check''
      ''`xe sr-list` + `multipath -ll`.'')\<lparr>as_long_running := False\<rparr>"

definition xcpng_action_teardown :: action_spec where
  "xcpng_action_teardown =
     (action_of REMOVE ''teardown'' ''Remove integration''
      ''`xe pbd-unplug` / `xe sr-forget` + remove the SMAPIv3 plugin from every pool host.'')\<lparr>as_destructive := True\<rparr>"

definition xcpng_action_assess_cluster :: action_spec where
  "xcpng_action_assess_cluster =
     (action_of RECONCILE_CLUSTER ''assess_cluster'' ''Assess pool membership drift''
      (''READ-ONLY: list pool hosts, the FlashArray host-group members, and which new hosts are ''
       @ ''ready to deploy (preflight) / which array hosts have departed the pool.''))\<lparr>as_long_running := False\<rparr>"

definition xcpng_action_reconcile_cluster :: action_spec where
  "xcpng_action_reconcile_cluster =
     (action_of RECONCILE_CLUSTER ''reconcile_cluster'' ''Deploy to new pool hosts''
      (''Configure pool hosts that are NEW and pass the readiness preflight (register + connectivity ''
       @ ''+ plugin install); skip not-ready ones. Departed array hosts are flagged unless ''
       @ [CHR 0x27] @ ''Remove departed hosts'' @ [CHR 0x27]
       @ '' is set, in which case they are removed from the host group + array.''))\<lparr>as_fields :=
      [(form_field_of ''apply_removals'' ''Remove departed hosts'' BOOL)\<lparr>
         ff_required := False,
         ff_default := JBool False,
         ff_help := (''Remove FlashArray hosts (and forget their PBDs) for pool nodes that have left the pool. ''
           @ ''Off = only flag them.'')\<rparr>],
      as_destructive := True\<rparr>"

definition xcpng_action_provision_nfs :: action_spec where
  "xcpng_action_provision_nfs =
     (action_of PROVISION_VOLUME ''provision_nfs'' ''Provision NFS SR (stock)''
      (''NFS only: create a FlashArray file system + NFS export and `xe sr-create type=nfs` pool-wide ''
       @ ''(stock XCP-ng NFS SR). NOT the per-VDI '' @ [CHR 0x27] @ ''purefa'' @ [CHR 0x27]
       @ '' block plugin.''))\<lparr>as_fields :=
      [form_field_of ''name'' ''File system / SR name'' STRING,
       (form_field_of ''sr_name'' ''SR name-label'' STRING)\<lparr>ff_required := False\<rparr>]\<rparr>"

definition xcpng_action_teardown_nfs :: action_spec where
  "xcpng_action_teardown_nfs =
     (action_of REMOVE ''teardown_nfs'' ''Remove NFS SR (stock)''
      ''NFS only: sr-forget/destroy the stock NFS SR + delete the FA NFS export and file system.'')\<lparr>as_fields :=
      [form_field_of ''name'' ''File system / SR name'' STRING,
       (form_field_of ''sr_name'' ''SR name-label'' STRING)\<lparr>ff_required := False\<rparr>,
       (form_field_of ''eradicate'' ''Eradicate file system'' BOOL)\<lparr>ff_required := False,
         ff_default := JBool False\<rparr>],
      as_destructive := True\<rparr>"

definition xcpng_actions :: "action_spec list" where
  "xcpng_actions =
    [xcpng_action_deploy,
     xcpng_action_register_hosts,
     xcpng_action_setup_connectivity,
     xcpng_action_provision,
     xcpng_action_snapshot,
     xcpng_action_clone,
     xcpng_action_resize,
     xcpng_action_health_check,
     xcpng_action_teardown,
     xcpng_action_assess_cluster,
     xcpng_action_reconcile_cluster,
     xcpng_action_provision_nfs,
     xcpng_action_teardown_nfs]"

definition xcpng_wizard_steps :: "string list" where
  "xcpng_wizard_steps = [''register_hosts'', ''deploy'', ''setup_connectivity'']"

definition xcpng_class :: connector_class where
  "xcpng_class = base_class\<lparr>
     cls_key := ''xcpng'',
     cls_name := ''XCP-ng / XenServer (Everpure SR driver)'',
     cls_description := (''Deploy a custom XCP-ng SMAPIv3 storage plugin (org.xen.xapi.storage.purefa, SR type ''
        @ [CHR 0x27] @ ''purefa'' @ [CHR 0x27]
        @ '') across a pool so that each VDI is its own FlashArray volume, presented directly to ''
        @ ''the VM as a multipathed raw block device. Snapshots and clones are array-native (FlashArray ''
        @ ''snapshot + volume copy), not VHD/LVM. A true custom storage driver in the spirit of ''
        @ ''Everpure CSI / Cinder / the Proxmox plugin -- NOT the stock shared lvmoiscsi SR.''),
     CAPABILITIES := [DEPLOY_PLUGIN, HOST_REGISTER, CONNECTIVITY, PROVISION_VOLUME, SNAPSHOT, CLONE, RESIZE, HEALTH, REMOVE, RECONCILE_CLUSTER, VM_INVENTORY, VM_LIFECYCLE, MIGRATE],
     SUPPORTED_PROTOCOLS := [ISCSI, FC, NVME_TCP, NFS],
     cls_maturity := ''ga'',
     target_schema := xcpng_target_schema,
     action_schemas := xcpng_actions,
     wizard_steps := xcpng_wizard_steps\<rparr>"

definition xcpng_routes :: "(string \<times> string) list" where
  "xcpng_routes = [(''provision_nfs'', ''provision_nfs''), (''teardown_nfs'', ''teardown_nfs'')]"

definition xcpng_sig_deploy_integration :: signature where
  "xcpng_sig_deploy_integration = Sig [] [''endpoint'', ''sr_name'', ''host_group'', ''clobber'', ''eradicate''] True"

definition xcpng_sig_provision :: signature where
  "xcpng_sig_provision = Sig [''name''] [''size'', ''host_group'', ''sr_name''] True"

definition xcpng_sig_snapshot :: signature where
  "xcpng_sig_snapshot = Sig [''volume''] [''vdi_uuid''] True"

definition xcpng_sig_clone :: signature where
  "xcpng_sig_clone = Sig [''source'', ''dest''] [''vdi_uuid''] True"

definition xcpng_sig_resize :: signature where
  "xcpng_sig_resize = Sig [''volume'', ''size''] [''vdi_uuid''] True"

definition xcpng_sig_register_hosts :: signature where
  "xcpng_sig_register_hosts = Sig [] [''host_group'', ''iqns'', ''nqns'', ''wwns'', ''nodes_override''] True"

definition xcpng_sig_setup_connectivity :: signature where
  "xcpng_sig_setup_connectivity = Sig [] [''portals'', ''target_iqn'', ''subsystem_nqn'', ''iscsi_nics'', ''nvme_sources'', ''nvme_options'', ''fc_hbas'', ''nodes_override''] True"

definition xcpng_sig_health_check :: signature where
  "xcpng_sig_health_check = Sig [] [] True"

definition xcpng_sig_teardown :: signature where
  "xcpng_sig_teardown = Sig [] [''sr_name''] True"

definition xcpng_sig_assess_cluster :: signature where
  "xcpng_sig_assess_cluster = Sig [] [] True"

definition xcpng_sig_reconcile_cluster :: signature where
  "xcpng_sig_reconcile_cluster = Sig [] [''apply_removals''] True"

definition xcpng_sig_provision_nfs :: signature where
  "xcpng_sig_provision_nfs = Sig [] [''name'', ''sr_name''] True"

definition xcpng_sig_teardown_nfs :: signature where
  "xcpng_sig_teardown_nfs = Sig [] [''name'', ''sr_name'', ''eradicate''] True"

definition xcpng_connector :: connector_declaration where
  "xcpng_connector =
     \<lparr>cd_class = xcpng_class, cd_routes = xcpng_routes,
      cd_methods = [(''deploy_integration'', xcpng_sig_deploy_integration),
        (''provision'', xcpng_sig_provision),
        (''snapshot'', xcpng_sig_snapshot),
        (''clone'', xcpng_sig_clone),
        (''resize'', xcpng_sig_resize),
        (''register_hosts'', xcpng_sig_register_hosts),
        (''setup_connectivity'', xcpng_sig_setup_connectivity),
        (''health_check'', xcpng_sig_health_check),
        (''teardown'', xcpng_sig_teardown),
        (''assess_cluster'', xcpng_sig_assess_cluster),
        (''reconcile_cluster'', xcpng_sig_reconcile_cluster),
        (''provision_nfs'', xcpng_sig_provision_nfs),
        (''teardown_nfs'', xcpng_sig_teardown_nfs)]\<rparr>"

end
