(* ===== verification/Forms_Openshift.thy ===== *)
theory Forms_Openshift
  imports Connector_Forms
begin

text \<open>
  What the OpenShift connector declares to the user interface, \<^verbatim>\<open>connectors/openshift/connector.py\<close>: the form
  of its target, the actions with their forms, the order of the wizard, and the signatures of the
  methods its dispatch reaches.
\<close>

definition PX_STORAGECLUSTER_DEFAULT :: string where "PX_STORAGECLUSTER_DEFAULT = ''px-cluster''"

definition openshift_target_schema :: "form_field list" where
  "openshift_target_schema =
    [(form_field_of ''kubeconfig'' ''Kubeconfig'' TEXT)\<lparr>
       ff_required := False,
       ff_help := (''Full kubeconfig granting cluster-admin for the Portworx install / day-2 ops. Provide ''
         @ ''this OR the API URL + username + password below.''),
       ff_placeholder := (''apiVersion: v1'' @ [CHR 0x0A] @ ''clusters: ...'')\<rparr>,
     (form_field_of ''api_url'' ''API server URL'' STRING)\<lparr>
       ff_required := False,
       ff_help := (''OpenShift API endpoint for username/password login (`oc login`). Used only when no kubeconfig ''
         @ ''is supplied.''),
       ff_placeholder := ''https://api.ocp.example.com:6443''\<rparr>,
     (form_field_of ''username'' ''Username'' STRING)\<lparr>
       ff_required := False,
       ff_help := ''OpenShift user for `oc login` (when not using a kubeconfig).''\<rparr>,
     (form_field_of ''password'' ''Password'' SECRET)\<lparr>
       ff_required := False,
       ff_help := ''Password for `oc login` (stored encrypted in the vault; masked in job logs).''\<rparr>,
     (form_field_of ''insecure_skip_tls_verify'' ''Skip API TLS verify'' BOOL)\<lparr>
       ff_required := False,
       ff_default := JBool False,
       ff_help := ''Pass --insecure-skip-tls-verify to `oc login` for clusters with a self-signed API certificate.''\<rparr>,
     (form_field_of ''namespace'' ''Namespace'' STRING)\<lparr>
       ff_default := JStr ''portworx'',
       ff_help := ''Namespace Portworx is installed into.''\<rparr>,
     (form_field_of ''vm_namespace'' ''VM namespace (migration)'' STRING)\<lparr>
       ff_required := False,
       ff_default := JStr ''default'',
       ff_help := (''Namespace OpenShift Virtualization (KubeVirt) VMs are created in / discovered from for ''
         @ ''migration.'')\<rparr>,
     (form_field_of ''protocol'' ''Storage protocol'' ENUM)\<lparr>
       ff_default := JStr ''iscsi'',
       ff_options := Some [''iscsi'', ''fc'', ''nvme-tcp''],
       ff_help := (''FlashArray transport Portworx attaches block volumes over. '' @ [CHR 0x27] @ ''fc''
         @ [CHR 0x27]
         @ '' optionally pre-registers worker-node HBAs on the array (see node_wwns); Portworx otherwise ''
         @ ''auto-registers the worker nodes as FlashArray hosts at volume-attach time, so no manual ''
         @ ''WWN registration is required.'')\<rparr>,
     (form_field_of ''node_wwns'' ''Worker node FC WWNs'' STRING)\<lparr>
       ff_required := False,
       ff_help := (''(optional '' @ em_dash
         @ '' Portworx auto-registers worker nodes on the array; only needed for pre-zoning) Comma-separated ''
         @ ''FC HBA WWNs of the OpenShift worker nodes to pre-register as FlashArray hosts when protocol=fc.''),
       ff_placeholder := ''21:00:00:..., 21:00:00:...''\<rparr>]"

definition openshift_action_deploy :: action_spec where
  "openshift_action_deploy =
     (action_of DEPLOY_PLUGIN ''deploy'' ''Deploy Portworx (px-csi)''
      (''Install Portworx (px-csi): the Portworx Operator (OLM) + a StorageCluster. The StorageCluster ''
       @ ''comes from a spec you generated in Portworx Central (paste its spec URL or YAML below) ''
       @ em_dash @ '' which carries your license + console tuning '' @ em_dash
       @ '' or, if you leave both blank, from PHIF'' @ [CHR 0x27]
       @ ''s generated FlashArray Direct Access spec. The px-pure-secret (FlashArray endpoint + ''
       @ ''token) is derived from the associated array. The retired PSO (pure-csi) driver is no ''
       @ ''longer available.''))\<lparr>as_fields :=
      [(form_field_of ''release'' ''StorageCluster name'' STRING)\<lparr>
         ff_required := False,
         ff_default := JStr PX_STORAGECLUSTER_DEFAULT,
         ff_help := (''Portworx StorageCluster name (used only for PHIF'' @ [CHR 0x27]
           @ ''s generated spec; a Central spec names itself).'')\<rparr>,
       (form_field_of ''cluster_id'' ''Cluster ID'' STRING)\<lparr>
         ff_help := (''Unique id tagged onto this cluster'' @ [CHR 0x27] @ ''s resources.'')\<rparr>,
       (form_field_of ''chart_version'' ''Portworx version'' STRING)\<lparr>
         ff_required := False,
         ff_help := ''Portworx image version (generated spec only).'',
         ff_placeholder := ''latest''\<rparr>,
       (form_field_of ''fa_direct_access'' ''Portworx: FlashArray Direct Access'' BOOL)\<lparr>
         ff_required := False,
         ff_default := JBool True,
         ff_help := (''Portworx only. On (default) = FADA: PVCs map 1:1 to FlashArray volumes, no pooled SDS ''
           @ ''/ PX-Enterprise license. Off = Enterprise cloud-drive pooling. Ignored when a Portworx ''
           @ ''Central spec (URL/YAML) is supplied '' @ em_dash @ '' that spec decides the mode.'')\<rparr>,
       (form_field_of ''px_spec_url'' ''Portworx: Central spec URL'' STRING)\<lparr>
         ff_required := False,
         ff_help := (''Portworx only. Paste the StorageCluster / PX-CSI spec URL generated in Portworx Central ''
           @ ''(central.portworx.com '' @ [CHR 0xE2, CHR 0x86, CHR 0x92]
           @ '' Generate Spec). PHIF installs the operator + px-pure-secret, then applies THIS spec ''
           @ ''verbatim (oc apply -f <url>) '' @ em_dash
           @ '' so your Central license / tuning is preserved. Leave blank to apply PHIF''
           @ [CHR 0x27] @ ''s generated FADA StorageCluster instead.''),
         ff_placeholder := ''https://install.portworx.com/...''\<rparr>,
       (form_field_of ''px_spec_yaml'' ''Portworx: Central spec YAML'' TEXT)\<lparr>
         ff_required := False,
         ff_help := (''Portworx only. Alternative to the spec URL: paste the StorageCluster YAML downloaded ''
           @ ''from Portworx Central. Applied verbatim after the operator + px-pure-secret. Takes precedence ''
           @ ''over the URL if both are given.''),
         ff_placeholder := (''apiVersion: core.libopenstorage.org/v1'' @ [CHR 0x0A] @ ''kind: StorageCluster''
        @ [CHR 0x0A] @ ''...'')\<rparr>,
       (form_field_of ''px_operator_url'' ''Portworx: Operator manifest URL'' STRING)\<lparr>
         ff_required := False,
         ff_help := (''Portworx only. The Portworx Operator install URL from Portworx Central (the `comp=pxoperator` ''
           @ ''manifest '' @ em_dash
           @ '' applied with oc apply -f). Use this when the Portworx Operator is NOT in the cluster''
           @ [CHR 0x27]
           @ ''s OperatorHub (the common case). If left blank, PHIF derives it from the spec URL above; ''
           @ ''if neither is available it falls back to the OLM (OperatorHub) Subscription.''),
         ff_placeholder := ''https://install.portworx.com/...?comp=pxoperator...''\<rparr>]\<rparr>"

definition openshift_action_configure :: action_spec where
  "openshift_action_configure =
     (action_of CONFIGURE ''configure'' ''Configure StorageClass / SnapshotClass''
      ''Apply a StorageClass and a VolumeSnapshotClass for the CSI driver.'')\<lparr>as_fields :=
      [(form_field_of ''storage_class'' ''StorageClass name'' STRING)\<lparr>ff_default := JStr ''pure-block''\<rparr>,
       (form_field_of ''snapshot_class'' ''VolumeSnapshotClass name'' STRING)\<lparr>ff_default := JStr ''pure-snapshotclass''\<rparr>,
       (form_field_of ''backend'' ''Backend'' ENUM)\<lparr>
         ff_required := False,
         ff_default := JStr ''block'',
         ff_options := Some [''block'', ''file'']\<rparr>,
       (form_field_of ''fs_type'' ''Filesystem type'' STRING)\<lparr>ff_required := False,
         ff_default := JStr ''xfs''\<rparr>,
       (form_field_of ''is_default'' ''Default StorageClass'' BOOL)\<lparr>ff_required := False,
         ff_default := JBool False\<rparr>,
       (form_field_of ''force'' ''Force create (ignore existing)'' BOOL)\<lparr>
         ff_required := False,
         ff_default := JBool False,
         ff_help := (''Portworx: by default, if the cluster already has pxd.portworx.com StorageClasses they ''
           @ ''are reused and creation is skipped. Enable to create this StorageClass anyway.'')\<rparr>]\<rparr>"

definition openshift_action_configure_binding :: action_spec where
  "openshift_action_configure_binding =
     (action_of CONFIGURE ''configure_binding'' ''Configure interface binding (MachineConfig)''
      (''Bind the storage data path to specific node interfaces by applying a MachineConfig (Ignition) ''
       @ ''to the selected machine-config-pool role. iSCSI: writes an iscsiadm iface file per selected ''
       @ ''NIC + the ARP-flux sysctls (arp_ignore/arp_announce). NVMe-TCP: writes host config + ''
       @ ''a oneshot '' @ [CHR 0x27] @ ''nvme connect'' @ [CHR 0x27]
       @ '' unit per source. FC: records the selected HBAs (zoning is switch-side). WARNING: the ''
       @ ''Machine Config Operator applies this by DRAINING AND REBOOTING the role'' @ [CHR 0x27]
       @ ''s nodes one at a time (a rolling reboot) '' @ em_dash
       @ '' operators never SSH the nodes.''))\<lparr>as_fields :=
      [(form_field_of ''iscsi_nics'' ''iSCSI NICs'' MULTISELECT)\<lparr>
         ff_required := False,
         ff_options_source := Some ''nics'',
         ff_help := ''Node NICs to bind iSCSI ifaces to.''\<rparr>,
       (form_field_of ''nvme_sources'' ''NVMe-TCP sources'' MULTISELECT)\<lparr>
         ff_required := False,
         ff_options_source := Some ''nvme_sources'',
         ff_help := ''Host source interfaces/addresses (host-traddr) for NVMe-TCP.''\<rparr>,
       (form_field_of ''nvme_options'' ''NVMe connect options'' STRING)\<lparr>
         ff_required := False,
         ff_help := (''Extra args passed verbatim to '' @ [CHR 0x27] @ ''nvme connect'' @ [CHR 0x27] @ ''.''),
         ff_placeholder := ''--nr-io-queues=8''\<rparr>,
       (form_field_of ''fc_hbas'' ''FC HBAs'' MULTISELECT)\<lparr>
         ff_required := False,
         ff_options_source := Some ''fc_hbas'',
         ff_help := ''FC HBAs to record (selection is zoning-driven).''\<rparr>,
       (form_field_of ''machine_config_role'' ''MachineConfig role'' ENUM)\<lparr>
         ff_required := False,
         ff_default := JStr ''worker'',
         ff_options := Some [''worker'', ''master''],
         ff_help := ''machine-config-pool role label the MachineConfig targets.''\<rparr>]\<rparr>"

definition openshift_action_provision :: action_spec where
  "openshift_action_provision =
     (action_of PROVISION_VOLUME ''provision'' ''Provision volume (PVC)''
      ''Create a PersistentVolumeClaim backed by the Portworx StorageClass.'')\<lparr>as_fields :=
      [form_field_of ''name'' ''PVC name'' STRING,
       (form_field_of ''size'' ''Size'' SIZE)\<lparr>ff_default := JStr ''10Gi''\<rparr>,
       (form_field_of ''storage_class'' ''StorageClass'' STRING)\<lparr>ff_default := JStr ''pure-block''\<rparr>,
       (form_field_of ''access_mode'' ''Access mode'' ENUM)\<lparr>
         ff_required := False,
         ff_default := JStr ''ReadWriteOnce'',
         ff_options := Some [''ReadWriteOnce'', ''ReadWriteMany'', ''ReadOnlyMany'']\<rparr>]\<rparr>"

definition openshift_action_snapshot :: action_spec where
  "openshift_action_snapshot =
     (action_of SNAPSHOT ''snapshot'' ''Snapshot PVC''
      ''Create a VolumeSnapshot custom resource of a PVC.'')\<lparr>as_fields :=
      [form_field_of ''name'' ''Snapshot name'' STRING,
       form_field_of ''source_pvc'' ''Source PVC'' STRING,
       (form_field_of ''snapshot_class'' ''VolumeSnapshotClass'' STRING)\<lparr>
         ff_required := False,
         ff_default := JStr ''pure-snapshotclass''\<rparr>]\<rparr>"

definition openshift_action_clone :: action_spec where
  "openshift_action_clone =
     (action_of CLONE ''clone'' ''Clone PVC''
      ''Create a new PVC whose dataSource is an existing PVC or VolumeSnapshot.'')\<lparr>as_fields :=
      [form_field_of ''name'' ''New PVC name'' STRING,
       form_field_of ''source'' ''Source PVC / snapshot name'' STRING,
       (form_field_of ''source_kind'' ''Source kind'' ENUM)\<lparr>
         ff_required := False,
         ff_default := JStr ''PersistentVolumeClaim'',
         ff_options := Some [''PersistentVolumeClaim'', ''VolumeSnapshot'']\<rparr>,
       (form_field_of ''size'' ''Size'' SIZE)\<lparr>ff_default := JStr ''10Gi''\<rparr>,
       (form_field_of ''storage_class'' ''StorageClass'' STRING)\<lparr>ff_default := JStr ''pure-block''\<rparr>]\<rparr>"

definition openshift_action_resize :: action_spec where
  "openshift_action_resize =
     (action_of RESIZE ''resize'' ''Resize PVC''
      (''Patch a PVC'' @ [CHR 0x27]
       @ ''s requested storage (StorageClass must allow expansion).''))\<lparr>as_fields :=
      [form_field_of ''name'' ''PVC name'' STRING,
       form_field_of ''size'' ''New size'' SIZE]\<rparr>"

definition openshift_action_rotate_credentials :: action_spec where
  "openshift_action_rotate_credentials =
     (action_of ROTATE_CREDENTIALS ''rotate_credentials'' ''Rotate FlashArray token''
      (''Re-apply the px-pure-secret with a new (or freshly minted) FlashArray API token; Portworx ''
       @ ''picks up the updated credential.''))\<lparr>as_fields :=
      [(form_field_of ''api_token'' ''New FlashArray API token'' SECRET)\<lparr>
         ff_required := False,
         ff_help := ''Leave blank to mint a fresh token from the associated array.''\<rparr>]\<rparr>"

definition openshift_action_upgrade :: action_spec where
  "openshift_action_upgrade =
     (action_of UPGRADE ''upgrade'' ''Upgrade Portworx''
      (''Patch the StorageCluster'' @ [CHR 0x27]
       @ ''s Portworx image to a new version (the Portworx Operator performs the rolling upgrade).''))\<lparr>as_fields :=
      [(form_field_of ''release'' ''StorageCluster name'' STRING)\<lparr>
         ff_required := False,
         ff_default := JStr PX_STORAGECLUSTER_DEFAULT\<rparr>,
       (form_field_of ''chart_version'' ''Target Portworx version'' STRING)\<lparr>ff_required := False,
         ff_placeholder := ''3.1.2''\<rparr>]\<rparr>"

definition openshift_action_health_check :: action_spec where
  "openshift_action_health_check =
     (action_of HEALTH ''health_check'' ''Health check''
      ''oc get pods + csidrivers for the Portworx namespace.'')\<lparr>as_long_running := False\<rparr>"

definition openshift_action_teardown :: action_spec where
  "openshift_action_teardown =
     (action_of REMOVE ''teardown'' ''Remove Portworx''
      ''Delete the StorageCluster, then the Portworx operator Subscription.'')\<lparr>as_fields :=
      [(form_field_of ''release'' ''StorageCluster name'' STRING)\<lparr>
         ff_required := False,
         ff_default := JStr PX_STORAGECLUSTER_DEFAULT\<rparr>],
      as_destructive := True\<rparr>"

definition openshift_actions :: "action_spec list" where
  "openshift_actions =
    [openshift_action_deploy,
     openshift_action_configure,
     openshift_action_configure_binding,
     openshift_action_provision,
     openshift_action_snapshot,
     openshift_action_clone,
     openshift_action_resize,
     openshift_action_rotate_credentials,
     openshift_action_upgrade,
     openshift_action_health_check,
     openshift_action_teardown]"

definition openshift_wizard_steps :: "string list" where
  "openshift_wizard_steps = [''deploy'', ''configure'', ''configure_binding'']"

definition openshift_class :: connector_class where
  "openshift_class = base_class\<lparr>
     cls_key := ''openshift'',
     cls_name := ''Red Hat OpenShift (Portworx)'',
     cls_description := (''Manage Everpure storage on Red Hat OpenShift / Kubernetes via Portworx (px-csi, pxd.portworx.com). ''
        @ ''Installs the Portworx Operator + a StorageCluster (from a Portworx Central spec or PHIF''
        @ [CHR 0x27]
        @ ''s generated FlashArray Direct Access spec), configures StorageClasses and VolumeSnapshotClasses, ''
        @ ''binds storage NICs via MachineConfig, and provisions / snapshots / clones / resizes ''
        @ ''PersistentVolumeClaims. The legacy Service Orchestrator (`pure-csi`) driver has been ''
        @ ''retired and is no longer supported.''),
     CAPABILITIES := [DEPLOY_PLUGIN, CONFIGURE, PROVISION_VOLUME, SNAPSHOT, CLONE, RESIZE, ROTATE_CREDENTIALS, UPGRADE, HEALTH, REMOVE, VM_INVENTORY, VM_LIFECYCLE, MIGRATE],
     SUPPORTED_PROTOCOLS := [ISCSI, FC, NVME_TCP, NFS],
     cls_maturity := ''ga'',
     target_schema := openshift_target_schema,
     action_schemas := openshift_actions,
     wizard_steps := openshift_wizard_steps\<rparr>"

definition openshift_routes :: "(string \<times> string) list" where
  "openshift_routes = [(''configure_binding'', ''configure_binding'')]"

definition openshift_sig_deploy_integration :: signature where
  "openshift_sig_deploy_integration = Sig [] [''release'', ''cluster_id'', ''chart_version'', ''array_endpoint'', ''api_token'', ''fa_direct_access'', ''px_spec_url'', ''px_spec_yaml'', ''px_operator_url''] True"

definition openshift_sig_configure :: signature where
  "openshift_sig_configure = Sig [] [''storage_class'', ''snapshot_class'', ''backend'', ''fs_type'', ''is_default'', ''force''] True"

definition openshift_sig_provision :: signature where
  "openshift_sig_provision = Sig [''name''] [''size'', ''storage_class'', ''access_mode''] True"

definition openshift_sig_snapshot :: signature where
  "openshift_sig_snapshot = Sig [''name'', ''source_pvc''] [''snapshot_class''] True"

definition openshift_sig_clone :: signature where
  "openshift_sig_clone = Sig [''name'', ''source''] [''size'', ''storage_class'', ''source_kind''] True"

definition openshift_sig_resize :: signature where
  "openshift_sig_resize = Sig [''name'', ''size''] [] True"

definition openshift_sig_upgrade :: signature where
  "openshift_sig_upgrade = Sig [] [''release'', ''chart_version''] True"

definition openshift_sig_rotate_credentials :: signature where
  "openshift_sig_rotate_credentials = Sig [] [''api_token''] True"

definition openshift_sig_health_check :: signature where
  "openshift_sig_health_check = Sig [] [] True"

definition openshift_sig_teardown :: signature where
  "openshift_sig_teardown = Sig [] [''release''] True"

definition openshift_sig_configure_binding :: signature where
  "openshift_sig_configure_binding = Sig [] [''iscsi_nics'', ''nvme_sources'', ''nvme_options'', ''fc_hbas'', ''machine_config_role''] True"

definition openshift_connector :: connector_declaration where
  "openshift_connector =
     \<lparr>cd_class = openshift_class, cd_routes = openshift_routes,
      cd_methods = [(''deploy_integration'', openshift_sig_deploy_integration),
        (''configure'', openshift_sig_configure),
        (''provision'', openshift_sig_provision),
        (''snapshot'', openshift_sig_snapshot),
        (''clone'', openshift_sig_clone),
        (''resize'', openshift_sig_resize),
        (''upgrade'', openshift_sig_upgrade),
        (''rotate_credentials'', openshift_sig_rotate_credentials),
        (''health_check'', openshift_sig_health_check),
        (''teardown'', openshift_sig_teardown),
        (''configure_binding'', openshift_sig_configure_binding)]\<rparr>"

end
