(* ===== verification/Forms_Openstack.thy ===== *)
theory Forms_Openstack
  imports Connector_Forms
begin

text \<open>
  What the OpenStack connector declares to the user interface, \<^verbatim>\<open>connectors/openstack/connector.py\<close>: the form
  of its target, the actions with their forms, the order of the wizard, and the signatures of the
  methods its dispatch reaches.
\<close>

definition openstack_target_schema :: "form_field list" where
  "openstack_target_schema =
    [(form_field_of ''controller_host'' ''Controller host / IP'' STRING)\<lparr>
       ff_help := ''SSH-reachable OpenStack controller running cinder-volume.'',
       ff_placeholder := ''controller.openstack.local''\<rparr>,
     (form_field_of ''ssh_user'' ''SSH user'' STRING)\<lparr>
       ff_default := JStr ''ubuntu'',
       ff_help := (''A sudo-capable login on the controller (e.g. '' @ [CHR 0x27] @ ''ubuntu'' @ [CHR 0x27]
         @ '' or '' @ [CHR 0x27] @ ''stack'' @ [CHR 0x27]
         @ ''). Privileged ops (cinder.conf, systemctl, pip) run via passwordless sudo unless this ''
         @ ''user is root.'')\<rparr>,
     (form_field_of ''ssh_password'' ''SSH password'' SECRET)\<lparr>
       ff_required := False,
       ff_help := ''Provide either an SSH password or an SSH private key.''\<rparr>,
     (form_field_of ''ssh_key'' ''SSH private key'' TEXT)\<lparr>
       ff_required := False,
       ff_help := ''PEM private key; alternative to SSH password.''\<rparr>,
     (form_field_of ''cinder_conf_path'' ''cinder.conf path'' STRING)\<lparr>ff_default := JStr ''/etc/cinder/cinder.conf''\<rparr>,
     (form_field_of ''protocol'' ''Storage protocol'' ENUM)\<lparr>
       ff_default := JStr ''iscsi'',
       ff_options := Some [''iscsi'', ''fc'', ''nvme-tcp'', ''nvme-roce'']\<rparr>,
     (form_field_of ''backend_name'' ''Cinder backend name'' STRING)\<lparr>ff_default := JStr ''pure''\<rparr>,
     (form_field_of ''volume_service'' ''cinder-volume service unit'' STRING)\<lparr>
       ff_default := JStr ''cinder-volume'',
       ff_help := (''systemd unit (or devstack@c-vol) restarted after a backend change. Tried first, then ''
         @ ''sensible fallbacks.'')\<rparr>,
     (form_field_of ''compute_hosts'' ''Compute hosts (SSH-reachable)'' STRING)\<lparr>
       ff_required := False,
       ff_help := (''Comma-separated nova-compute hosts the appliance can SSH to (same ssh_user/key), for ''
         @ ''the compute-side multipath / iSCSI / NIC setup. Defaults to the controller host (all-in-one ''
         @ ''/ single node).''),
       ff_placeholder := ''192.0.2.11,192.0.2.12''\<rparr>,
     (form_field_of ''os_auth_url'' ''Keystone auth URL'' STRING)\<lparr>
       ff_required := False,
       ff_help := ''Defaults to http://<controller_host>:5000/v3.'',
       ff_placeholder := ''http://controller:5000/v3''\<rparr>,
     (form_field_of ''os_username'' ''OpenStack admin user'' STRING)\<lparr>ff_default := JStr ''admin''\<rparr>,
     (form_field_of ''os_password'' ''OpenStack admin password'' SECRET)\<lparr>ff_required := False\<rparr>,
     (form_field_of ''os_project_name'' ''OpenStack project'' STRING)\<lparr>ff_default := JStr ''admin''\<rparr>,
     (form_field_of ''os_user_domain_name'' ''User domain'' STRING)\<lparr>ff_default := JStr ''Default''\<rparr>,
     (form_field_of ''os_project_domain_name'' ''Project domain'' STRING)\<lparr>ff_default := JStr ''Default''\<rparr>,
     (form_field_of ''os_region_name'' ''Region (optional)'' STRING)\<lparr>ff_required := False\<rparr>]"

definition openstack_action_deploy :: action_spec where
  "openstack_action_deploy =
     (action_of DEPLOY_PLUGIN ''deploy'' ''Deploy Cinder backend''
      (''Write/append the Everpure backend stanza to cinder.conf, add it to enabled_backends, ''
       @ ''and restart cinder-volume (shows a diff first).''))\<lparr>as_fields :=
      [(form_field_of ''pure_iscsi_cidr'' ''iSCSI target CIDR'' STRING)\<lparr>
         ff_required := False,
         ff_help := (''Restrict iSCSI to this array target CIDR, e.g. 192.0.2.0/24. iSCSI only; ignored for ''
           @ ''FC/NVMe.''),
         ff_placeholder := ''192.0.2.0/24''\<rparr>,
       (form_field_of ''pure_iscsi_cidr_list'' ''iSCSI target CIDR list'' STRING)\<lparr>
         ff_required := False,
         ff_help := (''Comma-separated list of array iSCSI target CIDRs (alternative to a single CIDR). iSCSI ''
           @ ''only.''),
         ff_placeholder := ''192.0.2.0/24,198.51.100.0/24''\<rparr>,
       (form_field_of ''nvme_options'' ''Extra NVMe options'' STRING)\<lparr>
         ff_required := False,
         ff_help := (''Free-form '' @ [CHR 0x27] @ ''key = value'' @ [CHR 0x27]
           @ '' lines appended to an NVMe stanza. TODO(doc-validate) transport option names.'')\<rparr>,
       (form_field_of ''nics'' ''Compute-host NICs (documentation)'' MULTISELECT)\<lparr>
         ff_required := False,
         ff_options_source := Some ''nics'',
         ff_help := (''Controller NICs discovered for reference. Compute-host iscsiadm iface binding is host-managed ''
           @ ''and separate. TODO(doc-validate).'')\<rparr>]\<rparr>"

definition openstack_action_configure :: action_spec where
  "openstack_action_configure =
     (action_of CONFIGURE ''configure'' ''Create volume type''
      (''Create a Cinder volume type bound to the Everpure backend (volume_backend_name) and ''
       @ ''optionally a QoS spec.''))\<lparr>as_fields :=
      [(form_field_of ''volume_type'' ''Volume type name'' STRING)\<lparr>ff_default := JStr ''pure''\<rparr>,
       (form_field_of ''qos_name'' ''QoS spec name (optional)'' STRING)\<lparr>ff_required := False\<rparr>,
       (form_field_of ''max_iops'' ''Max IOPS (optional)'' INT_FIELD)\<lparr>ff_required := False\<rparr>,
       (form_field_of ''max_bw'' ''Max bandwidth bytes/s (optional)'' INT_FIELD)\<lparr>ff_required := False\<rparr>]\<rparr>"

definition openstack_action_setup_connectivity :: action_spec where
  "openstack_action_setup_connectivity =
     (action_of CONNECTIVITY ''setup_connectivity'' ''Set up compute-host data path''
      (''Configure the iSCSI/multipath data path on each nova-compute host: lay down the Everpure ''
       @ ''multipath drop-in + enable multipathd, set [libvirt] volume_use_multipath=true in nova.conf ''
       @ ''and restart nova-compute, bind iSCSI ifaces to the selected NICs, and apply the multi-NIC ''
       @ ''ARP-flux sysctls. Required for multipathed attachments; the Cinder driver does NOT do ''
       @ ''host-side setup.''))\<lparr>as_fields :=
      [(form_field_of ''iscsi_nics'' ''iSCSI NICs'' MULTISELECT)\<lparr>
         ff_required := False,
         ff_options_source := Some ''nics'',
         ff_help := (''Storage NICs on each compute host to bind iSCSI to (iscsiadm iface) and apply ARP-flux ''
           @ ''sysctls. Leave empty to enable multipath without per-NIC iface binding.'')\<rparr>],
      as_long_running := True\<rparr>"

definition openstack_action_provision :: action_spec where
  "openstack_action_provision =
     (action_of PROVISION_VOLUME ''provision'' ''Provision volume''
      ''Create a Cinder volume via `openstack volume create`.'')\<lparr>as_fields :=
      [form_field_of ''name'' ''Volume name'' STRING,
       (form_field_of ''size'' ''Size (GiB)'' INT_FIELD)\<lparr>ff_default := JInt 10\<rparr>,
       (form_field_of ''volume_type'' ''Volume type'' STRING)\<lparr>ff_required := False,
         ff_default := JStr ''pure''\<rparr>]\<rparr>"

definition openstack_action_snapshot :: action_spec where
  "openstack_action_snapshot =
     (action_of SNAPSHOT ''snapshot'' ''Snapshot volume''
      [])\<lparr>as_fields :=
      [form_field_of ''volume'' ''Source volume name/ID'' STRING,
       form_field_of ''name'' ''Snapshot name'' STRING]\<rparr>"

definition openstack_action_clone :: action_spec where
  "openstack_action_clone =
     (action_of CLONE ''clone'' ''Clone volume''
      [])\<lparr>as_fields :=
      [form_field_of ''source'' ''Source volume name/ID'' STRING,
       form_field_of ''dest'' ''New volume name'' STRING,
       (form_field_of ''size'' ''Size (GiB, optional)'' INT_FIELD)\<lparr>ff_required := False\<rparr>]\<rparr>"

definition openstack_action_resize :: action_spec where
  "openstack_action_resize =
     (action_of RESIZE ''resize'' ''Resize volume''
      [])\<lparr>as_fields :=
      [form_field_of ''volume'' ''Volume name/ID'' STRING,
       form_field_of ''size'' ''New size (GiB)'' INT_FIELD]\<rparr>"

definition openstack_action_set_qos :: action_spec where
  "openstack_action_set_qos =
     (action_of QOS ''set_qos'' ''Create / associate QoS spec''
      [])\<lparr>as_fields :=
      [form_field_of ''qos_name'' ''QoS spec name'' STRING,
       form_field_of ''volume_type'' ''Volume type to associate'' STRING,
       (form_field_of ''max_iops'' ''Max IOPS (optional)'' INT_FIELD)\<lparr>ff_required := False\<rparr>,
       (form_field_of ''max_bw'' ''Max bandwidth bytes/s (optional)'' INT_FIELD)\<lparr>ff_required := False\<rparr>]\<rparr>"

definition openstack_action_configure_replication :: action_spec where
  "openstack_action_configure_replication =
     (action_of REPLICATION ''configure_replication'' ''Enable replication on volume type''
      (''Set the replication_enabled extra spec on a volume type (requires a replication_device ''
       @ ''in cinder.conf).''))\<lparr>as_fields :=
      [form_field_of ''volume_type'' ''Volume type'' STRING]\<rparr>"

definition openstack_action_health_check :: action_spec where
  "openstack_action_health_check =
     (action_of HEALTH ''health_check'' ''Health check''
      ''Run `openstack volume service list`.'')\<lparr>as_long_running := False\<rparr>"

definition openstack_action_teardown :: action_spec where
  "openstack_action_teardown =
     (action_of REMOVE ''teardown'' ''Remove Cinder backend''
      ''Remove the backend stanza, drop it from enabled_backends, and restart cinder-volume.'')\<lparr>as_destructive := True\<rparr>"

definition openstack_actions :: "action_spec list" where
  "openstack_actions =
    [openstack_action_deploy,
     openstack_action_configure,
     openstack_action_setup_connectivity,
     openstack_action_provision,
     openstack_action_snapshot,
     openstack_action_clone,
     openstack_action_resize,
     openstack_action_set_qos,
     openstack_action_configure_replication,
     openstack_action_health_check,
     openstack_action_teardown]"

definition openstack_wizard_steps :: "string list" where
  "openstack_wizard_steps = [''deploy'', ''configure'', ''setup_connectivity'']"

definition openstack_class :: connector_class where
  "openstack_class = base_class\<lparr>
     cls_key := ''openstack'',
     cls_name := ''OpenStack (Cinder / Everpure driver)'',
     cls_description := (''Wraps the upstream Cinder FlashArray volume driver (cinder.volume.drivers.pure). Configures ''
        @ ''a backend stanza in cinder.conf over SSH to the controller, manages volume types, and ''
        @ ''drives day-2 volume operations via the openstack/cinder CLIs.''),
     CAPABILITIES := [DEPLOY_PLUGIN, CONFIGURE, CONNECTIVITY, VM_INVENTORY, VM_LIFECYCLE, MIGRATE, PROVISION_VOLUME, SNAPSHOT, CLONE, RESIZE, QOS, REPLICATION, HEALTH, REMOVE],
     SUPPORTED_PROTOCOLS := [ISCSI, FC, NVME_TCP, NVME_ROCE],
     cls_maturity := ''ga'',
     target_schema := openstack_target_schema,
     action_schemas := openstack_actions,
     wizard_steps := openstack_wizard_steps\<rparr>"

definition openstack_routes :: "(string \<times> string) list" where
  "openstack_routes = []"

definition openstack_sig_deploy_integration :: signature where
  "openstack_sig_deploy_integration = Sig [] [] True"

definition openstack_sig_configure :: signature where
  "openstack_sig_configure = Sig [] [''volume_type'', ''qos_name'', ''max_iops'', ''max_bw''] True"

definition openstack_sig_provision :: signature where
  "openstack_sig_provision = Sig [''name''] [''size'', ''volume_type''] True"

definition openstack_sig_snapshot :: signature where
  "openstack_sig_snapshot = Sig [''volume''] [''name''] True"

definition openstack_sig_clone :: signature where
  "openstack_sig_clone = Sig [''source'', ''dest''] [''size''] True"

definition openstack_sig_resize :: signature where
  "openstack_sig_resize = Sig [''volume'', ''size''] [] True"

definition openstack_sig_setup_connectivity :: signature where
  "openstack_sig_setup_connectivity = Sig [] [''iscsi_nics''] True"

definition openstack_sig_set_qos :: signature where
  "openstack_sig_set_qos = Sig [''qos_name''] [''volume_type'', ''max_iops'', ''max_bw''] True"

definition openstack_sig_configure_replication :: signature where
  "openstack_sig_configure_replication = Sig [''volume_type''] [] True"

definition openstack_sig_health_check :: signature where
  "openstack_sig_health_check = Sig [] [] True"

definition openstack_sig_teardown :: signature where
  "openstack_sig_teardown = Sig [] [] True"

definition openstack_connector :: connector_declaration where
  "openstack_connector =
     \<lparr>cd_class = openstack_class, cd_routes = openstack_routes,
      cd_methods = [(''deploy_integration'', openstack_sig_deploy_integration),
        (''configure'', openstack_sig_configure),
        (''provision'', openstack_sig_provision),
        (''snapshot'', openstack_sig_snapshot),
        (''clone'', openstack_sig_clone),
        (''resize'', openstack_sig_resize),
        (''setup_connectivity'', openstack_sig_setup_connectivity),
        (''set_qos'', openstack_sig_set_qos),
        (''configure_replication'', openstack_sig_configure_replication),
        (''health_check'', openstack_sig_health_check),
        (''teardown'', openstack_sig_teardown)]\<rparr>"

end
