(* ===== verification/Forms_Nutanix.thy ===== *)
theory Forms_Nutanix
  imports Connector_Forms
begin

text \<open>
  What the Nutanix AHV connector declares to the user interface, \<^verbatim>\<open>connectors/nutanix/connector.py\<close>: the form
  of its target, the actions with their forms, the order of the wizard, and the signatures of the
  methods its dispatch reaches.
\<close>

definition nutanix_target_schema :: "form_field list" where
  "nutanix_target_schema =
    [(form_field_of ''pc_host'' ''Prism Central host'' STRING)\<lparr>
       ff_help := (''Prism Central address. Prism Element is not used; its v2.0 API rejects Prism Central ''
         @ ''credentials.''),
       ff_placeholder := ''prism-central.example.com''\<rparr>,
     (form_field_of ''pc_user'' ''Prism Central username'' STRING)\<lparr>ff_placeholder := ''admin''\<rparr>,
     form_field_of ''pc_password'' ''Prism Central password'' SECRET,
     (form_field_of ''cluster'' ''AHV cluster name'' STRING)\<lparr>
       ff_required := False,
       ff_help := (''Restricts inventory and VM placement to one cluster. Leave blank to span every cluster ''
         @ ''this Prism Central manages.'')\<rparr>,
     (form_field_of ''storage_container'' ''Storage container'' STRING)\<lparr>
       ff_required := False,
       ff_options_source := Some ''storage_containers'',
       ff_help := (''FlashArray-backed storage container new disks are created in. Defaults to the container ''
         @ ''already used by the VM being written to, else the only FlashArray-backed container on ''
         @ ''the cluster.'')\<rparr>]"

definition nutanix_action_snapshot :: action_spec where
  "nutanix_action_snapshot =
     (action_of SNAPSHOT ''snapshot'' ''Snapshot disk volume''
      (''Snapshot the FlashArray volume backing a vDisk. Prism is not involved, so this does ''
       @ ''not appear as a Prism recovery point; AOS 7.6+ with Purity 6.11.8/6.12.0+ can still ''
       @ ''recover from it.''))\<lparr>as_fields :=
      [(form_field_of ''volume'' ''FlashArray volume'' STRING)\<lparr>
         ff_help := (''The disk'' @ [CHR 0x27] @ ''s External Volume name, as shown on the VM'' @ [CHR 0x27]
           @ ''s Disks tab in Prism.'')\<rparr>,
       (form_field_of ''suffix'' ''Snapshot suffix'' STRING)\<lparr>ff_required := False\<rparr>]\<rparr>"

definition nutanix_action_clone :: action_spec where
  "nutanix_action_clone =
     (action_of CLONE ''clone'' ''Clone disk volume''
      (''Copy a vDisk'' @ [CHR 0x27] @ ''s FlashArray volume to a new volume.''))\<lparr>as_fields :=
      [form_field_of ''source'' ''Source FlashArray volume'' STRING,
       form_field_of ''dest'' ''New volume name'' STRING]\<rparr>"

definition nutanix_action_resize :: action_spec where
  "nutanix_action_resize =
     (action_of RESIZE ''resize'' ''Resize disk volume''
      (''Extend the FlashArray volume backing a vDisk. Grow the vDisk in Prism as well so Nutanix''
       @ [CHR 0x27] @ ''s view matches the array.''))\<lparr>as_fields :=
      [form_field_of ''volume'' ''FlashArray volume'' STRING,
       form_field_of ''size'' ''New size'' SIZE]\<rparr>"

definition nutanix_action_set_qos :: action_spec where
  "nutanix_action_set_qos =
     (action_of QOS ''set_qos'' ''Set volume QoS''
      [])\<lparr>as_fields :=
      [form_field_of ''volume'' ''FlashArray volume'' STRING,
       (form_field_of ''iops_limit'' ''IOPS limit'' INT_FIELD)\<lparr>ff_required := False\<rparr>,
       (form_field_of ''bw_limit'' ''Bandwidth limit (bytes/s)'' INT_FIELD)\<lparr>ff_required := False\<rparr>]\<rparr>"

definition nutanix_action_delete :: action_spec where
  "nutanix_action_delete =
     (action_of DELETE ''delete'' ''Delete disk volume''
      ''Destroy a FlashArray volume. Detach the vDisk in Prism first.'')\<lparr>as_fields :=
      [form_field_of ''volume'' ''FlashArray volume'' STRING,
       (form_field_of ''eradicate'' ''Eradicate immediately'' BOOL)\<lparr>ff_required := False,
         ff_default := JBool False\<rparr>],
      as_destructive := True\<rparr>"

definition nutanix_action_health_check :: action_spec where
  "nutanix_action_health_check =
     (action_of HEALTH ''health_check'' ''Health check''
      [])\<lparr>as_long_running := False\<rparr>"

definition nutanix_actions :: "action_spec list" where
  "nutanix_actions =
    [nutanix_action_snapshot,
     nutanix_action_clone,
     nutanix_action_resize,
     nutanix_action_set_qos,
     nutanix_action_delete,
     nutanix_action_health_check]"

definition nutanix_wizard_steps :: "string list" where
  "nutanix_wizard_steps = [''health_check'']"

definition nutanix_class :: connector_class where
  "nutanix_class = base_class\<lparr>
     cls_key := ''nutanix'',
     cls_name := ''Nutanix Cloud Platform (AHV)'',
     cls_description := (''Manages Nutanix AHV virtual machines whose disks are backed by an Everpure FlashArray ''
        @ ''registered as external storage (NVMe-oF/TCP). Provides VM inventory, VM lifecycle, cross-hypervisor ''
        @ ''migration, and day-2 volume operations. Registering the FlashArray as external storage ''
        @ ''in Prism is not implemented '' @ em_dash @ '' do that in Prism first.''),
     CAPABILITIES := [SNAPSHOT, CLONE, RESIZE, DELETE, QOS, HEALTH, VM_INVENTORY, VM_LIFECYCLE, MIGRATE],
     SUPPORTED_PROTOCOLS := [NVME_TCP],
     cls_maturity := ''preview'',
     MANAGES_VOLUME_PRESENTATION := True,
     target_schema := nutanix_target_schema,
     action_schemas := nutanix_actions,
     wizard_steps := nutanix_wizard_steps\<rparr>"

definition nutanix_routes :: "(string \<times> string) list" where
  "nutanix_routes = []"

definition nutanix_sig_snapshot :: signature where
  "nutanix_sig_snapshot = Sig [''volume''] [''suffix''] True"

definition nutanix_sig_clone :: signature where
  "nutanix_sig_clone = Sig [''source'', ''dest''] [] True"

definition nutanix_sig_resize :: signature where
  "nutanix_sig_resize = Sig [''volume'', ''size''] [] True"

definition nutanix_sig_delete :: signature where
  "nutanix_sig_delete = Sig [''volume''] [''eradicate''] True"

definition nutanix_sig_set_qos :: signature where
  "nutanix_sig_set_qos = Sig [''volume''] [''iops_limit'', ''bw_limit''] True"

definition nutanix_sig_health_check :: signature where
  "nutanix_sig_health_check = Sig [] [] True"

definition nutanix_connector :: connector_declaration where
  "nutanix_connector =
     \<lparr>cd_class = nutanix_class, cd_routes = nutanix_routes,
      cd_methods = [(''snapshot'', nutanix_sig_snapshot),
        (''clone'', nutanix_sig_clone),
        (''resize'', nutanix_sig_resize),
        (''delete'', nutanix_sig_delete),
        (''set_qos'', nutanix_sig_set_qos),
        (''health_check'', nutanix_sig_health_check)]\<rparr>"

end
