(* ===== verification/Forms_Example.thy ===== *)
theory Forms_Example
  imports Connector_Forms
begin

text \<open>
  What the reference connector declares to the user interface, \<^verbatim>\<open>connectors/example/connector.py\<close>: the form
  of its target, the actions with their forms, the order of the wizard, and the signatures of the
  methods its dispatch reaches.
\<close>

definition example_target_schema :: "form_field list" where
  "example_target_schema =
    [(form_field_of ''host'' ''Manager host / IP'' STRING)\<lparr>ff_placeholder := ''mgr.example.local''\<rparr>,
     (form_field_of ''username'' ''Username'' STRING)\<lparr>ff_default := JStr ''admin''\<rparr>,
     form_field_of ''password'' ''Password'' SECRET,
     (form_field_of ''protocol'' ''Storage protocol'' ENUM)\<lparr>
       ff_default := JStr ''iscsi'',
       ff_options := Some [''iscsi'', ''fc'', ''nvme-tcp'']\<rparr>]"

definition example_action_deploy :: action_spec where
  "example_action_deploy =
     action_of DEPLOY_PLUGIN ''deploy'' ''Deploy integration''
      ''Install and register the (mock) integration on the target.''"

definition example_action_register_hosts :: action_spec where
  "example_action_register_hosts =
     (action_of HOST_REGISTER ''register_hosts'' ''Register hosts on array''
      (''Create a host group on the FlashArray for this hypervisor'' @ [CHR 0x27]
       @ ''s nodes.''))\<lparr>as_fields :=
      [form_field_of ''host_group'' ''Host group name'' STRING,
       (form_field_of ''iqns'' ''Host IQNs (iSCSI, comma-separated)'' STRING)\<lparr>ff_required := False\<rparr>,
       (form_field_of ''wwns'' ''Host WWNs (Fibre Channel, comma-separated)'' STRING)\<lparr>ff_required := False\<rparr>]\<rparr>"

definition example_action_provision :: action_spec where
  "example_action_provision =
     (action_of PROVISION_VOLUME ''provision'' ''Provision volume / datastore''
      ''Create a FlashArray volume and attach it to the host group.'')\<lparr>as_fields :=
      [form_field_of ''name'' ''Volume name'' STRING,
       (form_field_of ''size'' ''Size'' SIZE)\<lparr>ff_default := JStr ''1T''\<rparr>,
       (form_field_of ''host_group'' ''Attach to host group'' STRING)\<lparr>ff_required := False\<rparr>]\<rparr>"

definition example_action_snapshot :: action_spec where
  "example_action_snapshot =
     (action_of SNAPSHOT ''snapshot'' ''Snapshot volume''
      [])\<lparr>as_fields :=
      [form_field_of ''volume'' ''Volume name'' STRING]\<rparr>"

definition example_action_clone :: action_spec where
  "example_action_clone =
     (action_of CLONE ''clone'' ''Clone volume''
      [])\<lparr>as_fields :=
      [form_field_of ''source'' ''Source volume'' STRING,
       form_field_of ''dest'' ''New volume name'' STRING]\<rparr>"

definition example_action_resize :: action_spec where
  "example_action_resize =
     (action_of RESIZE ''resize'' ''Resize volume''
      [])\<lparr>as_fields :=
      [form_field_of ''volume'' ''Volume name'' STRING,
       form_field_of ''size'' ''New size'' SIZE]\<rparr>"

definition example_action_health_check :: action_spec where
  "example_action_health_check =
     (action_of HEALTH ''health_check'' ''Health check''
      [])\<lparr>as_long_running := False\<rparr>"

definition example_action_teardown :: action_spec where
  "example_action_teardown =
     (action_of REMOVE ''teardown'' ''Remove integration''
      [])\<lparr>as_destructive := True\<rparr>"

definition example_actions :: "action_spec list" where
  "example_actions =
    [example_action_deploy,
     example_action_register_hosts,
     example_action_provision,
     example_action_snapshot,
     example_action_clone,
     example_action_resize,
     example_action_health_check,
     example_action_teardown]"

definition example_class :: connector_class where
  "example_class = base_class\<lparr>
     cls_key := ''example'',
     cls_name := ''Example / Reference'',
     cls_description := (''Reference connector demonstrating the full contract against mock clients. Use as the ''
        @ ''template for real connectors.''),
     CAPABILITIES := [DEPLOY_PLUGIN, PROVISION_VOLUME, SNAPSHOT, CLONE, RESIZE, HOST_REGISTER, HEALTH, REMOVE],
     SUPPORTED_PROTOCOLS := [ISCSI, FC, NVME_TCP],
     cls_maturity := ''scaffold'',
     target_schema := example_target_schema,
     action_schemas := example_actions\<rparr>"

definition example_routes :: "(string \<times> string) list" where
  "example_routes = []"

definition example_sig_deploy_integration :: signature where
  "example_sig_deploy_integration = Sig [] [] True"

definition example_sig_provision :: signature where
  "example_sig_provision = Sig [''name''] [''size'', ''host_group''] True"

definition example_sig_snapshot :: signature where
  "example_sig_snapshot = Sig [''volume''] [] True"

definition example_sig_clone :: signature where
  "example_sig_clone = Sig [''source'', ''dest''] [] True"

definition example_sig_resize :: signature where
  "example_sig_resize = Sig [''volume'', ''size''] [] True"

definition example_sig_register_hosts :: signature where
  "example_sig_register_hosts = Sig [''host_group''] [''iqns'', ''wwns''] True"

definition example_sig_health_check :: signature where
  "example_sig_health_check = Sig [] [] True"

definition example_sig_teardown :: signature where
  "example_sig_teardown = Sig [] [] True"

definition example_connector :: connector_declaration where
  "example_connector =
     \<lparr>cd_class = example_class, cd_routes = example_routes,
      cd_methods = [(''deploy_integration'', example_sig_deploy_integration),
        (''provision'', example_sig_provision),
        (''snapshot'', example_sig_snapshot),
        (''clone'', example_sig_clone),
        (''resize'', example_sig_resize),
        (''register_hosts'', example_sig_register_hosts),
        (''health_check'', example_sig_health_check),
        (''teardown'', example_sig_teardown)]\<rparr>"

end
