(* ===== verification/Connector_Actions.thy ===== *)
theory Connector_Actions
  imports Forms_Proxmox Forms_Vsphere Forms_Hpevme Forms_Xcpng Forms_Openshift Forms_Openstack
    Forms_Nutanix Forms_Example
begin

text \<open>
  The eight connectors together: the registry that finds them, the proof that every action the
  user interface offers reaches a method of its connector that takes the form's fields, and the
  consistency of the declarations.
\<close>

section \<open>The registry\<close>

text \<open>
  \<^verbatim>\<open>registry.discover\<close>, over the classes in the order in which the set of subclasses is iterated;
  \<open>abstract\<close> is what \<^verbatim>\<open>__abstractmethods__\<close> says.
\<close>

definition register_class ::
  "(connector_class \<Rightarrow> bool) \<Rightarrow> connector_class \<Rightarrow> (string \<times> connector_class) list \<Rightarrow> (string \<times> connector_class) list" where
  "register_class abstract c reg =
     (if abstract c \<or> cls_key c = [] \<or> cls_key c \<in> fst ` set reg then reg else reg @ [(cls_key c, c)])"

definition discover :: "(connector_class \<Rightarrow> bool) \<Rightarrow> connector_class list \<Rightarrow> (string \<times> connector_class) list" where
  "discover abstract cs = fold (register_class abstract) cs []"

definition get_connector_class ::
  "(connector_class \<Rightarrow> bool) \<Rightarrow> connector_class list \<Rightarrow> string \<Rightarrow> connector_class option" where
  "get_connector_class abstract cs key = map_of (discover abstract cs) key"

definition list_descriptors :: "(connector_class \<Rightarrow> bool) \<Rightarrow> connector_class list \<Rightarrow> dict list" where
  "list_descriptors abstract cs = map (descriptor \<circ> snd) (discover abstract cs)"

lemma fold_register_class:
  "map_of (fold (register_class abstract) cs reg) k =
     (case map_of reg k of Some c \<Rightarrow> Some c
      | None \<Rightarrow> if k = [] then None else find (\<lambda>c. \<not> abstract c \<and> cls_key c = k) cs)"
proof (induction cs arbitrary: reg)
  case Nil
  show ?case by (simp split: option.splits)
next
  case (Cons c cs)
  have "map_of (register_class abstract c reg) k =
      (case map_of reg k of Some x \<Rightarrow> Some x
       | None \<Rightarrow> if \<not> abstract c \<and> k \<noteq> [] \<and> cls_key c = k then Some c else None)"
    by (auto simp: register_class_def map_add_def map_of_eq_None_iff dom_map_of_conv_image_fst
        split: option.splits dest: map_of_SomeD intro: rev_image_eqI)
  then show ?case
    by (simp add: Cons.IH) (auto split: option.splits)
qed

lemma get_connector_class_find:
  "get_connector_class abstract cs k = (if k = [] then None else find (\<lambda>c. \<not> abstract c \<and> cls_key c = k) cs)"
  by (simp add: get_connector_class_def discover_def fold_register_class)

section \<open>The eight connectors\<close>

definition connectors :: "connector_declaration list" where
  "connectors = [proxmox_connector, vsphere_connector, hpevme_connector, xcpng_connector,
     openshift_connector, openstack_connector, nutanix_connector, example_connector]"

definition all_served :: "connector_declaration \<Rightarrow> bool" where
  "all_served d = list_all (served d) (action_schemas (cd_class d))"

text \<open>An \<^verbatim>\<open>ENUM\<close> field has choices, and its default is one of them.\<close>

definition enum_ok :: "form_field \<Rightarrow> bool" where
  "enum_ok f = (if ff_type f = ENUM then
      (case ff_options f of None \<Rightarrow> False
       | Some os \<Rightarrow> (case ff_default f of JNull \<Rightarrow> True | JStr d \<Rightarrow> d \<in> set os | _ \<Rightarrow> False)) else True)"

definition well_declared :: "connector_declaration \<Rightarrow> bool" where
  "well_declared d =
     (let c = cd_class d; as = action_schemas c in
      distinct (map as_id as) \<and>
      list_all (\<lambda>a. as_capability a \<in> set (CAPABILITIES c) \<and> distinct (field_names a) \<and>
        list_all enum_ok (as_fields a)) as \<and>
      distinct (map ff_name (target_schema c)) \<and> list_all enum_ok (target_schema c))"

definition wizard_offered :: "connector_declaration \<Rightarrow> bool" where
  "wizard_offered d = list_all (\<lambda>s. s \<in> set (map as_id (action_schemas (cd_class d)))) (wizard_steps (cd_class d))"

lemma proxmox_declared: "all_served proxmox_connector \<and> well_declared proxmox_connector \<and> wizard_offered proxmox_connector"
  by code_simp

lemma vsphere_declared: "all_served vsphere_connector \<and> well_declared vsphere_connector \<and> wizard_offered vsphere_connector"
  by code_simp

lemma hpevme_declared: "all_served hpevme_connector \<and> well_declared hpevme_connector \<and> wizard_offered hpevme_connector"
  by code_simp

lemma xcpng_declared: "all_served xcpng_connector \<and> well_declared xcpng_connector \<and> wizard_offered xcpng_connector"
  by code_simp

lemma openshift_declared: "all_served openshift_connector \<and> well_declared openshift_connector \<and> wizard_offered openshift_connector"
  by code_simp

lemma openstack_declared: "all_served openstack_connector \<and> well_declared openstack_connector \<and> wizard_offered openstack_connector"
  by code_simp

lemma nutanix_declared: "all_served nutanix_connector \<and> well_declared nutanix_connector \<and> wizard_offered nutanix_connector"
  by code_simp

lemma example_declared: "all_served example_connector \<and> well_declared example_connector \<and> \<not> wizard_offered example_connector"
  by code_simp

lemmas all_declared = proxmox_declared vsphere_declared hpevme_declared xcpng_declared
  openshift_declared openstack_declared nutanix_declared example_declared

lemma connector_keys:
  "map (\<lambda>d. cls_key (cd_class d)) connectors =
     [''proxmox'', ''vsphere'', ''hpevme'', ''xcpng'', ''openshift'', ''openstack'', ''nutanix'', ''example'']"
  by code_simp


section \<open>Every action is served\<close>

lemma connectors_served: "d \<in> set connectors \<Longrightarrow> a \<in> set (action_schemas (cd_class d)) \<Longrightarrow> served d a"
  using all_declared unfolding all_served_def list_all_iff connectors_def by auto

text \<open>
  C37. No action of the interface is a dead end: for each of the eight connectors and each action it
  offers, submitting the action with the required fields of its form, and any of the others, runs
  the connector's own method on those parameters. It is never unknown, unsupported, or refused for
  a parameter that is missing or too many.
\<close>

theorem offered_actions_run:
  assumes "d \<in> set connectors" and "a \<in> set (action_schemas (cd_class d))"
    and "set (required_names a) \<subseteq> fst ` set params" and "fst ` set params \<subseteq> set (field_names a)"
  shows "\<exists>name. route_of d (as_id a) = Some name \<and>
    connector_dispatch d ctx impl (as_id a) params = impl name params"
  by (rule served_runs [OF connectors_served [OF assms(1,2)] assms(3,4)])

theorem offered_actions_run_witness:
  "\<exists>name. route_of proxmox_connector ''enable'' = Some name \<and>
    connector_dispatch proxmox_connector (mock_context demo_target) (\<lambda>name params. ret (op_ok name [] []))
      ''enable'' [(''storage_id'', JStr ''purefa'')] = ret (op_ok name [] [])"
proof -
  have "proxmox_action_enable \<in> set (action_schemas (cd_class proxmox_connector))"
    by (simp add: proxmox_connector_def proxmox_class_def base_class_def proxmox_actions_def)
  from offered_actions_run [OF _ this, of "[(''storage_id'', JStr ''purefa'')]" "mock_context demo_target"
      "\<lambda>name params. ret (op_ok name [] [])"]
  show ?thesis
    by (simp add: connectors_def proxmox_action_enable_def action_of_def required_names_def field_names_def
        form_field_of_def)
qed


section \<open>Looking a connector up\<close>

lemma distinct_classes: "distinct (map (\<lambda>d. cls_key (cd_class d)) connectors)"
  by (simp add: connector_keys)

lemma keys_nonempty: "list_all (\<lambda>d. cls_key (cd_class d) \<noteq> []) connectors"
proof -
  have "list_all (\<lambda>k. k \<noteq> []) (map (\<lambda>d. cls_key (cd_class d)) connectors)"
    unfolding connector_keys by simp
  then show ?thesis by (simp only: list.pred_map comp_def)
qed

lemma find_unique:
  "x \<in> set xs \<Longrightarrow> P x \<Longrightarrow> (\<And>y. y \<in> set xs \<Longrightarrow> P y \<Longrightarrow> y = x) \<Longrightarrow> find P xs = Some x"
proof (cases "find P xs")
  case None
  assume "x \<in> set xs" "P x"
  with None show ?thesis unfolding find_None_iff by blast
next
  case (Some y)
  assume u: "\<And>y. y \<in> set xs \<Longrightarrow> P y \<Longrightarrow> y = x"
  have "y \<in> set xs" "P y" using Some unfolding find_Some_iff by auto
  then have "y = x" by (rule u)
  then show ?thesis using Some by simp
qed

text \<open>
  Whatever order the subclasses are iterated in, and whatever abstract classes are among them,
  looking up the key of one of the connectors finds its class.
\<close>

theorem connector_found_by_key:
  assumes "set (filter (\<lambda>c. \<not> abstract c) cs) = set (map cd_class connectors)" and "d \<in> set connectors"
  shows "get_connector_class abstract cs (cls_key (cd_class d)) = Some (cd_class d)"
proof -
  have k: "cls_key (cd_class d) \<noteq> []"
    using keys_nonempty assms(2) unfolding list_all_iff by blast
  have "y = cd_class d" if y: "y \<in> set cs" "\<not> abstract y" and key: "cls_key y = cls_key (cd_class d)" for y
  proof -
    obtain d' where "d' \<in> set connectors" "y = cd_class d'" using y assms(1) by auto
    have "inj_on (\<lambda>d. cls_key (cd_class d)) (set connectors)"
      using distinct_classes by (simp only: distinct_map)
    with \<open>y = cd_class d'\<close> \<open>d' \<in> set connectors\<close> key assms(2) show ?thesis
      by (auto dest: inj_onD)
  qed
  moreover have "cd_class d \<in> set cs \<and> \<not> abstract (cd_class d)" using assms by auto
  ultimately have "find (\<lambda>c. \<not> abstract c \<and> cls_key c = cls_key (cd_class d)) cs = Some (cd_class d)"
    by (intro find_unique) blast+
  then show ?thesis
    using k by (simp add: get_connector_class_find)
qed

theorem connector_found_by_key_witness:
  "get_connector_class (\<lambda>_. False) (map cd_class (rev connectors)) (cls_key (cd_class nutanix_connector))
     = Some (cd_class nutanix_connector)"
proof (rule connector_found_by_key)
  show "set (filter (\<lambda>c. \<not> False) (map cd_class (rev connectors))) = set (map cd_class connectors)"
    by simp
  show "nutanix_connector \<in> set connectors" by (simp add: connectors_def)
qed

end
