(* ===== verification/Job_Runner.thy ===== *)
theory Job_Runner
  imports Storage_Nics Host_Commands Op_Result
begin

text \<open>
  The execution primitives of \<^verbatim>\<open>jobs/runner.py\<close>: SSH, a local command, an HTTP request, and the
  discovery of a host's initiators and interfaces, which reads the output of commands. What is
  outside (the SSH connection, the process, the server) is a channel of the runner: a record of
  actions that answer with what the network gives. \<^verbatim>\<open>run_ansible\<close> is not modelled: it only hands
  its arguments to \<^verbatim>\<open>ansible_runner\<close>.
\<close>

section \<open>The runner and its channels\<close>

text \<open>The credentials of a connection, as the connectors pass them on.\<close>

record ssh_login =
  lg_user :: string
  lg_password :: "string option"
  lg_key :: "string option"
  lg_port :: nat
  lg_sudo :: bool

record ssh_request =
  rq_host :: string
  rq_command :: string
  rq_login :: ssh_login
  rq_limit :: nat

text \<open>How a command ended, and the lines it printed until then.\<close>

datatype ssh_exit = Exited "int option" | TimedOut

record http_response =
  hr_status :: int
  hr_json :: "json option"
  hr_text :: string
  hr_headers :: "(string \<times> string) list"

record 's runner =
  rn_log :: "string \<Rightarrow> ('s, unit) action"
  rn_mock :: bool
  rn_dry_run :: bool
  rn_ssh :: "ssh_request \<Rightarrow> ('s, string list \<times> ssh_exit) action"
  rn_process :: "string \<Rightarrow> ('s, (string list \<times> int) option) action"
  rn_http :: "string \<Rightarrow> string \<Rightarrow> ('s, http_response) action"

definition skips :: "'s runner \<Rightarrow> bool" where
  "skips R \<longleftrightarrow> rn_mock R \<or> rn_dry_run R"

definition command_error :: "string \<Rightarrow> exn" where
  "command_error m = Exn ''CommandError'' m"

text \<open>\<^verbatim>\<open>text.replace(s, "***")\<close> for every secret in turn.\<close>

definition mask :: "string list \<Rightarrow> string \<Rightarrow> string" where
  "mask secrets t = fold (\<lambda>x u. replace_str x ''***'' u) secrets t"

section \<open>Running commands\<close>

definition SSH_TIMEOUT :: nat where "SSH_TIMEOUT = 600"

definition sudo_command :: "bool \<Rightarrow> string \<Rightarrow> string" where
  "sudo_command sudo c = (if sudo then ''sudo -n sh -c '' @ shlex_quote c else c)"

text \<open>\<^verbatim>\<open>line.rstrip("\n")\<close>\<close>

definition rstrip_newlines :: "string \<Rightarrow> string" where
  "rstrip_newlines l = rev (dropWhile (\<lambda>c. c = CHR 0x0A) (rev l))"

definition limit_of :: "nat option \<Rightarrow> nat" where
  "limit_of timeout = (case timeout of None \<Rightarrow> SSH_TIMEOUT | Some t \<Rightarrow> t)"

definition run_ssh ::
  "'s runner \<Rightarrow> string \<Rightarrow> string \<Rightarrow> ssh_login \<Rightarrow> bool \<Rightarrow> nat option \<Rightarrow> string list \<Rightarrow> ('s, string) action" where
  "run_ssh R host cmd lg check timeout redact =
     (let command = sudo_command (lg_sudo lg) cmd;
          secrets = filter (\<lambda>x. x \<noteq> []) redact;
          limit = limit_of timeout in
      andthen (rn_log R (''[ssh '' @ lg_user lg @ ''@'' @ host @ ''] $ '' @ mask secrets command))
      (if skips R then andthen (rn_log R ''[ssh] (mock/dry-run) skipped'') (ret [])
       else
         bnd (rn_ssh R \<lparr>rq_host = host, rq_command = command, rq_login = lg, rq_limit = limit\<rparr>)
         (\<lambda>(printed, how).
           let lines = map rstrip_newlines printed; output = join newline lines in
           andthen (foreach lines (\<lambda>l. rn_log R (''  '' @ mask secrets l)))
           (case how of
              TimedOut \<Rightarrow>
                andthen (rn_log R (''  [ssh] command exceeded '' @ show_nat limit
                    @ ''s and was abandoned (a restarted/spawned daemon likely holds the channel open)''))
                (if check then raise (command_error (''SSH command timed out after '' @ show_nat limit @ ''s''))
                 else ret output)
            | Exited rc \<Rightarrow>
                if check \<and> rc \<notin> {Some 0, None}
                then raise (command_error (''SSH command failed (rc='' @ show_int (the rc) @ '')''))
                else ret output))))"

definition run_ssh_script ::
  "'s runner \<Rightarrow> string \<Rightarrow> string list \<Rightarrow> ssh_login \<Rightarrow> bool \<Rightarrow> nat option \<Rightarrow> ('s, string) action" where
  "run_ssh_script R host lines lg check timeout = run_ssh R host (join '' && '' lines) lg check timeout []"

text \<open>A command on the management host; \<open>None\<close> of the channel is \<^verbatim>\<open>FileNotFoundError\<close>.\<close>

definition run_local ::
  "'s runner \<Rightarrow> string \<Rightarrow> string \<Rightarrow> bool \<Rightarrow> string list \<Rightarrow> bool \<Rightarrow> ('s, string) action" where
  "run_local R binary command check redact log_output =
     andthen (rn_log R (''[local] $ '' @ mask (filter (\<lambda>x. x \<noteq> []) redact) command))
     (if skips R then andthen (rn_log R ''[local] (mock/dry-run) skipped'') (ret [])
      else
        bnd (rn_process R command) (\<lambda>answer.
        case answer of
          None \<Rightarrow>
            let msg = ''Command not found: '' @ py_repr binary @ '' is not installed on the management host (PATH). ''
                  @ ''Install it in the backend image.'' in
            andthen (rn_log R (''[local] ! '' @ msg)) (raise (command_error msg))
        | Some (printed, rc) \<Rightarrow>
            let lines = map rstrip_newlines printed in
            andthen (provided log_output (foreach lines (\<lambda>l. rn_log R (''  '' @ l))))
            (if check \<and> rc \<noteq> 0 then raise (command_error (''Command failed (rc='' @ show_int rc @ '')''))
             else ret (join newline lines))))"

definition mock_http :: http_response where
  "mock_http = \<lparr>hr_status = 200, hr_json = Some (JObj []), hr_text = [], hr_headers = []\<rparr>"

text \<open>The headers come back with lower-case names, and a body that is not JSON as an empty object.\<close>

definition run_http ::
  "'s runner \<Rightarrow> string \<Rightarrow> string \<Rightarrow> int list \<Rightarrow> ('s, http_response) action" where
  "run_http R verb url expected =
     andthen (rn_log R (''[http] '' @ upper verb @ '' '' @ url))
     (if skips R then andthen (rn_log R ''[http] (mock/dry-run) skipped'') (ret mock_http)
      else
        bnd (rn_http R verb url) (\<lambda>r.
        andthen (rn_log R (''[http] -> '' @ show_int (hr_status r)))
        (if hr_status r \<notin> set expected then
           raise (command_error (''HTTP '' @ verb @ '' '' @ url @ '' returned '' @ show_int (hr_status r)))
         else
           ret (r\<lparr>hr_json := Some (case hr_json r of None \<Rightarrow> JObj [] | Some j \<Rightarrow> j),
                  hr_headers := fold (\<lambda>(k, v) d. AList.update (lower k) v d) (hr_headers r) []\<rparr>))))"

section \<open>Discovery\<close>

record initiator_report =
  ir_iqn :: "string option"
  ir_nqn :: "string option"
  ir_wwns :: "string list"

text \<open>\<^verbatim>\<open>_first\<close>: the first line that is not blank.\<close>

definition first_line :: "string \<Rightarrow> string option" where
  "first_line t = find (\<lambda>l. l \<noteq> []) (map strip (splitlines t))"

definition drop_0x :: "string \<Rightarrow> string" where
  "drop_0x s = (if starts_with ''0x'' s then drop 2 s else s)"

definition parse_wwns :: "string \<Rightarrow> string list" where
  "parse_wwns t = filter (\<lambda>l. l \<noteq> []) (map (\<lambda>l. drop_0x (lower (strip l))) (splitlines t))"

definition yes_no :: "string option \<Rightarrow> string" where
  "yes_no x = (if nonempty x = None then ''no'' else ''yes'')"

definition discover_initiators :: "'s runner \<Rightarrow> string \<Rightarrow> ssh_login \<Rightarrow> ('s, initiator_report) action" where
  "discover_initiators R host lg =
     (if skips R then
        let tag = replace_str ''.'' ''-'' host in
        andthen (rn_log R (''[discover] (mock/dry-run) synthetic initiators for '' @ host))
        (ret \<lparr>ir_iqn = Some (''iqn.1993-08.org.debian:01:'' @ tag),
              ir_nqn = Some (''nqn.2014-08.org.nvmexpress:uuid:'' @ tag),
              ir_wwns = [''21000024ff000001'', ''21000024ff000002'']\<rparr>)
      else
        bnd (run_ssh R host (''sed -n '' @ [CHR 0x27] @ ''s/^InitiatorName=//p'' @ [CHR 0x27]
              @ '' /etc/iscsi/initiatorname.iscsi 2>/dev/null'') lg False None []) (\<lambda>iqn_raw.
        bnd (run_ssh R host ''cat /etc/nvme/hostnqn 2>/dev/null'' lg False None []) (\<lambda>nqn_raw.
        bnd (run_ssh R host ''cat /sys/class/fc_host/*/port_name 2>/dev/null'' lg False None []) (\<lambda>wwn_raw.
        let found = \<lparr>ir_iqn = first_line iqn_raw, ir_nqn = first_line nqn_raw, ir_wwns = parse_wwns wwn_raw\<rparr> in
        andthen (rn_log R (''[discover] '' @ host @ '': iqn='' @ yes_no (ir_iqn found) @ '' nqn=''
            @ yes_no (ir_nqn found) @ '' wwns='' @ show_nat (length (ir_wwns found))))
        (ret found)))))"

text \<open>The existing iSCSI set-up of a host: interfaces bound to a NIC, and targets with their portal.\<close>

record iscsi_state =
  is_bound_nics :: "string list"
  is_ifaces :: "(string \<times> string) list"
  is_sessions :: "(string \<times> string) list"
  is_targets :: "(string \<times> string) list"

definition iface_nic :: "string list \<Rightarrow> string" where
  "iface_nic parts = (let cols = split_on '','' (parts ! 1) in
     if 3 < length cols then strip (cols ! 3) else [])"

definition parse_ifaces :: "string \<Rightarrow> (string \<times> string) list" where
  "parse_ifaces t =
     map (\<lambda>parts. (strip (parts ! 0), iface_nic parts))
       (filter (\<lambda>parts. 2 \<le> length parts \<and> iface_nic parts \<notin> {[], ''<empty>'', ''default'', ''(null)''})
         (map split_ws (splitlines t)))"

text \<open>\<^verbatim>\<open>s.rsplit(":", 1)[0]\<close>\<close>

definition before_last_colon :: "string \<Rightarrow> string" where
  "before_last_colon s =
     (if CHR '':'' \<in> set s then rev (tl (dropWhile (\<lambda>c. c \<noteq> CHR '':'') (rev s))) else s)"

text \<open>A session or node line: the target and its portal, if it names a target.\<close>

definition parse_target :: "string \<Rightarrow> (string \<times> string) option" where
  "parse_target line =
     (let toks = split_ws (replace_str ''tcp:'' [] line);
          portal = (case find (\<lambda>t. CHR '':'' \<in> set t \<and> \<not> contains ''iqn'' t) toks of
            None \<Rightarrow> [] | Some t \<Rightarrow> hd (split_on '','' t)) in
      case find (\<lambda>t. starts_with ''iqn.'' t \<or> starts_with ''eui.'' t \<or> starts_with ''naa.'' t) toks of
        None \<Rightarrow> None | Some t \<Rightarrow> Some (t, before_last_colon portal))"

definition parse_targets :: "string \<Rightarrow> (string \<times> string) list" where
  "parse_targets t = List.map_filter parse_target (splitlines t)"

definition mock_iscsi_state :: iscsi_state where
  "mock_iscsi_state =
     \<lparr>is_bound_nics = [''eth0''], is_ifaces = [(''phif_eth0'', ''eth0'')],
      is_sessions = [(''iqn.2010-06.com.purestorage:flasharray.mock0001'', ''10.10.10.10'')],
      is_targets = [(''iqn.2010-06.com.purestorage:flasharray.mock0001'', ''10.10.10.10'')]\<rparr>"

definition discover_iscsi_state :: "'s runner \<Rightarrow> string \<Rightarrow> ssh_login \<Rightarrow> ('s, iscsi_state) action" where
  "discover_iscsi_state R host lg =
     (if skips R then
        andthen (rn_log R (''[iscsi-state] (mock/dry-run) synthetic state for '' @ host)) (ret mock_iscsi_state)
      else
        bnd (run_ssh R host ''iscsiadm -m iface 2>/dev/null'' lg False None []) (\<lambda>iface_raw.
        bnd (run_ssh R host ''iscsiadm -m session 2>/dev/null'' lg False None []) (\<lambda>sess_raw.
        bnd (run_ssh R host ''iscsiadm -m node 2>/dev/null'' lg False None []) (\<lambda>node_raw.
        ret \<lparr>is_bound_nics = sorted_list_of_set (set (map snd (parse_ifaces iface_raw))),
             is_ifaces = parse_ifaces iface_raw, is_sessions = parse_targets sess_raw,
             is_targets = parse_targets node_raw\<rparr>))))"

text \<open>Interfaces: one entry per line that names an interface with an address.\<close>

definition nic_of_line :: "string \<Rightarrow> nic option" where
  "nic_of_line line =
     (let parts = split_ws line in
      if length parts < 2 then None
      else let name = strip (hd (split_on ''@'' (parts ! 0))); cidr = parts ! 1; addr = hd (split_on ''/'' cidr) in
        if name = [] \<or> name = ''lo'' then None
        else Some [(''value'', name), (''label'', name @ '' ('' @ addr @ '')''), (''address'', addr), (''cidr'', cidr)])"

definition nvme_source_of_line :: "string \<Rightarrow> nic option" where
  "nvme_source_of_line line =
     (let parts = split_ws line in
      if 2 \<le> length parts \<and> parts ! 0 \<noteq> ''lo'' then
        let ifname = parts ! 0; cidr = parts ! 1; ip = hd (split_on ''/'' cidr) in
        Some [(''value'', ip), (''label'', ip @ '' ('' @ ifname @ '')''), (''interface'', ifname),
              (''address'', ip), (''cidr'', cidr)]
      else None)"

definition fc_hba_of_line :: "string \<Rightarrow> nic option" where
  "fc_hba_of_line line =
     (let p = split_ws line in
      if 2 \<le> length p then
        let fchost = p ! 0; wwpn = drop_0x (lower (p ! 1));
            st = (if 2 < length p then p ! 2 else []);
            speed = (if 3 < length p then join '' '' (drop 3 p) else []) in
        Some [(''value'', wwpn),
              (''label'', strip (fchost @ '' '' @ wwpn @ '' ('' @ st @ '' '' @ speed @ '')'')),
              (''host'', fchost), (''wwpn'', wwpn), (''state'', st)]
      else None)"

definition interface_line :: "string \<Rightarrow> string \<Rightarrow> nic option" where
  "interface_line kind =
     (if kind = ''nics'' then nic_of_line else if kind = ''nvme_sources'' then nvme_source_of_line
      else fc_hba_of_line)"

definition mock_nic :: "string \<Rightarrow> string \<Rightarrow> nic" where
  "mock_nic n a = [(''value'', n), (''label'', n @ '' ('' @ a @ '')''), (''address'', a), (''cidr'', a @ ''/24'')]"

definition mock_source :: "string \<Rightarrow> string \<Rightarrow> nic" where
  "mock_source a n = [(''value'', a), (''label'', a @ '' ('' @ n @ '')''), (''interface'', n), (''address'', a), (''cidr'', a @ ''/24'')]"

definition mock_hba :: "string \<Rightarrow> string \<Rightarrow> nic" where
  "mock_hba h w = [(''value'', w), (''label'', h @ '' '' @ w @ '' (Online 16 Gbit)''), (''host'', h), (''wwpn'', w), (''state'', ''Online'')]"

definition mock_interfaces :: "string \<Rightarrow> nic list" where
  "mock_interfaces kind = dict_get
     [(''nics'', [mock_nic ''eth0'' ''10.10.10.5'', mock_nic ''eth1'' ''10.20.20.5'', mock_nic ''ens192'' ''192.168.1.5'']),
      (''nvme_sources'', [mock_source ''192.168.10.11'' ''eth1'', mock_source ''192.168.20.11'' ''ens192'']),
      (''fc_hbas'', [mock_hba ''host7'' ''21000024ff000001'', mock_hba ''host8'' ''21000024ff000002''])] kind []"


definition interface_command :: "string \<Rightarrow> string" where
  "interface_command kind =
     (if kind = ''fc_hbas'' then
        ''for h in /sys/class/fc_host/*; do [ -e '' @ [CHR 0x22] @ ''$h'' @ [CHR 0x22] @ '' ] || continue; ''
        @ ''echo '' @ [CHR 0x22] @ ''$(basename $h) $(cat $h/port_name 2>/dev/null) ''
        @ ''$(cat $h/port_state 2>/dev/null) $(cat $h/speed 2>/dev/null)'' @ [CHR 0x22] @ ''; done''
      else ''ip -o -4 addr show 2>/dev/null | awk '' @ [CHR 0x27] @ ''{print $2'' @ [CHR 0x22] @ '' '' @ [CHR 0x22]
        @ ''$4}'' @ [CHR 0x27])"

definition discover_interfaces :: "'s runner \<Rightarrow> string \<Rightarrow> string \<Rightarrow> ssh_login \<Rightarrow> ('s, nic list) action" where
  "discover_interfaces R host kind lg =
     (if skips R then
        andthen (rn_log R (''[discover] (mock/dry-run) synthetic '' @ kind @ '' for '' @ host))
          (ret (mock_interfaces kind))
      else if kind \<in> {''nics'', ''nvme_sources'', ''fc_hbas''} then
        bnd (run_ssh R host (interface_command kind) lg False None []) (\<lambda>listing.
        ret (List.map_filter (interface_line kind) (splitlines listing)))
      else ret [])"


section \<open>What the log shows\<close>

text \<open>The accumulator only goes in front of the first piece.\<close>

lemma split_acc_append: "split_acc sep (acc @ base) s =
    (rev base @ hd (split_acc sep acc s)) # tl (split_acc sep acc s)"
  by (induction sep acc s rule: split_acc.induct) (auto simp flip: append_Cons)

lemma split_acc_single: "split_acc sep [c] s = (c # hd (split_acc sep [] s)) # tl (split_acc sep [] s)"
  using split_acc_append [of sep "[]" "[c]" s] by simp

lemma hd_split_prefix: "\<exists>t. s = hd (split_acc sep [] s) @ t"
  using join_not_Nil_first [of "split_acc sep [] s" sep] join_split_acc [of sep "[]" s] by auto

lemma split_pieces: "sep \<noteq> [] \<Longrightarrow> p \<in> set (split_acc sep [] s) \<Longrightarrow> \<not> contains sep p"
proof (induction "length s" arbitrary: s p rule: less_induct)
  case less
  show ?case
  proof (cases s)
    case Nil
    then show ?thesis using less.prems by simp
  next
    case (Cons c cs)
    show ?thesis
    proof (cases "starts_with sep (c # cs)")
      case True
      then have "p = [] \<or> p \<in> set (split_acc sep [] (drop (length sep - 1) cs))"
        using less.prems Cons by simp
      moreover have "length (drop (length sep - 1) cs) < length s" using Cons by simp
      ultimately show ?thesis
        using less.hyps [of "drop (length sep - 1) cs" p] less.prems(1) by (cases "p = []") auto
    next
      case False
      then have "p = c # hd (split_acc sep [] cs) \<or> p \<in> set (split_acc sep [] cs)"
        using less.prems Cons by (auto simp: split_acc_single dest: list.set_sel(2) [OF split_acc_not_Nil])
      then show ?thesis
      proof
        assume p: "p = c # hd (split_acc sep [] cs)"
        obtain t where t: "cs = hd (split_acc sep [] cs) @ t" using hd_split_prefix by blast
        have "\<not> starts_with sep p"
        proof
          assume "starts_with sep p"
          then have "starts_with sep (p @ t)" by (auto simp: starts_with_iff)
          then show False using False p t by simp
        qed
        moreover have "\<not> contains sep (hd (split_acc sep [] cs))"
          using less.hyps [of cs] less.prems(1) Cons by simp
        ultimately show ?thesis using p by simp
      qed (use less.hyps [of cs] less.prems(1) Cons in simp)
    qed
  qed
qed

lemma starts_with_before:
  assumes "starts_with x (a @ c # r)" and "c \<notin> set x"
  shows "starts_with x a"
proof -
  obtain t where "a @ c # r = x @ t" using assms(1) by (auto simp: starts_with_iff)
  then show ?thesis
    using assms(2) by (auto simp: append_eq_append_conv2 starts_with_iff Cons_eq_append_conv)
qed

lemma contains_before: "contains x (a @ c # r) \<Longrightarrow> c \<notin> set x \<Longrightarrow> x \<noteq> [] \<Longrightarrow> contains x a \<or> contains x r"
proof (induction a)
  case Nil
  then show ?case by (cases x) (auto simp: starts_with_def)
next
  case (Cons b a)
  then show ?case using starts_with_before [of x "b # a" c r] by auto
qed

definition stars :: string where "stars = ''***''"

lemma contains_stars:
  assumes "contains x (a @ stars @ b)" and "CHR ''*'' \<notin> set x" and "x \<noteq> []"
  shows "contains x a \<or> contains x b"
  using contains_before [of x a "CHR ''*''" "''**'' @ b"] contains_before [of x "[]" "CHR ''*''" "''*'' @ b"]
    contains_before [of x "[]" "CHR ''*''" b] assms by (auto simp: stars_def)

lemma contains_join:
  "contains x (join stars ps) \<Longrightarrow> CHR ''*'' \<notin> set x \<Longrightarrow> x \<noteq> [] \<Longrightarrow> \<exists>p \<in> set ps. contains x p"
proof (induction ps)
  case (Cons p ps)
  show ?case
  proof (cases ps)
    case Nil
    then show ?thesis using Cons.prems by simp
  next
    case (Cons q qs)
    then have "contains x p \<or> contains x (join stars ps)"
      using contains_stars [of x p "join stars ps"] Cons.prems by simp
    then show ?thesis using Cons.IH Cons.prems by auto
  qed
qed simp

lemma contains_mono: "contains x p \<Longrightarrow> contains p t \<Longrightarrow> contains x t"
  by (auto simp: contains_iff) (metis append.assoc)

lemma piece_contained: "p \<in> set ps \<Longrightarrow> contains p (join sep ps)"
proof (induction sep ps rule: join.induct)
  case (3 sep a b bs)
  show ?case
  proof (cases "p = a")
    case True
    then show ?thesis by (auto simp: contains_iff)
  next
    case False
    then have "contains p (join sep (b # bs))" using 3 by simp
    then show ?thesis by (auto simp: contains_iff) (metis append.assoc)
  qed
next
  case (2 sep a)
  then have "p = [] @ a @ []" by simp
  then show ?case by (metis contains_iff join.simps(2) self_append_conv2 append_Nil2)
qed simp

lemma contains_replace:
  assumes "contains x (replace_str y stars t)" and "CHR ''*'' \<notin> set x" and "x \<noteq> []" and "y \<noteq> []"
  shows "contains x t \<and> x \<noteq> y"
proof -
  obtain p where p: "p \<in> set (split_on y t)" "contains x p"
    using contains_join assms(1-3) unfolding replace_str_def by blast
  have "contains p t" using piece_contained [OF p(1), of y] by (simp add: join_split_on)
  moreover have "\<not> contains y p" using split_pieces assms(4) p(1) by (simp add: split_on_def)
  ultimately show ?thesis using contains_mono p(2) by blast
qed

lemma mask_hides:
  assumes "\<forall>x \<in> set secrets. x \<noteq> [] \<and> CHR ''*'' \<notin> set x" and "x \<in> set secrets"
  shows "\<not> contains x (mask secrets t)"
proof -
  have keep: "\<not> contains x u \<Longrightarrow> \<not> contains x (fold (\<lambda>y v. replace_str y ''***'' v) ys u)"
    if "set ys \<subseteq> set secrets" for ys u
    using that
  proof (induction ys arbitrary: u)
    case (Cons y ys)
    then have "\<not> contains x (replace_str y ''***'' u)"
      using contains_replace [of x y u] assms by (auto simp: stars_def)
    then show ?case using Cons by simp
  qed simp
  obtain ys zs where s: "secrets = ys @ x # zs" using assms(2) by (metis split_list)
  have "\<not> contains x (replace_str x ''***'' u)" for u
    using contains_replace [of x x u] assms by (auto simp: stars_def)
  then have "\<not> contains x (fold (\<lambda>y v. replace_str y ''***'' v) zs (replace_str x ''***''
      (fold (\<lambda>y v. replace_str y ''***'' v) ys t)))"
    using s by (intro keep) auto
  then show ?thesis using s by (simp add: mask_def)
qed


text \<open>
  The lines a command may put in the log: its own line and the lines it printed, masked, and the
  runner's two notices.
\<close>

definition logged_line :: "string \<Rightarrow> string \<Rightarrow> nat \<Rightarrow> string list \<Rightarrow> string \<Rightarrow> bool" where
  "logged_line user host limit secrets l \<longleftrightarrow>
     (\<exists>t. l \<in> {''[ssh '' @ user @ ''@'' @ host @ ''] $ '' @ t, ''  '' @ t} \<and> (\<forall>x \<in> set secrets. \<not> contains x t)) \<or>
     l = ''[ssh] (mock/dry-run) skipped'' \<or>
     l = ''  [ssh] command exceeded '' @ show_nat limit
       @ ''s and was abandoned (a restarted/spawned daemon likely holds the channel open)''"

lemma keeps_logging:
  assumes "\<And>l s. rn_log R l s = (Inr (), s @ [l])" and "ok l"
  shows "keeps (\<lambda>s. \<exists>new. s = s0 @ new \<and> list_all ok new) (rn_log R l)"
proof (rule keepsI)
  fix s assume "\<exists>new. s = s0 @ new \<and> list_all ok new"
  then obtain new where "s = s0 @ new" "list_all ok new" by blast
  then have "final (rn_log R l) s = s0 @ (new @ [l])" "list_all ok (new @ [l])"
    using assms by (simp_all add: final_def)
  then show "\<exists>new. final (rn_log R l) s = s0 @ new \<and> list_all ok new" by blast
qed



text \<open>A runner whose log is its state, and whose host echoes the password it is given.\<close>

definition echoing_runner :: "string list runner" where
  "echoing_runner = \<lparr>rn_log = (\<lambda>l s. (Inr (), s @ [l])), rn_mock = False, rn_dry_run = False,
     rn_ssh = (\<lambda>q s. (Inr ([''user hunter2'', ''ok''], Exited (Some 0)), s)),
     rn_process = (\<lambda>c s. (Inr None, s)), rn_http = (\<lambda>v u s. (Inr mock_http, s))\<rparr>"

definition root_login :: ssh_login where
  "root_login = \<lparr>lg_user = ''root'', lg_password = None, lg_key = None, lg_port = 22, lg_sudo = False\<rparr>"


end
