(* ===== verification/Json_Text.thy ===== *)
theory Json_Text
  imports Py_Numbers
begin

text \<open>
  \<^verbatim>\<open>json.loads\<close> of the standard library, which the code uses on the output of commands. A text
  is the list of its UTF-8 bytes. Every syntax error is a \<^verbatim>\<open>JSONDecodeError\<close>, whose text (the
  position of the error) is left empty. Values the type \<open>json\<close> does not have (\<^verbatim>\<open>NaN\<close>, the
  infinities, a lone surrogate) are the \<open>unmodelled\<close> error.
\<close>

definition json_error :: "exn + 'a" where
  "json_error = Inl (Exn ''JSONDecodeError'' [])"

definition json_space :: "char \<Rightarrow> bool" where
  "json_space c \<longleftrightarrow> c \<in> {CHR '' '', CHR 0x09, CHR 0x0A, CHR 0x0D}"

definition skip_space :: "string \<Rightarrow> string" where
  "skip_space s = dropWhile json_space s"

section \<open>Strings\<close>

definition hex_nat :: "char \<Rightarrow> nat option" where
  "hex_nat c = (let n = of_char c :: nat in
     if 48 \<le> n \<and> n \<le> 57 then Some (n - 48)
     else if 65 \<le> n \<and> n \<le> 70 then Some (n - 55)
     else if 97 \<le> n \<and> n \<le> 102 then Some (n - 87) else None)"

fun hex_number :: "nat \<Rightarrow> string \<Rightarrow> nat option" where
  "hex_number n [] = Some n"
| "hex_number n (c # cs) = (case hex_nat c of None \<Rightarrow> None | Some d \<Rightarrow> hex_number (16 * n + d) cs)"

text \<open>The four digits of \<^verbatim>\<open>\uXXXX\<close>, and what follows them.\<close>

definition unicode_escape :: "string \<Rightarrow> (nat \<times> string) option" where
  "unicode_escape s =
     (if length s < 4 then None else map_option (\<lambda>n. (n, drop 4 s)) (hex_number 0 (take 4 s)))"

definition utf8 :: "nat \<Rightarrow> string" where
  "utf8 n =
     (if n < 128 then [char_of n]
      else if n < 2048 then [char_of (192 + n div 64), char_of (128 + n mod 64)]
      else if n < 65536 then
        [char_of (224 + n div 4096), char_of (128 + n div 64 mod 64), char_of (128 + n mod 64)]
      else
        [char_of (240 + n div 262144), char_of (128 + n div 4096 mod 64),
         char_of (128 + n div 64 mod 64), char_of (128 + n mod 64)])"

text \<open>The character after a backslash.\<close>

definition simple_escape :: "char \<Rightarrow> char option" where
  "simple_escape c =
     map_of [(CHR 0x22, CHR 0x22), (CHR 0x5C, CHR 0x5C), (CHR ''/'', CHR ''/''), (CHR ''b'', CHR 0x08),
             (CHR ''f'', CHR 0x0C), (CHR ''n'', CHR 0x0A), (CHR ''r'', CHR 0x0D), (CHR ''t'', CHR 0x09)] c"

text \<open>One escape, from after the backslash: the bytes it stands for, and what follows.\<close>

definition escape :: "string \<Rightarrow> exn + string \<times> string" where
  "escape s = (case s of [] \<Rightarrow> json_error
     | c # r \<Rightarrow>
         if c \<noteq> CHR ''u'' then (case simple_escape c of None \<Rightarrow> json_error | Some d \<Rightarrow> Inr ([d], r))
         else (case unicode_escape r of
             None \<Rightarrow> json_error
           | Some (n, r') \<Rightarrow>
               if 0xD800 \<le> n \<and> n < 0xDC00 then
                 (case (if take 2 r' = [CHR 0x5C, CHR ''u''] then unicode_escape (drop 2 r') else None) of
                    Some (m, r'') \<Rightarrow>
                      if 0xDC00 \<le> m \<and> m < 0xE000
                      then Inr (utf8 (0x10000 + (n - 0xD800) * 1024 + (m - 0xDC00)), r'') else unmodelled
                  | None \<Rightarrow> unmodelled)
               else if 0xDC00 \<le> n \<and> n < 0xE000 then unmodelled
               else Inr (utf8 n, r')))"

lemma unicode_escape_shorter: "unicode_escape s = Some (n, r) \<Longrightarrow> length r < length s"
  by (auto simp: unicode_escape_def split: if_splits)

lemma escape_shorter: "escape s = Inr (b, r) \<Longrightarrow> length r < length s"
proof -
  assume e: "escape s = Inr (b, r)"
  have two: "unicode_escape (drop 2 t) = Some (m, r2) \<Longrightarrow> length r2 \<le> length t" for t m r2
    using unicode_escape_shorter [of "drop 2 t" m r2] by simp
  from e show ?thesis
    by (auto simp: escape_def json_error_def unmodelled_def split: list.splits if_splits option.splits
        dest!: unicode_escape_shorter two)
qed

text \<open>A string, from after the opening quote.\<close>

function json_chars :: "string \<Rightarrow> exn + string \<times> string" where
  "json_chars [] = json_error"
| "json_chars (c # cs) =
     (if c = CHR 0x22 then Inr ([], cs)
      else if c = CHR 0x5C then
        (case escape cs of
           Inl e \<Rightarrow> Inl e
         | Inr (b, r) \<Rightarrow> ebind (json_chars r) (\<lambda>(s, rest). Inr (b @ s, rest)))
      else if (of_char c :: nat) < 32 then json_error
      else ebind (json_chars cs) (\<lambda>(s, rest). Inr (c # s, rest)))"
  by pat_completeness auto
termination
  by (relation "measure length") (auto dest!: escape_shorter [OF sym] escape_shorter)

section \<open>Numbers\<close>

definition fraction_part :: "string \<Rightarrow> string" where
  "fraction_part s = (case s of
     c # r \<Rightarrow> (if c = CHR ''.'' \<and> takeWhile is_digit r \<noteq> [] then c # takeWhile is_digit r else []) | [] \<Rightarrow> [])"

definition exponent_part :: "string \<Rightarrow> string" where
  "exponent_part s = (case s of
     c # r \<Rightarrow>
       (if c = CHR ''e'' \<or> c = CHR ''E'' then
          (let sign = (if r \<noteq> [] \<and> (hd r = CHR ''+'' \<or> hd r = CHR ''-'') then [hd r] else []);
               ds = takeWhile is_digit (drop (length sign) r)
           in if ds = [] then [] else c # sign @ ds)
        else [])
   | [] \<Rightarrow> [])"

text \<open>The digits before the point: a zero alone, or digits that do not start with zero.\<close>

definition integer_part :: "string \<Rightarrow> string" where
  "integer_part s = (case s of
     c # r \<Rightarrow> (if c = CHR ''0'' then [c] else takeWhile is_digit s) | [] \<Rightarrow> [])"

definition json_number :: "string \<Rightarrow> exn + json \<times> string" where
  "json_number s =
     (let sign = (if s \<noteq> [] \<and> hd s = CHR ''-'' then ''-'' else []);
          ip = integer_part (drop (length sign) s);
          r1 = drop (length sign + length ip) s;
          fp = fraction_part r1; ep = exponent_part (drop (length fp) r1);
          rest = drop (length fp + length ep) r1
      in if ip = [] then json_error
         else if fp = [] \<and> ep = [] then
           ebind (int_of_str (sign @ ip)) (\<lambda>i. Inr (JInt i, rest))
         else ebind (float_of_str (sign @ ip @ fp @ ep)) (\<lambda>x.
           case x of Fin r \<Rightarrow> Inr (JFloat r, rest) | _ \<Rightarrow> unmodelled))"

section \<open>Values\<close>

definition literals :: "(string \<times> (exn + json)) list" where
  "literals = [(''null'', Inr JNull), (''true'', Inr (JBool True)), (''false'', Inr (JBool False)),
     (''NaN'', unmodelled), (''Infinity'', unmodelled), (''-Infinity'', unmodelled)]"

definition json_scalar :: "string \<Rightarrow> exn + json \<times> string" where
  "json_scalar s =
     (case find (\<lambda>(w, v). starts_with w s) literals of
        Some (w, v) \<Rightarrow> ebind v (\<lambda>x. Inr (x, drop (length w) s))
      | None \<Rightarrow> json_number s)"

text \<open>
  The recursion is bounded by fuel: a value or a step inside a list or an object uses a character,
  so \<open>2 * length s + 2\<close> is never used up (Python's own bound, on the depth of nesting, is not
  modelled).
\<close>

fun json_value :: "nat \<Rightarrow> string \<Rightarrow> exn + json \<times> string"
  and json_items :: "nat \<Rightarrow> string \<Rightarrow> exn + json list \<times> string"
  and json_pairs :: "nat \<Rightarrow> dict \<Rightarrow> string \<Rightarrow> exn + dict \<times> string" where
  "json_value 0 s = json_error"
| "json_value (Suc n) s = (case s of [] \<Rightarrow> json_error
     | c # r \<Rightarrow>
        if c = CHR 0x22 then ebind (json_chars r) (\<lambda>(t, rest). Inr (JStr t, rest))
        else if c = CHR ''['' then
          (let r' = skip_space r in
           if r' \<noteq> [] \<and> hd r' = CHR '']'' then Inr (JList [], tl r')
           else ebind (json_items n r') (\<lambda>(xs, rest). Inr (JList xs, rest)))
        else if c = CHR ''{'' then
          (let r' = skip_space r in
           if r' \<noteq> [] \<and> hd r' = CHR ''}'' then Inr (JObj [], tl r')
           else ebind (json_pairs n [] r') (\<lambda>(d, rest). Inr (JObj d, rest)))
        else json_scalar s)"
| "json_items 0 s = json_error"
| "json_items (Suc n) s =
     ebind (json_value n s) (\<lambda>(x, r).
     case skip_space r of
       [] \<Rightarrow> json_error
     | c # r' \<Rightarrow>
         if c = CHR '']'' then Inr ([x], r')
         else if c = CHR '','' then ebind (json_items n (skip_space r')) (\<lambda>(xs, rest). Inr (x # xs, rest))
         else json_error)"
| "json_pairs 0 d s = json_error"
| "json_pairs (Suc n) d s =
     (case s of [] \<Rightarrow> json_error
      | q # r \<Rightarrow>
         if q \<noteq> CHR 0x22 then json_error
         else ebind (json_chars r) (\<lambda>(k, r1).
           case skip_space r1 of
             [] \<Rightarrow> json_error
           | c # r2 \<Rightarrow>
               if c \<noteq> CHR '':'' then json_error
               else ebind (json_value n (skip_space r2)) (\<lambda>(x, r3).
                 case skip_space r3 of
                   [] \<Rightarrow> json_error
                 | e # r4 \<Rightarrow>
                     if e = CHR ''}'' then Inr (AList.update k x d, r4)
                     else if e = CHR '','' then json_pairs n (AList.update k x d) (skip_space r4)
                     else json_error)))"

definition json_loads :: "string \<Rightarrow> exn + json" where
  "json_loads s =
     ebind (json_value (2 * length s + 2) (skip_space s)) (\<lambda>(x, rest).
     if skip_space rest = [] then Inr x else json_error)"

end
