(* ===== verification/Proxmox_Base.thy ===== *)
theory Proxmox_Base
  imports Connector_Base Job_Runner Json_Text
begin

text \<open>
  The Proxmox VE connector, \<^verbatim>\<open>connectors/proxmox/connector.py\<close>: its context, the commands it runs
  on the nodes (with the retry on a lock timeout), its small helpers, the nodes of the cluster, and
  the choice of a node for a new VM.

  The nodes and the array are outside. They are the parameter \<open>E\<close>: each answer is an arbitrary
  function of what has happened so far (the trace of the state) and of the call. Every call, log
  line and pause is appended to the trace. The settings of the target are texts, as the connector's
  \<^verbatim>\<open>target_schema\<close> declares them. An \<^verbatim>\<open>asyncio.Lock\<close> orders the commands of concurrent jobs;
  within the one operation that is modelled at a time it has no effect.
\<close>

section \<open>Calls and events\<close>

datatype pve_call =
    Ssh ssh_request
  | ArrayInfo
  | Members string
  | RemoveHost string string
  | DeleteHost string
  | RegisterGroup string "host_spec list"
  | VolumeSerial string
  | DataInterfaces string
  | TargetPorts
  | CreateVolume string string
  | ConnectVolume string string
  | CreateSnapshot string "string option"
  | CloneVolume string string
  | ExtendVolume string string
  | VolumeExists string bool
  | EnsureVolumeGroup string
  | CreateFilesystem string
  | CreateNfsExport string string string
  | NfsDataInterfaces
  | NfsExports string
  | DeleteNfsExport string
  | DeleteFilesystem string bool

datatype pve_event =
    Asked pve_call bool
  | Line string
  | Pause nat

section \<open>The context and the connector's state\<close>

record pve_env =
  pe_target :: hypervisor_target
  pe_array :: bool
  pe_endpoint :: string
  pe_token :: "string option"
  pe_dry_run :: bool
  pe_mock :: bool
  pe_plugin_path :: string
  pe_plugin :: "string option"
  pe_iteration :: "string set \<Rightarrow> string list"
  ssh_reply :: "pve_event list \<Rightarrow> pve_call \<Rightarrow> exn + string list \<times> ssh_exit"
  unit_reply :: "pve_event list \<Rightarrow> pve_call \<Rightarrow> exn + unit"
  bool_reply :: "pve_event list \<Rightarrow> pve_call \<Rightarrow> exn + bool"
  texts_reply :: "pve_event list \<Rightarrow> pve_call \<Rightarrow> exn + string list"
  dict_reply :: "pve_event list \<Rightarrow> pve_call \<Rightarrow> exn + dict"
  volume_reply :: "pve_event list \<Rightarrow> pve_call \<Rightarrow> exn + string option option"
  group_reply :: "pve_event list \<Rightarrow> pve_call \<Rightarrow> exn + registration"

text \<open>
  The attributes the connector sets on itself (\<^verbatim>\<open>_host_override\<close>, \<^verbatim>\<open>_pve_boot_order\<close>) and the
  module's caches (\<^verbatim>\<open>_NODE_RR\<close>, and \<^verbatim>\<open>_RR_REACHABLE\<close> of the running event loop).
\<close>

record pve =
  pv_host_override :: string
  pv_boot_order :: string
  pv_cursor :: "(string \<times> nat) list"
  pv_reachable :: "(string \<times> string list) list"
  pv_trace :: "pve_event list"

type_synonym 'a pve_action = "(pve, 'a) action"

definition new_pve :: pve where
  "new_pve = \<lparr>pv_host_override = [], pv_boot_order = [], pv_cursor = [], pv_reachable = [], pv_trace = []\<rparr>"

definition record_event :: "pve_event \<Rightarrow> unit pve_action" where
  "record_event e = modify (\<lambda>s. s\<lparr>pv_trace := pv_trace s @ [e]\<rparr>)"

definition say :: "string \<Rightarrow> unit pve_action" where
  "say l = record_event (Line l)"

definition wait :: "nat \<Rightarrow> unit pve_action" where
  "wait n = record_event (Pause n)"

text \<open>A call outside; the event says whether it returned.\<close>

definition call_out :: "(pve_event list \<Rightarrow> pve_call \<Rightarrow> exn + 'a) \<Rightarrow> pve_call \<Rightarrow> 'a pve_action" where
  "call_out f c = (\<lambda>s. let r = f (pv_trace s) c in
     (r, s\<lparr>pv_trace := pv_trace s @ [Asked c (case r of Inl _ \<Rightarrow> False | Inr _ \<Rightarrow> True)]\<rparr>))"

definition pve_runner :: "pve_env \<Rightarrow> pve runner" where
  "pve_runner E =
     \<lparr>rn_log = say, rn_mock = pe_mock E, rn_dry_run = pe_dry_run E,
      rn_ssh = (\<lambda>q. call_out (ssh_reply E) (Ssh q)),
      rn_process = (\<lambda>c. ret None), rn_http = (\<lambda>v u. raise (Exn ''NotUsed'' []))\<rparr>"

definition pve_array_ops :: "pve_env \<Rightarrow> pve array_ops" where
  "pve_array_ops E =
     \<lparr>arr_info = call_out (dict_reply E) ArrayInfo,
      arr_members = (\<lambda>g. call_out (texts_reply E) (Members g)),
      arr_remove_host = (\<lambda>g h. call_out (unit_reply E) (RemoveHost g h)),
      arr_delete_host = (\<lambda>h. call_out (unit_reply E) (DeleteHost h)),
      arr_register = (\<lambda>g specs. call_out (group_reply E) (RegisterGroup g specs)),
      arr_volume_serial = (\<lambda>v. bnd (call_out (volume_reply E) (VolumeSerial v))
        (\<lambda>x. ret (case x of None \<Rightarrow> None | Some y \<Rightarrow> y)))\<rparr>"

definition pve_context :: "pve_env \<Rightarrow> pve connector_context" where
  "pve_context E =
     \<lparr>ctx_target = pe_target E, ctx_emit = say,
      ctx_array = (if pe_array E then Some (pve_array_ops E) else None), ctx_array_token = pe_token E\<rparr>"

section \<open>Settings\<close>

text \<open>\<^verbatim>\<open>target.get(k)\<close>, a text.\<close>

definition setting :: "pve_env \<Rightarrow> string \<Rightarrow> string option" where
  "setting E k = (case target_get (pe_target E) k JNull of JStr s \<Rightarrow> Some s | _ \<Rightarrow> None)"

text \<open>\<^verbatim>\<open>a or b or ...\<close> over texts, with a last default.\<close>

fun or_text :: "string list \<Rightarrow> string \<Rightarrow> string" where
  "or_text [] dflt = dflt"
| "or_text (x # xs) dflt = (if x \<noteq> [] then x else or_text xs dflt)"

definition setting_or :: "pve_env \<Rightarrow> string \<Rightarrow> string \<Rightarrow> string" where
  "setting_or E k dflt = (case setting E k of None \<Rightarrow> dflt | Some s \<Rightarrow> s)"

definition PLUGIN_STORAGE_TYPE :: string where "PLUGIN_STORAGE_TYPE = ''purefa''"

definition PLUGIN_DEST :: string where
  "PLUGIN_DEST = ''/usr/share/perl5/PVE/Storage/Custom/PureFAPlugin.pm''"

definition pve_protocol :: "pve_env \<Rightarrow> string" where
  "pve_protocol E = lower (or_text [setting_or E ''protocol'' []] ''nvme-tcp'')"

definition pve_storage_id :: "pve_env \<Rightarrow> string \<Rightarrow> string" where
  "pve_storage_id E override = or_text [override, setting_or E ''storage_id'' []] PLUGIN_STORAGE_TYPE"

definition ssh_kwargs :: "pve_env \<Rightarrow> ssh_login" where
  "ssh_kwargs E =
     \<lparr>lg_user = setting_or E ''ssh_user'' ''root'', lg_password = nonempty (setting E ''ssh_password''),
      lg_key = nonempty (setting E ''ssh_key''), lg_port = 22, lg_sudo = False\<rparr>"

definition conn_host_setting :: "pve_env \<Rightarrow> string" where
  "conn_host_setting E = or_text [setting_or E ''node_host'' []] (setting_or E ''host'' [])"

definition pve_host :: "pve_env \<Rightarrow> string pve_action" where
  "pve_host E =
     bnd (gets pv_host_override) (\<lambda>override.
     if override \<noteq> [] then ret override
     else if conn_host_setting E = []
       then raise (Exn ''ConnectionValidationError'' ''No Proxmox node_host configured'')
     else ret (conn_host_setting E))"

definition is_mock_or_dry :: "pve_env \<Rightarrow> bool" where
  "is_mock_or_dry E \<longleftrightarrow> pe_dry_run E \<or> pe_mock E"

section \<open>Commands on the nodes\<close>

text \<open>A suffix of the text starts with what \<open>p\<close> accepts: \<^verbatim>\<open>re.search\<close>.\<close>

fun found_in :: "(string \<Rightarrow> bool) \<Rightarrow> string \<Rightarrow> bool" where
  "found_in p [] = p []"
| "found_in p (c # cs) = (p (c # cs) \<or> found_in p cs)"

text \<open>\<^verbatim>\<open>lock-\d+\.conf\<close>\<close>

definition lock_conf_at :: "string \<Rightarrow> bool" where
  "lock_conf_at s \<longleftrightarrow> starts_with ''lock-'' s \<and>
     (let r = drop 5 s in takeWhile is_digit r \<noteq> [] \<and> starts_with ''.conf'' (dropWhile is_digit r))"

text \<open>\<^verbatim>\<open>_LOCK_TIMEOUT_RE.search\<close>\<close>

definition is_lock_timeout :: "string \<Rightarrow> bool" where
  "is_lock_timeout t \<longleftrightarrow>
     (let s = lower t in
      contains (''can'' @ [CHR 0x27] @ ''t lock file'') s \<or> contains ''got timeout'' s \<or> found_in lock_conf_at s)"

text \<open>
  \<^verbatim>\<open>_locked_retry\<close>, from the attempt \<open>i\<close> on; \<open>left\<close> is the number of attempts after this one.
\<close>

fun locked_retry :: "nat \<Rightarrow> nat \<Rightarrow> nat \<Rightarrow> string pve_action \<Rightarrow> string pve_action" where
  "locked_retry 0 i delay thunk = thunk"
| "locked_retry (Suc left) i delay thunk =
     bnd (tryc (bnd thunk (\<lambda>out. ret (if is_lock_timeout out then None else Some out)))
           (\<lambda>exc. if is_lock_timeout (exn_text exc) then ret None else raise exc)) (\<lambda>r.
     case r of
       Some out \<Rightarrow> ret out
     | None \<Rightarrow> andthen (wait (delay * (i + 1))) (locked_retry left (i + 1) delay thunk))"

definition ssh_on :: "pve_env \<Rightarrow> string \<Rightarrow> string \<Rightarrow> bool \<Rightarrow> nat option \<Rightarrow> string pve_action" where
  "ssh_on E host command check timeout =
     locked_retry 5 0 2 (run_ssh (pve_runner E) host command (ssh_kwargs E) check timeout [])"

definition ssh_script_on :: "pve_env \<Rightarrow> string \<Rightarrow> string list \<Rightarrow> bool \<Rightarrow> nat option \<Rightarrow> string pve_action" where
  "ssh_script_on E host lines check timeout =
     locked_retry 5 0 2 (run_ssh_script (pve_runner E) host lines (ssh_kwargs E) check timeout)"

definition ssh :: "pve_env \<Rightarrow> string \<Rightarrow> bool \<Rightarrow> nat option \<Rightarrow> string pve_action" where
  "ssh E command check timeout = bnd (pve_host E) (\<lambda>h. ssh_on E h command check timeout)"

definition ssh_script :: "pve_env \<Rightarrow> string list \<Rightarrow> bool \<Rightarrow> nat option \<Rightarrow> string pve_action" where
  "ssh_script E lines check timeout = bnd (pve_host E) (\<lambda>h. ssh_script_on E h lines check timeout)"

section \<open>Names and lists\<close>

text \<open>\<^verbatim>\<open>s.strip(chars)\<close>\<close>

definition strip_chars :: "string \<Rightarrow> string \<Rightarrow> string" where
  "strip_chars cs s = rev (dropWhile (\<lambda>c. c \<in> set cs) (rev (dropWhile (\<lambda>c. c \<in> set cs) s)))"

definition fa_char :: "char \<Rightarrow> bool" where
  "fa_char c \<longleftrightarrow> is_alnum c \<or> c = CHR ''-''"

definition fa_name :: "string \<Rightarrow> string" where
  "fa_name s = or_text [strip_chars ''-'' (map (\<lambda>c. if fa_char c then c else CHR ''-'') s)] ''pve-node''"

text \<open>\<^verbatim>\<open>[s.strip() for s in value.split(",") if s.strip()]\<close>\<close>

definition split_csv :: "string \<Rightarrow> string list" where
  "split_csv s = filter (\<lambda>x. x \<noteq> []) (map strip (split_on '','' s))"

text \<open>A \<^verbatim>\<open>MULTISELECT\<close> value: a list or a comma separated text.\<close>

definition as_list :: "json \<Rightarrow> exn + string list" where
  "as_list x = (case x of
     JNull \<Rightarrow> Inr []
   | JList xs \<Rightarrow> ebind (emap str_of xs) (\<lambda>ys. Inr (filter (\<lambda>y. y \<noteq> []) (map strip ys)))
   | _ \<Rightarrow> ebind (str_of x) (\<lambda>s. Inr (split_csv s)))"

definition is_hex_char :: "char \<Rightarrow> bool" where
  "is_hex_char c \<longleftrightarrow> c \<in> set ''0123456789abcdef''"

fun pairs_of :: "string \<Rightarrow> string list" where
  "pairs_of (a # b # r) = [a, b] # pairs_of r"
| "pairs_of _ = []"

definition normalize_wwn :: "string \<Rightarrow> string" where
  "normalize_wwn w =
     (let tok = drop_0x (lower (strip w)) in
      if CHR '':'' \<in> set tok then tok
      else if length tok = 16 \<and> list_all is_hex_char tok then join '':'' (pairs_of tok)
      else tok)"

text \<open>\<^verbatim>\<open>str(x).lower() in ("1", "true", "yes", "on")\<close>\<close>

definition flag_on :: "string \<Rightarrow> bool" where
  "flag_on s \<longleftrightarrow> lower s \<in> {''1'', ''true'', ''yes'', ''on''}"

section \<open>The nodes of the cluster\<close>

definition members_path :: string where "members_path = ''/etc/pve/.members''"

definition attribute_error :: "exn + 'a" where
  "attribute_error = Inl (Exn ''AttributeError'' [])"

text \<open>\<^verbatim>\<open>(x or {})\<close> where a dict is expected; another value has no \<^verbatim>\<open>get\<close>.\<close>

definition or_dict :: "json \<Rightarrow> exn + dict" where
  "or_dict x = (if \<not> truthy x then Inr [] else case x of JObj d \<Rightarrow> Inr d | _ \<Rightarrow> attribute_error)"

definition node_of_member :: "string \<times> json \<Rightarrow> exn + cluster_node" where
  "node_of_member = (\<lambda>(name, v).
     ebind (or_dict v) (\<lambda>meta.
     ebind (str_of (first_truthy [dict_get meta ''ip'' JNull] (JStr name))) (\<lambda>ip.
     Inr \<lparr>node_name = name, node_host = ip,
          node_info = [(''online'', JBool (truthy (dict_get meta ''online'' (JInt 1))))]\<rparr>)))"

definition parse_members :: "string \<Rightarrow> exn + cluster_node list" where
  "parse_members listing =
     ebind (json_loads listing) (\<lambda>x.
     ebind (or_dict x) (\<lambda>top.
     ebind (or_dict (dict_get top ''nodelist'' JNull)) (\<lambda>nodelist.
     emap node_of_member nodelist)))"

definition synthetic_nodes :: "string \<Rightarrow> cluster_node list" where
  "synthetic_nodes conn_host =
     [\<lparr>node_name = ''pve-node1'', node_host = conn_host, node_info = [(''online'', JBool True), (''mock'', JBool True)]\<rparr>,
      \<lparr>node_name = ''pve-node2'', node_host = ''192.0.2.2'', node_info = [(''online'', JBool True), (''mock'', JBool True)]\<rparr>]"

text \<open>\<^verbatim>\<open>except (ValueError, TypeError)\<close>; \<^verbatim>\<open>JSONDecodeError\<close> is a \<^verbatim>\<open>ValueError\<close>.\<close>

definition value_or_type_error :: "exn \<Rightarrow> bool" where
  "value_or_type_error e \<longleftrightarrow> exn_class e \<in> {''JSONDecodeError'', ''ValueError'', ''TypeError''}"

definition pve_list_nodes :: "pve_env \<Rightarrow> cluster_node list pve_action" where
  "pve_list_nodes E =
     bnd (pve_host E) (\<lambda>conn_host.
     if is_mock_or_dry E then
       andthen (say (''[mock/dry-run] synthetic 2-node cluster seeded from '' @ conn_host))
         (ret (synthetic_nodes conn_host))
     else
       bnd (tryc
         (bnd (ssh E (''cat '' @ members_path) False None) (\<lambda>answer.
          bnd (lift_sum (parse_members answer)) (\<lambda>nodes.
          andthen (provided (nodes \<noteq> [])
            (say (''PVE cluster: '' @ show_nat (length nodes) @ '' node(s) -> '' @ join '', '' (map node_name nodes))))
          (ret nodes))))
         (\<lambda>exc. if value_or_type_error exc then
             andthen (say (''Not a PVE cluster (or .members unreadable: '' @ exn_text exc @ ''); treating ''
               @ conn_host @ '' as a single node'')) (ret [])
           else raise exc)) (\<lambda>nodes.
       ret (if nodes \<noteq> [] then nodes
            else [\<lparr>node_name = conn_host, node_host = conn_host, node_info = []\<rparr>])))"

section \<open>Spreading new VMs\<close>

definition node_online :: "cluster_node \<Rightarrow> bool" where
  "node_online n = truthy (dict_get (node_info n) ''online'' (JBool True))"

text \<open>One candidate: the connection host always, a peer when a command on it works.\<close>

definition probe_node :: "pve_env \<Rightarrow> string \<Rightarrow> cluster_node \<Rightarrow> bool pve_action" where
  "probe_node E conn_host n =
     (if node_host n = conn_host then ret True
      else tryc (andthen (ssh_on E (node_host n) ''true'' True (Some 10)) (ret True))
        (\<lambda>exc. andthen (say (''[placement] skipping cluster node '' @ node_host n
            @ '' for VM spread: SSH not usable ('' @ exn_class exc @ '')'')) (ret False)))"

definition reachable_rr_hosts :: "pve_env \<Rightarrow> string \<Rightarrow> string list pve_action" where
  "reachable_rr_hosts E conn_host =
     bnd (gets (\<lambda>s. map_of (pv_reachable s) conn_host)) (\<lambda>cached.
     case cached of
       Some hosts \<Rightarrow> ret hosts
     | None \<Rightarrow>
         bnd (tryc (bnd (pve_list_nodes E) (\<lambda>ns. ret (filter node_online ns))) (\<lambda>_. ret [])) (\<lambda>nodes.
         bnd (collect nodes (\<lambda>n. bnd (probe_node E conn_host n) (\<lambda>ok. ret (n, ok)))) (\<lambda>probed.
         let hosts0 = map (node_host \<circ> fst) (filter snd probed);
             hosts = (if conn_host \<in> set hosts0 then hosts0 else conn_host # hosts0) in
         andthen (modify (\<lambda>s. s\<lparr>pv_reachable := AList.update conn_host hosts (pv_reachable s)\<rparr>))
         (ret hosts))))"

definition cluster_key :: "pve_env \<Rightarrow> string" where
  "cluster_key E = or_text [setting_or E ''node_host'' [], setting_or E ''host'' []] ''_''"

definition pick_rr_node :: "pve_env \<Rightarrow> string option pve_action" where
  "pick_rr_node E =
     (if is_mock_or_dry E then ret None
      else
        bnd (pve_host E) (\<lambda>conn_host.
        bnd (reachable_rr_hosts E conn_host) (\<lambda>hosts.
        if length hosts \<le> 1 then ret None
        else
          bnd (gets (\<lambda>s. dict_get (pv_cursor s) (cluster_key E) 0)) (\<lambda>idx.
          andthen (modify (\<lambda>s. s\<lparr>pv_cursor := AList.update (cluster_key E) (idx + 1) (pv_cursor s)\<rparr>))
          (ret (Some (hosts ! (idx mod length hosts))))))))"

section \<open>Reaching the array from a node\<close>

definition is_digits :: "string \<Rightarrow> bool" where
  "is_digits s \<longleftrightarrow> s \<noteq> [] \<and> list_all is_digit s"

text \<open>What follows the first occurrence of the separator, or the text.\<close>

definition after_first :: "string \<Rightarrow> string \<Rightarrow> string" where
  "after_first sep s = (case split_on sep s of x # y # ys \<Rightarrow> join sep (y # ys) | _ \<Rightarrow> s)"

definition last_colon :: "string \<Rightarrow> string" where
  "last_colon s = rev (takeWhile (\<lambda>c. c \<noteq> CHR '':'') (rev s))"

definition array_mgmt_target :: "pve_env \<Rightarrow> (string \<times> nat) option" where
  "array_mgmt_target E =
     (if \<not> pe_array E then None
      else let ep = strip (pe_endpoint E) in
        if ep = [] then None
        else
          let host = hd (split_on ''/'' (strip_chars ''/'' (after_first ''://'' ep)));
              (h, port) =
                (if CHR '':'' \<in> set host \<and> is_digits (last_colon host)
                 then (before_last_colon host, digits_value 0 (last_colon host)) else (host, 443))
          in if h = [] then None else Some (h, port))"

definition probe_command :: "string \<Rightarrow> nat \<Rightarrow> string" where
  "probe_command host port =
     ''timeout 5 bash -c '' @ [CHR 0x27] @ ''exec 3<>/dev/tcp/'' @ host @ ''/'' @ show_nat port @ [CHR 0x27]
     @ '' 2>/dev/null && echo ARRAY_OK || echo ARRAY_FAIL''"

definition unreachable_nodes :: "pve_env \<Rightarrow> cluster_node list \<Rightarrow> string \<Rightarrow> nat \<Rightarrow> string list pve_action" where
  "unreachable_nodes E nodes host port =
     (if is_mock_or_dry E then ret []
      else
        bnd (collect nodes (\<lambda>n. bnd (ssh_on E (node_host n) (probe_command host port) False None)
               (\<lambda>out. ret (n, contains ''ARRAY_OK'' out)))) (\<lambda>probed.
        ret (map (\<lambda>(n, ok). node_name n @ '' ('' @ node_host n @ '')'') (filter (\<lambda>(n, ok). \<not> ok) probed))))"

end
