(* ===== verification/Proxmox_Vm.thy ===== *)
theory Proxmox_Vm
  imports Proxmox_Base Free_Names "HOL-Library.Product_Lexorder"
begin

text \<open>
  The VM operations of the Proxmox connector, which a migration drives: the inventory, the capture
  of a VM's specification, power, detaching and attaching disks, creating a VM and its disks, the
  boot order, deletion; and the volume operations of the UI (provision, snapshot, clone, resize).
\<close>

section \<open>Slots and names\<close>

definition DISK_BUSES :: "string list" where
  "DISK_BUSES = [''scsi'', ''virtio'', ''sata'', ''ide'']"

definition pve_bus :: "string \<Rightarrow> string" where
  "pve_bus b = (let x = lower (or_text [b] ''scsi'') in if x \<in> set DISK_BUSES then x else ''scsi'')"

definition pve_slot :: "disk_spec \<Rightarrow> string" where
  "pve_slot d = pve_bus (bus d) @ show_int (disk_order d)"

definition vm_name_char :: "char \<Rightarrow> bool" where
  "vm_name_char c \<longleftrightarrow> is_alnum c \<or> c = CHR ''.'' \<or> c = CHR ''-''"

text \<open>\<^verbatim>\<open>re.sub(r"-{2,}", "-", s)\<close>\<close>

fun single_dashes :: "string \<Rightarrow> string" where
  "single_dashes (a # b # r) =
     (if a = CHR ''-'' \<and> b = CHR ''-'' then single_dashes (b # r) else a # single_dashes (b # r))"
| "single_dashes s = s"

definition pve_vm_name :: "string \<Rightarrow> string" where
  "pve_vm_name n =
     (let s = map (\<lambda>c. if vm_name_char c then c else CHR ''-'') (strip n)
      in or_text [strip_chars ''-.'' (single_dashes s)] ''migrated-vm'')"

section \<open>Inventory\<close>

definition mib :: int where "mib = 1024 * 1024"
definition gib :: int where "gib = 1024 ^ 3"

text \<open>\<^verbatim>\<open>(x or "").lower()\<close>\<close>

definition lower_or_empty :: "json \<Rightarrow> exn + string" where
  "lower_or_empty x = (if \<not> truthy x then Inr [] else case x of JStr s \<Rightarrow> Inr (lower s) | _ \<Rightarrow> attribute_error)"

text \<open>One resource: None is \<^verbatim>\<open>continue\<close>.\<close>

definition vm_of_resource :: "json \<Rightarrow> exn + dict option" where
  "vm_of_resource r =
     (case r of
        JObj d \<Rightarrow>
          if dict_get d ''type'' JNull \<noteq> JStr ''qemu'' \<or> dict_get d ''vmid'' JNull = JNull then Inr None
          else
            ebind (lower_or_empty (dict_get d ''status'' JNull)) (\<lambda>status.
            ebind (str_of (dict_get d ''vmid'' JNull)) (\<lambda>vmid.
            Inr (Some [(''id'', JStr vmid), (''name'', dict_get d ''name'' (JStr [])),
              (''power_state'', JStr (if status = ''running'' then ''running'' else ''stopped'')),
              (''vcpus'', dict_get d ''maxcpu'' JNull), (''memory_bytes'', dict_get d ''maxmem'' JNull)])))
      | _ \<Rightarrow> attribute_error)"

text \<open>What iterating a value gives: a list its items, a dict its keys, a text its characters.\<close>

definition iterate :: "json \<Rightarrow> exn + json list" where
  "iterate x = (case x of
     JList xs \<Rightarrow> Inr xs
   | JObj d \<Rightarrow> Inr (map (\<lambda>kv. JStr (fst kv)) d)
   | JStr s \<Rightarrow> Inr (map (\<lambda>c. JStr [c]) s)
   | _ \<Rightarrow> Inl (Exn ''TypeError'' []))"

definition parse_vms :: "string \<Rightarrow> exn + dict list" where
  "parse_vms answer =
     ebind (json_loads (or_text [answer] ''[]'')) (\<lambda>x.
     ebind (iterate x) (\<lambda>rs.
     ebind (emap vm_of_resource rs) (\<lambda>vms. Inr (List.map_filter id vms))))"

text \<open>\<^verbatim>\<open>except (ValueError, TypeError): pass\<close>: only reading the JSON raises those.\<close>

definition or_nothing :: "exn + 'a list \<Rightarrow> exn + 'a list" where
  "or_nothing r = (case r of Inl e \<Rightarrow> (if value_or_type_error e then Inr [] else Inl e) | Inr xs \<Rightarrow> Inr xs)"

definition mock_vm :: dict where
  "mock_vm = [(''id'', JStr ''100''), (''name'', JStr ''mock-vm''), (''power_state'', JStr ''running''),
     (''vcpus'', JInt 2), (''memory_bytes'', JInt (2 * gib)), (''disk_count'', JInt 1), (''nic_count'', JInt 1)]"

definition pve_list_vms :: "pve_env \<Rightarrow> dict list pve_action" where
  "pve_list_vms E =
     (if is_mock_or_dry E then ret [mock_vm]
      else
        bnd (ssh E ''pvesh get /cluster/resources --type vm --output-format json'' False None) (\<lambda>answer.
        lift_sum (or_nothing (parse_vms answer))))"

definition node_name_of_host :: "pve_env \<Rightarrow> string pve_action" where
  "node_name_of_host E =
     (if is_mock_or_dry E then ret ''pve-node1''
      else
        bnd (ssh E ''hostname -s'' False None) (\<lambda>out.
        if strip out \<noteq> [] then ret (strip out) else pve_host E))"

definition network_of_entry :: "json \<Rightarrow> exn + dict option" where
  "network_of_entry r =
     (case r of
        JObj d \<Rightarrow>
          let iface = dict_get d ''iface'' JNull in
          Inr (if truthy iface
               then Some [(''id'', iface), (''name'', iface), (''kind'', dict_get d ''type'' (JStr ''bridge''))]
               else None)
      | _ \<Rightarrow> attribute_error)"

definition parse_networks :: "string \<Rightarrow> exn + dict list" where
  "parse_networks answer =
     ebind (json_loads (or_text [answer] ''[]'')) (\<lambda>x.
     ebind (iterate x) (\<lambda>rs.
     ebind (emap network_of_entry rs) (\<lambda>nets. Inr (List.map_filter id nets))))"

definition pve_list_networks :: "pve_env \<Rightarrow> dict list pve_action" where
  "pve_list_networks E =
     (if is_mock_or_dry E then
        ret [[(''id'', JStr ''vmbr0''), (''name'', JStr ''vmbr0''), (''kind'', JStr ''bridge'')]]
      else
        bnd (node_name_of_host E) (\<lambda>node.
        bnd (ssh E (''pvesh get /nodes/'' @ node @ ''/network --type any_bridge --output-format json'') False None)
          (\<lambda>answer. lift_sum (or_nothing (parse_networks answer)))))"

section \<open>Power\<close>

definition parse_power :: "string \<Rightarrow> string" where
  "parse_power out =
     (let token = lower (strip (last (split_on '':'' (strip out))))
      in if token = ''running'' \<or> token = ''stopped'' then token else ''unknown'')"

definition pve_power_state :: "pve_env \<Rightarrow> string \<Rightarrow> string pve_action" where
  "pve_power_state E ref =
     (if is_mock_or_dry E then ret ''running''
      else bnd (ssh E (''qm status '' @ ref) False None) (\<lambda>out. ret (parse_power out)))"

definition ok_msg :: "string \<Rightarrow> op_result" where "ok_msg m = op_ok m [] []"
definition fail_msg :: "string \<Rightarrow> op_result" where "fail_msg m = op_fail m [] []"

definition pve_stop_vm :: "pve_env \<Rightarrow> string \<Rightarrow> bool \<Rightarrow> op_result pve_action" where
  "pve_stop_vm E ref force =
     bnd (pve_power_state E ref) (\<lambda>p.
     if p = ''stopped'' then ret (ok_msg (''VM '' @ ref @ '' already stopped''))
     else andthen (ssh E ((if force then ''qm stop '' else ''qm shutdown '') @ ref) False None)
       (ret (ok_msg (''Stopped VM '' @ ref))))"

definition pve_start_vm :: "pve_env \<Rightarrow> string \<Rightarrow> op_result pve_action" where
  "pve_start_vm E ref =
     bnd (pve_power_state E ref) (\<lambda>p.
     if p = ''running'' then ret (ok_msg (''VM '' @ ref @ '' already running''))
     else andthen (ssh E (''qm start '' @ ref) False None) (ret (ok_msg (''Started VM '' @ ref))))"

section \<open>Capturing a VM\<close>

text \<open>\<^verbatim>\<open>line.partition(":")\<close> of the lines that have a colon, last one wins.\<close>

definition config_entry :: "string \<Rightarrow> (string \<times> string) option" where
  "config_entry line =
     (if CHR '':'' \<in> set line then
        Some (strip (takeWhile (\<lambda>c. c \<noteq> CHR '':'') line),
              strip (tl (dropWhile (\<lambda>c. c \<noteq> CHR '':'') line)))
      else None)"

definition parse_config :: "string \<Rightarrow> (string \<times> string) list" where
  "parse_config answer =
     fold (\<lambda>(k, v) d. AList.update k v d) (List.map_filter config_entry (splitlines answer)) []"

text \<open>\<^verbatim>\<open>int(cfg.get(k, d) or d)\<close>\<close>

definition config_int :: "(string \<times> string) list \<Rightarrow> string \<Rightarrow> string \<Rightarrow> exn + int" where
  "config_int cfg k dflt = int_of_str (or_text [dict_get cfg k dflt] dflt)"

definition boot_slots_of :: "(string \<times> string) list \<Rightarrow> string list" where
  "boot_slots_of cfg =
     (let line = dict_get cfg ''boot'' [] in
      if contains ''order='' line then split_on '';'' (hd (split_on '','' (after_first ''order='' line)))
      else case nonempty (map_of cfg ''bootdisk'') of Some b \<Rightarrow> [b] | None \<Rightarrow> [])"

text \<open>The bus of a configuration key such as \<^verbatim>\<open>scsi0\<close>.\<close>

definition key_bus :: "string \<Rightarrow> string option" where
  "key_bus key = find (\<lambda>b. starts_with b key \<and> is_digits (drop (length b) key)) DISK_BUSES"

text \<open>\<^verbatim>\<open>volref.split(":", 1)[1] if ":" in volref else volref\<close> of the part before the first comma.\<close>

definition volume_of_value :: "string \<Rightarrow> string" where
  "volume_of_value v = after_first '':'' (hd (split_on '','' v))"

definition resolve_fa_volume :: "pve_env \<Rightarrow> string \<Rightarrow> string \<Rightarrow> string pve_action" where
  "resolve_fa_volume E vmid volname =
     (let grouped = ''vm-'' @ vmid @ ''/'' @ volname in
      if \<not> pe_array E then ret volname
      else
        tryc (bnd (call_out (volume_reply E) (VolumeSerial grouped)) (\<lambda>v.
                ret (if v = None then volname else grouped)))
          (\<lambda>_. ret volname))"

definition nic_models :: "string list" where
  "nic_models = [''virtio'', ''e1000'', ''vmxnet3'', ''rtl8139'']"

text \<open>One part of a network entry: the model and MAC, or the bridge.\<close>

definition read_net_part :: "string \<Rightarrow> string \<times> string \<times> string \<Rightarrow> string \<times> string \<times> string" where
  "read_net_part part = (\<lambda>(model, mc, bridge).
     if CHR ''='' \<in> set part then
       let pk = takeWhile (\<lambda>c. c \<noteq> CHR ''='') part; pv = tl (dropWhile (\<lambda>c. c \<noteq> CHR ''='') part) in
       if pk \<in> set nic_models then (pk, pv, bridge)
       else if pk = ''bridge'' then (model, mc, pv) else (model, mc, bridge)
     else (model, mc, bridge))"

definition parse_net :: "string \<Rightarrow> string \<times> string \<times> string" where
  "parse_net v = fold read_net_part (split_on '','' v) (''virtio'', [], [])"

definition nic_of_entry :: "string \<times> string \<Rightarrow> nic_spec option" where
  "nic_of_entry = (\<lambda>(key, val).
     if starts_with ''net'' key \<and> is_digits (drop 3 key) then
       (case parse_net val of (model, mc, bridge) \<Rightarrow>
         Some \<lparr>mac = mc, source_network = bridge, nic_model = model,
               nic_order = int (digits_value 0 (drop 3 key))\<rparr>)
     else None)"

definition is_disk_entry :: "string \<Rightarrow> string \<times> string \<Rightarrow> bool" where
  "is_disk_entry storage_id = (\<lambda>(key, val). key_bus key \<noteq> None \<and> contains (storage_id @ '':'') val)"

text \<open>The disks, in the order of the configuration; \<open>first\<close> while none has been found.\<close>

fun capture_disks ::
  "pve_env \<Rightarrow> string \<Rightarrow> string list \<Rightarrow> bool \<Rightarrow> (string \<times> string) list \<Rightarrow> disk_spec list pve_action" where
  "capture_disks E ref slots first [] = ret []"
| "capture_disks E ref slots first ((key, val) # es) =
     (if is_disk_entry (pve_storage_id E []) (key, val) then
        let b = the (key_bus key) in
        bnd (resolve_fa_volume E ref (volume_of_value val)) (\<lambda>fa.
        bnd (capture_disks E ref slots False es) (\<lambda>ds.
        ret (\<lparr>identity = \<lparr>fa_volume = fa, serial = None, wwid = None, size_bytes = None\<rparr>,
              bus = b, disk_order = int (digits_value 0 (drop (length b) key)),
              boot = (key \<in> set slots \<or> (slots = [] \<and> first)), disk_source_ref = key\<rparr> # ds)))
      else capture_disks E ref slots first es)"

text \<open>\<^verbatim>\<open>if disks and not any(d.boot ...): disks[0].boot = True\<close>\<close>

definition ensure_boot :: "disk_spec list \<Rightarrow> disk_spec list" where
  "ensure_boot ds = (case ds of [] \<Rightarrow> [] | d # r \<Rightarrow>
     if \<not> (\<exists>x \<in> set ds. boot x) then d\<lparr>boot := True\<rparr> # r else ds)"

definition nic_entries :: "string \<Rightarrow> (string \<times> string) list \<Rightarrow> nic_spec list" where
  "nic_entries storage_id cfg = List.map_filter nic_of_entry (filter (\<lambda>e. \<not> is_disk_entry storage_id e) cfg)"

definition mock_spec :: "string \<Rightarrow> vm_spec" where
  "mock_spec ref =
     \<lparr>vm_name = ''mock-vm'', vm_source_ref = ref, vcpus = 2, memory_bytes = 2 * gib, firmware = ''bios'',
      secure_boot = False,
      disks = [\<lparr>identity = \<lparr>fa_volume = ''vm-'' @ ref @ ''-disk-0'', serial = None, wwid = None, size_bytes = None\<rparr>,
                bus = ''scsi'', disk_order = 0, boot = True, disk_source_ref = ''scsi0''\<rparr>],
      nics = [\<lparr>mac = ''AA:BB:CC:00:00:01'', source_network = ''vmbr0'', nic_model = ''virtio'', nic_order = 0\<rparr>],
      guest_os_hint = [], raw = []\<rparr>"

definition spec_of_config ::
  "string \<Rightarrow> string \<Rightarrow> (string \<times> string) list \<Rightarrow> int \<Rightarrow> int \<Rightarrow> int \<Rightarrow> disk_spec list \<Rightarrow> vm_spec" where
  "spec_of_config storage_id ref cfg cores sockets memory ds =
     \<lparr>vm_name = dict_get cfg ''name'' (''vm-'' @ ref), vm_source_ref = ref, vcpus = cores * sockets,
      memory_bytes = memory * 1024 * 1024,
      firmware = (if lower (dict_get cfg ''bios'' ''seabios'') = ''ovmf'' then ''uefi'' else ''bios''),
      secure_boot = False, disks = ensure_boot (sort_key disk_order ds),
      nics = sort_key nic_order (nic_entries storage_id cfg), guest_os_hint = [],
      raw = [(''scsihw'', JStr (dict_get cfg ''scsihw'' ''virtio-scsi-single''))]\<rparr>"

definition capture_vm_spec :: "pve_env \<Rightarrow> string \<Rightarrow> vm_spec pve_action" where
  "capture_vm_spec E ref =
     (if is_mock_or_dry E then ret (mock_spec ref)
      else
        bnd (ssh E (''qm config '' @ ref) False None) (\<lambda>answer.
        let cfg = parse_config answer in
        bnd (lift_sum (config_int cfg ''cores'' ''1'')) (\<lambda>cores.
        bnd (lift_sum (config_int cfg ''sockets'' ''1'')) (\<lambda>sockets.
        bnd (lift_sum (config_int cfg ''memory'' ''512'')) (\<lambda>memory.
        andthen (modify (\<lambda>s. s\<lparr>pv_boot_order := dict_get cfg ''boot'' []\<rparr>))
        (bnd (capture_disks E ref (boot_slots_of cfg) True cfg) (\<lambda>ds.
         ret (spec_of_config (pve_storage_id E []) ref cfg cores sockets memory ds))))))))"


section \<open>Detaching\<close>

definition detach_disk :: "pve_env \<Rightarrow> string \<Rightarrow> disk_spec \<Rightarrow> unit pve_action" where
  "detach_disk E ref d =
     (let slot = or_text [disk_source_ref d] (pve_slot d) in
      andthen (ssh E (''qm set '' @ ref @ '' --delete '' @ slot) False None)
        (say (''Detached '' @ slot @ '' from VM '' @ ref)))"

definition pve_detach_volumes :: "pve_env \<Rightarrow> string \<Rightarrow> disk_spec list \<Rightarrow> op_result pve_action" where
  "pve_detach_volumes E ref ds =
     andthen (foreach ds (detach_disk E ref))
       (ret (ok_msg (''Detached '' @ show_nat (length ds) @ '' disk(s) from VM '' @ ref)))"

section \<open>Creating a VM\<close>

definition create_models :: "string list" where
  "create_models = [''virtio'', ''e1000'', ''e1000e'', ''vmxnet3'', ''rtl8139'']"

definition create_model :: "string \<Rightarrow> string" where
  "create_model m = (let x = lower m in if x \<in> set create_models then x else ''virtio'')"

text \<open>The value of a network option, as \<^verbatim>\<open>qm create\<close> takes it.\<close>

definition net_value :: "nic_spec \<Rightarrow> string \<Rightarrow> string" where
  "net_value nic dest_net = create_model (nic_model nic) @ ''='' @ mac nic @ '',bridge='' @ dest_net"

fun net_args :: "(string \<times> string) list \<Rightarrow> nic_spec list \<Rightarrow> string + string list" where
  "net_args netmap [] = Inr []"
| "net_args netmap (nic # r) =
     (case nonempty (map_of netmap (source_network nic)) of
        None \<Rightarrow> Inl (''no destination network mapped for source NIC '' @ py_repr (source_network nic))
      | Some dest_net \<Rightarrow>
          (case net_args netmap r of
             Inl e \<Rightarrow> Inl e
           | Inr xs \<Rightarrow> Inr ((''--net'' @ show_int (nic_order nic) @ '' '' @ net_value nic dest_net) # xs)))"

definition hardware_args :: "string \<Rightarrow> string \<Rightarrow> vm_spec \<Rightarrow> string \<Rightarrow> string list" where
  "hardware_args storage_id name v scsihw =
     [''--name '' @ name, ''--cores '' @ show_int (max 1 (vcpus v)), ''--sockets 1'',
      ''--memory '' @ show_int (max 16 (memory_bytes v div mib)), ''--scsihw '' @ scsihw]
     @ (if firmware v = ''uefi'' then [''--bios ovmf'', ''--efidisk0 '' @ storage_id @ '':1,efitype=4m''] else [])"

definition names_of :: "dict list \<Rightarrow> string list" where
  "names_of vms = List.map_filter (\<lambda>v. case dict_get v ''name'' JNull of JStr s \<Rightarrow> Some s | _ \<Rightarrow> None) vms"

definition pick_name :: "string \<Rightarrow> string list \<Rightarrow> string" where
  "pick_name base existing =
     (if base \<notin> set existing then base else numbered base (first_free base existing 2))"

text \<open>
  The attempts at \<^verbatim>\<open>qm create\<close>, from \<open>attempt\<close> on, with \<open>left\<close> more after it: None, or the last
  exception. What is raised while cleaning up is raised.
\<close>

fun create_attempts :: "pve_env \<Rightarrow> string \<Rightarrow> string \<Rightarrow> nat \<Rightarrow> nat \<Rightarrow> exn option pve_action" where
  "create_attempts E vmid cmd 0 attempt =
     tryc (andthen (ssh_script E [cmd] True (Some 180)) (ret None)) (\<lambda>exc. ret (Some exc))"
| "create_attempts E vmid cmd (Suc left) attempt =
     bnd (tryc (andthen (ssh_script E [cmd] True (Some 180)) (ret None)) (\<lambda>exc. ret (Some exc))) (\<lambda>r.
     case r of
       None \<Rightarrow> ret None
     | Some exc \<Rightarrow>
         andthen (say (''qm create '' @ vmid @ '' attempt '' @ show_nat (attempt + 1) @ '' failed ('' @ exn_text exc
           @ ''); retrying''))
         (andthen (ssh E (''qm destroy '' @ vmid @ '' --purge 1 >/dev/null 2>&1 || true'') False (Some 60))
         (andthen (wait 3)
         (create_attempts E vmid cmd left (attempt + 1)))))"

definition next_vmid :: "pve_env \<Rightarrow> string pve_action" where
  "next_vmid E =
     (if is_mock_or_dry E then ret ''900''
      else bnd (ssh E ''pvesh get /cluster/nextid'' False None) (\<lambda>out. ret (or_text [strip out] ''900'')))"

definition place_vm :: "pve_env \<Rightarrow> unit pve_action" where
  "place_vm E =
     bnd (pick_rr_node E) (\<lambda>rr.
     case rr of
       Some h \<Rightarrow>
         provided (h \<noteq> [])
          (andthen (modify (\<lambda>s. s\<lparr>pv_host_override := h\<rparr>))
            (say (''Placing VM on cluster node '' @ h @ '' (round-robin spread)'')))
     | None \<Rightarrow> ret ())"

text \<open>The configuration must exist before a success is declared.\<close>

definition confirm_created :: "pve_env \<Rightarrow> string \<Rightarrow> string \<Rightarrow> op_result pve_action" where
  "confirm_created E vmid name =
     (let done = andthen (say (''Created VM '' @ vmid @ '' ('' @ name @ '')''))
            (ret (op_ok (''Created VM '' @ vmid) [(''vm_ref'', JStr vmid)] [])) in
      if is_mock_or_dry E then done
      else
        bnd (ssh E (''qm config '' @ vmid) False None) (\<lambda>cfg.
        if contains ''does not exist'' cfg \<or> is_lock_timeout cfg
        then ret (fail_msg (''VM '' @ vmid @ '' not present after create: '' @ take 200 (strip cfg)))
        else done))"

definition pve_create_vm :: "pve_env \<Rightarrow> vm_spec \<Rightarrow> (string \<times> string) list \<Rightarrow> op_result pve_action" where
  "pve_create_vm E v netmap =
     andthen (place_vm E)
     (bnd (pve_list_vms E) (\<lambda>vms.
      let base = pve_vm_name (vm_name v); name = pick_name base (names_of vms) in
      andthen (provided (name \<noteq> base)
        (say (''Name '' @ py_repr base @ '' already exists; using '' @ py_repr name @ '' instead'')))
      (bnd (lift_sum (str_of (dict_get (raw v) ''scsihw'' (JStr ''virtio-scsi-single'')))) (\<lambda>scsihw.
       case net_args netmap (nics v) of
         Inl e \<Rightarrow> ret (fail_msg e)
       | Inr nets \<Rightarrow>
           bnd (next_vmid E) (\<lambda>vmid.
           let cmd = join '' '' ((''qm create '' @ vmid)
                 # hardware_args (pve_storage_id E []) name v scsihw @ nets) in
           bnd (create_attempts E vmid cmd 2 0) (\<lambda>r.
           case r of
             Some exc \<Rightarrow> ret (fail_msg (''qm create '' @ vmid @ '' failed after retries: '' @ exn_text exc))
           | None \<Rightarrow> confirm_created E vmid name))))))"

section \<open>Disks of the new VM\<close>

definition boot_ordered :: "disk_spec list \<Rightarrow> disk_spec list" where
  "boot_ordered ds = sort_key (\<lambda>d. (\<not> boot d, disk_order d)) ds"

definition order_value :: "disk_spec list \<Rightarrow> string" where
  "order_value ds = join '';'' (map pve_slot (boot_ordered ds))"

definition discard :: "'a pve_action \<Rightarrow> unit pve_action" where
  "discard m = andthen m (ret ())"

text \<open>One disk: None when it was attached, or the failure to return.\<close>

definition attach_disk :: "pve_env \<Rightarrow> string \<Rightarrow> disk_spec \<Rightarrow> op_result option pve_action" where
  "attach_disk E ref d =
     (let slot = pve_slot d; fa = fa_volume (identity d);
          vg = (if CHR ''/'' \<in> set fa then hd (split_on ''/'' fa) else []) in
      if vg = [] \<or> vg = ''vm-'' @ ref then
        let vol = last (split_on ''/'' fa) in
        andthen (ssh_script E [''qm set '' @ ref @ '' --'' @ slot @ '' '' @ pve_storage_id E [] @ '':'' @ vol] False (Some 120))
        (andthen (say (''Attached '' @ vol @ '' to VM '' @ ref @ '' as '' @ slot @ '' (purefa)'')) (ret None))
      else
        bnd (if pe_array E then arr_volume_serial (pve_array_ops E) fa else ret None) (\<lambda>x.
        case nonempty x of
          None \<Rightarrow> ret (Some (fail_msg (''could not resolve a device for '' @ py_repr fa @ '' (no array serial)'')))
        | Some sn \<Rightarrow>
            let dev = ''/dev/mapper/'' @ scsi_wwid sn in
            andthen (ssh_script E [''qm set '' @ ref @ '' --'' @ slot @ '' '' @ dev] False (Some 120))
            (andthen (say (''Attached '' @ fa @ '' to VM '' @ ref @ '' as '' @ slot @ '' (raw device '' @ dev @ '')''))
              (ret None))))"

fun attach_disks :: "pve_env \<Rightarrow> string \<Rightarrow> disk_spec list \<Rightarrow> op_result option pve_action" where
  "attach_disks E ref [] = ret None"
| "attach_disks E ref (d # ds) =
     bnd (attach_disk E ref d) (\<lambda>r. case r of Some x \<Rightarrow> ret (Some x) | None \<Rightarrow> attach_disks E ref ds)"

definition restored_boot :: "string \<Rightarrow> disk_spec list \<Rightarrow> string" where
  "restored_boot original ds =
     (if original \<noteq> [] then original else if ds = [] then [] else ''order='' @ order_value ds)"

definition attach_existing_volumes :: "pve_env \<Rightarrow> string \<Rightarrow> disk_spec list \<Rightarrow> op_result pve_action" where
  "attach_existing_volumes E ref ds =
     bnd (disk_wwids (pve_context E) ds) (\<lambda>wwids.
     andthen (refresh_block_devices (\<lambda>c l. discard (ssh E c False (Some l))) (pve_protocol E) wwids)
     (bnd (attach_disks E ref ds) (\<lambda>r.
      case r of
        Some x \<Rightarrow> ret x
      | None \<Rightarrow>
          bnd (gets pv_boot_order) (\<lambda>original.
          let b = restored_boot original ds in
          andthen (provided (b \<noteq> [])
            (andthen (ssh E (''qm set '' @ ref @ '' --boot '' @ [CHR 0x27] @ b @ [CHR 0x27]) False (Some 60))
              (say (''Restored boot order on VM '' @ ref @ '': '' @ b))))
          (ret (ok_msg (''Attached '' @ show_nat (length ds) @ '' disk(s) to VM '' @ ref)))))))"

text \<open>\<^verbatim>\<open>max(1, -(-size // 1024**3))\<close>\<close>

definition size_in_gib :: "int \<Rightarrow> int" where
  "size_in_gib sz = max 1 (- ((- sz) div gib))"

definition managed_slot :: "int \<Rightarrow> string" where
  "managed_slot order = pve_bus ''scsi'' @ show_int order"

text \<open>The volume the configuration shows for the slot, empty when there is none.\<close>

definition allocated_volume :: "string \<Rightarrow> string \<Rightarrow> string \<Rightarrow> string" where
  "allocated_volume slot storage_id cfg =
     (case find (\<lambda>l. starts_with (slot @ '':'') l \<and> contains (storage_id @ '':'') l) (splitlines cfg) of
        None \<Rightarrow> []
      | Some l \<Rightarrow> after_first '':'' (hd (split_on '','' (strip (after_first '':'' l)))))"

text \<open>\<^verbatim>\<open>_PUREFA_ERR_RE.search\<close>\<close>

definition purefa_error :: "string \<Rightarrow> bool" where
  "purefa_error l \<longleftrightarrow>
     found_in (\<lambda>t. starts_with ''purefa:'' t \<and>
       (\<exists>w \<in> set [''login failed'', ''failed'', ''timed out'', ''aborting'', ''can'' @ [CHR 0x27] @ ''t connect'', ''locked''].
          contains w (drop 7 t))) (lower l)"

definition disk_error_detail :: "string \<Rightarrow> string \<Rightarrow> string" where
  "disk_error_detail out cfg =
     (case find purefa_error (splitlines (out @ newline @ cfg)) of
        Some l \<Rightarrow> strip l
      | None \<Rightarrow>
          (case splitlines (strip out) of [] \<Rightarrow> ''no disk created'' | ls \<Rightarrow> take 200 (last ls)))"

definition create_managed_disk :: "pve_env \<Rightarrow> string \<Rightarrow> int \<Rightarrow> int \<Rightarrow> string pve_action" where
  "create_managed_disk E ref sz order =
     (let storage_id = pve_storage_id E []; slot = managed_slot order in
      if is_mock_or_dry E then ret (''vm-'' @ ref @ ''/vm-'' @ ref @ ''-disk-'' @ show_int order)
      else
        bnd (ssh_script E [''qm set '' @ ref @ '' --'' @ slot @ '' '' @ storage_id @ '':'' @ show_int (size_in_gib sz)]
              False (Some 120)) (\<lambda>out.
        bnd (ssh E (''qm config '' @ ref) False None) (\<lambda>cfg.
        let volname = allocated_volume slot storage_id cfg in
        if volname = [] then
          raise (Exn ''RuntimeError'' (''failed to create managed disk on VM '' @ ref @ '' ('' @ slot @ ''): ''
            @ disk_error_detail out cfg))
        else
          bnd (resolve_fa_volume E ref volname) (\<lambda>fa.
          andthen (say (''Created managed disk '' @ fa @ '' ('' @ show_int (size_in_gib sz) @ ''G) on VM '' @ ref
            @ '' as '' @ slot)) (ret fa)))))"

definition set_boot_order :: "pve_env \<Rightarrow> string \<Rightarrow> disk_spec list \<Rightarrow> op_result pve_action" where
  "set_boot_order E ref ds =
     (if ds = [] then ret (ok_msg ''no disks; boot order unchanged'')
      else
        bnd (ssh E (''qm set '' @ ref @ '' --boot '' @ [CHR 0x27] @ ''order='' @ order_value ds @ [CHR 0x27]) False None)
          (\<lambda>out.
        ret (if contains ''does not exist'' out
             then fail_msg (''VM '' @ ref @ '' config missing when setting boot order: '' @ take 200 (strip out))
             else ok_msg (''Set boot order: '' @ order_value ds))))"

section \<open>Copy targets\<close>

definition copy_target :: "string \<Rightarrow> int \<Rightarrow> string" where
  "copy_target ref idx = ''vm-'' @ ref @ ''/vm-'' @ ref @ ''-disk-'' @ show_int idx"

text \<open>The search for a free name asks the array; \<open>fuel\<close> bounds it, None is running out.\<close>

fun free_copy_index :: "pve_env \<Rightarrow> string \<Rightarrow> nat \<Rightarrow> int \<Rightarrow> int option pve_action" where
  "free_copy_index E ref 0 idx = ret None"
| "free_copy_index E ref (Suc fuel) idx =
     bnd (call_out (bool_reply E) (VolumeExists (copy_target ref idx) True)) (\<lambda>taken.
     if taken then free_copy_index E ref fuel (idx + 1) else ret (Some idx))"

definition pve_prepare_copy_target :: "pve_env \<Rightarrow> nat \<Rightarrow> int \<Rightarrow> string \<Rightarrow> string option pve_action" where
  "pve_prepare_copy_target E fuel order ref =
     (if \<not> pe_array E then ret (Some (copy_target ref order))
      else
        bnd (free_copy_index E ref fuel order) (\<lambda>i.
        case i of
          None \<Rightarrow> ret None
        | Some idx \<Rightarrow>
            andthen (call_out (unit_reply E) (EnsureVolumeGroup (''vm-'' @ ref)))
              (ret (Some (copy_target ref idx)))))"

section \<open>Deleting a VM\<close>

definition strip_unused_lines :: "string \<Rightarrow> string \<Rightarrow> string list" where
  "strip_unused_lines storage_id ref =
     [''CONF=/etc/pve/qemu-server/'' @ ref @ ''.conf'',
      ''if [ -f '' @ [CHR 0x22] @ ''$CONF'' @ [CHR 0x22] @ '' ]; then sed -i -E '' @ [CHR 0x27] @ ''/^unused[0-9]+: *''
        @ storage_id @ '':/d'' @ [CHR 0x27] @ '' '' @ [CHR 0x22] @ ''$CONF'' @ [CHR 0x22] @ ''; fi'']"

definition pve_delete_vm :: "pve_env \<Rightarrow> string \<Rightarrow> bool \<Rightarrow> op_result pve_action" where
  "pve_delete_vm E ref keep_disks =
     andthen
      (if keep_disks then
         andthen (ssh_script E (strip_unused_lines (pve_storage_id E []) ref) False None)
           (discard (ssh E (''qm destroy '' @ ref @ '' --destroy-unreferenced-disks 0 --purge 0'') False None))
       else discard (ssh E (''qm destroy '' @ ref) False None))
      (ret (ok_msg (''Deleted VM '' @ ref)))"

section \<open>Volumes\<close>

definition no_array :: op_result where
  "no_array = fail_msg ''No FlashArray associated with this hypervisor''"

definition rescan_scsi :: string where
  "rescan_scsi = ''for h in /sys/class/scsi_host/host*/scan; do echo '' @ [CHR 0x27] @ ''- - -'' @ [CHR 0x27] @ '' > $h; done''"

text \<open>The rescan after a volume was connected or grown.\<close>

definition rescan_transport :: "pve_env \<Rightarrow> unit pve_action" where
  "rescan_transport E =
     andthen
      (if pve_protocol E = ''nvme-tcp'' then discard (ssh E ''nvme connect-all'' False None)
       else if pve_protocol E = ''iscsi'' then discard (ssh E ''iscsiadm -m session --rescan'' False None)
       else if pve_protocol E = ''fc'' then discard (ssh E rescan_scsi False None)
       else ret ())
      (discard (ssh E ''multipath -r || true'' False None))"

definition pve_provision ::
  "pve_env \<Rightarrow> string \<Rightarrow> string \<Rightarrow> string \<Rightarrow> string \<Rightarrow> string \<Rightarrow> string \<Rightarrow> op_result pve_action" where
  "pve_provision E name sz host_group vmid disk storage =
     (if \<not> pe_array E then ret no_array
      else
        let storage_id = pve_storage_id E storage; hg = or_text [host_group] (setting_or E ''host_group'' []) in
        andthen (say (''Creating FlashArray volume '' @ name @ '' ('' @ sz @ '') [one LUN per disk]''))
        (if pe_dry_run E
         then ret (op_ok (''[dry-run] would provision '' @ name) [(''volume'', JStr name), (''storage_id'', JStr storage_id)] [])
         else
           andthen (steps [
             call_out (unit_reply E) (CreateVolume name sz),
             provided (hg \<noteq> []) (andthen (call_out (unit_reply E) (ConnectVolume hg name))
               (say (''Connected '' @ name @ '' to host group '' @ hg))),
             rescan_transport E,
             provided (vmid \<noteq> [])
               (andthen (ssh_script E [''qm set '' @ vmid @ '' -'' @ disk @ '' '' @ storage_id @ '':'' @ name] False None)
                 (say (''Attached '' @ name @ '' to VM '' @ vmid @ '' as '' @ disk @ '' (raw block)''))),
             say (''Provisioned '' @ name)])
           (ret (op_ok (''Provisioned '' @ name)
              ([(''volume'', JStr name), (''protocol'', JStr (pve_protocol E)), (''storage_id'', JStr storage_id)]
               @ (if vmid \<noteq> [] then [(''vmid'', JStr vmid), (''disk'', JStr disk)] else [])) []))))"

definition pve_snapshot :: "pve_env \<Rightarrow> string \<Rightarrow> string \<Rightarrow> op_result pve_action" where
  "pve_snapshot E volume suffix =
     (if \<not> pe_array E then ret no_array
      else
        andthen (say (''Creating FlashArray snapshot of volume '' @ volume))
        (if pe_dry_run E then ret (ok_msg (''[dry-run] would snapshot '' @ volume))
         else
           andthen (call_out (unit_reply E) (CreateSnapshot volume (nonempty (Some suffix))))
           (ret (op_ok (''Snapshot of '' @ volume @ '' created'') [(''volume'', JStr volume)] []))))"

definition pve_clone :: "pve_env \<Rightarrow> string \<Rightarrow> string \<Rightarrow> string \<Rightarrow> op_result pve_action" where
  "pve_clone E source dest host_group =
     (if \<not> pe_array E then ret no_array
      else
        let hg = or_text [host_group] (setting_or E ''host_group'' []) in
        andthen (say (''FlashArray volume copy '' @ source @ '' -> '' @ dest))
        (if pe_dry_run E then ret (ok_msg (''[dry-run] would clone '' @ source @ '' -> '' @ dest))
         else
           andthen (call_out (unit_reply E) (CloneVolume source dest))
           (andthen (provided (hg \<noteq> []) (andthen (call_out (unit_reply E) (ConnectVolume hg dest))
               (say (''Connected clone '' @ dest @ '' to host group '' @ hg))))
           (ret (op_ok (''Cloned '' @ source @ '' -> '' @ dest) [(''volume'', JStr dest)] [])))))"

definition pve_resize :: "pve_env \<Rightarrow> string \<Rightarrow> string \<Rightarrow> string \<Rightarrow> string \<Rightarrow> op_result pve_action" where
  "pve_resize E volume sz vmid disk =
     (if \<not> pe_array E then ret no_array
      else
        andthen (say (''Extending FlashArray volume '' @ volume @ '' to '' @ sz))
        (if pe_dry_run E then ret (ok_msg (''[dry-run] would resize '' @ volume @ '' to '' @ sz))
         else
           andthen (steps [
             call_out (unit_reply E) (ExtendVolume volume sz),
             rescan_transport E,
             provided (vmid \<noteq> [] \<and> disk \<noteq> [])
               (discard (ssh E (''qm resize '' @ vmid @ '' '' @ disk @ '' '' @ sz) False None)),
             say (''Resized '' @ volume @ '' to '' @ sz)])
           (ret (op_ok (''Resized '' @ volume @ '' to '' @ sz) [(''volume'', JStr volume)] []))))"

end
