(* ===== verification/Proxmox_Nodes.thy ===== *)
theory Proxmox_Nodes
  imports Proxmox_Base
begin

text \<open>
  The integration steps of the Proxmox connector: the choices and checks of the wizard, pushing the
  plugin, defining and enabling the storage, registering the nodes on the array, and connecting
  every node over iSCSI, Fibre Channel or NVMe-TCP with multipath; the health report and the
  teardown.
\<close>

abbreviation sq :: string where "sq \<equiv> [CHR 0x27]"
abbreviation dq :: string where "dq \<equiv> [CHR 0x22]"
abbreviation bs :: string where "bs \<equiv> [CHR 0x5C]"

section \<open>Choices of the forms\<close>

definition json_nic :: "nic \<Rightarrow> json" where
  "json_nic n = JObj (map (\<lambda>(k, v). (k, JStr v)) n)"

definition value_option :: "string \<Rightarrow> nic" where
  "value_option v = [(''value'', v)]"

definition port_text :: "dict \<Rightarrow> string \<Rightarrow> string" where
  "port_text d k = (case dict_get d k JNull of JStr s \<Rightarrow> s | _ \<Rightarrow> [])"

definition array_service :: "pve_env \<Rightarrow> string" where
  "array_service E = (if pve_protocol E = ''nvme-tcp'' then ''nvme-tcp'' else ''iscsi'')"

definition data_interfaces :: "pve_env \<Rightarrow> string list pve_action" where
  "data_interfaces E = call_out (texts_reply E) (DataInterfaces (array_service E))"

definition node_interfaces :: "pve_env \<Rightarrow> string \<Rightarrow> string \<Rightarrow> nic list pve_action" where
  "node_interfaces E host kind = discover_interfaces (pve_runner E) host kind (ssh_kwargs E)"

definition filter_common_subnet_interfaces :: "pve_env \<Rightarrow> string \<Rightarrow> nic list \<Rightarrow> nic list pve_action" where
  "filter_common_subnet_interfaces E kind host_opts =
     bnd (pve_list_nodes E) (\<lambda>nodes.
     if length nodes \<le> 1 then ret host_opts
     else
       bnd (collect nodes (\<lambda>n. bnd (node_interfaces E (node_host n) kind) (\<lambda>ns. ret (node_name n, ns)))) (\<lambda>per_node.
       ret (nics_on_common_subnets host_opts (fold (\<lambda>(k, v) d. AList.update k v d) per_node []))))"

definition initiator_option :: "string \<Rightarrow> string \<Rightarrow> string \<Rightarrow> nic" where
  "initiator_option fld what v =
     [(''field'', fld), (''value'', v), (''label'', what @ '' '' @ em_dash @ '' '' @ v)]"

definition initiator_options :: "initiator_report \<Rightarrow> nic list" where
  "initiator_options r =
     (case nonempty (ir_iqn r) of None \<Rightarrow> [] | Some v \<Rightarrow> [initiator_option ''node_iqn'' ''iSCSI IQN'' v])
     @ (case nonempty (ir_nqn r) of None \<Rightarrow> [] | Some v \<Rightarrow> [initiator_option ''node_nqn'' ''NVMe NQN'' v])
     @ (if ir_wwns r = [] then []
        else [initiator_option ''node_wwns'' ''FC WWNs'' (join '', '' (map normalize_wwn (ir_wwns r)))])"

definition discover_options :: "pve_env \<Rightarrow> string \<Rightarrow> nic list pve_action" where
  "discover_options E kind =
     (if kind \<in> {''nics'', ''nvme_sources'', ''fc_hbas''} then
        bnd (pve_host E) (\<lambda>h.
        bnd (node_interfaces E h kind) (\<lambda>opts.
        if kind = ''fc_hbas'' then ret opts
        else
          bnd (filter_common_subnet_interfaces E kind opts) (\<lambda>common.
          if pe_array E then bnd (data_interfaces E) (\<lambda>portals. ret (nics_on_array_subnets common portals))
          else ret common)))
      else if kind = ''fa_host_name'' then
        (let node = setting_or E ''node_host'' [] in
         ret (if node = [] then [] else [value_option (fa_name node)]))
      else if kind \<in> {''array_portals'', ''array_target_iqn'', ''array_target_nqn''} then
        (if \<not> pe_array E then ret []
         else if kind = ''array_portals'' then bnd (data_interfaces E) (\<lambda>ips. ret (map value_option ips))
         else
           bnd (call_out (dict_reply E) TargetPorts) (\<lambda>ports.
           let v = port_text ports (if kind = ''array_target_iqn'' then ''iqn'' else ''nqn'') in
           ret (if v = [] then [] else [value_option v])))
      else if kind = ''initiators'' then
        bnd (pve_host E) (\<lambda>h.
        bnd (discover_initiators (pve_runner E) h (ssh_kwargs E)) (\<lambda>found. ret (initiator_options found)))
      else ret [])"

section \<open>Validation\<close>

definition json_nodes :: "cluster_node list \<Rightarrow> json" where
  "json_nodes ns = JList (map (JObj \<circ> cluster_node_to_dict) ns)"

definition by_node :: "(string \<times> 'a) list \<Rightarrow> (string \<times> 'a) list" where
  "by_node kvs = fold (\<lambda>(k, v) d. AList.update k v d) kvs []"

definition interface_kind :: "string \<Rightarrow> string" where
  "interface_kind proto =
     (if proto = ''fc'' then ''fc_hbas'' else if proto = ''nvme-tcp'' then ''nvme_sources'' else ''nics'')"

definition json_target :: "string \<times> string \<Rightarrow> json" where
  "json_target = (\<lambda>(t, p). JObj [(''target'', JStr t), (''portal'', JStr p)])"

text \<open>The existing set-up of a node: its bound NICs, and its targets on this array and on others.\<close>

definition existing_binding ::
  "pve_env \<Rightarrow> string \<Rightarrow> cluster_node \<Rightarrow> (string \<times> string list \<times> (string \<times> string) list \<times> (string \<times> string) list) pve_action" where
  "existing_binding E array_iqn n =
     bnd (discover_iscsi_state (pve_runner E) (node_host n) (ssh_kwargs E)) (\<lambda>st.
     let this = filter (\<lambda>(t, p). array_iqn \<noteq> [] \<and> t = array_iqn) (is_targets st);
         others = filter (\<lambda>(t, p). array_iqn = [] \<or> t \<noteq> array_iqn) (is_targets st) in
     andthen (say (''  '' @ node_name n @ '': bound NICs='' @ repr_list (is_bound_nics st)
        @ ''; sessions to this array='' @ show_nat (length this) @ '', other arrays='' @ show_nat (length others)))
     (ret (node_name n, is_bound_nics st, this, others)))"

definition interface_values :: "pve_env \<Rightarrow> string \<Rightarrow> string list \<Rightarrow> cluster_node \<Rightarrow> (string \<times> string list) pve_action" where
  "interface_values E kind portals n =
     bnd (node_interfaces E (node_host n) kind) (\<lambda>found.
     let ifaces = (if kind = ''nics'' then nics_on_array_subnets found portals else found);
         vals = List.map_filter (\<lambda>o1. nonempty (map_of o1 ''value'')) ifaces in
     andthen (say (''  '' @ node_name n @ '' ('' @ node_host n @ ''): '' @ repr_list vals))
     (ret (node_name n, vals)))"

definition pve_validate_cluster :: "pve_env \<Rightarrow> op_result pve_action" where
  "pve_validate_cluster E =
     (let proto = pve_protocol E; kind = interface_kind proto in
      bnd (if pe_array E then data_interfaces E else ret []) (\<lambda>portals.
      bnd (if pe_array E \<and> proto = ''iscsi''
           then bnd (call_out (dict_reply E) TargetPorts) (\<lambda>d. ret (port_text d ''iqn'')) else ret []) (\<lambda>array_iqn.
      bnd (pve_list_nodes E) (\<lambda>nodes.
      let d0 = [(''protocol'', JStr proto), (''kind'', JStr kind), (''nodes'', json_nodes nodes)] in
      bnd (if proto = ''iscsi'' then collect nodes (existing_binding E array_iqn) else ret []) (\<lambda>found.
      let bound = by_node (map (\<lambda>(n, nics, rest). (n, nics)) found);
          d1 = d0 @ (if proto = ''iscsi''
            then [(''existing_bound_nics'', JObj (map (\<lambda>(n, v). (n, json_strs v)) bound)),
                  (''existing_targets'', JObj (by_node (map (\<lambda>(n, nics, this, others).
                     (n, JObj [(''this_array'', JList (map json_target this)),
                               (''other_arrays'', JList (map json_target others))])) found)))] else []) in
      if \<exists>b \<in> set bound. snd b \<noteq> [] then
        (case compare_node_interfaces bound of (consistent, detail) \<Rightarrow>
          let d2 = d1 @ [(''rebind_recommended'', JBool (\<not> consistent))] in
          ret (if consistent
               then op_ok (''Existing iSCSI NIC binding consistent across cluster: '' @ detail) [] d2
               else op_fail (''Existing iSCSI NIC binding differs across nodes (some unbound or bound differently): ''
                 @ detail @ ''. Re-run connectivity with rebind=true to make all nodes match.'') [] d2))
      else
        bnd (collect nodes (interface_values E kind portals)) (\<lambda>vals.
        let per_node = by_node vals; d2 = d1 @ [(''per_node'', JObj (map (\<lambda>(n, v). (n, json_strs v)) per_node))] in
        case compare_node_interfaces per_node of (consistent, detail) \<Rightarrow>
          ret (if consistent then op_ok (''Cluster storage interfaces consistent: '' @ detail) [] d2
               else op_fail (''Cluster storage interfaces inconsistent: '' @ detail) [] d2)))))))"

text \<open>\<^verbatim>\<open>repr\<close> of a value of JSON; how a float is printed is not modelled.\<close>

fun repr_json :: "json \<Rightarrow> exn + string"
  and repr_items :: "json list \<Rightarrow> exn + string list"
  and repr_entries :: "(string \<times> json) list \<Rightarrow> exn + string list" where
  "repr_json JNull = Inr ''None''"
| "repr_json (JBool b) = Inr (show_bool b)"
| "repr_json (JInt i) = Inr (show_int i)"
| "repr_json (JFloat q) = unmodelled"
| "repr_json (JStr s) = Inr (py_repr s)"
| "repr_json (JList xs) = ebind (repr_items xs) (\<lambda>ys. Inr (''['' @ join '', '' ys @ '']''))"
| "repr_json (JObj d) = ebind (repr_entries d) (\<lambda>ys. Inr (''{'' @ join '', '' ys @ ''}''))"
| "repr_items [] = Inr []"
| "repr_items (x # xs) = ebind (repr_json x) (\<lambda>y. ebind (repr_items xs) (\<lambda>ys. Inr (y # ys)))"
| "repr_entries [] = Inr []"
| "repr_entries ((k, v) # d) = ebind (repr_json v) (\<lambda>y. ebind (repr_entries d) (\<lambda>ys. Inr ((py_repr k @ '': '' @ y) # ys)))"

text \<open>The array's information, shown in the log.\<close>

definition array_reachable :: "pve_env \<Rightarrow> dict pve_action" where
  "array_reachable E =
     (if pe_array E then
        bnd (call_out (dict_reply E) ArrayInfo) (\<lambda>info.
        bnd (lift_sum (repr_json (JObj info))) (\<lambda>shown.
        andthen (say (''FlashArray reachable: '' @ shown)) (ret info)))
      else ret [])"

definition validate_connection :: "pve_env \<Rightarrow> op_result pve_action" where
  "validate_connection E =
     (let host = conn_host_setting E in
      andthen (say (''Validating Proxmox node '' @ host @ '' ...''))
      (if host = [] then raise (Exn ''ConnectionValidationError'' ''No Proxmox node_host configured'')
       else
         bnd (ssh E ''pveversion'' True None) (\<lambda>out.
         andthen (say ''Confirmed Proxmox VE via `pveversion`'')
         (bnd (array_reachable E) (\<lambda>info.
          ret (op_ok (''Connected to '' @ host) []
            [(''host'', JStr host), (''pveversion'', JStr out), (''array'', JObj info)]))))))"

section \<open>The plugin\<close>

definition dependency_script :: "string list" where
  "dependency_script =
     [''if perl -MJSON -MLWP::UserAgent -e1 2>/dev/null && command -v multipath >/dev/null 2>&1; then echo ''
        @ sq @ ''perl deps + multipath already present; skipping apt'' @ sq
        @ ''; else apt-get update || true; apt-get install -y libjson-perl liblwp-protocol-https-perl ''
        @ ''libwww-perl multipath-tools || true; fi'',
      ''perl -MJSON -e1 || { echo '' @ sq @ ''ERROR: perl JSON missing and apt could not install it'' @ sq @ ''; exit 1; }'',
      ''mkdir -p /usr/share/perl5/PVE/Storage/Custom'']"

definition plugin_heredoc :: "string \<Rightarrow> string" where
  "plugin_heredoc src =
     ''cat > '' @ PLUGIN_DEST @ '' <<'' @ sq @ ''PUREFA_PM_EOF'' @ sq @ newline @ src @ newline @ ''PUREFA_PM_EOF''"

definition reload_daemons :: string where
  "reload_daemons = ''systemctl reload pvedaemon pveproxy pvestatd''"

definition pvesm_status :: string where "pvesm_status = ''timeout 30 pvesm status''"

definition deploy_on_node :: "pve_env \<Rightarrow> string \<Rightarrow> cluster_node \<Rightarrow> unit pve_action" where
  "deploy_on_node E src n = steps [
     say (''-> deploying plugin on '' @ node_name n @ '' ('' @ node_host n @ '')''),
     andthen (ssh_script_on E (node_host n) dependency_script True None) (ret ()),
     andthen (ssh_on E (node_host n) (plugin_heredoc src) True None) (ret ()),
     andthen (ssh_on E (node_host n) reload_daemons True None) (ret ()),
     andthen (ssh_on E (node_host n) pvesm_status False None) (ret ())]"

definition endpoint_text :: "string \<times> nat \<Rightarrow> string" where
  "endpoint_text = (\<lambda>(h, p). h @ '':'' @ show_nat p)"

text \<open>The nodes that can not reach the array: None when there is no endpoint to check.\<close>

definition preflight_nodes :: "pve_env \<Rightarrow> cluster_node list \<Rightarrow> (string \<times> string list) option pve_action" where
  "preflight_nodes E nodes =
     (case array_mgmt_target E of
        None \<Rightarrow> ret None
      | Some (h, p) \<Rightarrow>
          bnd (unreachable_nodes E nodes h p) (\<lambda>bad.
          andthen (provided (bad = []) (say (''Array management '' @ endpoint_text (h, p) @ '' reachable from all ''
             @ show_nat (length nodes) @ '' node(s)'')))
          (ret (Some (endpoint_text (h, p), bad)))))"

definition deploy_integration :: "pve_env \<Rightarrow> string \<Rightarrow> cluster_node list option \<Rightarrow> op_result pve_action" where
  "deploy_integration E storage given =
     (let storage_id = pve_storage_id E storage in
      andthen (say (''Deploying purefa storage plugin (PureFAPlugin.pm -> '' @ PLUGIN_DEST @ '')''))
      (case pe_plugin E of
         None \<Rightarrow> ret (op_fail (''Plugin file missing: '' @ pe_plugin_path E) [] [])
       | Some src \<Rightarrow>
           andthen (say (''Plugin PureFAPlugin.pm ('' @ show_nat (length src) @ '' bytes) declares storage type ''
             @ py_repr PLUGIN_STORAGE_TYPE))
           (if pe_dry_run E
            then ret (op_ok ''[dry-run] plugin deploy planned'' [(''storage_id'', JStr storage_id)] [(''status'', JStr ''planned'')])
            else
              bnd (case given of Some ns \<Rightarrow> ret ns | None \<Rightarrow> pve_list_nodes E) (\<lambda>nodes.
              bnd (preflight_nodes E nodes) (\<lambda>check.
              case check of
                Some (endpoint, b # bad) \<Rightarrow>
                  ret (op_fail (''FlashArray management endpoint '' @ endpoint @ '' is not reachable from: ''
                      @ join '', '' (b # bad) @ ''. The purefa plugin runs on each node and needs the array management IP ''
                      @ ''reachable for provisioning, snapshots, clones and status. Fix routing/firewall (or the ''
                      @ ''configured endpoint) and re-run.'')
                    [(''endpoint'', JStr endpoint), (''unreachable_nodes'', json_strs (b # bad))] [])
              | _ \<Rightarrow>
                  andthen (foreach nodes (deploy_on_node E src))
                  (andthen (say (''purefa storage plugin installed at '' @ PLUGIN_DEST @ '' on ''
                     @ show_nat (length nodes) @ '' node(s)''))
                  (ret (op_ok ''purefa storage plugin deployed''
                    [(''storage_id'', JStr storage_id), (''plugin'', JStr PLUGIN_DEST),
                     (''storage_type'', JStr PLUGIN_STORAGE_TYPE), (''nodes'', json_nodes nodes)]
                    [(''status'', JStr ''plugin_installed'')]))))))))"

section \<open>The storage\<close>

definition configure_command :: "string \<Rightarrow> string \<Rightarrow> string \<Rightarrow> string \<Rightarrow> string \<Rightarrow> string \<Rightarrow> string" where
  "configure_command storage_id endpoint token proto hg content =
     (let sid = shlex_quote storage_id;
          update = ''--host_group '' @ shlex_quote hg @ '' --content '' @ shlex_quote content in
      ''pvesm add purefa '' @ sid @ '' --pure_endpoint '' @ shlex_quote endpoint @ '' --pure_api_token ''
      @ shlex_quote token @ '' --protocol '' @ shlex_quote proto @ '' '' @ update
      @ '' --shared 1 --disable 1 2>/dev/null || pvesm set '' @ sid @ '' '' @ update)"

definition pve_configure ::
  "pve_env \<Rightarrow> string \<Rightarrow> string \<Rightarrow> string \<Rightarrow> string \<Rightarrow> string \<Rightarrow> op_result pve_action" where
  "pve_configure E storage endpoint token host_group content =
     (let storage_id = pve_storage_id E storage; proto = pve_protocol E;
          hg = or_text [host_group] (setting_or E ''host_group'' []);
          tok = (case resolve_token (pve_context E) (Some token) of None \<Rightarrow> [] | Some t \<Rightarrow> t);
          ep = or_text [endpoint] (if pe_array E then pe_endpoint E else []) in
      andthen (say (''Defining purefa storage '' @ py_repr storage_id @ '' (proto='' @ proto @ '', host_group=''
        @ py_repr hg @ '') in /etc/pve/storage.cfg''))
      (if pe_dry_run E
       then ret (op_ok (''[dry-run] would define storage '' @ storage_id) [(''storage_id'', JStr storage_id)] [])
       else
         andthen (ssh E (configure_command storage_id ep tok proto hg content) True None)
         (andthen (ssh E pvesm_status False None)
         (andthen (say (''Storage '' @ storage_id @ '' (type purefa) defined (disabled until '' @ sq @ ''enable'' @ sq @ '')''))
         (ret (op_ok (''Configured purefa storage '' @ storage_id @ '' (disabled)'')
           [(''storage_id'', JStr storage_id), (''storage_type'', JStr PLUGIN_STORAGE_TYPE),
            (''host_group'', JStr hg), (''enabled'', JBool False)] []))))))"

definition enable_storage :: "pve_env \<Rightarrow> string \<Rightarrow> op_result pve_action" where
  "enable_storage E storage =
     (let storage_id = pve_storage_id E storage in
      andthen (say (''Enabling purefa storage '' @ storage_id))
      (if pe_dry_run E
       then ret (op_ok (''[dry-run] would enable storage '' @ storage_id) [(''storage_id'', JStr storage_id)] [])
       else
         andthen (ssh E (''pvesm set '' @ shlex_quote storage_id @ '' --disable 0'') True None)
         (andthen (ssh E pvesm_status False None)
         (ret (op_ok (''Enabled purefa storage '' @ storage_id)
           [(''storage_id'', JStr storage_id), (''enabled'', JBool True)] [])))))"


section \<open>Registering the nodes\<close>

definition show_list_opt :: "string list option \<Rightarrow> string" where
  "show_list_opt x = (case x of None \<Rightarrow> ''None'' | Some xs \<Rightarrow> repr_list xs)"

text \<open>The initiators the operator supplied, for the connection node.\<close>

definition explicit_initiators :: "pve_env \<Rightarrow> string \<Rightarrow> string \<Rightarrow> string \<Rightarrow> string \<times> string \<times> string list" where
  "explicit_initiators E iqn nqn wwns_text =
     (or_text [iqn] (setting_or E ''node_iqn'' []), or_text [nqn] (setting_or E ''node_nqn'' []),
      (let ws = split_csv wwns_text in if ws \<noteq> [] then ws else split_csv (setting_or E ''node_wwns'' [])))"

definition initiators_of :: "string \<Rightarrow> string \<times> string \<times> string list \<Rightarrow> initiators" where
  "initiators_of proto = (\<lambda>(iqn, nqn, ws).
     \<lparr>iqns = (if proto = ''iscsi'' \<and> iqn \<noteq> [] then Some [iqn] else None),
      wwns = (if proto = ''fc'' \<and> ws \<noteq> [] then Some ws else None),
      nqns = (if proto = ''nvme-tcp'' \<and> nqn \<noteq> [] then Some [nqn] else None)\<rparr>)"

definition explicit_for :: "string \<Rightarrow> string \<times> string \<times> string list \<Rightarrow> bool" where
  "explicit_for proto = (\<lambda>(iqn, nqn, ws).
     (proto = ''iscsi'' \<and> iqn \<noteq> []) \<or> (proto = ''nvme-tcp'' \<and> nqn \<noteq> []) \<or> (proto = ''fc'' \<and> ws \<noteq> []))"

definition resolve_node_initiators ::
  "pve_env \<Rightarrow> string \<Rightarrow> string \<Rightarrow> string \<times> string \<times> string list \<Rightarrow> initiators pve_action" where
  "resolve_node_initiators E host proto given =
     (if explicit_for proto given then ret (initiators_of proto given)
      else
        bnd (discover_initiators (pve_runner E) host (ssh_kwargs E)) (\<lambda>found.
        let (iqn, nqn, ws) = given;
            chosen =
              (if proto = ''iscsi'' then (or_text [(case ir_iqn found of None \<Rightarrow> [] | Some x \<Rightarrow> x)] iqn, nqn, ws)
               else if proto = ''nvme-tcp'' then (iqn, or_text [(case ir_nqn found of None \<Rightarrow> [] | Some x \<Rightarrow> x)] nqn, ws)
               else if proto = ''fc'' \<and> ir_wwns found \<noteq> [] then (iqn, nqn, map normalize_wwn (ir_wwns found))
               else (iqn, nqn, ws)) in
        andthen (say (''Auto-discovered initiators for '' @ host @ '' ('' @ proto @ ''): iqn='' @ yes_no (ir_iqn found)
          @ '' nqn='' @ yes_no (ir_nqn found) @ '' wwns='' @ show_nat (length (ir_wwns found))))
        (ret (initiators_of proto chosen))))"

definition has_initiator :: "initiators \<Rightarrow> bool" where
  "has_initiator i \<longleftrightarrow> or_empty (iqns i) \<noteq> [] \<or> or_empty (nqns i) \<noteq> [] \<or> or_empty (wwns i) \<noteq> []"

definition expected_fa_host :: "cluster_node \<Rightarrow> string" where
  "expected_fa_host n = fa_name (or_text [node_name n, node_host n] ''pve-node'')"

text \<open>The hosts to register, in the order of the nodes, or the refusal.\<close>

fun host_specs ::
  "pve_env \<Rightarrow> string \<Rightarrow> string \<Rightarrow> string \<Rightarrow> string \<times> string \<times> string list \<Rightarrow> cluster_node list \<Rightarrow>
   (string + host_spec list) pve_action" where
  "host_specs E proto conn_host host_name given [] = ret (Inr [])"
| "host_specs E proto conn_host host_name given (n # ns) =
     (let is_conn = (node_host n = conn_host);
          name = (if is_conn \<and> host_name \<noteq> [] then fa_name host_name else expected_fa_host n) in
      bnd (resolve_node_initiators E (node_host n) proto (if is_conn then given else ([], [], []))) (\<lambda>i.
      if \<not> pe_dry_run E \<and> \<not> has_initiator i then
        ret (Inl (''No '' @ proto @ '' initiator provided or discoverable for '' @ py_repr name @ '' ('' @ node_host n
          @ '') (supply node_iqn/node_nqn/node_wwns or ensure the node exposes one)''))
      else
        andthen (say (''Registering host '' @ py_repr name @ '' ('' @ node_host n @ '', proto='' @ proto @ '') iqns=''
          @ show_list_opt (iqns i) @ '' nqns='' @ show_list_opt (nqns i) @ '' wwns='' @ show_list_opt (wwns i)))
        (bnd (host_specs E proto conn_host host_name given ns) (\<lambda>r.
         ret (case r of Inl e \<Rightarrow> Inl e | Inr specs \<Rightarrow> Inr ((name, i) # specs))))))"

definition register_hosts ::
  "pve_env \<Rightarrow> string \<Rightarrow> string \<Rightarrow> string \<Rightarrow> string \<Rightarrow> string \<Rightarrow> cluster_node list option \<Rightarrow> op_result pve_action" where
  "register_hosts E host_group host_name iqn nqn wwns_text given_nodes =
     (let proto = pve_protocol E; hg = or_text [host_group] (setting_or E ''host_group'' []) in
      if \<not> pe_array E then ret (op_fail ''No FlashArray associated with this hypervisor'' [] [])
      else if proto = ''nfs'' then
        andthen (say ''protocol=nfs: skipping FlashArray host registration (NFS export is mounted, no initiators)'')
          (ret (op_ok ''NFS: no host registration required'' [(''protocol'', JStr ''nfs''), (''skipped'', JBool True)] []))
      else if hg = [] then ret (op_fail ''No host_group set (configure it on the hypervisor)'' [] [])
      else
        bnd (case given_nodes of Some ns \<Rightarrow> ret ns | None \<Rightarrow> pve_list_nodes E) (\<lambda>nodes.
        bnd (pve_host E) (\<lambda>conn_host.
        bnd (host_specs E proto conn_host host_name (explicit_initiators E iqn nqn wwns_text) nodes) (\<lambda>r.
        case r of
          Inl msg \<Rightarrow> ret (op_fail msg [] [])
        | Inr specs \<Rightarrow>
            let registered = map fst specs in
            if pe_dry_run E then
              ret (op_ok (''[dry-run] would register '' @ show_nat (length registered) @ '' host(s) ''
                  @ repr_list registered @ '' in host group '' @ hg)
                [(''hosts'', json_strs registered), (''host_group'', JStr hg)] [])
            else
              bnd (apply_host_group (pve_context E) hg specs) (\<lambda>res.
              case nonempty (reg_conflict res) of
                Some why \<Rightarrow> ret (op_fail why [(''host_group'', JStr hg), (''protocol'', JStr proto)] [])
              | None \<Rightarrow>
                  let g = reg_group res; hosts = reg_hosts res in
                  andthen (say (''Host group '' @ g @ '' ready with '' @ show_nat (length hosts) @ '' host(s): '' @ repr_list hosts))
                  (ret (op_ok (''Registered '' @ show_nat (length hosts) @ '' host(s) in host group '' @ g)
                    [(''hosts'', json_strs hosts), (''host'', JStr (if hosts = [] then [] else hd hosts)),
                     (''host_group'', JStr g), (''protocol'', JStr proto),
                     (''adopted_host_group'', JBool (reg_adopted res)), (''nodes'', json_nodes nodes)] [])))))))"

section \<open>Transports\<close>

definition multipath_dropin :: string where "multipath_dropin = ''/etc/multipath/conf.d/pure.conf''"

definition multipath_conf :: "string list" where
  "multipath_conf =
     [''# Managed by PHIF '' @ em_dash @ '' Everpure FlashArray multipath settings.'',
      ''defaults {'',
      ''    polling_interval 10'',
      ''    # '' @ sq @ ''no'' @ sq @ '' so every (non-blacklisted) Everpure LUN is auto-claimed into a multipath'',
      ''    # device without an explicit `multipath -a <wwid>` -- otherwise a freshly'',
      ''    # attached per-disk volume isn'' @ sq @ ''t assembled and /dev/mapper/<wwid> is missing.'',
      ''    find_multipaths no'',
      ''    # Always name the map by its WWID (/dev/mapper/3624a9370<serial>), never an'',
      ''    # '' @ sq @ ''mpathN'' @ sq @ '' alias -- volumes are resolved by WWID.'',
      ''    user_friendly_names no'',
      ''}'',
      [],
      ''devices {'',
      ''    device {'',
      ''        vendor '' @ dq @ ''PURE'' @ dq,
      ''        product '' @ dq @ ''FlashArray'' @ dq,
      ''        path_selector '' @ dq @ ''service-time 0'' @ dq,
      ''        path_grouping_policy group_by_prio'',
      ''        prio alua'',
      ''        hardware_handler '' @ dq @ ''1 alua'' @ dq,
      ''        path_checker tur'',
      ''        failback immediate'',
      ''        fast_io_fail_tmo 10'',
      ''        dev_loss_tmo 60'',
      ''        no_path_retry 0'',
      ''    }'',
      ''}'', []]"

definition run_on :: "pve_env \<Rightarrow> string \<Rightarrow> string \<Rightarrow> bool \<Rightarrow> unit pve_action" where
  "run_on E host c check = andthen (ssh_on E host c check None) (ret ())"

definition script_on :: "pve_env \<Rightarrow> string \<Rightarrow> string list \<Rightarrow> bool \<Rightarrow> unit pve_action" where
  "script_on E host ls check = andthen (ssh_script_on E host ls check None) (ret ())"

definition write_multipath_conf :: "pve_env \<Rightarrow> string \<Rightarrow> unit pve_action" where
  "write_multipath_conf E host = steps [
     say (''Writing Everpure multipath drop-in '' @ multipath_dropin @ '' on '' @ host),
     run_on E host ''mkdir -p /etc/multipath/conf.d'' True,
     run_on E host ''test -f /etc/multipath.conf || touch /etc/multipath.conf'' True,
     run_on E host (''cat > '' @ multipath_dropin @ '' <<'' @ sq @ ''PUREFA_MPATH_EOF'' @ sq @ newline
       @ join newline multipath_conf @ ''PUREFA_MPATH_EOF'') True,
     script_on E host [''systemctl enable --now multipathd'',
       ''systemctl reload multipathd || systemctl restart multipathd'', ''sleep 1'', ''multipath -r || true''] False]"

definition nvme_setup :: "string list" where
  "nvme_setup =
     [''apt-get update || true'', ''apt-get install -y nvme-cli'',
      ''modprobe nvme && modprobe nvme-tcp && modprobe nvme-core'',
      ''printf '' @ sq @ ''nvme'' @ bs @ ''nnvme-tcp'' @ bs @ ''nnvme-core'' @ bs @ ''n'' @ sq @ '' > /etc/modules-load.d/nvme-tcp.conf'',
      ''echo '' @ sq @ ''options nvme_core multipath=Y'' @ sq @ '' > /etc/modprobe.d/nvme-tcp.conf'',
      ''mkdir -p /etc/nvme'',
      ''[ -f /etc/nvme/hostnqn ] || nvme gen-hostnqn > /etc/nvme/hostnqn'',
      ''printf '' @ sq @ ''ACTION=='' @ dq @ ''add'' @ dq @ '', SUBSYSTEM=='' @ dq @ ''nvme-subsystem'' @ dq
        @ '', ATTR{iopolicy}='' @ dq @ ''queue-depth'' @ dq @ bs @ ''n'' @ sq @ '' > /etc/udev/rules.d/99-nvme-iopolicy.rules'',
      ''udevadm control --reload-rules && udevadm trigger'']"

definition nvme_connect :: "string \<Rightarrow> string \<Rightarrow> string option \<Rightarrow> string \<Rightarrow> string" where
  "nvme_connect portal nqn src options =
     ''nvme connect -t tcp -a '' @ portal @ '' -s 4420 -n '' @ nqn
     @ (case src of None \<Rightarrow> [] | Some x \<Rightarrow> '' -w '' @ x)
     @ '' --ctrl-loss-tmo=1800 --reconnect-delay=10''
     @ (if strip options = [] then [] else '' '' @ strip options)"

definition nvme_commands :: "string list \<Rightarrow> string \<Rightarrow> string list \<Rightarrow> string \<Rightarrow> string list" where
  "nvme_commands portals nqn sources options =
     concat (map (\<lambda>p. if sources = [] then [nvme_connect p nqn None options]
        else map (\<lambda>x. nvme_connect p nqn (Some x) options) sources) portals)"

definition connect_nvme_tcp :: "pve_env \<Rightarrow> string \<Rightarrow> string list \<Rightarrow> string \<Rightarrow> string list \<Rightarrow> string \<Rightarrow> unit pve_action" where
  "connect_nvme_tcp E host portals nqn sources options = steps [
     script_on E host nvme_setup True,
     foreach (nvme_commands portals nqn sources options) (\<lambda>c. run_on E host c True),
     script_on E host [''systemctl enable nvmf-autoconnect.service'', ''nvme connect-all''] True,
     say (''NVMe-TCP persistent connections configured on '' @ host)]"

definition iface_name :: "string \<Rightarrow> string" where "iface_name nic = ''phif_'' @ nic"

definition bind_iface :: "pve_env \<Rightarrow> string \<Rightarrow> bool \<Rightarrow> string \<Rightarrow> unit pve_action" where
  "bind_iface E host rebind nic = steps [
     provided rebind (run_on E host (''iscsiadm -m iface -I '' @ iface_name nic @ '' --op=delete'') False),
     run_on E host (''iscsiadm -m iface -I '' @ iface_name nic @ '' --op=new'') False,
     run_on E host (''iscsiadm -m iface -I '' @ iface_name nic @ '' --op=update -n iface.net_ifacename -v '' @ nic) True]"

definition discovery_commands :: "string list \<Rightarrow> string list \<Rightarrow> string list" where
  "discovery_commands ifaces portals =
     concat (map (\<lambda>p. if ifaces = [] then [''iscsiadm -m discovery -t sendtargets -p '' @ p @ '':3260'']
        else map (\<lambda>i. ''iscsiadm -m discovery -t st -p '' @ p @ '':3260 -I '' @ i) ifaces) portals)"

definition login_commands :: "string list \<Rightarrow> string \<Rightarrow> string list" where
  "login_commands ifaces iqn =
     (let tgt = (if iqn = [] then [] else ''-T '' @ iqn); squeeze = replace_str ''  '' '' '' in
      if ifaces = [] then [squeeze (''iscsiadm -m node '' @ tgt @ '' --login'')]
      else map (\<lambda>i. squeeze (''iscsiadm -m node '' @ tgt @ '' -I '' @ i @ '' --login'')) ifaces)"

definition connect_iscsi :: "pve_env \<Rightarrow> string \<Rightarrow> string list \<Rightarrow> string \<Rightarrow> string list \<Rightarrow> bool \<Rightarrow> unit pve_action" where
  "connect_iscsi E host portals iqn host_nics rebind =
     (let ifaces = map iface_name host_nics in steps [
        script_on E host
          [''if command -v iscsiadm >/dev/null 2>&1 && command -v multipath >/dev/null 2>&1; then echo ''
             @ sq @ ''iscsi/multipath present'' @ sq
             @ ''; else apt-get update || true; apt-get install -y open-iscsi multipath-tools || true; fi'',
           ''systemctl enable --now iscsid multipathd''] True,
        foreach host_nics (bind_iface E host rebind),
        provided (host_nics \<noteq> [])
          (andthen (say (''['' @ host @ ''] applying iSCSI ARP-flux sysctls for '' @ repr_list host_nics))
            (run_on E host (arp_flux_cmd (Some (map Some host_nics))) False)),
        foreach (discovery_commands ifaces portals) (\<lambda>c. run_on E host c False),
        foreach (login_commands ifaces iqn) (\<lambda>c. run_on E host c False),
        write_multipath_conf E host,
        say (''iSCSI connectivity + multipath configured on '' @ host)])"

definition connect_fc :: "pve_env \<Rightarrow> string \<Rightarrow> string list \<Rightarrow> unit pve_action" where
  "connect_fc E host hbas = steps [
     script_on E host [''apt-get update || true'', ''apt-get install -y multipath-tools sg3-utils'',
       ''systemctl enable --now multipathd''] True,
     script_on E host
       [''for f in /sys/class/fc_host/host*/issue_lip; do [ -w '' @ dq @ ''$f'' @ dq @ '' ] && echo 1 > '' @ dq @ ''$f'' @ dq
          @ '' || true; done'',
        ''for h in /sys/class/scsi_host/host*/scan; do echo '' @ sq @ ''- - -'' @ sq @ '' > $h; done'',
        ''command -v rescan-scsi-bus.sh >/dev/null 2>&1 && rescan-scsi-bus.sh -a || true''] False,
     write_multipath_conf E host,
     provided (hbas \<noteq> []) (say (''Limiting FC to selected HBAs: '' @ repr_list hbas @ '' (zoning is external to PHIF)'')),
     say (''FC rescan complete on '' @ host @ ''; multipath assembled (SAN zoning assumed ''
       @ ''on fabric, no IP login step performed)'')]"

section \<open>Connecting the cluster\<close>

definition binding_options :: "(string \<times> string list) list \<Rightarrow> string" where
  "binding_options keys =
     join '' '' (map (\<lambda>(k, v). ''--'' @ k @ '' '' @ shlex_quote (join '','' v)) keys)"

definition repr_binding :: "(string \<times> string list) list \<Rightarrow> string" where
  "repr_binding keys = ''{'' @ join '', '' (map (\<lambda>(k, v). py_repr k @ '': '' @ repr_list v) keys) @ ''}''"

text \<open>\<open>keys\<close> are the bindings that are not empty.\<close>

definition persist_binding :: "pve_env \<Rightarrow> (string \<times> string list) list \<Rightarrow> unit pve_action" where
  "persist_binding E keys =
     (if binding_options keys = [] then ret ()
      else
        let storage_id = pve_storage_id E [] in
        andthen (say (''Setting interface binding on storage '' @ py_repr storage_id @ '': '' @ repr_binding keys))
        (andthen (ssh E (''pvesm set '' @ shlex_quote storage_id @ '' '' @ binding_options keys) False None) (ret ())))"

definition connect_node ::
  "pve_env \<Rightarrow> string \<Rightarrow> string list \<Rightarrow> string \<Rightarrow> string \<Rightarrow> (string \<times> string list) list \<Rightarrow> string \<Rightarrow> bool \<Rightarrow>
   cluster_node \<Rightarrow> unit pve_action" where
  "connect_node E proto portals nqn iqn binding options rebind n =
     andthen (say (''-> connectivity on '' @ node_name n @ '' ('' @ node_host n @ '')''))
     (if proto = ''nvme-tcp'' then connect_nvme_tcp E (node_host n) portals nqn (dict_get binding ''nvme_sources'' []) options
      else if proto = ''iscsi'' then connect_iscsi E (node_host n) portals iqn (dict_get binding ''iscsi_nics'' []) rebind
      else connect_fc E (node_host n) (dict_get binding ''fc_hbas'' []))"

text \<open>A value the operator left empty is asked of the array.\<close>

definition or_target_port :: "pve_env \<Rightarrow> bool \<Rightarrow> string \<Rightarrow> string \<Rightarrow> string \<Rightarrow> string pve_action" where
  "or_target_port E wanted key what given =
     (if wanted \<and> given = [] then
        bnd (call_out (dict_reply E) TargetPorts) (\<lambda>ports.
        andthen (say (''Discovered array '' @ what @ '': '' @ port_text ports key)) (ret (port_text ports key)))
      else ret given)"

definition no_portals :: "string \<Rightarrow> string" where
  "no_portals proto =
     ''No '' @ proto @ '' portal IPs found on the array. Its '' @ proto @ '' interfaces have no IP configured (this array ''
     @ ''may be Fibre Channel / NVMe-FC only). Configure '' @ proto @ '' networking on the FlashArray, switch the ''
     @ ''hypervisor protocol to '' @ sq @ ''fc'' @ sq @ '', or pass portals explicitly.''"

definition no_target_iqn :: string where
  "no_target_iqn = ''No iSCSI target IQN found on the array (no iSCSI ports). This array appears to be Fibre Channel / ''
     @ ''NVMe-FC only '' @ em_dash @ '' switch the hypervisor protocol to '' @ sq @ ''fc'' @ sq @ ''.''"

definition connect_cluster ::
  "pve_env \<Rightarrow> string \<Rightarrow> string list \<Rightarrow> string \<Rightarrow> string \<Rightarrow> (string \<times> string list) list \<Rightarrow> string \<Rightarrow> bool \<Rightarrow>
   cluster_node list \<Rightarrow> op_result pve_action" where
  "connect_cluster E proto portals nqn iqn binding options rebind nodes =
     (let arts = [(''protocol'', JStr proto), (''portals'', json_strs portals), (''nodes'', json_nodes nodes)]
             @ map (\<lambda>(k, v). (k, json_strs v)) binding in
      andthen (say (''Configuring '' @ proto @ '' connectivity on '' @ show_nat (length nodes) @ '' node(s) to portals ''
        @ repr_list portals))
      (if pe_dry_run E then ret (op_ok (''[dry-run] would configure '' @ proto @ '' connectivity'') arts [])
       else if proto \<notin> {''nvme-tcp'', ''iscsi'', ''fc''}
         then ret (op_fail (''Unsupported protocol '' @ py_repr proto) [] [])
       else
         andthen (foreach nodes (connect_node E proto portals nqn iqn binding options rebind))
         (andthen (persist_binding E (filter (\<lambda>(k, v). v \<noteq> []) binding))
         (andthen (say (proto @ '' connectivity configured on '' @ show_nat (length nodes) @ '' node(s)''))
         (ret (op_ok (proto @ '' connectivity configured'')
           (arts @ (if proto = ''nvme-tcp'' then [(''subsystem_nqn'', JStr nqn)] else [])) []))))))"

definition setup_connectivity ::
  "pve_env \<Rightarrow> string \<Rightarrow> string \<Rightarrow> string \<Rightarrow> json \<Rightarrow> json \<Rightarrow> string \<Rightarrow> json \<Rightarrow> string \<Rightarrow>
   cluster_node list option \<Rightarrow> op_result pve_action" where
  "setup_connectivity E portals_text nqn0 iqn0 nics_v sources_v options hbas_v rebind given_nodes =
     (let proto = pve_protocol E; ip = (pe_array E \<and> (proto = ''iscsi'' \<or> proto = ''nvme-tcp'')) in
      if proto = ''nfs'' then
        andthen (say ''protocol=nfs: skipping block connectivity (no iSCSI/NVMe login or multipath for NFS)'')
          (ret (op_ok ''NFS: no block connectivity required'' [(''protocol'', JStr ''nfs''), (''skipped'', JBool True)] []))
      else
        bnd (lift_sum (as_list nics_v)) (\<lambda>host_nics.
        bnd (lift_sum (as_list sources_v)) (\<lambda>sources.
        bnd (lift_sum (as_list hbas_v)) (\<lambda>hbas.
        let binding = [(''iscsi_nics'', host_nics), (''nvme_sources'', sources), (''fc_hbas'', hbas)] in
        andthen (provided (host_nics \<noteq> [] \<or> sources \<noteq> [] \<or> hbas \<noteq> [])
          (say (''Interface binding: iscsi_nics='' @ repr_list host_nics @ '' nvme_sources='' @ repr_list sources
             @ '' fc_hbas='' @ repr_list hbas)))
        (bnd (if ip \<and> split_csv portals_text = [] then
               bnd (data_interfaces E) (\<lambda>ps.
               andthen (say (''Discovered array '' @ array_service E @ '' portals: '' @ repr_list ps)) (ret ps))
             else ret (split_csv portals_text)) (\<lambda>portals.
        bnd (or_target_port E (ip \<and> proto = ''iscsi'') ''iqn'' ''iSCSI target IQN'' iqn0) (\<lambda>iqn.
        bnd (or_target_port E (ip \<and> proto = ''nvme-tcp'') ''nqn'' ''NVMe subsystem NQN'' nqn0) (\<lambda>nqn.
        if (proto = ''iscsi'' \<or> proto = ''nvme-tcp'') \<and> portals = [] \<and> \<not> pe_dry_run E
          then ret (op_fail (no_portals proto) [] [])
        else if proto = ''iscsi'' \<and> iqn = [] \<and> \<not> pe_dry_run E then ret (op_fail no_target_iqn [] [])
        else
          bnd (case given_nodes of Some ns \<Rightarrow> ret ns | None \<Rightarrow> pve_list_nodes E) (\<lambda>nodes.
          connect_cluster E proto portals nqn iqn binding options (flag_on rebind) nodes)))))))))"

section \<open>Health and removal\<close>

definition node_health :: "pve_env \<Rightarrow> cluster_node \<Rightarrow> (string \<times> json) pve_action" where
  "node_health E n =
     andthen (say (''-> health on '' @ node_name n @ '' ('' @ node_host n @ '')''))
     (bnd (ssh_on E (node_host n) pvesm_status False None) (\<lambda>st.
      bnd (ssh_on E (node_host n) (if pve_protocol E = ''nvme-tcp'' then ''nvme list-subsys'' else ''multipath -ll'') False None)
        (\<lambda>paths.
      ret (node_name n, JObj [(''host'', JStr (node_host n)), (''pvesm_status'', JStr st), (''paths'', JStr paths)]))))"

definition health_check :: "pve_env \<Rightarrow> op_result pve_action" where
  "health_check E =
     bnd (pve_list_nodes E) (\<lambda>nodes.
     andthen (say (''Collecting Proxmox + path health from '' @ show_nat (length nodes) @ '' node(s) ...''))
     (bnd (collect nodes (node_health E)) (\<lambda>per_node.
      bnd (if pe_array E then call_out (dict_reply E) ArrayInfo else ret []) (\<lambda>info.
      ret (op_ok ''Health collected'' []
        [(''protocol'', JStr (pve_protocol E)), (''nodes'', JObj (by_node per_node)), (''array'', JObj info)])))))"

definition remove_plugin :: "pve_env \<Rightarrow> cluster_node \<Rightarrow> unit pve_action" where
  "remove_plugin E n = steps [
     say (''-> removing plugin on '' @ node_name n @ '' ('' @ node_host n @ '')''),
     run_on E (node_host n) (''rm -f '' @ PLUGIN_DEST) False,
     run_on E (node_host n) reload_daemons False]"

definition pve_teardown :: "pve_env \<Rightarrow> string \<Rightarrow> op_result pve_action" where
  "pve_teardown E storage =
     (let storage_id = pve_storage_id E storage in
      andthen (say (''Removing purefa storage '' @ py_repr storage_id @ '' and plugin ...''))
      (if pe_dry_run E then ret (op_ok ''[dry-run] teardown planned'' [] [(''status'', JStr ''planned'')])
       else
         andthen (ssh E (''pvesm remove '' @ storage_id) False None)
         (bnd (pve_list_nodes E) (\<lambda>nodes.
          andthen (foreach nodes (remove_plugin E))
          (andthen (say (''purefa storage and plugin removed from '' @ show_nat (length nodes) @ '' node(s)''))
          (ret (op_ok ''Integration removed'' [(''nodes'', json_nodes nodes)] [(''status'', JStr ''not_deployed'')])))))))"

end
