(* ===== verification/Proxmox_Reconcile.thy ===== *)
theory Proxmox_Reconcile
  imports Proxmox_Nodes
begin

text \<open>
  Drift of a Proxmox cluster: the read-only assessment of the membership against the FlashArray
  host group, the reconciliation that configures the new nodes and removes the departed ones, and
  the NFS datastore.
\<close>

section \<open>Assessment\<close>

record new_host =
  nh_node :: string
  nh_host :: string
  nh_ready :: bool
  nh_reasons :: "string list"

definition new_host_to_dict :: "new_host \<Rightarrow> json" where
  "new_host_to_dict h =
     JObj [(''node'', JStr (nh_node h)), (''host'', JStr (nh_host h)), (''ready'', JBool (nh_ready h)),
           (''reasons'', json_strs (nh_reasons h))]"

text \<open>What the assessment's result carries as data.\<close>

record assessment =
  am_nodes :: "string list"
  am_new :: "new_host list"
  am_departed :: "string list"
  am_note :: "string option"

definition initiator_dict :: "initiator_report \<Rightarrow> dict" where
  "initiator_dict r = [(''iqn'', json_opt (ir_iqn r)), (''nqn'', json_opt (ir_nqn r)), (''wwns'', json_strs (ir_wwns r))]"

definition baseline_storage_subnets :: "pve_env \<Rightarrow> cluster_node list \<Rightarrow> string list \<Rightarrow> string set pve_action" where
  "baseline_storage_subnets E configured portals =
     (case configured of
        ref # rest \<Rightarrow>
          if is_mock_or_dry E \<or> portals = [] then ret {}
          else bnd (node_interfaces E (node_host ref) ''nics'') (\<lambda>found. ret (matched_subnets found portals))
      | [] \<Rightarrow> ret {})"

definition assess_node ::
  "pve_env \<Rightarrow> string list \<Rightarrow> string set \<Rightarrow> string \<times> cluster_node \<Rightarrow> new_host pve_action" where
  "assess_node E portals baseline = (\<lambda>(fa, n).
     if is_mock_or_dry E then
       ret \<lparr>nh_node = node_name n, nh_host = fa, nh_ready = True, nh_reasons = []\<rparr>
     else
       bnd (discover_initiators (pve_runner E) (node_host n) (ssh_kwargs E)) (\<lambda>inits.
       bnd (node_interfaces E (node_host n) ''nics'') (\<lambda>host_nics.
       case score_host_readiness (pve_protocol E) (initiator_dict inits \<noteq> [] \<or> host_nics \<noteq> [])
              (initiator_dict inits) host_nics portals (if baseline = {} then None else Some baseline) of
         (ready, reasons) \<Rightarrow>
           ret \<lparr>nh_node = node_name n, nh_host = fa, nh_ready = ready, nh_reasons = reasons\<rparr>)))"

definition group_of_cluster :: "pve_env \<Rightarrow> string \<Rightarrow> string" where
  "group_of_cluster E hg = or_text [hg] (setting_or E ''host_group'' [])"

definition expected_nodes :: "cluster_node list \<Rightarrow> (string \<times> cluster_node) list" where
  "expected_nodes nodes = by_node (map (\<lambda>n. (expected_fa_host n, n)) nodes)"

definition assess_report :: "pve_env \<Rightarrow> string \<Rightarrow> assessment pve_action" where
  "assess_report E host_group =
     (let proto = pve_protocol E; hg = group_of_cluster E host_group in
      bnd (pve_list_nodes E) (\<lambda>nodes.
      let names = map node_name nodes in
      if proto = ''nfs'' \<or> \<not> pe_array E \<or> hg = [] then
        ret \<lparr>am_nodes = names, am_new = [], am_departed = [],
             am_note = Some (if proto = ''nfs'' then ''nfs'' else ''no array/host_group'')\<rparr>
      else
        bnd (call_out (texts_reply E) (Members hg)) (\<lambda>group_members.
        let expected = expected_nodes nodes;
            new_nodes = filter (\<lambda>(fa, n). fa \<notin> set group_members) expected;
            departed = sort (filter (\<lambda>m. m \<notin> fst ` set expected) group_members);
            configured = filter (\<lambda>n. expected_fa_host n \<in> set group_members) nodes in
        bnd (if proto = ''iscsi'' \<or> proto = ''nvme-tcp'' then data_interfaces E else ret []) (\<lambda>portals.
        bnd (baseline_storage_subnets E configured portals) (\<lambda>baseline.
        bnd (collect new_nodes (assess_node E portals baseline)) (\<lambda>new_hosts.
        andthen (say (''Cluster assessment: '' @ show_nat (length names) @ '' node(s); '' @ show_nat (length new_hosts)
          @ '' new, '' @ show_nat (length departed) @ '' departed''))
        (ret \<lparr>am_nodes = names, am_new = new_hosts, am_departed = departed, am_note = None\<rparr>)))))))"

definition assessment_result :: "assessment \<Rightarrow> op_result" where
  "assessment_result a =
     op_ok (case am_note a of
        Some why \<Rightarrow> show_nat (length (am_nodes a)) @ '' node(s); no host-group assessment ('' @ why @ '')''
      | None \<Rightarrow> show_nat (length (am_new a)) @ '' new host(s), '' @ show_nat (length (am_departed a)) @ '' departed'') []
     [(''nodes'', json_strs (am_nodes a)), (''new_hosts'', JList (map new_host_to_dict (am_new a))),
      (''departed_hosts'', json_strs (am_departed a))]"

definition pve_assess_cluster :: "pve_env \<Rightarrow> string \<Rightarrow> op_result pve_action" where
  "pve_assess_cluster E host_group = bnd (assess_report E host_group) (\<lambda>a. ret (assessment_result a))"

section \<open>Reconciliation\<close>

text \<open>
  The nodes whose set-up is repeated: those whose host is in the group, and the ready new ones. The
  names of the ready nodes are a \<^verbatim>\<open>set\<close> of the code; \<open>pe_iteration\<close> is the order it iterates in.
\<close>

definition scope_nodes :: "cluster_node list \<Rightarrow> string list \<Rightarrow> string set \<Rightarrow> cluster_node list" where
  "scope_nodes nodes group_members ready_names =
     filter (\<lambda>n. expected_fa_host n \<in> set group_members \<or> node_name n \<in> ready_names) nodes"

definition configure_new ::
  "pve_env \<Rightarrow> string \<Rightarrow> cluster_node list \<Rightarrow> cluster_node list \<Rightarrow> nat \<Rightarrow> unit pve_action" where
  "configure_new E hg new_nodes scope n = steps [
     say (''Reconcile: configuring '' @ show_nat n @ '' ready new node(s) (scope='' @ show_nat (length scope) @ '' node(s))''),
     andthen (deploy_integration E [] (Some new_nodes)) (ret ()),
     andthen (register_hosts E hg [] [] [] [] (Some scope)) (ret ()),
     andthen (setup_connectivity E [] [] [] JNull JNull [] JNull ''False'' (Some scope)) (ret ())]"

definition reconcile_message :: "nat \<Rightarrow> nat \<Rightarrow> bool \<Rightarrow> nat \<Rightarrow> string" where
  "reconcile_message configured not_ready apply_removals n =
     ''Reconcile: configured '' @ show_nat configured @ '' node(s), skipped '' @ show_nat not_ready @ '' not-ready, ''
     @ (if apply_removals then ''removed'' else ''flagged'') @ '' '' @ show_nat n @ '' departed''"

definition reconcile_cluster :: "pve_env \<Rightarrow> string \<Rightarrow> string \<Rightarrow> op_result pve_action" where
  "reconcile_cluster E removals host_group =
     (let apply_removals = flag_on removals; proto = pve_protocol E; hg = group_of_cluster E host_group in
      bnd (assess_report E host_group) (\<lambda>a.
      bnd (pve_list_nodes E) (\<lambda>nodes.
      let ready = filter nh_ready (am_new a); not_ready = filter (\<lambda>h. \<not> nh_ready h) (am_new a);
          ready_names = set (map nh_node ready); by_name = by_node (map (\<lambda>n. (node_name n, n)) nodes) in
      bnd (if pe_array E \<and> hg \<noteq> [] then call_out (texts_reply E) (Members hg) else ret []) (\<lambda>group_members.
      let scope = scope_nodes nodes group_members ready_names in
      andthen
        (provided (ready \<noteq> [])
          (if proto \<noteq> ''nfs'' then
             configure_new E hg (List.map_filter (map_of by_name) (pe_iteration E ready_names)) scope (length ready)
           else say (''Reconcile: protocol=nfs has no per-host config; ''
             @ ''new nodes mount the shared NFS storage automatically'')))
      (bnd (prune_departed_fa_hosts (pve_context E) hg (map expected_fa_host nodes) apply_removals) (\<lambda>prune.
       let configured = (if ready \<noteq> [] \<and> proto \<noteq> ''nfs'' then map nh_node ready else []);
           gone = (if apply_removals then pr_removed prune else pr_departed prune);
           msg = reconcile_message (length configured) (length not_ready) apply_removals (length gone) in
       andthen (say msg)
       (ret (op_ok msg []
         [(''nodes'', json_strs (map node_name nodes)), (''new_hosts'', JList (map new_host_to_dict (am_new a))),
          (''configured'', json_strs configured),
          (''not_ready'', JList (map (\<lambda>h. JObj [(''node'', JStr (nh_node h)), (''reasons'', json_strs (nh_reasons h))]) not_ready)),
          (''departed_hosts'', json_strs (am_departed a)),
          (if apply_removals then ''removed'' else ''pending_removals'', json_strs gone)]))))))))"

section \<open>The NFS datastore\<close>

definition nfs_storage_command :: "string \<Rightarrow> string \<Rightarrow> string \<Rightarrow> string \<Rightarrow> string" where
  "nfs_storage_command storage_id portal export_path content =
     (let sid = shlex_quote storage_id in
      ''pvesm add nfs '' @ sid @ '' --server '' @ shlex_quote portal @ '' --export '' @ shlex_quote export_path
      @ '' --content '' @ shlex_quote content @ '' 2>/dev/null || pvesm set '' @ sid @ '' --content '' @ shlex_quote content)"

definition provision_nfs_datastore :: "pve_env \<Rightarrow> string \<Rightarrow> string \<Rightarrow> string \<Rightarrow> string \<Rightarrow> op_result pve_action" where
  "provision_nfs_datastore E name path storage content =
     (let export_path = or_text [path] ''/''; storage_id = or_text [storage] ''purefa-nfs'' in
      if \<not> pe_array E then ret (op_fail ''No FlashArray associated with this hypervisor'' [] [])
      else
        andthen (say (''Provisioning NFS datastore: FA file system '' @ py_repr name @ '', export path ''
          @ py_repr export_path @ '', PVE storage '' @ py_repr storage_id))
        (if pe_dry_run E then
           ret (op_ok (''[dry-run] would provision NFS datastore '' @ name)
             [(''name'', JStr name), (''storage_id'', JStr storage_id)] [])
         else
           andthen (call_out (unit_reply E) (CreateFilesystem name))
           (bnd (call_out (dict_reply E) (CreateNfsExport name name export_path)) (\<lambda>export.
            bnd (call_out (texts_reply E) NfsDataInterfaces) (\<lambda>portals.
            case portals of
              [] \<Rightarrow> ret (op_fail ''No NFS data interface found on the array (FlashArray File / NFS VIP not configured).'' [] [])
            | portal # others \<Rightarrow>
                andthen (ssh E (nfs_storage_command storage_id portal export_path content) True None)
                (andthen (ssh E pvesm_status False None)
                (andthen (say (''NFS datastore '' @ storage_id @ '' mounted from '' @ portal @ '':'' @ export_path))
                (ret (op_ok (''Provisioned NFS datastore '' @ storage_id @ '' ('' @ portal @ '':'' @ export_path @ '')'')
                  [(''name'', JStr name), (''storage_id'', JStr storage_id), (''server'', JStr portal),
                   (''export'', JStr export_path), (''nfs_export'', dict_get export ''name'' JNull),
                   (''protocol'', JStr ''nfs'')] [])))))))))"

definition teardown_nfs_datastore :: "pve_env \<Rightarrow> string \<Rightarrow> string \<Rightarrow> string \<Rightarrow> op_result pve_action" where
  "teardown_nfs_datastore E name storage eradicate =
     (let storage_id = or_text [storage] ''purefa-nfs'' in
      if \<not> pe_array E then ret (op_fail ''No FlashArray associated with this hypervisor'' [] [])
      else
        andthen (say (''Removing NFS datastore '' @ py_repr storage_id @ '' (file system '' @ py_repr name @ '')''))
        (if pe_dry_run E then
           ret (op_ok (''[dry-run] would remove NFS datastore '' @ name)
             [(''name'', JStr name), (''storage_id'', JStr storage_id)] [])
         else
           andthen (ssh E (''pvesm remove '' @ shlex_quote storage_id) False None)
           (bnd (call_out (texts_reply E) (NfsExports name)) (\<lambda>exports.
            andthen (foreach exports (\<lambda>x. call_out (unit_reply E) (DeleteNfsExport x)))
            (andthen (call_out (unit_reply E) (DeleteFilesystem name (flag_on eradicate)))
            (andthen (say (''NFS datastore '' @ storage_id @ '' removed''))
            (ret (op_ok (''Removed NFS datastore '' @ storage_id)
              [(''name'', JStr name), (''storage_id'', JStr storage_id), (''eradicated'', JBool (flag_on eradicate))] []))))))))"

end
