(* ===== verification/Proxmox_Dispatch.thy ===== *)
theory Proxmox_Dispatch
  imports Proxmox_Vm Proxmox_Reconcile Forms_Proxmox
begin

text \<open>
  The Proxmox connector behind its action ids: the methods its dispatch reaches, with the form's
  parameters bound to their arguments, and what no action does in a dry run.
\<close>

section \<open>The methods\<close>

text \<open>
  An argument the method expects as a text, with its default. A text or nothing is what the forms
  send for these fields; another value is not modelled. \<^verbatim>\<open>nodes\<close> is no field of a form: only
  \<open>reconcile_cluster\<close> passes it.
\<close>

definition text_arg :: "dict \<Rightarrow> string \<times> string \<Rightarrow> exn + string" where
  "text_arg params = (\<lambda>(k, dflt). case map_of params k of None \<Rightarrow> Inr dflt | Some (JStr s) \<Rightarrow> Inr s | _ \<Rightarrow> unmodelled)"

definition with_texts ::
  "dict \<Rightarrow> (string \<times> string) list \<Rightarrow> (string list \<Rightarrow> op_result pve_action) \<Rightarrow> op_result pve_action" where
  "with_texts params ks f = bnd (lift_sum (emap (text_arg params) ks)) f"

text \<open>A flag arrives as a Boolean or a text and is compared as a text.\<close>

definition flag_arg :: "dict \<Rightarrow> string \<Rightarrow> exn + string" where
  "flag_arg params k = str_of (dict_get params k (JBool False))"

definition pve_method :: "pve_env \<Rightarrow> string \<Rightarrow> dict \<Rightarrow> op_result pve_action" where
  "pve_method E name params =
     (if name = ''deploy_integration'' then
        with_texts params [(''storage_id'', [])] (\<lambda>xs. deploy_integration E (xs ! 0) None)
      else if name = ''configure'' then
        with_texts params [(''storage_id'', []), (''pure_endpoint'', []), (''pure_api_token'', []), (''host_group'', []),
            (''content'', ''images,rootdir'')]
          (\<lambda>xs. pve_configure E (xs ! 0) (xs ! 1) (xs ! 2) (xs ! 3) (xs ! 4))
      else if name = ''enable_storage'' then
        with_texts params [(''storage_id'', [])] (\<lambda>xs. enable_storage E (xs ! 0))
      else if name = ''register_hosts'' then
        with_texts params [(''host_group'', []), (''host_name'', []), (''node_iqn'', []), (''node_nqn'', []), (''node_wwns'', [])]
          (\<lambda>xs. register_hosts E (xs ! 0) (xs ! 1) (xs ! 2) (xs ! 3) (xs ! 4) None)
      else if name = ''setup_connectivity'' then
        with_texts params [(''portals'', []), (''subsystem_nqn'', []), (''iqn_target'', []), (''nvme_options'', [])] (\<lambda>xs.
        bnd (lift_sum (flag_arg params ''rebind'')) (\<lambda>rebind.
        setup_connectivity E (xs ! 0) (xs ! 1) (xs ! 2) (dict_get params ''iscsi_nics'' JNull)
          (dict_get params ''nvme_sources'' JNull) (xs ! 3) (dict_get params ''fc_hbas'' JNull) rebind None))
      else if name = ''provision'' then
        with_texts params [(''name'', []), (''size'', ''1T''), (''host_group'', []), (''vmid'', []), (''disk'', ''scsi1''),
            (''storage_id'', [])]
          (\<lambda>xs. pve_provision E (xs ! 0) (xs ! 1) (xs ! 2) (xs ! 3) (xs ! 4) (xs ! 5))
      else if name = ''snapshot'' then
        with_texts params [(''volume'', []), (''suffix'', [])] (\<lambda>xs. pve_snapshot E (xs ! 0) (xs ! 1))
      else if name = ''clone'' then
        with_texts params [(''source'', []), (''dest'', []), (''host_group'', [])] (\<lambda>xs. pve_clone E (xs ! 0) (xs ! 1) (xs ! 2))
      else if name = ''resize'' then
        with_texts params [(''volume'', []), (''size'', []), (''vmid'', []), (''disk'', [])]
          (\<lambda>xs. pve_resize E (xs ! 0) (xs ! 1) (xs ! 2) (xs ! 3))
      else if name = ''health_check'' then health_check E
      else if name = ''teardown'' then
        with_texts params [(''storage_id'', [])] (\<lambda>xs. pve_teardown E (xs ! 0))
      else if name = ''assess_cluster'' then
        with_texts params [(''host_group'', [])] (\<lambda>xs. pve_assess_cluster E (xs ! 0))
      else if name = ''reconcile_cluster'' then
        with_texts params [(''host_group'', [])] (\<lambda>xs.
        bnd (lift_sum (flag_arg params ''apply_removals'')) (\<lambda>removals. reconcile_cluster E removals (xs ! 0)))
      else if name = ''provision_nfs_datastore'' then
        with_texts params [(''name'', []), (''export_path'', ''/''), (''storage_id'', []), (''content'', ''images,iso'')]
          (\<lambda>xs. provision_nfs_datastore E (xs ! 0) (xs ! 1) (xs ! 2) (xs ! 3))
      else
        with_texts params [(''name'', []), (''storage_id'', [])] (\<lambda>xs.
        bnd (lift_sum (flag_arg params ''eradicate'')) (\<lambda>eradicate. teardown_nfs_datastore E (xs ! 0) (xs ! 1) eradicate)))"

definition pve_dispatch :: "pve_env \<Rightarrow> string \<Rightarrow> dict \<Rightarrow> op_result pve_action" where
  "pve_dispatch E action_id params =
     connector_dispatch proxmox_connector (pve_context E) (pve_method E) action_id params"

end
