(* ===== verification/Proxmox_Calls.thy ===== *)
theory Proxmox_Calls
  imports Proxmox_Dispatch
begin

text \<open>
  Which calls the Proxmox connector makes. \<open>all_calls P s\<close> says that every call of the trace is
  allowed; a rule that allows the commands on the nodes outside mock and dry run, and every read of
  the array, is kept by all operations that only do that. The rule is a locale, used for two
  contracts: what a dry run may do, and what a migration's VM operations may do.
\<close>

definition all_calls :: "(pve_call \<Rightarrow> bool) \<Rightarrow> pve \<Rightarrow> bool" where
  "all_calls P s \<longleftrightarrow> (\<forall>c ok. Asked c ok \<in> set (pv_trace s) \<longrightarrow> P c)"

fun reads :: "pve_call \<Rightarrow> bool" where
  "reads ArrayInfo = True"
| "reads (Members _) = True"
| "reads (VolumeSerial _) = True"
| "reads (DataInterfaces _) = True"
| "reads TargetPorts = True"
| "reads (VolumeExists _ _) = True"
| "reads NfsDataInterfaces = True"
| "reads (NfsExports _) = True"
| "reads _ = False"

lemma all_calls_start: "pv_trace s = [] \<Longrightarrow> all_calls P s"
  by (simp add: all_calls_def)

lemma keeps_call_out: "P c \<Longrightarrow> keeps (all_calls P) (call_out f c)"
  by (auto simp: keeps_def final_def call_out_def Let_def all_calls_def)

lemma keeps_record: "e = Line l \<or> e = Pause n \<Longrightarrow> keeps (all_calls P) (record_event e)"
  by (auto simp: keeps_def final_def record_event_def modify_def all_calls_def)

lemma keeps_say [keeps_intro]: "keeps (all_calls P) (say l)"
  by (simp add: say_def keeps_record)

lemma keeps_wait [keeps_intro]: "keeps (all_calls P) (wait n)"
  by (simp add: wait_def keeps_record)

lemma keeps_same_trace [keeps_intro]:
  "(\<And>s. pv_trace (f s) = pv_trace s) \<Longrightarrow> keeps (all_calls P) (modify f)"
  by (rule keeps_modify) (simp add: all_calls_def)

lemma keeps_case_exit [keeps_intro]:
  "keeps P m \<Longrightarrow> (\<And>rc. keeps P (f rc)) \<Longrightarrow> keeps P (case x of TimedOut \<Rightarrow> m | Exited rc \<Rightarrow> f rc)"
  by (cases x) auto

locale call_rule =
  fixes allowed :: "pve_env \<Rightarrow> pve_call \<Rightarrow> bool"
  assumes commands: "\<not> is_mock_or_dry E \<Longrightarrow> allowed E (Ssh q)"
    and queries: "reads c \<Longrightarrow> allowed E c"
begin

abbreviation obeys :: "pve_env \<Rightarrow> 'a pve_action \<Rightarrow> bool" where
  "obeys E m \<equiv> keeps (all_calls (allowed E)) m"

lemma reading: "reads c \<Longrightarrow> obeys E (call_out f c)"
  by (simp add: keeps_call_out queries)

lemma run_ssh: "obeys E (run_ssh (pve_runner E) h c lg check t red)"
proof -
  have run: "\<not> skips (pve_runner E) \<Longrightarrow> obeys E (call_out (ssh_reply E) (Ssh q))" for q
    by (intro keeps_call_out commands) (auto simp: skips_def pve_runner_def is_mock_or_dry_def)
  have R: "rn_log (pve_runner E) = say" "rn_ssh (pve_runner E) q = call_out (ssh_reply E) (Ssh q)" for q
    by (simp_all add: pve_runner_def)
  show ?thesis
    unfolding run_ssh_def Let_def R by (intro keeps_intro run)
qed

lemma locked: "obeys E m \<Longrightarrow> obeys E (locked_retry left i d m)"
  by (induction "left" arbitrary: i) (auto intro!: keeps_intro)

lemma on_host: "obeys E (ssh_on E h c check t)" "obeys E (ssh_script_on E h ls check t)"
  unfolding ssh_on_def ssh_script_on_def run_ssh_script_def by (intro locked run_ssh)+

lemma host: "obeys E (pve_host E)"
  unfolding pve_host_def by (intro keeps_intro)

lemma on_connection: "obeys E (ssh E c check t)" "obeys E (ssh_script E ls check t)"
  unfolding ssh_def ssh_script_def by (intro keeps_intro host on_host)+

lemma discovering:
  "obeys E (discover_initiators (pve_runner E) h lg)"
  "obeys E (discover_iscsi_state (pve_runner E) h lg)"
  "obeys E (discover_interfaces (pve_runner E) h kind lg)"
proof -
  have R: "obeys E (rn_log (pve_runner E) l)" for l
    by (simp add: pve_runner_def keeps_say)
  show "obeys E (discover_initiators (pve_runner E) h lg)"
    unfolding discover_initiators_def Let_def by (intro keeps_intro R run_ssh)
  show "obeys E (discover_iscsi_state (pve_runner E) h lg)"
    unfolding discover_iscsi_state_def Let_def by (intro keeps_intro R run_ssh)
  show "obeys E (discover_interfaces (pve_runner E) h kind lg)"
    unfolding discover_interfaces_def Let_def by (intro keeps_intro R run_ssh)
qed

lemmas basic = keeps_intro on_host host on_connection discovering

lemma nodes: "obeys E (pve_list_nodes E)"
  unfolding pve_list_nodes_def by (intro basic)

subsection \<open>The VM operations\<close>

lemma inventory: "obeys E (pve_list_vms E)" "obeys E (node_name_of_host E)" "obeys E (pve_list_networks E)"
proof -
  show "obeys E (pve_list_vms E)" unfolding pve_list_vms_def by (intro basic)
  show node: "obeys E (node_name_of_host E)" unfolding node_name_of_host_def by (intro basic)
  show "obeys E (pve_list_networks E)" unfolding pve_list_networks_def by (intro basic node)
qed

lemma power: "obeys E (pve_power_state E ref)" "obeys E (pve_stop_vm E ref force)" "obeys E (pve_start_vm E ref)"
proof -
  show state: "obeys E (pve_power_state E ref)" unfolding pve_power_state_def by (intro basic)
  show "obeys E (pve_stop_vm E ref force)" unfolding pve_stop_vm_def by (intro basic state)
  show "obeys E (pve_start_vm E ref)" unfolding pve_start_vm_def by (intro basic state)
qed

lemma volume_lookup: "obeys E (resolve_fa_volume E ref v)"
  unfolding resolve_fa_volume_def Let_def by (intro basic reading) simp_all

lemma captured_disks: "obeys E (capture_disks E ref slots first es)"
  by (induction E ref slots first es rule: capture_disks.induct) (auto simp: Let_def intro!: basic volume_lookup)

lemma capturing: "obeys E (capture_vm_spec E ref)"
  unfolding capture_vm_spec_def Let_def by (intro basic captured_disks) simp_all

lemma detaching: "obeys E (pve_detach_volumes E ref ds)"
  unfolding pve_detach_volumes_def detach_disk_def Let_def by (intro basic)

lemma placing: "obeys E (place_vm E)"
proof -
  have probe: "obeys E (probe_node E h n)" for h n
    unfolding probe_node_def by (intro basic)
  have "obeys E (reachable_rr_hosts E h)" for h
    unfolding reachable_rr_hosts_def Let_def by (intro basic nodes probe) simp_all
  then have "obeys E (pick_rr_node E)"
    unfolding pick_rr_node_def Let_def by (intro basic) simp_all
  then show ?thesis
    unfolding place_vm_def by (intro basic) simp_all
qed

lemma attempts: "obeys E (create_attempts E vmid cmd left i)"
  by (induction E vmid cmd "left" i rule: create_attempts.induct) (auto intro!: basic)

lemma creating: "obeys E (pve_create_vm E v netmap)"
proof -
  have "obeys E (next_vmid E)" "obeys E (confirm_created E vmid name)" for vmid name
    unfolding next_vmid_def confirm_created_def Let_def by (intro basic)+
  then show ?thesis
    unfolding pve_create_vm_def Let_def by (intro basic placing inventory attempts)
qed

lemma serials: "obeys E (disk_wwids (pve_context E) ds)"
proof -
  have "obeys E (resolved_serials (pve_array_ops E) vs)" for vs
    by (induction vs) (auto intro!: basic reading simp: pve_array_ops_def)
  then show ?thesis
    unfolding disk_wwids_def by (intro basic) (simp add: pve_context_def split: if_splits)
qed

lemma attaching: "obeys E (attach_existing_volumes E ref ds)"
proof -
  have "obeys E (arr_volume_serial (pve_array_ops E) v)" for v
    by (auto intro!: basic reading simp: pve_array_ops_def)
  then have "obeys E (attach_disk E ref d)" for d
    unfolding attach_disk_def Let_def by (intro basic)
  then have "obeys E (attach_disks E ref ds)"
    by (induction ds) (auto intro!: basic)
  moreover have "obeys E (discard (ssh E c False (Some l)))" for c l
    unfolding discard_def by (intro basic)
  ultimately show ?thesis
    unfolding attach_existing_volumes_def refresh_block_devices_def Let_def by (intro basic serials)
qed

lemma disk_work: "obeys E (create_managed_disk E ref sz order)" "obeys E (set_boot_order E ref ds)"
  unfolding create_managed_disk_def set_boot_order_def Let_def by (intro basic volume_lookup)+

lemma copy_search: "obeys E (free_copy_index E ref fuel idx)"
  by (induction fuel arbitrary: idx) (auto intro!: basic reading)

lemma deleting: "obeys E (pve_delete_vm E ref keep)"
  unfolding pve_delete_vm_def discard_def by (intro basic)

lemmas vm_operations = inventory power capturing detaching creating attaching disk_work deleting

subsection \<open>The integration steps that only read\<close>

lemma asking: "obeys E (data_interfaces E)" "obeys E (node_interfaces E h kind)"
  "obeys E (or_target_port E b k w given)"
  unfolding data_interfaces_def node_interfaces_def or_target_port_def by (intro basic reading; simp)+

lemma checks: "obeys E (preflight_nodes E ns)"
proof -
  have "obeys E (unreachable_nodes E ns h p)" for h p
    unfolding unreachable_nodes_def by (intro basic)
  then show ?thesis unfolding preflight_nodes_def by (intro basic)
qed

lemma deploying: "obeys E (deploy_integration E storage given)"
  unfolding deploy_integration_def deploy_on_node_def Let_def by (intro basic nodes checks)

lemma configuring: "obeys E (pve_configure E storage ep token hg content)" "obeys E (enable_storage E storage)"
  unfolding pve_configure_def enable_storage_def Let_def by (intro basic)+

lemma specs: "obeys E (host_specs E proto conn name given ns)"
proof -
  have resolve: "obeys E (resolve_node_initiators E h proto g)" for h g
    unfolding resolve_node_initiators_def Let_def by (intro basic)
  show ?thesis
    by (induction ns) (simp_all only: host_specs.simps Let_def, (intro basic resolve)+)
qed

lemma connecting_node: "obeys E (connect_node E proto portals nqn iqn binding options rebind n)"
  unfolding connect_node_def connect_nvme_tcp_def connect_iscsi_def connect_fc_def write_multipath_conf_def
    bind_iface_def run_on_def script_on_def Let_def by (intro basic)

lemma connecting: "obeys E (setup_connectivity E portals nqn iqn nv sv options hv rebind given)"
proof -
  have "obeys E (connect_cluster E proto ps n i binding options b ns)" for proto ps n i binding b ns
    unfolding connect_cluster_def persist_binding_def Let_def by (intro basic connecting_node)
  then show ?thesis
    unfolding setup_connectivity_def Let_def by (intro basic asking nodes)
qed

lemma watching: "obeys E (health_check E)"
  unfolding health_check_def node_health_def by (intro basic reading nodes) simp_all

lemma removing: "obeys E (pve_teardown E storage)"
  unfolding pve_teardown_def remove_plugin_def run_on_def Let_def by (intro basic nodes)

lemma assessing: "obeys E (assess_report E hg)"
proof -
  have "obeys E (baseline_storage_subnets E ns portals)" "obeys E (assess_node E portals b x)" for ns portals b x
    unfolding baseline_storage_subnets_def assess_node_def by (intro basic asking)+
  then show ?thesis
    unfolding assess_report_def Let_def by (intro basic reading nodes asking) simp_all
qed

end

end
