(* ===== verification/Proxmox_Run.thy ===== *)
theory Proxmox_Run
  imports Proxmox_Dispatch
begin

text \<open>
  Running the Proxmox connector's operations: what a command does to the trace, and a small cluster
  on which its properties are evaluated.
\<close>
section \<open>Running the operations\<close>

lemma run_record: "record_event e s = (Inr (), s\<lparr>pv_trace := pv_trace s @ [e]\<rparr>)"
  by (simp add: record_event_def run_modify)

lemma run_say: "say l s = (Inr (), s\<lparr>pv_trace := pv_trace s @ [Line l]\<rparr>)"
  by (simp add: say_def run_record)

lemma run_wait: "wait n s = (Inr (), s\<lparr>pv_trace := pv_trace s @ [Pause n]\<rparr>)"
  by (simp add: wait_def run_record)

lemma run_call: "call_out f c s = (let r = f (pv_trace s) c in
    (r, s\<lparr>pv_trace := pv_trace s @ [Asked c (case r of Inl _ \<Rightarrow> False | Inr _ \<Rightarrow> True)]\<rparr>))"
  by (simp add: call_out_def)

lemma run_lift: "lift_sum x s = (x, s)"
  by (cases x) (simp_all add: lift_sum_def run_ret run_raise)

lemma run_foreach_say:
  "foreach ls (\<lambda>l. say (f l)) s = (Inr (), s\<lparr>pv_trace := pv_trace s @ map (\<lambda>l. Line (f l)) ls\<rparr>)"
  by (induction ls arbitrary: s) (simp_all add: run_foreach run_ret run_andthen run_say)

lemma foreach_map: "foreach (map g xs) f = foreach xs (\<lambda>x. f (g x))"
  by (induction xs) simp_all

lemma mask_nothing: "mask [] l = l"
  by (simp add: mask_def)

lemma pve_runner_channels:
  "rn_log (pve_runner E) = say" "rn_ssh (pve_runner E) q = call_out (ssh_reply E) (Ssh q)"
  "skips (pve_runner E) = is_mock_or_dry E"
  by (auto simp: pve_runner_def skips_def is_mock_or_dry_def)

definition ssh_line :: "pve_env \<Rightarrow> string \<Rightarrow> string \<Rightarrow> pve_event" where
  "ssh_line E host c = Line (''[ssh '' @ lg_user (ssh_kwargs E) @ ''@'' @ host @ ''] $ '' @ c)"

definition ssh_request_of :: "pve_env \<Rightarrow> string \<Rightarrow> string \<Rightarrow> nat option \<Rightarrow> ssh_request" where
  "ssh_request_of E host c t = \<lparr>rq_host = host, rq_command = c, rq_login = ssh_kwargs E, rq_limit = limit_of t\<rparr>"

definition skipped_line :: pve_event where
  "skipped_line = Line ''[ssh] (mock/dry-run) skipped''"

lemma no_lock_timeout_Nil: "\<not> is_lock_timeout []"
  by code_simp

lemma locked_first:
  assumes "m s = (Inr out, t)" and "\<not> is_lock_timeout out"
  shows "locked_retry left i d m s = (Inr out, t)"
  using assms by (cases "left") (simp_all add: run_bnd run_tryc run_ret)

lemma run_ssh_skipped:
  "is_mock_or_dry E \<Longrightarrow> ssh_on E host c check t s =
    (Inr [], s\<lparr>pv_trace := pv_trace s @ [ssh_line E host c, skipped_line]\<rparr>)"
  unfolding ssh_on_def
  by (rule locked_first)
     (simp_all add: run_ssh_def pve_runner_def skips_def is_mock_or_dry_def run_rules run_say Let_def
        mask_def sudo_command_def ssh_kwargs_def ssh_line_def skipped_line_def no_lock_timeout_Nil disj_commute)

lemma run_ssh_reply:
  assumes "\<not> is_mock_or_dry E"
    and "ssh_reply E (pv_trace s @ [ssh_line E host c]) (Ssh (ssh_request_of E host c t)) = Inr (ls, Exited (Some 0))"
  shows "run_ssh (pve_runner E) host c (ssh_kwargs E) check t [] s =
    (Inr (join newline (map rstrip_newlines ls)),
      s\<lparr>pv_trace := pv_trace s @ [ssh_line E host c, Asked (Ssh (ssh_request_of E host c t)) True]
      @ map (\<lambda>l. Line (''  '' @ rstrip_newlines l)) ls\<rparr>)"
  unfolding run_ssh_def Let_def pve_runner_channels filter.simps mask_nothing foreach_map using assms
  by (simp add: run_bnd run_andthen run_say run_call run_ret run_foreach_say sudo_command_def ssh_kwargs_def
      ssh_line_def ssh_request_of_def)

lemma run_ssh_answered:
  assumes "\<not> is_mock_or_dry E"
    and "ssh_reply E (pv_trace s @ [ssh_line E host c]) (Ssh (ssh_request_of E host c t)) = Inr (ls, Exited (Some 0))"
    and "\<not> is_lock_timeout (join newline (map rstrip_newlines ls))"
  shows "ssh_on E host c check t s = (Inr (join newline (map rstrip_newlines ls)),
    s\<lparr>pv_trace := pv_trace s @ [ssh_line E host c, Asked (Ssh (ssh_request_of E host c t)) True]
      @ map (\<lambda>l. Line (''  '' @ rstrip_newlines l)) ls\<rparr>)"
  unfolding ssh_on_def by (rule locked_first [OF _ assms(3)], rule run_ssh_reply [OF assms(1,2)])

text \<open>A script is its lines in one command.\<close>

lemma ssh_script_on_join: "ssh_script_on E host ls check t = ssh_on E host (join '' && '' ls) check t"
  by (simp add: ssh_script_on_def ssh_on_def run_ssh_script_def)

section \<open>A small cluster\<close>

text \<open>Two nodes, an array whose host group has them both, and commands answered from a table.\<close>

definition lab_target :: "(string \<times> string) list \<Rightarrow> hypervisor_target" where
  "lab_target settings =
     \<lparr>tg_id = ''1'', tg_connector_key = ''proxmox'', tg_name = ''lab'',
      tg_connection = map (\<lambda>(k, v). (k, JStr v)) settings, tg_secrets = []\<rparr>"

definition lab_settings :: "(string \<times> string) list" where
  "lab_settings = [(''node_host'', ''10.0.0.1''), (''host_group'', ''pool''), (''protocol'', ''iscsi'')]"

definition lab_members :: string where
  "lab_members = ''{'' @ [CHR 0x22] @ ''nodelist'' @ [CHR 0x22] @ '': {'' @ [CHR 0x22] @ ''pve1'' @ [CHR 0x22] @ '': {''
     @ [CHR 0x22] @ ''ip'' @ [CHR 0x22] @ '': '' @ [CHR 0x22] @ ''10.0.0.1'' @ [CHR 0x22] @ ''}, ''
     @ [CHR 0x22] @ ''pve2'' @ [CHR 0x22] @ '': {'' @ [CHR 0x22] @ ''ip'' @ [CHR 0x22] @ '': ''
     @ [CHR 0x22] @ ''10.0.0.2'' @ [CHR 0x22] @ ''}}}''"

definition lab_ssh :: "(string \<times> string list) list \<Rightarrow> pve_event list \<Rightarrow> pve_call \<Rightarrow> exn + string list \<times> ssh_exit" where
  "lab_ssh table t c =
     (case c of Ssh q \<Rightarrow> Inr (dict_get ((''cat /etc/pve/.members'', [lab_members]) # table) (rq_command q) [], Exited (Some 0))
      | _ \<Rightarrow> Inl (Exn ''NotUsed'' []))"

definition lab_texts :: "pve_event list \<Rightarrow> pve_call \<Rightarrow> exn + string list" where
  "lab_texts t c =
     (case c of Members g \<Rightarrow> Inr [''pve1'', ''pve2''] | DataInterfaces k \<Rightarrow> Inr [''10.10.10.1''] | _ \<Rightarrow> Inr [])"

definition lab_group :: "pve_event list \<Rightarrow> pve_call \<Rightarrow> exn + registration" where
  "lab_group t c =
     (case c of RegisterGroup g specs \<Rightarrow>
        Inr \<lparr>reg_group = g, reg_hosts = map fst specs, reg_adopted = False, reg_created = map fst specs,
             reg_reused = [], reg_conflict = None\<rparr>
      | _ \<Rightarrow> Inl (Exn ''NotUsed'' []))"

definition lab :: "bool \<Rightarrow> (string \<times> string list) list \<Rightarrow> pve_env" where
  "lab dry table =
     \<lparr>pe_target = lab_target lab_settings, pe_array = True, pe_endpoint = ''https://fa1'', pe_token = None,
      pe_dry_run = dry, pe_mock = False, pe_plugin_path = ''PureFAPlugin.pm'', pe_plugin = Some ''package'',
      pe_iteration = sorted_list_of_set,
      ssh_reply = lab_ssh table, unit_reply = (\<lambda>t c. Inr ()), bool_reply = (\<lambda>t c. Inr False),
      texts_reply = lab_texts, dict_reply = (\<lambda>t c. Inr []), volume_reply = (\<lambda>t c. Inr None),
      group_reply = lab_group\<rparr>"

lemma lab_fields:
  "pe_target (lab d tab) = lab_target lab_settings" "pe_array (lab d tab)" "pe_dry_run (lab d tab) = d" "\<not> pe_mock (lab d tab)"
  "is_mock_or_dry (lab d tab) = d"
  "unit_reply (lab d tab) = (\<lambda>t c. Inr ())" "bool_reply (lab d tab) = (\<lambda>t c. Inr False)"
  "dict_reply (lab d tab) = (\<lambda>t c. Inr [])" "texts_reply (lab d tab) = lab_texts" "group_reply (lab d tab) = lab_group"
  "volume_reply (lab d tab) = (\<lambda>t c. Inr None)" "ssh_reply (lab d tab) = lab_ssh tab"
  "pe_iteration (lab d tab) = sorted_list_of_set" "pe_plugin (lab d tab) = Some ''package''"
  "pe_endpoint (lab d tab) = ''https://fa1''" "pe_token (lab d tab) = None"
  by (simp_all add: lab_def is_mock_or_dry_def)

lemma lower_iscsi: "lower ''iscsi'' = ''iscsi''"
  by code_simp

lemma lab_values:
  "pve_protocol (lab d tab) = ''iscsi''" "conn_host_setting (lab d tab) = ''10.0.0.1''"
  "setting_or (lab d tab) ''host_group'' x = ''pool''" "pve_storage_id (lab d tab) [] = ''purefa''"
  by (simp_all add: pve_protocol_def conn_host_setting_def pve_storage_id_def PLUGIN_STORAGE_TYPE_def setting_or_def setting_def
      lab_fields lab_target_def lab_settings_def target_get_def dict_get_def lower_iscsi)

lemma lab_host: "pv_host_override s = [] \<Longrightarrow> pve_host (lab d tab) s = (Inr ''10.0.0.1'', s)"
  by (simp add: pve_host_def run_bnd run_gets run_ret lab_values)

end
