(* ===== verification/Proxmox_Safety.thy ===== *)
theory Proxmox_Safety
  imports Proxmox_Calls Proxmox_Run
begin

text \<open>
  The two call rules of the Proxmox connector: in a dry run nothing outside is changed (with the
  one exception the code has, the removal of departed hosts), and the VM operations that a migration
  drives never change a volume of the array.
\<close>

section \<open>The dry run\<close>

fun is_command :: "pve_call \<Rightarrow> bool" where
  "is_command (Ssh _) = True"
| "is_command _ = False"

lemma pve_context_array: "ctx_array (pve_context E) = (if pe_array E then Some (pve_array_ops E) else None)"
  by (simp add: pve_context_def)

text \<open>The flag of the reconciliation, as its method reads it.\<close>

definition removals_requested :: "dict \<Rightarrow> bool" where
  "removals_requested params \<longleftrightarrow> (case flag_arg params ''apply_removals'' of Inr t \<Rightarrow> flag_on t | Inl e \<Rightarrow> False)"

lemma bnd_raise: "bnd (raise e) f = raise e"
  by (simp add: bnd_def raise_def fun_eq_iff)

locale dry_run_rule = call_rule +
  assumes writes: "\<not> pe_dry_run E \<Longrightarrow> \<not> is_command c \<Longrightarrow> allowed E c"
begin

lemma writing: "\<not> pe_dry_run E \<Longrightarrow> \<not> is_command c \<Longrightarrow> obeys E (call_out f c)"
  by (simp add: keeps_call_out writes)

lemma rescanning: "obeys E (rescan_transport E)"
  unfolding rescan_transport_def discard_def by (intro basic)

lemma volumes:
  "obeys E (pve_provision E name sz hg vmid disk storage)"
  "obeys E (pve_snapshot E volume suffix)"
  "obeys E (pve_clone E source dest hg)"
  "obeys E (pve_resize E volume sz vmid disk)"
  unfolding pve_provision_def pve_snapshot_def pve_clone_def pve_resize_def discard_def Let_def
  by (intro basic writing rescanning; simp)+

lemma datastores:
  "obeys E (provision_nfs_datastore E name path storage content)"
  "obeys E (teardown_nfs_datastore E name storage eradicate)"
  unfolding provision_nfs_datastore_def teardown_nfs_datastore_def Let_def
  by (intro basic writing reading; simp)+

lemma grouping:
  assumes "\<not> pe_dry_run E"
  shows "obeys E (apply_host_group (pve_context E) hg hosts)"
proof -
  have "obeys E (arr_register (pve_array_ops E) hg hosts)"
    using assms by (simp add: pve_array_ops_def writing)
  moreover have "obeys E (ctx_emit (pve_context E) l)" for l
    by (simp add: pve_context_def keeps_say)
  ultimately show ?thesis
    unfolding apply_host_group_def by (intro basic) (simp_all add: pve_context_def split: if_splits)
qed

lemma registering: "obeys E (register_hosts E hg name iqn nqn ws given)"
  unfolding register_hosts_def Let_def by (intro basic specs nodes grouping)

lemma pruning:
  assumes "\<not> pe_dry_run E \<or> \<not> removals"
  shows "obeys E (prune_departed_fa_hosts (pve_context E) hg expected removals)"
proof -
  have emit: "obeys E (ctx_emit (pve_context E) l)" for l
    by (simp add: pve_context_def keeps_say)
  have members: "obeys E (arr_members (pve_array_ops E) g)" for g
    by (simp add: pve_array_ops_def reading)
  have remove: "obeys E (remove_departed (pve_context E) (pve_array_ops E) hg h)" if "\<not> pe_dry_run E" for h
    unfolding remove_departed_def using that
    by (intro basic emit) (simp_all add: pve_array_ops_def writing)
  show ?thesis
    unfolding prune_departed_fa_hosts_def Let_def pve_context_array using assms
    by (intro basic) (auto split: if_splits intro!: basic members remove)
qed

lemma reconciling:
  assumes "\<not> pe_dry_run E \<or> \<not> flag_on removals"
  shows "obeys E (reconcile_cluster E removals hg)"
  unfolding reconcile_cluster_def configure_new_def Let_def
  by (intro basic assessing nodes reading pruning assms deploying registering connecting; simp)

lemma reconciling_method:
  assumes "\<not> pe_dry_run E \<or> \<not> removals_requested params"
  shows "obeys E (bnd (lift_sum (flag_arg params ''apply_removals'')) (\<lambda>t. reconcile_cluster E t hg))"
proof (cases "flag_arg params ''apply_removals''")
  case (Inr t)
  then have "obeys E (reconcile_cluster E t hg)"
    using assms by (intro reconciling) (simp add: removals_requested_def)
  then show ?thesis by (simp add: Inr lift_sum_def)
qed (simp add: lift_sum_def bnd_raise keeps_raise)

lemma assessing_cluster: "obeys E (pve_assess_cluster E hg)"
  unfolding pve_assess_cluster_def by (intro basic assessing)

lemma methods:
  assumes "\<not> pe_dry_run E \<or> \<not> removals_requested params"
  shows "obeys E (pve_method E name params)"
  unfolding pve_method_def with_texts_def
  by (intro basic deploying configuring registering connecting volumes watching removing
      assessing_cluster reconciling_method assms datastores)

lemma dispatching:
  assumes "\<not> pe_dry_run E \<or> \<not> removals_requested params"
  shows "obeys E (pve_dispatch E action_id params)"
proof -
  have call: "obeys E (call_method g (pve_method E name) params)" for g name
    unfolding call_method_def by (rule keeps_if [OF methods [OF assms] keeps_raise])
  have run: "obeys E (f params)" if "class_operations d (pve_method E) name = Some f" for f d name
    using that call by (auto simp: class_operations_def)
  have base: "obeys E (case map_of operation_capability name of Some x \<Rightarrow> unsupported d x
      | None \<Rightarrow> lift_sum (assess_cluster d (pve_context E)))" for d name
    unfolding unsupported_def by (intro keeps_case_option keeps_raise keeps_lift_sum)
  have inherited: "obeys E (operation d (pve_context E) (class_operations d' (pve_method E)) name params)" for d d' name
    unfolding operation_def by (rule keeps_case_option [OF base]) (erule run)
  have default: "obeys E (dispatch d (pve_context E) (class_operations d' (pve_method E)) action_id params)" for d d'
    unfolding dispatch_def by (rule keeps_case_option [OF keeps_ret inherited])
  have own: "obeys E (case class_operations d (pve_method E) name of Some f \<Rightarrow> f params
      | None \<Rightarrow> raise (Exn ''AttributeError'' []))" for d name
    by (rule keeps_case_option [OF keeps_raise]) (erule run)
  show ?thesis
    unfolding pve_dispatch_def connector_dispatch_def by (rule keeps_case_option [OF default own])
qed

end

text \<open>
  The rule of the dry run: a mock or dry run sends no command to a node, and a dry run only reads
  from the array.
\<close>

definition dry_run_allows :: "pve_env \<Rightarrow> pve_call \<Rightarrow> bool" where
  "dry_run_allows E c \<longleftrightarrow> (is_mock_or_dry E \<longrightarrow> \<not> is_command c) \<and> (pe_dry_run E \<longrightarrow> reads c)"

lemma reads_no_command: "reads c \<Longrightarrow> \<not> is_command c"
  by (cases c) simp_all

interpretation dry: dry_run_rule dry_run_allows
proof
  fix E q c
  show "\<not> is_mock_or_dry E \<Longrightarrow> dry_run_allows E (Ssh q)"
    by (simp add: dry_run_allows_def is_mock_or_dry_def)
  show "reads c \<Longrightarrow> dry_run_allows E c"
    using reads_no_command by (simp add: dry_run_allows_def)
  show "\<not> pe_dry_run E \<Longrightarrow> \<not> is_command c \<Longrightarrow> dry_run_allows E c"
    by (simp add: dry_run_allows_def)
qed

text \<open>
  C10. dry
\<close>

theorem pve_dry_run_only_reads:
  assumes "pe_dry_run E" and "\<not> removals_requested params"
    and "Asked c ok \<in> set (pv_trace (final (pve_dispatch E action_id params) new_pve))"
  shows "reads c"
proof -
  have "all_calls (dry_run_allows E) (final (pve_dispatch E action_id params) new_pve)"
    using assms(2) by (intro keepsD [OF dry.dispatching]) (simp_all add: all_calls_start new_pve_def)
  then show ?thesis using assms(1,3) by (auto simp: all_calls_def dry_run_allows_def)
qed

text \<open>On the small cluster a dry run of the health check asks the array for its information, and nothing else.\<close>

lemma lab_dispatch:
  "pve_dispatch (lab d tab) ''health_check'' [] = health_check (lab d tab)"
  "pve_dispatch (lab d tab) ''reconcile_cluster'' [(''apply_removals'', JBool True)] = reconcile_cluster (lab d tab) ''True'' []"
  by (simp_all add: pve_dispatch_def connector_dispatch_def class_operations_def dispatch_def operation_def
      proxmox_connector_def proxmox_routes_def default_dispatch_def call_method_def binds_def
      proxmox_sig_health_check_def proxmox_sig_reconcile_cluster_def pve_method_def with_texts_def text_arg_def
      flag_arg_def dict_get_def str_of_def lift_sum_def ebind_def show_bool_def)

theorem pve_dry_run_only_reads_witness:
  "Asked ArrayInfo True \<in> set (pv_trace (final (pve_dispatch (lab True []) ''health_check'' []) new_pve)) \<and>
   reads ArrayInfo"
proof
  show asked: "Asked ArrayInfo True \<in> set (pv_trace (final (pve_dispatch (lab True []) ''health_check'' []) new_pve))"
    unfolding lab_dispatch
    by (simp add: run_rules run_say run_call lab_host lab_fields run_ssh_skipped health_check_def node_health_def
        final_def by_node_def pve_list_nodes_def synthetic_nodes_def new_pve_def Let_def cong: run_cong)
  show "reads ArrayInfo"
    by (rule pve_dry_run_only_reads [OF _ _ asked])
       (simp_all add: lab_fields removals_requested_def flag_arg_def dict_get_def str_of_def, code_simp)
qed

text \<open>
  The exception is real: in a dry run the nodes are two made-up ones, so every real member of the
  host group counts as departed, and the pruning has no guard.
\<close>

lemma expected_synthetic:
  "expected_fa_host \<lparr>node_name = ''pve-node1'', node_host = h, node_info = i\<rparr> = ''pve-node1''"
  "expected_fa_host \<lparr>node_name = ''pve-node2'', node_host = h, node_info = i\<rparr> = ''pve-node2''"
  by code_simp+

lemma lab_orders: "sorted_list_of_set {''pve-node1'', ''pve-node2''} = [''pve-node1'', ''pve-node2'']"
   "sort [''pve1'', ''pve2''] = [''pve1'', ''pve2'']" "flag_on ''True''"
  "\<not> flag_on ''False''"
  by code_simp+

lemma lab_other: "setting_or (lab d tab) ''node_iqn'' x = x" "setting_or (lab d tab) ''node_nqn'' x = x"
  "setting_or (lab d tab) ''node_wwns'' x = x"
  by (simp_all add: setting_or_def setting_def
      lab_fields lab_target_def lab_settings_def target_get_def dict_get_def)

lemma dry_run_reconcile_deletes_hosts:
  "{DeleteHost ''pve1'', DeleteHost ''pve2''} \<subseteq> {c. Asked c True \<in> set (pv_trace (final
     (pve_dispatch (lab True []) ''reconcile_cluster'' [(''apply_removals'', JBool True)]) new_pve))}"
  unfolding lab_dispatch
  by (simp add: run_rules run_say run_call run_lift lab_host lab_fields lab_values run_ssh_skipped final_def by_node_def 
     pve_list_nodes_def synthetic_nodes_def new_pve_def Let_def reconcile_cluster_def assess_report_def
     group_of_cluster_def data_interfaces_def array_service_def lab_texts_def expected_nodes_def expected_synthetic lab_orders
     baseline_storage_subnets_def assess_node_def scope_nodes_def configure_new_def deploy_integration_def
     register_hosts_def setup_connectivity_def as_list_def ebind_def split_csv_def
     resolve_node_initiators_def explicit_initiators_def explicit_for_def initiators_of_def discover_initiators_def pve_runner_channels
     lab_other or_target_port_def port_text_def dict_get_def connect_cluster_def prune_departed_fa_hosts_def pve_context_array
     remove_departed_def pve_array_ops_def pve_context_def
     cong: run_cong)

section \<open>The VM operations of a migration\<close>

datatype vm_step =
    Capture string
  | Stop string bool
  | Start string
  | Detach string "disk_spec list"
  | Create vm_spec "(string \<times> string) list"
  | Attach string "disk_spec list"
  | ManagedDisk string int int
  | BootOrder string "disk_spec list"
  | CopyTarget nat int string
  | Delete string bool

fun run_step :: "pve_env \<Rightarrow> vm_step \<Rightarrow> unit pve_action" where
  "run_step E (Capture ref) = discard (capture_vm_spec E ref)"
| "run_step E (Stop ref force) = discard (pve_stop_vm E ref force)"
| "run_step E (Start ref) = discard (pve_start_vm E ref)"
| "run_step E (Detach ref ds) = discard (pve_detach_volumes E ref ds)"
| "run_step E (Create v netmap) = discard (pve_create_vm E v netmap)"
| "run_step E (Attach ref ds) = discard (attach_existing_volumes E ref ds)"
| "run_step E (ManagedDisk ref sz order) = discard (create_managed_disk E ref sz order)"
| "run_step E (BootOrder ref ds) = discard (set_boot_order E ref ds)"
| "run_step E (CopyTarget fuel order ref) = discard (pve_prepare_copy_target E fuel order ref)"
| "run_step E (Delete ref keep) = discard (pve_delete_vm E ref keep)"

text \<open>Steps in a row, each of which may fail.\<close>

definition run_vm_steps :: "pve_env \<Rightarrow> vm_step list \<Rightarrow> unit pve_action" where
  "run_vm_steps E ops = foreach ops (\<lambda>x. tryc (run_step E x) (\<lambda>_. ret ()))"

text \<open>Commands outside mock and dry run, reads, and the volume group of a VM.\<close>

fun vm_allows :: "pve_env \<Rightarrow> pve_call \<Rightarrow> bool" where
  "vm_allows E (Ssh q) = (\<not> is_mock_or_dry E)"
| "vm_allows E (EnsureVolumeGroup g) = True"
| "vm_allows E c = reads c"

interpretation vm: call_rule vm_allows
proof
  fix E q c
  show "\<not> is_mock_or_dry E \<Longrightarrow> vm_allows E (Ssh q)" by simp
  show "reads c \<Longrightarrow> vm_allows E c" by (cases c) simp_all
qed

lemma vm_steps_obey: "vm.obeys E (run_vm_steps E ops)"
proof -
  have prepare: "vm.obeys E (pve_prepare_copy_target E fuel order ref)" for fuel order ref
    unfolding pve_prepare_copy_target_def by (intro vm.basic vm.copy_search keeps_call_out) simp
  have "vm.obeys E (run_step E x)" for x
    by (cases x) (simp_all only: run_step.simps discard_def, (intro vm.basic vm.vm_operations prepare)+)
  then show ?thesis
    unfolding run_vm_steps_def by (intro keeps_foreach keeps_tryc keeps_ret)
qed

text \<open>
  C11. vm
\<close>

theorem vm_steps_leave_volumes_alone:
  assumes "Asked c ok \<in> set (pv_trace (final (run_vm_steps E ops) new_pve))"
  shows "c \<in> range Ssh \<union> range EnsureVolumeGroup \<union> {c. reads c} \<and> (c \<in> range Ssh \<longrightarrow> \<not> is_mock_or_dry E)"
proof -
  have "all_calls (vm_allows E) (final (run_vm_steps E ops) new_pve)"
    by (intro keepsD [OF vm_steps_obey]) (simp add: all_calls_start new_pve_def)
  then have "vm_allows E c" using assms by (auto simp: all_calls_def)
  then show ?thesis by (cases c) auto
qed


theorem vm_steps_leave_volumes_alone_witness:
  "Asked (EnsureVolumeGroup ''vm-101'') True
     \<in> set (pv_trace (final (run_vm_steps (lab False []) [CopyTarget 5 0 ''101'']) new_pve)) \<and>
   EnsureVolumeGroup ''vm-101'' \<in> range Ssh \<union> range EnsureVolumeGroup \<union> {c. reads c}"
proof
  show asked: "Asked (EnsureVolumeGroup ''vm-101'') True
     \<in> set (pv_trace (final (run_vm_steps (lab False []) [CopyTarget 5 0 ''101'']) new_pve))"
    by (simp add: run_vm_steps_def discard_def pve_prepare_copy_target_def eval_nat_numeral run_rules run_call lab_fields
        final_def Let_def new_pve_def cong: run_cong)
  show "EnsureVolumeGroup ''vm-101'' \<in> range Ssh \<union> range EnsureVolumeGroup \<union> {c. reads c}"
    using vm_steps_leave_volumes_alone [OF asked] by blast
qed

end
