(* ===== verification/Proxmox_Results.thy ===== *)
theory Proxmox_Results
  imports Proxmox_Calls Proxmox_Run "HOL-Library.Multiset"
begin

text \<open>
  What the Proxmox connector's operations achieve: names and network entries, the boot order, the
  free copy target, the spreading of new VMs, the retries, the capture, creation and registration.
\<close>

section \<open>Names, network entries and the boot order\<close>

lemma strip_chars_ends:
  "strip_chars cs s = [] \<or> hd (strip_chars cs s) \<notin> set cs \<and> last (strip_chars cs s) \<notin> set cs"
proof (cases "strip_chars cs s = []")
  case False
  let ?m = "dropWhile (\<lambda>c. c \<in> set cs) s"
  have e: "strip_chars cs s = rev (dropWhile (\<lambda>c. c \<in> set cs) (rev ?m))" by (simp add: strip_chars_def)
  with False have r: "dropWhile (\<lambda>c. c \<in> set cs) (rev ?m) \<noteq> []" by auto
  from hd_dropWhile [OF r] have "last (strip_chars cs s) \<notin> set cs"
    using r by (simp add: e last_rev)
  moreover have "hd (strip_chars cs s) = hd ?m"
  proof -
    obtain u where u: "rev ?m = u @ dropWhile (\<lambda>c. c \<in> set cs) (rev ?m)"
      by (metis takeWhile_dropWhile_id)
    then have "?m = strip_chars cs s @ rev u" by (metis e rev_append rev_rev_ident)
    then show ?thesis using False by (metis hd_append)
  qed
  moreover have "?m \<noteq> []" using r by (metis dropWhile.simps(1) rev.simps(1))
  then have "hd ?m \<notin> set cs" by (rule hd_dropWhile)
  ultimately show ?thesis by simp
qed simp

lemma strip_chars_infix: "\<exists>u v. s = u @ strip_chars cs s @ v"
proof -
  let ?m = "dropWhile (\<lambda>c. c \<in> set cs) s"
  have "s = takeWhile (\<lambda>c. c \<in> set cs) s @ ?m" by simp
  moreover have "?m = strip_chars cs s @ rev (takeWhile (\<lambda>c. c \<in> set cs) (rev ?m))"
    unfolding strip_chars_def by (metis rev_append rev_rev_ident takeWhile_dropWhile_id)
  ultimately show ?thesis by metis
qed

lemma strip_chars_part: "set (strip_chars cs s) \<subseteq> set s" "contains x (strip_chars cs s) \<Longrightarrow> contains x s"
proof -
  obtain u v where s: "s = u @ strip_chars cs s @ v" using strip_chars_infix by metis
  then show "set (strip_chars cs s) \<subseteq> set s" by (metis Un_upper1 Un_upper2 order_trans set_append)
  show "contains x s" if "contains x (strip_chars cs s)"
    using that s contains_mono contains_iff by blast
qed

lemma set_single_dashes: "set (single_dashes s) \<subseteq> set s"
  by (induction s rule: single_dashes.induct) auto

lemma hd_single_dashes: "s \<noteq> [] \<Longrightarrow> single_dashes s \<noteq> [] \<and> hd (single_dashes s) = hd s"
  by (induction s rule: single_dashes.induct) auto

lemma single_dashes_step: "\<not> contains ''--'' (single_dashes s)"
proof (induction s rule: single_dashes.induct)
  case (1 a b r)
  show ?case
  proof (cases "a = CHR ''-'' \<and> b = CHR ''-''")
    case False
    have "hd (single_dashes (b # r)) = b" "single_dashes (b # r) \<noteq> []"
      using hd_single_dashes [of "b # r"] by simp_all
    then show ?thesis using 1(2) [OF False] False
      by (cases "single_dashes (b # r)") (auto simp: starts_with_def)
  qed (use 1 in simp)
qed (simp_all add: starts_with_def)

lemma valid_name:
  "list_all vm_name_char (pve_vm_name n) \<and> pve_vm_name n \<noteq> [] \<and> hd (pve_vm_name n) \<notin> {CHR ''-'', CHR ''.''} \<and>
   last (pve_vm_name n) \<notin> {CHR ''-'', CHR ''.''} \<and> \<not> contains ''--'' (pve_vm_name n)"
proof -
  let ?s = "map (\<lambda>c. if vm_name_char c then c else CHR ''-'') (strip n)"
  let ?t = "strip_chars ''-.'' (single_dashes ?s)"
  have n: "pve_vm_name n = (if ?t \<noteq> [] then ?t else ''migrated-vm'')"
    by (simp add: pve_vm_name_def Let_def)
  have "list_all vm_name_char ?s" by (auto simp: list_all_iff vm_name_char_def)
  then have "list_all vm_name_char ?t"
    using set_single_dashes [of ?s] strip_chars_part(1) [of "''-.''" "single_dashes ?s"]
    unfolding list_all_iff by blast
  moreover have "\<not> contains ''--'' ?t"
    using single_dashes_step strip_chars_part(2) by blast
  moreover have "?t = [] \<or> hd ?t \<notin> set ''-.'' \<and> last ?t \<notin> set ''-.''" by (rule strip_chars_ends)
  moreover have "list_all vm_name_char ''migrated-vm'' \<and> \<not> contains ''--'' ''migrated-vm''" by code_simp
  ultimately show ?thesis
    unfolding n by (cases "?t = []") simp_all
qed

text \<open>The disks to boot from come first, each part in the order of the disks.\<close>

lemma sort_key_pair:
  "sort_key (\<lambda>x. (\<not> b x, k x)) xs = sort_key k (filter b xs) @ sort_key k (filter (\<lambda>x. \<not> b x) xs)"
  for k :: "'a \<Rightarrow> 'b::linorder"
proof (rule properties_for_sort_key)
  show "mset (sort_key k (filter b xs) @ sort_key k (filter (\<lambda>x. \<not> b x) xs)) = mset xs"
    by (simp add: mset_filter)
  fix y
  have stable: "filter (\<lambda>x. (\<not> b y, k y) = (\<not> b x, k x)) (sort_key k ys) = filter (\<lambda>x. (\<not> b y, k y) = (\<not> b x, k x)) ys"
    for ys
  proof -
    have both: "filter (\<lambda>x. (\<not> b y, k y) = (\<not> b x, k x)) zs = filter (\<lambda>x. b y = b x) (filter (\<lambda>x. k x = k y) zs)" for zs
      by (auto simp: filter_filter intro: filter_cong)
    show ?thesis unfolding both sort_key_stable ..
  qed
  show "filter (\<lambda>x. (\<not> b y, k y) = (\<not> b x, k x)) (sort_key k (filter b xs) @ sort_key k (filter (\<lambda>x. \<not> b x) xs))
    = filter (\<lambda>x. (\<not> b y, k y) = (\<not> b x, k x)) xs"
    unfolding filter_append stable by (cases "b y") (auto simp: filter_empty_conv intro!: filter_cong)
next
  show "sorted (map (\<lambda>x. (\<not> b x, k x)) (sort_key k (filter b xs) @ sort_key k (filter (\<lambda>x. \<not> b x) xs)))"
  proof -
    have part: "sorted_wrt (\<lambda>x y. (\<not> b x, k x) \<le> (\<not> b y, k y)) (sort_key k ys)"
      if "\<forall>x \<in> set ys. b x = c" for ys c
      by (rule sorted_wrt_mono_rel [of _ "\<lambda>x y. k x \<le> k y"])
         (use that sorted_sort_key [of k ys] in \<open>auto simp: sorted_map less_eq_prod_def\<close>)
    show ?thesis
      unfolding sorted_map sorted_wrt_append
      using part [of "filter b xs" True] part [of "filter (\<lambda>x. \<not> b x) xs" False] by (auto simp: less_eq_prod_def)
  qed
qed

lemma boot_disks_first:
  "boot_ordered ds = sort_key disk_order (filter boot ds) @ sort_key disk_order (filter (\<lambda>d. \<not> boot d) ds)"
  unfolding boot_ordered_def by (rule sort_key_pair)

text \<open>
  A network card that the destination VM is created with is read back as it was: when the
  created VM is captured again its entry gives the same MAC address, the destination network and
  the model, unless the model is \<^verbatim>\<open>e1000e\<close>, which the capture does not know.
\<close>

theorem nic_survives_capture:
  assumes "create_model (nic_model nic) \<noteq> ''e1000e''" and "CHR '','' \<notin> set (mac nic)" and "CHR '','' \<notin> set dest"
    and "0 \<le> nic_order nic"
  shows "nic_of_entry (''net'' @ show_int (nic_order nic), net_value nic dest) =
    Some (nic\<lparr>source_network := dest, nic_model := create_model (nic_model nic)\<rparr>)"
proof -
  let ?m = "create_model (nic_model nic)"
  have m: "?m \<in> set nic_models"
    using assms(1) by (auto simp: create_model_def create_models_def nic_models_def Let_def)
  then have clean: "CHR ''='' \<notin> set ?m" "CHR '','' \<notin> set ?m"
    by (auto simp: nic_models_def)
  have "split_on '','' (net_value nic dest) = [?m @ ''='' @ mac nic, ''bridge='' @ dest]"
    using split_on_first [of "CHR '',''" "?m @ ''='' @ mac nic" "''bridge='' @ dest"]
      split_on_nomem [of "CHR '',''" "''bridge='' @ dest"] clean(2) assms(2,3)
    by (simp add: net_value_def)
  moreover have "read_net_part (?m @ ''='' @ mac nic) (''virtio'', [], []) = (?m, mac nic, [])"
  proof -
    have "takeWhile (\<lambda>c. c \<noteq> CHR ''='') (?m @ ''='' @ mac nic) = ?m"
      "dropWhile (\<lambda>c. c \<noteq> CHR ''='') (?m @ ''='' @ mac nic) = ''='' @ mac nic"
      by (subst takeWhile_append2; use clean(1) in auto) (subst dropWhile_append2; use clean(1) in auto)
    then show ?thesis using m by (simp add: read_net_part_def)
  qed
  moreover have "read_net_part (''bridge='' @ dest) (?m, mac nic, []) = (?m, mac nic, dest)"
    by (simp add: read_net_part_def nic_models_def)
  ultimately have "parse_net (net_value nic dest) = (?m, mac nic, dest)"
    by (simp add: parse_net_def)
  moreover obtain n where n: "nic_order nic = int n" using assms(4) by (metis nonneg_int_cases)
  moreover have "is_digits (show_nat n)" by (simp add: is_digits_def)
  ultimately show ?thesis
    by (simp add: nic_of_entry_def show_int_def starts_with_def)
qed

lemma e1000e_loses_its_address:
  "nic_of_entry (''net0'', net_value \<lparr>mac = ''AA:BB'', source_network = ''lan'', nic_model = ''e1000e'', nic_order = 0\<rparr> ''vmbr0'') =
     Some \<lparr>mac = [], source_network = ''vmbr0'', nic_model = ''virtio'', nic_order = 0\<rparr>"
  by code_simp

definition demo_nic :: nic_spec where
  "demo_nic = \<lparr>mac = ''AA:BB'', source_network = ''lan'', nic_model = ''VMXNET3'', nic_order = 1\<rparr>"

theorem nic_survives_capture_witness:
  "nic_of_entry (''net'' @ show_int 1, net_value demo_nic ''vmbr0'') =
     Some \<lparr>mac = ''AA:BB'', source_network = ''vmbr0'', nic_model = ''vmxnet3'', nic_order = 1\<rparr>"
proof -
  have m: "create_model ''VMXNET3'' = ''vmxnet3''" by code_simp
  show ?thesis
    using nic_survives_capture [of demo_nic "''vmbr0''"] by (simp add: demo_nic_def m)
qed


section \<open>The retry on a lock timeout\<close>

definition asked_count :: "pve \<Rightarrow> nat" where
  "asked_count s = length (filter (\<lambda>e. case e of Asked c ok \<Rightarrow> True | _ \<Rightarrow> False) (pv_trace s))"

definition paused :: "pve \<Rightarrow> nat" where
  "paused s = sum_list (map (\<lambda>e. case e of Pause n \<Rightarrow> n | _ \<Rightarrow> 0) (pv_trace s))"

text \<open>\<open>adds k p m\<close>: the action makes at most \<open>k\<close> calls and pauses for at most \<open>p\<close> seconds.\<close>

definition adds :: "nat \<Rightarrow> nat \<Rightarrow> 'a pve_action \<Rightarrow> bool" where
  "adds k p m \<longleftrightarrow> (\<forall>s. asked_count (final m s) \<le> asked_count s + k \<and> paused (final m s) \<le> paused s + p)"

lemma addsD: "adds k p m \<Longrightarrow> m s = (r, t) \<Longrightarrow> asked_count t \<le> asked_count s + k \<and> paused t \<le> paused s + p"
  unfolding adds_def final_def by (metis snd_conv)

lemma addsI: "(\<And>s r t. m s = (r, t) \<Longrightarrow> asked_count t \<le> asked_count s + k \<and> paused t \<le> paused s + p) \<Longrightarrow> adds k p m"
  unfolding adds_def final_def by (metis prod.collapse)

lemma adds_bnd:
  assumes "adds k p m" and "\<And>x. adds k' p' (f x)"
  shows "adds (k + k') (p + p') (bnd m f)"
proof (rule addsI)
  fix s r t assume run: "bnd m f s = (r, t)"
  obtain r0 t0 where m: "m s = (r0, t0)" by fastforce
  show "asked_count t \<le> asked_count s + (k + k') \<and> paused t \<le> paused s + (p + p')"
    using addsD [OF assms(1) m] addsD [OF assms(2)] run m
    by (cases r0) (fastforce simp: bnd_def)+
qed

lemma adds_tryc:
  assumes "adds k p m" and "\<And>e. adds k' p' (h e)"
  shows "adds (k + k') (p + p') (tryc m h)"
proof (rule addsI)
  fix s r t assume run: "tryc m h s = (r, t)"
  obtain r0 t0 where m: "m s = (r0, t0)" by fastforce
  show "asked_count t \<le> asked_count s + (k + k') \<and> paused t \<le> paused s + (p + p')"
    using addsD [OF assms(1) m] addsD [OF assms(2)] run m
    by (cases r0) (fastforce simp: tryc_def)+
qed

lemma adds_andthen: "adds k p m \<Longrightarrow> adds k' p' n \<Longrightarrow> adds (k + k') (p + p') (andthen m n)"
  unfolding andthen_def by (rule adds_bnd)

lemma adds_mono: "adds k p m \<Longrightarrow> k \<le> k' \<Longrightarrow> p \<le> p' \<Longrightarrow> adds k' p' m"
  unfolding adds_def by (meson add_left_mono order_trans)

lemma adds_nothing: "adds k p (ret x)" "adds k p (raise e)" "adds k p (say l)"
  by (rule addsI; auto simp: ret_def raise_def run_say asked_count_def paused_def)+

lemma adds_wait: "adds 0 n (wait n)"
  by (rule addsI) (auto simp: run_wait asked_count_def paused_def)

lemma adds_call: "adds 1 0 (call_out f c)"
  by (rule addsI) (auto simp: run_call Let_def asked_count_def paused_def)

lemma adds_foreach_say: "adds k p (foreach ls (\<lambda>l. say (f l)))"
  by (rule addsI) (auto simp: run_foreach_say asked_count_def paused_def o_def)

lemma adds_quiet_start: "adds 0 0 m \<Longrightarrow> adds k p n \<Longrightarrow> adds k p (andthen m n)"
  using adds_andthen [of 0 0 m k p n] by simp

lemma adds_quiet_end: "adds k p m \<Longrightarrow> (\<And>x. adds 0 0 (f x)) \<Longrightarrow> adds k p (bnd m f)"
  using adds_bnd [of k p m 0 0 f] by simp

lemma adds_if: "adds k p m \<Longrightarrow> adds k p n \<Longrightarrow> adds k p (if c then m else n)"
  by simp

lemma adds_exit: "adds k p m \<Longrightarrow> (\<And>rc. adds k p (f rc)) \<Longrightarrow> adds k p (case x of TimedOut \<Rightarrow> m | Exited rc \<Rightarrow> f rc)"
  by (cases x) simp_all

lemma adds_pair: "(\<And>y z. adds k p (f y z)) \<Longrightarrow> adds k p (case x of (y, z) \<Rightarrow> f y z)"
  by (cases x) simp

lemma adds_run_ssh: "adds 1 0 (run_ssh (pve_runner E) host cmd lg check timeout redact)"
  unfolding run_ssh_def Let_def pve_runner_channels foreach_map
  by (intro adds_quiet_start adds_if adds_quiet_end adds_call adds_pair adds_exit adds_nothing adds_foreach_say)

lemma adds_locked_retry:
  assumes "adds 1 0 m"
  shows "adds (left + 1) (\<Sum>j<left. d * (i + j + 1)) (locked_retry left i d m)"
proof (induction "left" arbitrary: i)
  case (Suc n)
  let ?attempt = "tryc (bnd m (\<lambda>out. ret (if is_lock_timeout out then None else Some out)))
      (\<lambda>exc. if is_lock_timeout (exn_text exc) then ret None else raise exc)"
  have once: "adds 1 0 ?attempt"
    by (rule adds_mono [OF adds_tryc [OF adds_quiet_end [OF assms adds_nothing(1)] adds_if [OF adds_nothing(1,2)],
          where k' = 0 and p' = 0]]) simp_all
  have again: "adds (n + 1) (d * (i + 1) + (\<Sum>j<n. d * (i + 1 + j + 1)))
      (case r of Some out \<Rightarrow> ret out | None \<Rightarrow> andthen (wait (d * (i + 1))) (locked_retry n (i + 1) d m))" for r
    using adds_andthen [OF adds_wait Suc.IH [of "i + 1"], of "d * (i + 1)"] adds_nothing(1) by (cases r) auto
  have total: "(\<Sum>j<Suc n. d * (i + j + 1)) = d * (i + 1) + (\<Sum>j<n. d * (i + 1 + j + 1))"
    by (simp add: sum.lessThan_Suc_shift del: sum.lessThan_Suc)
  show ?case
    unfolding locked_retry.simps total by (rule adds_mono [OF adds_bnd [OF once again]]) simp_all
qed (use assms in simp)

text \<open>
  A command on a node is tried at most six times, however often the node reports a lock timeout,
  with pauses of at most thirty seconds in all.
\<close>

theorem command_is_tried_six_times:
  "asked_count (final (ssh_on E host c check t) s) \<le> asked_count s + 6 \<and>
   paused (final (ssh_on E host c check t) s) \<le> paused s + 30"
proof -
  have "adds (5 + 1) (\<Sum>j<5. 2 * (0 + j + 1)) (ssh_on E host c check t)"
    unfolding ssh_on_def by (intro adds_locked_retry adds_run_ssh)
  moreover have "(\<Sum>j<5. 2 * (0 + j + 1)) = (30 :: nat)" by code_simp
  ultimately show ?thesis by (simp add: adds_def)
qed


section \<open>Spreading new VMs over the nodes\<close>

text \<open>The nodes that the next \<open>k\<close> creations are placed on.\<close>

definition placements :: "pve_env \<Rightarrow> nat \<Rightarrow> string option list pve_action" where
  "placements E k = collect [0..<k] (\<lambda>_. pick_rr_node E)"

lemma placements_run:
  assumes "\<not> is_mock_or_dry E" and "pv_host_override s = []" and "conn_host_setting E \<noteq> []"
    and "map_of (pv_reachable s) (conn_host_setting E) = Some hosts" and "1 < length hosts"
  shows "result (collect (js :: nat list) (\<lambda>_. pick_rr_node E)) s =
    Inr (map (\<lambda>i. Some (hosts ! ((dict_get (pv_cursor s) (cluster_key E) 0 + i) mod length hosts))) [0..<length js])"
  using assms
proof (induction js arbitrary: s)
  case (Cons j js)
  let ?n = "dict_get (pv_cursor s) (cluster_key E) 0"
  let ?s = "s\<lparr>pv_cursor := AList.update (cluster_key E) (Suc ?n) (pv_cursor s)\<rparr>"
  have pick: "pick_rr_node E s = (Inr (Some (hosts ! (?n mod length hosts))), ?s)"
    using Cons.prems by (simp add: pick_rr_node_def pve_host_def reachable_rr_hosts_def run_rules)
  have next_index: "dict_get (pv_cursor ?s) (cluster_key E) 0 = Suc ?n"
    by (simp add: dict_get_def update_conv')
  have "result (collect js (\<lambda>_. pick_rr_node E)) ?s =
    Inr (map (\<lambda>i. Some (hosts ! ((Suc ?n + i) mod length hosts))) [0..<length js])"
    using Cons.IH [of ?s] Cons.prems unfolding next_index by simp
  then have rest: "fst (collect js (\<lambda>_. pick_rr_node E) ?s) =
    Inr (map (\<lambda>i. Some (hosts ! ((Suc ?n + i) mod length hosts))) [0..<length js])"
    by (simp add: result_def)
  obtain t where t: "collect js (\<lambda>_. pick_rr_node E) ?s =
    (Inr (map (\<lambda>i. Some (hosts ! ((Suc ?n + i) mod length hosts))) [0..<length js]), t)"
    using rest by (metis prod.collapse)
  have "[0..<length (j # js)] = 0 # map Suc [0..<length js]"
    by (simp add: upt_conv_Cons map_Suc_upt del: upt_Suc)
  then show ?case
    unfolding collect.simps result_def run_bnd pick resume.simps t by (simp add: run_ret o_def del: upt_Suc)
qed (simp add: result_def run_ret)

text \<open>How many numbers below \<open>x\<close> have the residue \<open>j\<close>, and then in a window.\<close>

lemma residues_below:
  assumes "0 < n" and "j < (n :: nat)"
  shows "card {m. m < x \<and> m mod n = j} = x div n + (if j < x mod n then 1 else 0)"
proof (induction x)
  case (Suc x)
  have split: "{m. m < Suc x \<and> m mod n = j} = {m. m < x \<and> m mod n = j} \<union> (if x mod n = j then {x} else {})"
    by (auto simp: less_Suc_eq)
  have "card {m. m < Suc x \<and> m mod n = j} = card {m. m < x \<and> m mod n = j} + (if x mod n = j then 1 else 0)"
    unfolding split by (subst card_Un_disjoint) auto
  also have "\<dots> = Suc x div n + (if j < Suc x mod n then 1 else 0)"
    unfolding Suc.IH using assms by (auto simp: div_Suc mod_Suc)
  finally show ?case .
qed simp

lemma residues_in_window:
  assumes "0 < n" and "j < (n :: nat)"
  shows "card {i. i < k \<and> (a + i) mod n = j} \<in> {k div n, k div n + 1}"
proof -
  have "card {i. i < k \<and> (a + i) mod n = j} = card ((+) a ` {i. i < k \<and> (a + i) mod n = j})"
    by (simp add: card_image)
  also have "(+) a ` {i. i < k \<and> (a + i) mod n = j} = {m. m < a + k \<and> m mod n = j} - {m. m < a \<and> m mod n = j}"
    by (auto simp: image_iff) (metis add_less_cancel_left le_Suc_ex not_less)
  also have "card \<dots> = card {m. m < a + k \<and> m mod n = j} - card {m. m < a \<and> m mod n = j}"
    by (rule card_Diff_subset) auto
  finally have c: "card {i. i < k \<and> (a + i) mod n = j} =
      (a + k) div n + (if j < (a + k) mod n then 1 else 0) - (a div n + (if j < a mod n then 1 else 0))"
    unfolding residues_below [OF assms] .
  have rest: "a mod n < n" "k mod n < n" using assms(1) by simp_all
  have sums: "(a + k) div n = a div n + k div n + (if n \<le> a mod n + k mod n then 1 else 0)"
    "(a + k) mod n = (if n \<le> a mod n + k mod n then a mod n + k mod n - n else a mod n + k mod n)"
  proof -
    have one: "x div n = (if n \<le> x then 1 else 0)" "x mod n = (if n \<le> x then x - n else x)" if "x < n + n" for x
      using that by (auto simp: le_div_geq le_mod_geq)
    show "(a + k) div n = a div n + k div n + (if n \<le> a mod n + k mod n then 1 else 0)"
      using one(1) [of "a mod n + k mod n"] rest by (simp add: div_add1_eq [of a k n])
    show "(a + k) mod n = (if n \<le> a mod n + k mod n then a mod n + k mod n - n else a mod n + k mod n)"
      using one(2) [of "a mod n + k mod n"] rest mod_add_eq [of a n k] by simp
  qed
  have window: "x + y + (if n \<le> r + q then 1 else 0) + (if j < (if n \<le> r + q then r + q - n else r + q) then 1 else 0)
      - (x + (if j < r then 1 else 0)) \<in> {y, y + 1}" if "r < n" "q < n" for x y r q :: nat
    using that assms(2) by auto
  show ?thesis unfolding c sums by (rule window [OF rest])
qed

text \<open>
  New VMs are spread evenly: once the reachable nodes are known, any \<open>k\<close> creations in a row put
  on each of the \<open>n\<close> nodes either \<open>k div n\<close> or one more.
\<close>

theorem vms_are_spread_evenly:
  assumes "\<not> is_mock_or_dry E" and "pv_host_override s = []" and "conn_host_setting E \<noteq> []"
    and "map_of (pv_reachable s) (conn_host_setting E) = Some hosts" and "1 < length hosts" and "distinct hosts"
    and "h \<in> set hosts"
  shows "\<exists>picks. result (placements E k) s = Inr picks \<and>
    count_list picks (Some h) \<in> {k div length hosts, k div length hosts + 1}"
proof -
  let ?a = "dict_get (pv_cursor s) (cluster_key E) 0"
  let ?n = "length hosts"
  let ?picks = "map (\<lambda>i. Some (hosts ! ((?a + i) mod ?n))) [0..<k]"
  obtain j where j: "j < ?n" "h = hosts ! j" using assms(7) by (metis in_set_conv_nth)
  have run: "result (placements E k) s = Inr ?picks"
    using placements_run [OF assms(1-5), of "[0..<k]"] by (simp add: placements_def)
  have same: "Some (hosts ! ((?a + i) mod ?n)) = Some h \<longleftrightarrow> (?a + i) mod ?n = j" for i
  proof -
    have "0 < ?n" using assms(5) by linarith
    then have "(?a + i) mod ?n < ?n" by (rule mod_less_divisor)
    then show ?thesis using j assms(6) by (simp add: nth_eq_iff_index_eq)
  qed
  have "count_list ?picks (Some h) = card {i. i < k \<and> (?a + i) mod ?n = j}"
  proof -
    have "count_list ?picks (Some h) = length (filter (\<lambda>i. (?a + i) mod ?n = j) [0..<k])"
      unfolding count_list_eq_length_filter filter_map length_map o_def using same by (metis (no_types, lifting) filter_cong)
    also have "\<dots> = card {i. i < k \<and> (?a + i) mod ?n = j}"
      by (simp add: distinct_length_filter Int_def conj_commute)
    finally show ?thesis .
  qed
  moreover have "0 < ?n" using assms(5) by linarith
  ultimately have "count_list ?picks (Some h) \<in> {k div ?n, k div ?n + 1}"
    using residues_in_window [OF _ j(1), of k ?a] by simp
  with run show ?thesis by blast
qed

theorem vms_are_spread_evenly_witness:
  "\<exists>picks. result (placements (lab False []) 5)
      (new_pve\<lparr>pv_reachable := [(''10.0.0.1'', [''10.0.0.1'', ''10.0.0.2''])]\<rparr>) = Inr picks \<and>
    count_list picks (Some ''10.0.0.2'') \<in> {2, 3}"
proof -
  have "5 div Suc (Suc 0) = 2" by (simp flip: numeral_2_eq_2)
  then show ?thesis
  using vms_are_spread_evenly [of "lab False []" "new_pve\<lparr>pv_reachable := [(''10.0.0.1'', [''10.0.0.1'', ''10.0.0.2''])]\<rparr>"
      "[''10.0.0.1'', ''10.0.0.2'']" "''10.0.0.2''" 5]
  by (simp add: lab_fields lab_values new_pve_def)
qed

section \<open>Copy targets\<close>

lemma show_int_inject: "show_int m = show_int n \<Longrightarrow> 0 \<le> m \<Longrightarrow> 0 \<le> n \<Longrightarrow> m = n"
  by (simp add: show_int_def split: if_splits)

lemma copy_target_inject: "copy_target ref m = copy_target ref n \<Longrightarrow> 0 \<le> m \<Longrightarrow> 0 \<le> n \<Longrightarrow> m = n"
  using show_int_inject by (simp add: copy_target_def)

text \<open>The search goes through the taken names; with more fuel than names it ends.\<close>

lemma free_copy_index_run:
  assumes "\<And>t v. bool_reply E t (VolumeExists v True) = Inr (v \<in> taken)"
    and "\<forall>j. idx \<le> j \<and> j < idx + int n \<longrightarrow> copy_target ref j \<in> taken" and "copy_target ref (idx + int n) \<notin> taken"
    and "n < fuel"
  shows "\<exists>t. free_copy_index E ref fuel idx s = (Inr (Some (idx + int n)), t)"
  using assms(2-4)
proof (induction n arbitrary: fuel idx s)
  case 0
  then obtain f where "fuel = Suc f" by (cases fuel) auto
  with 0 show ?case by (simp add: run_bnd run_call assms(1) run_ret)
next
  case (Suc n)
  then obtain f where f: "fuel = Suc f" "n < f" by (cases fuel) auto
  have "copy_target ref idx \<in> taken" using Suc.prems(1) by simp
  moreover have "\<exists>t. free_copy_index E ref f (idx + 1) s' = (Inr (Some (idx + 1 + int n)), t)" for s'
    using Suc.prems f(2) by (intro Suc.IH) (auto simp: algebra_simps)
  ultimately show ?case using f(1) by (simp add: run_bnd run_call assms(1) Let_def algebra_simps)
qed

text \<open>
  C15. Preparing a copy target always ends, with fuel for one more than the names that are taken: it
  gives the first name of the VM's volume group from the disk's number on that no volume has, the
  volumes in the recycle bin included, and makes sure the group exists.
\<close>

theorem copy_target_is_first_free:
  assumes "\<And>t v. bool_reply E t (VolumeExists v True) = Inr (v \<in> taken)" and "finite taken" and "card taken < fuel"
    and "pe_array E" and "0 \<le> order" and "\<And>t. unit_reply E t (EnsureVolumeGroup (''vm-'' @ ref)) = Inr ()"
  shows "\<exists>i. result (pve_prepare_copy_target E fuel order ref) s = Inr (Some (copy_target ref i)) \<and> order \<le> i \<and>
    copy_target ref i \<notin> taken \<and> (\<forall>j. order \<le> j \<and> j < i \<longrightarrow> copy_target ref j \<in> taken) \<and>
    Asked (EnsureVolumeGroup (''vm-'' @ ref)) True \<in> set (pv_trace (final (pve_prepare_copy_target E fuel order ref) s))"
proof -
  let ?at = "\<lambda>n. copy_target ref (order + int n)"
  have inj: "inj ?at" using copy_target_inject assms(5) by (intro injI) fastforce
  have "\<exists>n. ?at n \<notin> taken"
  proof (rule ccontr)
    assume "\<nexists>n. ?at n \<notin> taken"
    then have "range ?at \<subseteq> taken" by auto
    then show False using inj assms(2) by (metis finite_subset finite_imageD infinite_UNIV_nat)
  qed
  then obtain n where n: "?at n \<notin> taken" and least: "\<forall>m<n. ?at m \<in> taken"
    using LeastI_ex [of "\<lambda>n. ?at n \<notin> taken"] not_less_Least [of _ "\<lambda>n. ?at n \<notin> taken"] by blast
  have "?at ` {..<n} \<subseteq> taken" using least by auto
  then have "card {..<n} \<le> card taken"
    using inj assms(2) by (metis card_image card_mono inj_on_subset subset_UNIV)
  then have "n < fuel" using assms(3) by simp
  moreover have below: "\<forall>j. order \<le> j \<and> j < order + int n \<longrightarrow> copy_target ref j \<in> taken"
  proof (intro allI impI)
    fix j assume "order \<le> j \<and> j < order + int n"
    then have "j = order + int (nat (j - order))" "nat (j - order) < n" by auto
    then show "copy_target ref j \<in> taken" using least by metis
  qed
  ultimately obtain t where t: "free_copy_index E ref fuel order s = (Inr (Some (order + int n)), t)"
    using free_copy_index_run [OF assms(1) _ n] by blast
  have "result (pve_prepare_copy_target E fuel order ref) s = Inr (Some (?at n))"
    "Asked (EnsureVolumeGroup (''vm-'' @ ref)) True \<in> set (pv_trace (final (pve_prepare_copy_target E fuel order ref) s))"
    using assms(4,6) by (simp_all add: pve_prepare_copy_target_def result_def final_def run_bnd run_andthen t run_call run_ret)
  then show ?thesis using n below by (intro exI [of _ "order + int n"]) simp
qed

theorem copy_target_is_first_free_witness:
  "\<exists>i. result (pve_prepare_copy_target (lab False []\<lparr>bool_reply := \<lambda>t c. Inr (c = VolumeExists (copy_target ''7'' 0) True)\<rparr>) 2 0 ''7'')
     new_pve = Inr (Some (copy_target ''7'' i)) \<and> 1 \<le> i"
proof -
  let ?E = "lab False []\<lparr>bool_reply := \<lambda>t c. Inr (c = VolumeExists (copy_target ''7'' 0) True)\<rparr>"
  have free: "\<And>t v. bool_reply ?E t (VolumeExists v True) = Inr (v \<in> {copy_target ''7'' 0})"
    by simp
  obtain i where "result (pve_prepare_copy_target ?E 2 0 ''7'') new_pve = Inr (Some (copy_target ''7'' i))"
      "0 \<le> i" "copy_target ''7'' i \<notin> {copy_target ''7'' 0}"
    using copy_target_is_first_free [OF free, of 2 0 "''7''" new_pve] by (auto simp: lab_fields)
  then show ?thesis by (intro exI [of _ i]) (cases "i = 0"; simp)
qed


section \<open>Capturing a VM\<close>

lemma volume_lookup_quiet: "never_raises (resolve_fa_volume E ref v)"
  unfolding resolve_fa_volume_def Let_def by (intro quiet_intro)

lemma capture_disks_run:
  "\<exists>ds t. capture_disks E ref slots first es s = (Inr ds, t) \<and>
    map disk_source_ref ds = map fst (filter (is_disk_entry (pve_storage_id E [])) es)"
proof (induction E ref slots first es arbitrary: s rule: capture_disks.induct)
  case (2 E ref slots first key val es)
  show ?case
  proof (cases "is_disk_entry (pve_storage_id E []) (key, val)")
    case True
    obtain fa u where fa: "resolve_fa_volume E ref (volume_of_value val) s = (Inr fa, u)"
      by (rule never_raises_obtain [OF volume_lookup_quiet])
    obtain ds t where "capture_disks E ref slots False es u = (Inr ds, t)"
        "map disk_source_ref ds = map fst (filter (is_disk_entry (pve_storage_id E [])) es)"
      using 2(1) [OF True refl] by blast
    then show ?thesis using True by (simp add: Let_def run_bnd fa run_ret)
  next
    case False
    then show ?thesis using 2(2) [OF False] by simp
  qed
qed (simp add: run_ret)

lemma ensure_boot_props:
  "map disk_order (ensure_boot ds) = map disk_order ds" "map disk_source_ref (ensure_boot ds) = map disk_source_ref ds"
  "ensure_boot ds \<noteq> [] \<Longrightarrow> \<exists>d \<in> set (ensure_boot ds). boot d"
  by (auto simp: ensure_boot_def split: list.splits if_splits)


definition lab_config :: "string list" where
  "lab_config = [''name: web'', ''cores: 2'', ''memory: 1024'', ''boot: order=virtio1'',
     ''virtio1: purefa:vm-7/vm-7-disk-1,size=8G'', ''scsi0: purefa:vm-7/vm-7-disk-0,size=4G'',
     ''net0: virtio=AA:BB,bridge=vmbr0'']"



section \<open>Creating a VM\<close>

lemma net_args_mapped: "net_args netmap ns = Inr xs \<Longrightarrow> n \<in> set ns \<Longrightarrow>
    \<exists>d. map_of netmap (source_network n) = Some d \<and> d \<noteq> []"
  by (induction ns arbitrary: xs) (auto split: option.splits sum.splits simp: nonempty_def split: list.splits)

lemma confirm_created_success:
  assumes "\<not> is_mock_or_dry E" and "confirm_created E vmid name u = (Inr r, t)" and "success r"
  shows "\<exists>cfg u'. ssh E (''qm config '' @ vmid) False None u = (Inr cfg, u') \<and> \<not> contains ''does not exist'' cfg \<and>
    \<not> is_lock_timeout cfg \<and> pv_trace t = pv_trace u' @ [Line (''Created VM '' @ vmid @ '' ('' @ name @ '')'')] \<and>
    artifacts r = [(''vm_ref'', JStr vmid)]"
  using assms unfolding confirm_created_def Let_def
  by (auto simp: run_ret run_say fail_msg_def op_fail_def op_ok_def run_andthen elim!: bnd_eq_InrE split: if_splits)


definition demo_vm :: vm_spec where
  "demo_vm = \<lparr>vm_name = ''web'', vm_source_ref = ''42'', vcpus = 2, memory_bytes = 1024 * mib, firmware = ''bios'',
     secure_boot = False, disks = [], nics = [demo_nic], guest_os_hint = [], raw = []\<rparr>"

definition demo_answers :: "(string \<times> string list) list" where
  "demo_answers = [(''pvesh get /cluster/nextid'', [''101'']), (''qm config 101'', [''name: web''])]"

lemma lab_ssh_run:
  assumes "\<not> is_lock_timeout (join newline (map rstrip_newlines (dict_get ((''cat /etc/pve/.members'', [lab_members]) # tab) c [])))"
    and "pv_host_override s = []"
  shows "ssh (lab False tab) c check t s =
    (Inr (join newline (map rstrip_newlines (dict_get ((''cat /etc/pve/.members'', [lab_members]) # tab) c []))),
     s\<lparr>pv_trace := pv_trace s @ [ssh_line (lab False tab) ''10.0.0.1'' c,
        Asked (Ssh (ssh_request_of (lab False tab) ''10.0.0.1'' c t)) True]
      @ map (\<lambda>l. Line (''  '' @ rstrip_newlines l)) (dict_get ((''cat /etc/pve/.members'', [lab_members]) # tab) c [])\<rparr>)"
  using assms by (simp add: ssh_def run_bnd lab_host run_ssh_answered lab_fields lab_ssh_def ssh_request_of_def)

lemma ssh_script_join: "ssh_script E ls check t = ssh E (join '' && '' ls) check t"
  by (simp add: ssh_script_def ssh_def ssh_script_on_join)



section \<open>Registering the nodes\<close>

definition no_registration :: "pve_env \<Rightarrow> pve_call \<Rightarrow> bool" where
  "no_registration E c \<longleftrightarrow> (\<forall>g specs. c \<noteq> RegisterGroup g specs)"

interpretation unregistered: call_rule no_registration
proof
  fix E q c
  show "no_registration E (Ssh q)" by (simp add: no_registration_def)
  show "reads c \<Longrightarrow> no_registration E c" by (cases c) (simp_all add: no_registration_def)
qed

text \<open>The name of a node's host, and what the array is asked to register for a list of nodes.\<close>

definition host_name_of :: "string \<Rightarrow> string \<Rightarrow> cluster_node \<Rightarrow> string" where
  "host_name_of conn_host host_name n =
     (if node_host n = conn_host \<and> host_name \<noteq> [] then fa_name host_name else expected_fa_host n)"

definition covers :: "string \<Rightarrow> string \<Rightarrow> cluster_node list \<Rightarrow> host_spec list \<Rightarrow> bool" where
  "covers conn_host host_name ns specs \<longleftrightarrow>
     map fst specs = map (host_name_of conn_host host_name) ns \<and> list_all (\<lambda>(n, i). has_initiator i) specs"

lemma host_specs_cover:
  assumes "\<not> pe_dry_run E" and "host_specs E proto conn_host host_name given ns s = (Inr (Inr specs), t)"
  shows "covers conn_host host_name ns specs"
  using assms(2)
proof (induction ns arbitrary: s specs t)
  case (Cons n ns)
  then obtain i rest u u' where "host_specs E proto conn_host host_name given ns u = (Inr (Inr rest), u')"
      and "specs = (host_name_of conn_host host_name n, i) # rest" "has_initiator i"
    using assms(1) by (auto simp: Let_def host_name_of_def run_ret split: if_splits sum.splits elim!: bnd_eq_InrE andthen_eq_InrE)
  with Cons.IH show ?case by (auto simp: covers_def)
qed (simp add: run_ret covers_def)

lemma triple_snd: "triple P m (\<lambda>_. G) (\<lambda>_. G) \<Longrightarrow> P s \<Longrightarrow> G (snd (m s))"
  by (cases "m s"; cases "fst (m s)") (auto simp: triple_def)


definition iqn_command :: string where
  "iqn_command = ''sed -n '' @ [CHR 0x27] @ ''s/^InitiatorName=//p'' @ [CHR 0x27] @ '' /etc/iscsi/initiatorname.iscsi 2>/dev/null''"

definition demo_nodes :: "cluster_node list" where
  "demo_nodes = [\<lparr>node_name = ''pve1'', node_host = ''10.0.0.1'', node_info = []\<rparr>,
     \<lparr>node_name = ''pve2'', node_host = ''10.0.0.2'', node_info = []\<rparr>]"

definition demo_specs :: "host_spec list" where
  "demo_specs = [(''pve1'', \<lparr>iqns = Some [''iqn.a''], wwns = None, nqns = None\<rparr>),
     (''pve2'', \<lparr>iqns = Some [''iqn.a''], wwns = None, nqns = None\<rparr>)]"



section \<open>Slots of the created disks\<close>

text \<open>
  The slot of a created disk depends on the disk's number alone: two source disks with the same
  number on different buses get the same slot, and the boot order names a slot by the source bus.
\<close>

lemma managed_slots_collide:
  "pve_slot d1 = ''scsi0'' \<and> pve_slot d2 = ''virtio0'' \<Longrightarrow> disk_order d1 = 0 \<Longrightarrow> disk_order d2 = 0 \<Longrightarrow>
   managed_slot (disk_order d1) = managed_slot (disk_order d2)"
  by simp

lemma boot_order_names_no_created_disk:
  "order_value [\<lparr>identity = \<lparr>fa_volume = ''v'', serial = None, wwid = None, size_bytes = None\<rparr>, bus = ''virtio'',
     disk_order = 0, boot = True, disk_source_ref = ''virtio0''\<rparr>] = ''virtio0'' \<and> managed_slot 0 = ''scsi0''"
  by code_simp

end
