(* ===== verification/Smapi_Client.thy ===== *)
theory Smapi_Client
  imports Json_Text Vm_Spec
begin

text \<open>
  The FlashArray client of the XCP-ng storage plugin, \<^verbatim>\<open>purefa_fa.py\<close> (below
  \<^verbatim>\<open>connectors/xcpng/files/smapiv3/org.xen.xapi.storage.purefa\<close>): it runs on the hosts of the pool and
  speaks REST itself, without the SDK. The state holds what the client caches (the session token and
  the version of the API), the files with the settings of the storage repositories, and the trace.

  The array and the command \<^verbatim>\<open>xe\<close> are outside: they are the parameter \<open>E\<close>, whose answers are
  arbitrary functions of what has happened so far and of the call. An answer of the array is the
  exception the HTTP library raises, or the text of the response with its \<^verbatim>\<open>x-auth-token\<close> header.
  The text is read by \<open>json_loads\<close>. Names and serials of the array's objects are texts, and the
  \<^verbatim>\<open>items\<close> of a response a list: other types give the error \<open>Unmodelled\<close>.
\<close>

section \<open>Requests and events\<close>

text \<open>What the client asks for: the list of API versions, a session, or an object below a version.\<close>

datatype rest_target = ApiVersions | Session string | Object string string

record rest_request =
  rr_endpoint :: string
  rr_method :: string
  rr_target :: rest_target
  rr_body :: "json option"
  rr_headers :: "(string \<times> string) list"
  rr_timeout :: nat

definition url_text :: "string \<Rightarrow> rest_target \<Rightarrow> string" where
  "url_text ep t = ep @
     (case t of ApiVersions \<Rightarrow> ''/api/api_version''
      | Session v \<Rightarrow> ''/api/'' @ v @ ''/login''
      | Object v p \<Rightarrow> ''/api/'' @ v @ ''/'' @ p)"

type_synonym rest_answer = "exn + string \<times> string option"

datatype smapi_event =
    Rest rest_request rest_answer
  | Slept rat
  | Command "string list"
  | Debug string

record sr_conf =
  sc_endpoint :: string
  sc_token :: string
  sc_hostgroup :: string
  sc_protocol :: string
  sc_eradicate :: bool

record smapi =
  sm_auth :: "string option"
  sm_version :: "string option"
  sm_files :: "(string \<times> sr_conf) list"
  sm_trace :: "smapi_event list"

record smapi_env =
  rest_reply :: "smapi_event list \<Rightarrow> rest_request \<Rightarrow> rest_answer"
  command_reply :: "smapi_event list \<Rightarrow> string list \<Rightarrow> exn + string"
  fresh_uuid :: "smapi_event list \<Rightarrow> string"

type_synonym 'a smapi_action = "(smapi, 'a) action"

definition log_event :: "smapi_event \<Rightarrow> unit smapi_action" where
  "log_event e = modify (\<lambda>s. s\<lparr>sm_trace := sm_trace s @ [e]\<rparr>)"

definition set_auth :: "string option \<Rightarrow> unit smapi_action" where
  "set_auth a = modify (\<lambda>s. s\<lparr>sm_auth := a\<rparr>)"

definition set_version :: "string \<Rightarrow> unit smapi_action" where
  "set_version v = modify (\<lambda>s. s\<lparr>sm_version := Some v\<rparr>)"

section \<open>Names in URLs\<close>

text \<open>\<^verbatim>\<open>quote(name, safe="")\<close> of \<^verbatim>\<open>urllib.parse\<close>, on the bytes of the name.\<close>

definition unreserved :: "char \<Rightarrow> bool" where
  "unreserved c = (let n = of_char c :: nat in
     (48 \<le> n \<and> n \<le> 57) \<or> (65 \<le> n \<and> n \<le> 90) \<or> (97 \<le> n \<and> n \<le> 122) \<or> c \<in> set ''_.-~'')"

definition upper_hex :: "nat \<Rightarrow> char" where
  "upper_hex n = (if n < 10 then char_of (48 + n) else char_of (55 + n))"

definition quoted_char :: "char \<Rightarrow> string" where
  "quoted_char c = (if unreserved c then [c]
     else let n = of_char c :: nat in [CHR ''%'', upper_hex (n div 16), upper_hex (n mod 16)])"

definition enc :: "string \<Rightarrow> string" where
  "enc name = concat (map quoted_char name)"

definition name_filter :: "string \<Rightarrow> string" where
  "name_filter pattern = ''filter='' @ enc (''name='' @ [CHR 0x27] @ pattern @ [CHR 0x27])"

section \<open>The settings of a storage repository\<close>

definition SR_STATE_ROOT :: string where "SR_STATE_ROOT = ''/var/run/sr-ref/purefa''"

definition PURE_OUI :: string where "PURE_OUI = ''624a9370''"

text \<open>\<^verbatim>\<open>os.path.join(dir, leaf)\<close>: an absolute leaf replaces the directory.\<close>

definition path_join :: "string \<Rightarrow> string \<Rightarrow> string" where
  "path_join dir leaf = (if starts_with ''/'' leaf then leaf else dir @ ''/'' @ leaf)"

definition sr_state_path :: "string \<Rightarrow> string" where
  "sr_state_path sr_id = path_join SR_STATE_ROOT (sr_id @ ''.json'')"

text \<open>The file holds the settings as JSON; reading texts and a flag back from JSON is the identity.\<close>

definition save_sr_state :: "string \<Rightarrow> sr_conf \<Rightarrow> unit smapi_action" where
  "save_sr_state sr_id conf =
     modify (\<lambda>s. s\<lparr>sm_files := AList.update (sr_state_path sr_id) conf (sm_files s)\<rparr>)"

definition load_sr_state :: "string \<Rightarrow> sr_conf smapi_action" where
  "load_sr_state sr_id =
     bnd (gets sm_files) (\<lambda>files.
     case map_of files (sr_state_path sr_id) of
       Some conf \<Rightarrow> ret conf
     | None \<Rightarrow> raise (Exn ''FileNotFoundError'' (''[Errno 2] No such file or directory: '' @ py_repr (sr_state_path sr_id))))"

definition normalize_config :: "(string \<times> string) list \<Rightarrow> sr_conf" where
  "normalize_config configuration =
     \<lparr>sc_endpoint = dict_get configuration ''endpoint'' [],
      sc_token = dict_get configuration ''token'' [],
      sc_hostgroup = dict_get configuration ''hostgroup'' [],
      sc_protocol = lower (let p = dict_get configuration ''protocol'' [] in if p \<noteq> [] then p else ''iscsi''),
      sc_eradicate = (lower (dict_get configuration ''eradicate'' []) \<in> {''1'', ''true'', ''yes'', ''on''})\<rparr>"

section \<open>Devices\<close>

definition device_wwid :: "string \<Rightarrow> string" where
  "device_wwid sn =
     (let s = lower sn; s = (if starts_with ''0x'' s then drop 2 s else s) in
      if starts_with ''624a937'' s then ''3'' @ s else ''3'' @ PURE_OUI @ s)"

definition device_path :: "string \<Rightarrow> string \<Rightarrow> string" where
  "device_path sn protocol =
     (if protocol \<in> {''nvme-tcp'', ''nvme-fc''} then ''/dev/mapper/eui.'' @ lower sn
      else ''/dev/mapper/'' @ device_wwid sn)"

section \<open>Commands\<close>

definition run_command :: "smapi_env \<Rightarrow> string list \<Rightarrow> string smapi_action" where
  "run_command E args = (\<lambda>s.
     (command_reply E (sm_trace s) args, s\<lparr>sm_trace := sm_trace s @ [Command args]\<rparr>))"

definition flush_on_host :: "smapi_env \<Rightarrow> string \<Rightarrow> string \<Rightarrow> unit smapi_action" where
  "flush_on_host E w h =
     tryc (andthen (run_command E [''xe'', ''host-call-plugin'', ''host-uuid='' @ h, ''plugin=purefa-mpath'',
         ''fn=flush'', ''args:wwid='' @ w]) (ret ())) (\<lambda>_. ret ())"

definition flush_multipath_poolwide :: "smapi_env \<Rightarrow> string \<Rightarrow> unit smapi_action" where
  "flush_multipath_poolwide E w =
     (if w = [] then ret ()
      else bnd (tryc (bnd (run_command E [''xe'', ''host-list'', ''--minimal'']) (\<lambda>out.
               ret (filter (\<lambda>h. h \<noteq> []) (map strip (split_on '','' out))))) (\<lambda>_. ret []))
           (\<lambda>hosts. foreach hosts (flush_on_host E w)))"

section \<open>The client\<close>

record fa_client =
  fc_endpoint :: string
  fc_token :: string
  fc_timeout :: nat

definition strip_slashes :: "string \<Rightarrow> string" where
  "strip_slashes s = rev (dropWhile (\<lambda>c. c = CHR ''/'') (rev s))"

text \<open>The constructor: a client starts without a session and without a version.\<close>

definition flash_array :: "string \<Rightarrow> string \<Rightarrow> nat \<Rightarrow> fa_client smapi_action" where
  "flash_array endpoint token timeout =
     andthen (modify (\<lambda>s. s\<lparr>sm_auth := None, sm_version := None\<rparr>))
       (ret \<lparr>fc_endpoint = strip_slashes (if \<not> starts_with ''http://'' endpoint \<and> \<not> starts_with ''https://'' endpoint
                then ''https://'' @ endpoint else endpoint),
             fc_token = token, fc_timeout = timeout\<rparr>)"

definition exchange :: "smapi_env \<Rightarrow> rest_request \<Rightarrow> (string \<times> string option) smapi_action" where
  "exchange E q = (\<lambda>s. let a = rest_reply E (sm_trace s) q in
     (a, s\<lparr>sm_trace := sm_trace s @ [Rest q a]\<rparr>))"

definition http ::
  "smapi_env \<Rightarrow> fa_client \<Rightarrow> string \<Rightarrow> rest_target \<Rightarrow> json option \<Rightarrow> (string \<times> string) list \<Rightarrow> json smapi_action" where
  "http E C method t body headers =
     bnd (exchange E \<lparr>rr_endpoint = fc_endpoint C, rr_method = method, rr_target = t, rr_body = body,
            rr_headers = (''Content-Type'', ''application/json'') # headers, rr_timeout = fc_timeout C\<rparr>)
     (\<lambda>(text, tok).
     andthen (provided (nonempty tok \<noteq> None) (set_auth tok))
       (lift_sum (if text = [] then Inr (JObj []) else json_loads text)))"

section \<open>Reading answers\<close>

definition type_name :: "json \<Rightarrow> string" where
  "type_name j = (case j of JNull \<Rightarrow> ''NoneType'' | JBool _ \<Rightarrow> ''bool'' | JInt _ \<Rightarrow> ''int'' | JFloat _ \<Rightarrow> ''float''
     | JStr _ \<Rightarrow> ''str'' | JList _ \<Rightarrow> ''list'' | JObj _ \<Rightarrow> ''dict'')"

text \<open>\<^verbatim>\<open>data.get(k, dflt)\<close>\<close>

definition get_of :: "json \<Rightarrow> string \<Rightarrow> json \<Rightarrow> exn + json" where
  "get_of j k dflt = (case j of JObj d \<Rightarrow> Inr (dict_get d k dflt)
     | _ \<Rightarrow> Inl (Exn ''AttributeError''
              (py_repr (type_name j) @ '' object has no attribute '' @ py_repr ''get'')))"

text \<open>\<^verbatim>\<open>data.get("items") or []\<close>\<close>

definition items_of :: "json \<Rightarrow> exn + json list" where
  "items_of data = ebind (get_of data ''items'' JNull) (\<lambda>x. if truthy x then list_field x else Inr [])"

definition first_of :: "json list \<Rightarrow> json option" where
  "first_of items = (case items of [] \<Rightarrow> None | x # _ \<Rightarrow> Some x)"

definition is_destroyed :: "json \<Rightarrow> exn + bool" where
  "is_destroyed v = ebind (get_of v ''destroyed'' JNull) (\<lambda>x. Inr (truthy x))"

text \<open>\<^verbatim>\<open>[v for v in items if not v.get("destroyed")]\<close>\<close>

fun live_items :: "json list \<Rightarrow> exn + json list" where
  "live_items [] = Inr []"
| "live_items (v # vs) = ebind (is_destroyed v) (\<lambda>gone.
     ebind (live_items vs) (\<lambda>ws. Inr (if gone then ws else v # ws)))"

section \<open>Sessions\<close>

text \<open>A version that is no text counts as no answer.\<close>

definition latest_version :: "json \<Rightarrow> string \<Rightarrow> exn + string" where
  "latest_version data dflt =
     ebind (get_of data ''version'' JNull) (\<lambda>x.
     if truthy x then ebind (list_field x) (\<lambda>vs. str_field (last vs)) else Inr dflt)"

definition api_version :: "smapi_env \<Rightarrow> fa_client \<Rightarrow> string smapi_action" where
  "api_version E C =
     bnd (gets sm_version) (\<lambda>known.
     case nonempty known of
       Some v \<Rightarrow> ret v
     | None \<Rightarrow>
         bnd (tryc (bnd (http E C ''GET'' ApiVersions None []) (\<lambda>data. lift_sum (latest_version data ''2.0'')))
               (\<lambda>_. ret ''2.0'')) (\<lambda>ver.
         andthen (set_version ver) (ret ver)))"

definition login :: "smapi_env \<Rightarrow> fa_client \<Rightarrow> unit smapi_action" where
  "login E C =
     bnd (gets sm_auth) (\<lambda>auth.
     if auth \<noteq> None then ret ()
     else bnd (api_version E C) (\<lambda>v.
          andthen (http E C ''POST'' (Session v) None [(''api-token'', fc_token C)])
          (bnd (gets sm_auth) (\<lambda>auth.
           if auth \<noteq> None then ret ()
           else raise (Exn ''OSError'' ''purefa: login returned no x-auth-token'')))))"

definition auth_header :: "string option \<Rightarrow> (string \<times> string) list" where
  "auth_header auth = [(''x-auth-token'', show_opt auth)]"

definition send :: "smapi_env \<Rightarrow> fa_client \<Rightarrow> string \<Rightarrow> rest_target \<Rightarrow> json option \<Rightarrow> json smapi_action" where
  "send E C method t body = bnd (gets sm_auth) (\<lambda>auth. http E C method t body (auth_header auth))"

text \<open>The attempts of a read: \<open>i\<close> counts them, \<open>left\<close> is how many there are still to make.\<close>

fun read_attempts :: "smapi_env \<Rightarrow> fa_client \<Rightarrow> string \<Rightarrow> json option \<Rightarrow> rest_target \<Rightarrow> nat \<Rightarrow> nat \<Rightarrow> exn \<Rightarrow> json smapi_action" where
  "read_attempts E C path body t 0 i exc = raise exc"
| "read_attempts E C path body t (Suc n) i exc =
     tryc (send E C ''GET'' t body)
       (\<lambda>e. andthen (set_auth None)
             (andthen (log_event (Slept (of_nat (i + 1) / 2)))
             (andthen (login E C)
             (bnd (api_version E C) (\<lambda>v. read_attempts E C path body (Object v path) n (i + 1) e)))))"

definition fa_request :: "smapi_env \<Rightarrow> fa_client \<Rightarrow> string \<Rightarrow> string \<Rightarrow> json option \<Rightarrow> json smapi_action" where
  "fa_request E C method path body =
     andthen (login E C)
     (bnd (api_version E C) (\<lambda>v.
      if method = ''GET'' then read_attempts E C path body (Object v path) 3 0 (Exn ''TypeError'' [])
      else send E C method (Object v path) body))"


section \<open>Operations\<close>

text \<open>A request whose outcome does not matter: \<^verbatim>\<open>try: ... except Exception: pass\<close>.\<close>

definition best_effort :: "'a smapi_action \<Rightarrow> unit smapi_action" where
  "best_effort m = tryc (andthen m (ret ())) (\<lambda>_. ret ())"

definition fa_change :: "smapi_env \<Rightarrow> fa_client \<Rightarrow> string \<Rightarrow> string \<Rightarrow> dict option \<Rightarrow> unit smapi_action" where
  "fa_change E C method path body = andthen (fa_request E C method path (map_option JObj body)) (ret ())"

definition first_named :: "smapi_env \<Rightarrow> fa_client \<Rightarrow> string \<Rightarrow> json option smapi_action" where
  "first_named E C path =
     bnd (fa_request E C ''GET'' path None) (\<lambda>data. bnd (lift_sum (items_of data)) (\<lambda>items. ret (first_of items)))"

text \<open>The same where a failed request is an absent object.\<close>

definition first_or_absent :: "smapi_env \<Rightarrow> fa_client \<Rightarrow> string \<Rightarrow> json option smapi_action" where
  "first_or_absent E C path =
     bnd (tryc (bnd (fa_request E C ''GET'' path None) (\<lambda>data. ret (Some data))) (\<lambda>_. ret None)) (\<lambda>answer.
     case answer of
       None \<Rightarrow> ret None
     | Some data \<Rightarrow> bnd (lift_sum (items_of data)) (\<lambda>items. ret (first_of items)))"

definition live_named :: "smapi_env \<Rightarrow> fa_client \<Rightarrow> string \<Rightarrow> json list smapi_action" where
  "live_named E C path =
     bnd (fa_request E C ''GET'' path None) (\<lambda>data.
     bnd (lift_sum (items_of data)) (\<lambda>items. lift_sum (live_items items)))"

definition live_or_none :: "smapi_env \<Rightarrow> fa_client \<Rightarrow> string \<Rightarrow> json list smapi_action" where
  "live_or_none E C path =
     bnd (tryc (bnd (fa_request E C ''GET'' path None) (\<lambda>data. ret (Some data))) (\<lambda>_. ret None)) (\<lambda>answer.
     case answer of
       None \<Rightarrow> ret []
     | Some data \<Rightarrow> bnd (lift_sum (items_of data)) (\<lambda>items. lift_sum (live_items items)))"

subsection \<open>Volume groups\<close>

definition group_path :: "string \<Rightarrow> string" where
  "group_path vg = ''volume-groups?names='' @ enc vg"

definition members_of_path :: "string \<Rightarrow> string" where
  "members_of_path vg = ''volumes?'' @ name_filter (vg @ ''/*'')"

definition fa_create_vgroup :: "smapi_env \<Rightarrow> fa_client \<Rightarrow> string \<Rightarrow> unit smapi_action" where
  "fa_create_vgroup E C vg =
     provided (vg \<noteq> [])
       (andthen (best_effort (fa_change E C ''POST'' (group_path vg) None))
         (best_effort (fa_change E C ''PATCH'' (group_path vg) (Some [(''destroyed'', JBool False)]))))"

definition fa_vgroup :: "smapi_env \<Rightarrow> fa_client \<Rightarrow> string \<Rightarrow> json option smapi_action" where
  "fa_vgroup E C vg = first_or_absent E C (group_path vg)"

definition fa_vgroup_member_count :: "smapi_env \<Rightarrow> fa_client \<Rightarrow> string \<Rightarrow> nat smapi_action" where
  "fa_vgroup_member_count E C vg =
     (if vg = [] then ret 0
      else bnd (live_or_none E C (members_of_path vg)) (\<lambda>vs. ret (length vs)))"

definition fa_destroy_vgroup :: "smapi_env \<Rightarrow> fa_client \<Rightarrow> string \<Rightarrow> unit smapi_action" where
  "fa_destroy_vgroup E C vg =
     provided (vg \<noteq> [])
       (bnd (fa_vgroup_member_count E C vg) (\<lambda>n.
        provided (n = 0)
          (andthen (best_effort (fa_change E C ''PATCH'' (group_path vg) (Some [(''destroyed'', JBool True)])))
            (best_effort (fa_change E C ''DELETE'' (group_path vg) None)))))"

subsection \<open>Protection groups\<close>

definition pgroup_path :: "string \<Rightarrow> string" where
  "pgroup_path pg = ''protection-groups?names='' @ enc pg"

definition pgroup_snapshot_path :: "string \<Rightarrow> string" where
  "pgroup_snapshot_path name = ''protection-group-snapshots?names='' @ enc name"

definition fa_create_pgroup :: "smapi_env \<Rightarrow> fa_client \<Rightarrow> string \<Rightarrow> unit smapi_action" where
  "fa_create_pgroup E C pg = provided (pg \<noteq> []) (best_effort (fa_change E C ''POST'' (pgroup_path pg) None))"

definition fa_add_pgroup_volumes :: "smapi_env \<Rightarrow> fa_client \<Rightarrow> string \<Rightarrow> string list \<Rightarrow> unit smapi_action" where
  "fa_add_pgroup_volumes E C pg names =
     provided (pg \<noteq> [] \<and> names \<noteq> [])
       (best_effort (fa_change E C ''POST''
          (''protection-groups/volumes?group_names='' @ enc pg @ ''&member_names='' @ join '','' (map enc names)) None))"

definition fa_snapshot_pgroup :: "smapi_env \<Rightarrow> fa_client \<Rightarrow> string \<Rightarrow> string \<Rightarrow> json smapi_action" where
  "fa_snapshot_pgroup E C pg suffix =
     tryc (fa_request E C ''POST''
             (''protection-group-snapshots?source_names='' @ enc pg @ ''&suffix='' @ enc suffix) None)
       (\<lambda>_. ret (JObj []))"

definition fa_get_pgroup_snapshot :: "smapi_env \<Rightarrow> fa_client \<Rightarrow> string \<Rightarrow> json option smapi_action" where
  "fa_get_pgroup_snapshot E C name = first_or_absent E C (pgroup_snapshot_path name)"

text \<open>\<^verbatim>\<open>obj is not None and not obj.get("destroyed")\<close>\<close>

definition is_live :: "json option \<Rightarrow> exn + bool" where
  "is_live obj = (case obj of None \<Rightarrow> Inr False | Some v \<Rightarrow> ebind (is_destroyed v) (\<lambda>gone. Inr (\<not> gone)))"

definition fa_destroy_pgroup_snapshot :: "smapi_env \<Rightarrow> fa_client \<Rightarrow> string \<Rightarrow> bool \<Rightarrow> unit smapi_action" where
  "fa_destroy_pgroup_snapshot E C name eradicate =
     provided (name \<noteq> [])
       (bnd (tryc (fa_get_pgroup_snapshot E C name) (\<lambda>_. ret None)) (\<lambda>snap.
        bnd (lift_sum (is_live snap)) (\<lambda>live.
        andthen (provided live
          (best_effort (fa_change E C ''PATCH'' (pgroup_snapshot_path name) (Some [(''destroyed'', JBool True)]))))
        (provided eradicate (best_effort (fa_change E C ''DELETE'' (pgroup_snapshot_path name) None))))))"

definition fa_get_pgroup_snapshot_member :: "smapi_env \<Rightarrow> fa_client \<Rightarrow> string \<Rightarrow> json option smapi_action" where
  "fa_get_pgroup_snapshot_member E C name = first_or_absent E C (''volume-snapshots?names='' @ enc name)"

definition fa_destroy_pgroup :: "smapi_env \<Rightarrow> fa_client \<Rightarrow> string \<Rightarrow> unit smapi_action" where
  "fa_destroy_pgroup E C pg =
     provided (pg \<noteq> [])
       (andthen (best_effort (fa_change E C ''PATCH'' (pgroup_path pg) (Some [(''destroyed'', JBool True)])))
         (best_effort (fa_change E C ''DELETE'' (pgroup_path pg) None)))"

subsection \<open>Volumes\<close>

definition volume_path :: "string \<Rightarrow> string" where
  "volume_path name = ''volumes?names='' @ enc name"

definition connection_path :: "string \<Rightarrow> string \<Rightarrow> string" where
  "connection_path hostgroup name =
     ''connections?host_group_names='' @ enc hostgroup @ ''&volume_names='' @ enc name"

definition snapshot_path :: "string \<Rightarrow> string" where
  "snapshot_path name = ''volume-snapshots?names='' @ enc name"

definition tag_path :: "string \<Rightarrow> string \<Rightarrow> string" where
  "tag_path name key = ''volumes/tags?resource_names='' @ enc name @ ''&keys='' @ key"

definition fa_create_volume :: "smapi_env \<Rightarrow> fa_client \<Rightarrow> string \<Rightarrow> int \<Rightarrow> unit smapi_action" where
  "fa_create_volume E C name n = fa_change E C ''POST'' (volume_path name) (Some [(''provisioned'', JInt n)])"

definition fa_disconnect_volume :: "smapi_env \<Rightarrow> fa_client \<Rightarrow> string \<Rightarrow> string \<Rightarrow> unit smapi_action" where
  "fa_disconnect_volume E C name hostgroup =
     provided (hostgroup \<noteq> []) (best_effort (fa_change E C ''DELETE'' (connection_path hostgroup name) None))"

definition fa_volume :: "smapi_env \<Rightarrow> fa_client \<Rightarrow> string \<Rightarrow> json option smapi_action" where
  "fa_volume E C name = first_named E C (volume_path name)"

definition fa_destroy_volume :: "smapi_env \<Rightarrow> fa_client \<Rightarrow> string \<Rightarrow> string \<Rightarrow> bool \<Rightarrow> unit smapi_action" where
  "fa_destroy_volume E C name hostgroup eradicate =
     andthen (fa_disconnect_volume E C name hostgroup)
     (bnd (tryc (fa_volume E C name) (\<lambda>_. ret None)) (\<lambda>vol.
      bnd (lift_sum (is_live vol)) (\<lambda>live.
      andthen (provided live (fa_change E C ''PATCH'' (volume_path name) (Some [(''destroyed'', JBool True)])))
      (provided eradicate (best_effort (fa_change E C ''DELETE'' (volume_path name) None))))))"

definition fa_resize_volume :: "smapi_env \<Rightarrow> fa_client \<Rightarrow> string \<Rightarrow> int \<Rightarrow> unit smapi_action" where
  "fa_resize_volume E C name n = fa_change E C ''PATCH'' (volume_path name) (Some [(''provisioned'', JInt n)])"

definition fa_snapshot_volume :: "smapi_env \<Rightarrow> fa_client \<Rightarrow> string \<Rightarrow> string \<Rightarrow> json smapi_action" where
  "fa_snapshot_volume E C name suffix =
     fa_request E C ''POST'' (''volume-snapshots?source_names='' @ enc name @ ''&suffix='' @ enc suffix) None"

definition fa_get_snapshot :: "smapi_env \<Rightarrow> fa_client \<Rightarrow> string \<Rightarrow> json option smapi_action" where
  "fa_get_snapshot E C name = first_named E C (snapshot_path name)"

definition fa_list_snapshots :: "smapi_env \<Rightarrow> fa_client \<Rightarrow> string \<Rightarrow> json list smapi_action" where
  "fa_list_snapshots E C name_prefix = live_named E C (''volume-snapshots?'' @ name_filter (name_prefix @ ''*''))"

definition fa_destroy_snapshot :: "smapi_env \<Rightarrow> fa_client \<Rightarrow> string \<Rightarrow> bool \<Rightarrow> unit smapi_action" where
  "fa_destroy_snapshot E C name eradicate =
     bnd (tryc (fa_get_snapshot E C name) (\<lambda>_. ret None)) (\<lambda>snap.
     bnd (lift_sum (is_live snap)) (\<lambda>live.
     andthen (provided live (fa_change E C ''PATCH'' (snapshot_path name) (Some [(''destroyed'', JBool True)])))
     (provided eradicate (best_effort (fa_change E C ''DELETE'' (snapshot_path name) None)))))"

definition fa_copy_volume :: "smapi_env \<Rightarrow> fa_client \<Rightarrow> string \<Rightarrow> string \<Rightarrow> unit smapi_action" where
  "fa_copy_volume E C src dest =
     fa_change E C ''POST'' (volume_path dest) (Some [(''source'', JObj [(''name'', JStr src)])])"

definition fa_connect_volume :: "smapi_env \<Rightarrow> fa_client \<Rightarrow> string \<Rightarrow> string \<Rightarrow> unit smapi_action" where
  "fa_connect_volume E C name hostgroup = fa_change E C ''POST'' (connection_path hostgroup name) None"

definition fa_list_volumes :: "smapi_env \<Rightarrow> fa_client \<Rightarrow> string \<Rightarrow> json list smapi_action" where
  "fa_list_volumes E C name_prefix = live_named E C (''volumes?'' @ name_filter (name_prefix @ ''*''))"

definition fa_list_vgroup_volumes :: "smapi_env \<Rightarrow> fa_client \<Rightarrow> string \<Rightarrow> json list smapi_action" where
  "fa_list_vgroup_volumes E C vg = (if vg = [] then ret [] else live_or_none E C (members_of_path vg))"

definition fa_set_tag :: "smapi_env \<Rightarrow> fa_client \<Rightarrow> string \<Rightarrow> string \<Rightarrow> string \<Rightarrow> unit smapi_action" where
  "fa_set_tag E C name key v = fa_change E C ''PUT'' (tag_path name key) (Some [(''value'', JStr v)])"

definition fa_array_space :: "smapi_env \<Rightarrow> fa_client \<Rightarrow> json smapi_action" where
  "fa_array_space E C =
     bnd (first_named E C ''arrays/space'') (\<lambda>x. ret (case x of None \<Rightarrow> JObj [] | Some v \<Rightarrow> v))"

end
