(* ===== verification/Smapi_Volumes.thy ===== *)
theory Smapi_Volumes
  imports Smapi_Client Sha1
begin

text \<open>
  The volume plugin of XCP-ng, \<^verbatim>\<open>sr.py\<close> and \<^verbatim>\<open>volume.py\<close>: a storage repository (SR) whose virtual
  disks (VDIs) are volumes of the array. The toolstack knows a VDI by its key, which is the name of a
  volume in the SR's volume group, the name of a snapshot, or, for older volumes, the uuid alone.
  \<^verbatim>\<open>dbg\<close> is the toolstack's tag for log lines; \<^verbatim>\<open>uuid.uuid4()\<close> is the parameter \<open>fresh_uuid\<close>.
\<close>

section \<open>Keys and names\<close>

definition sr_id_of :: "sr_conf \<Rightarrow> string" where
  "sr_id_of conf = ''phif-'' @ take 8 (sha1_hex (sc_endpoint conf @ ''|'' @ sc_hostgroup conf))"

definition sr_prefix :: "string \<Rightarrow> string" where
  "sr_prefix sr_id = sr_id @ ''-''"

definition vgroup_name :: "string \<Rightarrow> string" where
  "vgroup_name sr_id = sr_id"

definition member_name :: "string \<Rightarrow> string \<Rightarrow> string" where
  "member_name sr_id vdi_uuid = vgroup_name sr_id @ ''/'' @ sr_prefix sr_id @ vdi_uuid"

definition pgroup_name :: "string \<Rightarrow> string" where
  "pgroup_name vg = (if vg \<noteq> [] then vg @ ''-pg'' else [])"

text \<open>\<^verbatim>\<open>key.rsplit("/", 1)[-1]\<close>, \<^verbatim>\<open>key.split("/", 1)[0]\<close> and \<^verbatim>\<open>[1]\<close>\<close>

definition last_segment :: "string \<Rightarrow> string" where
  "last_segment key = rev (takeWhile (\<lambda>c. c \<noteq> CHR ''/'') (rev key))"

definition first_segment :: "string \<Rightarrow> string" where
  "first_segment key = takeWhile (\<lambda>c. c \<noteq> CHR ''/'') key"

definition after_first_segment :: "string \<Rightarrow> string" where
  "after_first_segment key = drop 1 (dropWhile (\<lambda>c. c \<noteq> CHR ''/'') key)"

definition is_snapshot_key :: "string \<Rightarrow> bool" where
  "is_snapshot_key key \<longleftrightarrow> CHR ''.'' \<in> set (last_segment key)"

definition is_vgroup_key :: "string \<Rightarrow> bool" where
  "is_vgroup_key key \<longleftrightarrow> CHR ''/'' \<in> set key"

definition vgroup_of :: "string \<Rightarrow> string" where
  "vgroup_of key = (if is_vgroup_key key then first_segment key else [])"

definition obj_name :: "string \<Rightarrow> string \<Rightarrow> string" where
  "obj_name sr_id key = (if is_snapshot_key key \<or> is_vgroup_key key then key else sr_prefix sr_id @ key)"

section \<open>VDIs\<close>

record vdi =
  vd_key :: string
  vd_uuid :: string
  vd_name :: json
  vd_description :: json
  vd_read_write :: bool
  vd_virtual_size :: int
  vd_physical_utilisation :: int
  vd_uri :: "string list"
  vd_sharable :: bool

text \<open>\<^verbatim>\<open>obj.get(k, "")\<close>, a text.\<close>

definition text_of :: "json \<Rightarrow> string \<Rightarrow> exn + string" where
  "text_of obj k = ebind (get_of obj k (JStr [])) str_field"

definition size_of_item :: "json \<Rightarrow> exn + int" where
  "size_of_item obj = ebind (get_of obj ''provisioned'' (JInt 0)) py_int"

definition snap_to_vdi :: "json \<Rightarrow> exn + vdi" where
  "snap_to_vdi snap =
     ebind (text_of snap ''name'') (\<lambda>name.
     ebind (size_of_item snap) (\<lambda>n.
     Inr \<lparr>vd_key = name, vd_uuid = name, vd_name = JStr name, vd_description = JStr ''snapshot'',
          vd_read_write = False, vd_virtual_size = n, vd_physical_utilisation = 0, vd_uri = [],
          vd_sharable = False\<rparr>))"

definition without_prefix :: "string \<Rightarrow> string \<Rightarrow> string" where
  "without_prefix sr_id s = (if starts_with (sr_prefix sr_id) s then drop (length (sr_prefix sr_id)) s else s)"

text \<open>The key and the uuid of a volume.\<close>

definition vdi_identity :: "string \<Rightarrow> string \<Rightarrow> string \<times> string" where
  "vdi_identity sr_id name =
     (if is_vgroup_key name then (name, without_prefix sr_id (after_first_segment name))
      else let u = without_prefix sr_id name in (u, u))"

definition vol_to_vdi :: "string \<Rightarrow> json \<Rightarrow> string \<Rightarrow> exn + vdi" where
  "vol_to_vdi sr_id vol protocol =
     ebind (text_of vol ''name'') (\<lambda>name.
     case vdi_identity sr_id name of (key, uuid) \<Rightarrow>
     ebind (text_of vol ''serial'') (\<lambda>sn.
     ebind (get_of vol ''tags'' JNull) (\<lambda>t.
     let tags = (if truthy t then t else JObj []) in
     ebind (get_of tags ''vdi_name'' (JStr uuid)) (\<lambda>name.
     ebind (get_of tags ''vdi_desc'' (JStr [])) (\<lambda>desc.
     ebind (size_of_item vol) (\<lambda>n.
     Inr \<lparr>vd_key = key, vd_uuid = uuid, vd_name = name, vd_description = desc, vd_read_write = True,
          vd_virtual_size = n, vd_physical_utilisation = n,
          vd_uri = (if sn \<noteq> [] then [''purefa://'' @ device_path sn protocol] else []),
          vd_sharable = False\<rparr>))))))"

section \<open>The storage repository\<close>

definition client_of :: "sr_conf \<Rightarrow> nat \<Rightarrow> fa_client smapi_action" where
  "client_of conf timeout = flash_array (sc_endpoint conf) (sc_token conf) timeout"

definition sr_probe :: "smapi_env \<Rightarrow> (string \<times> string) list \<Rightarrow> unit smapi_action" where
  "sr_probe E configuration =
     bnd (client_of (normalize_config configuration) 10) (\<lambda>C.
     andthen (fa_array_space E C) (ret ()))"

definition sr_create :: "smapi_env \<Rightarrow> (string \<times> string) list \<Rightarrow> (string \<times> string) list smapi_action" where
  "sr_create E configuration =
     (let conf = normalize_config configuration in
      bnd (client_of conf 15) (\<lambda>C.
      andthen (fa_array_space E C)
      (andthen (save_sr_state (sr_id_of conf) conf) (ret configuration))))"

definition sr_attach :: "(string \<times> string) list \<Rightarrow> string smapi_action" where
  "sr_attach configuration =
     (let conf = normalize_config configuration; sr_id = sr_id_of conf in
      andthen (save_sr_state sr_id conf) (ret sr_id))"

definition sr_destroy :: "string \<Rightarrow> unit smapi_action" where
  "sr_destroy sr = modify (\<lambda>s. s\<lparr>sm_files := AList.delete (sr_state_path sr) (sm_files s)\<rparr>)"

record sr_stat_result =
  ss_sr :: string
  ss_description :: string
  ss_total_space :: int
  ss_free_space :: int

definition free_space :: "json \<Rightarrow> exn + int \<times> int" where
  "free_space space =
     ebind (ebind (get_of space ''capacity'' (JInt 0)) py_int) (\<lambda>total.
     ebind (get_of space ''space'' JNull) (\<lambda>x.
     ebind (ebind (get_of (if truthy x then x else JObj []) ''total_physical'' (JInt 0)) py_int) (\<lambda>used.
     Inr (total, max (total - used) 0))))"

definition sr_stat :: "smapi_env \<Rightarrow> string \<Rightarrow> sr_stat_result smapi_action" where
  "sr_stat E sr =
     bnd (load_sr_state sr) (\<lambda>conf.
     bnd (client_of conf 10) (\<lambda>C.
     bnd (fa_array_space E C) (\<lambda>space.
     bnd (lift_sum (free_space space)) (\<lambda>(total, free).
     ret \<lparr>ss_sr = sr, ss_description = ''Per-VDI FlashArray volumes (host group '' @ sc_hostgroup conf @ '')'',
          ss_total_space = total, ss_free_space = free\<rparr>))))"

definition volume_vdis :: "smapi_env \<Rightarrow> string \<Rightarrow> sr_conf \<Rightarrow> json list smapi_action \<Rightarrow> vdi list smapi_action" where
  "volume_vdis E sr conf listing =
     bnd listing (\<lambda>vols. lift_sum (emap (\<lambda>v. vol_to_vdi sr v (sc_protocol conf)) vols))"

definition snapshot_vdis :: "smapi_env \<Rightarrow> fa_client \<Rightarrow> string \<Rightarrow> vdi list smapi_action" where
  "snapshot_vdis E C name_prefix =
     bnd (fa_list_snapshots E C name_prefix) (\<lambda>snaps. lift_sum (emap snap_to_vdi snaps))"

text \<open>An enumeration that may fail: what was found before the failure is kept.\<close>

definition logged_failure :: "string \<Rightarrow> string \<Rightarrow> 'a \<Rightarrow> exn \<Rightarrow> 'a smapi_action" where
  "logged_failure dbg what found e =
     andthen (log_event (Debug (dbg @ '': '' @ what @ '' failed: '' @ exn_text e))) (ret found)"

definition sr_ls :: "smapi_env \<Rightarrow> string \<Rightarrow> string \<Rightarrow> vdi list smapi_action" where
  "sr_ls E dbg sr =
     bnd (load_sr_state sr) (\<lambda>conf.
     bnd (client_of conf 30) (\<lambda>C.
     bnd (volume_vdis E sr conf (fa_list_volumes E C (sr_prefix sr))) (\<lambda>own.
     bnd (tryc (volume_vdis E sr conf (fa_list_vgroup_volumes E C (vgroup_name sr)))
            (logged_failure dbg ''vgroup-member enumeration'' [])) (\<lambda>grouped.
     bnd (tryc (bnd (snapshot_vdis E C (sr_prefix sr)) (\<lambda>a.
              tryc (bnd (snapshot_vdis E C (vgroup_name sr @ ''/'')) (\<lambda>b. ret (a @ b)))
                (logged_failure dbg ''snapshot enumeration'' a)))
            (logged_failure dbg ''snapshot enumeration'' [])) (\<lambda>snaps.
     ret (own @ grouped @ snaps))))))"

section \<open>The volumes\<close>

definition in_sr :: "string \<Rightarrow> (sr_conf \<Rightarrow> fa_client \<Rightarrow> 'a smapi_action) \<Rightarrow> 'a smapi_action" where
  "in_sr sr f = bnd (load_sr_state sr) (\<lambda>conf. bnd (client_of conf 30) (f conf))"

definition connect_if_grouped :: "smapi_env \<Rightarrow> sr_conf \<Rightarrow> fa_client \<Rightarrow> string \<Rightarrow> unit smapi_action" where
  "connect_if_grouped E conf C volname =
     provided (sc_hostgroup conf \<noteq> []) (fa_connect_volume E C volname (sc_hostgroup conf))"

text \<open>The VDI of a volume read back; a volume that is not there has no \<^verbatim>\<open>get\<close>.\<close>

definition vdi_read_back :: "smapi_env \<Rightarrow> sr_conf \<Rightarrow> fa_client \<Rightarrow> string \<Rightarrow> string \<Rightarrow> vdi smapi_action" where
  "vdi_read_back E conf C sr volname =
     bnd (fa_volume E C volname) (\<lambda>vol.
     lift_sum (vol_to_vdi sr (case vol of None \<Rightarrow> JNull | Some v \<Rightarrow> v) (sc_protocol conf)))"

definition vdi_create :: "smapi_env \<Rightarrow> string \<Rightarrow> string \<Rightarrow> string \<Rightarrow> string \<Rightarrow> int \<Rightarrow> vdi smapi_action" where
  "vdi_create E dbg sr name description n =
     in_sr sr (\<lambda>conf C.
     bnd (gets (\<lambda>s. fresh_uuid E (sm_trace s))) (\<lambda>vdi_uuid.
     let volname = member_name sr vdi_uuid in
     andthen (fa_create_vgroup E C (vgroup_name sr))
     (andthen (fa_create_volume E C volname n)
     (andthen (connect_if_grouped E conf C volname)
     (andthen (tryc (andthen (fa_set_tag E C volname ''vdi_name'' (if name \<noteq> [] then name else vdi_uuid))
                             (fa_set_tag E C volname ''vdi_desc'' description))
                    (logged_failure dbg ''tag set'' ()))
     (vdi_read_back E conf C sr volname))))))"

definition serial_before_destroy :: "smapi_env \<Rightarrow> fa_client \<Rightarrow> string \<Rightarrow> string \<Rightarrow> string smapi_action" where
  "serial_before_destroy E C dbg volname =
     tryc (bnd (fa_volume E C volname) (\<lambda>vol.
             lift_sum (text_of (case vol of Some v \<Rightarrow> if truthy v then v else JObj [] | None \<Rightarrow> JObj []) ''serial'')))
       (logged_failure dbg ''pre-destroy serial lookup'' [])"

definition teardown_groups :: "smapi_env \<Rightarrow> fa_client \<Rightarrow> string \<Rightarrow> string \<Rightarrow> unit smapi_action" where
  "teardown_groups E C dbg vg =
     provided (vg \<noteq> [])
       (andthen (tryc (fa_destroy_vgroup E C vg) (logged_failure dbg ''vgroup teardown'' ()))
         (bnd (fa_vgroup_member_count E C vg) (\<lambda>n.
          provided (n = 0)
            (tryc (fa_destroy_pgroup E C (pgroup_name vg)) (logged_failure dbg ''pgroup teardown'' ())))))"

definition vdi_destroy :: "smapi_env \<Rightarrow> string \<Rightarrow> string \<Rightarrow> string \<Rightarrow> unit smapi_action" where
  "vdi_destroy E dbg sr key =
     in_sr sr (\<lambda>conf C.
     if is_snapshot_key key then fa_destroy_snapshot E C key (sc_eradicate conf)
     else
       let volname = obj_name sr key in
       bnd (serial_before_destroy E C dbg volname) (\<lambda>sn.
       andthen (fa_destroy_volume E C volname (sc_hostgroup conf) (sc_eradicate conf))
       (andthen (teardown_groups E C dbg (vgroup_of key))
       (provided (sn \<noteq> [] \<and> sc_protocol conf \<noteq> ''nvme-tcp'')
          (flush_multipath_poolwide E (device_wwid sn))))))"

definition does_not_exist :: "string \<Rightarrow> exn" where
  "does_not_exist key = Exn ''Volume_does_not_exist'' key"

text \<open>\<^verbatim>\<open>if not obj\<close>\<close>

definition present :: "json option \<Rightarrow> json option" where
  "present obj = (case obj of Some v \<Rightarrow> if truthy v then Some v else None | None \<Rightarrow> None)"

definition vdi_stat :: "smapi_env \<Rightarrow> string \<Rightarrow> string \<Rightarrow> vdi smapi_action" where
  "vdi_stat E sr key =
     in_sr sr (\<lambda>conf C.
     if is_snapshot_key key then
       bnd (fa_get_snapshot E C key) (\<lambda>snap.
       case present snap of None \<Rightarrow> raise (does_not_exist key) | Some v \<Rightarrow> lift_sum (snap_to_vdi v))
     else
       bnd (fa_volume E C (obj_name sr key)) (\<lambda>vol.
       case present vol of None \<Rightarrow> raise (does_not_exist key)
       | Some v \<Rightarrow> lift_sum (vol_to_vdi sr v (sc_protocol conf))))"

text \<open>\<^verbatim>\<open>"s" + uuid.uuid4().hex[:10]\<close>\<close>

definition snapshot_suffix :: "string \<Rightarrow> string" where
  "snapshot_suffix u = CHR ''s'' # take 10 (filter (\<lambda>c. c \<noteq> CHR ''-'') u)"

definition snapshot_name :: "json \<Rightarrow> string \<Rightarrow> exn + string" where
  "snapshot_name resp dflt =
     ebind (items_of (if truthy resp then resp else JObj [])) (\<lambda>items.
     ebind (get_of (case items of [] \<Rightarrow> JObj [] | x # _ \<Rightarrow> x) ''name'' JNull) (\<lambda>name.
     if truthy name then str_field name else Inr dflt))"

definition vdi_snapshot :: "smapi_env \<Rightarrow> string \<Rightarrow> string \<Rightarrow> vdi smapi_action" where
  "vdi_snapshot E sr key =
     in_sr sr (\<lambda>conf C.
     bnd (gets (\<lambda>s. snapshot_suffix (fresh_uuid E (sm_trace s)))) (\<lambda>suffix.
     let src = obj_name sr key in
     bnd (fa_snapshot_volume E C src suffix) (\<lambda>resp.
     bnd (lift_sum (snapshot_name resp (src @ ''.'' @ suffix))) (\<lambda>snap_name.
     bnd (fa_get_snapshot E C snap_name) (\<lambda>snap.
     lift_sum (snap_to_vdi (case present snap of Some v \<Rightarrow> v
       | None \<Rightarrow> JObj [(''name'', JStr snap_name), (''provisioned'', JInt 0)])))))))"

definition vdi_clone :: "smapi_env \<Rightarrow> string \<Rightarrow> string \<Rightarrow> vdi smapi_action" where
  "vdi_clone E sr key =
     in_sr sr (\<lambda>conf C.
     andthen (fa_create_vgroup E C (vgroup_name sr))
     (bnd (gets (\<lambda>s. member_name sr (fresh_uuid E (sm_trace s)))) (\<lambda>dest.
      andthen (fa_copy_volume E C (obj_name sr key) dest)
      (andthen (connect_if_grouped E conf C dest)
      (vdi_read_back E conf C sr dest)))))"

definition vdi_resize :: "smapi_env \<Rightarrow> string \<Rightarrow> string \<Rightarrow> int \<Rightarrow> unit smapi_action" where
  "vdi_resize E sr key n = in_sr sr (\<lambda>conf C. fa_resize_volume E C (obj_name sr key) n)"

definition set_text :: "smapi_env \<Rightarrow> string \<Rightarrow> string \<Rightarrow> string \<Rightarrow> string \<Rightarrow> unit smapi_action" where
  "set_text E sr key tag v =
     bnd (load_sr_state sr) (\<lambda>conf.
     best_effort (bnd (client_of conf 30) (\<lambda>C. fa_set_tag E C (obj_name sr key) tag v)))"

definition vdi_set_name :: "smapi_env \<Rightarrow> string \<Rightarrow> string \<Rightarrow> string \<Rightarrow> unit smapi_action" where
  "vdi_set_name E sr key new_name = set_text E sr key ''vdi_name'' new_name"

definition vdi_set_description :: "smapi_env \<Rightarrow> string \<Rightarrow> string \<Rightarrow> string \<Rightarrow> unit smapi_action" where
  "vdi_set_description E sr key new_description = set_text E sr key ''vdi_desc'' new_description"

end
