(* ===== verification/Smapi_Calls.thy ===== *)
theory Smapi_Calls
  imports Smapi_Volumes "HOL-Library.Sublist"
begin

text \<open>
  Which requests the XCP-ng volume plugin sends, and in which order. The locale \<open>trace_rule\<close> is the
  contract of an invariant of the trace that sessions, reads and everything that is no request keep: the
  plugin's reading operations keep it as well, and a change keeps it where it is allowed. It is used for
  what an operation may change on the array (\<open>only\<close>) and for traces that only grow (\<open>grown\<close>).
\<close>

text \<open>A change of an object: its method, path and body.\<close>

type_synonym change = "string \<times> string \<times> json option"

definition change_of :: "rest_request \<Rightarrow> change option" where
  "change_of q = (case rr_target q of
     Object v p \<Rightarrow> if rr_method q = ''GET'' then None else Some (rr_method q, p, rr_body q)
   | _ \<Rightarrow> None)"

definition permits :: "(rest_request \<Rightarrow> bool) \<Rightarrow> change \<Rightarrow> bool" where
  "permits allowed c \<longleftrightarrow> (\<forall>q. change_of q = Some c \<longrightarrow> allowed q)"

lemma keeps_best_effort [keeps_intro]: "keeps P m \<Longrightarrow> keeps P (best_effort m)"
  unfolding best_effort_def by (intro keeps_intro)

lemma keeps_load [keeps_intro]: "keeps P (load_sr_state sr)"
  unfolding load_sr_state_def by (intro keeps_intro)

section \<open>The rule\<close>

locale trace_rule =
  fixes I :: "smapi_event list \<Rightarrow> bool" and allowed :: "rest_request \<Rightarrow> bool"
  assumes sent: "I t \<Longrightarrow> allowed q \<Longrightarrow> I (t @ [Rest q a])"
    and noted: "I t \<Longrightarrow> (\<And>q a. e \<noteq> Rest q a) \<Longrightarrow> I (t @ [e])"
    and no_change: "change_of q = None \<Longrightarrow> allowed q"
begin

abbreviation obeys :: "'a smapi_action \<Rightarrow> bool" where
  "obeys m \<equiv> keeps (\<lambda>s. I (sm_trace s)) m"

lemma exchange: "allowed q \<Longrightarrow> obeys (exchange E q)"
  by (auto simp: keeps_def final_def exchange_def Let_def intro: sent)

lemma event: "(\<And>q a. e \<noteq> Rest q a) \<Longrightarrow> obeys (log_event e)"
  by (auto simp: keeps_def final_def log_event_def modify_def intro: noted)

lemma command: "obeys (run_command E args)"
  by (auto simp: keeps_def final_def run_command_def intro: noted)

lemma fields:
  "obeys (set_auth x)" "obeys (set_version v)" "obeys (save_sr_state sr conf)"
  "obeys (flash_array ep tok n)" "obeys (sr_destroy sr)"
  by (auto simp: set_auth_def set_version_def save_sr_state_def flash_array_def sr_destroy_def
      intro!: keeps_intro keeps_modify)

lemma logged: "obeys (logged_failure dbg what x e)"
  unfolding logged_failure_def by (intro keeps_intro event) simp

lemma flushing: "obeys (flush_multipath_poolwide E w)"
  unfolding flush_multipath_poolwide_def flush_on_host_def by (intro keeps_intro command)

lemmas silent = keeps_intro command fields logged flushing

lemma http: "change_of \<lparr>rr_endpoint = fc_endpoint C, rr_method = m, rr_target = t, rr_body = b,
    rr_headers = (''Content-Type'', ''application/json'') # hs, rr_timeout = fc_timeout C\<rparr> = None \<Longrightarrow>
    obeys (http E C m t b hs)"
  unfolding http_def by (intro silent exchange no_change)

lemma version: "obeys (api_version E C)"
  unfolding api_version_def by (intro silent http) (simp add: change_of_def)

lemma session: "obeys (login E C)"
  unfolding login_def by (intro silent version http) (simp add: change_of_def)

lemma attempts: "obeys (read_attempts E C path body (Object v p) n i e)"
proof (induction n arbitrary: v p i e)
  case (Suc n)
  have "obeys (send E C ''GET'' (Object v p) body)"
    unfolding send_def by (intro keeps_intro http) (simp add: change_of_def)
  then show ?case
    unfolding read_attempts.simps by (intro silent event session version Suc.IH) simp_all
qed (simp add: keeps_raise)

lemma request: "method = ''GET'' \<or> permits allowed (method, path, body) \<Longrightarrow> obeys (fa_request E C method path body)"
  unfolding fa_request_def send_def http_def
  by (intro silent session version attempts exchange)
     (auto simp: permits_def change_of_def)

lemma change: "permits allowed (method, path, map_option JObj body) \<Longrightarrow> obeys (fa_change E C method path body)"
  unfolding fa_change_def by (intro keeps_intro request) simp

lemma reading: "obeys (first_named E C path)" "obeys (first_or_absent E C path)" "obeys (live_named E C path)"
  "obeys (live_or_none E C path)"
  unfolding first_named_def first_or_absent_def live_named_def live_or_none_def by (intro keeps_intro request; simp)+

lemma queries:
  "obeys (fa_volume E C name)" "obeys (fa_get_snapshot E C name)" "obeys (fa_list_volumes E C p)"
  "obeys (fa_list_snapshots E C p)" "obeys (fa_vgroup E C vg)" "obeys (fa_get_pgroup_snapshot E C name)"
  "obeys (fa_list_vgroup_volumes E C vg)" "obeys (fa_vgroup_member_count E C vg)" "obeys (fa_array_space E C)"
  unfolding fa_volume_def fa_get_snapshot_def fa_list_volumes_def fa_list_snapshots_def fa_vgroup_def
    fa_get_pgroup_snapshot_def fa_list_vgroup_volumes_def fa_vgroup_member_count_def fa_array_space_def
  by (intro keeps_intro reading)+

lemmas basic = silent queries

lemma client: "obeys (client_of conf n)"
  unfolding client_of_def by (intro basic)

lemma repository:
  "obeys (sr_probe E cfg)" "obeys (sr_create E cfg)" "obeys (sr_attach cfg)" "obeys (sr_stat E sr)"
  "obeys (sr_ls E dbg sr)" "obeys (vdi_stat E sr key)"
  unfolding sr_probe_def sr_create_def sr_attach_def sr_stat_def sr_ls_def volume_vdis_def snapshot_vdis_def
    vdi_stat_def in_sr_def Let_def
  by (intro basic client; simp)+

end

section \<open>Traces that grow\<close>

interpretation grown: trace_rule "prefix t" "\<lambda>q. True" for t
  by unfold_locales (auto simp: prefix_def)

text \<open>A change that returned was sent and answered, as the last event.\<close>

lemma changed:
  assumes "fa_change E C m p b s = (Inr x, t)" and "m \<noteq> ''GET''"
  shows "\<exists>u q a. sm_trace t = sm_trace s @ u @ [Rest q (Inr a)] \<and> change_of q = Some (m, p, map_option JObj b)"
proof -
  obtain s1 s2 v y where l: "login E C s = (Inr (), s1)" and v: "api_version E C s1 = (Inr v, s2)"
    and sn: "send E C m (Object v p) (map_option JObj b) s2 = (Inr y, t)"
    using assms by (auto simp: fa_change_def fa_request_def andthen_def run_ret elim!: bnd_eq_InrE)
  have "prefix (sm_trace s) (sm_trace s1)"
    using keeps_runD [OF grown.session [of "sm_trace s"] _ l] by simp
  moreover have "prefix (sm_trace s1) (sm_trace s2)"
    using keeps_runD [OF grown.version [of "sm_trace s1"] _ v] by simp
  moreover obtain q a where "sm_trace t = sm_trace s2 @ [Rest q (Inr a)]" "change_of q = Some (m, p, map_option JObj b)"
    using sn assms(2)
    by (auto simp: send_def http_def andthen_def exchange_def Let_def set_auth_def change_of_def provided_def
        lift_sum_def run_gets run_modify run_ret run_raise split: if_splits sum.splits elim!: bnd_eq_InrE)
  ultimately show ?thesis by (auto simp: prefix_def)
qed

section \<open>What an operation may change\<close>

definition all_sent :: "(rest_request \<Rightarrow> bool) \<Rightarrow> smapi_event list \<Rightarrow> bool" where
  "all_sent P t \<longleftrightarrow> (\<forall>q a. Rest q a \<in> set t \<longrightarrow> P q)"

lemma all_sent_Nil [simp]: "all_sent P []"
  by (simp add: all_sent_def)

lemma all_sentD: "all_sent P t \<Longrightarrow> Rest q a \<in> set t \<Longrightarrow> P q"
  unfolding all_sent_def by blast

text \<open>The rule that allows, beside sessions and reads, the changes of a list.\<close>

definition only :: "change list \<Rightarrow> rest_request \<Rightarrow> bool" where
  "only cs q \<longleftrightarrow> (case change_of q of None \<Rightarrow> True | Some c \<Rightarrow> c \<in> set cs)"

interpretation only: trace_rule "all_sent (only cs)" "only cs" for cs
  by unfold_locales (auto simp: all_sent_def only_def)

lemma permits_only: "c \<in> set cs \<Longrightarrow> permits (only cs) c"
  by (simp add: permits_def only_def)

abbreviation changes_only :: "change list \<Rightarrow> 'a smapi_action \<Rightarrow> bool" where
  "changes_only cs m \<equiv> keeps (\<lambda>s. all_sent (only cs) (sm_trace s)) m"

section \<open>What a VDI's destruction may change\<close>

definition body_destroyed :: "json option" where
  "body_destroyed = Some (JObj [(''destroyed'', JBool True)])"

text \<open>Destroying an object at a path, and eradicating it where that is asked for.\<close>

definition removal :: "string \<Rightarrow> bool \<Rightarrow> change list" where
  "removal path eradicate =
     (''PATCH'', path, body_destroyed) # (if eradicate then [(''DELETE'', path, None)] else [])"

definition destroy_changes :: "sr_conf \<Rightarrow> string \<Rightarrow> string \<Rightarrow> change list" where
  "destroy_changes conf sr key =
     (if is_snapshot_key key then removal (snapshot_path key) (sc_eradicate conf)
      else
        (if sc_hostgroup conf \<noteq> []
         then [(''DELETE'', connection_path (sc_hostgroup conf) (obj_name sr key), None)] else [])
        @ removal (volume_path (obj_name sr key)) (sc_eradicate conf)
        @ (if vgroup_of key \<noteq> []
           then removal (group_path (vgroup_of key)) True @ removal (pgroup_path (pgroup_name (vgroup_of key))) True
           else []))"

lemma removing_object:
  assumes "set (removal path era) \<subseteq> set cs"
  shows "changes_only cs (fa_change E C ''PATCH'' path (Some [(''destroyed'', JBool True)]))"
    and "era \<Longrightarrow> changes_only cs (fa_change E C ''DELETE'' path None)"
  using assms by (auto simp: removal_def body_destroyed_def intro!: only.change permits_only split: if_splits)

lemma destroying_snapshot:
  "set (removal (snapshot_path name) era) \<subseteq> set cs \<Longrightarrow> changes_only cs (fa_destroy_snapshot E C name era)"
  unfolding fa_destroy_snapshot_def by (intro only.basic removing_object; assumption)

lemma destroying_volume:
  assumes "set (removal (volume_path name) era) \<subseteq> set cs"
    and "hg \<noteq> [] \<Longrightarrow> (''DELETE'', connection_path hg name, None) \<in> set cs"
  shows "changes_only cs (fa_destroy_volume E C name hg era)"
  unfolding fa_destroy_volume_def fa_disconnect_volume_def
  by (intro only.basic removing_object [OF assms(1)] only.change permits_only) (simp_all add: assms(2))

lemma destroying_groups:
  assumes "vg \<noteq> [] \<Longrightarrow> set (removal (group_path vg) True) \<subseteq> set cs"
    and "vg \<noteq> [] \<Longrightarrow> set (removal (pgroup_path (pgroup_name vg)) True) \<subseteq> set cs"
  shows "changes_only cs (teardown_groups E C dbg vg)"
  unfolding teardown_groups_def fa_destroy_vgroup_def fa_destroy_pgroup_def
  by (intro only.basic removing_object [OF assms(1)] removing_object [OF assms(2)]) simp_all

lemma in_sr_at:
  "map_of (sm_files s) (sr_state_path sr) = Some conf \<Longrightarrow> in_sr sr f s = bnd (client_of conf 30) (f conf) s"
  by (simp add: in_sr_def load_sr_state_def run_bnd run_gets run_ret)

lemma vdi_destroy_changes:
  assumes "map_of (sm_files s) (sr_state_path sr) = Some conf" and "sm_trace s = []"
  shows "all_sent (only (destroy_changes conf sr key)) (sm_trace (final (vdi_destroy E dbg sr key) s))"
proof -
  let ?cs = "destroy_changes conf sr key"
  have "changes_only ?cs (bnd (client_of conf 30) (\<lambda>C.
      if is_snapshot_key key then fa_destroy_snapshot E C key (sc_eradicate conf)
      else let volname = obj_name sr key in
        bnd (serial_before_destroy E C dbg volname) (\<lambda>sn.
        andthen (fa_destroy_volume E C volname (sc_hostgroup conf) (sc_eradicate conf))
        (andthen (teardown_groups E C dbg (vgroup_of key))
        (provided (sn \<noteq> [] \<and> sc_protocol conf \<noteq> ''nvme-tcp'')
          (flush_multipath_poolwide E (device_wwid sn)))))))"
    unfolding serial_before_destroy_def Let_def
    by (intro only.basic only.client destroying_snapshot destroying_volume destroying_groups)
       (auto simp: destroy_changes_def removal_def)
  from keepsD [OF this, of s] show ?thesis
    using assms by (simp add: vdi_destroy_def final_def in_sr_at)
qed

end
