(* ===== verification/Smapi_Datapath.thy ===== *)
theory Smapi_Datapath
  imports Smapi_Volumes
begin

text \<open>
  The datapath plugin of XCP-ng, \<^verbatim>\<open>datapath/purefa/datapath.py\<close>: it turns the URI of a VDI into the
  multipath device of its volume, serves that device with a tapdisk, and takes both down again. What it
  does on the host (commands, the file system, pauses) is a call outside that the parameter \<open>E\<close> answers
  as an arbitrary function of the call and of the calls before it; the state is the trace of the calls
  with their answers.
\<close>

section \<open>The host\<close>

datatype host_call =
    Run "string list"
  | Exists string | IsDir string | IsLink string
  | MakeDirs string | Remove string | Symlink string string
  | ListDir string
  | WriteFile string string
  | Pause_for rat

datatype host_answer =
    Failed exn
  | Ran int string
  | Flag bool
  | Names "string list"
  | Done

type_synonym host_trace = "(host_call \<times> host_answer) list"
type_synonym host_env = "host_trace \<Rightarrow> host_call \<Rightarrow> host_answer"
type_synonym 'a host_action = "(host_trace, 'a) action"

definition host_do :: "host_env \<Rightarrow> host_call \<Rightarrow> host_answer host_action" where
  "host_do E c = (\<lambda>t. let a = E t c in
     (case a of Failed e \<Rightarrow> Inl e | _ \<Rightarrow> Inr a, t @ [(c, a)]))"

text \<open>Reading an answer; a command answers with its status and output, a test with a flag, and so on.\<close>

definition out_of :: "host_answer \<Rightarrow> string" where
  "out_of a = (case a of Ran rc out \<Rightarrow> out | _ \<Rightarrow> [])"

definition flag_of :: "host_answer \<Rightarrow> bool" where
  "flag_of a = (case a of Flag b \<Rightarrow> b | _ \<Rightarrow> False)"

definition names_answer :: "host_answer \<Rightarrow> string list" where
  "names_answer a = (case a of Names xs \<Rightarrow> xs | _ \<Rightarrow> [])"

definition run_args :: "host_env \<Rightarrow> string list \<Rightarrow> string host_action" where
  "run_args E args = bnd (host_do E (Run args)) (\<lambda>a. ret (out_of a))"

definition run_quietly :: "host_env \<Rightarrow> string \<Rightarrow> unit host_action" where
  "run_quietly E c = andthen (run_args E [''sh'', ''-c'', c @ '' >/dev/null 2>&1 || true'']) (ret ())"

text \<open>A test of the file system and a pause do not raise.\<close>

definition ask :: "host_env \<Rightarrow> host_call \<Rightarrow> bool host_action" where
  "ask E c = (\<lambda>t. (Inr (flag_of (E t c)), t @ [(c, E t c)]))"

definition pause :: "host_env \<Rightarrow> rat \<Rightarrow> unit host_action" where
  "pause E n = andthen (ask E (Pause_for n)) (ret ())"

definition do_file :: "host_env \<Rightarrow> host_call \<Rightarrow> unit host_action" where
  "do_file E c = andthen (host_do E c) (ret ())"

text \<open>\<^verbatim>\<open>except OSError\<close>: the class and its subclasses.\<close>

definition is_os_error :: "exn \<Rightarrow> bool" where
  "is_os_error e \<longleftrightarrow> exn_class e \<in> {''OSError'', ''BlockingIOError'', ''ChildProcessError'', ''ConnectionError'',
     ''BrokenPipeError'', ''ConnectionAbortedError'', ''ConnectionRefusedError'', ''ConnectionResetError'',
     ''FileExistsError'', ''FileNotFoundError'', ''InterruptedError'', ''IsADirectoryError'', ''NotADirectoryError'',
     ''PermissionError'', ''ProcessLookupError'', ''TimeoutError''}"

definition try_os :: "'a host_action \<Rightarrow> (exn \<Rightarrow> 'a host_action) \<Rightarrow> 'a host_action" where
  "try_os m h = tryc m (\<lambda>e. if is_os_error e then h e else raise e)"

section \<open>Names\<close>

definition BLKTAP_BASE :: string where "BLKTAP_BASE = ''/dev/xen/blktap-2''"
definition BACKEND_DIR :: string where "BACKEND_DIR = ''/dev/sm/backend/purefa''"

text \<open>\<^verbatim>\<open>urlparse(uri).path\<close> of a URI of the scheme \<^verbatim>\<open>purefa\<close>; the toolstack sends no other here.\<close>

definition device_of :: "string \<Rightarrow> string" where
  "device_of uri =
     (let rest = (if starts_with ''purefa:'' uri then drop 7 uri else uri);
          rest = (if starts_with ''//'' rest then dropWhile (\<lambda>c. c \<notin> set ''/?#'') (drop 2 rest) else rest) in
      takeWhile (\<lambda>c. c \<notin> set ''?#'') rest)"

definition base_name :: "string \<Rightarrow> string" where
  "base_name dev = last_segment dev"

section \<open>The device\<close>

definition reassemble :: "host_env \<Rightarrow> unit host_action" where
  "reassemble E = run_quietly E ''multipath -r''"

fun await_device :: "host_env \<Rightarrow> string \<Rightarrow> nat \<Rightarrow> bool host_action" where
  "await_device E dev 0 = ask E (Exists dev)"
| "await_device E dev (Suc n) =
     bnd (ask E (Exists dev)) (\<lambda>there.
     if there then ret True
     else andthen (pause E (1 / 2)) (andthen (reassemble E) (await_device E dev n)))"

definition ensure_device :: "host_env \<Rightarrow> string \<Rightarrow> bool host_action" where
  "ensure_device E dev =
     bnd (ask E (Exists dev)) (\<lambda>there.
     if there then ret True
     else andthen (steps [run_quietly E ''iscsiadm -m session --rescan'', run_quietly E ''nvme connect-all'', reassemble E])
       (await_device E dev 30))"


section \<open>The tapdisk\<close>

text \<open>\<^verbatim>\<open>tok.split("=", 1)[1]\<close> of the last token with the prefix.\<close>

definition last_value :: "string \<Rightarrow> string \<Rightarrow> string option" where
  "last_value p line = (case rev (filter (starts_with p) (split_ws line)) of
     [] \<Rightarrow> None | tok # _ \<Rightarrow> Some (drop (length p) tok))"

definition serves :: "string \<Rightarrow> string \<Rightarrow> bool" where
  "serves dev line \<longleftrightarrow> contains (''aio:'' @ dev) (last (split_on ''args='' line))"

text \<open>
  The loop over the tokens takes \<^verbatim>\<open>minor=\<close> only of a token that is no \<^verbatim>\<open>pid=\<close>; no token has both prefixes.
\<close>

definition parse_tap_list :: "string \<Rightarrow> string \<Rightarrow> string option \<times> string option" where
  "parse_tap_list dev out = (case find (serves dev) (splitlines out) of
     None \<Rightarrow> (None, None)
   | Some line \<Rightarrow> (last_value ''pid='' line, last_value ''minor='' line))"

definition tap_info_for :: "host_env \<Rightarrow> string \<Rightarrow> (string option \<times> string option) host_action" where
  "tap_info_for E dev =
     bnd (run_args E [''tap-ctl'', ''list'']) (\<lambda>out. ret (parse_tap_list dev out))"

definition tap_create :: "host_env \<Rightarrow> string \<Rightarrow> string option host_action" where
  "tap_create E dev =
     bnd (tap_info_for E dev) (\<lambda>(_, minor).
     if minor \<noteq> None then ret minor
     else andthen (run_args E [''tap-ctl'', ''create'', ''-a'', ''aio:'' @ dev])
       (bnd (tap_info_for E dev) (\<lambda>(_, minor). ret minor)))"

section \<open>Taking a device down\<close>

definition remove_path :: "host_env \<Rightarrow> string \<Rightarrow> string \<Rightarrow> unit host_action" where
  "remove_path E w blk =
     provided (starts_with ''sd'' blk)
       (bnd (run_args E [''/lib/udev/scsi_id'', ''-g'', ''-u'', ''-d'', ''/dev/'' @ blk]) (\<lambda>out.
        provided (strip out = w)
          (try_os (do_file E (WriteFile (''/sys/block/'' @ blk @ ''/device/delete'') ''1'')) (\<lambda>_. ret ()))))"

definition flush_device :: "host_env \<Rightarrow> string \<Rightarrow> unit host_action" where
  "flush_device E dev =
     (let w = base_name dev in
      andthen (run_args E [''multipath'', ''-f'', w])
        (try_os (bnd (host_do E (ListDir ''/sys/block'')) (\<lambda>a. foreach (names_answer a) (remove_path E w)))
           (\<lambda>_. ret ())))"

definition backend_link :: "host_env \<Rightarrow> string \<Rightarrow> string \<Rightarrow> string host_action" where
  "backend_link E dev tapdev =
     (let link = path_join BACKEND_DIR (base_name dev) in
      try_os
        (bnd (ask E (IsDir BACKEND_DIR)) (\<lambda>there.
         andthen (provided (\<not> there) (do_file E (MakeDirs BACKEND_DIR)))
         (bnd (ask E (IsLink link)) (\<lambda>linked.
         bnd (if linked then ret True else ask E (Exists link)) (\<lambda>old.
         andthen (provided old (do_file E (Remove link)))
         (andthen (do_file E (Symlink tapdev link)) (ret link)))))))
        (\<lambda>_. ret tapdev))"

section \<open>The operations\<close>

text \<open>What \<^verbatim>\<open>attach\<close> hands to the toolstack: the parameters of the XenDisk and the block device.\<close>

record backend =
  bk_params :: string
  bk_backend_type :: string
  bk_path :: string

definition dp_attach :: "host_env \<Rightarrow> string \<Rightarrow> backend host_action" where
  "dp_attach E uri =
     (let dev = device_of uri in
      bnd (ensure_device E dev) (\<lambda>there.
      if \<not> there then raise (Exn ''Unimplemented'' (''purefa: multipath device '' @ dev @ '' not present''))
      else bnd (tap_create E dev) (\<lambda>minor.
        case minor of
          None \<Rightarrow> raise (Exn ''Unimplemented'' (''purefa: failed to start tapdisk for '' @ dev))
        | Some m \<Rightarrow>
            let tapdev = BLKTAP_BASE @ ''/tapdev'' @ m in
            bnd (backend_link E dev tapdev) (\<lambda>params.
            ret \<lparr>bk_params = params, bk_backend_type = ''vbd3'', bk_path = tapdev\<rparr>))))"

definition close_tapdisk :: "host_env \<Rightarrow> string option \<times> string option \<Rightarrow> unit host_action" where
  "close_tapdisk E info =
     (case info of
        (Some pid, Some m) \<Rightarrow>
          steps [andthen (run_args E [''tap-ctl'', ''close'', ''-p'', pid, ''-m'', m, ''-t'', ''120'']) (ret ()),
                 andthen (run_args E [''tap-ctl'', ''destroy'', ''-p'', pid, ''-m'', m]) (ret ())]
      | _ \<Rightarrow> ret ())"

definition dp_detach :: "host_env \<Rightarrow> string \<Rightarrow> unit host_action" where
  "dp_detach E uri =
     (let dev = device_of uri in
      bnd (tap_info_for E dev) (\<lambda>info.
      steps [close_tapdisk E info,
             try_os (do_file E (Remove (path_join BACKEND_DIR (base_name dev)))) (\<lambda>_. ret ()),
             flush_device E dev]))"

end
