(* ===== verification/Smapi_Results.thy ===== *)
theory Smapi_Results
  imports Smapi_Calls Smapi_Datapath
begin

text \<open>
  The properties of the XCP-ng storage plugin: what its operations may change on the array, how often a
  request is sent, how a VDI's key and URI lead back to its volume and device, and what \<^verbatim>\<open>create\<close> and
  \<^verbatim>\<open>attach\<close> have done when they return.
\<close>

section \<open>Names, keys and devices\<close>

lemma last_segment_nomem: "CHR ''/'' \<notin> set s \<Longrightarrow> last_segment s = s"
proof -
  assume "CHR ''/'' \<notin> set s"
  then have "takeWhile (\<lambda>c. c \<noteq> CHR ''/'') (rev s) = rev s"
    by (auto simp: takeWhile_eq_all_conv)
  then show ?thesis unfolding last_segment_def by (simp only: rev_rev_ident)
qed

lemma without_prefix_append: "without_prefix sr (sr_prefix sr @ u) = u"
  by (auto simp: without_prefix_def starts_with_iff)

lemma vol_to_vdi_identity:
  assumes "vol_to_vdi sr vol proto = Inr v" and "text_of vol ''name'' = Inr n"
  shows "vdi_identity sr n = (vd_key v, vd_uuid v)"
  using assms
  by (auto simp: vol_to_vdi_def ebind_def Let_def split: sum.splits prod.splits)

lemma vdi_uuid_of_member:
  "CHR ''/'' \<notin> set sr \<Longrightarrow> vdi_identity sr (member_name sr u) = (member_name sr u, u)"
proof -
  assume "CHR ''/'' \<notin> set sr"
  then have "dropWhile (\<lambda>c. c \<noteq> CHR ''/'') sr = []" by (auto simp: dropWhile_eq_Nil_conv)
  then have "after_first_segment (member_name sr u) = sr_prefix sr @ u"
    by (simp add: member_name_def vgroup_name_def after_first_segment_def dropWhile_append)
  then show ?thesis by (simp add: vdi_identity_def is_vgroup_key_def member_name_def without_prefix_append)
qed

text \<open>C19. A VDI's key names the volume it was listed from.\<close>

theorem vdi_key_names_its_volume:
  assumes "vol_to_vdi sr vol proto = Inr v" and "text_of vol ''name'' = Inr n"
    and "CHR ''/'' \<in> set n \<or> (\<exists>u. n = sr_prefix sr @ u \<and> CHR ''/'' \<notin> set n \<and> CHR ''.'' \<notin> set u)"
  shows "obj_name sr (vd_key v) = n \<and> (\<forall>u. CHR ''/'' \<notin> set sr \<longrightarrow> n = member_name sr u \<longrightarrow> vd_uuid v = u)"
proof (rule conjI)
  note id = vol_to_vdi_identity [OF assms(1,2)]
  show "obj_name sr (vd_key v) = n"
    using assms(3)
  proof
    assume "CHR ''/'' \<in> set n"
    then show ?thesis using id by (auto simp: vdi_identity_def is_vgroup_key_def obj_name_def)
  next
    assume "\<exists>u. n = sr_prefix sr @ u \<and> CHR ''/'' \<notin> set n \<and> CHR ''.'' \<notin> set u"
    then obtain u where u: "n = sr_prefix sr @ u" "CHR ''/'' \<notin> set n" "CHR ''.'' \<notin> set u" by blast
    then have "vd_key v = u"
      using id by (auto simp: vdi_identity_def is_vgroup_key_def without_prefix_append Let_def)
    with u show ?thesis by (auto simp: obj_name_def is_snapshot_key_def is_vgroup_key_def last_segment_nomem)
  qed
  show "\<forall>u. CHR ''/'' \<notin> set sr \<longrightarrow> n = member_name sr u \<longrightarrow> vd_uuid v = u"
    using id by (auto simp: vdi_uuid_of_member)
qed

lemma lower_char_query: "lower_char c \<in> set ''?#'' \<longleftrightarrow> c \<in> set ''?#''"
proof (cases "65 \<le> (of_char c :: nat) \<and> of_char c \<le> (90 :: nat)")
  case True
  then have low: "of_char (lower_char c) = (of_char c :: nat) + 32"
    by (simp add: lower_char_def Let_def)
  have "lower_char c \<noteq> d" if "(of_char d :: nat) < 97" for d
    using that True low by auto
  moreover have "c \<noteq> d" if "(of_char d :: nat) < 65" for d
    using that True by auto
  ultimately show ?thesis by simp
qed (auto simp: lower_char_def Let_def)

lemma lower_no_query: "set (lower s) \<inter> set ''?#'' = {} \<longleftrightarrow> set s \<inter> set ''?#'' = {}"
  using lower_char_query by (fastforce simp: lower_def simp del: set_simps)

lemma device_of_uri:
  assumes "set p \<inter> set ''?#'' = {}"
  shows "device_of (''purefa:///'' @ p) = CHR ''/'' # p"
proof -
  have "takeWhile (\<lambda>c. c \<notin> set ''?#'') p = p"
    using assms by (auto simp: takeWhile_eq_all_conv)
  then show ?thesis by (simp add: device_of_def starts_with_def Let_def)
qed

lemma vdi_key_names_its_volume_witness:
  "(\<exists>v. vol_to_vdi ''phif-1a'' (JObj [(''name'', JStr ''phif-1a-77''), (''serial'', JStr ''AB'')]) ''iscsi'' = Inr v \<and>
      obj_name ''phif-1a'' (vd_key v) = ''phif-1a-77'') \<and>
   (\<exists>v. vol_to_vdi ''phif-1a'' (JObj [(''name'', JStr ''phif-1a/phif-1a-77'')]) ''iscsi'' = Inr v \<and>
      obj_name ''phif-1a'' (vd_key v) = ''phif-1a/phif-1a-77'')"
proof -
  have 1: "\<exists>v. vol_to_vdi ''phif-1a'' (JObj [(''name'', JStr ''phif-1a-77''), (''serial'', JStr ''AB'')]) ''iscsi'' = Inr v"
    by (simp add: vol_to_vdi_def text_of_def get_of_def dict_get_def str_field_def size_of_item_def py_int_def
        split: prod.split)
  have 2: "\<exists>v. vol_to_vdi ''phif-1a'' (JObj [(''name'', JStr ''phif-1a/phif-1a-77'')]) ''iscsi'' = Inr v"
    by (simp add: vol_to_vdi_def text_of_def get_of_def dict_get_def str_field_def size_of_item_def py_int_def
        split: prod.split)
  have "text_of (JObj [(''name'', JStr ''phif-1a-77''), (''serial'', JStr ''AB'')]) ''name'' = Inr ''phif-1a-77''"
    "text_of (JObj [(''name'', JStr ''phif-1a/phif-1a-77'')]) ''name'' = Inr ''phif-1a/phif-1a-77''"
    by (simp_all add: text_of_def get_of_def dict_get_def str_field_def)
  with 1 2 show ?thesis
    using vdi_key_names_its_volume [where sr = "''phif-1a''"] by (fastforce simp: sr_prefix_def)
qed

section \<open>How often a request is sent\<close>

definition on_object :: "smapi_event \<Rightarrow> bool" where
  "on_object e = (case e of Rest q a \<Rightarrow> (case rr_target q of Object v p \<Rightarrow> True | _ \<Rightarrow> False) | _ \<Rightarrow> False)"

definition slept :: "smapi_event \<Rightarrow> rat" where
  "slept e = (case e of Slept d \<Rightarrow> d | _ \<Rightarrow> 0)"

text \<open>\<open>costs n d m\<close>: the action sends at most \<open>n\<close> requests on objects and pauses for at most \<open>d\<close> seconds.\<close>

definition costs :: "nat \<Rightarrow> rat \<Rightarrow> 'a smapi_action \<Rightarrow> bool" where
  "costs n d m \<longleftrightarrow> (\<forall>s. \<exists>new. sm_trace (final m s) = sm_trace s @ new \<and>
     length (filter on_object new) \<le> n \<and> sum_list (map slept new) \<le> d)"

lemma costsI:
  "(\<And>s. \<exists>new. sm_trace (final m s) = sm_trace s @ new \<and> length (filter on_object new) \<le> n \<and>
     sum_list (map slept new) \<le> d) \<Longrightarrow> costs n d m"
  by (simp add: costs_def)

lemma costs_chain:
  assumes "costs n d m" and "\<And>x. costs n' d' (f x)" and "\<And>e. costs n' d' (h e)"
  shows "costs (n + n') (d + d') (\<lambda>s. case m s of (Inl e, s') \<Rightarrow> h e s' | (Inr x, s') \<Rightarrow> f x s')"
proof (rule costsI)
  fix s
  obtain r s1 where m: "m s = (r, s1)" by (cases "m s")
  obtain u where u: "sm_trace s1 = sm_trace s @ u" "length (filter on_object u) \<le> n" "sum_list (map slept u) \<le> d"
    using assms(1) m unfolding costs_def final_def by (metis snd_conv)
  let ?k = "case r of Inl e \<Rightarrow> h e | Inr x \<Rightarrow> f x"
  have "costs n' d' ?k" using assms(2,3) by (cases r) simp_all
  then obtain v where v: "sm_trace (final ?k s1) = sm_trace s1 @ v" "length (filter on_object v) \<le> n'"
      "sum_list (map slept v) \<le> d'"
    unfolding costs_def by blast
  have "final (\<lambda>s. case m s of (Inl e, s') \<Rightarrow> h e s' | (Inr x, s') \<Rightarrow> f x s') s = final ?k s1"
    by (cases r) (simp_all add: final_def m)
  then show "\<exists>new. sm_trace (final (\<lambda>s. case m s of (Inl e, s') \<Rightarrow> h e s' | (Inr x, s') \<Rightarrow> f x s') s) = sm_trace s @ new \<and>
      length (filter on_object new) \<le> n + n' \<and> sum_list (map slept new) \<le> d + d'"
    using u v by (intro exI [where x = "u @ v"]) simp
qed

lemma costs_pair: "0 \<le> d \<Longrightarrow> costs n d (Pair r)"
  by (simp add: costs_def final_def)

lemma costs_ret: "0 \<le> d \<Longrightarrow> costs n d (ret x)" and costs_raise: "0 \<le> d \<Longrightarrow> costs n d (raise e)"
  and costs_gets: "0 \<le> d \<Longrightarrow> costs n d (gets g)"
  by (simp_all add: costs_def final_def ret_def raise_def gets_def)

lemma costs_bnd: "costs n d m \<Longrightarrow> (\<And>x. costs n' d' (f x)) \<Longrightarrow> 0 \<le> d' \<Longrightarrow> costs (n + n') (d + d') (bnd m f)"
  using costs_chain [of n d m n' d' f raise, unfolded run_raise] by (simp add: bnd_def costs_pair)

lemma costs_andthen: "costs n d m \<Longrightarrow> costs n' d' k \<Longrightarrow> 0 \<le> d' \<Longrightarrow> costs (n + n') (d + d') (andthen m k)"
  by (simp add: andthen_def costs_bnd)

lemma costs_tryc: "costs n d m \<Longrightarrow> (\<And>e. costs n' d' (h e)) \<Longrightarrow> 0 \<le> d' \<Longrightarrow> costs (n + n') (d + d') (tryc m h)"
  using costs_chain [of n d m n' d' ret h, unfolded run_ret] by (simp add: tryc_def costs_pair)

lemma costs_more: "costs n d m \<Longrightarrow> n \<le> n' \<Longrightarrow> d \<le> d' \<Longrightarrow> costs n' d' m"
  unfolding costs_def by (meson order_trans)

lemma costs_silent:
  "(\<And>s. sm_trace (final m s) = sm_trace s) \<Longrightarrow> costs 0 0 m"
  by (simp add: costs_def)

lemma costs_exchange:
  "costs 1 0 (exchange E q)" and costs_exchange_session: "(\<And>v p. rr_target q \<noteq> Object v p) \<Longrightarrow> costs 0 0 (exchange E q)"
  by (auto simp: costs_def final_def exchange_def Let_def on_object_def slept_def split: rest_target.splits)

lemma costs_after:
  "costs n d m \<Longrightarrow> (\<And>x. costs 0 0 (f x)) \<Longrightarrow> costs n d (bnd m f)"
  "costs n d k \<Longrightarrow> costs 0 0 l \<Longrightarrow> 0 \<le> d \<Longrightarrow> costs n d (andthen l k)"
  "costs n d k' \<Longrightarrow> (\<And>e. costs 0 0 (h e)) \<Longrightarrow> costs n d (tryc k' h)"
  using costs_bnd [of n d m 0 0 f] costs_andthen [of 0 0 l n d k] costs_tryc [of n d k' 0 0 h] by simp_all

lemma costs_http:
  "costs 1 0 (http E C m t b hs)" and costs_http_session: "(\<And>v p. t \<noteq> Object v p) \<Longrightarrow> costs 0 0 (http E C m t b hs)"
proof -
  have rest: "costs 0 0 (case x of (text, tok) \<Rightarrow> andthen (provided (nonempty tok \<noteq> None) (set_auth tok))
       (lift_sum (if text = [] then Inr (JObj []) else json_loads text)))" for x :: "string \<times> string option"
    by (rule costs_silent)
       (auto simp: final_def run_andthen provided_def set_auth_def run_modify run_ret lift_sum_def run_raise
          split: prod.splits sum.splits)
  show "costs 1 0 (http E C m t b hs)"
    unfolding http_def by (intro costs_after costs_exchange rest)
  show "costs 0 0 (http E C m t b hs)" if "\<And>v p. t \<noteq> Object v p"
    unfolding http_def by (intro costs_after costs_exchange_session rest) (simp add: that)
qed

lemma costs_version: "costs 0 0 (api_version E C)"
proof -
  have "costs 0 0 (set_version v)" "costs 0 0 (lift_sum (r :: exn + string))" for v r
    by (auto intro!: costs_silent simp: final_def set_version_def run_andthen run_modify run_ret lift_sum_def run_raise
        split: sum.splits)
  moreover have "costs 0 0 (http E C ''GET'' ApiVersions None [])"
    by (rule costs_http_session) simp
  ultimately show ?thesis
    unfolding api_version_def
    by (auto intro!: costs_after costs_gets costs_ret split: option.splits)
qed

lemma costs_login: "costs 0 0 (login E C)"
proof -
  have "costs 0 0 (http E C ''POST'' (Session v) None hs)" for v hs
    by (rule costs_http_session) simp
  then show ?thesis
    unfolding login_def by (auto intro!: costs_after costs_gets costs_ret costs_raise costs_version)
qed

lemma costs_send: "costs 1 0 (send E C m t b)"
proof -
  have "costs (0 + 1) (0 + 0) (send E C m t b)"
    unfolding send_def by (rule costs_bnd [OF costs_gets costs_http]) simp_all
  then show ?thesis by simp
qed

lemma costs_attempts:
  "costs n ((2 * of_nat i + of_nat n + 1) * of_nat n / 4) (read_attempts E C path body t n i e)"
proof (induction n arbitrary: i t e)
  case 0
  show ?case by (simp add: costs_raise)
next
  case (Suc n)
  let ?d = "(2 * of_nat (i + 1) + of_nat n + 1) * of_nat n / 4 :: rat"
  have nap: "costs 0 (of_nat (i + 1) / 2) (log_event (Slept (of_nat (i + 1) / 2)))"
    by (auto simp: costs_def final_def log_event_def run_modify on_object_def slept_def)
  have off: "costs 0 0 (set_auth None)"
    by (rule costs_silent) (simp add: final_def set_auth_def run_modify)
  have more: "costs n ?d (bnd (api_version E C) (\<lambda>v. read_attempts E C path body (Object v path) n (i + 1) e))" for e
  proof -
    have "costs (0 + n) (0 + ?d) (bnd (api_version E C) (\<lambda>v. read_attempts E C path body (Object v path) n (i + 1) e))"
      by (rule costs_bnd [OF costs_version Suc.IH]) simp
    then show ?thesis by simp
  qed
  have logged: "costs n ?d (andthen (login E C) (bnd (api_version E C)
      (\<lambda>v. read_attempts E C path body (Object v path) n (i + 1) e)))" for e
    by (rule costs_after(2) [OF more costs_login]) simp
  have rest: "costs n (of_nat (i + 1) / 2 + ?d)
      (andthen (set_auth None) (andthen (log_event (Slept (of_nat (i + 1) / 2)))
        (andthen (login E C) (bnd (api_version E C) (\<lambda>v. read_attempts E C path body (Object v path) n (i + 1) e)))))" for e
  proof (rule costs_after(2) [OF _ off])
    show "costs n (of_nat (i + 1) / 2 + ?d) (andthen (log_event (Slept (of_nat (i + 1) / 2)))
        (andthen (login E C) (bnd (api_version E C) (\<lambda>v. read_attempts E C path body (Object v path) n (i + 1) e))))"
      using costs_andthen [OF nap logged] by simp
  qed simp
  have "costs (1 + n) (0 + (of_nat (i + 1) / 2 + ?d)) (read_attempts E C path body t (Suc n) i e)"
    unfolding read_attempts.simps by (rule costs_tryc [OF costs_send rest]) simp
  moreover have "0 + (of_nat (i + 1) / 2 + ?d) = (2 * of_nat i + of_nat (Suc n) + 1) * of_nat (Suc n) / 4"
    by (simp add: algebra_simps add_divide_distrib)
  ultimately show ?case by (simp only: plus_1_eq_Suc)
qed

text \<open>C18. A change is sent once, a read three times at most with pauses of three seconds in all.\<close>

theorem request_attempts_are_bounded:
  "\<exists>new. sm_trace (final (fa_request E C method path body) s) = sm_trace s @ new \<and>
     length (filter on_object new) \<le> (if method = ''GET'' then 3 else 1) \<and>
     sum_list (map slept new) \<le> (if method = ''GET'' then 3 else 0)"
proof -
  have "costs (if method = ''GET'' then 3 else 1) (if method = ''GET'' then 3 else 0)
      (if method = ''GET'' then read_attempts E C path body (Object v path) 3 0 e else send E C method (Object v path) body)"
    for v e
    using costs_attempts [of 3 0 E C path body "Object v path" e] costs_send by auto
  then have "costs (if method = ''GET'' then 3 else 1) (if method = ''GET'' then 3 else 0) (fa_request E C method path body)"
    unfolding fa_request_def
    by (intro costs_after costs_login costs_bnd [OF costs_version, simplified]) auto
  then show ?thesis by (simp add: costs_def)
qed

section \<open>What the operations change\<close>


text \<open>The operations on the repository, and the inspection of a VDI, change nothing on the array.\<close>

theorem repository_operations_only_read:
  assumes "m \<in> {sr_probe E cfg, andthen (sr_create E cfg) (ret ()), andthen (sr_attach cfg) (ret ()),
      andthen (sr_stat E sr) (ret ()), andthen (sr_ls E dbg sr) (ret ()), andthen (vdi_stat E sr key) (ret ())}"
    and "sm_trace s = []" and "Rest q a \<in> set (sm_trace (final m s))"
  shows "change_of q = None"
proof -
  have "changes_only [] m"
    using assms(1) by (auto intro!: only.repository only.basic)
  from keepsD [OF this, of s] have "all_sent (only []) (sm_trace (final m s))"
    using assms(2) by simp
  with assms(3) have "only [] q" by (rule all_sentD [rotated])
  then show ?thesis by (simp add: only_def split: option.splits)
qed

section \<open>Creating a VDI\<close>

definition done_change :: "change \<Rightarrow> smapi_event \<Rightarrow> bool" where
  "done_change c e = (case e of Rest q (Inr a) \<Rightarrow> change_of q = Some c | _ \<Rightarrow> False)"

text \<open>The changes were sent and answered without an error, in this order.\<close>

definition answered_in_order :: "change list \<Rightarrow> smapi_event list \<Rightarrow> bool" where
  "answered_in_order cs t \<longleftrightarrow> (\<exists>es. subseq es t \<and> list_all2 done_change cs es)"

lemma answered_Nil: "answered_in_order [] t"
  by (simp add: answered_in_order_def)

lemma answered_prefix: "answered_in_order cs t \<Longrightarrow> prefix t u \<Longrightarrow> answered_in_order cs u"
  unfolding answered_in_order_def by (meson prefix_imp_subseq subseq_order.order_trans)

lemma answered_change:
  assumes "answered_in_order cs (sm_trace s)" and "fa_change E C m p b s = (Inr x, t)" and "m \<noteq> ''GET''"
  shows "answered_in_order (cs @ [(m, p, map_option JObj b)]) (sm_trace t)"
proof -
  obtain es where es: "subseq es (sm_trace s)" "list_all2 done_change cs es"
    using assms(1) by (auto simp: answered_in_order_def)
  obtain u q a where t: "sm_trace t = sm_trace s @ u @ [Rest q (Inr a)]" and q: "change_of q = Some (m, p, map_option JObj b)"
    using changed [OF assms(2,3)] by blast
  have "subseq (es @ [Rest q (Inr a)]) (sm_trace s @ (u @ [Rest q (Inr a)]))"
    by (rule list_emb_append_mono [OF es(1)]) (simp add: subseq_singleton_left)
  moreover have "list_all2 done_change (cs @ [(m, p, map_option JObj b)]) (es @ [Rest q (Inr a)])"
    using es(2) q by (simp add: list_all2_appendI done_change_def)
  ultimately show ?thesis unfolding answered_in_order_def t by blast
qed

definition create_steps :: "sr_conf \<Rightarrow> string \<Rightarrow> int \<Rightarrow> change list" where
  "create_steps conf volname n =
     (''POST'', volume_path volname, Some (JObj [(''provisioned'', JInt n)]))
     # (if sc_hostgroup conf \<noteq> [] then [(''POST'', connection_path (sc_hostgroup conf) volname, None)] else [])"

lemma create_connects:
  assumes "andthen (fa_create_volume E C vol n) (andthen (connect_if_grouped E conf C vol) k) s = (Inr v, t)"
    and "\<And>p. keeps (\<lambda>s. prefix p (sm_trace s)) k"
  shows "answered_in_order (create_steps conf vol n) (sm_trace t)"
proof -
  obtain s1 s2 where c: "fa_create_volume E C vol n s = (Inr (), s1)"
    and h: "connect_if_grouped E conf C vol s1 = (Inr (), s2)" and k: "k s2 = (Inr v, t)"
    using assms(1) by (auto elim!: andthen_eq_InrE)
  have 1: "answered_in_order [(''POST'', volume_path vol, Some (JObj [(''provisioned'', JInt n)]))] (sm_trace s1)"
    using answered_change [OF answered_Nil c [unfolded fa_create_volume_def]] by simp
  have "answered_in_order (create_steps conf vol n) (sm_trace s2)"
  proof (cases "sc_hostgroup conf = []")
    case True
    then show ?thesis using 1 h by (simp add: create_steps_def connect_if_grouped_def run_provided)
  next
    case False
    then have "fa_change E C ''POST'' (connection_path (sc_hostgroup conf) vol) None s1 = (Inr (), s2)"
      using h by (simp add: connect_if_grouped_def run_provided fa_connect_volume_def)
    from answered_change [OF 1 this] False show ?thesis by (simp add: create_steps_def)
  qed
  moreover have "prefix (sm_trace s2) (sm_trace t)"
    using keeps_runD [OF assms(2) [of "sm_trace s2"] _ k] by simp
  ultimately show ?thesis by (rule answered_prefix)
qed

lemma tags_and_reading_grow:
  "keeps (\<lambda>s. prefix p (sm_trace s))
     (andthen (tryc (andthen (fa_set_tag E C v a b) (fa_set_tag E C v a' b')) (logged_failure dbg w ())) (vdi_read_back E conf C sr v))"
  unfolding fa_set_tag_def vdi_read_back_def
  by (intro grown.basic grown.change) (simp_all add: permits_def)

text \<open>C17. When a VDI is created, its volume was created under a fresh name in the SR's group and then
  connected to the host group, and the array answered both without an error.\<close>

theorem created_vdi_is_connected:
  assumes "map_of (sm_files s) (sr_state_path sr) = Some conf" and "sm_trace s = []"
    and "vdi_create E dbg sr name description n s = (Inr v, t)"
  shows "answered_in_order (create_steps conf (member_name sr (fresh_uuid E [])) n) (sm_trace t)"
proof -
  let ?v = "member_name sr (fresh_uuid E [])"
  obtain C s1 where C: "client_of conf 30 s = (Inr C, s1)" "sm_trace s1 = []"
    using assms(2) by (simp add: client_of_def flash_array_def run_andthen run_modify run_ret)
  from assms(3) C have "andthen (fa_create_vgroup E C (vgroup_name sr))
     (andthen (fa_create_volume E C ?v n)
     (andthen (connect_if_grouped E conf C ?v)
     (andthen (tryc (andthen (fa_set_tag E C ?v ''vdi_name'' (if name \<noteq> [] then name else fresh_uuid E []))
                             (fa_set_tag E C ?v ''vdi_desc'' description))
                    (logged_failure dbg ''tag set'' ()))
     (vdi_read_back E conf C sr ?v)))) s1 = (Inr v, t)"
    by (simp add: vdi_create_def in_sr_at [OF assms(1)] run_bnd run_gets Let_def)
  then obtain s2 where "andthen (fa_create_volume E C ?v n)
     (andthen (connect_if_grouped E conf C ?v)
     (andthen (tryc (andthen (fa_set_tag E C ?v ''vdi_name'' (if name \<noteq> [] then name else fresh_uuid E []))
                             (fa_set_tag E C ?v ''vdi_desc'' description))
                    (logged_failure dbg ''tag set'' ()))
     (vdi_read_back E conf C sr ?v))) s2 = (Inr v, t)"
    by (rule andthen_eq_InrE)
  then show ?thesis by (rule create_connects [OF _ tags_and_reading_grow])
qed

section \<open>A small array\<close>

text \<open>An array that accepts every change and answers reads from a table of paths.\<close>

definition toy_reply :: "(string \<times> string) list \<Rightarrow> smapi_event list \<Rightarrow> rest_request \<Rightarrow> rest_answer" where
  "toy_reply table t q = (case rr_target q of
     ApiVersions \<Rightarrow> Inr ([], None)
   | Session v \<Rightarrow> Inr ([], Some ''tok'')
   | Object v p \<Rightarrow> Inr (if rr_method q = ''GET'' then dict_get table p [] else [], None))"

definition toy :: "(string \<times> string) list \<Rightarrow> smapi_env" where
  "toy table = \<lparr>rest_reply = toy_reply table, command_reply = (\<lambda>t args. Inr []), fresh_uuid = (\<lambda>t. ''77'')\<rparr>"

definition toy_conf :: sr_conf where
  "toy_conf = \<lparr>sc_endpoint = ''fa1'', sc_token = ''t'', sc_hostgroup = ''pool'', sc_protocol = ''iscsi'', sc_eradicate = False\<rparr>"

definition toy_state :: smapi where
  "toy_state = \<lparr>sm_auth = None, sm_version = None, sm_files = [(sr_state_path ''sr'', toy_conf)], sm_trace = []\<rparr>"

definition toy_client :: fa_client where
  "toy_client = \<lparr>fc_endpoint = ''https://fa1'', fc_token = ''t'', fc_timeout = 30\<rparr>"

definition toy_request :: "string \<Rightarrow> rest_target \<Rightarrow> json option \<Rightarrow> (string \<times> string) list \<Rightarrow> rest_request" where
  "toy_request m t b hs = \<lparr>rr_endpoint = ''https://fa1'', rr_method = m, rr_target = t, rr_body = b,
     rr_headers = (''Content-Type'', ''application/json'') # hs, rr_timeout = 30\<rparr>"

definition toy_event :: "(string \<times> string) list \<Rightarrow> string \<Rightarrow> string \<Rightarrow> json option \<Rightarrow> smapi_event" where
  "toy_event table m p b = (let q = toy_request m (Object ''2.0'' p) b [(''x-auth-token'', ''tok'')] in
     Rest q (toy_reply table [] q))"

definition toy_opening :: "smapi_event list" where
  "toy_opening = [Rest (toy_request ''GET'' ApiVersions None []) (Inr ([], None)),
     Rest (toy_request ''POST'' (Session ''2.0'') None [(''api-token'', ''t'')]) (Inr ([], Some ''tok''))]"

text \<open>With a session; without one the first request opens it.\<close>

definition in_session :: "smapi_event list \<Rightarrow> smapi \<Rightarrow> smapi" where
  "in_session t s = s\<lparr>sm_auth := Some ''tok'', sm_version := Some ''2.0'', sm_trace := t\<rparr>"

lemma toy_open:
  "client_of toy_conf 30 toy_state = (Inr toy_client, toy_state)"
  by (simp add: client_of_def flash_array_def run_rules toy_state_def toy_conf_def toy_client_def strip_slashes_def
      starts_with_def)

lemma http_toy:
  "http (toy table) toy_client m t b hs s =
     (let q = toy_request m t b hs; a = toy_reply table [] q;
          s' = s\<lparr>sm_trace := sm_trace s @ [Rest q a]\<rparr> in
      case a of Inl e \<Rightarrow> (Inl e, s')
      | Inr (x, tok) \<Rightarrow> ((if x = [] then Inr (JObj []) else json_loads x),
          if nonempty tok \<noteq> None then s'\<lparr>sm_auth := tok\<rparr> else s'))"
  by (auto simp: http_def exchange_def Let_def toy_def toy_request_def toy_client_def toy_reply_def run_bnd run_andthen
      provided_def set_auth_def run_modify run_ret lift_sum_def run_raise split: rest_target.splits sum.splits)

lemma toy_version:
  "api_version (toy table) toy_client s =
     (case nonempty (sm_version s) of Some v \<Rightarrow> (Inr v, s)
      | None \<Rightarrow> (Inr ''2.0'', s\<lparr>sm_version := Some ''2.0'',
          sm_trace := sm_trace s @ [Rest (toy_request ''GET'' ApiVersions None []) (Inr ([], None))]\<rparr>))"
  by (auto simp: api_version_def run_rules http_toy toy_reply_def toy_request_def Let_def nonempty_def latest_version_def
      get_of_def dict_get_def set_version_def lift_sum_def split: option.splits list.splits)

lemma toy_token: "fc_token toy_client = ''t''"
  by (simp add: toy_client_def)

lemma toy_login:
  "sm_auth s = Some ''tok'' \<Longrightarrow> login (toy table) toy_client s = (Inr (), s)"
  "sm_auth s = None \<Longrightarrow> sm_version s = None \<Longrightarrow>
   login (toy table) toy_client s = (Inr (), in_session (sm_trace s @ toy_opening) s)"
  by (simp_all add: login_def run_rules toy_version http_toy toy_reply_def toy_request_def toy_token Let_def
      nonempty_def toy_opening_def in_session_def)

lemma in_session_twice: "in_session t (in_session u s) = in_session t s" "sm_trace (in_session t s) = t"
  by (simp_all add: in_session_def)

lemma toy_first: "fa_request (toy table) toy_client m p b toy_state =
    fa_request (toy table) toy_client m p b (in_session toy_opening toy_state)"
  by (simp add: fa_request_def run_andthen toy_login toy_state_def in_session_def)

lemma toy_change:
  "m \<noteq> ''GET'' \<Longrightarrow> fa_change (toy table) toy_client m p b (in_session t s) =
     (Inr (), in_session (t @ [toy_event table m p (map_option JObj b)]) s)"
  by (simp add: fa_change_def fa_request_def send_def run_rules toy_login toy_version http_toy in_session_def
      nonempty_def auth_header_def show_opt_def toy_event_def toy_reply_def toy_request_def Let_def)

lemma toy_first_change:
  "m \<noteq> ''GET'' \<Longrightarrow> fa_change (toy table) toy_client m p b toy_state =
     (Inr (), in_session (toy_opening @ [toy_event table m p (map_option JObj b)]) toy_state)"
  using toy_change [of m table p b toy_opening toy_state] by (simp add: fa_change_def run_andthen toy_first)

lemma toy_read:
  assumes "dict_get table p [] \<noteq> []" and "json_loads (dict_get table p []) = Inr x"
  shows "fa_request (toy table) toy_client ''GET'' p None (in_session t s) =
     (Inr x, in_session (t @ [toy_event table ''GET'' p None]) s)"
  using assms
  by (simp add: fa_request_def send_def run_rules toy_login toy_version http_toy in_session_def eval_nat_numeral
      nonempty_def auth_header_def show_opt_def toy_event_def toy_reply_def toy_request_def Let_def)

lemma toy_read_nothing:
  assumes "dict_get table p [] = []"
  shows "fa_request (toy table) toy_client ''GET'' p None (in_session t s) =
     (Inr (JObj []), in_session (t @ [toy_event table ''GET'' p None]) s)"
  using assms
  by (simp add: fa_request_def send_def run_rules toy_login toy_version http_toy in_session_def eval_nat_numeral
      nonempty_def auth_header_def show_opt_def toy_event_def toy_reply_def toy_request_def Let_def)

text \<open>The array's answer for the volume \<^verbatim>\<open>sr/sr-77\<close>.\<close>

definition toy_item :: string where
  "toy_item = ''{'' @ [CHR 0x22] @ ''items'' @ [CHR 0x22] @ '': [{'' @ [CHR 0x22] @ ''name'' @ [CHR 0x22] @ '': ''
     @ [CHR 0x22] @ ''sr/sr-77'' @ [CHR 0x22] @ '', '' @ [CHR 0x22] @ ''serial'' @ [CHR 0x22] @ '': ''
     @ [CHR 0x22] @ ''AB'' @ [CHR 0x22] @ ''}]}''"

definition toy_table :: "(string \<times> string) list" where
  "toy_table = [(volume_path ''sr/sr-77'', toy_item)]"

lemma toy_item_read:
  "json_loads toy_item = Inr (JObj [(''items'', JList [JObj [(''name'', JStr ''sr/sr-77''), (''serial'', JStr ''AB'')]])])"
  by code_simp

lemma toy_found:
  "fa_request (toy toy_table) toy_client ''GET'' (volume_path ''sr/sr-77'') None (in_session t s) =
     (Inr (JObj [(''items'', JList [JObj [(''name'', JStr ''sr/sr-77''), (''serial'', JStr ''AB'')]])]),
      in_session (t @ [toy_event toy_table ''GET'' (volume_path ''sr/sr-77'') None]) s)"
proof -
  have "dict_get toy_table (volume_path ''sr/sr-77'') [] = toy_item" "toy_item \<noteq> []"
    by (simp_all add: toy_table_def dict_get_def toy_item_def)
  then show ?thesis using toy_item_read by (simp add: toy_read)
qed

definition toy_volume :: json where
  "toy_volume = JObj [(''name'', JStr ''sr/sr-77''), (''serial'', JStr ''AB'')]"

lemma toy_volume_read:
  "fa_volume (toy toy_table) toy_client ''sr/sr-77'' (in_session t s) =
     (Inr (Some toy_volume), in_session (t @ [toy_event toy_table ''GET'' (volume_path ''sr/sr-77'') None]) s)"
  "fa_volume (toy toy_table) toy_client ''sr/sr-77'' toy_state =
     (Inr (Some toy_volume), in_session (toy_opening @ [toy_event toy_table ''GET'' (volume_path ''sr/sr-77'') None]) toy_state)"
  by (simp_all add: fa_volume_def first_named_def run_rules toy_first toy_found items_of_def get_of_def dict_get_def
      list_field_def lift_sum_def first_of_def toy_volume_def)

lemma toy_no_members:
  "fa_vgroup_member_count (toy toy_table) toy_client ''sr'' (in_session t s) =
     (Inr 0, in_session (t @ [toy_event toy_table ''GET'' (members_of_path ''sr'') None]) s)"
proof -
  have "dict_get toy_table (members_of_path ''sr'') [] = []"
    by (simp add: toy_table_def dict_get_def volume_path_def members_of_path_def name_filter_def)
  then show ?thesis
    by (simp add: fa_vgroup_member_count_def live_or_none_def run_rules toy_read_nothing items_of_def get_of_def
        dict_get_def lift_sum_def)
qed

lemma toy_conf_at: "map_of (sm_files toy_state) (sr_state_path ''sr'') = Some toy_conf"
  by (simp add: toy_state_def)

definition after_destroy :: "smapi_event list" where
  "after_destroy = sm_trace (final (vdi_destroy (toy toy_table) ''dbg'' ''sr'' ''sr/sr-77'') toy_state)"

lemma toy_destroyed:
  "toy_event toy_table ''PATCH'' (volume_path ''sr/sr-77'') body_destroyed \<in> set after_destroy"
proof -
  have key: "\<not> is_snapshot_key ''sr/sr-77''" "obj_name ''sr'' ''sr/sr-77'' = ''sr/sr-77''" "vgroup_of ''sr/sr-77'' = ''sr''"
    by code_simp+
  have conf: "sc_hostgroup toy_conf = ''pool''" "\<not> sc_eradicate toy_conf" "sc_protocol toy_conf = ''iscsi''"
    by (simp_all add: toy_conf_def)
  have v: "truthy toy_volume" "text_of toy_volume ''serial'' = Inr ''AB''" "is_live (Some toy_volume) = Inr True"
    by (simp_all add: toy_volume_def text_of_def get_of_def dict_get_def str_field_def is_live_def is_destroyed_def)
  have flush: "e \<in> set t \<Longrightarrow> e \<in> set (sm_trace (snd (flush_multipath_poolwide (toy toy_table) w (in_session t s))))" for e w t s
    using keepsD [OF grown.flushing [of t "toy toy_table" w], of "in_session t s"]
    by (auto simp: in_session_twice prefix_def final_def)
  show ?thesis
    unfolding after_destroy_def vdi_destroy_def final_def
    by (simp add: in_sr_at [OF toy_conf_at] run_bnd toy_open key conf Let_def serial_before_destroy_def run_tryc
        toy_volume_read v lift_sum_def run_ret run_andthen fa_destroy_volume_def fa_disconnect_volume_def run_provided
        best_effort_def toy_change teardown_groups_def fa_destroy_vgroup_def toy_no_members fa_destroy_pgroup_def
        pgroup_name_def in_session_twice body_destroyed_def)
      (rule flush, simp)
qed


lemma repository_operations_only_read_witness:
  "\<exists>q. rr_method q = ''GET'' \<and> change_of q = None \<and>
     (\<exists>a. Rest q a \<in> set (sm_trace (final (andthen (vdi_stat (toy toy_table) ''sr'' ''sr/sr-77'') (ret ())) toy_state)))"
proof -
  have key: "\<not> is_snapshot_key ''sr/sr-77''" "obj_name ''sr'' ''sr/sr-77'' = ''sr/sr-77''"
    by code_simp+
  let ?m = "andthen (vdi_stat (toy toy_table) ''sr'' ''sr/sr-77'') (ret ())"
  obtain q a where e: "toy_event toy_table ''GET'' (volume_path ''sr/sr-77'') None = Rest q a" and q: "rr_method q = ''GET''"
    by (simp add: toy_event_def toy_request_def Let_def)
  have m: "toy_event toy_table ''GET'' (volume_path ''sr/sr-77'') None \<in> set (sm_trace (final ?m toy_state))"
    by (simp add: final_def run_andthen vdi_stat_def in_sr_at [OF toy_conf_at] run_bnd toy_open key toy_volume_read
        present_def toy_volume_def lift_sum_def run_ret run_raise in_session_twice split: sum.split)
  have "sm_trace toy_state = []" by (simp add: toy_state_def)
  from repository_operations_only_read [of ?m _ _ "''sr''" _ "''sr/sr-77''", OF _ this m [unfolded e]] q m [unfolded e]
  show ?thesis by auto
qed

lemma created_vdi_is_connected_witness:
  "answered_in_order
     [(''POST'', volume_path ''sr/sr-77'', Some (JObj [(''provisioned'', JInt 1048576)])),
      (''POST'', connection_path ''pool'' ''sr/sr-77'', None)]
     (sm_trace (final (vdi_create (toy toy_table) ''dbg'' ''sr'' ''disk'' [] 1048576) toy_state))"
proof -
  have vol: "member_name ''sr'' ''77'' = ''sr/sr-77''" by code_simp
  have uuid: "fresh_uuid (toy toy_table) t = ''77''" for t by (simp add: toy_def)
  have "vdi_identity ''sr'' ''sr/sr-77'' = (''sr/sr-77'', ''77'')" by code_simp
  then obtain v where v: "vol_to_vdi ''sr'' toy_volume ''iscsi'' = Inr v"
    by (simp add: toy_volume_def vol_to_vdi_def text_of_def get_of_def dict_get_def str_field_def size_of_item_def
        py_int_def)
  have conf: "sc_hostgroup toy_conf = ''pool''" "sc_protocol toy_conf = ''iscsi''"
    by (simp_all add: toy_conf_def)
  let ?m = "vdi_create (toy toy_table) ''dbg'' ''sr'' ''disk'' [] 1048576"
  obtain t where t: "?m toy_state = (Inr v, t)"
    by (simp add: vdi_create_def in_sr_at [OF toy_conf_at] run_bnd toy_open run_gets uuid vol conf v Let_def run_andthen
        fa_create_vgroup_def vgroup_name_def run_provided best_effort_def run_tryc toy_first_change toy_change run_ret
        fa_create_volume_def connect_if_grouped_def fa_connect_volume_def fa_set_tag_def vdi_read_back_def
        toy_volume_read lift_sum_def)
  have "sm_trace toy_state = []" by (simp add: toy_state_def)
  from created_vdi_is_connected [OF toy_conf_at this t] t show ?thesis
    by (simp add: uuid vol create_steps_def conf final_def)
qed

section \<open>Where the code falls short\<close>

text \<open>A listing that fails counts as an empty group, which is then destroyed.\<close>

lemma failed_listing_destroys_group:
  assumes "vg \<noteq> []" and "fa_request E C ''GET'' (members_of_path vg) None s = (Inl e, t)"
  shows "fa_destroy_vgroup E C vg s =
    andthen (best_effort (fa_change E C ''PATCH'' (group_path vg) (Some [(''destroyed'', JBool True)])))
      (best_effort (fa_change E C ''DELETE'' (group_path vg) None)) t"
  using assms
  by (simp add: fa_destroy_vgroup_def fa_vgroup_member_count_def live_or_none_def run_provided run_bnd run_tryc run_ret)

text \<open>The map that is flushed for a volume on NVMe over Fibre Channel is not the one of its device.\<close>

lemma nvme_fc_flushes_another_map: "device_path sn ''nvme-fc'' \<noteq> ''/dev/mapper/'' @ device_wwid sn"
  by (simp add: device_path_def device_wwid_def Let_def)

text \<open>A member of a protection group's snapshot does not count as a snapshot.\<close>

lemma group_snapshot_key_is_no_snapshot_key: "\<not> is_snapshot_key ''vm-pg.s1.vm/disk-0''"
  by code_simp

end
