(* ===== verification/Smapi_Attach.thy ===== *)
theory Smapi_Attach
  imports Smapi_Results
begin

text \<open>
  From a VDI to the device a guest sees: the device a URI leads to, the identifiers the plugin and the
  back end derive from a serial, and what \<^verbatim>\<open>attach\<close> has found and done when it returns.
\<close>

section \<open>The device of a VDI\<close>

lemma device_path_mapper:
  "\<exists>p. device_path sn proto = ''/dev/mapper/'' @ p \<and> (set sn \<inter> set ''?#'' = {} \<longrightarrow> set p \<inter> set ''?#'' = {})"
proof -
  have low: "set (drop k (lower sn)) \<inter> set ''?#'' = {}" if "set sn \<inter> set ''?#'' = {}" for k
    using that lower_no_query [of sn] set_drop_subset [of k "lower sn"] by blast
  show ?thesis
    using low [of 0] low [of 2]
    by (auto simp: device_path_def device_wwid_def Let_def PURE_OUI_def)
qed

text \<open>The datapath plugin reads from a VDI's URI the device path of the volume's serial.\<close>

theorem vdi_uri_names_its_device:
  assumes "vol_to_vdi sr vol proto = Inr v" and "text_of vol ''serial'' = Inr sn"
    and "sn \<noteq> []" and "set sn \<inter> set ''?#'' = {}"
  shows "\<exists>uri. vd_uri v = [uri] \<and> device_of uri = device_path sn proto"
proof -
  obtain p where p: "device_path sn proto = ''/dev/mapper/'' @ p" "set p \<inter> set ''?#'' = {}"
    using device_path_mapper [of sn proto] assms(4) by blast
  have "vd_uri v = [''purefa://'' @ device_path sn proto]"
    using assms(1,2,3) by (auto simp: vol_to_vdi_def ebind_def Let_def split: sum.splits prod.splits)
  moreover have "device_of (''purefa:///'' @ (''dev/mapper/'' @ p)) = CHR ''/'' # ''dev/mapper/'' @ p"
    using p(2) by (intro device_of_uri) auto
  ultimately show ?thesis by (simp add: p(1))
qed

lemma vdi_uri_names_its_device_witness:
  "\<exists>v uri. vol_to_vdi ''sr'' toy_volume ''iscsi'' = Inr v \<and> vd_uri v = [uri] \<and> device_of uri = ''/dev/mapper/3624a9370ab''"
proof -
  have "vdi_identity ''sr'' ''sr/sr-77'' = (''sr/sr-77'', ''77'')" by code_simp
  then obtain v where v: "vol_to_vdi ''sr'' toy_volume ''iscsi'' = Inr v"
    by (simp add: toy_volume_def vol_to_vdi_def text_of_def get_of_def dict_get_def str_field_def size_of_item_def
        py_int_def)
  have sn: "text_of toy_volume ''serial'' = Inr ''AB''"
    by (simp add: toy_volume_def text_of_def get_of_def dict_get_def str_field_def)
  have "device_path ''AB'' ''iscsi'' = ''/dev/mapper/3624a9370ab''" by code_simp
  with vdi_uri_names_its_device [OF v sn] v show ?thesis by auto
qed

text \<open>The plugin opens the device that the back end waits for: both derive the same identifier from a
  serial, unless an NVMe volume's serial is written with \<^verbatim>\<open>0x\<close>.\<close>

theorem plugin_and_backend_agree_on_device:
  assumes "proto \<in> {''nvme-tcp'', ''nvme-fc''} \<longrightarrow> \<not> starts_with ''0x'' (lower (strip sn))"
  shows "device_path (strip sn) proto =
    ''/dev/mapper/'' @ (if proto \<in> {''nvme-tcp'', ''nvme-fc''} then nvme_eui sn else scsi_wwid sn)"
  using assms
  by (simp add: device_path_def device_wwid_def scsi_wwid_def nvme_eui_def canonical_serial_def Let_def
      PURE_OUI_def PURE_SCSI_OUI_def)

lemma plugin_and_backend_agree_on_device_witness:
  "device_path ''AB'' ''nvme-tcp'' = ''/dev/mapper/eui.ab'' \<and> device_path ''AB'' ''fc'' = ''/dev/mapper/3624a9370ab''"
proof -
  have "strip ''AB '' = ''AB''" "nvme_eui ''AB '' = ''eui.ab''" "scsi_wwid ''AB '' = ''3624a9370ab''"
    "\<not> starts_with ''0x'' (lower (strip ''AB ''))" by code_simp+
  then show ?thesis
    using plugin_and_backend_agree_on_device [of "''nvme-tcp''" "''AB ''"]
      plugin_and_backend_agree_on_device [of "''fc''" "''AB ''"]
    by simp
qed

section \<open>Attaching\<close>

lemma parse_tap_list_SomeD:
  assumes "parse_tap_list dev out = (pid, Some m)"
  shows "\<exists>line \<in> set (splitlines out). serves dev line \<and> last_value ''minor='' line = Some m"
  using assms by (auto simp: parse_tap_list_def find_Some_iff split: option.splits)

text \<open>The trace only grows.\<close>

lemma grew:
  assumes "\<And>p. keeps (prefix p) m" and "m t = (r, u)"
  shows "prefix t u"
  using keeps_runD [where P = "prefix t", OF assms(1) _ assms(2)] by simp

lemma host_grow: "keeps (prefix p) (host_do E c)" "keeps (prefix p) (ask E c)"
  by (auto simp: keeps_def final_def host_do_def ask_def Let_def prefix_def)

lemma calls_grow [keeps_intro]:
  "keeps (prefix p) (run_args E args)" "keeps (prefix p) (run_quietly E c)" "keeps (prefix p) (do_file E f)"
  "keeps (prefix p) (pause E d)" "keeps (prefix p) (reassemble E)" "keeps (prefix p) (tap_info_for E dev)"
  unfolding run_args_def run_quietly_def do_file_def pause_def reassemble_def tap_info_for_def
  by (intro keeps_intro host_grow)+

lemma device_was_seen:
  assumes "ensure_device E dev t = (Inr True, u)"
  shows "(Exists dev, Flag True) \<in> set u \<and> prefix t u"
proof -
  have asked: "(Exists dev, Flag True) \<in> set w \<and> prefix v w" if "ask E (Exists dev) v = (Inr True, w)" for v w
    using that by (auto simp: ask_def flag_of_def split: host_answer.splits)
  have awaited: "(Exists dev, Flag True) \<in> set w \<and> prefix v w" if "await_device E dev n v = (Inr True, w)" for n v w
    using that
  proof (induction n arbitrary: v)
    case (Suc n)
    from Suc.prems obtain b v1 where v1: "ask E (Exists dev) v = (Inr b, v1)"
      and rest: "(if b then ret True else andthen (pause E (1 / 2)) (andthen (reassemble E) (await_device E dev n))) v1 = (Inr True, w)"
      by (auto elim!: bnd_eq_InrE)
    show ?case
    proof (cases b)
      case True
      then show ?thesis using v1 rest asked by (simp add: run_ret)
    next
      case False
      with rest obtain v2 v3 where "pause E (1 / 2) v1 = (Inr (), v2)" "reassemble E v2 = (Inr (), v3)"
        and last: "await_device E dev n v3 = (Inr True, w)"
        by (auto elim!: andthen_eq_InrE)
      then have "prefix v1 v3"
        using grew [OF calls_grow(4)] grew [OF calls_grow(5)] prefix_order.order_trans by blast
      moreover have "prefix v v1" using grew [OF host_grow(2) v1] .
      ultimately show ?thesis using Suc.IH [OF last] prefix_order.order_trans by blast
    qed
  qed (simp add: asked)
  from assms obtain b v where v: "ask E (Exists dev) t = (Inr b, v)"
    and rest: "(if b then ret True
      else andthen (steps [run_quietly E ''iscsiadm -m session --rescan'', run_quietly E ''nvme connect-all'', reassemble E])
        (await_device E dev 30)) v = (Inr True, u)"
    by (auto simp: ensure_device_def elim!: bnd_eq_InrE)
  show ?thesis
  proof (cases b)
    case True
    then show ?thesis using v rest asked by (simp add: run_ret)
  next
    case False
    with rest have "andthen (steps [run_quietly E ''iscsiadm -m session --rescan'', run_quietly E ''nvme connect-all'', reassemble E])
        (await_device E dev 30) v = (Inr True, u)" by (simp only: if_False)
    then obtain x v2 where s: "steps [run_quietly E ''iscsiadm -m session --rescan'', run_quietly E ''nvme connect-all'', reassemble E] v = (Inr x, v2)"
      and last: "await_device E dev 30 v2 = (Inr True, u)"
      by (rule andthen_eq_InrE)
    have "keeps (prefix p) (steps [run_quietly E ''iscsiadm -m session --rescan'', run_quietly E ''nvme connect-all'', reassemble E])" for p
      by (intro keeps_intro)
    then have "prefix v v2" using s by (rule grew)
    moreover have "prefix t v" using grew [OF host_grow(2) v] .
    ultimately show ?thesis using awaited [OF last] prefix_order.order_trans by blast
  qed
qed

lemma tapdisk_was_listed:
  assumes "tap_create E dev t = (Inr (Some m), u)"
  shows "\<exists>rc out pid. last u = (Run [''tap-ctl'', ''list''], Ran rc out) \<and> u \<noteq> [] \<and> parse_tap_list dev out = (pid, Some m) \<and> prefix t u"
proof -
  have listed: "\<exists>rc out. last w = (Run [''tap-ctl'', ''list''], Ran rc out) \<and> w \<noteq> [] \<and> parse_tap_list dev out = (pid, Some m) \<and> prefix v w"
    if "tap_info_for E dev v = (Inr (pid, Some m), w)" for pid v w
  proof -
    have "parse_tap_list dev [] = (None, None)" by (simp add: parse_tap_list_def splitlines_def)
    then show ?thesis
      using that
      by (auto simp: tap_info_for_def run_args_def host_do_def out_of_def run_rules Let_def split: host_answer.splits)
  qed
  from assms obtain pid m0 v where v: "tap_info_for E dev t = (Inr (pid, m0), v)"
    and rest: "(if m0 \<noteq> None then ret m0 else andthen (run_args E [''tap-ctl'', ''create'', ''-a'', ''aio:'' @ dev])
       (bnd (tap_info_for E dev) (\<lambda>(_, minor). ret minor))) v = (Inr (Some m), u)"
    by (auto simp: tap_create_def elim!: bnd_eq_InrE)
  have tv: "prefix t v" using grew [OF calls_grow(6) v] .
  show ?thesis
  proof (cases m0)
    case (Some k)
    with rest v have "tap_info_for E dev t = (Inr (pid, Some m), u)" by (simp add: run_ret)
    then show ?thesis using listed by blast
  next
    case None
    with rest obtain x v2 pid2 where c: "run_args E [''tap-ctl'', ''create'', ''-a'', ''aio:'' @ dev] v = (Inr x, v2)"
      and l: "tap_info_for E dev v2 = (Inr (pid2, Some m), u)"
      by (auto simp: run_ret elim!: andthen_eq_InrE bnd_eq_InrE)
    have "prefix v v2" using grew [OF calls_grow(1) c] .
    then show ?thesis using listed [OF l] tv prefix_order.order_trans by blast
  qed
qed

text \<open>The link is made last; a failure to make it leaves the device itself.\<close>

lemma backend_linked:
  assumes "backend_link E dev tapdev t = (Inr params, u)"
  shows "prefix t u \<and> (params = tapdev \<or>
    (params = path_join BACKEND_DIR (base_name dev) \<and> (\<exists>a. u \<noteq> [] \<and> last u = (Symlink tapdev params, a) \<and> (\<forall>e. a \<noteq> Failed e))))"
proof (rule conjI)
  let ?l = "path_join BACKEND_DIR (base_name dev)"
  have "keeps (prefix p) (backend_link E dev tapdev)" for p
    unfolding backend_link_def try_os_def Let_def by (intro keeps_intro host_grow)
  then show "prefix t u" using assms by (rule grew)
  have link: "\<exists>a. w \<noteq> [] \<and> last w = (Symlink tapdev ?l, a) \<and> (\<forall>e. a \<noteq> Failed e)"
    if "do_file E (Symlink tapdev ?l) v = (Inr x, w)" for v x w
    using that by (auto simp: do_file_def host_do_def run_rules Let_def split: host_answer.splits)
  have inner: "params' = ?l \<and> (\<exists>a. w \<noteq> [] \<and> last w = (Symlink tapdev ?l, a) \<and> (\<forall>e. a \<noteq> Failed e))"
    if "bnd (ask E (IsDir BACKEND_DIR)) (\<lambda>there.
         andthen (provided (\<not> there) (do_file E (MakeDirs BACKEND_DIR)))
         (bnd (ask E (IsLink ?l)) (\<lambda>linked.
         bnd (if linked then ret True else ask E (Exists ?l)) (\<lambda>old.
         andthen (provided old (do_file E (Remove ?l)))
         (andthen (do_file E (Symlink tapdev ?l)) (ret ?l)))))) v = (Inr params', w)" for params' v w
    using that link by (auto simp: run_ret elim!: bnd_eq_InrE andthen_eq_InrE)
  show "params = tapdev \<or> (params = ?l \<and> (\<exists>a. u \<noteq> [] \<and> last u = (Symlink tapdev params, a) \<and> (\<forall>e. a \<noteq> Failed e)))"
    using assms inner
    by (auto simp: backend_link_def try_os_def tryc_def Let_def run_ret run_raise split: prod.splits sum.splits if_splits)
qed

lemma attach_steps:
  assumes "dp_attach E uri t0 = (Inr b, t)"
  shows "\<exists>u v m params. ensure_device E (device_of uri) t0 = (Inr True, u) \<and>
    tap_create E (device_of uri) u = (Inr (Some m), v) \<and>
    backend_link E (device_of uri) (BLKTAP_BASE @ ''/tapdev'' @ m) v = (Inr params, t) \<and>
    b = \<lparr>bk_params = params, bk_backend_type = ''vbd3'', bk_path = BLKTAP_BASE @ ''/tapdev'' @ m\<rparr>"
  using assms unfolding dp_attach_def Let_def
  by (elim bnd_eq_InrE) (auto simp: run_raise run_ret elim!: bnd_eq_InrE split: if_splits option.splits)

text \<open>C20. When \<^verbatim>\<open>attach\<close> returns, the device was there, the block device it names is that of a tapdisk
  that the host's last list shows to serve it, and the XenDisk goes to the same block device, directly or
  through a link that was made last.\<close>

theorem attached_device_is_served:
  assumes "dp_attach E uri [] = (Inr b, t)"
  shows "(Exists (device_of uri), Flag True) \<in> set t \<and>
    (\<exists>rc out line m. (Run [''tap-ctl'', ''list''], Ran rc out) \<in> set t \<and> line \<in> set (splitlines out) \<and>
       serves (device_of uri) line \<and> last_value ''minor='' line = Some m \<and>
       bk_path b = BLKTAP_BASE @ ''/tapdev'' @ m) \<and>
    (bk_params b = bk_path b \<or> (\<exists>a. last t = (Symlink (bk_path b) (bk_params b), a) \<and> (\<forall>e. a \<noteq> Failed e)))"
proof -
  let ?d = "device_of uri"
  obtain u v m params where u: "ensure_device E ?d [] = (Inr True, u)" and v: "tap_create E ?d u = (Inr (Some m), v)"
    and l: "backend_link E ?d (BLKTAP_BASE @ ''/tapdev'' @ m) v = (Inr params, t)"
    and b: "bk_path b = BLKTAP_BASE @ ''/tapdev'' @ m" "bk_params b = params"
    using attach_steps [OF assms] by auto
  note link = backend_linked [OF l]
  obtain rc out pid where o: "last v = (Run [''tap-ctl'', ''list''], Ran rc out)" "v \<noteq> []"
    "parse_tap_list ?d out = (pid, Some m)" "prefix u v"
    using tapdisk_was_listed [OF v] by blast
  then have "(Run [''tap-ctl'', ''list''], Ran rc out) \<in> set v" using last_in_set [of v] by simp
  moreover have "set v \<subseteq> set t" and "set u \<subseteq> set v" using link o(4) by (auto simp: prefix_def)
  ultimately show ?thesis
    using device_was_seen [of E ?d "[]" u] u parse_tap_list_SomeD [OF o(3)] b link by auto
qed

text \<open>A host on which the device is there and served by the tapdisk with minor 7.\<close>

definition toy_host :: host_env where
  "toy_host t c = (case c of Exists p \<Rightarrow> Flag True | IsDir p \<Rightarrow> Flag True | IsLink p \<Rightarrow> Flag False
     | Run args \<Rightarrow> Ran 0 ''pid=4 minor=7 state=0 args=aio:/dev/mapper/3624a9370ab'' | _ \<Rightarrow> Done)"

definition toy_uri :: string where
  "toy_uri = ''purefa:///dev/mapper/3624a9370ab''"

lemma toy_attached:
  "dp_attach toy_host toy_uri [] =
     (Inr \<lparr>bk_params = ''/dev/sm/backend/purefa/3624a9370ab'', bk_backend_type = ''vbd3'', bk_path = ''/dev/xen/blktap-2/tapdev7''\<rparr>,
      [(Exists ''/dev/mapper/3624a9370ab'', Flag True),
       (Run [''tap-ctl'', ''list''], Ran 0 ''pid=4 minor=7 state=0 args=aio:/dev/mapper/3624a9370ab''),
       (IsDir ''/dev/sm/backend/purefa'', Flag True),
       (IsLink ''/dev/sm/backend/purefa/3624a9370ab'', Flag False),
       (Exists ''/dev/sm/backend/purefa/3624a9370ab'', Flag True),
       (Remove ''/dev/sm/backend/purefa/3624a9370ab'', Done),
       (Symlink ''/dev/xen/blktap-2/tapdev7'' ''/dev/sm/backend/purefa/3624a9370ab'', Done)])"
proof -
  have d: "device_of toy_uri = ''/dev/mapper/3624a9370ab''"
    "parse_tap_list ''/dev/mapper/3624a9370ab'' ''pid=4 minor=7 state=0 args=aio:/dev/mapper/3624a9370ab'' = (Some ''4'', Some ''7'')"
    "path_join BACKEND_DIR (base_name ''/dev/mapper/3624a9370ab'') = ''/dev/sm/backend/purefa/3624a9370ab''"
    by code_simp+
  show ?thesis
    by (simp add: dp_attach_def d ensure_device_def tap_create_def tap_info_for_def run_args_def backend_link_def
        try_os_def do_file_def ask_def host_do_def toy_host_def flag_of_def out_of_def run_rules Let_def
        BLKTAP_BASE_def) (simp add: BACKEND_DIR_def)
qed

lemma attached_device_is_served_witness:
  "\<exists>b t. dp_attach toy_host toy_uri [] = (Inr b, t) \<and> bk_path b = ''/dev/xen/blktap-2/tapdev7'' \<and>
     (Exists (device_of toy_uri), Flag True) \<in> set t \<and>
     (\<exists>a. last t = (Symlink (bk_path b) (bk_params b), a))"
  using attached_device_is_served [OF toy_attached] toy_attached by auto

end
