(* ===== verification/Spec2Isabelle.thy ===== *)
theory Spec2Isabelle
  imports Migration_Results Pure_Client Connector_Base Cinder_Config Group_Refinement Scheduler Job_Manager Migration_Api Connector_Actions
    Proxmox_Safety Proxmox_Results Smapi_Attach
begin

text \<open>
  A model of the Python back end of the pure-hypervisor-integration-framework
  (\<^verbatim>\<open>src/backend/phif\<close>), which connects hypervisors to FlashArrays and moves virtual machines between
  them. Paths below are under that directory.

  \<^bold>\<open>The program.\<close> A hypervisor is a row of the database. \<^verbatim>\<open>api/service.py\<close> builds the connector of a row
  (\<^verbatim>\<open>connectors/base.py\<close> and a package per platform) with the client of its array
  (\<^verbatim>\<open>flasharray/client.py\<close>). An operation of a connector runs as a job (\<^verbatim>\<open>jobs/manager.py\<close>) whose lines
  are streamed to listeners (\<^verbatim>\<open>api/jobs.py\<close>). A migration (\<^verbatim>\<open>migrate/service.py\<close>) is a job that captures a
  VM at the source (\<^verbatim>\<open>migrate/spec.py\<close>), makes a VM with new disks at the destination, copies the volumes
  on the arrays and cuts over, with a stack of compensations (\<^verbatim>\<open>migrate/steps.py\<close>) for its failures.
  Migrations are submitted one by one or in groups (\<^verbatim>\<open>api/migrations.py\<close>), which a scheduler launches
  (\<^verbatim>\<open>jobs/scheduler.py\<close>) and a runner works off with bounded concurrency.

  \<^bold>\<open>Shared vocabulary.\<close>
  \<^item> \<open>Prelude\<close>: Python's strings, dicts and truth values, JSON values, parsing and printing helpers.
  \<^item> \<open>Actions\<close>: an async method as a function from a state to an exception or a value and the state it
    leaves; \<open>triple\<close> and \<open>keeps\<close> for what actions establish and preserve, \<open>never_raises\<close>, and rules
    that run an action on a concrete state.
  \<^item> \<open>Traces\<close>: orders of events. \<open>Py_Numbers\<close>: \<^verbatim>\<open>int()\<close> and \<^verbatim>\<open>float()\<close> on strings, rounding to a double,
    \<^verbatim>\<open>_to_bytes\<close>. \<open>Sha1\<close>: SHA-1 on 32-bit words. \<open>Op_Result\<close>: \<^verbatim>\<open>OpResult\<close>, capabilities, protocols.

  \<^bold>\<open>Migration.\<close>
  \<^item> \<open>Vm_Spec\<close> (\<^verbatim>\<open>migrate/spec.py\<close>): the dataclasses as records, WWIDs and EUIs from serials, the
    dictionaries they are stored as. Lemmas: the round trip, and what derived identifiers look like.
  \<^item> \<open>Rollback\<close> (\<^verbatim>\<open>migrate/steps.py\<close>): the stack of compensations; a compensation is a value that its owner
    interprets. The locale \<open>rollback_host\<close> is the contract with the owner, \<open>Migration\<close> interprets it.
  \<^item> \<open>Migration\<close> (\<^verbatim>\<open>migrate/service.py\<close>, \<^verbatim>\<open>MigrationService\<close>): one definition per method, \<open>run_service\<close> for
    \<^verbatim>\<open>run\<close>. Connectors and arrays are an environment that answers each call as an arbitrary function of
    the call and of all events before it; the state records every call with its outcome in \<open>trace\<close>.
    \<open>Migration_Demo\<close> is a concrete environment for the witnesses. \<open>Migration_Traces\<close> describes which calls
    each step can make, \<open>Migration_Safety\<close> and \<open>Migration_Results\<close> prove what a whole run does: what
    happens to the source in every outcome, what is undone, what a success has copied.
  \<^item> \<open>Group_Runner\<close> (\<^verbatim>\<open>run_migration_group\<close> and the handlers that act on a group): a step function over
    moves; a move is what one coroutine does between two awaits, a request, or a job's report.
    \<open>Group_Safety\<close>: the concurrency bound, termination, absence of deadlock, what stops launches, what
    a finished group looks like. \<open>Group_Refinement\<close>: the runner implements an abstract pool of members.
  \<^item> \<open>Scheduler\<close> (\<^verbatim>\<open>jobs/scheduler.py\<close>): \<^verbatim>\<open>kick\<close>, the cycle, and the event loop's done callbacks as a step
    relation. \<open>Migration_Api\<close> (\<^verbatim>\<open>api/migrations.py\<close>): destinations, precheck, submission of a migration and
    of a group; its last theorem goes from a submission through the scheduler to the runner.

  \<^bold>\<open>Jobs and connectors.\<close>
  \<^item> \<open>Job_Manager\<close> (\<^verbatim>\<open>jobs/manager.py\<close>, \<^verbatim>\<open>jobs/reconcile.py\<close>, the stream of \<^verbatim>\<open>api/jobs.py\<close>): jobs and listeners as
    interleaved moves. Lemmas: a stream is the log, the bound on jobs, what a restart leaves.
  \<^item> \<open>Api_Service\<close> (\<^verbatim>\<open>api/service.py\<close>): building a connector, the job of an operation, the wizard.
  \<^item> \<open>Connector_Base\<close> (\<^verbatim>\<open>connectors/base.py\<close>): schemas, descriptor, dispatch and the inherited operations;
    the locale \<open>membership_array\<close> is what pruning needs of an array. \<open>Ip_Network\<close> is the part of Python's
    \<^verbatim>\<open>ipaddress\<close> the code uses, on 32 and 128-bit words; \<open>Storage_Nics\<close> the choice of storage interfaces and
    the readiness of hosts; \<open>Host_Commands\<close> the shell commands of \<^verbatim>\<open>connectors/iscsi_net.py\<close> and
    \<^verbatim>\<open>connectors/multipath.py\<close> with \<^verbatim>\<open>shlex.quote\<close>; \<open>Cinder_Config\<close> the stanza of \<^verbatim>\<open>connectors/openstack/pure.py\<close>.

  \<^bold>\<open>Connectors.\<close>
  \<^item> \<open>Connector_Forms\<close>, \<open>Forms_Proxmox\<close>, \<open>Forms_Vsphere\<close>, \<open>Forms_Hpevme\<close>, \<open>Forms_Xcpng\<close>, \<open>Forms_Openshift\<close>,
    \<open>Forms_Openstack\<close>, \<open>Forms_Nutanix\<close>, \<open>Forms_Example\<close>: what the eight connectors declare (class attributes,
    connection form, actions, wizard, routes of \<^verbatim>\<open>dispatch\<close>, signatures of the methods), with Python's binding
    of parameters to a signature. \<open>Connector_Actions\<close>: the registry (\<^verbatim>\<open>connectors/registry.py\<close>); every
    offered action reaches a method that takes the fields of its form, and the declarations are consistent.
  \<^item> \<open>Job_Runner\<close> (\<^verbatim>\<open>jobs/runner.py\<close>): commands over SSH and locally, HTTP, and the discovery that reads what
    commands print; what is outside answers through the channels of the record \<open>runner\<close>. \<open>Json_Text\<close> is
    \<^verbatim>\<open>json.loads\<close> of the standard library.
  \<^item> \<open>Proxmox_Base\<close>, \<open>Proxmox_Vm\<close>, \<open>Proxmox_Nodes\<close>, \<open>Proxmox_Reconcile\<close>, \<open>Proxmox_Dispatch\<close>: the whole Proxmox
    connector (\<^verbatim>\<open>connectors/proxmox/connector.py\<close>), one definition per method. Nodes and array are an environment
    that answers each call as an arbitrary function of the call and of all events before it; the state
    keeps the trace. The search for a free copy target has fuel; more than the number of taken names is
    enough (\<open>copy_target_is_first_free\<close>).
  \<^item> \<open>Proxmox_Calls\<close>: which calls the operations make, in the locale \<open>call_rule\<close> (a rule on calls that allows
    commands and reads) and its extension \<open>dry_run_rule\<close>; \<open>Proxmox_Safety\<close> interprets them for the dry run
    and for the VM operations of a migration. \<open>Proxmox_Run\<close> has the rules that run an operation and a small
    cluster for the witnesses; \<open>Proxmox_Results\<close> proves what the operations achieve.
  \<^item> \<open>Smapi_Client\<close>, \<open>Smapi_Volumes\<close>, \<open>Smapi_Datapath\<close>: the storage plugin for XCP-ng
    (\<^verbatim>\<open>connectors/xcpng/files/smapiv3\<close>: \<^verbatim>\<open>purefa_fa.py\<close>, \<^verbatim>\<open>sr.py\<close>, \<^verbatim>\<open>volume.py\<close>, \<^verbatim>\<open>datapath.py\<close>), which runs on the
    hosts and speaks REST to the array itself; array, commands and file system answer as arbitrary functions.
    \<open>Smapi_Calls\<close> has the locale \<open>trace_rule\<close> (an invariant of the trace that sessions and reads keep) with
    its two interpretations; \<open>Smapi_Results\<close> shows what an operation may change on the array, how often a
    request is sent, and that keys lead back to volumes; \<open>Smapi_Attach\<close> follows a VDI to the guest's device.

  \<^bold>\<open>The array.\<close>
  \<^item> \<open>Host_Group\<close> (\<^verbatim>\<open>_register_host_group\<close> of \<^verbatim>\<open>flasharray/client.py\<close>): the plan of a registration over any client;
    the locale \<open>host_array\<close> is the contract of the client. \<open>Mock_Array\<close>: the whole mock client, which
    interprets it. \<open>Pure_Client\<close>: the whole real client over the SDK, a parameter that answers each
    request as an arbitrary function of it and of the requests before.

  \<^bold>\<open>Findings\<close> are theorems of their own where the model shows them: \<open>empty_backends_swallow_next_line\<close>,
  \<open>rerun_of_a_live_group_is_lost\<close>, \<open>double_launch_is_possible\<close>, \<open>late_listener_waits_for_ever\<close>,
  \<open>running_job_has_nothing_to_replay\<close>, \<open>failed_lookup_is_cached_for_the_array\<close>,
  \<open>raising_deployment_is_not_an_error\<close>, \<open>reported_group_may_not_reach_the_next_step\<close>,
  \<open>delete_of_missing_host_raises\<close>, \<open>dry_run_reconcile_deletes_hosts\<close>, \<open>e1000e_loses_its_address\<close>,
  \<open>managed_slots_collide\<close>, \<open>boot_order_names_no_created_disk\<close>.

  \<^bold>\<open>Bounds and fuel.\<close> Loops of the code that count attempts are recursions on the attempts left, as many
  as the code allows. A member of a group polls at most 1441 times (every five seconds for two hours),
  which with its other moves is the bound 1447 of \<open>runner_moves_are_bounded\<close>. The search for a free VM name
  is bounded by the number of names in use, and \<open>unique_name_is_free\<close> shows that this is enough. Words
  are used where the code's integers have a width (SHA-1, addresses); Python's integers are \<open>int\<close>.

  \<^bold>\<open>Not modelled.\<close> The operations of the platforms other than Proxmox (\<^verbatim>\<open>connectors/vsphere\<close>, \<^verbatim>\<open>hpevme\<close>, \<^verbatim>\<open>xcpng\<close>,
  \<^verbatim>\<open>openshift\<close>, \<^verbatim>\<open>openstack\<close> beside the stanza, \<^verbatim>\<open>nutanix\<close>) are sequences of shell commands and of requests to
  REST APIs whose effects are outside this repository; what the rest of the program relies on of them is
  the environment of \<open>Migration\<close> and \<open>Api_Service\<close>, and only what they declare is
  modelled, and for XCP-ng the storage plugin it installs. The vSphere plugin's registration, the endpoints
  that read or write one row, the manifests of OpenShift and the start of the process are left out. The vault is
  cryptography of a library. Time stamps, log levels, table definitions beside the columns used, and
  handlers that only read a row and print it are left out, and so is the front end. Strings are sequences
  of bytes with ASCII case and white space.
\<close>

end
